(* ===== verification/Prelude.thy ===== *)
theory Prelude
  imports Main "HOL-Library.List_Lexorder" "HOL-Library.Char_ord"
    "HOL-Library.Product_Lexorder" "HOL-Library.AList"
begin

section \<open>Prelude: exceptions, state passing, text and time\<close>

text \<open>
  What the components share.  A service method of the webapp reads and writes the state of
  its service and may raise; writes made before the exception stay.  It is modelled by a
  function from the state to a result and the new state (\<open>('s, 'a) op\<close>), so the
  state survives an exception.  The theory also holds the parts of the Python standard
  library the code uses on ASCII text (strip, split, join, lower, decimal printing, ISO 8601
  printing) and directories of records as association lists.
\<close>

named_theorems op_defs \<open>the combinators of state passing operations\<close>
named_theorems wp_simps \<open>weakest preconditions of the combinators\<close>

subsection \<open>Exceptions\<close>

text \<open>
  The exception classes of the modelled services.  The two arguments are the HTTP status
  code and the \<^verbatim>\<open>code\<close> attribute; the \<^verbatim>\<open>detail\<close> texts are left out.  The second argument
  of \<^verbatim>\<open>GmailTransportError\<close> and \<^verbatim>\<open>GranolaRelayError\<close> is \<^verbatim>\<open>retryable\<close>.
  \<^verbatim>\<open>ValidationError\<close> is pydantic's (a subclass of \<^verbatim>\<open>ValueError\<close>),
  \<^verbatim>\<open>ExecutorFailure\<close> any other exception of the analysis runtime.
\<close>

datatype exn =
    EvidenceLedgerError int string
  | CommandCenterOperationsError int string
  | OpportunityStateError int string
  | OpportunityStateCreateError int string
  | OpportunityStateUpdateError int string
  | TranscriptionError int string
  | ManagedJobError string
  | GmailTransportError string bool
  | GmailImportError int string
  | GmailIntakeError int string
  | GranolaXmlIssue string
  | GranolaRelayError string bool
  | GranolaImportError int string
  | GranolaRetrievalError int string
  | AccountError int
  | CanonicalStateExecutionError string
  | ExecutorFailure string
  | ValidationError
  | ValueError

fun exn_code :: "exn \<Rightarrow> string" where
  "exn_code (EvidenceLedgerError _ c) = c"
| "exn_code (CommandCenterOperationsError _ c) = c"
| "exn_code (OpportunityStateError _ c) = c"
| "exn_code (OpportunityStateCreateError _ c) = c"
| "exn_code (OpportunityStateUpdateError _ c) = c"
| "exn_code (TranscriptionError _ c) = c"
| "exn_code (ManagedJobError c) = c"
| "exn_code (GmailTransportError c _) = c"
| "exn_code (GmailImportError _ c) = c"
| "exn_code (GmailIntakeError _ c) = c"
| "exn_code (GranolaXmlIssue c) = c"
| "exn_code (GranolaRelayError c _) = c"
| "exn_code (GranolaImportError _ c) = c"
| "exn_code (GranolaRetrievalError _ c) = c"
| "exn_code (CanonicalStateExecutionError c) = c"
| "exn_code _ = ''''"

subsection \<open>Operations: state passing with exceptions\<close>

type_synonym ('s, 'a) op = "'s \<Rightarrow> (exn + 'a) \<times> 's"

definition ret :: "'a \<Rightarrow> ('s, 'a) op" where
  [op_defs]: "ret x = (\<lambda>s. (Inr x, s))"

definition raise :: "exn \<Rightarrow> ('s, 'a) op" where
  [op_defs]: "raise e = (\<lambda>s. (Inl e, s))"

definition bnd :: "('s, 'a) op \<Rightarrow> ('a \<Rightarrow> ('s, 'b) op) \<Rightarrow> ('s, 'b) op" where
  [op_defs]: "bnd m f = (\<lambda>s. case m s of (Inl e, s') \<Rightarrow> (Inl e, s') | (Inr x, s') \<Rightarrow> f x s')"

definition read_st :: "('s \<Rightarrow> 'a) \<Rightarrow> ('s, 'a) op" where
  [op_defs]: "read_st f = (\<lambda>s. (Inr (f s), s))"

definition modify_st :: "('s \<Rightarrow> 's) \<Rightarrow> ('s, unit) op" where
  [op_defs]: "modify_st f = (\<lambda>s. (Inr (), f s))"

definition check :: "bool \<Rightarrow> exn \<Rightarrow> ('s, unit) op" where
  [op_defs]: "check b e = (\<lambda>s. (if b then Inr () else Inl e, s))"

definition of_sum :: "exn + 'a \<Rightarrow> ('s, 'a) op" where
  [op_defs]: "of_sum r = (\<lambda>s. (r, s))"

text \<open>\<^verbatim>\<open>try: m except e: h(e)\<close>\<close>

definition catch :: "('s, 'a) op \<Rightarrow> (exn \<Rightarrow> ('s, 'a) op) \<Rightarrow> ('s, 'a) op" where
  [op_defs]: "catch m h = (\<lambda>s. case m s of (Inl e, s') \<Rightarrow> h e s' | (Inr x, s') \<Rightarrow> (Inr x, s'))"

text \<open>A \<^verbatim>\<open>for\<close> loop that threads an accumulator through the state.\<close>

fun fold_op :: "('x \<Rightarrow> 'a \<Rightarrow> ('s, 'a) op) \<Rightarrow> 'x list \<Rightarrow> 'a \<Rightarrow> ('s, 'a) op" where
  "fold_op f [] a = ret a"
| "fold_op f (x # xs) a = bnd (f x a) (fold_op f xs)"

fun for_each :: "('x \<Rightarrow> ('s, unit) op) \<Rightarrow> 'x list \<Rightarrow> ('s, unit) op" where
  "for_each f [] = ret ()"
| "for_each f (x # xs) = bnd (f x) (\<lambda>_. for_each f xs)"

text \<open>Read every element of a list, stopping at the first exception.\<close>

fun map_op :: "('x \<Rightarrow> ('s, 'a) op) \<Rightarrow> 'x list \<Rightarrow> ('s, 'a list) op" where
  "map_op f [] = ret []"
| "map_op f (x # xs) = bnd (f x) (\<lambda>y. bnd (map_op f xs) (\<lambda>ys. ret (y # ys)))"

text \<open>The elements of a list for which a test that may raise holds.\<close>

fun filter_op :: "('x \<Rightarrow> ('s, bool) op) \<Rightarrow> 'x list \<Rightarrow> ('s, 'x list) op" where
  "filter_op p [] = ret []"
| "filter_op p (x # xs) = bnd (p x) (\<lambda>b. bnd (filter_op p xs) (\<lambda>ys. ret (if b then x # ys else ys)))"

text \<open>An operation of a part of the state, seen as one of the whole.\<close>

definition zoom :: "('w \<Rightarrow> 's) \<Rightarrow> ('s \<Rightarrow> 'w \<Rightarrow> 'w) \<Rightarrow> ('s, 'a) op \<Rightarrow> ('w, 'a) op" where
  [op_defs]: "zoom get put m = (\<lambda>w. case m (get w) of (r, s') \<Rightarrow> (r, put s' w))"

lemma bnd_ret [simp]: "bnd (ret x) f = f x"
  by (simp add: op_defs)

lemma bnd_raise [simp]: "bnd (raise e) f = raise e"
  by (simp add: op_defs)

lemma bnd_assoc: "bnd (bnd m f) g = bnd m (\<lambda>x. bnd (f x) g)"
  by (rule ext) (simp add: op_defs split: prod.split sum.split)

lemma bnd_cong_result:
  "m s = (Inr x, s') \<Longrightarrow> bnd m f s = f x s'"
  by (simp add: op_defs)

lemma bnd_error: "m s = (Inl e, s') \<Longrightarrow> bnd m f s = (Inl e, s')"
  by (simp add: op_defs)

text \<open>A successful sequence splits at the intermediate state.\<close>

lemma bnd_InrE:
  assumes "bnd m f s = (Inr y, s'')"
  obtains x s' where "m s = (Inr x, s')" and "f x s' = (Inr y, s'')"
  using assms by (auto simp: bnd_def split: prod.splits sum.splits)

lemma bnd_cases:
  assumes "bnd m f s = (r, s'')"
  obtains (err) e where "m s = (Inl e, s'')" "r = Inl e"
    | (ok) x s' where "m s = (Inr x, s')" "f x s' = (r, s'')"
  using assms by (auto simp: bnd_def split: prod.splits sum.splits)

subsection \<open>Weakest preconditions\<close>

text \<open>
  \<open>wpx m Q E s\<close>: run from \<open>s\<close>, \<open>m\<close> ends in a state with \<open>Q\<close> when it returns and with
  \<open>E\<close> when it raises.  The equations compute it through the combinators.
\<close>

definition wpx :: "('s, 'a) op \<Rightarrow> ('a \<Rightarrow> 's \<Rightarrow> bool) \<Rightarrow> (exn \<Rightarrow> 's \<Rightarrow> bool) \<Rightarrow> 's \<Rightarrow> bool" where
  "wpx m Q E s = (case m s of (Inr x, s') \<Rightarrow> Q x s' | (Inl e, s') \<Rightarrow> E e s')"

lemma wpx_ret [wp_simps]: "wpx (ret x) Q E s = Q x s"
  by (simp add: wpx_def ret_def)

lemma wpx_raise [wp_simps]: "wpx (raise e) Q E s = E e s"
  by (simp add: wpx_def raise_def)

lemma wpx_bnd [wp_simps]: "wpx (bnd m f) Q E s = wpx m (\<lambda>x. wpx (f x) Q E) E s"
  by (simp add: wpx_def bnd_def split: prod.split sum.split)

lemma wpx_read_st [wp_simps]: "wpx (read_st f) Q E s = Q (f s) s"
  by (simp add: wpx_def read_st_def)

lemma wpx_modify_st [wp_simps]: "wpx (modify_st f) Q E s = Q () (f s)"
  by (simp add: wpx_def modify_st_def)

lemma wpx_check [wp_simps]: "wpx (check b e) Q E s = (if b then Q () s else E e s)"
  by (simp add: wpx_def check_def)

lemma wpx_of_sum [wp_simps]: "wpx (of_sum r) Q E s = (case r of Inl e \<Rightarrow> E e s | Inr x \<Rightarrow> Q x s)"
  by (simp add: wpx_def of_sum_def split: sum.split)

lemma wpx_catch [wp_simps]: "wpx (catch m h) Q E s = wpx m Q (\<lambda>e. wpx (h e) Q E) s"
  by (simp add: wpx_def catch_def split: prod.split sum.split)

lemma wpx_if [wp_simps]: "wpx (if b then m else n) Q E s = (if b then wpx m Q E s else wpx n Q E s)"
  by simp

lemma wpx_fold_op_Nil [wp_simps]: "wpx (fold_op f [] a) Q E s = Q a s"
  by (simp add: wp_simps)

lemma wpxD:
  assumes "wpx m Q E s" and "m s = (r, s')"
  shows "case r of Inr x \<Rightarrow> Q x s' | Inl e \<Rightarrow> E e s'"
  using assms by (simp add: wpx_def split: sum.splits)

lemma wpx_mono:
  assumes "wpx m Q E s" and "\<And>x s'. Q x s' \<Longrightarrow> Q' x s'" and "\<And>e s'. E e s' \<Longrightarrow> E' e s'"
  shows "wpx m Q' E' s"
  using assms by (auto simp: wpx_def split: prod.splits sum.splits)

subsection \<open>Relations every operation obeys\<close>

text \<open>
  A relation between states that is reflexive and transitive is kept by a sequence as soon
  as it is kept by its parts, whatever is raised on the way.  Invariants are the special case
  \<open>I s \<longrightarrow> I s'\<close>, frame and append-only properties are preorders.
\<close>

definition obeys :: "('s \<Rightarrow> 's \<Rightarrow> bool) \<Rightarrow> ('s, 'a) op \<Rightarrow> bool" where
  "obeys R m \<longleftrightarrow> (\<forall>s r s'. m s = (r, s') \<longrightarrow> R s s')"

lemma obeysD: "obeys R m \<Longrightarrow> m s = (r, s') \<Longrightarrow> R s s'"
  by (auto simp: obeys_def)

lemma obeysI: "(\<And>s r s'. m s = (r, s') \<Longrightarrow> R s s') \<Longrightarrow> obeys R m"
  by (auto simp: obeys_def)

text \<open>The same for the runs that raise an exception with \<open>P\<close>.\<close>

definition fails_keep :: "(exn \<Rightarrow> bool) \<Rightarrow> ('s \<Rightarrow> 's \<Rightarrow> bool) \<Rightarrow> ('s, 'a) op \<Rightarrow> bool" where
  "fails_keep P R m \<longleftrightarrow> (\<forall>s e s'. m s = (Inl e, s') \<longrightarrow> P e \<longrightarrow> R s s')"

lemma fails_keepD: "fails_keep P R m \<Longrightarrow> m s = (Inl e, s') \<Longrightarrow> P e \<Longrightarrow> R s s'"
  by (auto simp: fails_keep_def)

lemma fails_never: "(\<And>s e s'. m s = (Inl e, s') \<Longrightarrow> \<not> P e) \<Longrightarrow> fails_keep P R m"
  by (auto simp: fails_keep_def)

lemma fails_of_sum_bnd:
  "(\<And>s. R s s) \<Longrightarrow> (\<And>x. r = Inr x \<Longrightarrow> fails_keep P R (f x)) \<Longrightarrow> fails_keep P R (bnd (of_sum r) f)"
  by (cases r) (auto simp: fails_keep_def bnd_def of_sum_def)

locale state_relation =
  fixes R :: "'s \<Rightarrow> 's \<Rightarrow> bool"
  assumes R_refl: "R s s"
    and R_trans: "R s t \<Longrightarrow> R t u \<Longrightarrow> R s u"
begin

lemma obeys_ret: "obeys R (ret x)"
  by (simp add: obeys_def ret_def R_refl)

lemma obeys_raise: "obeys R (raise e)"
  by (simp add: obeys_def raise_def R_refl)

lemma obeys_read: "obeys R (read_st f)"
  by (simp add: obeys_def read_st_def R_refl)

lemma obeys_check: "obeys R (check b e)"
  by (simp add: obeys_def check_def R_refl)

lemma obeys_of_sum: "obeys R (of_sum r)"
  by (simp add: obeys_def of_sum_def R_refl)

lemma obeys_modify: "(\<And>s. R s (f s)) \<Longrightarrow> obeys R (modify_st f)"
  by (simp add: obeys_def modify_st_def)

lemma obeys_bnd:
  assumes "obeys R m" and "\<And>x. obeys R (f x)"
  shows "obeys R (bnd m f)"
proof (rule obeysI)
  fix s r s' assume "bnd m f s = (r, s')"
  then show "R s s'"
    by (cases rule: bnd_cases) (use assms in \<open>auto dest: obeysD intro: R_trans\<close>)
qed

lemma obeys_catch:
  assumes "obeys R m" and "\<And>e. obeys R (h e)"
  shows "obeys R (catch m h)"
  using assms R_trans
  by (force simp: obeys_def catch_def split: prod.splits sum.splits)

lemma obeys_if:
  "(b \<Longrightarrow> obeys R m) \<Longrightarrow> (\<not> b \<Longrightarrow> obeys R n) \<Longrightarrow> obeys R (if b then m else n)"
  by simp

lemma obeys_fold_op:
  "(\<And>x a. x \<in> set xs \<Longrightarrow> obeys R (f x a)) \<Longrightarrow> obeys R (fold_op f xs a)"
  by (induction xs arbitrary: a) (auto intro: obeys_bnd obeys_ret)

lemma obeys_for_each:
  "(\<And>x. x \<in> set xs \<Longrightarrow> obeys R (f x)) \<Longrightarrow> obeys R (for_each f xs)"
  by (induction xs) (auto intro: obeys_bnd obeys_ret)

lemma obeys_map_op:
  "(\<And>x. x \<in> set xs \<Longrightarrow> obeys R (f x)) \<Longrightarrow> obeys R (map_op f xs)"
  by (induction xs) (auto intro: obeys_bnd obeys_ret)

lemma obeys_filter_op:
  "(\<And>x. x \<in> set xs \<Longrightarrow> obeys R (p x)) \<Longrightarrow> obeys R (filter_op p xs)"
  by (induction xs) (auto intro: obeys_bnd obeys_ret)

lemma obeys_zoom:
  "(\<And>s r s'. m (get s) = (r, s') \<Longrightarrow> R s (put s' s)) \<Longrightarrow> obeys R (zoom get put m)"
  by (auto simp: obeys_def zoom_def split: prod.splits)

lemmas obeys_basic =
  obeys_ret obeys_raise obeys_read obeys_check obeys_of_sum

text \<open>A relation that holds when the operation raises: the writes come last.\<close>

lemma fails_obeys: "obeys R m \<Longrightarrow> fails_keep P R m"
  by (auto simp: obeys_def fails_keep_def)

lemma fails_bnd:
  assumes "obeys R m" and "\<And>x. fails_keep P R (f x)"
  shows "fails_keep P R (bnd m f)"
  unfolding fails_keep_def
proof (intro allI impI)
  fix s e s' assume "bnd m f s = (Inl e, s')" and "P e"
  then show "R s s'"
    by (cases rule: bnd_cases) (use assms in \<open>auto dest: obeysD fails_keepD intro: R_trans\<close>)
qed

lemma fails_catch:
  "fails_keep (\<lambda>_. True) R m \<Longrightarrow> (\<And>e. obeys R (h e)) \<Longrightarrow> fails_keep P R (catch m h)"
  using R_trans by (force simp: obeys_def fails_keep_def catch_def split: prod.splits sum.splits)

lemma fails_if:
  "(b \<Longrightarrow> fails_keep P R m) \<Longrightarrow> (\<not> b \<Longrightarrow> fails_keep P R n) \<Longrightarrow> fails_keep P R (if b then m else n)"
  by simp

end

subsection \<open>Transition systems\<close>

text \<open>
  A component is a step relation on its records.  Two contracts recur: an invariant that every
  step keeps, and a log (revisions, decisions, transitions, versions) that every step only
  extends.  Both hold of whole runs.
\<close>

locale invariant_system =
  fixes step :: "'s \<Rightarrow> 's \<Rightarrow> bool" and inv :: "'s \<Rightarrow> bool"
  assumes inv_step: "step s t \<Longrightarrow> inv s \<Longrightarrow> inv t"
begin

lemma inv_run:
  assumes "step\<^sup>*\<^sup>* s t" and "inv s"
  shows "inv t"
  using assms by (induction rule: rtranclp_induct) (auto intro: inv_step)

end

locale log_system =
  fixes step :: "'s \<Rightarrow> 's \<Rightarrow> bool" and log :: "'s \<Rightarrow> 'e list"
  assumes log_step: "step s t \<Longrightarrow> \<exists>es. log t = log s @ es"
begin

lemma log_run:
  assumes "step\<^sup>*\<^sup>* s t"
  shows "\<exists>es. log t = log s @ es"
  using assms
proof (induction rule: rtranclp_induct)
  case base
  show ?case by simp
next
  case (step t u)
  from log_step [OF step.hyps(2)] step.IH show ?case by auto
qed

lemma log_entry_stays:
  assumes "step\<^sup>*\<^sup>* s t" and "i < length (log s)"
  shows "i < length (log t) \<and> log t ! i = log s ! i"
  using log_run [OF assms(1)] assms(2) by (auto simp: nth_append)

end

subsection \<open>ASCII text\<close>

abbreviation ord_c :: "char \<Rightarrow> nat" where "ord_c c \<equiv> of_char c"

definition is_space :: "char \<Rightarrow> bool" where
  "is_space c \<longleftrightarrow> (9 \<le> ord_c c \<and> ord_c c \<le> 13) \<or> (28 \<le> ord_c c \<and> ord_c c \<le> 32)"

definition is_digit :: "char \<Rightarrow> bool" where
  "is_digit c \<longleftrightarrow> 48 \<le> ord_c c \<and> ord_c c \<le> 57"

definition is_upper :: "char \<Rightarrow> bool" where
  "is_upper c \<longleftrightarrow> 65 \<le> ord_c c \<and> ord_c c \<le> 90"

definition is_lower :: "char \<Rightarrow> bool" where
  "is_lower c \<longleftrightarrow> 97 \<le> ord_c c \<and> ord_c c \<le> 122"

definition is_word :: "char \<Rightarrow> bool" where
  "is_word c \<longleftrightarrow> is_digit c \<or> is_upper c \<or> is_lower c \<or> c = CHR ''_''"

definition is_hex :: "char \<Rightarrow> bool" where
  "is_hex c \<longleftrightarrow> is_digit c \<or> (97 \<le> ord_c c \<and> ord_c c \<le> 102)"

definition lower_char :: "char \<Rightarrow> char" where
  "lower_char c = (if is_upper c then char_of (ord_c c + 32) else c)"

definition strip :: "string \<Rightarrow> string" where
  "strip s = rev (dropWhile is_space (rev (dropWhile is_space s)))"

text \<open>\<^verbatim>\<open>s.split()\<close>: the maximal runs of non-space characters.\<close>

fun split_acc :: "string \<Rightarrow> string \<Rightarrow> string list" where
  "split_acc cur [] = (if cur = [] then [] else [rev cur])"
| "split_acc cur (c # cs) =
     (if is_space c then (if cur = [] then split_acc [] cs else rev cur # split_acc [] cs)
      else split_acc (c # cur) cs)"

definition split_ws :: "string \<Rightarrow> string list" where
  "split_ws s = split_acc [] s"

fun join :: "string \<Rightarrow> string list \<Rightarrow> string" where
  "join sep [] = []"
| "join sep [x] = x"
| "join sep (x # xs) = x @ sep @ join sep xs"

definition startswith :: "string \<Rightarrow> string \<Rightarrow> bool" where
  "startswith s p \<longleftrightarrow> take (length p) s = p"

definition hexn :: "nat \<Rightarrow> string \<Rightarrow> bool" where
  "hexn n s \<longleftrightarrow> length s = n \<and> list_all is_hex s"

definition in_len :: "nat \<Rightarrow> nat \<Rightarrow> string \<Rightarrow> bool" where
  "in_len lo hi s \<longleftrightarrow> lo \<le> length s \<and> length s \<le> hi"

definition opt_all :: "('a \<Rightarrow> bool) \<Rightarrow> 'a option \<Rightarrow> bool" where
  "opt_all p x = (case x of None \<Rightarrow> True | Some v \<Rightarrow> p v)"

lemma opt_all_simps [simp]: "opt_all p None" "opt_all p (Some v) = p v"
  by (simp_all add: opt_all_def)

lemma startswith_append [simp]: "startswith (p @ s) p"
  by (simp add: startswith_def)

lemma startswith_simps [simp]:
  "startswith s []" "startswith (c # s) (d # p) \<longleftrightarrow> c = d \<and> startswith s p" "\<not> startswith [] (d # p)"
  by (auto simp: startswith_def)

lemma startswith_iff: "startswith s p \<longleftrightarrow> (\<exists>t. s = p @ t)"
  unfolding startswith_def by (metis append_eq_conv_conj append_take_drop_id)

lemma dropWhile_id: "(xs = [] \<or> \<not> p (hd xs)) \<Longrightarrow> dropWhile p xs = xs"
  by (cases xs) auto

lemma strip_strip [simp]: "strip (strip s) = strip s"
proof -
  let ?d = "dropWhile is_space"
  let ?u = "?d s"
  have start: "?u = [] \<or> \<not> is_space (hd ?u)" by (metis hd_dropWhile)
  have end_: "?d (rev ?u) = [] \<or> \<not> is_space (hd (?d (rev ?u)))" by (metis hd_dropWhile)
  have "strip s = [] \<or> hd (strip s) = hd ?u"
  proof -
    obtain t where "rev ?u = t @ ?d (rev ?u)" by (metis takeWhile_dropWhile_id)
    then have "?u = strip s @ rev t" unfolding strip_def by (metis rev_append rev_rev_ident)
    then show ?thesis by (metis hd_append2)
  qed
  with start have "?d (strip s) = strip s"
    by (metis dropWhile_id strip_def dropWhile.simps(1) rev.simps(1))
  moreover have "?d (rev (strip s)) = rev (strip s)"
    using end_ unfolding strip_def by (metis dropWhile_id rev_rev_ident)
  ultimately show ?thesis by (metis rev_rev_ident strip_def)
qed

subsection \<open>Decimal numbers and timestamps\<close>

definition digit_char :: "nat \<Rightarrow> char" where
  "digit_char d = char_of (48 + d)"

fun dec_nat :: "nat \<Rightarrow> string" where
  "dec_nat n = (if n < 10 then [digit_char n] else dec_nat (n div 10) @ [digit_char (n mod 10)])"

declare dec_nat.simps [simp del]

definition dec :: "int \<Rightarrow> string" where
  "dec i = (if i < 0 then CHR ''-'' # dec_nat (nat (- i)) else dec_nat (nat i))"

definition zfill :: "nat \<Rightarrow> string \<Rightarrow> string" where
  "zfill n s = replicate (n - length s) (CHR ''0'') @ s"

text \<open>
  Timestamps are timezone-aware and converted to UTC by every clock of the code, so a
  \<^verbatim>\<open>datetime\<close> is its number of microseconds since 1970.  \<open>isoformat\<close> is
  \<^verbatim>\<open>datetime.isoformat\<close> for UTC, through the proleptic Gregorian calendar.
\<close>

type_synonym datetime = int

definition civil :: "int \<Rightarrow> int \<times> int \<times> int" where
  "civil days =
     (let z = days + 719468; era = z div 146097; doe = z mod 146097;
          yoe = (doe - doe div 1460 + doe div 36524 - doe div 146096) div 365;
          doy = doe - (365 * yoe + yoe div 4 - yoe div 100);
          mp = (5 * doy + 2) div 153; d = doy - (153 * mp + 2) div 5 + 1;
          m = (if mp < 10 then mp + 3 else mp - 9)
      in (yoe + era * 400 + (if m \<le> 2 then 1 else 0), m, d))"

definition isoformat :: "datetime \<Rightarrow> string" where
  "isoformat t =
     (let (y, m, d) = civil (t div 86400000000); us = t mod 86400000000;
          sec = us div 1000000; frac = us mod 1000000; p = (\<lambda>n v. zfill n (dec v))
      in p 4 y @ ''-'' @ p 2 m @ ''-'' @ p 2 d @ ''T'' @ p 2 (sec div 3600) @ '':'' @
         p 2 (sec div 60 mod 60) @ '':'' @ p 2 (sec mod 60) @
         (if frac = 0 then '''' else ''.'' @ p 6 frac) @ ''+00:00'')"

subsection \<open>Stored records and directories\<close>

text \<open>
  A record file holds an envelope of the record and the SHA-256 checksum of its canonical
  bytes.  Reading rejects a file that is not a regular file, is empty or too large, does not
  parse, is no such envelope or whose checksum differs; all these raise the same
  \<^verbatim>\<open>malformed_storage\<close> error, so they are one constructor.  A directory is an
  association list from names to files; \<open>AList.update\<close> writes and \<open>AList.delete\<close> removes.
\<close>

datatype 'a stored = Corrupt | Intact 'a

type_synonym 'a dir = "(string \<times> 'a) list"

definition dir_listing :: "'a dir \<Rightarrow> string list" where
  "dir_listing d = sort (map fst d)"

lemma map_of_dir_update [simp]:
  "map_of (AList.update k v d) = (map_of d)(k \<mapsto> v)"
  by (rule update_conv')

lemma map_of_dir_delete [simp]: "map_of (AList.delete k d) = (map_of d)(k := None)"
  by (rule delete_conv')

lemma set_dir_listing [simp]: "set (dir_listing d) = dom (map_of d)"
  by (simp add: dir_listing_def dom_map_of_conv_image_fst)

end
