(* ===== verification/Json.thy ===== *)
theory Json
  imports Prelude
begin

section \<open>JSON values and their canonical bytes\<close>

text \<open>
  Every record ID and checksum of the program is a digest of \<^verbatim>\<open>canonical_bytes\<close>:
  \<^verbatim>\<open>json.dumps\<close> with sorted keys, compact separators and without ASCII escaping, encoded as
  UTF-8 (the identity on ASCII text).  The theory models the JSON values, the printer and the
  canonical order of keys, and shows that printing is injective: no two values share their
  canonical bytes unless they differ in the order of keys only.
\<close>

datatype json =
    JNull
  | JBool bool
  | JInt int
  | JStr string
  | JList "json list"
  | JObj "(string \<times> json) list"

abbreviation j_opt :: "('a \<Rightarrow> json) \<Rightarrow> 'a option \<Rightarrow> json" where
  "j_opt f x \<equiv> (case x of None \<Rightarrow> JNull | Some v \<Rightarrow> f v)"

subsection \<open>Printing\<close>

definition hex_digit :: "nat \<Rightarrow> char" where
  "hex_digit d = (if d < 10 then char_of (48 + d) else char_of (87 + d))"

definition esc_char :: "char \<Rightarrow> string" where
  "esc_char c =
     (if c = CHR 0x22 then [CHR 0x5C, CHR 0x22]
      else if c = CHR 0x5C then [CHR 0x5C, CHR 0x5C]
      else if ord_c c = 8 then [CHR 0x5C, CHR ''b'']
      else if ord_c c = 9 then [CHR 0x5C, CHR ''t'']
      else if ord_c c = 10 then [CHR 0x5C, CHR ''n'']
      else if ord_c c = 12 then [CHR 0x5C, CHR ''f'']
      else if ord_c c = 13 then [CHR 0x5C, CHR ''r'']
      else if ord_c c < 32 then
        [CHR 0x5C, CHR ''u'', CHR ''0'', CHR ''0'', hex_digit (ord_c c div 16), hex_digit (ord_c c mod 16)]
      else [c])"

definition jstr :: "string \<Rightarrow> string" where
  "jstr s = CHR 0x22 # concat (map esc_char s) @ [CHR 0x22]"

fun jdump :: "json \<Rightarrow> string"
  and jdump_items :: "json list \<Rightarrow> string"
  and jdump_members :: "(string \<times> json) list \<Rightarrow> string" where
  "jdump JNull = ''null''"
| "jdump (JBool b) = (if b then ''true'' else ''false'')"
| "jdump (JInt i) = dec i"
| "jdump (JStr s) = jstr s"
| "jdump (JList []) = ''[]''"
| "jdump (JList (x # xs)) = CHR ''['' # jdump x @ jdump_items xs"
| "jdump (JObj []) = ''{}''"
| "jdump (JObj ((k, v) # kvs)) = CHR ''{'' # jstr k @ CHR '':'' # jdump v @ jdump_members kvs"
| "jdump_items [] = '']''"
| "jdump_items (x # xs) = CHR '','' # jdump x @ jdump_items xs"
| "jdump_members [] = ''}''"
| "jdump_members ((k, v) # kvs) = CHR '','' # jstr k @ CHR '':'' # jdump v @ jdump_members kvs"

text \<open>The order of \<^verbatim>\<open>sort_keys=True\<close>, at every depth.\<close>

fun canon :: "json \<Rightarrow> json"
  and canon_items :: "json list \<Rightarrow> json list"
  and canon_members :: "(string \<times> json) list \<Rightarrow> (string \<times> json) list" where
  "canon (JList xs) = JList (canon_items xs)"
| "canon (JObj kvs) = JObj (sort_key fst (canon_members kvs))"
| "canon j = j"
| "canon_items [] = []"
| "canon_items (x # xs) = canon x # canon_items xs"
| "canon_members [] = []"
| "canon_members ((k, v) # kvs) = (k, canon v) # canon_members kvs"

definition canonical_bytes :: "json \<Rightarrow> string" where
  "canonical_bytes j = jdump (canon j)"

subsection \<open>Reading an escaped character back\<close>

definition hex_val :: "char \<Rightarrow> nat" where
  "hex_val c = (if ord_c c < 58 then ord_c c - 48 else ord_c c - 87)"

definition unesc :: "string \<Rightarrow> (char \<times> string) option" where
  "unesc s = (case s of
       [] \<Rightarrow> None
     | c # cs \<Rightarrow>
         if c \<noteq> CHR 0x5C then Some (c, cs)
         else (case cs of
             [] \<Rightarrow> None
           | d # ds \<Rightarrow>
               if d = CHR ''b'' then Some (char_of (8::nat), ds)
               else if d = CHR ''t'' then Some (char_of (9::nat), ds)
               else if d = CHR ''n'' then Some (char_of (10::nat), ds)
               else if d = CHR ''f'' then Some (char_of (12::nat), ds)
               else if d = CHR ''r'' then Some (char_of (13::nat), ds)
               else if d = CHR ''u'' then
                 Some (char_of (16 * hex_val (ds ! 2) + hex_val (ds ! 3)), drop 4 ds)
               else Some (d, ds)))"

lemma hex_val_digit: "d < 16 \<Longrightarrow> hex_val (hex_digit d) = d"
  by (auto simp: hex_val_def hex_digit_def)

lemma unesc_esc_char: "unesc (esc_char c @ r) = Some (c, r)"
proof -
  have half: "ord_c c < 32 \<Longrightarrow> ord_c c div 16 < 16" by simp
  have join16: "16 * (ord_c c div 16) + ord_c c mod 16 = (of_char c :: nat)" by simp
  have inv: "(of_char c :: nat) = n \<Longrightarrow> char_of n = c" for n by (metis char_of_char)
  show ?thesis
    by (auto simp: esc_char_def unesc_def hex_val_digit half join16 intro: inv)
qed

lemma esc_char_inj: "esc_char c @ r = esc_char c' @ r' \<Longrightarrow> c = c' \<and> r = r'"
  by (metis unesc_esc_char option.inject prod.inject)

lemma esc_char_head: "\<exists>d ds. esc_char c = d # ds \<and> d \<noteq> CHR 0x22"
  by (auto simp: esc_char_def)

lemma jstr_body_inj:
  "concat (map esc_char s) @ CHR 0x22 # r = concat (map esc_char s') @ CHR 0x22 # r'
   \<Longrightarrow> s = s' \<and> r = r'"
proof (induction s arbitrary: s')
  case Nil
  then show ?case using esc_char_head by (cases s') (auto, metis append_Cons list.inject)
next
  case (Cons c cs)
  show ?case
  proof (cases s')
    case Nil
    with Cons.prems show ?thesis using esc_char_head [of c] by auto
  next
    case (Cons c' cs')
    with Cons.prems have "c = c' \<and> concat (map esc_char cs) @ CHR 0x22 # r
        = concat (map esc_char cs') @ CHR 0x22 # r'"
      by (intro esc_char_inj) simp
    with Cons.IH [of cs'] Cons show ?thesis by simp
  qed
qed

lemma jstr_inj: "jstr s @ r = jstr s' @ r' \<Longrightarrow> s = s' \<and> r = r'"
  using jstr_body_inj [of s r s' r'] by (simp add: jstr_def)

subsection \<open>Decimal numbers are read back to the first non-digit\<close>

lemma digit_char_digit: "d < 10 \<Longrightarrow> is_digit (digit_char d)"
  by (simp add: is_digit_def digit_char_def)

lemma digit_char_inj: "d < 10 \<Longrightarrow> d' < 10 \<Longrightarrow> digit_char d = digit_char d' \<Longrightarrow> d = d'"
proof -
  assume "d < 10" "d' < 10" "digit_char d = digit_char d'"
  then have "(of_char (char_of (48 + d) :: char) :: nat) = of_char (char_of (48 + d') :: char)"
    by (simp add: digit_char_def)
  with \<open>d < 10\<close> \<open>d' < 10\<close> show "d = d'" by simp
qed

lemma dec_nat_digits: "list_all is_digit (dec_nat n)"
proof (induction n rule: dec_nat.induct)
  case (1 n)
  then show ?case by (subst dec_nat.simps) (simp add: digit_char_digit)
qed

lemma dec_nat_nonempty: "dec_nat n \<noteq> []"
  by (subst dec_nat.simps) simp

lemma dec_nat_inj: "dec_nat m = dec_nat n \<Longrightarrow> m = n"
proof (induction m arbitrary: n rule: dec_nat.induct)
  case (1 m)
  show ?case
  proof (cases "m < 10")
    case True
    have "n < 10"
      using "1.prems" True dec_nat_nonempty [of "n div 10"]
      by (simp add: dec_nat.simps [of m] dec_nat.simps [of n] split: if_splits)
    with True "1.prems" show ?thesis
      by (simp add: dec_nat.simps [of m] dec_nat.simps [of n] digit_char_inj)
  next
    case False
    then have n: "\<not> n < 10"
      using "1.prems" dec_nat_nonempty [of "m div 10"]
      by (simp add: dec_nat.simps [of m] dec_nat.simps [of n] split: if_splits)
    with False "1.prems" have "dec_nat (m div 10) = dec_nat (n div 10)"
      and "digit_char (m mod 10) = digit_char (n mod 10)"
      by (simp_all add: dec_nat.simps [of m] dec_nat.simps [of n])
    then have "m div 10 = n div 10" and "m mod 10 = n mod 10"
      using "1.IH" False by (auto intro: digit_char_inj)
    then show ?thesis by (metis div_mult_mod_eq)
  qed
qed

abbreviation no_digit :: "string \<Rightarrow> bool" where
  "no_digit r \<equiv> r = [] \<or> \<not> is_digit (hd r)"

lemma takeWhile_digits: "list_all is_digit ds \<Longrightarrow> no_digit r \<Longrightarrow> takeWhile is_digit (ds @ r) = ds"
  by (induction ds) (auto intro: takeWhile_eq_Nil_iff [THEN iffD2])

lemma dec_nat_append_inj:
  assumes "dec_nat m @ r = dec_nat n @ r'" and "no_digit r" and "no_digit r'"
  shows "m = n \<and> r = r'"
proof -
  have "takeWhile is_digit (dec_nat m @ r) = takeWhile is_digit (dec_nat n @ r')"
    using assms(1) by simp
  with assms(2,3) have "dec_nat m = dec_nat n" by (simp add: takeWhile_digits dec_nat_digits)
  with assms(1) show ?thesis using dec_nat_inj by simp
qed

lemma dec_nat_head: "\<exists>d ds. dec_nat n = d # ds \<and> is_digit d"
  using dec_nat_nonempty [of n] dec_nat_digits [of n] by (cases "dec_nat n") auto

lemma dec_append_inj:
  assumes "dec i @ r = dec j @ r'" and "no_digit r" and "no_digit r'"
  shows "i = j \<and> r = r'"
proof -
  have minus: "\<not> is_digit (CHR ''-'')" by (simp add: is_digit_def)
  have "(i < 0) = (j < 0)"
    using assms(1) dec_nat_head [of "nat i"] dec_nat_head [of "nat j"] minus
    by (auto simp: dec_def split: if_splits)
  note sign = this
  show ?thesis
  proof (cases "i < 0")
    case True
    with sign assms(1) have "dec_nat (nat (- i)) @ r = dec_nat (nat (- j)) @ r'"
      by (simp add: dec_def)
    from dec_nat_append_inj [OF this assms(2,3)] True sign show ?thesis by auto
  next
    case False
    with sign assms(1) have "dec_nat (nat i) @ r = dec_nat (nat j) @ r'"
      by (simp add: dec_def)
    from dec_nat_append_inj [OF this assms(2,3)] False sign show ?thesis by auto
  qed
qed

subsection \<open>Printing is injective\<close>

text \<open>A value inside a document is followed by a separator or a closing bracket.\<close>

definition delim :: "string \<Rightarrow> bool" where
  "delim r \<longleftrightarrow> r = [] \<or> hd r = CHR '','' \<or> hd r = CHR '']'' \<or> hd r = CHR ''}''"

lemma delim_no_digit: "delim r \<Longrightarrow> no_digit r"
  by (auto simp: delim_def is_digit_def)

lemma delim_simps [simp]: "delim (CHR '','' # r)" "delim (CHR '']'' # r)" "delim (CHR ''}'' # r)"
  by (simp_all add: delim_def)

lemma delim_items [simp]: "delim (jdump_items xs @ r)"
  by (cases xs) simp_all

lemma delim_members [simp]: "delim (jdump_members kvs @ r)"
  by (cases kvs) (auto split: prod.splits)

definition tag_char :: "json \<Rightarrow> char \<Rightarrow> bool" where
  "tag_char j c = (case j of JNull \<Rightarrow> c = CHR ''n'' | JBool b \<Rightarrow> c = (if b then CHR ''t'' else CHR ''f'')
     | JInt _ \<Rightarrow> is_digit c \<or> c = CHR ''-'' | JStr _ \<Rightarrow> c = CHR 0x22
     | JList _ \<Rightarrow> c = CHR ''['' | JObj _ \<Rightarrow> c = CHR ''{'')"

lemma dec_head: "\<exists>c cs. dec i = c # cs \<and> (is_digit c \<or> c = CHR ''-'')"
  using dec_nat_head [of "nat i"] by (auto simp: dec_def)

lemma jdump_head: "\<exists>c cs. jdump j = c # cs \<and> tag_char j c"
proof (cases j)
  case (JInt i)
  then show ?thesis using dec_head [of i] by (auto simp: tag_char_def)
next
  case (JList xs)
  then show ?thesis by (cases xs) (simp_all add: tag_char_def)
next
  case (JObj kvs)
  then show ?thesis by (cases kvs) (auto simp: tag_char_def split: prod.splits)
qed (simp_all add: tag_char_def jstr_def)

lemma jdump_same_head:
  assumes "jdump j @ r = jdump j' @ r'"
  shows "\<exists>c. tag_char j c \<and> tag_char j' c"
  using assms jdump_head [of j] jdump_head [of j'] by auto

lemma tag_char_simps [simp]:
  "tag_char JNull c = (c = CHR ''n'')"
  "tag_char (JBool b) c = (c = (if b then CHR ''t'' else CHR ''f''))"
  "tag_char (JInt i) c = (is_digit c \<or> c = CHR ''-'')"
  "tag_char (JStr s) c = (c = CHR 0x22)"
  "tag_char (JList xs) c = (c = CHR ''['')"
  "tag_char (JObj kvs) c = (c = CHR ''{'')"
  by (simp_all add: tag_char_def)

lemma not_digit_tags [simp]:
  "\<not> is_digit (CHR ''n'')" "\<not> is_digit (CHR ''t'')" "\<not> is_digit (CHR ''f'')" "\<not> is_digit (CHR 0x22)"
  "\<not> is_digit (CHR ''['')" "\<not> is_digit (CHR ''{'')"
  by (simp_all add: is_digit_def)

lemma tag_not_close [simp]: "\<not> tag_char j (CHR '']'')"
  by (cases j) (auto simp: is_digit_def)

lemma jdump_null_kind: "jdump JNull @ r = jdump j' @ r' \<Longrightarrow> j' = JNull"
  by (drule jdump_same_head, cases j') (auto split: if_splits)

lemma jdump_bool_kind: "jdump (JBool b) @ r = jdump j' @ r' \<Longrightarrow> j' = JBool b"
  by (drule jdump_same_head, cases j') (auto split: if_splits)

lemma jdump_int_kind: "jdump (JInt i) @ r = jdump j' @ r' \<Longrightarrow> \<exists>i'. j' = JInt i'"
  by (drule jdump_same_head, cases j') (auto split: if_splits)

lemma jdump_str_kind: "jdump (JStr s) @ r = jdump j' @ r' \<Longrightarrow> \<exists>s'. j' = JStr s'"
  by (drule jdump_same_head, cases j') (auto split: if_splits)

lemma jdump_list_kind: "jdump (JList xs) @ r = jdump j' @ r' \<Longrightarrow> \<exists>xs'. j' = JList xs'"
  by (drule jdump_same_head, cases j') (auto split: if_splits)

lemma jdump_obj_kind: "jdump (JObj kvs) @ r = jdump j' @ r' \<Longrightarrow> \<exists>kvs'. j' = JObj kvs'"
  by (drule jdump_same_head, cases j') (auto split: if_splits)

text \<open>The member \<open>"k":v\<close> of an object, as printed in any position.\<close>

lemma member_inj:
  assumes "jstr k @ CHR '':'' # jdump v @ m = jstr k' @ CHR '':'' # jdump v' @ m'"
    and "\<And>w t t'. jdump v @ t = jdump w @ t' \<Longrightarrow> delim t \<Longrightarrow> delim t' \<Longrightarrow> v = w \<and> t = t'"
    and "delim m" and "delim m'"
  shows "k = k' \<and> v = v' \<and> m = m'"
  using jstr_inj [OF assms(1)] assms(2) [of m v' m'] assms(3,4) by simp

lemma jdump_inj_aux:
  "jdump j @ r = jdump j' @ r' \<Longrightarrow> delim r \<Longrightarrow> delim r' \<Longrightarrow> j = j' \<and> r = r'"
  "jdump_items xs @ r = jdump_items xs' @ r' \<Longrightarrow> xs = xs' \<and> r = r'"
  "jdump_members kvs @ r = jdump_members kvs' @ r' \<Longrightarrow> kvs = kvs' \<and> r = r'"
proof (induction j and xs and kvs arbitrary: j' r r' and xs' r r' and kvs' r r'
    rule: jdump_jdump_items_jdump_members.induct)
  case 1
  from jdump_null_kind [OF "1.prems"(1)] "1.prems" show ?case by simp
next
  case (2 b)
  from jdump_bool_kind [OF "2.prems"(1)] "2.prems" show ?case by simp
next
  case (3 i)
  from jdump_int_kind [OF "3.prems"(1)] obtain i' where j': "j' = JInt i'" by blast
  with "3.prems" dec_append_inj [of i r i' r'] show ?case by (simp add: delim_no_digit)
next
  case (4 s)
  from jdump_str_kind [OF "4.prems"(1)] obtain s' where j': "j' = JStr s'" by blast
  with "4.prems" jstr_inj [of s r s' r'] show ?case by simp
next
  case 5
  from jdump_list_kind [OF "5.prems"(1)] obtain xs' where j': "j' = JList xs'" by blast
  with "5" show ?case using jdump_head [of "hd xs'"] by (cases xs') auto
next
  case (6 x xs)
  from jdump_list_kind [OF "6.prems"(1)] obtain xs' where j': "j' = JList xs'" by blast
  show ?case
  proof (cases xs')
    case Nil
    with j' "6.prems" have "jdump x @ jdump_items xs @ r = CHR '']'' # r'" by simp
    with jdump_head [of x] have "tag_char x (CHR '']'')" by auto
    then show ?thesis by simp
  next
    case (Cons y ys)
    with j' "6.prems" have "jdump x @ jdump_items xs @ r = jdump y @ jdump_items ys @ r'" by simp
    from "6.IH"(1) [OF this] have "x = y" and "jdump_items xs @ r = jdump_items ys @ r'" by simp_all
    with "6.IH"(2) [OF this(2)] Cons j' show ?thesis by simp
  qed
next
  case 7
  from jdump_obj_kind [OF "7.prems"(1)] obtain kvs' where j': "j' = JObj kvs'" by blast
  with "7" show ?case by (cases kvs') (auto simp: jstr_def)
next
  case (8 k v kvs)
  from jdump_obj_kind [OF "8.prems"(1)] obtain kvs' where j': "j' = JObj kvs'" by blast
  show ?case
  proof (cases kvs')
    case Nil
    with j' "8.prems" show ?thesis by (simp add: jstr_def)
  next
    case (Cons p ys)
    obtain k' v' where p: "p = (k', v')" by (cases p)
    with j' Cons "8.prems" have "jstr k @ CHR '':'' # jdump v @ jdump_members kvs @ r
        = jstr k' @ CHR '':'' # jdump v' @ jdump_members ys @ r'" by simp
    from member_inj [OF this "8.IH"(1)]
    have eq: "k = k' \<and> v = v'" and "jdump_members kvs @ r = jdump_members ys @ r'" by simp_all
    from "8.IH"(2) [OF this(2)] eq Cons p j' show ?thesis by simp
  qed
next
  case 9
  then show ?case by (cases xs') auto
next
  case (10 x xs)
  show ?case
  proof (cases xs')
    case Nil
    with "10.prems" show ?thesis by simp
  next
    case (Cons y ys)
    with "10.prems" have "jdump x @ jdump_items xs @ r = jdump y @ jdump_items ys @ r'" by simp
    from "10.IH"(1) [OF this] have "x = y" and "jdump_items xs @ r = jdump_items ys @ r'" by simp_all
    with "10.IH"(2) [OF this(2)] Cons show ?thesis by simp
  qed
next
  case 11
  then show ?case by (cases kvs') (auto split: prod.splits)
next
  case (12 k v kvs)
  show ?case
  proof (cases kvs')
    case Nil
    with "12.prems" show ?thesis by simp
  next
    case (Cons p ys)
    obtain k' v' where p: "p = (k', v')" by (cases p)
    with Cons "12.prems" have "jstr k @ CHR '':'' # jdump v @ jdump_members kvs @ r
        = jstr k' @ CHR '':'' # jdump v' @ jdump_members ys @ r'" by simp
    from member_inj [OF this "12.IH"(1)]
    have eq: "k = k' \<and> v = v'" and "jdump_members kvs @ r = jdump_members ys @ r'" by simp_all
    from "12.IH"(2) [OF this(2)] eq Cons p show ?thesis by simp
  qed
qed

lemma jdump_inj: "jdump a = jdump b \<longleftrightarrow> a = b"
  using jdump_inj_aux(1) [of a "[]" b "[]"] by (auto simp: delim_def)

lemma canonical_bytes_eq_iff: "canonical_bytes a = canonical_bytes b \<longleftrightarrow> canon a = canon b"
  by (simp add: canonical_bytes_def jdump_inj)

text \<open>Objects built with the same keys in the same order agree when their members do.\<close>

lemma canon_members_map: "canon_members kvs = map (\<lambda>(k, v). (k, canon v)) kvs"
  by (induction kvs) auto

lemma canon_items_map: "canon_items xs = map canon xs"
  by (induction xs) auto

lemma map_of_canon_members: "map_of (canon_members kvs) k = map_option canon (map_of kvs k)"
  by (induction kvs) auto

lemma fst_canon_members: "map fst (canon_members kvs) = map fst kvs"
  by (induction kvs) auto

lemma canon_JObj_eqD:
  assumes "canon (JObj a) = canon (JObj b)" and "distinct (map fst a)" and "distinct (map fst b)"
  shows "map_option canon (map_of a k) = map_option canon (map_of b k)"
proof -
  have srt: "map_of (sort_key fst (canon_members c)) = map_of (canon_members c)"
    if "distinct (map fst c)" for c
  proof -
    have "distinct (map fst (canon_members c))" using that by (simp add: fst_canon_members)
    then have "distinct (map fst (sort_key fst (canon_members c)))" by (simp add: distinct_map)
    then show ?thesis
      using that by (intro map_of_inject_set [THEN iffD2]) (simp_all add: fst_canon_members)
  qed
  have "sort_key fst (canon_members a) = sort_key fst (canon_members b)"
    using assms(1) by simp
  then have "map_of (canon_members a) = map_of (canon_members b)"
    using srt assms(2,3) by metis
  then show ?thesis by (simp add: map_of_canon_members fun_eq_iff)
qed

end
