(* ===== verification/Sha256.thy ===== *)
theory Sha256
  imports Json "HOL-Library.Word"
begin

unbundle bit_operations_syntax

section \<open>SHA-256\<close>

text \<open>
  \<^verbatim>\<open>hashlib.sha256(payload).hexdigest()\<close> (FIPS 180-4), the digest behind every ID and
  checksum of the program.  The development uses two facts of it only: it is a function, and
  its result is 64 lower case hexadecimal characters.  Claims that need two different payloads
  to have different digests say so in their statement.
\<close>

type_synonym w32 = "32 word"

definition sha_k :: "w32 list" where
  "sha_k = [
     1116352408, 1899447441, 3049323471, 3921009573, 961987163, 1508970993, 2453635748, 2870763221,
     3624381080, 310598401, 607225278, 1426881987, 1925078388, 2162078206, 2614888103, 3248222580,
     3835390401, 4022224774, 264347078, 604807628, 770255983, 1249150122, 1555081692, 1996064986,
     2554220882, 2821834349, 2952996808, 3210313671, 3336571891, 3584528711, 113926993, 338241895,
     666307205, 773529912, 1294757372, 1396182291, 1695183700, 1986661051, 2177026350, 2456956037,
     2730485921, 2820302411, 3259730800, 3345764771, 3516065817, 3600352804, 4094571909, 275423344,
     430227734, 506948616, 659060556, 883997877, 958139571, 1322822218, 1537002063, 1747873779,
     1955562222, 2024104815, 2227730452, 2361852424, 2428436474, 2756734187, 3204031479, 3329325298]"

definition sha_init :: "w32 list" where
  "sha_init = [1779033703, 3144134277, 1013904242, 2773480762,
               1359893119, 2600822924, 528734635, 1541459225]"

definition rotr :: "nat \<Rightarrow> w32 \<Rightarrow> w32" where
  "rotr n x = drop_bit n x OR push_bit (32 - n) x"

text \<open>The message schedule, newest word first.\<close>

definition sched_step :: "w32 list \<Rightarrow> w32 list" where
  "sched_step ws =
     (let w15 = ws ! 14; w2 = ws ! 1;
          s0 = rotr 7 w15 XOR rotr 18 w15 XOR drop_bit 3 w15;
          s1 = rotr 17 w2 XOR rotr 19 w2 XOR drop_bit 10 w2
      in (ws ! 15 + s0 + ws ! 6 + s1) # ws)"

definition schedule :: "w32 list \<Rightarrow> w32 list" where
  "schedule block = rev ((sched_step ^^ 48) (rev block))"

fun sha_round :: "w32 list \<Rightarrow> w32 \<times> w32 \<Rightarrow> w32 list" where
  "sha_round [a, b, c, d, e, f, g, h] (k, w) =
     (let s1 = rotr 6 e XOR rotr 11 e XOR rotr 25 e;
          ch = (e AND f) XOR (NOT e AND g);
          t1 = h + s1 + ch + k + w;
          s0 = rotr 2 a XOR rotr 13 a XOR rotr 22 a;
          maj = (a AND b) XOR (a AND c) XOR (b AND c)
      in [t1 + (s0 + maj), a, b, c, d + t1, e, f, g])"
| "sha_round st _ = st"

definition compress :: "w32 list \<Rightarrow> w32 list \<Rightarrow> w32 list" where
  "compress st block = map2 (+) st (foldl sha_round st (zip sha_k (schedule block)))"

definition byte_of :: "char \<Rightarrow> nat" where "byte_of c = of_char c"

definition be_bytes :: "nat \<Rightarrow> nat \<Rightarrow> nat list" where
  "be_bytes k n = map (\<lambda>i. n div 256 ^ (k - 1 - i) mod 256) [0..<k]"

definition pad :: "nat list \<Rightarrow> nat list" where
  "pad bs = bs @ [128] @ replicate ((119 - length bs mod 64) mod 64) 0 @ be_bytes 8 (8 * length bs)"

fun words_of_bytes :: "nat list \<Rightarrow> w32 list" where
  "words_of_bytes (a # b # c # d # bs) =
     of_nat (a * 16777216 + b * 65536 + c * 256 + d) # words_of_bytes bs"
| "words_of_bytes _ = []"

function blocks :: "w32 list \<Rightarrow> w32 list list" where
  "blocks ws = (if length ws < 16 then [] else take 16 ws # blocks (drop 16 ws))"
  by pat_completeness auto
termination by (relation "measure length") auto

declare blocks.simps [simp del]

definition sha256_words :: "string \<Rightarrow> w32 list" where
  "sha256_words s = foldl compress sha_init (blocks (words_of_bytes (pad (map byte_of s))))"

definition hex32 :: "w32 \<Rightarrow> string" where
  "hex32 w = map (\<lambda>i. hex_digit (unat w div 16 ^ (7 - i) mod 16)) [0..<8]"

definition sha256_hex :: "string \<Rightarrow> string" where
  "sha256_hex s = concat (map hex32 (sha256_words s))"

subsection \<open>The form of a digest\<close>

lemma hex_digit_hex: "d < 16 \<Longrightarrow> is_hex (hex_digit d)"
  by (auto simp: is_hex_def is_digit_def hex_digit_def)

lemma hex32_hex: "list_all is_hex (hex32 w)" and length_hex32 [simp]: "length (hex32 w) = 8"
  by (auto simp: hex32_def list_all_iff hex_digit_hex)

lemma length_sha_round: "length st = 8 \<Longrightarrow> length (sha_round st p) = 8"
  by (cases "(st, p)" rule: sha_round.cases) (auto simp: Let_def)

lemma length_rounds: "length st = 8 \<Longrightarrow> length (foldl sha_round st ps) = 8"
  by (induction ps arbitrary: st) (auto simp: length_sha_round)

lemma length_compress: "length st = 8 \<Longrightarrow> length (compress st b) = 8"
  by (simp add: compress_def length_rounds)

lemma length_sha256_words: "length (sha256_words s) = 8"
proof -
  have "length st = 8 \<Longrightarrow> length (foldl compress st bs) = 8" for st bs
    by (induction bs arbitrary: st) (auto simp: length_compress)
  then show ?thesis by (simp add: sha256_words_def sha_init_def)
qed

lemma sha256_hex_hexn [simp]: "hexn 64 (sha256_hex s)"
proof -
  have "length (concat (map hex32 ws)) = 8 * length ws" for ws by (induction ws) auto
  moreover have "list_all is_hex (concat (map hex32 ws))" for ws
    by (induction ws) (auto simp: hex32_hex)
  ultimately show ?thesis by (simp add: hexn_def sha256_hex_def length_sha256_words)
qed

lemma hexn_take: "hexn m s \<Longrightarrow> n \<le> m \<Longrightarrow> hexn n (take n s)"
  by (auto simp: hexn_def list_all_iff dest: in_set_takeD)

lemma hexn_take_sha [simp]: "n \<le> 64 \<Longrightarrow> hexn n (take n (sha256_hex s))"
  by (rule hexn_take [OF sha256_hex_hexn])

end
