(* ===== verification/Evidence.thy ===== *)
theory Evidence
  imports Sha256
begin

section \<open>The evidence contract\<close>

text \<open>
  \<^verbatim>\<open>webapp/command_center_evidence.py\<close>: the typed records of the evidence ledger.  A
  pydantic model is a record; \<open>valid_*\<close> are its field constraints and validators, and
  \<open>strip_*\<close> what \<^verbatim>\<open>str_strip_whitespace\<close> does to it before they run.  Field names carry
  a prefix for their class: \<open>si_\<close> SourceIdentity, \<open>rm_\<close> RevisionMetrics, \<open>rev_\<close>
  SourceRevision, \<open>ac_\<close> AssociationCandidate, \<open>ad_\<close> AssociationDecision, \<open>ps_\<close>
  ProcessingState, \<open>src_\<close> EvidenceSource.
\<close>

subsection \<open>Literals\<close>

datatype provider = Granola | Manual | Gmail

datatype source_kind = Meeting | ManualTranscript | CrmSnapshot | EmailMessage

datatype availability =
  MetadataOnly | ContentAvailable | PendingUnknown | AccessLost | Deleted | AvailFailed

datatype proc_status =
  Discovered | AwaitingAssociation | AwaitingContent | Queued | Processing | Processed | Failed | Superseded

datatype assoc_method =
  Explicit | VerifiedExternalId | ThreadMapping | Contact | Domain | TitleMatch | Attendee | ManualMethod

datatype assoc_state = Unassociated | Proposed | Associated

datatype import_trigger = ManualImport | UserTriggeredRetrieval

datatype rev_change = Initial | ContentChange | MetadataChange | AvailabilityChange

definition withheld :: "availability \<Rightarrow> bool" where
  "withheld a \<longleftrightarrow> a \<in> {PendingUnknown, AccessLost, Deleted}"

definition auto_method :: "assoc_method \<Rightarrow> bool" where
  "auto_method m \<longleftrightarrow> m \<in> {Explicit, VerifiedExternalId}"

definition human_method :: "assoc_method \<Rightarrow> bool" where
  "human_method m \<longleftrightarrow> m \<in> {Explicit, ManualMethod}"

fun provider_value :: "provider \<Rightarrow> string" where
  "provider_value Granola = ''granola''"
| "provider_value Manual = ''manual''"
| "provider_value Gmail = ''gmail''"

fun kind_value :: "source_kind \<Rightarrow> string" where
  "kind_value Meeting = ''meeting''"
| "kind_value ManualTranscript = ''manual_transcript''"
| "kind_value CrmSnapshot = ''crm_snapshot''"
| "kind_value EmailMessage = ''email_message''"

fun availability_value :: "availability \<Rightarrow> string" where
  "availability_value MetadataOnly = ''metadata_only''"
| "availability_value ContentAvailable = ''content_available''"
| "availability_value PendingUnknown = ''pending_unknown''"
| "availability_value AccessLost = ''access_lost''"
| "availability_value Deleted = ''deleted''"
| "availability_value AvailFailed = ''failed''"

subsection \<open>Patterns\<close>

definition source_id_ok :: "string \<Rightarrow> bool" where
  "source_id_ok s \<longleftrightarrow> startswith s ''src_'' \<and> hexn 32 (drop 4 s)"

definition safe_char :: "char \<Rightarrow> bool" where
  "safe_char c \<longleftrightarrow> is_upper c \<or> is_lower c \<or> is_digit c \<or> c = CHR ''.'' \<or> c = CHR ''_'' \<or> c = CHR ''-''"

definition safe_token :: "string \<Rightarrow> bool" where
  "safe_token s \<longleftrightarrow> in_len 1 120 s \<and> list_all safe_char s"

definition short_text :: "string \<Rightarrow> bool" where
  "short_text s \<longleftrightarrow> in_len 1 300 s"

subsection \<open>Identities\<close>

record scope_identity =
  workspace_id :: string

definition valid_scope :: "scope_identity \<Rightarrow> bool" where
  "valid_scope sc \<longleftrightarrow> hexn 16 (workspace_id sc)"

record source_identity =
  si_provider :: provider
  si_connection_id :: string
  si_source_workspace_id :: "string option"
  si_provider_object_id :: string
  si_kind :: source_kind

definition valid_identity :: "source_identity \<Rightarrow> bool" where
  "valid_identity i \<longleftrightarrow> safe_token (si_connection_id i)
     \<and> opt_all (in_len 0 120) (si_source_workspace_id i)
     \<and> in_len 1 120 (si_provider_object_id i)"

definition strip_identity :: "source_identity \<Rightarrow> source_identity" where
  "strip_identity i = i\<lparr>
     si_connection_id := strip (si_connection_id i),
     si_source_workspace_id := map_option strip (si_source_workspace_id i),
     si_provider_object_id := strip (si_provider_object_id i)\<rparr>"

definition scope_json :: "scope_identity \<Rightarrow> json" where
  "scope_json sc = JObj [(''kind'', JStr ''local_workspace''), (''workspace_id'', JStr (workspace_id sc))]"

definition source_id_payload :: "scope_identity \<Rightarrow> source_identity \<Rightarrow> json" where
  "source_id_payload sc i = JObj [
     (''scope'', scope_json sc),
     (''provider'', JStr (provider_value (si_provider i))),
     (''connection_id'', JStr (si_connection_id i)),
     (''source_workspace_id'', j_opt JStr (si_source_workspace_id i)),
     (''provider_object_id'', JStr (si_provider_object_id i)),
     (''kind'', JStr (kind_value (si_kind i)))]"

definition source_id_for :: "scope_identity \<Rightarrow> source_identity \<Rightarrow> string" where
  "source_id_for sc i = ''src_'' @ take 32 (sha256_hex (canonical_bytes (source_id_payload sc i)))"

subsection \<open>Revisions\<close>

record revision_metrics =
  rm_title_present :: bool
  rm_attendee_count :: nat
  rm_summary_chars :: nat
  rm_private_notes_chars :: nat
  rm_transcript_segments :: nat
  rm_transcript_chars :: nat
  rm_body_chars :: nat
  rm_attachment_count :: nat

definition valid_metrics :: "revision_metrics \<Rightarrow> bool" where
  "valid_metrics m \<longleftrightarrow> rm_attendee_count m \<le> 1000"

record source_revision =
  rev_revision :: nat
  rev_content_hash :: string
  rev_body_hash :: string
  rev_change :: rev_change
  rev_availability :: availability
  rev_trigger :: import_trigger
  rev_import_id :: string
  rev_occurred_at :: "datetime option"
  rev_provider_updated_at :: "datetime option"
  rev_observed_at :: datetime
  rev_retrieved_at :: datetime
  rev_metrics :: revision_metrics
  rev_unavailable_reason :: "string option"

definition valid_revision :: "source_revision \<Rightarrow> bool" where
  "valid_revision r \<longleftrightarrow> 1 \<le> rev_revision r \<and> rev_revision r \<le> 1000000
     \<and> hexn 64 (rev_content_hash r) \<and> hexn 64 (rev_body_hash r) \<and> hexn 16 (rev_import_id r)
     \<and> valid_metrics (rev_metrics r) \<and> opt_all (in_len 0 300) (rev_unavailable_reason r)"

definition strip_revision :: "source_revision \<Rightarrow> source_revision" where
  "strip_revision r = r\<lparr>
     rev_content_hash := strip (rev_content_hash r),
     rev_body_hash := strip (rev_body_hash r),
     rev_import_id := strip (rev_import_id r),
     rev_unavailable_reason := map_option strip (rev_unavailable_reason r)\<rparr>"

subsection \<open>Associations\<close>

record assoc_candidate =
  ac_account :: string
  ac_opportunity_slug :: "string option"
  ac_method :: assoc_method
  ac_reason :: string

definition valid_candidate :: "assoc_candidate \<Rightarrow> bool" where
  "valid_candidate c \<longleftrightarrow> safe_token (ac_account c) \<and> opt_all safe_token (ac_opportunity_slug c)
     \<and> short_text (ac_reason c)"

definition strip_candidate :: "assoc_candidate \<Rightarrow> assoc_candidate" where
  "strip_candidate c = c\<lparr>
     ac_account := strip (ac_account c),
     ac_opportunity_slug := map_option strip (ac_opportunity_slug c),
     ac_reason := strip (ac_reason c)\<rparr>"

record assoc_decision =
  ad_sequence :: nat
  ad_state :: assoc_state
  ad_account :: "string option"
  ad_opportunity_slug :: "string option"
  ad_method :: "assoc_method option"
  ad_actor :: string
  ad_reason :: string
  ad_candidates :: "assoc_candidate list"
  ad_crm_account_id :: "string option"
  ad_crm_opportunity_id :: "string option"
  ad_supersedes_sequence :: "nat option"
  ad_recorded_at :: datetime

text \<open>\<^verbatim>\<open>AssociationDecision._consistent\<close>; an option is falsy when it is \<open>None\<close> or empty text.\<close>

definition truthy :: "string option \<Rightarrow> bool" where
  "truthy x \<longleftrightarrow> x \<noteq> None \<and> x \<noteq> Some ''''"

definition decision_consistent :: "assoc_decision \<Rightarrow> bool" where
  "decision_consistent d =
     (case ad_state d of
        Associated \<Rightarrow> truthy (ad_account d) \<and> truthy (ad_opportunity_slug d)
          \<and> (case ad_method d of None \<Rightarrow> False | Some m \<Rightarrow> auto_method m \<or> human_method m)
      | Proposed \<Rightarrow> ad_candidates d \<noteq> [] \<and> \<not> truthy (ad_account d) \<and> \<not> truthy (ad_opportunity_slug d)
      | Unassociated \<Rightarrow> \<not> truthy (ad_account d) \<and> \<not> truthy (ad_opportunity_slug d) \<and> ad_method d = None)"

text \<open>The constraints on the decision's own fields; candidates are checked where they are parsed.\<close>

definition decision_fields_ok :: "assoc_decision \<Rightarrow> bool" where
  "decision_fields_ok d \<longleftrightarrow> 1 \<le> ad_sequence d
     \<and> opt_all safe_token (ad_account d) \<and> opt_all safe_token (ad_opportunity_slug d)
     \<and> safe_token (ad_actor d) \<and> short_text (ad_reason d) \<and> length (ad_candidates d) \<le> 20
     \<and> opt_all (in_len 0 40) (ad_crm_account_id d) \<and> opt_all (in_len 0 40) (ad_crm_opportunity_id d)
     \<and> opt_all (\<lambda>n. 1 \<le> n) (ad_supersedes_sequence d)"

definition valid_decision :: "assoc_decision \<Rightarrow> bool" where
  "valid_decision d \<longleftrightarrow> decision_fields_ok d \<and> list_all valid_candidate (ad_candidates d)
     \<and> decision_consistent d"

definition strip_decision_fields :: "assoc_decision \<Rightarrow> assoc_decision" where
  "strip_decision_fields d = d\<lparr>
     ad_account := map_option strip (ad_account d),
     ad_opportunity_slug := map_option strip (ad_opportunity_slug d),
     ad_actor := strip (ad_actor d),
     ad_reason := strip (ad_reason d),
     ad_crm_account_id := map_option strip (ad_crm_account_id d),
     ad_crm_opportunity_id := map_option strip (ad_crm_opportunity_id d)\<rparr>"

definition strip_decision :: "assoc_decision \<Rightarrow> assoc_decision" where
  "strip_decision d = strip_decision_fields (d\<lparr>ad_candidates := map strip_candidate (ad_candidates d)\<rparr>)"

text \<open>
  \<^verbatim>\<open>AssociationDecision(...)\<close>: the constructor strips and checks the decision's own fields;
  the candidates are model instances already and are not parsed again.
\<close>

definition mk_decision :: "assoc_decision \<Rightarrow> exn + assoc_decision" where
  "mk_decision d = (let d' = strip_decision_fields d in
     if decision_fields_ok d' \<and> decision_consistent d' then Inr d' else Inl ValidationError)"

subsection \<open>Processing state and source records\<close>

record processing_state =
  ps_status :: proc_status
  ps_attempts :: nat
  ps_retry_eligible :: bool
  ps_last_error_code :: "string option"
  ps_processed_revision :: "nat option"
  ps_updated_at :: datetime

definition valid_processing :: "processing_state \<Rightarrow> bool" where
  "valid_processing p \<longleftrightarrow> ps_attempts p \<le> 1000 \<and> opt_all (in_len 0 80) (ps_last_error_code p)
     \<and> opt_all (\<lambda>n. 1 \<le> n) (ps_processed_revision p)"

definition strip_processing :: "processing_state \<Rightarrow> processing_state" where
  "strip_processing p = p\<lparr>ps_last_error_code := map_option strip (ps_last_error_code p)\<rparr>"

record evidence_source =
  src_id :: string
  src_scope :: scope_identity
  src_identity :: source_identity
  src_created_at :: datetime
  src_updated_at :: datetime
  src_latest_revision :: nat
  src_availability :: availability
  src_processing :: processing_state
  src_association :: assoc_decision
  src_history :: "assoc_decision list"
  src_revisions :: "source_revision list"

text \<open>\<^verbatim>\<open>EvidenceSource._chain\<close>\<close>

definition chain_ok :: "evidence_source \<Rightarrow> bool" where
  "chain_ok s \<longleftrightarrow> src_revisions s \<noteq> [] \<and> src_history s \<noteq> []
     \<and> map rev_revision (src_revisions s) = [1..<Suc (length (src_revisions s))]
     \<and> rev_revision (last (src_revisions s)) = src_latest_revision s
     \<and> map ad_sequence (src_history s) = [1..<Suc (length (src_history s))]
     \<and> src_association s = last (src_history s)
     \<and> opt_all (\<lambda>n. n \<le> src_latest_revision s) (ps_processed_revision (src_processing s))"

definition valid_source :: "evidence_source \<Rightarrow> bool" where
  "valid_source s \<longleftrightarrow> source_id_ok (src_id s) \<and> valid_scope (src_scope s)
     \<and> valid_identity (src_identity s)
     \<and> 1 \<le> src_latest_revision s \<and> src_latest_revision s \<le> 1000000
     \<and> valid_processing (src_processing s) \<and> valid_decision (src_association s)
     \<and> length (src_history s) \<le> 500 \<and> list_all valid_decision (src_history s)
     \<and> length (src_revisions s) \<le> 1000 \<and> list_all valid_revision (src_revisions s)
     \<and> chain_ok s"

definition strip_source :: "evidence_source \<Rightarrow> evidence_source" where
  "strip_source s = s\<lparr>
     src_id := strip (src_id s),
     src_scope := (src_scope s)\<lparr>workspace_id := strip (workspace_id (src_scope s))\<rparr>,
     src_identity := strip_identity (src_identity s),
     src_processing := strip_processing (src_processing s),
     src_association := strip_decision (src_association s),
     src_history := map strip_decision (src_history s),
     src_revisions := map strip_revision (src_revisions s)\<rparr>"

text \<open>\<^verbatim>\<open>EvidenceSource.model_validate\<close>\<close>

definition parse_source :: "evidence_source \<Rightarrow> exn + evidence_source" where
  "parse_source s = (let s' = strip_source s in if valid_source s' then Inr s' else Inl ValidationError)"

end
