(* ===== verification/Normalized.thy ===== *)
theory Normalized
  imports Evidence
begin

section \<open>Normalized provider payloads\<close>

text \<open>
  The second half of \<^verbatim>\<open>webapp/command_center_evidence.py\<close>: what an adapter hands to the
  ledger for one meeting or one email message, its validators, its metrics and the private
  snapshot whose canonical bytes are the key of a revision.  Prefixes: \<open>np_\<close> participants,
  \<open>ts_\<close> transcript segments, \<open>mc_\<close> meeting content, \<open>nm_\<close> meetings, \<open>ep_\<close>, \<open>ec_\<close>, \<open>ne_\<close> the
  same for email.
\<close>

text \<open>
  A timestamp inside \<^verbatim>\<open>model_dump(mode="json")\<close> ends in \<^verbatim>\<open>Z\<close>; \<^verbatim>\<open>isoformat()\<close> writes the
  offset of UTC.
\<close>

definition json_time :: "datetime \<Rightarrow> string" where
  "json_time t = take (length (isoformat t) - 6) (isoformat t) @ ''Z''"

subsection \<open>Meetings\<close>

record participant =
  np_name :: "string option"
  np_email :: "string option"

definition valid_participant :: "participant \<Rightarrow> bool" where
  "valid_participant p \<longleftrightarrow> opt_all (in_len 0 200) (np_name p) \<and> opt_all (in_len 0 320) (np_email p)"

definition participant_json :: "participant \<Rightarrow> json" where
  "participant_json p = JObj [(''name'', j_opt JStr (np_name p)), (''email'', j_opt JStr (np_email p))]"

datatype speaker_source = Microphone | Speaker

datatype attribution_side = Me | Them

record transcript_segment =
  ts_speaker_source :: "speaker_source option"
  ts_attribution :: "attribution_side option"
  ts_speaker_label :: "string option"
  ts_text :: string
  ts_start_time :: "datetime option"
  ts_end_time :: "datetime option"

definition valid_segment :: "transcript_segment \<Rightarrow> bool" where
  "valid_segment t \<longleftrightarrow> opt_all (in_len 0 120) (ts_speaker_label t) \<and> in_len 1 20000 (ts_text t)"

definition segment_json :: "transcript_segment \<Rightarrow> json" where
  "segment_json t = JObj [
     (''speaker_source'', j_opt (\<lambda>x. JStr (case x of Microphone \<Rightarrow> ''microphone'' | Speaker \<Rightarrow> ''speaker'')) (ts_speaker_source t)),
     (''attribution'', j_opt (\<lambda>x. JStr (case x of Me \<Rightarrow> ''me'' | Them \<Rightarrow> ''them'')) (ts_attribution t)),
     (''speaker_label'', j_opt JStr (ts_speaker_label t)),
     (''text'', JStr (ts_text t)),
     (''start_time'', j_opt (\<lambda>x. JStr (json_time x)) (ts_start_time t)),
     (''end_time'', j_opt (\<lambda>x. JStr (json_time x)) (ts_end_time t))]"

record meeting_content =
  mc_summary_text :: "string option"
  mc_summary_markdown :: "string option"
  mc_private_notes_text :: "string option"
  mc_private_notes_markdown :: "string option"
  mc_transcript :: "transcript_segment list"

definition valid_meeting_content :: "meeting_content \<Rightarrow> bool" where
  "valid_meeting_content c \<longleftrightarrow> opt_all (in_len 0 200000) (mc_summary_text c)
     \<and> opt_all (in_len 0 400000) (mc_summary_markdown c)
     \<and> opt_all (in_len 0 200000) (mc_private_notes_text c)
     \<and> opt_all (in_len 0 400000) (mc_private_notes_markdown c)
     \<and> length (mc_transcript c) \<le> 20000 \<and> list_all valid_segment (mc_transcript c)"

definition meeting_content_empty :: "meeting_content \<Rightarrow> bool" where
  "meeting_content_empty c \<longleftrightarrow> \<not> (truthy (mc_summary_text c) \<or> truthy (mc_summary_markdown c)
     \<or> truthy (mc_private_notes_text c) \<or> truthy (mc_private_notes_markdown c) \<or> mc_transcript c \<noteq> [])"

definition meeting_content_json :: "meeting_content \<Rightarrow> json" where
  "meeting_content_json c = JObj [
     (''summary_text'', j_opt JStr (mc_summary_text c)),
     (''summary_markdown'', j_opt JStr (mc_summary_markdown c)),
     (''private_notes_text'', j_opt JStr (mc_private_notes_text c)),
     (''private_notes_markdown'', j_opt JStr (mc_private_notes_markdown c)),
     (''transcript'', JList (map segment_json (mc_transcript c)))]"

definition opt_len :: "string option \<Rightarrow> nat" where
  "opt_len x = (case x of None \<Rightarrow> 0 | Some s \<Rightarrow> length s)"

definition meeting_content_metrics :: "meeting_content \<Rightarrow> bool \<Rightarrow> nat \<Rightarrow> revision_metrics" where
  "meeting_content_metrics c title_present attendee_count = \<lparr>
     rm_title_present = title_present,
     rm_attendee_count = attendee_count,
     rm_summary_chars = opt_len (mc_summary_text c) + opt_len (mc_summary_markdown c),
     rm_private_notes_chars = opt_len (mc_private_notes_text c) + opt_len (mc_private_notes_markdown c),
     rm_transcript_segments = length (mc_transcript c),
     rm_transcript_chars = sum_list (map (\<lambda>t. length (ts_text t)) (mc_transcript c)),
     rm_body_chars = 0,
     rm_attachment_count = 0\<rparr>"

record meeting =
  nm_identity :: source_identity
  nm_title :: "string option"
  nm_occurred_at :: "datetime option"
  nm_provider_updated_at :: "datetime option"
  nm_attendees :: "participant list"
  nm_availability :: availability
  nm_unavailable_reason :: "string option"
  nm_content :: meeting_content
  nm_provider_web_url :: "string option"

definition https_only :: "string option \<Rightarrow> bool" where
  "https_only u \<longleftrightarrow> opt_all (\<lambda>s. startswith s ''https://'') u"

definition availability_matches :: "availability \<Rightarrow> bool \<Rightarrow> bool" where
  "availability_matches a has_content \<longleftrightarrow> (a = ContentAvailable \<longleftrightarrow> has_content)"

definition valid_meeting :: "meeting \<Rightarrow> bool" where
  "valid_meeting m \<longleftrightarrow> valid_identity (nm_identity m) \<and> opt_all (in_len 0 500) (nm_title m)
     \<and> length (nm_attendees m) \<le> 1000 \<and> list_all valid_participant (nm_attendees m)
     \<and> opt_all (in_len 0 300) (nm_unavailable_reason m) \<and> valid_meeting_content (nm_content m)
     \<and> opt_all (in_len 0 1000) (nm_provider_web_url m) \<and> https_only (nm_provider_web_url m)
     \<and> availability_matches (nm_availability m) (\<not> meeting_content_empty (nm_content m))"

definition meeting_metadata :: "meeting \<Rightarrow> json" where
  "meeting_metadata m = JObj [
     (''title'', j_opt JStr (nm_title m)),
     (''occurred_at'', j_opt (\<lambda>t. JStr (isoformat t)) (nm_occurred_at m)),
     (''provider_updated_at'', j_opt (\<lambda>t. JStr (isoformat t)) (nm_provider_updated_at m)),
     (''attendees'', JList (map participant_json (nm_attendees m))),
     (''provider_web_url'', j_opt JStr (nm_provider_web_url m))]"

definition meeting_snapshot :: "meeting \<Rightarrow> json" where
  "meeting_snapshot m = JObj [
     (''availability'', JStr (availability_value (nm_availability m))),
     (''unavailable_reason'', j_opt JStr (nm_unavailable_reason m)),
     (''metadata'', meeting_metadata m),
     (''content'', meeting_content_json (nm_content m))]"

definition meeting_metrics :: "meeting \<Rightarrow> revision_metrics" where
  "meeting_metrics m =
     meeting_content_metrics (nm_content m) (nm_title m \<noteq> None) (length (nm_attendees m))"

subsection \<open>Email messages\<close>

datatype email_role = RoleFrom | RoleTo | RoleCc

record email_participant =
  ep_role :: email_role
  ep_name :: "string option"
  ep_email :: string

definition valid_email_participant :: "email_participant \<Rightarrow> bool" where
  "valid_email_participant p \<longleftrightarrow> opt_all (in_len 0 200) (ep_name p) \<and> in_len 3 320 (ep_email p)"

definition email_participant_json :: "email_participant \<Rightarrow> json" where
  "email_participant_json p = JObj [
     (''role'', JStr (case ep_role p of RoleFrom \<Rightarrow> ''from'' | RoleTo \<Rightarrow> ''to'' | RoleCc \<Rightarrow> ''cc'')),
     (''name'', j_opt JStr (ep_name p)), (''email'', JStr (ep_email p))]"

record email_content =
  ec_body_text :: "string option"
  ec_quoted_text_removed :: bool

definition valid_email_content :: "email_content \<Rightarrow> bool" where
  "valid_email_content c \<longleftrightarrow> opt_all (in_len 0 200000) (ec_body_text c)"

definition email_content_empty :: "email_content \<Rightarrow> bool" where
  "email_content_empty c \<longleftrightarrow> \<not> truthy (ec_body_text c)"

definition email_content_json :: "email_content \<Rightarrow> json" where
  "email_content_json c = JObj [
     (''body_text'', j_opt JStr (ec_body_text c)),
     (''quoted_text_removed'', JBool (ec_quoted_text_removed c))]"

definition email_content_metrics :: "email_content \<Rightarrow> bool \<Rightarrow> nat \<Rightarrow> nat \<Rightarrow> revision_metrics" where
  "email_content_metrics c title_present attendee_count attachment_count = \<lparr>
     rm_title_present = title_present,
     rm_attendee_count = attendee_count,
     rm_summary_chars = 0,
     rm_private_notes_chars = 0,
     rm_transcript_segments = 0,
     rm_transcript_chars = 0,
     rm_body_chars = opt_len (ec_body_text c),
     rm_attachment_count = attachment_count\<rparr>"

record email_message =
  ne_identity :: source_identity
  ne_thread_id :: string
  ne_title :: "string option"
  ne_occurred_at :: "datetime option"
  ne_provider_updated_at :: "datetime option"
  ne_attendees :: "email_participant list"
  ne_message_id_header :: "string option"
  ne_in_reply_to :: "string option"
  ne_reply_depth :: nat
  ne_attachment_count :: nat
  ne_availability :: availability
  ne_unavailable_reason :: "string option"
  ne_content :: email_content
  ne_provider_web_url :: "string option"

definition valid_email :: "email_message \<Rightarrow> bool" where
  "valid_email m \<longleftrightarrow> valid_identity (ne_identity m) \<and> si_kind (ne_identity m) = EmailMessage
     \<and> in_len 1 120 (ne_thread_id m) \<and> opt_all (in_len 0 500) (ne_title m)
     \<and> length (ne_attendees m) \<le> 1000 \<and> list_all valid_email_participant (ne_attendees m)
     \<and> opt_all (in_len 0 998) (ne_message_id_header m) \<and> opt_all (in_len 0 998) (ne_in_reply_to m)
     \<and> ne_reply_depth m \<le> 10000 \<and> ne_attachment_count m \<le> 10000
     \<and> opt_all (in_len 0 300) (ne_unavailable_reason m) \<and> valid_email_content (ne_content m)
     \<and> opt_all (in_len 0 1000) (ne_provider_web_url m) \<and> https_only (ne_provider_web_url m)
     \<and> availability_matches (ne_availability m) (\<not> email_content_empty (ne_content m))"

definition email_metadata :: "email_message \<Rightarrow> json" where
  "email_metadata m = JObj [
     (''title'', j_opt JStr (ne_title m)),
     (''occurred_at'', j_opt (\<lambda>t. JStr (isoformat t)) (ne_occurred_at m)),
     (''provider_updated_at'', j_opt (\<lambda>t. JStr (isoformat t)) (ne_provider_updated_at m)),
     (''attendees'', JList (map email_participant_json (ne_attendees m))),
     (''provider_web_url'', j_opt JStr (ne_provider_web_url m)),
     (''thread_id'', JStr (ne_thread_id m)),
     (''message_id_header'', j_opt JStr (ne_message_id_header m)),
     (''in_reply_to'', j_opt JStr (ne_in_reply_to m)),
     (''reply_depth'', JInt (int (ne_reply_depth m))),
     (''attachment_count'', JInt (int (ne_attachment_count m)))]"

definition email_snapshot :: "email_message \<Rightarrow> json" where
  "email_snapshot m = JObj [
     (''availability'', JStr (availability_value (ne_availability m))),
     (''unavailable_reason'', j_opt JStr (ne_unavailable_reason m)),
     (''metadata'', email_metadata m),
     (''content'', email_content_json (ne_content m))]"

definition email_metrics :: "email_message \<Rightarrow> revision_metrics" where
  "email_metrics m =
     email_content_metrics (ne_content m) (ne_title m \<noteq> None) (length (ne_attendees m)) (ne_attachment_count m)"

subsection \<open>Either shape\<close>

text \<open>\<^verbatim>\<open>NormalizedSource\<close>: the shared surface of both shapes that the ledger uses.\<close>

datatype normalized_source = MeetingSource meeting | EmailSource email_message

fun ns_identity :: "normalized_source \<Rightarrow> source_identity" where
  "ns_identity (MeetingSource m) = nm_identity m"
| "ns_identity (EmailSource m) = ne_identity m"

fun ns_availability :: "normalized_source \<Rightarrow> availability" where
  "ns_availability (MeetingSource m) = nm_availability m"
| "ns_availability (EmailSource m) = ne_availability m"

fun ns_unavailable_reason :: "normalized_source \<Rightarrow> string option" where
  "ns_unavailable_reason (MeetingSource m) = nm_unavailable_reason m"
| "ns_unavailable_reason (EmailSource m) = ne_unavailable_reason m"

fun ns_occurred_at :: "normalized_source \<Rightarrow> datetime option" where
  "ns_occurred_at (MeetingSource m) = nm_occurred_at m"
| "ns_occurred_at (EmailSource m) = ne_occurred_at m"

fun ns_provider_updated_at :: "normalized_source \<Rightarrow> datetime option" where
  "ns_provider_updated_at (MeetingSource m) = nm_provider_updated_at m"
| "ns_provider_updated_at (EmailSource m) = ne_provider_updated_at m"

fun ns_snapshot :: "normalized_source \<Rightarrow> json" where
  "ns_snapshot (MeetingSource m) = meeting_snapshot m"
| "ns_snapshot (EmailSource m) = email_snapshot m"

fun ns_metrics :: "normalized_source \<Rightarrow> revision_metrics" where
  "ns_metrics (MeetingSource m) = meeting_metrics m"
| "ns_metrics (EmailSource m) = email_metrics m"

fun ns_content_hash :: "normalized_source \<Rightarrow> string" where
  "ns_content_hash (MeetingSource m) = sha256_hex (canonical_bytes (meeting_content_json (nm_content m)))"
| "ns_content_hash (EmailSource m) = sha256_hex (canonical_bytes (email_content_json (ne_content m)))"

text \<open>A validated payload, its texts stripped by its constructor.\<close>

fun valid_normalized :: "normalized_source \<Rightarrow> bool" where
  "valid_normalized (MeetingSource m) \<longleftrightarrow> valid_meeting m \<and> strip_identity (nm_identity m) = nm_identity m
     \<and> map_option strip (nm_unavailable_reason m) = nm_unavailable_reason m"
| "valid_normalized (EmailSource m) \<longleftrightarrow> valid_email m \<and> strip_identity (ne_identity m) = ne_identity m
     \<and> map_option strip (ne_unavailable_reason m) = ne_unavailable_reason m"

end
