(* ===== verification/Ledger.thy ===== *)
theory Ledger
  imports Normalized
begin

section \<open>The evidence ledger\<close>

text \<open>
  \<^verbatim>\<open>webapp/services/evidence_ledger_service.py\<close>: the append-only store of evidence
  sources.  A mutating method reads one source record, checks a guard, computes the next
  record at the current time and writes it back under the ledger lock.  The computation is a
  \<open>*_step\<close> function on source records; \<open>update_source\<close> is the read, the clock reading, the
  write and the summary around it.  The lock makes each method atomic, so a history of the
  ledger is a sequence of method calls.
\<close>

subsection \<open>State\<close>

datatype forget_status = ForgetPending | ForgetComplete

datatype overview_cleanup = NotPresent | Repaired | OverviewWithheld

record forget_receipt =
  fr_source_id :: string
  fr_workspace_id :: string
  fr_requested_at :: string
  fr_status :: forget_status
  fr_overview_status :: "overview_cleanup option"

text \<open>
  The directory tree of the ledger: \<^verbatim>\<open>scope.json\<close>, \<^verbatim>\<open>sources/\<close>, \<^verbatim>\<open>content/<source>/<hash>\<close>
  and \<^verbatim>\<open>forgotten/\<close>.  \<open>lg_scope\<close> is the identity computed from the workspace path.
  \<open>lg_clock\<close> is the injected clock, read for the \<open>lg_ticks\<close>-th time next, and \<open>lg_tokens\<close> the
  supply of \<^verbatim>\<open>uuid4\<close> tokens.
\<close>

record ledger =
  lg_scope :: scope_identity
  lg_actor :: string
  lg_scope_file :: "scope_identity stored option"
  lg_sources :: "evidence_source stored dir"
  lg_contents :: "((string \<times> string) \<times> json stored) list"
  lg_forgotten :: "forget_receipt stored dir"
  lg_clock :: "nat \<Rightarrow> datetime"
  lg_ticks :: nat
  lg_tokens :: "nat \<Rightarrow> string"
  lg_token_count :: nat

abbreviation ledger_error :: "int \<Rightarrow> string \<Rightarrow> (ledger, 'a) op" where
  "ledger_error status code \<equiv> raise (EvidenceLedgerError status code)"

definition malformed :: exn where
  "malformed = EvidenceLedgerError 409 ''malformed_storage''"

definition ledger_now :: "(ledger, datetime) op" where
  "ledger_now l = (Inr (lg_clock l (lg_ticks l)), l\<lparr>lg_ticks := Suc (lg_ticks l)\<rparr>)"

definition new_token :: "(ledger, string) op" where
  "new_token l = (Inr (take 16 (lg_tokens l (lg_token_count l))), l\<lparr>lg_token_count := Suc (lg_token_count l)\<rparr>)"

subsection \<open>Scope\<close>

definition scope :: "(ledger, scope_identity) op" where
  "scope = bnd (read_st (\<lambda>l. (lg_scope l, lg_scope_file l))) (\<lambda>(computed, recorded).
     case recorded of
       None \<Rightarrow> ret computed
     | Some Corrupt \<Rightarrow> raise malformed
     | Some (Intact sc) \<Rightarrow>
         if \<not> valid_scope sc then raise malformed
         else if sc \<noteq> computed then ledger_error 409 ''scope_mismatch''
         else ret computed)"

definition ensure_scope_file :: "(ledger, unit) op" where
  "ensure_scope_file = bnd scope (\<lambda>sc. modify_st (\<lambda>l.
     if lg_scope_file l = None then l\<lparr>lg_scope_file := Some (Intact sc)\<rparr> else l))"

subsection \<open>The deletion barrier\<close>

definition is_forgotten :: "string \<Rightarrow> (ledger, bool) op" where
  "is_forgotten sid =
     (if \<not> source_id_ok sid then ledger_error 404 ''unknown_source''
      else read_st (\<lambda>l. map_of (lg_forgotten l) sid \<noteq> None))"

definition forgotten_ids :: "ledger \<Rightarrow> string list" where
  "forgotten_ids l = filter (\<lambda>n. startswith n ''src_'') (dir_listing (lg_forgotten l))"

definition get_forget_receipt :: "string \<Rightarrow> (ledger, forget_receipt option) op" where
  "get_forget_receipt sid =
     (if \<not> source_id_ok sid then ledger_error 404 ''unknown_source''
      else bnd (read_st (\<lambda>l. map_of (lg_forgotten l) sid)) (\<lambda>f.
        case f of
          None \<Rightarrow> ret None
        | Some Corrupt \<Rightarrow> raise malformed
        | Some (Intact r) \<Rightarrow> bnd scope (\<lambda>sc.
            if fr_source_id r \<noteq> sid \<or> fr_workspace_id r \<noteq> workspace_id sc then raise malformed
            else ret (Some r))))"

subsection \<open>Reading and writing source records\<close>

definition read_source :: "string \<Rightarrow> (ledger, evidence_source) op" where
  "read_source sid = bnd (is_forgotten sid) (\<lambda>forgotten.
     if forgotten then ledger_error 410 ''source_forgotten''
     else bnd (read_st (\<lambda>l. map_of (lg_sources l) sid)) (\<lambda>f.
       case f of
         None \<Rightarrow> ledger_error 404 ''unknown_source''
       | Some Corrupt \<Rightarrow> raise malformed
       | Some (Intact raw) \<Rightarrow>
           (case parse_source raw of
              Inl _ \<Rightarrow> raise malformed
            | Inr s \<Rightarrow>
                if src_id s \<noteq> sid then raise malformed
                else bnd scope (\<lambda>sc.
                  if src_scope s \<noteq> sc then ledger_error 409 ''scope_mismatch'' else ret s))))"

definition write_source :: "evidence_source \<Rightarrow> (ledger, unit) op" where
  "write_source s =
     (if \<not> source_id_ok (src_id s) then ledger_error 404 ''unknown_source''
      else modify_st (\<lambda>l. l\<lparr>lg_sources := AList.update (src_id s) (Intact s) (lg_sources l)\<rparr>))"

subsection \<open>Summaries\<close>

record latest_view =
  lv_revision :: nat
  lv_content_hash :: string
  lv_body_hash :: string
  lv_change :: rev_change
  lv_availability :: availability
  lv_trigger :: import_trigger
  lv_import_id :: string
  lv_occurred_at :: "string option"
  lv_provider_updated_at :: "string option"
  lv_observed_at :: string
  lv_metrics :: revision_metrics
  lv_unavailable_reason :: "string option"

record source_summary =
  sm_source_id :: string
  sm_scope :: scope_identity
  sm_provider :: provider
  sm_connection_id :: string
  sm_kind :: source_kind
  sm_provider_object_id :: string
  sm_created_at :: string
  sm_updated_at :: string
  sm_latest_revision :: nat
  sm_revision_count :: nat
  sm_availability :: availability
  sm_latest :: latest_view
  sm_processing :: processing_state
  sm_association :: assoc_decision
  sm_revisions :: "source_revision list option"
  sm_history :: "assoc_decision list option"
  sm_outcome :: "proc_status option"

definition summarize :: "bool \<Rightarrow> evidence_source \<Rightarrow> source_summary" where
  "summarize include_history s = (let r = last (src_revisions s) in \<lparr>
     sm_source_id = src_id s,
     sm_scope = src_scope s,
     sm_provider = si_provider (src_identity s),
     sm_connection_id = si_connection_id (src_identity s),
     sm_kind = si_kind (src_identity s),
     sm_provider_object_id = si_provider_object_id (src_identity s),
     sm_created_at = isoformat (src_created_at s),
     sm_updated_at = isoformat (src_updated_at s),
     sm_latest_revision = src_latest_revision s,
     sm_revision_count = length (src_revisions s),
     sm_availability = src_availability s,
     sm_latest = \<lparr>
       lv_revision = rev_revision r,
       lv_content_hash = rev_content_hash r,
       lv_body_hash = rev_body_hash r,
       lv_change = rev_change r,
       lv_availability = rev_availability r,
       lv_trigger = rev_trigger r,
       lv_import_id = rev_import_id r,
       lv_occurred_at = map_option isoformat (rev_occurred_at r),
       lv_provider_updated_at = map_option isoformat (rev_provider_updated_at r),
       lv_observed_at = isoformat (rev_observed_at r),
       lv_metrics = rev_metrics r,
       lv_unavailable_reason = rev_unavailable_reason r\<rparr>,
     sm_processing = src_processing s,
     sm_association = src_association s,
     sm_revisions = (if include_history then Some (src_revisions s) else None),
     sm_history = (if include_history then Some (src_history s) else None),
     sm_outcome = None\<rparr>)"

text \<open>The read, the guard and step, the write and the summary of a mutating method.\<close>

definition update_source ::
  "string \<Rightarrow> (evidence_source \<Rightarrow> datetime \<Rightarrow> exn + evidence_source option) \<Rightarrow> (ledger, source_summary) op" where
  "update_source sid step = bnd (read_source sid) (\<lambda>s. \<lambda>l.
     case step s (lg_clock l (lg_ticks l)) of
       Inl e \<Rightarrow> (Inl e, l)
     | Inr None \<Rightarrow> (Inr (summarize False s), l)
     | Inr (Some s') \<Rightarrow> bnd ledger_now (\<lambda>_. bnd (write_source s') (\<lambda>_. ret (summarize False s'))) l)"

subsection \<open>Deriving the waiting state\<close>

definition derive_processing :: "evidence_source \<Rightarrow> datetime \<Rightarrow> evidence_source" where
  "derive_processing s now = (let p = src_processing s in
     if ps_status p \<notin> {Discovered, AwaitingAssociation, AwaitingContent, Queued} then s
     else
       let st = (if ad_state (src_association s) \<noteq> Associated then AwaitingAssociation
                 else if src_availability s \<noteq> ContentAvailable then AwaitingContent
                 else Queued);
           st' = (if ps_processed_revision p = Some (src_latest_revision s) then Processed else st)
       in s\<lparr>src_processing := p\<lparr>ps_status := st', ps_updated_at := now\<rparr>\<rparr>)"

subsection \<open>Imports\<close>

record import_result =
  ir_source_id :: string
  ir_provider_object_id :: string
  ir_outcome :: string
  ir_created_revision :: bool
  ir_revision :: nat
  ir_content_hash :: string
  ir_body_hash :: string
  ir_change :: rev_change
  ir_availability :: availability
  ir_processing_status :: proc_status
  ir_association_state :: assoc_state

definition import_result_of ::
  "evidence_source \<Rightarrow> source_revision \<Rightarrow> bool \<Rightarrow> string \<Rightarrow> import_result" where
  "import_result_of s r created outcome = \<lparr>
     ir_source_id = src_id s,
     ir_provider_object_id = si_provider_object_id (src_identity s),
     ir_outcome = outcome,
     ir_created_revision = created,
     ir_revision = rev_revision r,
     ir_content_hash = rev_content_hash r,
     ir_body_hash = rev_body_hash r,
     ir_change = rev_change r,
     ir_availability = rev_availability r,
     ir_processing_status = ps_status (src_processing s),
     ir_association_state = ad_state (src_association s)\<rparr>"

definition new_revision ::
  "normalized_source \<Rightarrow> nat \<Rightarrow> rev_change \<Rightarrow> string \<Rightarrow> import_trigger \<Rightarrow> datetime \<Rightarrow> source_revision" where
  "new_revision m n change import_id trigger now = \<lparr>
     rev_revision = n,
     rev_content_hash = sha256_hex (canonical_bytes (ns_snapshot m)),
     rev_body_hash = ns_content_hash m,
     rev_change = change,
     rev_availability = ns_availability m,
     rev_trigger = trigger,
     rev_import_id = import_id,
     rev_occurred_at = ns_occurred_at m,
     rev_provider_updated_at = ns_provider_updated_at m,
     rev_observed_at = now,
     rev_retrieved_at = now,
     rev_metrics = ns_metrics m,
     rev_unavailable_reason = ns_unavailable_reason m\<rparr>"

definition first_decision :: "datetime \<Rightarrow> assoc_decision" where
  "first_decision now = \<lparr>
     ad_sequence = 1, ad_state = Unassociated, ad_account = None, ad_opportunity_slug = None,
     ad_method = None, ad_actor = ''system'', ad_reason = ''Imported without association.'',
     ad_candidates = [], ad_crm_account_id = None, ad_crm_opportunity_id = None,
     ad_supersedes_sequence = None, ad_recorded_at = now\<rparr>"

definition create_source ::
  "scope_identity \<Rightarrow> normalized_source \<Rightarrow> source_revision \<Rightarrow> datetime \<Rightarrow> evidence_source" where
  "create_source sc m r now = derive_processing \<lparr>
     src_id = source_id_for sc (ns_identity m),
     src_scope = sc,
     src_identity = ns_identity m,
     src_created_at = now,
     src_updated_at = now,
     src_latest_revision = 1,
     src_availability = ns_availability m,
     src_processing = \<lparr>ps_status = Discovered, ps_attempts = 0, ps_retry_eligible = False,
       ps_last_error_code = None, ps_processed_revision = None, ps_updated_at = now\<rparr>,
     src_association = first_decision now,
     src_history = [first_decision now],
     src_revisions = [r]\<rparr> now"

text \<open>What kind of change the next revision is, against the latest one.\<close>

definition classify_change :: "source_revision \<Rightarrow> normalized_source \<Rightarrow> rev_change" where
  "classify_change prev m =
     (if rev_availability prev \<noteq> ns_availability m then AvailabilityChange
      else if rev_body_hash prev \<noteq> ns_content_hash m then ContentChange
      else MetadataChange)"

definition revise_source ::
  "evidence_source \<Rightarrow> normalized_source \<Rightarrow> source_revision \<Rightarrow> datetime \<Rightarrow> evidence_source" where
  "revise_source s m r now = (let p = src_processing s;
       p' = (if ps_status p \<noteq> Processing
             then p\<lparr>ps_status := Discovered, ps_retry_eligible := False,
                    ps_last_error_code := None, ps_updated_at := now\<rparr>
             else p)
     in derive_processing (s\<lparr>
          src_updated_at := now,
          src_latest_revision := src_latest_revision s + 1,
          src_availability := ns_availability m,
          src_revisions := src_revisions s @ [r],
          src_processing := p'\<rparr>) now)"

definition store_content :: "string \<Rightarrow> string \<Rightarrow> json \<Rightarrow> (ledger, unit) op" where
  "store_content sid h snapshot = modify_st (\<lambda>l.
     if map_of (lg_contents l) (sid, h) = None
     then l\<lparr>lg_contents := ((sid, h), Intact snapshot) # lg_contents l\<rparr> else l)"

definition max_content_bytes :: nat where "max_content_bytes = 4000000"

text \<open>The two branches of \<^verbatim>\<open>_record_meeting\<close>: no record yet, and a record to compare with.\<close>

definition store_revision ::
  "string \<Rightarrow> normalized_source \<Rightarrow> evidence_source \<Rightarrow> source_revision \<Rightarrow> string \<Rightarrow> (ledger, import_result) op" where
  "store_revision sid m s r outcome =
     bnd (store_content sid (sha256_hex (canonical_bytes (ns_snapshot m))) (ns_snapshot m)) (\<lambda>_.
     bnd (write_source s) (\<lambda>_. ret (import_result_of s r True outcome)))"

definition record_first ::
  "string \<Rightarrow> scope_identity \<Rightarrow> normalized_source \<Rightarrow> string \<Rightarrow> import_trigger \<Rightarrow> datetime \<Rightarrow> (ledger, import_result) op" where
  "record_first sid sc m import_id trigger now =
     (let r = new_revision m 1 Initial import_id trigger now in
      store_revision sid m (create_source sc m r now) r ''created'')"

definition record_next ::
  "string \<Rightarrow> normalized_source \<Rightarrow> string \<Rightarrow> import_trigger \<Rightarrow> datetime \<Rightarrow> evidence_source \<Rightarrow> (ledger, import_result) op" where
  "record_next sid m import_id trigger now existing =
     (let prev = last (src_revisions existing) in
      if src_identity existing \<noteq> ns_identity m then ledger_error 409 ''storage_conflict''
      else if rev_content_hash prev = sha256_hex (canonical_bytes (ns_snapshot m))
      then ret (import_result_of existing prev False ''duplicate'')
      else
        let r = new_revision m (src_latest_revision existing + 1) (classify_change prev m)
                  import_id trigger now
        in store_revision sid m (revise_source existing m r now) r ''new_revision'')"

definition record_meeting ::
  "normalized_source \<Rightarrow> string \<Rightarrow> import_trigger \<Rightarrow> (ledger, import_result) op" where
  "record_meeting m import_id trigger = bnd scope (\<lambda>sc.
     let sid = source_id_for sc (ns_identity m) in
     bnd (is_forgotten sid) (\<lambda>forgotten.
     if forgotten then ledger_error 410 ''source_forgotten''
     else bnd ledger_now (\<lambda>now.
     if length (canonical_bytes (ns_snapshot m)) > max_content_bytes
     then ledger_error 413 ''content_too_large''
     else bnd (read_st (\<lambda>l. map_of (lg_sources l) sid)) (\<lambda>f.
     case f of
       None \<Rightarrow> record_first sid sc m import_id trigger now
     | Some _ \<Rightarrow> bnd (read_source sid) (record_next sid m import_id trigger now)))))"

definition any_forgotten :: "scope_identity \<Rightarrow> normalized_source list \<Rightarrow> (ledger, bool) op" where
  "any_forgotten sc ms = fold_op (\<lambda>m acc.
     if acc then ret True else is_forgotten (source_id_for sc (ns_identity m))) ms False"

definition import_meetings ::
  "normalized_source list \<Rightarrow> string option \<Rightarrow> import_trigger \<Rightarrow> (ledger, string \<times> import_result list) op" where
  "import_meetings ms import_id trigger =
     bnd (case import_id of None \<Rightarrow> new_token | Some t \<Rightarrow> ret t) (\<lambda>token.
     if \<not> hexn 16 token then ledger_error 400 ''invalid_import_id''
     else bnd scope (\<lambda>sc. bnd (any_forgotten sc ms) (\<lambda>forgotten.
     if forgotten then ledger_error 410 ''source_forgotten''
     else bnd ensure_scope_file (\<lambda>_.
     bnd (map_op (\<lambda>m. record_meeting m token trigger) ms) (\<lambda>results. ret (token, results))))))"

subsection \<open>Association\<close>

definition append_decision :: "evidence_source \<Rightarrow> assoc_decision \<Rightarrow> datetime \<Rightarrow> evidence_source" where
  "append_decision s d now = derive_processing (s\<lparr>
     src_updated_at := now,
     src_association := d,
     src_history := src_history s @ [d]\<rparr>) now"

text \<open>Back to \<^verbatim>\<open>discovered\<close>, nothing processed; then the waiting state is derived again.\<close>

definition reset_processing :: "string option \<Rightarrow> evidence_source \<Rightarrow> datetime \<Rightarrow> evidence_source" where
  "reset_processing code s now = derive_processing (s\<lparr>src_processing := (src_processing s)\<lparr>
     ps_status := Discovered, ps_processed_revision := None, ps_retry_eligible := False,
     ps_last_error_code := code, ps_updated_at := now\<rparr>\<rparr>) now"

definition blank_decision :: "evidence_source \<Rightarrow> assoc_state \<Rightarrow> string \<Rightarrow> string \<Rightarrow> datetime \<Rightarrow> assoc_decision" where
  "blank_decision s st actor reason now = \<lparr>
     ad_sequence = length (src_history s) + 1, ad_state = st, ad_account = None,
     ad_opportunity_slug = None, ad_method = None, ad_actor = actor, ad_reason = reason,
     ad_candidates = [], ad_crm_account_id = None, ad_crm_opportunity_id = None,
     ad_supersedes_sequence = None, ad_recorded_at = now\<rparr>"

definition propose_step ::
  "assoc_candidate list \<Rightarrow> string \<Rightarrow> evidence_source \<Rightarrow> datetime \<Rightarrow> exn + evidence_source option" where
  "propose_step candidates reason s now =
     (if ad_state (src_association s) = Associated
      then Inl (EvidenceLedgerError 409 ''already_associated'')
      else case mk_decision ((blank_decision s Proposed ''system'' reason now)\<lparr>ad_candidates := candidates\<rparr>) of
        Inl e \<Rightarrow> Inl e
      | Inr d \<Rightarrow> Inr (Some (append_decision s d now)))"

definition propose_association ::
  "string \<Rightarrow> assoc_candidate list \<Rightarrow> string \<Rightarrow> (ledger, source_summary) op" where
  "propose_association sid candidates reason =
     (if candidates = [] then ledger_error 400 ''no_candidates''
      else if list_ex (\<lambda>c. auto_method (ac_method c)) candidates then ledger_error 400 ''invalid_method''
      else update_source sid (propose_step candidates reason))"

record resolved_identity =
  safe_account :: string
  safe_opp :: string
  opp_account_sfdc :: "string option"
  opp_sfdc :: "string option"
  opp_metadata :: json
  opp_name :: string

definition supersedes_of :: "evidence_source \<Rightarrow> nat option" where
  "supersedes_of s = (if ad_state (src_association s) = Associated
     then Some (ad_sequence (src_association s)) else None)"

definition confirm_step ::
  "resolved_identity \<Rightarrow> assoc_method \<Rightarrow> string \<Rightarrow> string \<Rightarrow> evidence_source \<Rightarrow> datetime
   \<Rightarrow> exn + evidence_source option" where
  "confirm_step i method actor reason s now = (let cur = src_association s in
     if ad_state cur = Associated \<and> ad_account cur = Some (safe_account i)
        \<and> ad_opportunity_slug cur = Some (safe_opp i)
     then Inr None
     else case mk_decision ((blank_decision s Associated actor reason now)\<lparr>
         ad_account := Some (safe_account i), ad_opportunity_slug := Some (safe_opp i),
         ad_method := Some method, ad_crm_account_id := opp_account_sfdc i,
         ad_crm_opportunity_id := opp_sfdc i, ad_supersedes_sequence := supersedes_of s\<rparr>) of
       Inl e \<Rightarrow> Inl e
     | Inr d \<Rightarrow>
         (let s' = append_decision s d now in
          Inr (Some (if ad_supersedes_sequence d \<noteq> None then reset_processing None s' now else s'))))"

definition confirm_association ::
  "string \<Rightarrow> exn + resolved_identity \<Rightarrow> string \<Rightarrow> assoc_method \<Rightarrow> string option \<Rightarrow> (ledger, source_summary) op" where
  "confirm_association sid identity reason method actor =
     (if \<not> human_method method then ledger_error 400 ''invalid_method''
      else bnd (of_sum identity) (\<lambda>i. bnd (read_st lg_actor) (\<lambda>own.
        update_source sid (confirm_step i method (case actor of Some a \<Rightarrow> (if a = [] then own else a) | None \<Rightarrow> own) reason))))"

definition clear_step ::
  "string \<Rightarrow> string \<Rightarrow> evidence_source \<Rightarrow> datetime \<Rightarrow> exn + evidence_source option" where
  "clear_step actor reason s now =
     (if ad_state (src_association s) = Unassociated then Inr None
      else case mk_decision ((blank_decision s Unassociated actor reason now)\<lparr>
          ad_supersedes_sequence := supersedes_of s\<rparr>) of
        Inl e \<Rightarrow> Inl e
      | Inr d \<Rightarrow> Inr (Some (reset_processing None (append_decision s d now) now)))"

definition clear_association :: "string \<Rightarrow> string \<Rightarrow> string option \<Rightarrow> (ledger, source_summary) op" where
  "clear_association sid reason actor = bnd (read_st lg_actor) (\<lambda>own.
     update_source sid (clear_step (case actor of Some a \<Rightarrow> (if a = [] then own else a) | None \<Rightarrow> own) reason))"

subsection \<open>Processing\<close>

definition mark_processing_step :: "evidence_source \<Rightarrow> datetime \<Rightarrow> exn + evidence_source option" where
  "mark_processing_step s now = (let p = src_processing s in
     if ps_status p \<notin> {Queued, Failed} then Inl (EvidenceLedgerError 409 ''not_queued'')
     else if ps_status p = Failed \<and> \<not> ps_retry_eligible p
     then Inl (EvidenceLedgerError 409 ''retry_blocked'')
     else Inr (Some (s\<lparr>src_updated_at := now, src_processing := p\<lparr>
            ps_status := Processing, ps_attempts := ps_attempts p + 1, ps_updated_at := now\<rparr>\<rparr>)))"

definition mark_processing :: "string \<Rightarrow> (ledger, source_summary) op" where
  "mark_processing sid = update_source sid mark_processing_step"

definition mark_processed_step :: "nat \<Rightarrow> evidence_source \<Rightarrow> datetime \<Rightarrow> exn + evidence_source option" where
  "mark_processed_step revision s now = (let p = src_processing s in
     if ps_status p \<noteq> Processing then Inl (EvidenceLedgerError 409 ''not_processing'')
     else
       let superseded = (revision \<noteq> src_latest_revision s);
           s' = s\<lparr>src_updated_at := now, src_processing := p\<lparr>
             ps_status := (if superseded then Discovered else Processed),
             ps_processed_revision := (if superseded then ps_processed_revision p else Some revision),
             ps_retry_eligible := False, ps_last_error_code := None, ps_updated_at := now\<rparr>\<rparr>
       in Inr (Some (if superseded then derive_processing s' now else s')))"

definition mark_processed :: "string \<Rightarrow> nat \<Rightarrow> (ledger, source_summary) op" where
  "mark_processed sid revision = bnd (update_source sid (mark_processed_step revision)) (\<lambda>sm.
     ret (sm\<lparr>sm_outcome := Some (if revision \<noteq> sm_latest_revision sm then Superseded else Processed)\<rparr>))"

definition error_code_ok :: "string \<Rightarrow> bool" where
  "error_code_ok s \<longleftrightarrow> in_len 1 80 s \<and> list_all (\<lambda>c. is_lower c \<or> is_digit c \<or> c = CHR ''_'') s"

definition mark_failed_step :: "string \<Rightarrow> bool \<Rightarrow> evidence_source \<Rightarrow> datetime \<Rightarrow> exn + evidence_source option" where
  "mark_failed_step code retry_eligible s now = (let p = src_processing s in
     if ps_status p \<noteq> Processing then Inl (EvidenceLedgerError 409 ''not_processing'')
     else Inr (Some (s\<lparr>src_updated_at := now, src_processing := p\<lparr>
            ps_status := Failed, ps_retry_eligible := retry_eligible,
            ps_last_error_code := Some code, ps_updated_at := now\<rparr>\<rparr>)))"

definition mark_failed :: "string \<Rightarrow> string \<Rightarrow> bool \<Rightarrow> (ledger, source_summary) op" where
  "mark_failed sid code retry_eligible =
     (if \<not> error_code_ok code then ledger_error 400 ''invalid_error_code''
      else update_source sid (mark_failed_step code retry_eligible))"

definition retry_step :: "evidence_source \<Rightarrow> datetime \<Rightarrow> exn + evidence_source option" where
  "retry_step s now = (let p = src_processing s in
     if ps_status p = Failed \<and> ps_retry_eligible p
     then Inr (Some (derive_processing (s\<lparr>src_updated_at := now, src_processing := p\<lparr>
            ps_status := Discovered, ps_retry_eligible := False, ps_updated_at := now\<rparr>\<rparr>) now))
     else Inr None)"

definition retry :: "string \<Rightarrow> (ledger, source_summary) op" where
  "retry sid = update_source sid retry_step"

definition reprocess_step :: "string \<Rightarrow> evidence_source \<Rightarrow> datetime \<Rightarrow> exn + evidence_source option" where
  "reprocess_step code s now =
     (if ps_status (src_processing s) = Processing then Inl (EvidenceLedgerError 409 ''processing'')
      else Inr (Some (reset_processing (Some code) (s\<lparr>src_updated_at := now\<rparr>) now)))"

definition request_reprocessing :: "string \<Rightarrow> string \<Rightarrow> (ledger, source_summary) op" where
  "request_reprocessing sid code =
     (if \<not> error_code_ok code then ledger_error 400 ''invalid_error_code''
      else update_source sid (reprocess_step code))"

subsection \<open>Reads\<close>

definition get_source :: "string \<Rightarrow> (ledger, source_summary) op" where
  "get_source sid = bnd (read_source sid) (\<lambda>s. ret (summarize True s))"

definition read_content :: "string \<Rightarrow> nat \<Rightarrow> (ledger, json) op" where
  "read_content sid revision = bnd (read_source sid) (\<lambda>s.
     if withheld (src_availability s) then ledger_error 403 ''content_withheld''
     else case find (\<lambda>r. rev_revision r = revision) (src_revisions s) of
       None \<Rightarrow> ledger_error 404 ''unknown_revision''
     | Some r \<Rightarrow>
         if rev_availability r \<noteq> ContentAvailable then ledger_error 409 ''content_unavailable''
         else if \<not> source_id_ok sid \<or> \<not> hexn 64 (rev_content_hash r)
         then ledger_error 404 ''unknown_content''
         else bnd (read_st (\<lambda>l. map_of (lg_contents l) (sid, rev_content_hash r))) (\<lambda>c.
           case c of
             None \<Rightarrow> ledger_error 409 ''content_missing''
           | Some Corrupt \<Rightarrow> raise malformed
           | Some (Intact raw) \<Rightarrow>
               if sha256_hex (canonical_bytes raw) \<noteq> rev_content_hash r then raise malformed
               else ret raw))"

definition unprocessed :: "proc_status \<Rightarrow> bool" where
  "unprocessed st \<longleftrightarrow> st \<in> {Discovered, AwaitingAssociation, AwaitingContent, Queued, Processing, Failed}"

record source_page =
  pg_total :: nat
  pg_counts :: "(proc_status \<times> nat) list"
  pg_next_offset :: "nat option"
  pg_malformed :: nat
  pg_sources :: "source_summary list"

definition count_status :: "source_summary list \<Rightarrow> (proc_status \<times> nat) list" where
  "count_status items = foldl (\<lambda>counts i. let st = ps_status (sm_processing i) in
     AList.update st ((case map_of counts st of None \<Rightarrow> 0 | Some n \<Rightarrow> n) + 1) counts) [] items"

text \<open>One directory entry: a readable match is collected, a malformed record is counted.\<close>

definition list_entry ::
  "proc_status option \<Rightarrow> bool \<Rightarrow> string \<Rightarrow> source_summary list \<times> nat \<Rightarrow> (ledger, source_summary list \<times> nat) op" where
  "list_entry status unprocessed_only name acc =
     catch
       (bnd (read_source name) (\<lambda>s.
          let st = ps_status (src_processing s) in
          if status \<noteq> None \<and> status \<noteq> Some st then ret acc
          else if unprocessed_only \<and> \<not> unprocessed st then ret acc
          else ret (fst acc @ [summarize False s], snd acc)))
       (\<lambda>e. if exn_code e = ''source_forgotten'' then ret acc
            else if exn_code e \<in> {''malformed_storage'', ''scope_mismatch'', ''unknown_source''}
            then ret (fst acc, snd acc + 1)
            else raise e)"

definition list_sources ::
  "proc_status option \<Rightarrow> bool \<Rightarrow> int \<Rightarrow> int \<Rightarrow> (ledger, source_page) op" where
  "list_sources status unprocessed_only limit offset =
     (if \<not> (1 \<le> limit \<and> limit \<le> 500) \<or> offset < 0 then ledger_error 400 ''invalid_page''
      else bnd (read_st (\<lambda>l. dir_listing (lg_sources l))) (\<lambda>names.
        bnd (fold_op (list_entry status unprocessed_only) names ([], 0)) (\<lambda>(found, bad).
        let items = rev (sort_key (\<lambda>i. (sm_updated_at i, sm_source_id i)) found);
            next = nat offset + nat limit in
        ret \<lparr>pg_total = length items,
             pg_counts = count_status items,
             pg_next_offset = (if next < length items then Some next else None),
             pg_malformed = bad,
             pg_sources = take (nat limit) (drop (nat offset) items)\<rparr>)))"

definition unprocessed_sources :: "int \<Rightarrow> int \<Rightarrow> (ledger, source_page) op" where
  "unprocessed_sources limit offset = list_sources None True limit offset"

subsection \<open>Forgetting\<close>

definition begin_forget :: "string \<Rightarrow> (ledger, forget_receipt) op" where
  "begin_forget sid = bnd (get_forget_receipt sid) (\<lambda>receipt.
     case receipt of
       Some r \<Rightarrow> ret r
     | None \<Rightarrow> bnd (read_source sid) (\<lambda>s.
         if si_provider (src_identity s) \<noteq> Gmail then ledger_error 400 ''not_gmail''
         else bnd scope (\<lambda>sc. bnd ledger_now (\<lambda>now.
           let r = \<lparr>fr_source_id = sid, fr_workspace_id = workspace_id sc,
                    fr_requested_at = isoformat now, fr_status = ForgetPending,
                    fr_overview_status = None\<rparr> in
           bnd (modify_st (\<lambda>l. l\<lparr>lg_forgotten := AList.update sid (Intact r) (lg_forgotten l)\<rparr>))
             (\<lambda>_. ret r)))))"

definition finish_forget :: "string \<Rightarrow> overview_cleanup \<Rightarrow> (ledger, forget_receipt) op" where
  "finish_forget sid cleanup = bnd (get_forget_receipt sid) (\<lambda>receipt.
     case receipt of
       None \<Rightarrow> ledger_error 404 ''unknown_source''
     | Some r \<Rightarrow>
         (let r' = r\<lparr>fr_status := ForgetComplete, fr_overview_status := Some cleanup\<rparr> in
          bnd (modify_st (\<lambda>l. l\<lparr>lg_forgotten := AList.update sid (Intact r') (lg_forgotten l)\<rparr>))
            (\<lambda>_. ret r')))"

definition purge_forgotten_source :: "string \<Rightarrow> (ledger, unit) op" where
  "purge_forgotten_source sid = bnd (is_forgotten sid) (\<lambda>forgotten.
     if \<not> forgotten then ledger_error 409 ''forget_not_started''
     else modify_st (\<lambda>l. l\<lparr>
       lg_contents := filter (\<lambda>entry. fst (fst entry) \<noteq> sid) (lg_contents l),
       lg_sources := AList.delete sid (lg_sources l)\<rparr>))"

end
