(* ===== verification/Ledger_Facts.thy ===== *)
theory Ledger_Facts
  imports Ledger
begin

section \<open>Properties of the evidence ledger\<close>

text \<open>
  The life cycle of one source record as a step relation with its invariants, and the store
  around it: what reads return, what the deletion barrier blocks, that imports are idempotent
  and that history is append-only.
\<close>

subsection \<open>Well-formed records\<close>

text \<open>
  \<open>source_ok\<close> is everything the reader checks of a record except the size limits, which no
  writer checks; \<open>within_limits\<close> are those limits.
\<close>

definition revision_shape :: "source_revision \<Rightarrow> bool" where
  "revision_shape r \<longleftrightarrow> hexn 64 (rev_content_hash r) \<and> hexn 64 (rev_body_hash r)
     \<and> hexn 16 (rev_import_id r) \<and> valid_metrics (rev_metrics r)
     \<and> opt_all (in_len 0 300) (rev_unavailable_reason r) \<and> strip_revision r = r"

definition decision_ok :: "assoc_decision \<Rightarrow> bool" where
  "decision_ok d \<longleftrightarrow> valid_decision d \<and> strip_decision d = d"

definition processing_shape :: "processing_state \<Rightarrow> bool" where
  "processing_shape p \<longleftrightarrow> opt_all (in_len 0 80) (ps_last_error_code p)
     \<and> opt_all (\<lambda>n. 1 \<le> n) (ps_processed_revision p) \<and> strip_processing p = p"

definition source_ok :: "evidence_source \<Rightarrow> bool" where
  "source_ok s \<longleftrightarrow> source_id_ok (src_id s) \<and> valid_scope (src_scope s)
     \<and> valid_identity (src_identity s) \<and> strip_identity (src_identity s) = src_identity s
     \<and> processing_shape (src_processing s) \<and> list_all decision_ok (src_history s)
     \<and> list_all revision_shape (src_revisions s) \<and> chain_ok s
     \<and> src_availability s = rev_availability (last (src_revisions s))"

definition within_limits :: "evidence_source \<Rightarrow> bool" where
  "within_limits s \<longleftrightarrow> length (src_history s) \<le> 500 \<and> length (src_revisions s) \<le> 1000
     \<and> ps_attempts (src_processing s) \<le> 1000"

lemma hex_not_space: "is_hex c \<Longrightarrow> \<not> is_space c"
  by (auto simp: is_hex_def is_digit_def is_space_def)

lemma strip_no_space: "list_all (\<lambda>c. \<not> is_space c) s \<Longrightarrow> strip s = s"
  by (metis (no_types, lifting) dropWhile_eq_self_iff hd_in_set list_all_iff rev_rev_ident set_rev strip_def)

lemma strip_hexn: "hexn n s \<Longrightarrow> strip s = s"
  by (rule strip_no_space) (auto simp: hexn_def list_all_iff hex_not_space)

lemma source_id_okE:
  assumes "source_id_ok s"
  obtains h where "s = ''src_'' @ h" and "hexn 32 h"
proof -
  from assms obtain h where s: "s = ''src_'' @ h" by (auto simp: source_id_ok_def startswith_iff)
  with assms have "hexn 32 h" by (simp add: source_id_ok_def)
  with s show thesis by (rule that)
qed

lemma strip_source_id: "source_id_ok s \<Longrightarrow> strip s = s"
proof (erule source_id_okE, rule strip_no_space)
  fix h assume "s = ''src_'' @ h" and "hexn 32 h"
  then show "list_all (\<lambda>c. \<not> is_space c) s"
    by (auto simp: hexn_def list_all_iff hex_not_space) (simp_all add: is_space_def)
qed

lemma source_id_for_ok [simp]: "source_id_ok (source_id_for sc i)"
  by (simp add: source_id_ok_def source_id_for_def)

lemma strip_processing_id:
  "strip_processing p = p \<longleftrightarrow> map_option strip (ps_last_error_code p) = ps_last_error_code p"
  by (cases p) (simp add: strip_processing_def)

text \<open>What the ledger wrote is read back unchanged while the limits hold, and refused beyond them.\<close>

lemma chain_last_decision: "chain_ok s \<Longrightarrow> src_association s \<in> set (src_history s)"
  by (auto simp: chain_ok_def)

lemma chain_latest: "chain_ok s \<Longrightarrow> src_latest_revision s = length (src_revisions s)"
proof -
  assume c: "chain_ok s"
  then have ne: "src_revisions s \<noteq> []"
    and m: "map rev_revision (src_revisions s) = [1..<Suc (length (src_revisions s))]"
    and l: "rev_revision (last (src_revisions s)) = src_latest_revision s"
    by (auto simp: chain_ok_def)
  from ne have "rev_revision (last (src_revisions s)) = last (map rev_revision (src_revisions s))"
    by (simp add: last_map)
  also have "\<dots> = length (src_revisions s)" using ne by (simp add: m last_upt del: upt_Suc)
  finally show ?thesis using l by simp
qed

lemma chain_latest_pos: "chain_ok s \<Longrightarrow> 1 \<le> src_latest_revision s"
proof -
  assume c: "chain_ok s"
  then have "src_revisions s \<noteq> []" unfolding chain_ok_def by blast
  with chain_latest [OF c] show ?thesis by (cases "src_revisions s") simp_all
qed

lemma chain_rev_bound: "chain_ok s \<Longrightarrow> r \<in> set (src_revisions s) \<Longrightarrow>
  1 \<le> rev_revision r \<and> rev_revision r \<le> length (src_revisions s)"
proof -
  assume "chain_ok s" and "r \<in> set (src_revisions s)"
  then have "rev_revision r \<in> set [1..<Suc (length (src_revisions s))]"
    unfolding chain_ok_def by (metis image_eqI list.set_map)
  then show ?thesis by auto
qed

lemma source_ok_strip: "source_ok s \<Longrightarrow> strip_source s = s"
proof -
  assume ok: "source_ok s"
  then have hist: "map strip_decision (src_history s) = src_history s"
    and revs: "map strip_revision (src_revisions s) = src_revisions s"
    by (auto simp: source_ok_def list_all_iff decision_ok_def revision_shape_def intro: map_idI)
  have "strip_decision (src_association s) = src_association s"
    using ok chain_last_decision [of s] by (auto simp: source_ok_def list_all_iff decision_ok_def)
  moreover have "strip (src_id s) = src_id s" and "strip (workspace_id (src_scope s)) = workspace_id (src_scope s)"
    using ok by (auto simp: source_ok_def valid_scope_def strip_source_id dest: strip_hexn)
  ultimately show ?thesis
    using ok hist revs by (simp add: strip_source_def source_ok_def processing_shape_def)
qed

lemma source_ok_valid_iff: "source_ok s \<Longrightarrow> valid_source s \<longleftrightarrow> within_limits s"
proof -
  assume ok: "source_ok s"
  then have c: "chain_ok s" by (simp add: source_ok_def)
  have revs: "list_all valid_revision (src_revisions s)" if "length (src_revisions s) \<le> 1000"
    using ok chain_rev_bound [OF c] that
    by (fastforce simp: source_ok_def list_all_iff valid_revision_def revision_shape_def)
  have decs: "list_all valid_decision (src_history s)" and "valid_decision (src_association s)"
    using ok chain_last_decision [OF c] by (auto simp: source_ok_def list_all_iff decision_ok_def)
  moreover have "1 \<le> src_latest_revision s"
    using chain_latest [OF c] c by (cases "src_revisions s") (auto simp: chain_ok_def)
  ultimately show ?thesis
    using ok revs chain_latest [OF c]
    by (auto simp: valid_source_def within_limits_def source_ok_def valid_processing_def processing_shape_def)
qed

lemma parse_source_ok: "source_ok s \<Longrightarrow>
  parse_source s = (if within_limits s then Inr s else Inl ValidationError)"
  by (simp add: parse_source_def source_ok_strip source_ok_valid_iff)

subsection \<open>The life cycle of a source\<close>

text \<open>One rule per mutating method; \<open>s\<close> is the record read, \<open>s'\<close> the record written.\<close>

inductive src_step :: "evidence_source \<Rightarrow> evidence_source \<Rightarrow> bool" where
  revise: "valid_normalized m \<Longrightarrow> hexn 16 tok \<Longrightarrow> n = src_latest_revision s + 1 \<Longrightarrow>
     src_step s (revise_source s m (new_revision m n c tok trig now) now)"
| propose: "list_all valid_candidate cs \<Longrightarrow> map strip_candidate cs = cs \<Longrightarrow>
     propose_step cs reason s now = Inr (Some s') \<Longrightarrow> src_step s s'"
| confirm: "confirm_step i method actor reason s now = Inr (Some s') \<Longrightarrow> src_step s s'"
| clear: "clear_step actor reason s now = Inr (Some s') \<Longrightarrow> src_step s s'"
| processing: "mark_processing_step s now = Inr (Some s') \<Longrightarrow> src_step s s'"
| processed: "mark_processed_step rv s now = Inr (Some s') \<Longrightarrow> src_step s s'"
| failed: "error_code_ok code \<Longrightarrow> mark_failed_step code el s now = Inr (Some s') \<Longrightarrow> src_step s s'"
| retried: "retry_step s now = Inr (Some s') \<Longrightarrow> src_step s s'"
| reprocess: "error_code_ok code \<Longrightarrow> reprocess_step code s now = Inr (Some s') \<Longrightarrow> src_step s s'"

text \<open>The fields \<open>derive_processing\<close> leaves alone.\<close>

lemma derive_frame [simp]:
  "src_id (derive_processing s t) = src_id s"
  "src_scope (derive_processing s t) = src_scope s"
  "src_identity (derive_processing s t) = src_identity s"
  "src_latest_revision (derive_processing s t) = src_latest_revision s"
  "src_availability (derive_processing s t) = src_availability s"
  "src_association (derive_processing s t) = src_association s"
  "src_history (derive_processing s t) = src_history s"
  "src_revisions (derive_processing s t) = src_revisions s"
  "ps_processed_revision (src_processing (derive_processing s t)) = ps_processed_revision (src_processing s)"
  "ps_last_error_code (src_processing (derive_processing s t)) = ps_last_error_code (src_processing s)"
  "ps_attempts (src_processing (derive_processing s t)) = ps_attempts (src_processing s)"
  "ps_retry_eligible (src_processing (derive_processing s t)) = ps_retry_eligible (src_processing s)"
  by (simp_all add: derive_processing_def Let_def)

lemma processing_shape_derive [simp]:
  "processing_shape (src_processing (derive_processing s t)) = processing_shape (src_processing s)"
  by (simp add: derive_processing_def Let_def processing_shape_def strip_processing_id)

lemma source_ok_derive [simp]: "source_ok (derive_processing s t) = source_ok s"
  by (simp add: source_ok_def chain_ok_def)

lemma mk_decision_Inr:
  assumes "mk_decision d = Inr d'"
  shows "ad_sequence d' = ad_sequence d" "ad_state d' = ad_state d" "ad_candidates d' = ad_candidates d"
    "ad_method d' = ad_method d" "ad_supersedes_sequence d' = ad_supersedes_sequence d"
    "ad_account d' = map_option strip (ad_account d)"
    "ad_opportunity_slug d' = map_option strip (ad_opportunity_slug d)"
    "decision_fields_ok d'" "decision_consistent d'" "strip_decision_fields d' = d'"
  using assms by (auto simp: mk_decision_def Let_def strip_decision_fields_def option.map_comp o_def
      split: if_splits)

lemma mk_decision_ok:
  assumes "mk_decision d = Inr d'" and "list_all valid_candidate (ad_candidates d)"
    and "map strip_candidate (ad_candidates d) = ad_candidates d"
  shows "decision_ok d'"
proof -
  note d' = mk_decision_Inr [OF assms(1)]
  have "map strip_candidate (ad_candidates d') = ad_candidates d'" using d'(3) assms(3) by simp
  then have "strip_decision d' = d'" using d'(10) by (simp add: strip_decision_def del: d'(3))
  with d'(3,8,9) assms(2) show ?thesis by (simp add: decision_ok_def valid_decision_def)
qed

text \<open>Inversion of the three steps that append a decision.\<close>

lemma propose_stepE:
  assumes "propose_step cs reason s now = Inr (Some s')"
  obtains d where "mk_decision ((blank_decision s Proposed ''system'' reason now)\<lparr>ad_candidates := cs\<rparr>) = Inr d"
    and "ad_state (src_association s) \<noteq> Associated" and "ad_state d = Proposed"
    and "ad_sequence d = length (src_history s) + 1" and "s' = append_decision s d now"
proof -
  define raw where "raw = (blank_decision s Proposed ''system'' reason now)\<lparr>ad_candidates := cs\<rparr>"
  from assms obtain d where d: "mk_decision raw = Inr d"
    and s': "s' = append_decision s d now" "ad_state (src_association s) \<noteq> Associated"
    unfolding propose_step_def raw_def [symmetric] by (auto split: if_splits sum.splits)
  note f = mk_decision_Inr [OF d]
  show thesis using d f s' by (intro that [of d]) (simp_all add: raw_def blank_decision_def)
qed

lemma confirm_stepE:
  assumes "confirm_step i method actor reason s now = Inr (Some s')"
  obtains d where "decision_ok d" and "ad_state d = Associated"
    and "ad_account d = Some (strip (safe_account i))"
    and "ad_opportunity_slug d = Some (strip (safe_opp i))"
    and "ad_sequence d = length (src_history s) + 1" and "ad_supersedes_sequence d = supersedes_of s"
    and "s' = (if supersedes_of s \<noteq> None then reset_processing None (append_decision s d now) now
               else append_decision s d now)"
proof -
  define raw where "raw = (blank_decision s Associated actor reason now)\<lparr>
         ad_account := Some (safe_account i), ad_opportunity_slug := Some (safe_opp i),
         ad_method := Some method, ad_crm_account_id := opp_account_sfdc i,
         ad_crm_opportunity_id := opp_sfdc i, ad_supersedes_sequence := supersedes_of s\<rparr>"
  from assms obtain d where d: "mk_decision raw = Inr d"
    and s': "s' = (if ad_supersedes_sequence d \<noteq> None
      then reset_processing None (append_decision s d now) now else append_decision s d now)"
    unfolding confirm_step_def Let_def raw_def [symmetric] by (auto split: if_splits sum.splits)
  note f = mk_decision_Inr [OF d]
  have "decision_ok d" using d by (rule mk_decision_ok) (simp_all add: raw_def blank_decision_def)
  with f s' show thesis by (intro that [of d]) (simp_all add: raw_def blank_decision_def)
qed

lemma clear_stepE:
  assumes "clear_step actor reason s now = Inr (Some s')"
  obtains d where "decision_ok d" and "ad_state d = Unassociated"
    and "ad_sequence d = length (src_history s) + 1" and "ad_supersedes_sequence d = supersedes_of s"
    and "s' = reset_processing None (append_decision s d now) now"
proof -
  define raw where "raw = (blank_decision s Unassociated actor reason now)\<lparr>ad_supersedes_sequence := supersedes_of s\<rparr>"
  from assms obtain d where d: "mk_decision raw = Inr d"
    and s': "s' = reset_processing None (append_decision s d now) now"
    unfolding clear_step_def raw_def [symmetric] by (auto split: if_splits sum.splits)
  note f = mk_decision_Inr [OF d]
  have "decision_ok d" using d by (rule mk_decision_ok) (simp_all add: raw_def blank_decision_def)
  with f s' show thesis by (intro that [of d]) (simp_all add: raw_def blank_decision_def)
qed

lemma chain_append_decision:
  assumes "chain_ok s" and "ad_sequence d = length (src_history s) + 1"
  shows "chain_ok (append_decision s d now)"
  using assms by (simp add: chain_ok_def append_decision_def)

lemma source_ok_append_decision:
  assumes "source_ok s" and "decision_ok d" and "ad_sequence d = length (src_history s) + 1"
  shows "source_ok (append_decision s d now)"
proof -
  have "chain_ok (append_decision s d now)"
    using assms chain_append_decision by (simp add: source_ok_def)
  with assms show ?thesis by (simp add: source_ok_def append_decision_def chain_ok_def)
qed

lemma error_code_shape: "error_code_ok c \<Longrightarrow> in_len 0 80 c \<and> strip c = c"
proof -
  assume ok: "error_code_ok c"
  have "list_all (\<lambda>c. \<not> is_space c) c"
    using ok unfolding error_code_ok_def list_all_iff
    by (auto simp: is_lower_def is_digit_def is_space_def)
  with ok show ?thesis by (auto simp: error_code_ok_def in_len_def intro: strip_no_space)
qed

lemma source_ok_reset:
  assumes "source_ok s" and "opt_all error_code_ok code"
  shows "source_ok (reset_processing code s now)"
  using assms error_code_shape
  by (auto simp: reset_processing_def source_ok_def chain_ok_def processing_shape_def
      strip_processing_id opt_all_def split: option.splits)

lemma new_revision_shape:
  assumes "valid_normalized m" and "hexn 16 tok"
  shows "revision_shape (new_revision m n c tok trig now)"
proof -
  have "hexn 64 (ns_content_hash m)" by (cases m) simp_all
  moreover have "valid_metrics (ns_metrics m)"
    using assms(1) by (cases m) (simp_all add: valid_metrics_def valid_meeting_def valid_email_def
        meeting_metrics_def meeting_content_metrics_def email_metrics_def email_content_metrics_def)
  moreover have "opt_all (in_len 0 300) (ns_unavailable_reason m)"
    and "map_option strip (ns_unavailable_reason m) = ns_unavailable_reason m"
    using assms(1) by (cases m, simp_all add: valid_meeting_def valid_email_def)+
  ultimately show ?thesis
    using assms(2) by (simp add: revision_shape_def new_revision_def strip_revision_def strip_hexn [of 64] strip_hexn [of 16])
qed

lemma source_ok_revise:
  assumes "source_ok s" and "revision_shape r" and "rev_revision r = src_latest_revision s + 1"
    and "rev_availability r = ns_availability m"
  shows "source_ok (revise_source s m r now)"
proof -
  have c: "chain_ok s" using assms(1) by (simp add: source_ok_def)
  have "opt_all (\<lambda>n. n \<le> src_latest_revision s + 1) (ps_processed_revision (src_processing s))"
    using c by (auto simp: chain_ok_def opt_all_def split: option.splits)
  with assms chain_latest [OF c] show ?thesis
    unfolding revise_source_def Let_def source_ok_derive
    by (simp add: source_ok_def chain_ok_def processing_shape_def strip_processing_id)
qed

lemma source_ok_processing:
  assumes "source_ok s" and "processing_shape p"
    and "opt_all (\<lambda>n. n \<le> src_latest_revision s) (ps_processed_revision p)"
  shows "source_ok (s\<lparr>src_updated_at := u, src_processing := p\<rparr>)"
  using assms by (simp add: source_ok_def chain_ok_def)

lemma source_ok_partsD:
  assumes "source_ok s"
  shows "processing_shape (src_processing s)"
    and "opt_all (\<lambda>n. n \<le> src_latest_revision s) (ps_processed_revision (src_processing s))"
  using assms by (simp_all add: source_ok_def chain_ok_def)

lemma processing_shape_iff:
  "processing_shape p \<longleftrightarrow> opt_all (\<lambda>c. in_len 0 80 c \<and> strip c = c) (ps_last_error_code p)
     \<and> opt_all (\<lambda>n. 1 \<le> n) (ps_processed_revision p)"
  by (cases "ps_last_error_code p") (auto simp: processing_shape_def strip_processing_id)

text \<open>Every step writes a well-formed record.\<close>

lemma src_step_ok: "src_step s t \<Longrightarrow> source_ok s \<Longrightarrow> source_ok t"
proof (induction rule: src_step.induct)
  case (revise m tok n s c trig now)
  then show ?case
    by (intro source_ok_revise new_revision_shape) (simp_all add: new_revision_def)
next
  case (propose cs reason s now s')
  from propose.hyps(3) show ?case
  proof (rule propose_stepE)
    fix d assume d: "mk_decision ((blank_decision s Proposed ''system'' reason now)\<lparr>ad_candidates := cs\<rparr>) = Inr d"
      and q: "ad_sequence d = length (src_history s) + 1" and s': "s' = append_decision s d now"
    have "decision_ok d" using d by (rule mk_decision_ok) (use propose.hyps in \<open>simp_all add: blank_decision_def\<close>)
    with q s' propose.prems show ?thesis by (simp add: source_ok_append_decision)
  qed
next
  case (confirm i meth actor reason s now s')
  then show ?case
    by (elim confirm_stepE) (simp add: source_ok_append_decision source_ok_reset)
next
  case (clear actor reason s now s')
  then show ?case
    by (elim clear_stepE) (simp add: source_ok_append_decision source_ok_reset)
next
  case (processing s now s')
  then show ?case
    by (auto simp: mark_processing_step_def Let_def split: if_splits intro!: source_ok_processing)
       (auto dest: source_ok_partsD simp: processing_shape_iff)
next
  case (processed rv s now s')
  then have "1 \<le> src_latest_revision s" unfolding source_ok_def using chain_latest_pos by blast
  with processed show ?case
    by (auto simp: mark_processed_step_def Let_def split: if_splits intro!: source_ok_processing)
       (auto dest: source_ok_partsD simp: processing_shape_iff)
next
  case (failed code el s now s')
  then show ?case
    by (auto simp: mark_failed_step_def Let_def split: if_splits intro!: source_ok_processing)
       (auto dest: source_ok_partsD error_code_shape simp: processing_shape_iff)
next
  case (retried s now s')
  then show ?case
    by (auto simp: retry_step_def Let_def split: if_splits intro!: source_ok_processing)
       (auto dest: source_ok_partsD simp: processing_shape_iff)
next
  case (reprocess code s now s')
  then have "source_ok (s\<lparr>src_updated_at := now\<rparr>)" by (simp add: source_ok_def chain_ok_def)
  with reprocess show ?case
    by (auto simp: reprocess_step_def source_ok_reset split: if_splits)
qed

subsection \<open>Honest statuses\<close>

text \<open>
  What a status promises.  A queued source has an opportunity and readable content that is not
  processed yet; one in processing or failed has an opportunity; a processed one is processed
  at its latest revision; the waiting states say what is missing; no record rests in
  \<^verbatim>\<open>discovered\<close> or \<^verbatim>\<open>superseded\<close>.
\<close>

definition honest :: "evidence_source \<Rightarrow> bool" where
  "honest s \<longleftrightarrow> (let a = (ad_state (src_association s) = Associated);
       fresh = (ps_processed_revision (src_processing s) \<noteq> Some (src_latest_revision s)) in
     case ps_status (src_processing s) of
       Discovered \<Rightarrow> False
     | AwaitingAssociation \<Rightarrow> \<not> a \<and> fresh
     | AwaitingContent \<Rightarrow> a \<and> src_availability s \<noteq> ContentAvailable \<and> fresh
     | Queued \<Rightarrow> a \<and> src_availability s = ContentAvailable \<and> fresh
     | Processing \<Rightarrow> a
     | Processed \<Rightarrow> a \<and> \<not> fresh
     | Failed \<Rightarrow> a
     | Superseded \<Rightarrow> False)"

text \<open>The statuses from which \<open>derive_processing\<close> always lands on an honest one.\<close>

definition derivable :: "evidence_source \<Rightarrow> bool" where
  "derivable s \<longleftrightarrow> ps_status (src_processing s) \<in> {Discovered, AwaitingAssociation, AwaitingContent, Queued}
     \<and> (ps_processed_revision (src_processing s) = Some (src_latest_revision s)
        \<longrightarrow> ad_state (src_association s) = Associated)"

lemma honest_derive: "derivable s \<Longrightarrow> honest (derive_processing s now)"
  by (auto simp: derivable_def honest_def derive_processing_def Let_def)

lemma honest_reset: "honest (reset_processing code s now)"
  unfolding reset_processing_def by (rule honest_derive) (simp add: derivable_def)

lemma derive_other:
  "ps_status (src_processing s) \<notin> {Discovered, AwaitingAssociation, AwaitingContent, Queued} \<Longrightarrow>
   derive_processing s now = s"
  by (simp add: derive_processing_def Let_def)

lemma src_step_honest: "src_step s t \<Longrightarrow> source_ok s \<Longrightarrow> honest s \<Longrightarrow> honest t"
proof (induction rule: src_step.induct)
  case (revise m tok n s c trig now)
  have "opt_all (\<lambda>n. n \<le> src_latest_revision s) (ps_processed_revision (src_processing s))"
    using revise.prems(1) by (simp add: source_ok_def chain_ok_def)
  then have fresh: "ps_processed_revision (src_processing s) \<noteq> Some (Suc (src_latest_revision s))" by auto
  show ?case
  proof (cases "ps_status (src_processing s) = Processing")
    case True
    with revise.prems(2) show ?thesis
      by (simp add: revise_source_def Let_def derive_other honest_def)
  next
    case False
    with fresh show ?thesis
      by (auto simp: revise_source_def Let_def derivable_def intro!: honest_derive)
  qed
next
  case (propose cs reason s now s')
  then have un: "ad_state (src_association s) \<noteq> Associated"
    by (auto simp: propose_step_def split: if_splits)
  with propose.prems(2) have "ps_status (src_processing s) = AwaitingAssociation"
    and "ps_processed_revision (src_processing s) \<noteq> Some (src_latest_revision s)"
    by (auto simp: honest_def Let_def split: proc_status.splits)
  with propose.hyps(3) un show ?case
    by (elim propose_stepE) (auto simp: append_decision_def derivable_def intro!: honest_derive)
next
  case (confirm i meth actor reason s now s')
  from confirm.hyps obtain d where d: "ad_state d = Associated"
    and s': "s' = (if supersedes_of s \<noteq> None then reset_processing None (append_decision s d now) now
               else append_decision s d now)"
    by (rule confirm_stepE)
  show ?case
  proof (cases "ad_state (src_association s) = Associated")
    case True
    with s' show ?thesis by (simp add: supersedes_of_def honest_reset)
  next
    case False
    with confirm.prems(2) have "ps_status (src_processing s) = AwaitingAssociation"
      by (auto simp: honest_def Let_def split: proc_status.splits)
    with s' False d show ?thesis
      by (auto simp: supersedes_of_def append_decision_def derivable_def intro!: honest_derive)
  qed
next
  case (clear actor reason s now s')
  then show ?case by (elim clear_stepE) (simp add: honest_reset)
next
  case (processing s now s')
  then show ?case
    by (auto simp: mark_processing_step_def Let_def honest_def split: if_splits)
next
  case (processed rv s now s')
  then have a: "ad_state (src_association s) = Associated"
    by (auto simp: mark_processed_step_def Let_def honest_def split: if_splits)
  show ?case
  proof (cases "rv = src_latest_revision s")
    case True
    with a processed.hyps show ?thesis
      by (auto simp: mark_processed_step_def Let_def honest_def split: if_splits)
  next
    case False
    with a processed.hyps show ?thesis
      by (auto simp: mark_processed_step_def Let_def derivable_def split: if_splits intro!: honest_derive)
  qed
next
  case (failed code el s now s')
  then show ?case by (auto simp: mark_failed_step_def Let_def honest_def split: if_splits)
next
  case (retried s now s')
  then have "ad_state (src_association s) = Associated"
    by (auto simp: retry_step_def Let_def honest_def split: if_splits)
  with retried.hyps show ?case
    by (auto simp: retry_step_def Let_def derivable_def split: if_splits intro!: honest_derive)
next
  case (reprocess code s now s')
  then show ?case by (auto simp: reprocess_step_def honest_reset split: if_splits)
qed

interpretation src_life: invariant_system src_step "\<lambda>s. source_ok s \<and> honest s"
  by unfold_locales (blast intro: src_step_ok src_step_honest)

subsection \<open>Logs that only grow\<close>

lemma src_step_frame:
  "src_step s t \<Longrightarrow> src_id t = src_id s \<and> src_scope t = src_scope s \<and> src_identity t = src_identity s"
proof (induction rule: src_step.induct)
  case (propose cs reason s now s')
  then show ?case by (elim propose_stepE) (simp add: append_decision_def)
next
  case (confirm i meth actor reason s now s')
  then show ?case by (elim confirm_stepE) (simp add: append_decision_def reset_processing_def)
next
  case (clear actor reason s now s')
  then show ?case by (elim clear_stepE) (simp add: append_decision_def reset_processing_def)
qed (auto simp: revise_source_def Let_def mark_processing_step_def mark_processed_step_def
    mark_failed_step_def retry_step_def reprocess_step_def reset_processing_def split: if_splits)

lemma src_step_logs:
  "src_step s t \<Longrightarrow> (\<exists>rs. src_revisions t = src_revisions s @ rs) \<and> (\<exists>ds. src_history t = src_history s @ ds)"
proof (induction rule: src_step.induct)
  case (propose cs reason s now s')
  then show ?case by (elim propose_stepE) (simp add: append_decision_def)
next
  case (confirm i meth actor reason s now s')
  then show ?case by (elim confirm_stepE) (simp add: append_decision_def reset_processing_def)
next
  case (clear actor reason s now s')
  then show ?case by (elim clear_stepE) (simp add: append_decision_def reset_processing_def)
qed (auto simp: revise_source_def Let_def mark_processing_step_def mark_processed_step_def
    mark_failed_step_def retry_step_def reprocess_step_def reset_processing_def split: if_splits)

interpretation revision_log: log_system src_step src_revisions
  by unfold_locales (simp add: src_step_logs)

interpretation decision_log: log_system src_step src_history
  by unfold_locales (simp add: src_step_logs)

lemma src_steps_frame:
  assumes "src_step\<^sup>*\<^sup>* s t"
  shows "src_id t = src_id s \<and> src_scope t = src_scope s \<and> src_identity t = src_identity s"
  using assms by (induction rule: rtranclp_induct) (auto dest: src_step_frame)

subsection \<open>The store\<close>

definition content_present :: "ledger \<Rightarrow> evidence_source \<Rightarrow> bool" where
  "content_present l s \<longleftrightarrow>
     (\<forall>r \<in> set (src_revisions s). map_of (lg_contents l) (src_id s, rev_content_hash r) \<noteq> None)"

text \<open>What every stored record, snapshot and receipt satisfies.\<close>

definition stored_source_ok :: "ledger \<Rightarrow> string \<Rightarrow> evidence_source stored \<Rightarrow> bool" where
  "stored_source_ok l sid f \<longleftrightarrow> (\<exists>s. f = Intact s \<and> src_id s = sid \<and> src_scope s = lg_scope l
     \<and> sid = source_id_for (src_scope s) (src_identity s) \<and> source_ok s \<and> honest s \<and> content_present l s)"

definition ledger_ok :: "ledger \<Rightarrow> bool" where
  "ledger_ok l \<longleftrightarrow> valid_scope (lg_scope l)
     \<and> lg_scope_file l \<in> {None, Some (Intact (lg_scope l))}
     \<and> (\<forall>sid f. map_of (lg_sources l) sid = Some f \<longrightarrow> stored_source_ok l sid f)
     \<and> (\<forall>k c. map_of (lg_contents l) k = Some c \<longrightarrow>
          (\<exists>j. c = Intact j \<and> sha256_hex (canonical_bytes j) = snd k))
     \<and> (\<forall>sid f. map_of (lg_forgotten l) sid = Some f \<longrightarrow>
          (\<exists>r. f = Intact r \<and> fr_source_id r = sid \<and> fr_workspace_id r = workspace_id (lg_scope l)))"

abbreviation forgotten :: "ledger \<Rightarrow> string \<Rightarrow> bool" where
  "forgotten l sid \<equiv> map_of (lg_forgotten l) sid \<noteq> None"

text \<open>How the store may change: each record moves along its life cycle or is forgotten.\<close>

definition evolves :: "ledger \<Rightarrow> ledger \<Rightarrow> bool" where
  "evolves l l' \<longleftrightarrow> lg_scope l' = lg_scope l \<and> lg_actor l' = lg_actor l \<and> lg_clock l' = lg_clock l
     \<and> (\<forall>sid. forgotten l sid \<longrightarrow> forgotten l' sid)
     \<and> (\<forall>sid s. map_of (lg_sources l) sid = Some (Intact s) \<longrightarrow> forgotten l' sid
          \<or> (\<exists>s'. map_of (lg_sources l') sid = Some (Intact s') \<and> src_step\<^sup>*\<^sup>* s s'))
     \<and> (\<forall>k c. map_of (lg_contents l) k = Some c \<longrightarrow> forgotten l' (fst k) \<or> map_of (lg_contents l') k = Some c)"

definition ledger_rel :: "ledger \<Rightarrow> ledger \<Rightarrow> bool" where
  "ledger_rel l l' \<longleftrightarrow> (ledger_ok l \<longrightarrow> ledger_ok l' \<and> evolves l l')"

lemma evolves_refl: "evolves l l"
  by (simp add: evolves_def)

lemma evolves_trans: "evolves l m \<Longrightarrow> evolves m n \<Longrightarrow> evolves l n"
  unfolding evolves_def by (intro conjI allI impI) (metis rtranclp_trans)+

interpretation ledger_hist: state_relation ledger_rel
  by unfold_locales (auto simp: ledger_rel_def evolves_refl intro: evolves_trans)

interpretation frame: state_relation "(=) :: ledger \<Rightarrow> ledger \<Rightarrow> bool"
  by unfold_locales auto

lemma ledger_rel_equal: "obeys (=) m \<Longrightarrow> obeys ledger_rel m"
  unfolding obeys_def ledger_rel_def using evolves_refl by metis

lemma pureD: "obeys (=) m \<Longrightarrow> m l = (r, l') \<Longrightarrow> l' = l"
  by (auto simp: obeys_def)

subsubsection \<open>Reads\<close>

lemma scope_ok: "ledger_ok l \<Longrightarrow> scope l = (Inr (lg_scope l), l)"
  by (auto simp: scope_def ledger_ok_def op_defs)

lemma is_forgotten_ok: "source_id_ok sid \<Longrightarrow> is_forgotten sid l = (Inr (forgotten l sid), l)"
  by (simp add: is_forgotten_def op_defs)

lemma read_source_eq:
  assumes "ledger_ok l"
  shows "read_source sid l =
    (if \<not> source_id_ok sid then Inl (EvidenceLedgerError 404 ''unknown_source'')
     else if forgotten l sid then Inl (EvidenceLedgerError 410 ''source_forgotten'')
     else case map_of (lg_sources l) sid of
       None \<Rightarrow> Inl (EvidenceLedgerError 404 ''unknown_source'')
     | Some f \<Rightarrow> (case f of Corrupt \<Rightarrow> Inl malformed
         | Intact s \<Rightarrow> if within_limits s then Inr s else Inl malformed), l)"
proof (cases "source_id_ok sid \<and> \<not> forgotten l sid \<and> map_of (lg_sources l) sid \<noteq> None")
  case True
  then obtain f where f: "map_of (lg_sources l) sid = Some f" by auto
  with assms obtain s where s: "f = Intact s" "src_id s = sid" "src_scope s = lg_scope l" "source_ok s"
    by (auto simp: ledger_ok_def stored_source_ok_def)
  with True f scope_ok [OF assms] show ?thesis
    by (auto simp: read_source_def is_forgotten_def parse_source_ok op_defs)
next
  case False
  then show ?thesis by (auto simp: read_source_def is_forgotten_def op_defs)
qed

lemma obeys_scope: "obeys (=) scope"
  by (auto simp: obeys_def scope_def op_defs split: option.splits stored.splits if_splits)

lemma obeys_is_forgotten: "obeys (=) (is_forgotten sid)"
  by (auto simp: obeys_def is_forgotten_def op_defs)

lemmas ledger_pure = frame.obeys_bnd frame.obeys_if frame.obeys_basic obeys_scope obeys_is_forgotten

lemma obeys_read_source: "obeys (=) (read_source sid)"
  unfolding read_source_def
  by (intro ledger_pure) (auto intro!: ledger_pure split: option.splits stored.splits sum.splits)

lemma read_source_InrD:
  assumes "read_source sid l = (Inr s, l')" and "ledger_ok l"
  shows "l' = l" "source_id_ok sid" "\<not> forgotten l sid" "map_of (lg_sources l) sid = Some (Intact s)"
    "within_limits s" "src_id s = sid" "source_ok s" "honest s" "content_present l s"
    "src_scope s = lg_scope l" "sid = source_id_for (src_scope s) (src_identity s)"
proof -
  have r: "l' = l \<and> source_id_ok sid \<and> \<not> forgotten l sid \<and> map_of (lg_sources l) sid = Some (Intact s)
      \<and> within_limits s"
    using assms by (auto simp: read_source_eq split: if_splits option.splits stored.splits)
  then show "l' = l" "source_id_ok sid" "\<not> forgotten l sid" "map_of (lg_sources l) sid = Some (Intact s)"
    "within_limits s" by auto
  have "stored_source_ok l sid (Intact s)" using r assms(2) unfolding ledger_ok_def by blast
  then show "src_id s = sid" "source_ok s" "honest s" "content_present l s"
    "src_scope s = lg_scope l" "sid = source_id_for (src_scope s) (src_identity s)"
    by (auto simp: stored_source_ok_def)
qed

subsubsection \<open>Writes\<close>

lemma obeys_ledger_relI:
  "(\<And>l r l'. ledger_ok l \<Longrightarrow> m l = (r, l') \<Longrightarrow> ledger_ok l' \<and> evolves l l') \<Longrightarrow> obeys ledger_rel m"
  by (auto simp: obeys_def ledger_rel_def)

lemma ledger_ok_cong:
  assumes "ledger_ok l" and "lg_scope l' = lg_scope l" "lg_scope_file l' = lg_scope_file l"
    "lg_sources l' = lg_sources l" "lg_contents l' = lg_contents l" "lg_forgotten l' = lg_forgotten l"
  shows "ledger_ok l'"
  using assms unfolding ledger_ok_def stored_source_ok_def content_present_def by simp

lemma evolves_cong:
  assumes "lg_scope l' = lg_scope l" "lg_actor l' = lg_actor l" "lg_clock l' = lg_clock l"
    "lg_sources l' = lg_sources l" "lg_contents l' = lg_contents l" "lg_forgotten l' = lg_forgotten l"
  shows "evolves l l'"
  using assms unfolding evolves_def by auto

lemma obeys_ledger_now: "obeys ledger_rel ledger_now"
  by (rule obeys_ledger_relI)
     (auto simp: ledger_now_def intro: ledger_ok_cong evolves_cong)

lemma obeys_new_token: "obeys ledger_rel new_token"
  by (rule obeys_ledger_relI)
     (auto simp: new_token_def intro: ledger_ok_cong evolves_cong)

text \<open>Writing a record that continues the stored one, or a first one.\<close>

lemma write_rel:
  assumes ok: "ledger_ok l" and id: "sid = source_id_for (src_scope s') (src_identity s')"
    and s': "src_id s' = sid" "src_scope s' = lg_scope l" "source_ok s'" "honest s'" "content_present l s'"
    and prior: "map_of (lg_sources l) sid = None
      \<or> (\<exists>s. map_of (lg_sources l) sid = Some (Intact s) \<and> src_step\<^sup>*\<^sup>* s s')"
    and l': "l' = l\<lparr>lg_sources := AList.update sid (Intact s') (lg_sources l)\<rparr>"
  shows "ledger_ok l' \<and> evolves l l'"
proof
  have "stored_source_ok l' sid' f" if "map_of (lg_sources l') sid' = Some f" for sid' f
  proof (cases "sid' = sid")
    case True
    with that l' have "f = Intact s'" by simp
    then show ?thesis unfolding stored_source_ok_def
      by (intro exI [of _ s']) (use True l' id s' in \<open>simp add: content_present_def\<close>)
  next
    case False
    with that l' ok have "stored_source_ok l sid' f" by (simp add: ledger_ok_def)
    with l' show ?thesis by (simp add: stored_source_ok_def content_present_def)
  qed
  with ok l' show "ledger_ok l'" by (simp add: ledger_ok_def)
  show "evolves l l'" using prior l' by (auto simp: evolves_def)
qed

lemma write_source_eq:
  "source_id_ok (src_id s) \<Longrightarrow>
   write_source s l = (Inr (), l\<lparr>lg_sources := AList.update (src_id s) (Intact s) (lg_sources l)\<rparr>)"
  by (simp add: write_source_def op_defs)

text \<open>A step that leaves the revisions alone.\<close>

definition life_step :: "(evidence_source \<Rightarrow> datetime \<Rightarrow> exn + evidence_source option) \<Rightarrow> bool" where
  "life_step step \<longleftrightarrow> (\<forall>s now s'. step s now = Inr (Some s') \<longrightarrow>
     src_step s s' \<and> src_revisions s' = src_revisions s)"

text \<open>What a mutating method returns and stores, in each case.\<close>

lemma update_source_eq:
  assumes "read_source sid l = (Inr s, l)" and "source_id_ok (src_id s)" and "life_step step"
  shows "update_source sid step l = (case step s (lg_clock l (lg_ticks l)) of
      Inl e \<Rightarrow> (Inl e, l)
    | Inr None \<Rightarrow> (Inr (summarize False s), l)
    | Inr (Some s') \<Rightarrow> (Inr (summarize False s'),
        l\<lparr>lg_ticks := Suc (lg_ticks l),
          lg_sources := AList.update (src_id s) (Intact s') (lg_sources l)\<rparr>))"
proof -
  have "src_id s' = src_id s" if "step s now = Inr (Some s')" for now s'
    using that assms(3) src_step_frame by (auto simp: life_step_def)
  then show ?thesis
    using assms(1,2)
    by (auto simp: update_source_def bnd_def ledger_now_def write_source_def modify_st_def ret_def
        split: sum.split option.split)
qed

lemma obeys_update_source:
  assumes "life_step step"
  shows "obeys ledger_rel (update_source sid step)"
proof (rule obeys_ledger_relI)
  fix l r l' assume ok: "ledger_ok l" and run: "update_source sid step l = (r, l')"
  show "ledger_ok l' \<and> evolves l l'"
  proof (cases "read_source sid l")
    case (Pair x l1)
    have l1: "l1 = l" using pureD [OF obeys_read_source Pair] .
    show ?thesis
    proof (cases x)
      case (Inl e)
      with Pair l1 run have "l' = l" by (simp add: update_source_def bnd_def)
      with ok show ?thesis by (simp add: evolves_refl)
    next
      case (Inr s)
      with Pair l1 have rd: "read_source sid l = (Inr s, l)" by simp
      note f = read_source_InrD [OF rd ok]
      have sid_ok: "source_id_ok (src_id s)" using f(2,6) by simp
      note eq = update_source_eq [OF rd sid_ok assms]
      show ?thesis
      proof (cases "step s (lg_clock l (lg_ticks l))")
        case (Inl e)
        with eq run ok show ?thesis by (simp add: evolves_refl)
      next
        case (Inr res)
        show ?thesis
        proof (cases res)
          case None
          with Inr eq run ok show ?thesis by (simp add: evolves_refl)
        next
          case (Some s')
          with Inr have step: "src_step s s'" and revs: "src_revisions s' = src_revisions s"
            using assms by (auto simp: life_step_def)
          let ?l = "l\<lparr>lg_ticks := Suc (lg_ticks l)\<rparr>"
          have okt: "ledger_ok ?l" and evt: "evolves l ?l"
            by (rule ledger_ok_cong [OF ok]; simp) (rule evolves_cong; simp)
          have l': "l' = ?l\<lparr>lg_sources := AList.update sid (Intact s') (lg_sources ?l)\<rparr>"
            using eq Inr Some run f(6) by simp
          have "ledger_ok l' \<and> evolves ?l l'"
            using okt l' f step revs src_step_frame [OF step] src_step_ok [OF step] src_step_honest [OF step]
            by (intro write_rel [where sid = sid and s' = s']) (auto simp: content_present_def)
          with evt show ?thesis using evolves_trans by blast
        qed
      qed
    qed
  qed
qed

subsubsection \<open>Every method\<close>

lemma life_steps:
  "list_all valid_candidate cs \<Longrightarrow> map strip_candidate cs = cs \<Longrightarrow> life_step (propose_step cs reason)"
  "life_step (confirm_step i method actor reason)"
  "life_step (clear_step actor reason)"
  "life_step mark_processing_step"
  "life_step (mark_processed_step rv)"
  "error_code_ok code \<Longrightarrow> life_step (mark_failed_step code el)"
  "life_step retry_step"
  "error_code_ok code \<Longrightarrow> life_step (reprocess_step code)"
proof -
  show "list_all valid_candidate cs \<Longrightarrow> map strip_candidate cs = cs \<Longrightarrow> life_step (propose_step cs reason)"
    by (auto simp: life_step_def append_decision_def intro: src_step.propose elim: propose_stepE)
  show "life_step (confirm_step i method actor reason)"
    by (auto simp: life_step_def append_decision_def reset_processing_def
        intro: src_step.confirm elim: confirm_stepE)
  show "life_step (clear_step actor reason)"
    by (auto simp: life_step_def append_decision_def reset_processing_def
        intro: src_step.clear elim: clear_stepE)
  show "life_step mark_processing_step"
    by (auto simp: life_step_def intro: src_step.processing)
       (auto simp: mark_processing_step_def Let_def split: if_splits)
  show "life_step (mark_processed_step rv)"
    by (auto simp: life_step_def intro: src_step.processed)
       (auto simp: mark_processed_step_def Let_def split: if_splits)
  show "error_code_ok code \<Longrightarrow> life_step (mark_failed_step code el)"
    by (auto simp: life_step_def intro: src_step.failed)
       (auto simp: mark_failed_step_def Let_def split: if_splits)
  show "life_step retry_step"
    by (auto simp: life_step_def intro: src_step.retried)
       (auto simp: retry_step_def Let_def split: if_splits)
  show "error_code_ok code \<Longrightarrow> life_step (reprocess_step code)"
    by (auto simp: life_step_def intro: src_step.reprocess)
       (auto simp: reprocess_step_def reset_processing_def split: if_splits)
qed

lemma obeys_ensure_scope_file: "obeys ledger_rel ensure_scope_file"
proof (rule obeys_ledger_relI)
  fix l r l' assume ok: "ledger_ok l" and run: "ensure_scope_file l = (r, l')"
  then have "l' = (if lg_scope_file l = None then l\<lparr>lg_scope_file := Some (Intact (lg_scope l))\<rparr> else l)"
    by (simp add: ensure_scope_file_def bnd_def scope_ok modify_st_def)
  then show "ledger_ok l' \<and> evolves l l'"
    using ok by (auto simp: ledger_ok_def stored_source_ok_def content_present_def evolves_def)
qed

lemma create_source_ok:
  assumes "valid_normalized m" and "hexn 16 tok" and "valid_scope sc"
  shows "source_ok (create_source sc m (new_revision m 1 c tok trig now) now)"
    and "honest (create_source sc m (new_revision m 1 c tok trig now) now)"
proof -
  have "valid_identity (ns_identity m) \<and> strip_identity (ns_identity m) = ns_identity m"
    using assms(1) by (cases m) (simp_all add: valid_meeting_def valid_email_def)
  moreover have "decision_ok (first_decision now)"
    by (simp add: decision_ok_def valid_decision_def decision_fields_ok_def decision_consistent_def
        first_decision_def strip_decision_def strip_decision_fields_def truthy_def safe_token_def
        in_len_def short_text_def safe_char_def is_lower_def strip_def is_space_def)
  moreover have "revision_shape (new_revision m 1 c tok trig now)"
    using assms(1,2) by (rule new_revision_shape)
  ultimately show "source_ok (create_source sc m (new_revision m 1 c tok trig now) now)"
    using assms(3) unfolding create_source_def source_ok_derive
    by (simp add: source_ok_def chain_ok_def processing_shape_iff new_revision_def first_decision_def)
  show "honest (create_source sc m (new_revision m 1 c tok trig now) now)" unfolding create_source_def
    by (rule honest_derive) (simp add: derivable_def)
qed

lemma store_content_rel:
  assumes "ledger_ok l" and "h = sha256_hex (canonical_bytes j)" and "store_content sid h j l = (r, l')"
  shows "ledger_ok l' \<and> evolves l l'" and "map_of (lg_contents l') (sid, h) \<noteq> None"
    and "r = Inr ()" and "lg_sources l' = lg_sources l" and "lg_scope l' = lg_scope l"
    and "lg_forgotten l' = lg_forgotten l" and "\<And>k. map_of (lg_contents l) k \<noteq> None \<Longrightarrow> map_of (lg_contents l') k \<noteq> None"
proof -
  have l': "l' = (if map_of (lg_contents l) (sid, h) = None
      then l\<lparr>lg_contents := ((sid, h), Intact j) # lg_contents l\<rparr> else l)" and "r = Inr ()"
    using assms(3) by (auto simp: store_content_def modify_st_def)
  then show "r = Inr ()" "lg_sources l' = lg_sources l" "lg_scope l' = lg_scope l"
    "lg_forgotten l' = lg_forgotten l" "map_of (lg_contents l') (sid, h) \<noteq> None"
    "\<And>k. map_of (lg_contents l) k \<noteq> None \<Longrightarrow> map_of (lg_contents l') k \<noteq> None" by auto
  have "stored_source_ok l' sid' f" if "stored_source_ok l sid' f" for sid' f
  proof -
    from that obtain s where s: "f = Intact s" "src_id s = sid'" "src_scope s = lg_scope l"
      "sid' = source_id_for (src_scope s) (src_identity s)" "source_ok s" "honest s" "content_present l s"
      by (auto simp: stored_source_ok_def)
    have "content_present l' s" using s(7) l' by (auto simp: content_present_def)
    with s l' show ?thesis by (auto simp: stored_source_ok_def)
  qed
  with assms(1,2) l' show "ledger_ok l' \<and> evolves l l'"
    by (auto simp: ledger_ok_def evolves_def)
qed

text \<open>The branches of an import, on a well-formed ledger.\<close>

abbreviation ticked :: "ledger \<Rightarrow> ledger" where
  "ticked l \<equiv> l\<lparr>lg_ticks := Suc (lg_ticks l)\<rparr>"

lemma ticked_ok: "ledger_ok l \<Longrightarrow> ledger_ok (ticked l) \<and> evolves l (ticked l)"
  by (auto intro: ledger_ok_cong evolves_cong)

lemma record_meeting_eq:
  assumes ok: "ledger_ok l" and sid: "sid = source_id_for (lg_scope l) (ns_identity m)"
  shows "record_meeting m tok trig l =
    (if forgotten l sid then (Inl (EvidenceLedgerError 410 ''source_forgotten''), l)
     else if length (canonical_bytes (ns_snapshot m)) > max_content_bytes
     then (Inl (EvidenceLedgerError 413 ''content_too_large''), ticked l)
     else case map_of (lg_sources l) sid of
       None \<Rightarrow> record_first sid (lg_scope l) m tok trig (lg_clock l (lg_ticks l)) (ticked l)
     | Some _ \<Rightarrow> bnd (read_source sid) (record_next sid m tok trig (lg_clock l (lg_ticks l))) (ticked l))"
  using ok sid
  by (auto simp: record_meeting_def Let_def bnd_def scope_ok is_forgotten_ok ledger_now_def read_st_def
      raise_def split: option.split)

lemma read_bnd_cases:
  assumes "bnd (read_source sid) k l = (r, l')"
  obtains (err) e where "l' = l" "r = Inl e"
    | (ok) s where "read_source sid l = (Inr s, l)" "k s l = (r, l')"
  using assms by (cases rule: bnd_cases) (auto dest: pureD [OF obeys_read_source])

text \<open>Storing a snapshot and then the record that refers to it.\<close>

lemma store_revision_rel:
  assumes okl: "ledger_ok l" and run: "store_revision sid m s rv outcome l = (r, l')"
    and sid: "sid = source_id_for (lg_scope l) (ns_identity m)"
    and s: "src_id s = sid" "src_scope s = lg_scope l" "src_identity s = ns_identity m" "source_ok s" "honest s"
    and old: "\<And>q. q \<in> set (src_revisions s) \<Longrightarrow> rev_content_hash q = sha256_hex (canonical_bytes (ns_snapshot m))
      \<or> map_of (lg_contents l) (sid, rev_content_hash q) \<noteq> None"
    and prior: "map_of (lg_sources l) sid = None \<or> (\<exists>s0. map_of (lg_sources l) sid = Some (Intact s0) \<and> src_step\<^sup>*\<^sup>* s0 s)"
  shows "ledger_ok l' \<and> evolves l l' \<and> r = Inr (import_result_of s rv True outcome)
    \<and> map_of (lg_sources l') sid = Some (Intact s) \<and> lg_forgotten l' = lg_forgotten l
    \<and> lg_scope l' = lg_scope l"
proof -
  let ?h = "sha256_hex (canonical_bytes (ns_snapshot m))"
  obtain l2 where st: "store_content sid ?h (ns_snapshot m) l = (Inr (), l2)"
    by (simp add: store_content_def modify_st_def)
  note sc = store_content_rel [OF okl refl st]
  have sid_ok: "source_id_ok (src_id s)" using s(1) sid by simp
  have l': "l' = l2\<lparr>lg_sources := AList.update sid (Intact s) (lg_sources l2)\<rparr>"
    and r: "r = Inr (import_result_of s rv True outcome)"
    using run st s(1) sid_ok by (simp_all add: store_revision_def bnd_def write_source_eq ret_def)
  have cp: "content_present l2 s" unfolding content_present_def
  proof
    fix q assume "q \<in> set (src_revisions s)"
    from old [OF this] show "map_of (lg_contents l2) (src_id s, rev_content_hash q) \<noteq> None"
      using sc(2) sc(7) [of "(sid, rev_content_hash q)"] s(1) by fastforce
  qed
  have "ledger_ok l' \<and> evolves l2 l'"
    using sc(1,4,5) s prior l' cp
    by (intro write_rel [where sid = sid and s' = s]) (simp_all add: sid)
  with sc(1,5,6) l' r show ?thesis using evolves_trans by auto
qed

text \<open>An import that records something: what the store holds then.\<close>

lemma record_meeting_rel:
  assumes m: "valid_normalized m" and tok: "hexn 16 tok" and ok: "ledger_ok l"
    and run: "record_meeting m tok trig l = (r, l')"
  shows "ledger_ok l' \<and> evolves l l' \<and> lg_scope l' = lg_scope l \<and> (\<forall>res. r = Inr res \<longrightarrow>
     \<not> forgotten l' (source_id_for (lg_scope l) (ns_identity m)) \<and>
     (\<exists>s. map_of (lg_sources l') (source_id_for (lg_scope l) (ns_identity m)) = Some (Intact s)
        \<and> src_identity s = ns_identity m
        \<and> rev_content_hash (last (src_revisions s)) = sha256_hex (canonical_bytes (ns_snapshot m))
        \<and> length (canonical_bytes (ns_snapshot m)) \<le> max_content_bytes))"
proof -
  define sid where "sid = source_id_for (lg_scope l) (ns_identity m)"
  note eq = record_meeting_eq [OF ok sid_def, of tok trig]
  have okt: "ledger_ok (ticked l)" and evt: "evolves l (ticked l)" using ticked_ok [OF ok] by auto
  show ?thesis
  proof (cases "forgotten l sid \<or> length (canonical_bytes (ns_snapshot m)) > max_content_bytes")
    case True
    with eq run ok okt evt show ?thesis by (auto simp: evolves_refl split: if_splits)
  next
    case free: False
    show ?thesis
    proof (cases "map_of (lg_sources l) sid")
      case None
      let ?r = "new_revision m 1 Initial tok trig (lg_clock l (lg_ticks l))"
      let ?s = "create_source (lg_scope l) m ?r (lg_clock l (lg_ticks l))"
      have "store_revision sid m ?s ?r ''created'' (ticked l) = (r, l')"
        using eq run free None by (simp add: record_first_def Let_def)
      then have "ledger_ok l' \<and> evolves (ticked l) l' \<and> r = Inr (import_result_of ?s ?r True ''created'')
        \<and> map_of (lg_sources l') sid = Some (Intact ?s) \<and> lg_forgotten l' = lg_forgotten (ticked l)
        \<and> lg_scope l' = lg_scope (ticked l)"
        using okt None create_source_ok [OF m tok] ok
        by (intro store_revision_rel)
           (auto simp: sid_def ledger_ok_def create_source_def new_revision_def)
      moreover have "rev_content_hash (last (src_revisions ?s)) = sha256_hex (canonical_bytes (ns_snapshot m))"
        and "src_identity ?s = ns_identity m"
        by (simp_all add: create_source_def new_revision_def)
      ultimately show ?thesis
        using evt evolves_trans [of l "ticked l" l'] free unfolding sid_def [symmetric] by auto
    next
      case (Some f)
      with eq run free have "bnd (read_source sid)
          (record_next sid m tok trig (lg_clock l (lg_ticks l))) (ticked l) = (r, l')" by simp
      then show ?thesis
      proof (cases rule: read_bnd_cases)
        case (err e)
        with okt evt show ?thesis by simp
      next
        case (ok s0)
        note f = read_source_InrD [OF ok(1) okt]
        let ?rv = "new_revision m (src_latest_revision s0 + 1) (classify_change (last (src_revisions s0)) m)
          tok trig (lg_clock l (lg_ticks l))"
        let ?s = "revise_source s0 m ?rv (lg_clock l (lg_ticks l))"
        have step: "src_step s0 ?s" using m tok by (rule src_step.revise) simp
        have revs: "src_revisions ?s = src_revisions s0 @ [?rv]" by (simp add: revise_source_def Let_def)
        consider (conflict) "src_identity s0 \<noteq> ns_identity m"
          | (dup) "src_identity s0 = ns_identity m"
              "rev_content_hash (last (src_revisions s0)) = sha256_hex (canonical_bytes (ns_snapshot m))"
          | (new) "src_identity s0 = ns_identity m"
              "rev_content_hash (last (src_revisions s0)) \<noteq> sha256_hex (canonical_bytes (ns_snapshot m))"
          by blast
        then show ?thesis
        proof cases
          case conflict
          with ok(2) okt evt show ?thesis by (auto simp: record_next_def Let_def raise_def)
        next
          case dup
          with ok(2) have "l' = ticked l" by (simp add: record_next_def Let_def ret_def)
          with dup okt evt f(3,4) free show ?thesis unfolding sid_def [symmetric] by auto
        next
          case new
          with ok(2) have "store_revision sid m ?s ?rv ''new_revision'' (ticked l) = (r, l')"
            by (simp add: record_next_def Let_def)
          then have "ledger_ok l' \<and> evolves (ticked l) l' \<and> r = Inr (import_result_of ?s ?rv True ''new_revision'')
            \<and> map_of (lg_sources l') sid = Some (Intact ?s) \<and> lg_forgotten l' = lg_forgotten (ticked l)
            \<and> lg_scope l' = lg_scope (ticked l)"
            using okt f(4,6-11) step revs src_step_frame [OF step] src_step_ok [OF step] src_step_honest [OF step] new
            by (intro store_revision_rel) (auto simp: content_present_def new_revision_def sid_def)
          moreover have "rev_content_hash (last (src_revisions ?s)) = sha256_hex (canonical_bytes (ns_snapshot m))"
            by (simp add: revise_source_def Let_def new_revision_def)
          ultimately show ?thesis
            using evt evolves_trans [of l "ticked l" l'] free src_step_frame [OF step] new
            unfolding sid_def [symmetric] by auto
        qed
      qed
    qed
  qed
qed

lemma obeys_record_meeting:
  "valid_normalized m \<Longrightarrow> hexn 16 tok \<Longrightarrow> obeys ledger_rel (record_meeting m tok trig)"
  by (rule obeys_ledger_relI) (use record_meeting_rel in blast)

subsection \<open>Histories of the ledger\<close>

text \<open>
  The mutating methods as commands, with the arguments a caller passes.  \<open>cmd_ok\<close> says the
  arguments are validated models (candidates and payloads are pydantic instances) and an import
  ID is a token of the expected form; error codes outside the pattern are refused by the method.
\<close>

datatype ledger_cmd =
    Import "normalized_source list" "string option" import_trigger
  | Propose string "assoc_candidate list" string
  | Confirm string "exn + resolved_identity" string assoc_method "string option"
  | Clear string string "string option"
  | MarkProcessing string
  | MarkProcessed string nat
  | MarkFailed string string bool
  | Retry string
  | Reprocess string string
  | BeginForget string
  | FinishForget string overview_cleanup
  | Purge string

definition discard :: "(ledger, 'a) op \<Rightarrow> (ledger, unit) op" where
  "discard m = bnd m (\<lambda>_. ret ())"

fun cmd_op :: "ledger_cmd \<Rightarrow> (ledger, unit) op" where
  "cmd_op (Import ms tok trig) = discard (import_meetings ms tok trig)"
| "cmd_op (Propose sid cs reason) = discard (propose_association sid cs reason)"
| "cmd_op (Confirm sid i reason method actor) = discard (confirm_association sid i reason method actor)"
| "cmd_op (Clear sid reason actor) = discard (clear_association sid reason actor)"
| "cmd_op (MarkProcessing sid) = discard (mark_processing sid)"
| "cmd_op (MarkProcessed sid rv) = discard (mark_processed sid rv)"
| "cmd_op (MarkFailed sid code el) = discard (mark_failed sid code el)"
| "cmd_op (Retry sid) = discard (retry sid)"
| "cmd_op (Reprocess sid code) = discard (request_reprocessing sid code)"
| "cmd_op (BeginForget sid) = discard (begin_forget sid)"
| "cmd_op (FinishForget sid c) = discard (finish_forget sid c)"
| "cmd_op (Purge sid) = purge_forgotten_source sid"

fun cmd_ok :: "ledger_cmd \<Rightarrow> bool" where
  "cmd_ok (Import ms tok trig) = list_all valid_normalized ms"
| "cmd_ok (Propose sid cs reason) = (list_all valid_candidate cs \<and> map strip_candidate cs = cs)"
| "cmd_ok _ = True"

text \<open>Each command runs whether or not the previous one raised.\<close>

fun run_ledger :: "ledger_cmd list \<Rightarrow> ledger \<Rightarrow> ledger" where
  "run_ledger [] l = l"
| "run_ledger (c # cs) l = run_ledger cs (snd (cmd_op c l))"

lemma obeys_update:
  "life_step step \<Longrightarrow> obeys ledger_rel (update_source sid step)"
  by (rule obeys_update_source)

lemma obeys_forget_receipt: "obeys (=) (get_forget_receipt sid)"
  unfolding get_forget_receipt_def
  by (intro ledger_pure) (auto intro!: ledger_pure split: option.splits stored.splits)

lemma forget_receipt_ok:
  assumes "ledger_ok l" and "get_forget_receipt sid l = (Inr x, l')"
  shows "source_id_ok sid \<and> map_of (lg_forgotten l) sid = map_option Intact x
    \<and> (\<forall>r. x = Some r \<longrightarrow> fr_source_id r = sid \<and> fr_workspace_id r = workspace_id (lg_scope l))"
  using assms scope_ok [OF assms(1)]
  by (auto simp: get_forget_receipt_def bnd_def read_st_def ret_def raise_def
      split: if_splits option.splits stored.splits)

lemma put_receipt_rel:
  assumes ok: "ledger_ok l" and r: "fr_source_id r = sid" "fr_workspace_id r = workspace_id (lg_scope l)"
    and l': "l' = l\<lparr>lg_forgotten := AList.update sid (Intact r) (lg_forgotten l)\<rparr>"
  shows "ledger_ok l' \<and> evolves l l'"
  using assms by (auto simp: ledger_ok_def evolves_def stored_source_ok_def content_present_def)

lemma obeys_begin_forget: "obeys ledger_rel (begin_forget sid)"
proof (rule obeys_ledger_relI)
  fix l r l' assume ok: "ledger_ok l" and run: "begin_forget sid l = (r, l')"
  have okt: "ledger_ok (ticked l)" and evt: "evolves l (ticked l)" using ticked_ok [OF ok] by auto
  obtain x where fr: "get_forget_receipt sid l = (x, l)"
    using obeys_forget_receipt [of sid] by (metis pureD prod.exhaust)
  obtain y where rd: "read_source sid l = (y, l)"
    using obeys_read_source [of sid] by (metis pureD prod.exhaust)
  define rc where "rc = \<lparr>fr_source_id = sid, fr_workspace_id = workspace_id (lg_scope l),
    fr_requested_at = isoformat (lg_clock l (lg_ticks l)), fr_status = ForgetPending,
    fr_overview_status = None\<rparr>"
  have "l' = l \<or> l' = (ticked l)\<lparr>lg_forgotten := AList.update sid (Intact rc) (lg_forgotten (ticked l))\<rparr>"
    using run fr rd scope_ok [OF ok]
    by (auto simp: begin_forget_def bnd_def ledger_now_def modify_st_def ret_def raise_def Let_def rc_def
        split: sum.splits option.splits if_splits)
  moreover have "fr_source_id rc = sid" "fr_workspace_id rc = workspace_id (lg_scope (ticked l))"
    by (simp_all add: rc_def)
  ultimately show "ledger_ok l' \<and> evolves l l'"
    using ok put_receipt_rel [OF okt] evolves_trans [OF evt]
    by (metis evolves_refl)
qed

lemma obeys_finish_forget: "obeys ledger_rel (finish_forget sid c)"
proof (rule obeys_ledger_relI)
  fix l r l' assume ok: "ledger_ok l" and run: "finish_forget sid c l = (r, l')"
  obtain x where fr: "get_forget_receipt sid l = (x, l)"
    using obeys_forget_receipt [of sid] by (metis pureD prod.exhaust)
  show "ledger_ok l' \<and> evolves l l'"
  proof (cases "\<exists>r0. x = Inr (Some r0)")
    case True
    then obtain r0 where x: "x = Inr (Some r0)" by blast
    let ?rc = "r0\<lparr>fr_status := ForgetComplete, fr_overview_status := Some c\<rparr>"
    have "l' = l\<lparr>lg_forgotten := AList.update sid (Intact ?rc) (lg_forgotten l)\<rparr>"
      using fr run x by (simp add: finish_forget_def bnd_def modify_st_def ret_def Let_def)
    with forget_receipt_ok [OF ok fr [unfolded x]] show ?thesis
      by (intro put_receipt_rel [OF ok]) simp_all
  next
    case False
    with fr run have "l' = l"
      by (auto simp: finish_forget_def bnd_def raise_def split: sum.splits option.splits)
    with ok show ?thesis by (simp add: evolves_refl)
  qed
qed

lemma map_of_filter_key:
  "map_of (filter (\<lambda>entry. fst (fst entry) \<noteq> sid) xs) k = (if fst k = sid then None else map_of xs k)"
  by (induction xs) auto

lemma obeys_purge: "obeys ledger_rel (purge_forgotten_source sid)"
proof (rule obeys_ledger_relI)
  fix l r l' assume ok: "ledger_ok l" and run: "purge_forgotten_source sid l = (r, l')"
  show "ledger_ok l' \<and> evolves l l'"
  proof (cases "source_id_ok sid \<and> forgotten l sid")
    case True
    with run have l': "l' = l\<lparr>lg_contents := filter (\<lambda>entry. fst (fst entry) \<noteq> sid) (lg_contents l),
        lg_sources := AList.delete sid (lg_sources l)\<rparr>"
      by (auto simp: purge_forgotten_source_def bnd_def is_forgotten_ok modify_st_def)
    have "stored_source_ok l' sid' f" if "sid' \<noteq> sid" "stored_source_ok l sid' f" for sid' f
      using that l' by (fastforce simp: stored_source_ok_def content_present_def map_of_filter_key)
    with ok l' True show ?thesis
      by (auto simp: ledger_ok_def evolves_def map_of_filter_key)
  next
    case False
    with run have "l' = l"
      by (auto simp: purge_forgotten_source_def bnd_def is_forgotten_def raise_def read_st_def split: if_splits)
    with ok show ?thesis by (simp add: evolves_refl)
  qed
qed

lemma obeys_any_forgotten: "obeys ledger_rel (any_forgotten sc ms)"
  unfolding any_forgotten_def
  by (rule ledger_hist.obeys_fold_op)
     (auto intro: ledger_hist.obeys_basic ledger_rel_equal obeys_is_forgotten)

lemma obeys_import:
  assumes "list_all valid_normalized ms"
  shows "obeys ledger_rel (import_meetings ms tok trig)"
proof -
  note rules = ledger_hist.obeys_bnd ledger_hist.obeys_basic obeys_new_token obeys_any_forgotten
    obeys_ensure_scope_file ledger_rel_equal [OF obeys_scope]
  have rec: "obeys ledger_rel (map_op (\<lambda>m. record_meeting m t trig) ms)" if "hexn 16 t" for t
    using assms that by (intro ledger_hist.obeys_map_op) (auto simp: list_all_iff intro: obeys_record_meeting)
  show ?thesis unfolding import_meetings_def
    by (rule ledger_hist.obeys_bnd, cases tok) (auto intro!: rules rec)
qed

lemma obeys_discard: "obeys ledger_rel m \<Longrightarrow> obeys ledger_rel (discard m)"
  unfolding discard_def by (intro ledger_hist.obeys_bnd ledger_hist.obeys_ret)

lemma obeys_cmd: "cmd_ok c \<Longrightarrow> obeys ledger_rel (cmd_op c)"
  by (cases c)
     (auto intro!: obeys_discard obeys_import obeys_begin_forget obeys_finish_forget obeys_purge
        ledger_hist.obeys_bnd ledger_hist.obeys_basic obeys_update_source life_steps
      simp: propose_association_def confirm_association_def clear_association_def mark_processing_def
        mark_processed_def mark_failed_def retry_def request_reprocessing_def)

lemma run_ledger_rel: "list_all cmd_ok cs \<Longrightarrow> ledger_rel l (run_ledger cs l)"
proof (induction cs arbitrary: l)
  case Nil
  show ?case by (simp add: ledger_hist.R_refl)
next
  case (Cons c cs)
  then have "obeys ledger_rel (cmd_op c)" using obeys_cmd by simp
  then have "ledger_rel l (snd (cmd_op c l))" by (metis obeysD prod.collapse)
  with Cons show ?case by (simp, metis ledger_hist.R_trans)
qed

end
