(* ===== verification/Ledger_Claims.thy ===== *)
theory Ledger_Claims
  imports Ledger_Facts
begin

section \<open>What the evidence ledger guarantees\<close>

text \<open>
  The properties of the ledger as its callers see it, over whole histories of method calls,
  and a small ledger with one imported meeting on which they are exercised.
\<close>

subsection \<open>A ledger with one queued meeting\<close>

definition demo_meeting :: normalized_source where
  "demo_meeting = MeetingSource \<lparr>
     nm_identity = \<lparr>si_provider = Granola, si_connection_id = ''conn'', si_source_workspace_id = None,
       si_provider_object_id = ''note1'', si_kind = Meeting\<rparr>,
     nm_title = Some ''Weekly'', nm_occurred_at = None, nm_provider_updated_at = None,
     nm_attendees = [\<lparr>np_name = Some ''Ann'', np_email = None\<rparr>],
     nm_availability = ContentAvailable, nm_unavailable_reason = None,
     nm_content = \<lparr>mc_summary_text = Some ''Ann will send the pricing deck.'', mc_summary_markdown = None,
       mc_private_notes_text = None, mc_private_notes_markdown = None, mc_transcript = []\<rparr>,
     nm_provider_web_url = None\<rparr>"

definition demo_scope :: scope_identity where
  "demo_scope = \<lparr>workspace_id = ''0123456789abcdef''\<rparr>"

definition demo_sid :: string where
  "demo_sid = source_id_for demo_scope (ns_identity demo_meeting)"

definition demo_decision :: assoc_decision where
  "demo_decision = \<lparr>ad_sequence = 1, ad_state = Associated, ad_account = Some ''Acme'',
     ad_opportunity_slug = Some ''renewal'', ad_method = Some Explicit, ad_actor = ''local'',
     ad_reason = ''Chosen'', ad_candidates = [], ad_crm_account_id = None, ad_crm_opportunity_id = None,
     ad_supersedes_sequence = None, ad_recorded_at = 7\<rparr>"

definition demo_source :: evidence_source where
  "demo_source = \<lparr>src_id = demo_sid, src_scope = demo_scope, src_identity = ns_identity demo_meeting,
     src_created_at = 5, src_updated_at = 7, src_latest_revision = 1, src_availability = ContentAvailable,
     src_processing = \<lparr>ps_status = Queued, ps_attempts = 0, ps_retry_eligible = False,
       ps_last_error_code = None, ps_processed_revision = None, ps_updated_at = 7\<rparr>,
     src_association = demo_decision, src_history = [demo_decision],
     src_revisions = [new_revision demo_meeting 1 Initial ''0123456789abcdef'' ManualImport 5]\<rparr>"

definition demo_ledger :: ledger where
  "demo_ledger = \<lparr>lg_scope = demo_scope, lg_actor = ''local'', lg_scope_file = Some (Intact demo_scope),
     lg_sources = [(demo_sid, Intact demo_source)],
     lg_contents = [((demo_sid, sha256_hex (canonical_bytes (ns_snapshot demo_meeting))), Intact (ns_snapshot demo_meeting))],
     lg_forgotten = [], lg_clock = int, lg_ticks = 8, lg_tokens = (\<lambda>_. ''0123456789abcdef''), lg_token_count = 0\<rparr>"

lemma demo_sid_ok [simp]: "source_id_ok demo_sid"
  by (simp add: demo_sid_def)

lemma demo_scope_ok: "valid_scope demo_scope"
  by code_simp

lemma demo_meeting_ok: "valid_normalized demo_meeting"
  by (simp add: demo_meeting_def valid_meeting_def valid_identity_def in_len_def safe_token_def safe_char_def
      is_upper_def is_lower_def valid_participant_def valid_meeting_content_def https_only_def
      availability_matches_def meeting_content_empty_def truthy_def strip_identity_def strip_def is_space_def)

lemma demo_available: "ns_availability demo_meeting = ContentAvailable"
  by (simp add: demo_meeting_def)

lemma demo_meeting_size: "length (canonical_bytes (ns_snapshot demo_meeting)) \<le> max_content_bytes"
proof -
  have "length (canonical_bytes (ns_snapshot demo_meeting)) < 900" by code_simp
  then show ?thesis by (simp add: max_content_bytes_def)
qed

lemma demo_decision_ok: "decision_ok demo_decision"
  by code_simp

lemma demo_source_ok: "source_ok demo_source" "honest demo_source" "within_limits demo_source"
proof -
  have "valid_identity (ns_identity demo_meeting)" "strip_identity (ns_identity demo_meeting) = ns_identity demo_meeting"
    by code_simp+
  moreover have "revision_shape (new_revision demo_meeting 1 Initial ''0123456789abcdef'' ManualImport 5)"
    by (rule new_revision_shape [OF demo_meeting_ok]) code_simp
  ultimately show "source_ok demo_source"
    using demo_decision_ok demo_scope_ok
    by (simp add: source_ok_def demo_source_def processing_shape_def strip_processing_def chain_ok_def
        new_revision_def demo_decision_def demo_meeting_def)
  show "honest demo_source" by (simp add: honest_def demo_source_def demo_decision_def)
  show "within_limits demo_source" by (simp add: within_limits_def demo_source_def)
qed

lemma demo_ledger_ok: "ledger_ok demo_ledger"
  using demo_source_ok demo_scope_ok
  by (auto simp: ledger_ok_def demo_ledger_def stored_source_ok_def content_present_def
      demo_source_def new_revision_def demo_sid_def split: if_splits)

lemma demo_read: "read_source demo_sid demo_ledger = (Inr demo_source, demo_ledger)"
  using demo_source_ok(3) by (simp add: read_source_eq [OF demo_ledger_ok]) (simp add: demo_ledger_def)

lemma demo_reimport:
  "record_meeting demo_meeting ''0123456789abcdef'' UserTriggeredRetrieval demo_ledger =
   (Inr (import_result_of demo_source (last (src_revisions demo_source)) False ''duplicate''), ticked demo_ledger)"
proof -
  have rd: "read_source demo_sid (ticked demo_ledger) = (Inr demo_source, ticked demo_ledger)"
    using demo_source_ok(3) ticked_ok [OF demo_ledger_ok] by (simp add: read_source_eq) (simp add: demo_ledger_def)
  have "demo_sid = source_id_for (lg_scope demo_ledger) (ns_identity demo_meeting)"
    by (simp add: demo_ledger_def demo_sid_def)
  moreover have "map_of (lg_forgotten demo_ledger) demo_sid = None"
    "map_of (lg_sources demo_ledger) demo_sid = Some (Intact demo_source)"
    by (simp_all add: demo_ledger_def)
  ultimately show ?thesis
    using rd demo_meeting_size
    by (simp add: record_meeting_eq [OF demo_ledger_ok] bnd_def record_next_def Let_def ret_def)
       (simp add: demo_source_def new_revision_def ret_def)
qed

subsection \<open>Histories\<close>

text \<open>C6: Every sequence of ledger methods, failing ones included, keeps the ledger well
  formed: each stored record has its own ID and scope, an unbroken revision chain and decision
  history, an honest status, and a stored snapshot under the right hash for each revision.\<close>

theorem ledger_run_ok:
  assumes "ledger_ok l" and "list_all cmd_ok cs"
  shows "ledger_ok (run_ledger cs l)"
  using run_ledger_rel [OF assms(2), of l] assms(1) by (simp add: ledger_rel_def)

theorem ledger_run_ok_witness:
  "ledger_ok (run_ledger [Import [demo_meeting] (Some ''0123456789abcdef'') ManualImport,
     MarkProcessing demo_sid, MarkProcessed demo_sid 1, BeginForget demo_sid] demo_ledger)"
  by (rule ledger_run_ok) (simp_all add: demo_ledger_ok demo_meeting_ok)

text \<open>C5: History is append-only.  Whatever methods run, a source that is not forgotten keeps
  its identity, every revision and every association decision it had, at the same place.\<close>

theorem ledger_history_append_only:
  assumes "ledger_ok l" and "list_all cmd_ok cs" and "map_of (lg_sources l) sid = Some (Intact s)"
    and "\<not> forgotten (run_ledger cs l) sid"
  shows "\<exists>s'. map_of (lg_sources (run_ledger cs l)) sid = Some (Intact s') \<and> src_identity s' = src_identity s
    \<and> (\<exists>rs. src_revisions s' = src_revisions s @ rs) \<and> (\<exists>ds. src_history s' = src_history s @ ds)"
proof -
  from run_ledger_rel [OF assms(2), of l] assms(1) have "evolves l (run_ledger cs l)"
    by (simp add: ledger_rel_def)
  with assms(3,4) obtain s' where s': "map_of (lg_sources (run_ledger cs l)) sid = Some (Intact s')"
    and "src_step\<^sup>*\<^sup>* s s'" unfolding evolves_def by blast
  then show ?thesis
    using src_steps_frame revision_log.log_run decision_log.log_run by blast
qed

lemma demo_begin_not_forgotten: "\<not> forgotten (run_ledger [MarkProcessing demo_sid] demo_ledger) demo_sid"
  by (simp add: discard_def mark_processing_def update_source_def bnd_def demo_read mark_processing_step_def
      Let_def ledger_now_def write_source_def modify_st_def ret_def demo_source_def)
     (simp add: demo_ledger_def)

theorem ledger_history_append_only_witness:
  "\<exists>s'. map_of (lg_sources (run_ledger [MarkProcessing demo_sid] demo_ledger)) demo_sid = Some (Intact s')
    \<and> src_identity s' = src_identity demo_source
    \<and> (\<exists>rs. src_revisions s' = src_revisions demo_source @ rs) \<and> (\<exists>ds. src_history s' = src_history demo_source @ ds)"
  by (rule ledger_history_append_only [OF demo_ledger_ok _ _ demo_begin_not_forgotten])
     (simp_all add: demo_ledger_def)

lemma find_last_revision:
  assumes "chain_ok s"
  shows "find (\<lambda>r. rev_revision r = src_latest_revision s) (src_revisions s) = Some (last (src_revisions s))"
proof -
  let ?rs = "src_revisions s"
  have ne: "?rs \<noteq> []" and nums: "map rev_revision ?rs = [1..<Suc (length ?rs)]"
    using assms unfolding chain_ok_def by blast+
  have at: "rev_revision (?rs ! i) = Suc i" if "i < length ?rs" for i
  proof -
    have "map rev_revision ?rs ! i = [1..<Suc (length ?rs)] ! i" by (simp only: nums)
    with that show ?thesis by (simp del: upt_Suc)
  qed
  have "find (\<lambda>r. rev_revision r = length ?rs) ?rs = Some (?rs ! (length ?rs - 1))"
    unfolding find_Some_iff using ne at
    by (intro exI [of _ "length ?rs - 1"]) (auto simp: less_diff_conv)
  then show ?thesis using chain_latest [OF assms] ne by (simp add: last_conv_nth)
qed

text \<open>C19: The queue is honest.  In every reachable ledger a source that reads as \<^verbatim>\<open>queued\<close> is
  associated with an opportunity, has not been processed at its latest revision, and
  \<^verbatim>\<open>read_content\<close> returns a snapshot with the recorded hash for that revision.\<close>

theorem queued_is_processable:
  assumes "ledger_ok l0" and "list_all cmd_ok cs" and "l = run_ledger cs l0"
    and "read_source sid l = (Inr s, l)" and "ps_status (src_processing s) = Queued"
  shows "ad_state (src_association s) = Associated
    \<and> ps_processed_revision (src_processing s) \<noteq> Some (src_latest_revision s)
    \<and> (\<exists>snapshot. read_content sid (src_latest_revision s) l = (Inr snapshot, l)
        \<and> sha256_hex (canonical_bytes snapshot) = rev_content_hash (last (src_revisions s)))"
proof -
  have ok: "ledger_ok l" using run_ledger_rel [OF assms(2), of l0] assms(1,3) by (simp add: ledger_rel_def)
  note f = read_source_InrD [OF assms(4) ok]
  let ?r = "last (src_revisions s)"
  have h: "ad_state (src_association s) = Associated" "src_availability s = ContentAvailable"
    "ps_processed_revision (src_processing s) \<noteq> Some (src_latest_revision s)"
    using f(8) assms(5) by (auto simp: honest_def Let_def)
  have c: "chain_ok s" and av: "rev_availability ?r = ContentAvailable"
    and r: "?r \<in> set (src_revisions s)" and hash: "hexn 64 (rev_content_hash ?r)"
    using f(7) h(2) by (auto simp: source_ok_def chain_ok_def list_all_iff revision_shape_def)
  obtain j where j: "map_of (lg_contents l) (sid, rev_content_hash ?r) = Some (Intact j)"
    and sha: "sha256_hex (canonical_bytes j) = rev_content_hash ?r"
    using f(6,9) r ok unfolding content_present_def ledger_ok_def by (metis not_None_eq snd_conv)
  have "read_content sid (src_latest_revision s) l = (Inr j, l)"
    using assms(4) h(2) find_last_revision [OF c] av f(2) hash j sha
    by (simp add: read_content_def bnd_def read_st_def ret_def withheld_def)
  with h sha show ?thesis by blast
qed

theorem queued_is_processable_witness:
  "\<exists>snapshot. read_content demo_sid (src_latest_revision demo_source) demo_ledger = (Inr snapshot, demo_ledger)
     \<and> sha256_hex (canonical_bytes snapshot) = rev_content_hash (last (src_revisions demo_source))"
  using queued_is_processable [OF demo_ledger_ok _ _ demo_read, of "[]"] by (simp add: demo_source_def)

text \<open>C20: Imports are idempotent.  After an object was imported, importing the same payload
  again, under any import ID and trigger, records nothing: it answers \<^verbatim>\<open>duplicate\<close> with the
  recorded revision and leaves every record and snapshot as it is.\<close>

theorem import_idempotent:
  assumes "ledger_ok l" and "valid_normalized m" and "hexn 16 tok"
    and "record_meeting m tok trig l = (Inr res, l1)"
    and "read_source (source_id_for (lg_scope l) (ns_identity m)) l1 = (Inr s, l1)"
  shows "record_meeting m tok' trig' l1 =
    (Inr (import_result_of s (last (src_revisions s)) False ''duplicate''), ticked l1)"
proof -
  let ?sid = "source_id_for (lg_scope l) (ns_identity m)"
  from record_meeting_rel [OF assms(2,3,1,4)] obtain s1 where ok1: "ledger_ok l1"
    and sc: "lg_scope l1 = lg_scope l" and nf: "\<not> forgotten l1 ?sid"
    and s1: "map_of (lg_sources l1) ?sid = Some (Intact s1)" "src_identity s1 = ns_identity m"
      "rev_content_hash (last (src_revisions s1)) = sha256_hex (canonical_bytes (ns_snapshot m))"
      "length (canonical_bytes (ns_snapshot m)) \<le> max_content_bytes" by auto
  have "s1 = s" using read_source_InrD(4) [OF assms(5) ok1] s1(1) by simp
  have okt: "ledger_ok (ticked l1)" using ticked_ok [OF ok1] by simp
  have "read_source ?sid (ticked l1) = (Inr s, ticked l1)"
    using assms(5) by (simp add: read_source_eq [OF ok1] read_source_eq [OF okt] split: if_splits option.splits stored.splits)
  then show ?thesis
    using record_meeting_eq [OF ok1, of ?sid m tok' trig'] sc nf s1 \<open>s1 = s\<close>
    by (simp add: bnd_def record_next_def Let_def ret_def)
qed

theorem import_idempotent_witness:
  "record_meeting demo_meeting ''ffffffffffffffff'' ManualImport (ticked demo_ledger) =
    (Inr (import_result_of demo_source (last (src_revisions demo_source)) False ''duplicate''), ticked (ticked demo_ledger))"
proof -
  have sid: "source_id_for (lg_scope demo_ledger) (ns_identity demo_meeting) = demo_sid"
    by (simp add: demo_ledger_def demo_sid_def)
  have "read_source demo_sid (ticked demo_ledger) = (Inr demo_source, ticked demo_ledger)"
    using demo_source_ok(3) ticked_ok [OF demo_ledger_ok] by (simp add: read_source_eq) (simp add: demo_ledger_def)
  then show ?thesis
    by (intro import_idempotent [OF demo_ledger_ok demo_meeting_ok _ demo_reimport]) (simp_all add: sid hexn_def is_hex_def is_digit_def)
qed

lemma forgotten_read: "source_id_ok sid \<Longrightarrow> forgotten l sid \<Longrightarrow>
  read_source sid l = (Inl (EvidenceLedgerError 410 ''source_forgotten''), l)"
  by (auto simp: read_source_def is_forgotten_def op_defs)



text \<open>C22: Stored content is released only with consent and intact.  From any ledger, however
  damaged, \<^verbatim>\<open>read_content\<close> writes nothing and returns only a snapshot whose hash is the one the
  revision records, of a source that is neither forgotten nor withheld, at a revision whose own
  availability is \<^verbatim>\<open>content_available\<close>.\<close>

theorem read_content_safe:
  assumes "read_content sid rv l = (Inr snapshot, l')"
  shows "l' = l \<and> \<not> forgotten l sid \<and> (\<exists>s r. read_source sid l = (Inr s, l) \<and> \<not> withheld (src_availability s)
    \<and> r \<in> set (src_revisions s) \<and> rev_revision r = rv \<and> rev_availability r = ContentAvailable
    \<and> sha256_hex (canonical_bytes snapshot) = rev_content_hash r)"
proof -
  from assms obtain s where rd: "read_source sid l = (Inr s, l)"
    unfolding read_content_def by (elim bnd_InrE) (metis obeys_read_source pureD)
  have nf: "\<not> forgotten l sid"
    using rd by (auto simp: read_source_def is_forgotten_def op_defs split: if_splits)
  obtain r where r: "find (\<lambda>r. rev_revision r = rv) (src_revisions s) = Some r"
    and rest: "\<not> withheld (src_availability s)" "rev_availability r = ContentAvailable"
      "sha256_hex (canonical_bytes snapshot) = rev_content_hash r" "l' = l"
    using assms rd unfolding read_content_def
    by (auto simp: bnd_def read_st_def ret_def raise_def split: if_splits option.splits stored.splits)
  from r have "r \<in> set (src_revisions s) \<and> rev_revision r = rv" by (auto simp: find_Some_iff)
  with rd nf rest show ?thesis by blast
qed

theorem read_content_safe_witness:
  "\<exists>snapshot. read_content demo_sid 1 demo_ledger = (Inr snapshot, demo_ledger)
     \<and> sha256_hex (canonical_bytes snapshot) = sha256_hex (canonical_bytes (ns_snapshot demo_meeting))"
proof -
  have run: "read_content demo_sid 1 demo_ledger = (Inr (ns_snapshot demo_meeting), demo_ledger)"
    by (simp add: read_content_def bnd_def demo_read)
       (simp add: bnd_def demo_source_def new_revision_def withheld_def demo_available read_st_def ret_def demo_ledger_def)
  from read_content_safe [OF run] run show ?thesis by blast
qed

subsection \<open>Single methods\<close>

lemma updated_read:
  assumes "ledger_ok l" and "read_source sid l = (Inr s, l)" and "life_step step"
    and "step s (lg_clock l (lg_ticks l)) = Inr (Some s')"
  shows "\<exists>l'. update_source sid step l = (Inr (summarize False s'), l') \<and> ledger_ok l' \<and> \<not> forgotten l' sid
    \<and> map_of (lg_sources l') sid = Some (Intact s')"
proof -
  note f = read_source_InrD [OF assms(2,1)]
  obtain r l' where run: "update_source sid step l = (r, l')" by (cases "update_source sid step l")
  have ok: "ledger_ok l'"
    using obeysD [OF obeys_update_source [OF assms(3)] run] assms(1) by (simp add: ledger_rel_def)
  have st: "src_step\<^sup>*\<^sup>* s s'"
    using assms(3,4) f(7) unfolding life_step_def by blast
  have id: "src_id s' = sid" using src_steps_frame [OF st] f(6) by simp
  show ?thesis
    using run ok f(2,3) assms(2,4) id
    by (auto simp: update_source_def bnd_def ledger_now_def write_source_def modify_st_def ret_def)
qed

text \<open>C23: A result for an outdated revision never counts as processed.  When \<^verbatim>\<open>mark_processed\<close>
  succeeds, the source was being processed; if the revision is still the latest one the source
  becomes \<^verbatim>\<open>processed\<close> at it, otherwise the outcome is \<^verbatim>\<open>superseded\<close>, the processed revision
  stays what it was and the source waits again for the newer content.\<close>

theorem mark_processed_result:
  assumes "ledger_ok l" and "read_source sid l = (Inr s, l)" and "mark_processed sid rv l = (Inr sm, l')"
  shows "ps_status (src_processing s) = Processing
    \<and> sm_outcome sm = Some (if rv = src_latest_revision s then Processed else Superseded)
    \<and> (\<exists>s'. map_of (lg_sources l') sid = Some (Intact s')
        \<and> ps_processed_revision (src_processing s') =
            (if rv = src_latest_revision s then Some rv else ps_processed_revision (src_processing s))
        \<and> ps_status (src_processing s') =
            (if rv = src_latest_revision s
               \<or> ps_processed_revision (src_processing s) = Some (src_latest_revision s) then Processed
             else if src_availability s = ContentAvailable then Queued else AwaitingContent))"
proof -
  note f = read_source_InrD [OF assms(2,1)]
  let ?now = "lg_clock l (lg_ticks l)"
  have p: "ps_status (src_processing s) = Processing"
    using assms(2,3)
    by (auto simp: mark_processed_def update_source_def bnd_def mark_processed_step_def Let_def split: if_splits)
  with f(8) have a: "ad_state (src_association s) = Associated" by (simp add: honest_def Let_def)
  from p obtain s' where step: "mark_processed_step rv s ?now = Inr (Some s')"
    by (simp add: mark_processed_step_def Let_def)
  obtain l2 where run: "update_source sid (mark_processed_step rv) l = (Inr (summarize False s'), l2)"
    and s': "map_of (lg_sources l2) sid = Some (Intact s')"
    using updated_read [OF assms(1,2) life_steps(5) step] by blast
  have l2: "l2 = l'" and sm: "sm = (summarize False s')\<lparr>sm_outcome := Some
      (if rv \<noteq> src_latest_revision s' then Superseded else Processed)\<rparr>"
    using assms(3) run by (auto simp: mark_processed_def bnd_def ret_def summarize_def Let_def)
  show ?thesis
    using s' step p a unfolding l2 sm
    by (auto simp: mark_processed_step_def derive_processing_def Let_def split: if_splits)
qed

lemma demo_processing:
  obtains l s where "ledger_ok l" and "read_source demo_sid l = (Inr s, l)"
    and "ps_status (src_processing s) = Processing" and "src_latest_revision s = 1"
proof -
  define s where "s = demo_source\<lparr>src_updated_at := 8, src_processing := (src_processing demo_source)\<lparr>
      ps_status := Processing, ps_attempts := 1, ps_updated_at := 8\<rparr>\<rparr>"
  have "mark_processing_step demo_source (lg_clock demo_ledger (lg_ticks demo_ledger)) = Inr (Some s)"
    by (simp add: mark_processing_step_def s_def demo_source_def demo_ledger_def)
  from updated_read [OF demo_ledger_ok demo_read life_steps(4) this] obtain l
    where l: "ledger_ok l" "\<not> forgotten l demo_sid" "map_of (lg_sources l) demo_sid = Some (Intact s)" by blast
  have "within_limits s" by (simp add: within_limits_def s_def demo_source_def)
  with l have "read_source demo_sid l = (Inr s, l)" by (simp add: read_source_eq)
  with l(1) show thesis by (rule that) (simp_all add: s_def demo_source_def)
qed

theorem mark_processed_result_witness:
  "\<exists>l s sm l'. read_source demo_sid l = (Inr s, l) \<and> mark_processed demo_sid 1 l = (Inr sm, l')
     \<and> sm_outcome sm = Some Processed"
proof -
  obtain l s where l: "ledger_ok l" "read_source demo_sid l = (Inr s, l)"
    and s: "ps_status (src_processing s) = Processing" "src_latest_revision s = 1" by (rule demo_processing)
  from s obtain s' where "mark_processed_step 1 s (lg_clock l (lg_ticks l)) = Inr (Some s')"
    by (simp add: mark_processed_step_def Let_def)
  from updated_read [OF l life_steps(5) this] obtain sm l' where "mark_processed demo_sid 1 l = (Inr sm, l')"
    by (auto simp: mark_processed_def bnd_def ret_def)
  with mark_processed_result [OF l this] l s show ?thesis by auto
qed

text \<open>Source IDs identify objects.  Two objects have the same source ID exactly when the
  first 128 bits of the SHA-256 of their canonical payloads agree, and these payloads are the
  same bytes exactly when workspace and identity are the same; so only a truncated hash
  collision could confuse two objects.\<close>

lemma source_id_injective:
  "(source_id_for sc i = source_id_for sc' i') =
     (take 32 (sha256_hex (canonical_bytes (source_id_payload sc i)))
        = take 32 (sha256_hex (canonical_bytes (source_id_payload sc' i'))))
   \<and> (canonical_bytes (source_id_payload sc i) = canonical_bytes (source_id_payload sc' i'))
      = (sc = sc' \<and> i = i')"
proof -
  have "sc = sc' \<and> i = i'" if eq: "canonical_bytes (source_id_payload sc i) = canonical_bytes (source_id_payload sc' i')"
  proof -
    have k: "provider_value p = provider_value q \<longleftrightarrow> p = q" "kind_value a = kind_value b \<longleftrightarrow> a = b" for p q a b
      by (cases p; cases q; simp) (cases a; cases b; simp)
    from eq have c: "canon (source_id_payload sc i) = canon (source_id_payload sc' i')"
      by (simp add: canonical_bytes_eq_iff)
    show ?thesis
      using canon_JObj_eqD [OF c [unfolded source_id_payload_def], of "''scope''"]
        canon_JObj_eqD [OF c [unfolded source_id_payload_def], of "''provider''"]
        canon_JObj_eqD [OF c [unfolded source_id_payload_def], of "''connection_id''"]
        canon_JObj_eqD [OF c [unfolded source_id_payload_def], of "''source_workspace_id''"]
        canon_JObj_eqD [OF c [unfolded source_id_payload_def], of "''provider_object_id''"]
        canon_JObj_eqD [OF c [unfolded source_id_payload_def], of "''kind''"]
      by (cases sc; cases sc'; cases i; cases i')
         (simp add: k scope_json_def split: option.splits)
  qed
  then show ?thesis by (auto simp: source_id_for_def)
qed

text \<open>C24: The record's size limits are not enforced by the writers.  A source that carries the
  maximum of 500 association decisions and is cleared once more gets a 501st decision; the
  method reports success and from then on every read of the source fails with
  \<^verbatim>\<open>malformed_storage\<close>.\<close>

theorem history_limit_locks_source:
  assumes "ledger_ok l" and "read_source sid l = (Inr s, l)" and "length (src_history s) = 500"
    and "ad_state (src_association s) = Associated" and "clear_association sid reason actor l = (Inr sm, l')"
  shows "fst (read_source sid l') = Inl malformed"
proof -
  note f = read_source_InrD [OF assms(2,1)]
  obtain a where upd: "update_source sid (clear_step a reason) l = (Inr sm, l')"
    using assms(5) by (auto simp: clear_association_def bnd_def read_st_def)
  then obtain s' where step: "clear_step a reason s (lg_clock l (lg_ticks l)) = Inr (Some s')"
    using assms(2,4) by (auto simp: update_source_def bnd_def clear_step_def split: sum.splits)
  then have "length (src_history s') = 501"
    using assms(3,4) by (auto simp: clear_step_def reset_processing_def append_decision_def split: sum.splits)
  moreover have "ledger_ok l' \<and> \<not> forgotten l' sid \<and> map_of (lg_sources l') sid = Some (Intact s')"
    using updated_read [OF assms(1,2) life_steps(3) step] upd by auto
  ultimately show ?thesis using f(2) by (simp add: read_source_eq within_limits_def)
qed

definition crowded_source :: evidence_source where
  "crowded_source = demo_source\<lparr>
     src_association := demo_decision\<lparr>ad_sequence := 500\<rparr>,
     src_history := map (\<lambda>n. demo_decision\<lparr>ad_sequence := n\<rparr>) [1..<501]\<rparr>"

definition crowded_ledger :: ledger where
  "crowded_ledger = demo_ledger\<lparr>lg_sources := [(demo_sid, Intact crowded_source)]\<rparr>"

lemma crowded_ledger_ok: "ledger_ok crowded_ledger"
proof -
  have d: "decision_ok (demo_decision\<lparr>ad_sequence := n\<rparr>)" if "1 \<le> n" for n
    using demo_decision_ok that
    by (simp add: decision_ok_def valid_decision_def decision_fields_ok_def decision_consistent_def
        strip_decision_def strip_decision_fields_def demo_decision_def)
  have l: "last (map f [Suc 0..<501]) = f 500" for f :: "nat \<Rightarrow> assoc_decision"
    by (simp add: last_map)
  have s: "map ad_sequence (map (\<lambda>n. demo_decision\<lparr>ad_sequence := n\<rparr>) [Suc 0..<501]) = [Suc 0..<501]"
    by (simp add: comp_def demo_decision_def del: upt_Suc)
  have "source_ok crowded_source"
    using demo_source_ok(1) d
    unfolding source_ok_def chain_ok_def crowded_source_def list_all_iff
    by (auto simp: l s comp_def demo_decision_def simp del: upt_Suc)
  moreover have "honest crowded_source"
    by (simp add: honest_def crowded_source_def demo_source_def demo_decision_def)
  ultimately show ?thesis
    using demo_ledger_ok
    by (auto simp: ledger_ok_def crowded_ledger_def demo_ledger_def stored_source_ok_def content_present_def
      crowded_source_def demo_source_def new_revision_def demo_sid_def split: if_splits)
qed

theorem history_limit_locks_source_witness:
  "\<exists>sm l'. clear_association demo_sid ''Wrong account'' None crowded_ledger = (Inr sm, l')
     \<and> fst (read_source demo_sid l') = Inl malformed"
proof -
  have rd: "read_source demo_sid crowded_ledger = (Inr crowded_source, crowded_ledger)"
    by (simp add: read_source_eq [OF crowded_ledger_ok])
       (simp add: crowded_ledger_def demo_ledger_def within_limits_def crowded_source_def demo_source_def)
  have len: "length (src_history crowded_source) = 500" "ad_state (src_association crowded_source) = Associated"
    by (simp_all add: crowded_source_def demo_decision_def del: upt_Suc)
  have "\<exists>d. mk_decision ((blank_decision crowded_source Unassociated ''local'' ''Wrong account'' 8)\<lparr>
      ad_supersedes_sequence := Some 500\<rparr>) = Inr d"
    by (simp add: mk_decision_def blank_decision_def strip_decision_fields_def decision_fields_ok_def
        decision_consistent_def safe_token_def short_text_def in_len_def safe_char_def is_upper_def is_lower_def
        is_digit_def strip_def is_space_def truthy_def Let_def)
  then have "\<exists>s'. clear_step ''local'' ''Wrong account'' crowded_source 8 = Inr (Some s')"
    using len(2) by (auto simp: clear_step_def supersedes_of_def crowded_source_def)
  then obtain s' where step:
    "clear_step ''local'' ''Wrong account'' crowded_source (lg_clock crowded_ledger (lg_ticks crowded_ledger)) = Inr (Some s')"
    by (auto simp: crowded_ledger_def demo_ledger_def)
  have "lg_actor crowded_ledger = ''local''" by (simp add: crowded_ledger_def demo_ledger_def)
  with updated_read [OF crowded_ledger_ok rd life_steps(3) step]
  have "\<exists>sm l'. clear_association demo_sid ''Wrong account'' None crowded_ledger = (Inr sm, l')"
    by (auto simp: clear_association_def bnd_def read_st_def)
  then show ?thesis using history_limit_locks_source [OF crowded_ledger_ok rd len] by blast
qed

end
