(* ===== verification/Actions.thy ===== *)
theory Actions
  imports Evidence
begin

section \<open>The action contract\<close>

text \<open>
  \<^verbatim>\<open>webapp/command_center_operations.py\<close>: text normalization, attribution of commitments to
  passages of a source, and the records of the operations store.  The models of this file do not
  strip their texts.  Prefixes: \<open>sr_\<close> SourceRef, \<open>ob_\<close> Observation, \<open>tr_\<close> ActionTransition,
  \<open>cs_\<close> CompletionSuggestion, \<open>er_\<close> EvidenceRetraction, \<open>rt_\<close> Retraction, \<open>act_\<close> ActionRecord,
  \<open>ch_\<close> ChangeEntry, \<open>run_\<close> ReconciliationRun, \<open>pa_\<close> PendingApplication.
\<close>

subsection \<open>Literals\<close>

datatype party = Airbyte | Customer | Engineering | Security | Partner | Unknown

datatype action_status = ActProposed | ActOpen | ActBlocked | ActCompleted | ActDismissed

datatype observation_kind = Commitment | CompletionKind

datatype actor = Analysis | User

datatype change_type =
    OverviewRevision | ActionCreated | ActionLinked | ActionTransitioned | CompletionSuggested
  | PossibleDuplicateFlagged | AssociationCorrected | EvidenceRetracted
  | CompletionSuggestionRetracted | OverviewReverted | OverviewRetired

datatype run_status = RunSucceeded | RunFailed | RunStaleBase | RunSuperseded | RunInterrupted | RunApplyIncomplete

datatype attribution = SourceVerified | ModelOnly

fun party_value :: "party \<Rightarrow> string" where
  "party_value Airbyte = ''Airbyte''"
| "party_value Customer = ''Customer''"
| "party_value Engineering = ''Engineering''"
| "party_value Security = ''Security''"
| "party_value Partner = ''Partner''"
| "party_value Unknown = ''Unknown''"

fun status_value :: "action_status \<Rightarrow> string" where
  "status_value ActProposed = ''proposed''"
| "status_value ActOpen = ''open''"
| "status_value ActBlocked = ''blocked''"
| "status_value ActCompleted = ''completed''"
| "status_value ActDismissed = ''dismissed''"

fun observation_kind_value :: "observation_kind \<Rightarrow> string" where
  "observation_kind_value Commitment = ''commitment''"
| "observation_kind_value CompletionKind = ''completion_suggestion''"

fun actor_value :: "actor \<Rightarrow> string" where
  "actor_value Analysis = ''analysis''"
| "actor_value User = ''user''"

fun change_type_value :: "change_type \<Rightarrow> string" where
  "change_type_value OverviewRevision = ''overview_revision''"
| "change_type_value ActionCreated = ''action_created''"
| "change_type_value ActionLinked = ''action_linked''"
| "change_type_value ActionTransitioned = ''action_transition''"
| "change_type_value CompletionSuggested = ''completion_suggested''"
| "change_type_value PossibleDuplicateFlagged = ''possible_duplicate_flagged''"
| "change_type_value AssociationCorrected = ''association_corrected''"
| "change_type_value EvidenceRetracted = ''evidence_retracted''"
| "change_type_value CompletionSuggestionRetracted = ''completion_suggestion_retracted''"
| "change_type_value OverviewReverted = ''overview_reverted''"
| "change_type_value OverviewRetired = ''overview_retired''"

fun run_status_value :: "run_status \<Rightarrow> string" where
  "run_status_value RunSucceeded = ''succeeded''"
| "run_status_value RunFailed = ''failed''"
| "run_status_value RunStaleBase = ''stale_base''"
| "run_status_value RunSuperseded = ''superseded''"
| "run_status_value RunInterrupted = ''interrupted''"
| "run_status_value RunApplyIncomplete = ''apply_incomplete''"

text \<open>\<^verbatim>\<open>HUMAN_TRANSITIONS\<close>\<close>

definition human_transition :: "action_status \<Rightarrow> action_status \<Rightarrow> bool" where
  "human_transition a b \<longleftrightarrow> (a, b) \<in> {
     (ActProposed, ActOpen), (ActProposed, ActDismissed),
     (ActOpen, ActBlocked), (ActOpen, ActCompleted), (ActOpen, ActDismissed),
     (ActBlocked, ActOpen), (ActBlocked, ActCompleted), (ActBlocked, ActDismissed),
     (ActCompleted, ActOpen), (ActDismissed, ActOpen)}"

subsection \<open>Patterns\<close>

definition action_id_ok :: "string \<Rightarrow> bool" where
  "action_id_ok s \<longleftrightarrow> startswith s ''act_'' \<and> hexn 32 (drop 4 s)"

definition run_id_ok :: "string \<Rightarrow> bool" where
  "run_id_ok s \<longleftrightarrow> startswith s ''run_'' \<and> hexn 32 (drop 4 s)"

definition change_id_ok :: "string \<Rightarrow> bool" where
  "change_id_ok s \<longleftrightarrow> startswith s ''chg_'' \<and> hexn 32 (drop 4 s)"

definition date_ok :: "string \<Rightarrow> bool" where
  "date_ok s \<longleftrightarrow> length s = 10 \<and> list_all is_digit (take 4 s) \<and> s ! 4 = CHR ''-''
     \<and> list_all is_digit (take 2 (drop 5 s)) \<and> s ! 7 = CHR ''-'' \<and> list_all is_digit (drop 8 s)"

subsection \<open>Normalized text\<close>

definition clear_punct :: "char \<Rightarrow> char" where
  "clear_punct c = (if is_word c \<or> is_space c then c else CHR '' '')"

definition normal_words :: "string \<Rightarrow> string list" where
  "normal_words s = split_ws (map clear_punct (map lower_char s))"

definition normalize_text :: "string \<Rightarrow> string" where
  "normalize_text s = join '' '' (normal_words s)"

text \<open>\<^verbatim>\<open>PARTY_KEYWORDS\<close> and \<^verbatim>\<open>derive_party\<close>\<close>

definition party_keywords :: "(string \<times> party) list" where
  "party_keywords = [(''airbyte'', Airbyte), (''customer'', Customer), (''engineering'', Engineering),
     (''security'', Security), (''partner'', Partner)]"

definition derive_party :: "string option \<Rightarrow> party" where
  "derive_party owner = (case owner of
     None \<Rightarrow> Unknown
   | Some o' \<Rightarrow>
       if o' = [] then Unknown
       else (let ws = split_ws (normalize_text o');
                 matches = filter (\<lambda>(w, p). w \<in> set ws) party_keywords
             in case matches of [(w, p)] \<Rightarrow> p | _ \<Rightarrow> Unknown))"

subsection \<open>Dates\<close>

definition dec_value :: "string \<Rightarrow> nat" where
  "dec_value s = foldl (\<lambda>n c. 10 * n + (ord_c c - 48)) 0 s"

definition month_names :: "string list" where
  "month_names = [''january'', ''february'', ''march'', ''april'', ''may'', ''june'', ''july'',
     ''august'', ''september'', ''october'', ''november'', ''december'']"

text \<open>
  \<^verbatim>\<open>date_renderings\<close> of a date of the form the models accept (\<open>date_ok\<close>): \<^verbatim>\<open>int(part)\<close> drops the
  leading zeros.
\<close>

definition date_renderings :: "string \<Rightarrow> string list" where
  "date_renderings date =
     (let y = dec_value (take 4 date); m = dec_value (take 2 (drop 5 date)); d = dec_value (drop 8 date);
          Y = dec_nat y; M = dec_nat m; D = dec_nat d in
      if \<not> (1 \<le> m \<and> m \<le> 12) then [normalize_text date]
      else
        let name = month_names ! (m - 1); short = take 3 name; sl = ''/''; sp = '' '' in
        map normalize_text [
          date, M @ sl @ D @ sl @ Y, zfill 2 M @ sl @ zfill 2 D @ sl @ Y, D @ sl @ M @ sl @ Y,
          name @ sp @ D, name @ sp @ D @ sp @ Y, D @ sp @ name, D @ sp @ name @ sp @ Y,
          short @ sp @ D, short @ sp @ D @ sp @ Y, D @ sp @ short, D @ sp @ short @ sp @ Y])"

subsection \<open>Attribution\<close>

definition commitment_stopwords :: "string list" where
  "commitment_stopwords = [''the'', ''and'', ''for'', ''with'', ''will'', ''our'', ''their'', ''them'',
     ''this'', ''that'', ''from'', ''into'', ''about'', ''over'', ''before'', ''after'', ''should'',
     ''would'', ''could'', ''must'', ''need'', ''needs'', ''customer'', ''airbyte'', ''team'', ''please'']"

definition commitment_terms :: "string \<Rightarrow> string list" where
  "commitment_terms s = filter (\<lambda>t. 3 \<le> length t \<and> t \<notin> set commitment_stopwords
     \<and> \<not> list_all is_digit t) (split_ws (normalize_text s))"

text \<open>\<^verbatim>\<open>str.splitlines\<close> on ASCII text; \<^verbatim>\<open>"\r\n"\<close> is one boundary.\<close>

definition line_break :: "char \<Rightarrow> bool" where
  "line_break c \<longleftrightarrow> (10 \<le> ord_c c \<and> ord_c c \<le> 13) \<or> (28 \<le> ord_c c \<and> ord_c c \<le> 30)"

fun splitlines_acc :: "string \<Rightarrow> string \<Rightarrow> string list" where
  "splitlines_acc cur [] = (if cur = [] then [] else [rev cur])"
| "splitlines_acc cur (c # cs) =
     (if ord_c c = 13 \<and> cs \<noteq> [] \<and> ord_c (hd cs) = 10 then rev cur # splitlines_acc [] (tl cs)
      else if line_break c then rev cur # splitlines_acc [] cs
      else splitlines_acc (c # cur) cs)"

definition splitlines :: "string \<Rightarrow> string list" where
  "splitlines s = splitlines_acc [] s"

text \<open>\<^verbatim>\<open>re.sub(r"^\[[^\]]{1,80}\]\s*", "", line)\<close>: drop a speaker label.\<close>

definition drop_label :: "string \<Rightarrow> string" where
  "drop_label line = (case line of
     [] \<Rightarrow> line
   | c # rest \<Rightarrow>
       let label = takeWhile (\<lambda>x. x \<noteq> CHR '']'') rest; after = dropWhile (\<lambda>x. x \<noteq> CHR '']'') rest in
       if c = CHR ''['' \<and> after \<noteq> [] \<and> in_len 1 80 label then dropWhile is_space (tl after) else line)"

text \<open>\<^verbatim>\<open>re.split(r"(?<=[.!?;])\s+", line)\<close>\<close>

definition sentence_end :: "char \<Rightarrow> bool" where
  "sentence_end c \<longleftrightarrow> c \<in> {CHR ''.'', CHR ''!'', CHR ''?'', CHR '';''}"

function sentences_acc :: "string \<Rightarrow> string \<Rightarrow> string list" where
  "sentences_acc cur [] = [rev cur]"
| "sentences_acc cur (c # cs) =
     (if is_space c \<and> cur \<noteq> [] \<and> sentence_end (hd cur)
      then rev cur # sentences_acc [] (dropWhile is_space cs)
      else sentences_acc (c # cur) cs)"
  by pat_completeness auto
termination
  by (relation "measure (\<lambda>(cur, s). length s)") (auto simp: less_Suc_eq_le length_dropWhile_le)

definition metadata_line :: "string \<Rightarrow> bool" where
  "metadata_line line \<longleftrightarrow> line = [] \<or> startswith line ''#'' \<or> startswith line ''Occurred:''
     \<or> startswith line ''Attendees:''"

definition source_passages :: "string \<Rightarrow> string list" where
  "source_passages text = concat (map (\<lambda>raw.
     let line = strip raw in
     if metadata_line line then []
     else filter (\<lambda>p. p \<noteq> []) (map normalize_text (sentences_acc [] (drop_label line))))
     (splitlines text))"

fun contains :: "string \<Rightarrow> string \<Rightarrow> bool" where
  "contains [] needle \<longleftrightarrow> needle = []"
| "contains (c # cs) needle \<longleftrightarrow> startswith (c # cs) needle \<or> contains cs needle"

definition padded :: "string \<Rightarrow> string" where
  "padded s = '' '' @ s @ '' ''"

definition verify_attribution :: "string \<Rightarrow> string option \<Rightarrow> string option \<Rightarrow> string option \<Rightarrow> attribution" where
  "verify_attribution text owner due commitment =
     (if \<not> truthy owner \<or> \<not> truthy due then ModelOnly
      else
        let terms = (case commitment of None \<Rightarrow> [] | Some c \<Rightarrow> commitment_terms c) in
        if commitment \<noteq> None \<and> terms = [] then ModelOnly
        else if list_ex (\<lambda>passage.
            contains (padded passage) (padded (normalize_text (the owner)))
            \<and> list_ex (\<lambda>form. contains (padded passage) (padded form)) (date_renderings (the due))
            \<and> list_all (\<lambda>t. t \<in> set (split_ws passage)) terms) (source_passages text)
        then SourceVerified else ModelOnly)"

subsection \<open>Observations\<close>

record source_ref =
  sr_source_id :: string
  sr_revision :: nat
  sr_evidence_id :: string
  sr_locator :: "string option"

definition valid_ref :: "source_ref \<Rightarrow> bool" where
  "valid_ref r \<longleftrightarrow> source_id_ok (sr_source_id r) \<and> 1 \<le> sr_revision r \<and> sr_revision r \<le> 1000000
     \<and> in_len 8 160 (sr_evidence_id r) \<and> opt_all (in_len 0 200) (sr_locator r)"

definition ref_json :: "source_ref \<Rightarrow> json" where
  "ref_json r = JObj [
     (''source_id'', JStr (sr_source_id r)), (''revision'', JInt (int (sr_revision r))),
     (''evidence_id'', JStr (sr_evidence_id r)), (''locator'', j_opt JStr (sr_locator r))]"

record observation =
  ob_key :: string
  ob_kind :: observation_kind
  ob_commitment :: string
  ob_definition_of_done :: "string option"
  ob_party :: party
  ob_owner :: "string option"
  ob_due_date :: "string option"
  ob_explicit :: bool
  ob_attribution :: attribution
  ob_source :: source_ref

definition valid_observation :: "observation \<Rightarrow> bool" where
  "valid_observation x \<longleftrightarrow> hexn 16 (ob_key x) \<and> short_text (ob_commitment x)
     \<and> opt_all (in_len 0 2000) (ob_definition_of_done x) \<and> opt_all (in_len 0 200) (ob_owner x)
     \<and> opt_all date_ok (ob_due_date x) \<and> valid_ref (ob_source x)"

definition key_payload :: "string \<Rightarrow> observation_kind \<Rightarrow> string \<Rightarrow> party \<Rightarrow> json" where
  "key_payload sid kind commitment p = JObj [
     (''source_id'', JStr sid), (''kind'', JStr (observation_kind_value kind)),
     (''commitment'', JStr (normalize_text commitment)), (''party'', JStr (party_value p))]"

definition key_for :: "string \<Rightarrow> observation_kind \<Rightarrow> string \<Rightarrow> party \<Rightarrow> string" where
  "key_for sid kind commitment p =
     take 16 (sha256_hex (canonical_bytes (key_payload sid kind commitment p)))"

definition action_payload :: "string \<Rightarrow> string \<Rightarrow> string \<Rightarrow> string \<Rightarrow> string \<Rightarrow> json" where
  "action_payload wid account slug sid key = JObj [
     (''workspace_id'', JStr wid), (''account'', JStr account), (''opportunity_slug'', JStr slug),
     (''source_id'', JStr sid), (''observation_key'', JStr key)]"

definition action_id_for :: "string \<Rightarrow> string \<Rightarrow> string \<Rightarrow> string \<Rightarrow> string \<Rightarrow> string" where
  "action_id_for wid account slug sid key =
     ''act_'' @ take 32 (sha256_hex (canonical_bytes (action_payload wid account slug sid key)))"

subsection \<open>Action records\<close>

record transition =
  tr_sequence :: nat
  tr_from :: "action_status option"
  tr_to :: action_status
  tr_actor :: actor
  tr_actor_id :: string
  tr_reason :: string
  tr_source :: "source_ref option"
  tr_undoes :: "nat option"
  tr_prior_owner :: "string option"
  tr_prior_due_date :: "string option"
  tr_recorded_at :: datetime

definition valid_transition :: "transition \<Rightarrow> bool" where
  "valid_transition t \<longleftrightarrow> 1 \<le> tr_sequence t \<and> tr_sequence t \<le> 10000 \<and> safe_token (tr_actor_id t)
     \<and> short_text (tr_reason t) \<and> opt_all valid_ref (tr_source t) \<and> opt_all (\<lambda>n. 1 \<le> n) (tr_undoes t)
     \<and> opt_all (in_len 0 200) (tr_prior_owner t) \<and> opt_all date_ok (tr_prior_due_date t)"

record suggestion =
  cs_source :: source_ref
  cs_key :: string
  cs_recorded_at :: datetime
  cs_retracted_at :: "datetime option"

definition valid_suggestion :: "suggestion \<Rightarrow> bool" where
  "valid_suggestion s \<longleftrightarrow> valid_ref (cs_source s) \<and> hexn 16 (cs_key s)"

record evidence_retraction =
  er_source_id :: string
  er_reason :: string
  er_recorded_at :: datetime

definition valid_evidence_retraction :: "evidence_retraction \<Rightarrow> bool" where
  "valid_evidence_retraction e \<longleftrightarrow> source_id_ok (er_source_id e) \<and> short_text (er_reason e)"

record retraction =
  rt_from_account :: string
  rt_from_slug :: string
  rt_to_account :: "string option"
  rt_to_slug :: "string option"
  rt_reason :: string
  rt_recorded_at :: datetime

definition valid_retraction :: "retraction \<Rightarrow> bool" where
  "valid_retraction r \<longleftrightarrow> safe_token (rt_from_account r) \<and> safe_token (rt_from_slug r)
     \<and> opt_all safe_token (rt_to_account r) \<and> opt_all safe_token (rt_to_slug r) \<and> short_text (rt_reason r)"

record action =
  act_id :: string
  act_workspace_id :: string
  act_account :: string
  act_slug :: string
  act_commitment :: string
  act_definition_of_done :: "string option"
  act_party :: party
  act_owner :: "string option"
  act_due_date :: "string option"
  act_status :: action_status
  act_origin :: source_ref
  act_key :: string
  act_evidence :: "source_ref list"
  act_transitions :: "transition list"
  act_suggestions :: "suggestion list"
  act_duplicate_of :: "string option"
  act_retraction :: "retraction option"
  act_evidence_retractions :: "evidence_retraction list"
  act_created_at :: datetime
  act_updated_at :: datetime

definition human_touched :: "action \<Rightarrow> bool" where
  "human_touched a \<longleftrightarrow> list_ex (\<lambda>t. tr_actor t = User) (act_transitions a)"

definition retracted_source_ids :: "action \<Rightarrow> string list" where
  "retracted_source_ids a = map er_source_id (act_evidence_retractions a)"

definition effective_evidence :: "action \<Rightarrow> source_ref list" where
  "effective_evidence a = filter (\<lambda>r. sr_source_id r \<notin> set (retracted_source_ids a)) (act_evidence a)"

text \<open>\<^verbatim>\<open>ActionRecord.validate_chain\<close>: the loop over the transitions.\<close>

fun walk_chain :: "nat \<Rightarrow> action_status option \<Rightarrow> transition list \<Rightarrow> action_status option option" where
  "walk_chain expected previous [] = Some previous"
| "walk_chain expected previous (t # ts) =
     (if tr_sequence t \<noteq> expected then None
      else if tr_from t \<noteq> previous then None
      else walk_chain (expected + 1) (Some (tr_to t)) ts)"

definition action_chain_ok :: "action \<Rightarrow> bool" where
  "action_chain_ok a \<longleftrightarrow> walk_chain 1 None (act_transitions a) = Some (Some (act_status a))"

definition action_fields_ok :: "action \<Rightarrow> bool" where
  "action_fields_ok a \<longleftrightarrow> action_id_ok (act_id a) \<and> hexn 16 (act_workspace_id a)
     \<and> safe_token (act_account a) \<and> safe_token (act_slug a) \<and> short_text (act_commitment a)
     \<and> opt_all (in_len 0 2000) (act_definition_of_done a) \<and> opt_all (in_len 0 200) (act_owner a)
     \<and> opt_all date_ok (act_due_date a) \<and> hexn 16 (act_key a)
     \<and> 1 \<le> length (act_evidence a) \<and> length (act_evidence a) \<le> 200
     \<and> 1 \<le> length (act_transitions a) \<and> length (act_transitions a) \<le> 10000
     \<and> length (act_suggestions a) \<le> 200 \<and> opt_all action_id_ok (act_duplicate_of a)
     \<and> length (act_evidence_retractions a) \<le> 200"

text \<open>
  \<^verbatim>\<open>ActionRecord(...)\<close> checks its own fields, the nested models being instances already;
  \<^verbatim>\<open>ActionRecord.model_validate\<close> of a stored record checks these too.
\<close>

definition mk_action :: "action \<Rightarrow> exn + action" where
  "mk_action a = (if action_fields_ok a \<and> action_chain_ok a then Inr a else Inl ValidationError)"

definition valid_action :: "action \<Rightarrow> bool" where
  "valid_action a \<longleftrightarrow> action_fields_ok a \<and> valid_ref (act_origin a) \<and> list_all valid_ref (act_evidence a)
     \<and> list_all valid_transition (act_transitions a) \<and> list_all valid_suggestion (act_suggestions a)
     \<and> opt_all valid_retraction (act_retraction a)
     \<and> list_all valid_evidence_retraction (act_evidence_retractions a) \<and> action_chain_ok a"

definition parse_action :: "action \<Rightarrow> exn + action" where
  "parse_action a = (if valid_action a then Inr a else Inl ValidationError)"

definition mk_transition :: "transition \<Rightarrow> exn + transition" where
  "mk_transition t = (if valid_transition t then Inr t else Inl ValidationError)"

subsection \<open>Changes, receipts and markers\<close>

record change_entry =
  ch_change_id :: string
  ch_sequence :: nat
  ch_workspace_id :: string
  ch_account :: string
  ch_slug :: string
  ch_type :: change_type
  ch_subject_id :: string
  ch_before :: json
  ch_after :: json
  ch_source :: "source_ref option"
  ch_actor :: actor
  ch_actor_id :: string
  ch_occurred_at :: datetime
  ch_applied_at :: datetime
  ch_link :: string

definition valid_change :: "change_entry \<Rightarrow> bool" where
  "valid_change c \<longleftrightarrow> change_id_ok (ch_change_id c) \<and> 1 \<le> ch_sequence c \<and> hexn 16 (ch_workspace_id c)
     \<and> safe_token (ch_account c) \<and> safe_token (ch_slug c) \<and> in_len 1 160 (ch_subject_id c)
     \<and> opt_all valid_ref (ch_source c) \<and> safe_token (ch_actor_id c) \<and> in_len 1 300 (ch_link c)"

record run_receipt =
  run_id :: string
  run_workspace_id :: string
  run_source_id :: string
  run_revision :: nat
  run_account :: string
  run_slug :: string
  run_base_version_id :: "string option"
  run_base_revision :: "nat option"
  run_status :: run_status
  run_error_code :: "string option"
  run_promoted_version_id :: "string option"
  run_promoted_revision :: "nat option"
  run_observation_count :: nat
  run_actions_created :: "string list"
  run_actions_linked :: "string list"
  run_suggestions :: "string list"
  run_duplicates :: "string list"
  run_model :: "string option"
  run_runtime :: "string option"
  run_started_at :: datetime
  run_finished_at :: datetime

definition revision_ok :: "nat \<Rightarrow> bool" where
  "revision_ok n \<longleftrightarrow> 1 \<le> n \<and> n \<le> 1000000"

definition valid_run :: "run_receipt \<Rightarrow> bool" where
  "valid_run r \<longleftrightarrow> run_id_ok (run_id r) \<and> hexn 16 (run_workspace_id r) \<and> source_id_ok (run_source_id r)
     \<and> revision_ok (run_revision r) \<and> safe_token (run_account r) \<and> safe_token (run_slug r)
     \<and> opt_all (hexn 32) (run_base_version_id r) \<and> opt_all revision_ok (run_base_revision r)
     \<and> opt_all (in_len 0 80) (run_error_code r)
     \<and> opt_all (hexn 32) (run_promoted_version_id r) \<and> opt_all revision_ok (run_promoted_revision r)
     \<and> length (run_actions_created r) \<le> 200 \<and> length (run_actions_linked r) \<le> 200
     \<and> length (run_suggestions r) \<le> 200 \<and> length (run_duplicates r) \<le> 200
     \<and> opt_all (in_len 0 200) (run_model r) \<and> opt_all (in_len 0 200) (run_runtime r)"

record pending =
  pa_workspace_id :: string
  pa_source_id :: string
  pa_revision :: nat
  pa_account :: string
  pa_slug :: string
  pa_base_version_id :: "string option"
  pa_base_revision :: "nat option"
  pa_association_sequence :: "nat option"
  pa_evidence_id :: string
  pa_evidence_sha256 :: string
  pa_observed_at :: datetime
  pa_started_at :: datetime

definition valid_pending :: "pending \<Rightarrow> bool" where
  "valid_pending p \<longleftrightarrow> hexn 16 (pa_workspace_id p) \<and> source_id_ok (pa_source_id p)
     \<and> revision_ok (pa_revision p) \<and> safe_token (pa_account p) \<and> safe_token (pa_slug p)
     \<and> opt_all (hexn 32) (pa_base_version_id p) \<and> opt_all revision_ok (pa_base_revision p)
     \<and> opt_all (\<lambda>n. 1 \<le> n) (pa_association_sequence p) \<and> in_len 8 160 (pa_evidence_id p)
     \<and> hexn 64 (pa_evidence_sha256 p)"

end
