(* ===== verification/Overview.thy ===== *)
theory Overview
  imports Actions Normalized
begin

section \<open>The opportunity state contract\<close>

text \<open>
  \<^verbatim>\<open>webapp/opportunity_state.py\<close>: the versioned Opportunity Overview, its validators and the
  deterministic diff of two versions.  Records hold validated values: a constrained text is
  stripped when it enters a model, so \<open>text_ok\<close> asks for stripped texts; a stored file with
  unstripped texts, which no writer of the code produces, is outside the model.  Prefixes:
  \<open>evr_\<close> EvidenceReference, \<open>cl_\<close> Claim, \<open>ba_\<close> BusinessCaseArea, \<open>bc_\<close> BusinessCase, \<open>md_\<close>
  MeddpiccDimension, \<open>mp_\<close> Meddpicc, \<open>br_\<close> OpportunityBrief, \<open>hi_\<close> HealthIndicator, \<open>rk_\<close>
  OpportunityRisk, \<open>ra_\<close> RecommendedAction, \<open>mi_\<close> MissingInformation, \<open>sh_\<close> Stakeholder,
  \<open>smap_\<close> StakeholderMap, \<open>cd_\<close> OpportunityStateCandidate, \<open>oi_\<close> OpportunityIdentity, \<open>me_\<close>
  EvidenceManifestEntry, \<open>gp_\<close> GenerationProvenance, \<open>ic_\<close> TypedItemChange, \<open>sc_\<close>
  EvidenceSourceChange, \<open>chs_\<close> OpportunityStateChangeSet, \<open>vs_\<close> OpportunityStateVersion.
\<close>

subsection \<open>Texts and patterns\<close>

definition text_ok :: "nat \<Rightarrow> nat \<Rightarrow> string \<Rightarrow> bool" where
  "text_ok lo hi s \<longleftrightarrow> strip s = s \<and> in_len lo hi s"

definition state_short_text :: "string \<Rightarrow> bool" where
  "state_short_text s \<longleftrightarrow> text_ok 1 240 s"

definition long_text :: "string \<Rightarrow> bool" where
  "long_text s \<longleftrightarrow> text_ok 1 2000 s"

definition key_char :: "char \<Rightarrow> bool" where
  "key_char c \<longleftrightarrow> is_lower c \<or> is_digit c \<or> c = CHR ''_'' \<or> c = CHR ''-''"

definition stable_key :: "string \<Rightarrow> bool" where
  "stable_key s \<longleftrightarrow> in_len 1 80 s \<and> is_lower (hd s) \<and> list_all key_char (tl s)"

definition opportunity_slug :: "string \<Rightarrow> bool" where
  "opportunity_slug s \<longleftrightarrow> in_len 1 80 s \<and> (is_upper (hd s) \<or> is_lower (hd s) \<or> is_digit (hd s))
     \<and> list_all (\<lambda>c. is_upper c \<or> key_char c) (tl s)"

subsection \<open>Enumerations\<close>

datatype knowledge_state = Known | Partial | KnowUnknown | NotApplicable | Conflicting

datatype confidence = ConfLow | ConfMedium | ConfMediumHigh | ConfHigh

datatype confirmation = EvidenceBacked | Inferred | UnknownConfirmation

datatype evidence_type = Transcript | OpportunityMetadata

datatype dimension_key = Metrics | EconomicBuyer | DecisionCriteria | DecisionProcess | PaperProcess
  | IdentifyPain | Champion | Competition

datatype health_key = DealQualification | TechnicalFit | Timeline | CustomerSentiment

datatype health_status = Strong | Moderate | Weak | HBlocked | InsufficientEvidence | Comfortable
  | Tight | AtRisk | HUnknown | Positive | Mixed | Negative

datatype risk_severity = SevLow | SevMedium | SevHigh | SevCritical

datatype risk_class = CriticalBlocker | ImplementationRisk | CommercialRisk | TimelineRisk | OpenValidationItem

datatype recommended_status = NotStarted | InProgress | RBlocked | Done

datatype stakeholder_category = SChampion | SEconomicBuyer | TechnicalDecisionMaker
  | SecurityApprover | Procurement | EndUser | OtherCategory

datatype influence = InfHigh | InfMedium | InfLow | InfUnknown

datatype engagement = EngActive | EngEngaged | EngLimited | EngUnengaged | EngUnknown

datatype stance = Supportive | Neutral | Skeptical | Opposed | StanceUnknown

datatype blocker_status = NotABlocker | PotentialBlocker | ActiveBlocker | BlockerUnknown

datatype item_change_type = Added | Removed | Resolved | Changed | Replaced

fun knowledge_value :: "knowledge_state \<Rightarrow> string" where
  "knowledge_value Known = ''known''"
| "knowledge_value Partial = ''partial''"
| "knowledge_value KnowUnknown = ''unknown''"
| "knowledge_value NotApplicable = ''not_applicable''"
| "knowledge_value Conflicting = ''conflicting''"

fun confidence_value :: "confidence \<Rightarrow> string" where
  "confidence_value ConfLow = ''low''"
| "confidence_value ConfMedium = ''medium''"
| "confidence_value ConfMediumHigh = ''medium_high''"
| "confidence_value ConfHigh = ''high''"

fun confirmation_value :: "confirmation \<Rightarrow> string" where
  "confirmation_value EvidenceBacked = ''evidence_backed''"
| "confirmation_value Inferred = ''inferred''"
| "confirmation_value UnknownConfirmation = ''unknown''"

fun evidence_type_value :: "evidence_type \<Rightarrow> string" where
  "evidence_type_value Transcript = ''transcript''"
| "evidence_type_value OpportunityMetadata = ''opportunity_metadata''"

definition dimension_keys :: "dimension_key list" where
  "dimension_keys = [Metrics, EconomicBuyer, DecisionCriteria, DecisionProcess, PaperProcess,
     IdentifyPain, Champion, Competition]"

fun dimension_value :: "dimension_key \<Rightarrow> string" where
  "dimension_value Metrics = ''metrics''"
| "dimension_value EconomicBuyer = ''economic_buyer''"
| "dimension_value DecisionCriteria = ''decision_criteria''"
| "dimension_value DecisionProcess = ''decision_process''"
| "dimension_value PaperProcess = ''paper_process''"
| "dimension_value IdentifyPain = ''identify_pain''"
| "dimension_value Champion = ''champion''"
| "dimension_value Competition = ''competition''"

definition health_keys :: "health_key list" where
  "health_keys = [DealQualification, TechnicalFit, Timeline, CustomerSentiment]"

fun health_key_value :: "health_key \<Rightarrow> string" where
  "health_key_value DealQualification = ''deal_qualification''"
| "health_key_value TechnicalFit = ''technical_fit''"
| "health_key_value Timeline = ''timeline''"
| "health_key_value CustomerSentiment = ''customer_sentiment''"

fun health_status_value :: "health_status \<Rightarrow> string" where
  "health_status_value Strong = ''strong''"
| "health_status_value Moderate = ''moderate''"
| "health_status_value Weak = ''weak''"
| "health_status_value HBlocked = ''blocked''"
| "health_status_value InsufficientEvidence = ''insufficient_evidence''"
| "health_status_value Comfortable = ''comfortable''"
| "health_status_value Tight = ''tight''"
| "health_status_value AtRisk = ''at_risk''"
| "health_status_value HUnknown = ''unknown''"
| "health_status_value Positive = ''positive''"
| "health_status_value Mixed = ''mixed''"
| "health_status_value Negative = ''negative''"

text \<open>\<^verbatim>\<open>_HEALTH_STATUSES\<close>\<close>

fun health_statuses :: "health_key \<Rightarrow> health_status list" where
  "health_statuses DealQualification = [Strong, Moderate, Weak, InsufficientEvidence]"
| "health_statuses TechnicalFit = [Strong, Moderate, Weak, HBlocked, InsufficientEvidence]"
| "health_statuses Timeline = [Comfortable, Tight, AtRisk, HUnknown]"
| "health_statuses CustomerSentiment = [Positive, Mixed, Negative, HUnknown]"

fun severity_value :: "risk_severity \<Rightarrow> string" where
  "severity_value SevLow = ''low''"
| "severity_value SevMedium = ''medium''"
| "severity_value SevHigh = ''high''"
| "severity_value SevCritical = ''critical''"

fun risk_class_value :: "risk_class \<Rightarrow> string" where
  "risk_class_value CriticalBlocker = ''critical_blocker''"
| "risk_class_value ImplementationRisk = ''implementation_risk''"
| "risk_class_value CommercialRisk = ''commercial_risk''"
| "risk_class_value TimelineRisk = ''timeline_risk''"
| "risk_class_value OpenValidationItem = ''open_validation_item''"

fun recommended_status_value :: "recommended_status \<Rightarrow> string" where
  "recommended_status_value NotStarted = ''not_started''"
| "recommended_status_value InProgress = ''in_progress''"
| "recommended_status_value RBlocked = ''blocked''"
| "recommended_status_value Done = ''done''"

fun category_value :: "stakeholder_category \<Rightarrow> string" where
  "category_value SChampion = ''champion''"
| "category_value SEconomicBuyer = ''economic_buyer''"
| "category_value TechnicalDecisionMaker = ''technical_decision_maker''"
| "category_value SecurityApprover = ''security_approver''"
| "category_value Procurement = ''procurement''"
| "category_value EndUser = ''end_user''"
| "category_value OtherCategory = ''other''"

fun influence_value :: "influence \<Rightarrow> string" where
  "influence_value InfHigh = ''high''"
| "influence_value InfMedium = ''medium''"
| "influence_value InfLow = ''low''"
| "influence_value InfUnknown = ''unknown''"

fun engagement_value :: "engagement \<Rightarrow> string" where
  "engagement_value EngActive = ''active''"
| "engagement_value EngEngaged = ''engaged''"
| "engagement_value EngLimited = ''limited''"
| "engagement_value EngUnengaged = ''unengaged''"
| "engagement_value EngUnknown = ''unknown''"

fun stance_value :: "stance \<Rightarrow> string" where
  "stance_value Supportive = ''supportive''"
| "stance_value Neutral = ''neutral''"
| "stance_value Skeptical = ''skeptical''"
| "stance_value Opposed = ''opposed''"
| "stance_value StanceUnknown = ''unknown''"

fun blocker_value :: "blocker_status \<Rightarrow> string" where
  "blocker_value NotABlocker = ''not_a_blocker''"
| "blocker_value PotentialBlocker = ''potential_blocker''"
| "blocker_value ActiveBlocker = ''active_blocker''"
| "blocker_value BlockerUnknown = ''unknown''"

subsection \<open>References and claims\<close>

text \<open>The JSON members of \<^verbatim>\<open>model_dump(mode="json")\<close>, in field order.\<close>

type_synonym members = "(string \<times> json) list"

definition jtext :: "string option \<Rightarrow> json" where
  "jtext x = j_opt JStr x"

definition jtexts :: "string list \<Rightarrow> json" where
  "jtexts xs = JList (map JStr xs)"

definition jtime :: "datetime option \<Rightarrow> json" where
  "jtime x = j_opt (\<lambda>t. JStr (json_time t)) x"

record evidence_ref =
  evr_type :: evidence_type
  evr_id :: string
  evr_locator :: "string option"

definition valid_evidence_ref :: "evidence_ref \<Rightarrow> bool" where
  "valid_evidence_ref r \<longleftrightarrow> text_ok 8 160 (evr_id r) \<and> opt_all (text_ok 1 200) (evr_locator r)"

definition evidence_ref_json :: "evidence_ref \<Rightarrow> json" where
  "evidence_ref_json r = JObj [(''source_type'', JStr (evidence_type_value (evr_type r))),
     (''source_id'', JStr (evr_id r)), (''locator'', jtext (evr_locator r))]"

definition jrefs :: "evidence_ref list \<Rightarrow> json" where
  "jrefs rs = JList (map evidence_ref_json rs)"

record claim =
  cl_knowledge :: knowledge_state
  cl_value :: "string option"
  cl_confidence :: confidence
  cl_confirmation :: confirmation
  cl_last_confirmed_at :: "datetime option"
  cl_refs :: "evidence_ref list"

text \<open>\<^verbatim>\<open>Claim.validate_claim\<close>\<close>

definition claim_consistent :: "claim \<Rightarrow> bool" where
  "claim_consistent c \<longleftrightarrow>
     (if cl_knowledge c \<in> {Known, Partial, Conflicting} then cl_value c \<noteq> None else cl_value c = None)
     \<and> \<not> (cl_confirmation c = EvidenceBacked \<and> cl_refs c = [])
     \<and> \<not> (cl_confirmation c = UnknownConfirmation \<and> cl_refs c \<noteq> [])
     \<and> distinct (cl_refs c)"

definition valid_claim :: "claim \<Rightarrow> bool" where
  "valid_claim c \<longleftrightarrow> opt_all (text_ok 1 2000) (cl_value c) \<and> length (cl_refs c) \<le> 20
     \<and> list_all valid_evidence_ref (cl_refs c) \<and> claim_consistent c"

definition claim_members :: "claim \<Rightarrow> members" where
  "claim_members c = [
     (''knowledge_state'', JStr (knowledge_value (cl_knowledge c))),
     (''value'', jtext (cl_value c)),
     (''confidence'', JStr (confidence_value (cl_confidence c))),
     (''confirmation'', JStr (confirmation_value (cl_confirmation c))),
     (''last_confirmed_at'', jtime (cl_last_confirmed_at c)),
     (''evidence_refs'', jrefs (cl_refs c))]"

subsection \<open>Business case and MEDDPICC\<close>

record case_area =
  ba_knowledge :: claim
  ba_missing :: "string list"
  ba_points :: "string list"

definition valid_area :: "case_area \<Rightarrow> bool" where
  "valid_area a \<longleftrightarrow> valid_claim (ba_knowledge a) \<and> length (ba_missing a) \<le> 10
     \<and> list_all long_text (ba_missing a) \<and> length (ba_points a) \<le> 6 \<and> list_all state_short_text (ba_points a)"

definition area_members :: "case_area \<Rightarrow> members" where
  "area_members a = [(''knowledge'', JObj (claim_members (ba_knowledge a))),
     (''missing_information'', jtexts (ba_missing a)), (''points'', jtexts (ba_points a))]"

record business_case =
  bc_current_state :: case_area
  bc_future_state :: case_area
  bc_negative_consequences :: case_area
  bc_positive_business_outcomes :: case_area

definition case_areas :: "business_case \<Rightarrow> (string \<times> case_area) list" where
  "case_areas b = [(''current_state'', bc_current_state b), (''future_state'', bc_future_state b),
     (''negative_consequences'', bc_negative_consequences b),
     (''positive_business_outcomes'', bc_positive_business_outcomes b)]"

definition valid_business_case :: "business_case \<Rightarrow> bool" where
  "valid_business_case b \<longleftrightarrow> list_all (\<lambda>(k, a). valid_area a) (case_areas b)"

record dimension =
  md_key :: dimension_key
  md_knowledge :: claim
  md_missing :: "string list"
  md_discovery :: "string list"

definition valid_dimension :: "dimension \<Rightarrow> bool" where
  "valid_dimension d \<longleftrightarrow> valid_claim (md_knowledge d) \<and> length (md_missing d) \<le> 10
     \<and> list_all long_text (md_missing d) \<and> length (md_discovery d) \<le> 10 \<and> list_all long_text (md_discovery d)"

definition dimension_members :: "dimension \<Rightarrow> members" where
  "dimension_members d = [(''key'', JStr (dimension_value (md_key d))),
     (''knowledge'', JObj (claim_members (md_knowledge d))),
     (''missing_information'', jtexts (md_missing d)), (''suggested_discovery'', jtexts (md_discovery d))]"

record meddpicc =
  mp_dimensions :: "dimension list"

definition meddpicc_complete :: "meddpicc \<Rightarrow> bool" where
  "meddpicc_complete m \<longleftrightarrow> (let ks = map md_key (mp_dimensions m) in
     card (set ks) = 8 \<and> set ks = set dimension_keys)"

definition valid_meddpicc :: "meddpicc \<Rightarrow> bool" where
  "valid_meddpicc m \<longleftrightarrow> length (mp_dimensions m) = 8 \<and> list_all valid_dimension (mp_dimensions m)
     \<and> meddpicc_complete m"

subsection \<open>Legacy defaults\<close>

definition unknown_claim :: claim where
  "unknown_claim = \<lparr>cl_knowledge = KnowUnknown, cl_value = None, cl_confidence = ConfLow,
     cl_confirmation = UnknownConfirmation, cl_last_confirmed_at = None, cl_refs = []\<rparr>"

definition not_established :: string where
  "not_established = ''Not established from authorized evidence.''"

definition legacy_area :: case_area where
  "legacy_area = \<lparr>ba_knowledge = unknown_claim, ba_missing = [not_established], ba_points = []\<rparr>"

definition legacy_business_case :: business_case where
  "legacy_business_case = \<lparr>bc_current_state = legacy_area, bc_future_state = legacy_area,
     bc_negative_consequences = legacy_area, bc_positive_business_outcomes = legacy_area\<rparr>"

definition legacy_meddpicc :: meddpicc where
  "legacy_meddpicc = \<lparr>mp_dimensions = map (\<lambda>k. \<lparr>md_key = k, md_knowledge = unknown_claim,
     md_missing = [not_established],
     md_discovery = [''Ask the customer to establish '' @
        map (\<lambda>c. if c = CHR ''_'' then CHR '' '' else c) (dimension_value k) @ ''.'']\<rparr>) dimension_keys\<rparr>"


subsection \<open>Brief, health, risks and recommendations\<close>

record brief =
  br_customer_objective :: claim
  br_why_airbyte :: claim
  br_current_status :: claim
  br_path_to_decision :: claim
  br_immediate_priority :: claim

text \<open>The fields of the brief in the order of \<^verbatim>\<open>model_fields\<close>.\<close>

definition brief_claims :: "brief \<Rightarrow> (string \<times> claim) list" where
  "brief_claims b = [(''customer_objective'', br_customer_objective b),
     (''why_airbyte'', br_why_airbyte b), (''current_status'', br_current_status b),
     (''path_to_decision'', br_path_to_decision b), (''immediate_priority'', br_immediate_priority b)]"

definition valid_brief :: "brief \<Rightarrow> bool" where
  "valid_brief b \<longleftrightarrow> list_all (\<lambda>(k, c). valid_claim c) (brief_claims b)"

record indicator =
  hi_key :: health_key
  hi_status :: health_status
  hi_reason :: string
  hi_confidence :: confidence
  hi_confirmation :: confirmation
  hi_last_confirmed_at :: "datetime option"
  hi_refs :: "evidence_ref list"

definition valid_indicator :: "indicator \<Rightarrow> bool" where
  "valid_indicator h \<longleftrightarrow> long_text (hi_reason h) \<and> length (hi_refs h) \<le> 20
     \<and> list_all valid_evidence_ref (hi_refs h) \<and> hi_status h \<in> set (health_statuses (hi_key h))
     \<and> \<not> (hi_confirmation h = EvidenceBacked \<and> hi_refs h = [])"

definition indicator_members :: "indicator \<Rightarrow> members" where
  "indicator_members h = [(''key'', JStr (health_key_value (hi_key h))),
     (''status'', JStr (health_status_value (hi_status h))), (''reason'', JStr (hi_reason h)),
     (''confidence'', JStr (confidence_value (hi_confidence h))),
     (''confirmation'', JStr (confirmation_value (hi_confirmation h))),
     (''last_confirmed_at'', jtime (hi_last_confirmed_at h)), (''evidence_refs'', jrefs (hi_refs h))]"

record risk =
  rk_key :: string
  rk_title :: string
  rk_description :: string
  rk_severity :: risk_severity
  rk_class :: risk_class
  rk_owner :: "string option"
  rk_mitigation :: "string option"
  rk_last_updated_at :: "datetime option"
  rk_refs :: "evidence_ref list"

definition valid_risk :: "risk \<Rightarrow> bool" where
  "valid_risk r \<longleftrightarrow> stable_key (rk_key r) \<and> state_short_text (rk_title r) \<and> long_text (rk_description r)
     \<and> opt_all state_short_text (rk_owner r) \<and> opt_all long_text (rk_mitigation r)
     \<and> length (rk_refs r) \<le> 20 \<and> list_all valid_evidence_ref (rk_refs r)"

definition risk_members :: "risk \<Rightarrow> members" where
  "risk_members r = [(''key'', JStr (rk_key r)), (''title'', JStr (rk_title r)),
     (''description'', JStr (rk_description r)), (''severity'', JStr (severity_value (rk_severity r))),
     (''classification'', JStr (risk_class_value (rk_class r))), (''owner'', jtext (rk_owner r)),
     (''mitigation'', jtext (rk_mitigation r)), (''last_updated_at'', jtime (rk_last_updated_at r)),
     (''evidence_refs'', jrefs (rk_refs r))]"

record recommended =
  ra_key :: string
  ra_action :: string
  ra_goal :: string
  ra_definition_of_done :: string
  ra_owner :: "string option"
  ra_due_date :: "string option"
  ra_status :: recommended_status
  ra_related_item_key :: "string option"
  ra_refs :: "evidence_ref list"

definition valid_recommended :: "recommended \<Rightarrow> bool" where
  "valid_recommended r \<longleftrightarrow> stable_key (ra_key r) \<and> state_short_text (ra_action r) \<and> long_text (ra_goal r)
     \<and> long_text (ra_definition_of_done r) \<and> opt_all state_short_text (ra_owner r)
     \<and> opt_all date_ok (ra_due_date r) \<and> opt_all stable_key (ra_related_item_key r)
     \<and> length (ra_refs r) \<le> 20 \<and> list_all valid_evidence_ref (ra_refs r)"

definition recommended_members :: "recommended \<Rightarrow> members" where
  "recommended_members r = [(''key'', JStr (ra_key r)), (''action'', JStr (ra_action r)),
     (''goal'', JStr (ra_goal r)), (''definition_of_done'', JStr (ra_definition_of_done r)),
     (''owner'', jtext (ra_owner r)), (''due_date'', jtext (ra_due_date r)),
     (''status'', JStr (recommended_status_value (ra_status r))),
     (''related_item_key'', jtext (ra_related_item_key r)), (''evidence_refs'', jrefs (ra_refs r))]"

record missing_info =
  mi_key :: string
  mi_description :: string
  mi_category :: string
  mi_refs :: "evidence_ref list"

definition valid_missing :: "missing_info \<Rightarrow> bool" where
  "valid_missing m \<longleftrightarrow> stable_key (mi_key m) \<and> long_text (mi_description m) \<and> text_ok 1 80 (mi_category m)
     \<and> length (mi_refs m) \<le> 10 \<and> list_all valid_evidence_ref (mi_refs m)"

definition missing_members :: "missing_info \<Rightarrow> members" where
  "missing_members m = [(''key'', JStr (mi_key m)), (''description'', JStr (mi_description m)),
     (''category'', JStr (mi_category m)), (''evidence_refs'', jrefs (mi_refs m))]"

subsection \<open>Stakeholders\<close>

record stakeholder =
  sh_key :: string
  sh_name :: string
  sh_title_or_role :: "string option"
  sh_category :: stakeholder_category
  sh_influence :: influence
  sh_engagement :: engagement
  sh_stance :: stance
  sh_blocker_status :: blocker_status
  sh_blocker_reason :: "string option"
  sh_next_step :: "string option"
  sh_refs :: "evidence_ref list"
  sh_missing :: "string list"

definition valid_stakeholder :: "stakeholder \<Rightarrow> bool" where
  "valid_stakeholder s \<longleftrightarrow> stable_key (sh_key s) \<and> state_short_text (sh_name s)
     \<and> opt_all state_short_text (sh_title_or_role s) \<and> opt_all long_text (sh_blocker_reason s)
     \<and> opt_all long_text (sh_next_step s) \<and> 1 \<le> length (sh_refs s) \<and> length (sh_refs s) \<le> 20
     \<and> list_all valid_evidence_ref (sh_refs s) \<and> length (sh_missing s) \<le> 10 \<and> list_all long_text (sh_missing s)"

definition stakeholder_members :: "stakeholder \<Rightarrow> members" where
  "stakeholder_members s = [(''key'', JStr (sh_key s)), (''name'', JStr (sh_name s)),
     (''title_or_role'', jtext (sh_title_or_role s)), (''category'', JStr (category_value (sh_category s))),
     (''influence'', JStr (influence_value (sh_influence s))),
     (''engagement'', JStr (engagement_value (sh_engagement s))),
     (''stance'', JStr (stance_value (sh_stance s))),
     (''blocker_status'', JStr (blocker_value (sh_blocker_status s))),
     (''blocker_reason'', jtext (sh_blocker_reason s)),
     (''recommended_next_step'', jtext (sh_next_step s)),
     (''evidence_refs'', jrefs (sh_refs s)), (''missing_information'', jtexts (sh_missing s))]"

text \<open>\<^verbatim>\<open>_KEY_STAKEHOLDER_ROLES\<close>, sorted by value.\<close>

definition key_roles :: "stakeholder_category list" where
  "key_roles = [SChampion, SEconomicBuyer, TechnicalDecisionMaker]"

record stakeholder_map =
  smap_stakeholders :: "stakeholder list"
  smap_missing_roles :: "stakeholder_category list"
  smap_missing :: "string list"

text \<open>\<^verbatim>\<open>StakeholderMap.validate_stakeholder_map\<close>\<close>

definition stakeholder_map_consistent :: "stakeholder_map \<Rightarrow> bool" where
  "stakeholder_map_consistent m \<longleftrightarrow> (let keys = map sh_key (smap_stakeholders m) in
     distinct keys \<and> ''stakeholder-gaps'' \<notin> set keys \<and> distinct (smap_missing_roles m)
     \<and> set (smap_missing_roles m) \<subseteq> set key_roles
     \<and> set (map sh_category (smap_stakeholders m)) \<inter> set (smap_missing_roles m) = {})"

definition valid_stakeholder_map :: "stakeholder_map \<Rightarrow> bool" where
  "valid_stakeholder_map m \<longleftrightarrow> length (smap_stakeholders m) \<le> 24
     \<and> list_all valid_stakeholder (smap_stakeholders m) \<and> length (smap_missing_roles m) \<le> 3
     \<and> length (smap_missing m) \<le> 10 \<and> list_all long_text (smap_missing m) \<and> stakeholder_map_consistent m"

definition legacy_stakeholder_map :: stakeholder_map where
  "legacy_stakeholder_map = \<lparr>smap_stakeholders = [], smap_missing_roles = key_roles,
     smap_missing = [''Stakeholders are not established from authorized evidence.'']\<rparr>"

subsection \<open>Candidates\<close>

record candidate =
  cd_brief :: brief
  cd_business_case :: business_case
  cd_meddpicc :: meddpicc
  cd_stakeholders :: stakeholder_map
  cd_health :: "indicator list"
  cd_risks :: "risk list"
  cd_actions :: "recommended list"
  cd_missing :: "missing_info list"

text \<open>
  \<^verbatim>\<open>upgrade_legacy_candidate\<close>: parts that earlier versions of the schema did not have are
  filled in before validation.
\<close>

definition upgrade_legacy ::
  "brief \<Rightarrow> business_case option \<Rightarrow> meddpicc option \<Rightarrow> stakeholder_map option \<Rightarrow> indicator list
   \<Rightarrow> risk list \<Rightarrow> recommended list \<Rightarrow> missing_info list \<Rightarrow> candidate" where
  "upgrade_legacy b bc mp sm hs rs as ms = \<lparr>
     cd_brief = b,
     cd_business_case = (case bc of None \<Rightarrow> legacy_business_case | Some x \<Rightarrow> x),
     cd_meddpicc = (case mp of None \<Rightarrow> legacy_meddpicc | Some x \<Rightarrow> x),
     cd_stakeholders = (case sm of None \<Rightarrow> legacy_stakeholder_map | Some x \<Rightarrow> x),
     cd_health = hs, cd_risks = rs, cd_actions = as, cd_missing = ms\<rparr>"

text \<open>\<^verbatim>\<open>OpportunityStateCandidate.validate_stable_keys\<close>\<close>

definition candidate_keys_ok :: "candidate \<Rightarrow> bool" where
  "candidate_keys_ok c \<longleftrightarrow> (let ks = map hi_key (cd_health c) in
     card (set ks) = 4 \<and> set ks = set health_keys
     \<and> distinct (map rk_key (cd_risks c)) \<and> distinct (map ra_key (cd_actions c))
     \<and> distinct (map mi_key (cd_missing c)))"

definition valid_candidate_state :: "candidate \<Rightarrow> bool" where
  "valid_candidate_state c \<longleftrightarrow> valid_brief (cd_brief c) \<and> valid_business_case (cd_business_case c)
     \<and> valid_meddpicc (cd_meddpicc c) \<and> valid_stakeholder_map (cd_stakeholders c)
     \<and> length (cd_health c) = 4 \<and> list_all valid_indicator (cd_health c)
     \<and> length (cd_risks c) \<le> 12 \<and> list_all valid_risk (cd_risks c)
     \<and> length (cd_actions c) \<le> 12 \<and> list_all valid_recommended (cd_actions c)
     \<and> length (cd_missing c) \<le> 24 \<and> list_all valid_missing (cd_missing c) \<and> candidate_keys_ok c"

definition candidate_json :: "candidate \<Rightarrow> json" where
  "candidate_json c = JObj [
     (''schema_version'', JInt 1),
     (''brief'', JObj (map (\<lambda>(k, x). (k, JObj (claim_members x))) (brief_claims (cd_brief c)))),
     (''business_case'', JObj (map (\<lambda>(k, x). (k, JObj (area_members x))) (case_areas (cd_business_case c)))),
     (''meddpicc'', JObj [(''dimensions'',
        JList (map (\<lambda>d. JObj (dimension_members d)) (mp_dimensions (cd_meddpicc c))))]),
     (''stakeholders'', JObj [
        (''stakeholders'', JList (map (\<lambda>s. JObj (stakeholder_members s)) (smap_stakeholders (cd_stakeholders c)))),
        (''missing_key_roles'', JList (map (\<lambda>r. JStr (category_value r)) (smap_missing_roles (cd_stakeholders c)))),
        (''missing_information'', jtexts (smap_missing (cd_stakeholders c)))]),
     (''health_indicators'', JList (map (\<lambda>h. JObj (indicator_members h)) (cd_health c))),
     (''risks'', JList (map (\<lambda>r. JObj (risk_members r)) (cd_risks c))),
     (''recommended_actions'', JList (map (\<lambda>r. JObj (recommended_members r)) (cd_actions c))),
     (''missing_information'', JList (map (\<lambda>m. JObj (missing_members m)) (cd_missing c)))]"

subsection \<open>Manifests and authorized evidence\<close>

record opp_identity =
  oi_account :: string
  oi_slug :: string
  oi_name :: string

definition valid_opp_identity :: "opp_identity \<Rightarrow> bool" where
  "valid_opp_identity i \<longleftrightarrow> state_short_text (oi_account i) \<and> opportunity_slug (oi_slug i)
     \<and> state_short_text (oi_name i)"

record manifest_entry =
  me_type :: evidence_type
  me_id :: string
  me_sha256 :: string
  me_byte_count :: nat
  me_observed_at :: datetime
  me_display_name :: string

definition valid_manifest_entry :: "manifest_entry \<Rightarrow> bool" where
  "valid_manifest_entry e \<longleftrightarrow> text_ok 8 160 (me_id e) \<and> hexn 64 (me_sha256 e)
     \<and> me_byte_count e \<le> 2000000 \<and> state_short_text (me_display_name e)"

definition entry_key :: "manifest_entry \<Rightarrow> evidence_type \<times> string" where
  "entry_key e = (me_type e, me_id e)"

record provenance =
  gp_updater_version :: string
  gp_model :: string
  gp_runtime :: string
  gp_cli_version :: string

definition valid_provenance :: "provenance \<Rightarrow> bool" where
  "valid_provenance p \<longleftrightarrow> state_short_text (gp_updater_version p) \<and> state_short_text (gp_model p)
     \<and> state_short_text (gp_runtime p) \<and> state_short_text (gp_cli_version p)"

definition digest_entry :: "manifest_entry \<Rightarrow> json" where
  "digest_entry e = JObj [(''source_type'', JStr (evidence_type_value (me_type e))),
     (''source_id'', JStr (me_id e)), (''sha256'', JStr (me_sha256 e)),
     (''byte_count'', JInt (int (me_byte_count e)))]"

definition digest_key :: "manifest_entry \<Rightarrow> string \<times> string \<times> string" where
  "digest_key e = (evidence_type_value (me_type e), me_id e, me_sha256 e)"

definition evidence_manifest_hash :: "manifest_entry list \<Rightarrow> string" where
  "evidence_manifest_hash es =
     sha256_hex (canonical_bytes (JList (map digest_entry (sort_key digest_key es))))"

text \<open>\<^verbatim>\<open>iter_evidence_references\<close>\<close>

definition evidence_references :: "candidate \<Rightarrow> evidence_ref list" where
  "evidence_references c =
     concat (map (\<lambda>(k, x). cl_refs x) (brief_claims (cd_brief c)))
     @ concat (map (\<lambda>(k, a). cl_refs (ba_knowledge a)) (case_areas (cd_business_case c)))
     @ concat (map (\<lambda>d. cl_refs (md_knowledge d)) (mp_dimensions (cd_meddpicc c)))
     @ concat (map sh_refs (smap_stakeholders (cd_stakeholders c)))
     @ concat (map hi_refs (cd_health c)) @ concat (map rk_refs (cd_risks c))
     @ concat (map ra_refs (cd_actions c)) @ concat (map mi_refs (cd_missing c))"

definition evidence_authorized :: "candidate \<Rightarrow> manifest_entry list \<Rightarrow> bool" where
  "evidence_authorized c es \<longleftrightarrow>
     list_all (\<lambda>r. (evr_type r, evr_id r) \<in> set (map entry_key es)) (evidence_references c)"

definition validate_candidate_evidence :: "candidate \<Rightarrow> manifest_entry list \<Rightarrow> exn + unit" where
  "validate_candidate_evidence c es = (if evidence_authorized c es then Inr () else Inl ValueError)"


subsection \<open>Comparing items\<close>

text \<open>A member of a JSON object as \<^verbatim>\<open>dict.get\<close> reads it, with a null for a missing one.\<close>

definition jfield :: "members \<Rightarrow> string \<Rightarrow> json" where
  "jfield kvs k = (case map_of kvs k of None \<Rightarrow> JNull | Some v \<Rightarrow> v)"

definition jfield_text :: "json \<Rightarrow> string \<Rightarrow> string" where
  "jfield_text j k = (case j of JObj kvs \<Rightarrow> (case jfield kvs k of JStr s \<Rightarrow> s | _ \<Rightarrow> '''') | _ \<Rightarrow> '''')"

definition ref_key :: "json \<Rightarrow> string \<times> string \<times> string" where
  "ref_key j = (jfield_text j ''source_type'', jfield_text j ''source_id'', jfield_text j ''locator'')"

definition sort_refs :: "string \<Rightarrow> json \<Rightarrow> json" where
  "sort_refs k v = (if k = ''evidence_refs'' then (case v of JList rs \<Rightarrow> JList (sort_key ref_key rs) | _ \<Rightarrow> v) else v)"

text \<open>\<^verbatim>\<open>_canonical_change_value\<close> on dumped models\<close>

fun change_value :: "json \<Rightarrow> json"
  and change_items :: "json list \<Rightarrow> json list"
  and change_members :: "(string \<times> json) list \<Rightarrow> (string \<times> json) list" where
  "change_value (JObj kvs) = JObj (change_members kvs)"
| "change_value (JList xs) = JList (change_items xs)"
| "change_value j = j"
| "change_items [] = []"
| "change_items (x # xs) = change_value x # change_items xs"
| "change_members [] = []"
| "change_members ((k, v) # kvs) = (k, sort_refs k (change_value v)) # change_members kvs"

definition changed_fields :: "members \<Rightarrow> members \<Rightarrow> string list" where
  "changed_fields before after = (let l = change_members before; r = change_members after in
     sort (filter (\<lambda>k. jfield l k \<noteq> jfield r k) (remdups (map fst l @ map fst r))))"

record item_change =
  ic_key :: string
  ic_type :: item_change_type
  ic_fields :: "string list"

definition valid_item_change :: "item_change \<Rightarrow> bool" where
  "valid_item_change i \<longleftrightarrow> stable_key (ic_key i) \<and> length (ic_fields i) \<le> 20
     \<and> list_all state_short_text (ic_fields i)
     \<and> (ic_type i = Changed \<longleftrightarrow> ic_fields i \<noteq> []) \<and> distinct (ic_fields i)"

text \<open>\<^verbatim>\<open>_keyed_changes\<close>: of items with the same key the last one is kept.\<close>

definition keyed_changes ::
  "item_change_type \<Rightarrow> (string \<times> members) list \<Rightarrow> (string \<times> members) list \<Rightarrow> item_change list" where
  "keyed_changes removed before after =
     (let l = map_of (rev before); r = map_of (rev after) in
      concat (map (\<lambda>k. case (l k, r k) of
          (None, _) \<Rightarrow> [\<lparr>ic_key = k, ic_type = Added, ic_fields = []\<rparr>]
        | (Some x, None) \<Rightarrow> [\<lparr>ic_key = k, ic_type = removed, ic_fields = []\<rparr>]
        | (Some x, Some y) \<Rightarrow>
            (let fs = changed_fields x y in
             if fs = [] then [] else [\<lparr>ic_key = k, ic_type = Changed, ic_fields = fs\<rparr>]))
        (sort (remdups (map fst before @ map fst after)))))"

text \<open>Parts with a fixed set of fields (the brief, the business case): only \<^verbatim>\<open>changed\<close> entries.\<close>

definition part_changes :: "(string \<times> members) list \<Rightarrow> (string \<times> members) list \<Rightarrow> item_change list" where
  "part_changes before after =
     concat (map (\<lambda>k. let fs = changed_fields (the (map_of before k)) (the (map_of after k)) in
        if fs = [] then [] else [\<lparr>ic_key = k, ic_type = Changed, ic_fields = fs\<rparr>])
       (sort (map fst before)))"

definition gap_changes :: "stakeholder_map \<Rightarrow> stakeholder_map \<Rightarrow> item_change list" where
  "gap_changes before after =
     (let fs = (if smap_missing before \<noteq> smap_missing after then [''missing_information''] else [])
        @ (if smap_missing_roles before \<noteq> smap_missing_roles after then [''missing_key_roles''] else [])
      in if fs = [] then [] else [\<lparr>ic_key = ''stakeholder-gaps'', ic_type = Changed, ic_fields = fs\<rparr>])"

record source_change =
  sc_type :: evidence_type
  sc_id :: string
  sc_change :: item_change_type

definition source_changes :: "manifest_entry list \<Rightarrow> manifest_entry list \<Rightarrow> source_change list" where
  "source_changes before after =
     (let l = map_of (rev (map (\<lambda>e. (entry_key e, e)) before));
          r = map_of (rev (map (\<lambda>e. (entry_key e, e)) after)) in
      concat (map (\<lambda>(t, i). case l (t, i) of
          None \<Rightarrow> [\<lparr>sc_type = t, sc_id = i, sc_change = Added\<rparr>]
        | Some e \<Rightarrow>
            (if me_sha256 e \<noteq> me_sha256 (the (r (t, i)))
             then [\<lparr>sc_type = t, sc_id = i, sc_change = Replaced\<rparr>] else []))
        (sort_key (\<lambda>(t, i). (evidence_type_value t, i)) (remdups (map entry_key after)))))"

subsection \<open>Change sets\<close>

record change_set =
  chs_parent_version_id :: string
  chs_parent_revision :: nat
  chs_child_version_id :: string
  chs_child_revision :: nat
  chs_brief :: "item_change list"
  chs_business_case :: "item_change list"
  chs_meddpicc :: "item_change list"
  chs_stakeholders :: "item_change list"
  chs_health :: "item_change list"
  chs_risks :: "item_change list"
  chs_actions :: "item_change list"
  chs_missing :: "item_change list"
  chs_sources :: "source_change list"
  chs_metadata_changed :: bool

definition chs_sections :: "change_set \<Rightarrow> (item_change list \<times> nat) list" where
  "chs_sections c = [(chs_brief c, 5), (chs_business_case c, 4), (chs_meddpicc c, 8),
     (chs_stakeholders c, 48), (chs_health c, 4), (chs_risks c, 24), (chs_actions c, 24), (chs_missing c, 48)]"

definition valid_change_set :: "change_set \<Rightarrow> bool" where
  "valid_change_set c \<longleftrightarrow> hexn 32 (chs_parent_version_id c)
     \<and> 1 \<le> chs_parent_revision c \<and> chs_parent_revision c \<le> 999999 \<and> hexn 32 (chs_child_version_id c)
     \<and> 2 \<le> chs_child_revision c \<and> chs_child_revision c \<le> 1000000
     \<and> list_all (\<lambda>(xs, n). length xs \<le> n \<and> list_all valid_item_change xs \<and> distinct (map ic_key xs)) (chs_sections c)
     \<and> length (chs_sources c) \<le> 50
     \<and> list_all (\<lambda>s. text_ok 8 160 (sc_id s) \<and> sc_change s \<in> {Added, Replaced}) (chs_sources c)
     \<and> chs_child_revision c = chs_parent_revision c + 1
     \<and> distinct (map (\<lambda>s. (sc_type s, sc_id s)) (chs_sources c))"

definition high_level_counts :: "change_set \<Rightarrow> (string \<times> nat) list" where
  "high_level_counts c = [
     (''brief'', length (chs_brief c)), (''business_case'', length (chs_business_case c)),
     (''meddpicc'', length (chs_meddpicc c)), (''stakeholders'', length (chs_stakeholders c)),
     (''health_indicators'', length (chs_health c)), (''risks'', length (chs_risks c)),
     (''recommended_actions'', length (chs_actions c)), (''missing_information'', length (chs_missing c)),
     (''evidence_sources'', length (chs_sources c)),
     (''metadata'', if chs_metadata_changed c then 1 else 0)]"

record version =
  vs_version_id :: string
  vs_revision :: nat
  vs_identity :: opp_identity
  vs_created_at :: datetime
  vs_manifest :: "manifest_entry list"
  vs_manifest_hash :: string
  vs_provenance :: provenance
  vs_state :: candidate
  vs_parent_version_id :: "string option"
  vs_parent_revision :: "nat option"
  vs_change_set :: "change_set option"

definition keyed :: "('a \<Rightarrow> string) \<Rightarrow> ('a \<Rightarrow> members) \<Rightarrow> 'a list \<Rightarrow> (string \<times> members) list" where
  "keyed key mem xs = map (\<lambda>x. (key x, mem x)) xs"

definition raw_change_set ::
  "version \<Rightarrow> string \<Rightarrow> nat \<Rightarrow> candidate \<Rightarrow> manifest_entry list \<Rightarrow> change_set" where
  "raw_change_set parent child_id child_revision st manifest =
     (let old = vs_state parent; srcs = source_changes (vs_manifest parent) manifest in \<lparr>
        chs_parent_version_id = vs_version_id parent,
        chs_parent_revision = vs_revision parent,
        chs_child_version_id = child_id,
        chs_child_revision = child_revision,
        chs_brief = part_changes (map (\<lambda>(k, c). (k, claim_members c)) (brief_claims (cd_brief old)))
                      (map (\<lambda>(k, c). (k, claim_members c)) (brief_claims (cd_brief st))),
        chs_business_case = part_changes (map (\<lambda>(k, a). (k, area_members a)) (case_areas (cd_business_case old)))
                      (map (\<lambda>(k, a). (k, area_members a)) (case_areas (cd_business_case st))),
        chs_meddpicc = keyed_changes Removed
           (keyed (\<lambda>d. dimension_value (md_key d)) dimension_members (mp_dimensions (cd_meddpicc old)))
           (keyed (\<lambda>d. dimension_value (md_key d)) dimension_members (mp_dimensions (cd_meddpicc st))),
        chs_stakeholders = keyed_changes Removed
           (keyed sh_key stakeholder_members (smap_stakeholders (cd_stakeholders old)))
           (keyed sh_key stakeholder_members (smap_stakeholders (cd_stakeholders st)))
           @ gap_changes (cd_stakeholders old) (cd_stakeholders st),
        chs_health = keyed_changes Removed
           (keyed (\<lambda>h. health_key_value (hi_key h)) indicator_members (cd_health old))
           (keyed (\<lambda>h. health_key_value (hi_key h)) indicator_members (cd_health st)),
        chs_risks = keyed_changes Removed (keyed rk_key risk_members (cd_risks old)) (keyed rk_key risk_members (cd_risks st)),
        chs_actions = keyed_changes Removed (keyed ra_key recommended_members (cd_actions old))
           (keyed ra_key recommended_members (cd_actions st)),
        chs_missing = keyed_changes Resolved (keyed mi_key missing_members (cd_missing old))
           (keyed mi_key missing_members (cd_missing st)),
        chs_sources = filter (\<lambda>s. sc_type s \<noteq> OpportunityMetadata) srcs,
        chs_metadata_changed = list_ex (\<lambda>s. sc_type s = OpportunityMetadata) srcs\<rparr>)"

text \<open>
  \<^verbatim>\<open>deterministic_change_set\<close>: the constructors of the entries and of the set check their
  fields, so the diff itself can raise.
\<close>

definition deterministic_change_set ::
  "version \<Rightarrow> string \<Rightarrow> nat \<Rightarrow> candidate \<Rightarrow> manifest_entry list \<Rightarrow> exn + change_set" where
  "deterministic_change_set parent child_id child_revision st manifest =
     (let c = raw_change_set parent child_id child_revision st manifest in
      if valid_change_set c then Inr c else Inl ValidationError)"

subsection \<open>Versions\<close>

text \<open>\<^verbatim>\<open>OpportunityStateVersion.validate_manifest\<close>\<close>

definition version_chain_ok :: "version \<Rightarrow> bool" where
  "version_chain_ok v \<longleftrightarrow>
     (if vs_revision v = 1
      then vs_parent_version_id v = None \<and> vs_parent_revision v = None \<and> vs_change_set v = None
      else (case (vs_parent_version_id v, vs_parent_revision v, vs_change_set v) of
              (Some pid, Some prev, Some cs) \<Rightarrow>
                prev + 1 = vs_revision v \<and> chs_parent_version_id cs = pid \<and> chs_parent_revision cs = prev
                \<and> chs_child_version_id cs = vs_version_id v \<and> chs_child_revision cs = vs_revision v
            | _ \<Rightarrow> False))"

definition version_consistent :: "version \<Rightarrow> bool" where
  "version_consistent v \<longleftrightarrow> distinct (map entry_key (vs_manifest v))
     \<and> vs_manifest_hash v = evidence_manifest_hash (vs_manifest v)
     \<and> evidence_authorized (vs_state v) (vs_manifest v) \<and> version_chain_ok v"

definition version_fields_ok :: "version \<Rightarrow> bool" where
  "version_fields_ok v \<longleftrightarrow> hexn 32 (vs_version_id v) \<and> 1 \<le> vs_revision v \<and> vs_revision v \<le> 1000000
     \<and> 2 \<le> length (vs_manifest v) \<and> length (vs_manifest v) \<le> 51 \<and> hexn 64 (vs_manifest_hash v)
     \<and> opt_all (hexn 32) (vs_parent_version_id v)
     \<and> opt_all (\<lambda>n. 1 \<le> n \<and> n \<le> 999999) (vs_parent_revision v)"

text \<open>
  The constructor gets instances of the nested models and checks its own fields; reading a file
  checks the nested ones too.
\<close>

definition mk_version :: "version \<Rightarrow> exn + version" where
  "mk_version v = (if version_fields_ok v \<and> version_consistent v then Inr v else Inl ValidationError)"

definition valid_version :: "version \<Rightarrow> bool" where
  "valid_version v \<longleftrightarrow> version_fields_ok v \<and> version_consistent v \<and> valid_opp_identity (vs_identity v)
     \<and> list_all valid_manifest_entry (vs_manifest v) \<and> valid_provenance (vs_provenance v)
     \<and> valid_candidate_state (vs_state v) \<and> opt_all valid_change_set (vs_change_set v)"

fun item_type_value :: "item_change_type \<Rightarrow> string" where
  "item_type_value Added = ''added''"
| "item_type_value Removed = ''removed''"
| "item_type_value Resolved = ''resolved''"
| "item_type_value Changed = ''changed''"
| "item_type_value Replaced = ''replaced''"

definition item_change_json :: "item_change \<Rightarrow> json" where
  "item_change_json i = JObj [(''key'', JStr (ic_key i)),
     (''change_type'', JStr (item_type_value (ic_type i))), (''fields'', jtexts (ic_fields i))]"

definition change_set_json :: "change_set \<Rightarrow> json" where
  "change_set_json c = (let js = (\<lambda>xs. JList (map item_change_json xs)) in JObj [
     (''schema_version'', JInt 1),
     (''parent_version_id'', JStr (chs_parent_version_id c)),
     (''parent_revision'', JInt (int (chs_parent_revision c))),
     (''child_version_id'', JStr (chs_child_version_id c)),
     (''child_revision'', JInt (int (chs_child_revision c))),
     (''brief'', js (chs_brief c)), (''business_case'', js (chs_business_case c)),
     (''meddpicc'', js (chs_meddpicc c)), (''stakeholders'', js (chs_stakeholders c)),
     (''health_indicators'', js (chs_health c)), (''risks'', js (chs_risks c)),
     (''recommended_actions'', js (chs_actions c)), (''missing_information'', js (chs_missing c)),
     (''evidence_sources'', JList (map (\<lambda>s. JObj [
        (''source_type'', JStr (evidence_type_value (sc_type s))), (''source_id'', JStr (sc_id s)),
        (''change_type'', JStr (item_type_value (sc_change s)))]) (chs_sources c))),
     (''metadata_changed'', JBool (chs_metadata_changed c))])"

definition version_json :: "version \<Rightarrow> json" where
  "version_json v = JObj [
     (''schema_version'', JInt 1),
     (''version_id'', JStr (vs_version_id v)),
     (''revision'', JInt (int (vs_revision v))),
     (''identity'', JObj [(''account'', JStr (oi_account (vs_identity v))),
        (''opportunity_slug'', JStr (oi_slug (vs_identity v))),
        (''opportunity_name'', JStr (oi_name (vs_identity v)))]),
     (''created_at'', JStr (json_time (vs_created_at v))),
     (''evidence_manifest'', JList (map (\<lambda>e. JObj [
        (''source_type'', JStr (evidence_type_value (me_type e))), (''source_id'', JStr (me_id e)),
        (''sha256'', JStr (me_sha256 e)), (''byte_count'', JInt (int (me_byte_count e))),
        (''observed_at'', JStr (json_time (me_observed_at e))),
        (''display_name'', JStr (me_display_name e))]) (vs_manifest v))),
     (''evidence_manifest_hash'', JStr (vs_manifest_hash v)),
     (''provenance'', JObj [(''updater_version'', JStr (gp_updater_version (vs_provenance v))),
        (''model'', JStr (gp_model (vs_provenance v))), (''runtime'', JStr (gp_runtime (vs_provenance v))),
        (''cli_version'', JStr (gp_cli_version (vs_provenance v)))]),
     (''state'', candidate_json (vs_state v)),
     (''parent_version_id'', jtext (vs_parent_version_id v)),
     (''parent_revision'', j_opt (\<lambda>n. JInt (int n)) (vs_parent_revision v)),
     (''change_set'', j_opt change_set_json (vs_change_set v))]"

definition version_checksum :: "version \<Rightarrow> string" where
  "version_checksum v = sha256_hex (canonical_bytes (version_json v))"

end
