(* ===== verification/State_Store.thy ===== *)
theory State_Store
  imports Overview
begin

section \<open>The store of overview versions\<close>

text \<open>
  \<^verbatim>\<open>webapp/services/opportunity_state_service.py\<close>: per opportunity a directory of immutable
  version files, a pointer to the current one and, after a correction, a tombstone.  Promotion
  is compare-and-swap against the version the caller saw.  A version file is named by its
  revision and version ID; a promotion writes the version file first and the pointer second, so
  the two writes are separate operations here.
\<close>

subsection \<open>State\<close>

record pointer =
  pt_revision :: nat
  pt_file :: "(nat \<times> string) option"
  pt_checksum :: string

record retirement =
  re_source_id :: string
  re_version_id :: string
  re_retired_at :: datetime
  re_reason :: string

text \<open>\<open>sd_alien\<close>: the versions directory holds a name that is not a version file's.\<close>

record state_dir =
  sd_versions :: "((nat \<times> string) \<times> version stored) list"
  sd_alien :: bool
  sd_pointer :: "pointer stored option"
  sd_retired :: "retirement stored option"

definition empty_dir :: state_dir where
  "empty_dir = \<lparr>sd_versions = [], sd_alien = False, sd_pointer = None, sd_retired = None\<rparr>"

text \<open>
  \<open>ss_safe_name\<close> is the injected \<^verbatim>\<open>safe_name\<close>, \<open>ss_accounts\<close> the account directories,
  \<open>ss_forgotten\<close> the IDs in the ledger's \<^verbatim>\<open>forgotten\<close> directory.
\<close>

record store =
  ss_safe_name :: "string \<Rightarrow> string"
  ss_accounts :: "string list"
  ss_dirs :: "((string \<times> string) \<times> state_dir) list"
  ss_forgotten :: "string list"
  ss_clock :: "nat \<Rightarrow> datetime"
  ss_ticks :: nat
  ss_tokens :: "nat \<Rightarrow> string"
  ss_token_count :: nat

abbreviation state_error :: "int \<Rightarrow> string \<Rightarrow> (store, 'a) op" where
  "state_error status code \<equiv> raise (OpportunityStateError status code)"

abbreviation state_malformed :: "(store, 'a) op" where
  "state_malformed \<equiv> state_error 409 ''malformed_storage''"

definition store_now :: "(store, datetime) op" where
  "store_now s = (Inr (ss_clock s (ss_ticks s)), s\<lparr>ss_ticks := Suc (ss_ticks s)\<rparr>)"

definition store_token :: "(store, string) op" where
  "store_token s = (Inr (ss_tokens s (ss_token_count s)), s\<lparr>ss_token_count := Suc (ss_token_count s)\<rparr>)"

subsection \<open>Directories\<close>

definition dir_key :: "store \<Rightarrow> string \<Rightarrow> string \<Rightarrow> string \<times> string" where
  "dir_key s account slug = (ss_safe_name s account, ss_safe_name s slug)"

definition dir_at :: "store \<Rightarrow> string \<times> string \<Rightarrow> state_dir" where
  "dir_at s k = (case map_of (ss_dirs s) k of None \<Rightarrow> empty_dir | Some d \<Rightarrow> d)"

text \<open>\<^verbatim>\<open>_opportunity_dir\<close> and \<^verbatim>\<open>_paths\<close>: a directory that does not exist reads as an empty one.\<close>

definition paths :: "string \<Rightarrow> string \<Rightarrow> (store, (string \<times> string) \<times> state_dir) op" where
  "paths account slug = bnd (read_st (\<lambda>s. s)) (\<lambda>s.
     if ss_safe_name s account \<notin> set (ss_accounts s) then state_error 404 ''unknown_account''
     else ret (dir_key s account slug, dir_at s (dir_key s account slug)))"

definition put_dir :: "string \<times> string \<Rightarrow> state_dir \<Rightarrow> (store, unit) op" where
  "put_dir k d = modify_st (\<lambda>s. s\<lparr>ss_dirs := AList.update k d (ss_dirs s)\<rparr>)"

subsection \<open>Reading versions\<close>

definition max_state_bytes :: nat where "max_state_bytes = 1000000"

definition envelope_size :: "version \<Rightarrow> nat" where
  "envelope_size v = length (canonical_bytes (JObj [(''version'', version_json v), (''checksum'', JStr (version_checksum v))]))"

definition read_version_path ::
  "string \<times> string \<Rightarrow> (nat \<times> string) \<times> version stored \<Rightarrow> (store, version) op" where
  "read_version_path k f = (case snd f of
     Corrupt \<Rightarrow> state_malformed
   | Intact v \<Rightarrow>
       if envelope_size v > max_state_bytes then state_malformed
       else if \<not> valid_version v then state_malformed
       else if vs_revision v \<noteq> fst (fst f) then state_malformed
       else if vs_version_id v \<noteq> snd (fst f) then state_malformed
       else if (oi_account (vs_identity v), oi_slug (vs_identity v)) \<noteq> k then state_malformed
       else ret v)"

definition read_current_raw :: "string \<Rightarrow> string \<Rightarrow> (store, version option) op" where
  "read_current_raw account slug = bnd (paths account slug) (\<lambda>(k, d).
     case sd_pointer d of
       None \<Rightarrow> if sd_versions d \<noteq> [] \<or> sd_alien d then state_malformed else ret None
     | Some Corrupt \<Rightarrow> state_malformed
     | Some (Intact p) \<Rightarrow>
         (case pt_file p of
            None \<Rightarrow> state_malformed
          | Some name \<Rightarrow>
              if \<not> hexn 64 (pt_checksum p) then state_malformed
              else (case map_of (sd_versions d) name of
                 None \<Rightarrow> state_malformed
               | Some f \<Rightarrow> bnd (read_version_path k (name, f)) (\<lambda>v.
                   if vs_revision v \<noteq> pt_revision p then state_malformed
                   else if pt_checksum p \<noteq> version_checksum v then state_malformed
                   else ret (Some v)))))"

definition valid_retirement :: "retirement \<Rightarrow> bool" where
  "valid_retirement r \<longleftrightarrow> source_id_ok (re_source_id r) \<and> hexn 32 (re_version_id r) \<and> in_len 1 500 (re_reason r)"

definition retirement_info :: "string \<Rightarrow> string \<Rightarrow> (store, retirement option) op" where
  "retirement_info account slug = bnd (paths account slug) (\<lambda>(k, d).
     case sd_retired d of
       None \<Rightarrow> ret None
     | Some Corrupt \<Rightarrow> state_malformed
     | Some (Intact r) \<Rightarrow> if valid_retirement r then ret (Some r) else state_malformed)"

text \<open>The loop of \<^verbatim>\<open>_read_history_unfiltered\<close> over the versions in revision order.\<close>

fun history_linked :: "nat \<Rightarrow> version option \<Rightarrow> version list \<Rightarrow> bool" where
  "history_linked n prev [] = True"
| "history_linked n prev (v # vs) =
     (vs_revision v = n
      \<and> (case prev of None \<Rightarrow> True
         | Some p \<Rightarrow> vs_parent_revision v = Some (vs_revision p) \<and> vs_parent_version_id v = Some (vs_version_id p))
      \<and> history_linked (n + 1) (Some v) vs)"

definition read_history_unfiltered :: "string \<Rightarrow> string \<Rightarrow> (store, version list) op" where
  "read_history_unfiltered account slug = bnd (paths account slug) (\<lambda>(k, d).
     bnd (read_current_raw account slug) (\<lambda>current.
     case current of
       None \<Rightarrow> ret []
     | Some cur \<Rightarrow>
         if sd_alien d then state_malformed
         else bnd (map_op (read_version_path k) (sort_key (\<lambda>f. fst (fst f)) (sd_versions d))) (\<lambda>versions.
           if versions = [] then state_malformed
           else if vs_version_id (last versions) \<noteq> vs_version_id cur then state_malformed
           else if \<not> history_linked 1 None versions then state_malformed
           else ret versions)))"

subsection \<open>Forgotten evidence\<close>

definition cites :: "version \<Rightarrow> string \<Rightarrow> bool" where
  "cites v sid \<longleftrightarrow> list_ex (\<lambda>e. me_type e = Transcript \<and> startswith (me_id e) (sid @ ''_r'')) (vs_manifest v)"

definition is_withheld :: "string list \<Rightarrow> version \<Rightarrow> bool" where
  "is_withheld forgotten v \<longleftrightarrow> list_ex (cites v) forgotten"

definition cleaned_by :: "version \<Rightarrow> string \<Rightarrow> bool" where
  "cleaned_by v sid \<longleftrightarrow> gp_runtime (vs_provenance v) = ''gmail_forget'' \<and> \<not> cites v sid
     \<and> gp_updater_version (vs_provenance v) = ''gmail-forget-v1-'' @ sid"

definition taint :: "string list \<Rightarrow> version \<Rightarrow> string list \<Rightarrow> string list" where
  "taint forgotten v tainted =
     filter (\<lambda>s. \<not> (s \<in> set forgotten \<and> cleaned_by v s)) (tainted @ filter (cites v) forgotten)"

fun visible_from :: "string list \<Rightarrow> string list \<Rightarrow> version list \<Rightarrow> version list" where
  "visible_from forgotten tainted [] = []"
| "visible_from forgotten tainted (v # vs) =
     (let t = taint forgotten v tainted in
      (if t = [] then [v] else []) @ visible_from forgotten t vs)"

definition visible_history :: "string list \<Rightarrow> version list \<Rightarrow> version list" where
  "visible_history forgotten versions =
     (if forgotten = [] then versions else visible_from forgotten [] versions)"

subsection \<open>Reads\<close>

definition read_current :: "string \<Rightarrow> string \<Rightarrow> (store, version option) op" where
  "read_current account slug = bnd (read_current_raw account slug) (\<lambda>v.
     bnd (retirement_info account slug) (\<lambda>retired.
     case retired of
       Some r \<Rightarrow>
         (case v of
            None \<Rightarrow> state_malformed
          | Some cur \<Rightarrow>
              if re_version_id r \<noteq> vs_version_id cur then state_malformed
              else state_error 410 ''overview_retired'')
     | None \<Rightarrow> bnd (read_st ss_forgotten) (\<lambda>forgotten.
         case v of
           None \<Rightarrow> ret None
         | Some cur \<Rightarrow>
             if forgotten = [] then ret v
             else bnd (read_history_unfiltered account slug) (\<lambda>versions.
               if cur \<in> set (visible_history forgotten versions) then ret v
               else state_error 410 ''source_forgotten''))))"

definition read_history :: "string \<Rightarrow> string \<Rightarrow> (store, version list) op" where
  "read_history account slug = bnd (read_history_unfiltered account slug) (\<lambda>versions.
     bnd (read_st ss_forgotten) (\<lambda>forgotten. ret (visible_history forgotten versions)))"

datatype inspection = Retired | Withheld | MalformedState | NotCreated | CurrentVersion version

definition inspect_current :: "string \<Rightarrow> string \<Rightarrow> (store, inspection) op" where
  "inspect_current account slug =
     catch (bnd (read_current account slug) (\<lambda>v.
         ret (case v of None \<Rightarrow> NotCreated | Some cur \<Rightarrow> CurrentVersion cur)))
       (\<lambda>e. if exn_code e = ''overview_retired'' then ret Retired
            else if exn_code e = ''source_forgotten'' then ret Withheld
            else if exn_code e \<noteq> ''malformed_storage'' then raise e
            else ret MalformedState)"

definition read_version :: "string \<Rightarrow> string \<Rightarrow> int \<Rightarrow> (store, version) op" where
  "read_version account slug revision =
     (if revision < 1 \<or> revision > 1000000 then state_error 404 ''unknown_version''
      else bnd (read_history account slug) (\<lambda>vs.
        case find (\<lambda>v. int (vs_revision v) = revision) vs of
          Some v \<Rightarrow> ret v
        | None \<Rightarrow> state_error 404 ''unknown_version''))"

record history_summary =
  hs_version_id :: string
  hs_revision :: nat
  hs_created_at :: string
  hs_parent_revision :: "nat option"
  hs_evidence_count :: nat
  hs_manifest_hash :: string
  hs_provenance :: provenance
  hs_change_counts :: "(string \<times> nat) list"

definition list_history :: "string \<Rightarrow> string \<Rightarrow> (store, history_summary list) op" where
  "list_history account slug = bnd (read_history account slug) (\<lambda>vs.
     ret (map (\<lambda>v. \<lparr>
       hs_version_id = vs_version_id v, hs_revision = vs_revision v,
       hs_created_at = isoformat (vs_created_at v), hs_parent_revision = vs_parent_revision v,
       hs_evidence_count = length (vs_manifest v), hs_manifest_hash = vs_manifest_hash v,
       hs_provenance = vs_provenance v,
       hs_change_counts = (case vs_change_set v of None \<Rightarrow> [] | Some c \<Rightarrow> high_level_counts c)\<rparr>) (rev vs)))"

subsection \<open>Retirement\<close>

definition retire_first_overview ::
  "string \<Rightarrow> string \<Rightarrow> string \<Rightarrow> string \<Rightarrow> string \<Rightarrow> (store, retirement) op" where
  "retire_first_overview account slug sid expected_version_id reason =
     bnd (retirement_info account slug) (\<lambda>existing.
     case existing of
       Some r \<Rightarrow>
         if re_source_id r = sid \<and> re_version_id r = expected_version_id then ret r
         else state_error 409 ''overview_retired''
     | None \<Rightarrow> bnd (read_history_unfiltered account slug) (\<lambda>history.
         case history of
           [first] \<Rightarrow>
             if vs_version_id first \<noteq> expected_version_id then state_error 409 ''stale_base''
             else if vs_revision first \<noteq> 1 \<or> vs_parent_version_id first \<noteq> None \<or> \<not> cites first sid
               \<or> list_ex (\<lambda>e. me_type e = Transcript \<and> \<not> startswith (me_id e) (sid @ ''_r'')) (vs_manifest first)
             then state_error 409 ''overview_unrecoverable''
             else bnd (paths account slug) (\<lambda>(k, d). bnd store_now (\<lambda>now.
               let r = \<lparr>re_source_id = sid, re_version_id = vs_version_id first, re_retired_at = now,
                        re_reason = take 500 reason\<rparr> in
               bnd (put_dir k (d\<lparr>sd_retired := Some (Intact r)\<rparr>)) (\<lambda>_. ret r)))
         | _ \<Rightarrow> state_error 409 ''stale_base''))"

subsection \<open>Promotion\<close>

definition next_revision :: "state_dir \<Rightarrow> nat" where
  "next_revision d = foldr max (map (\<lambda>f. fst (fst f)) (sd_versions d)) 0 + 1"

definition check_manifest :: "candidate \<Rightarrow> manifest_entry list \<Rightarrow> string \<Rightarrow> (store, string) op" where
  "check_manifest c manifest expected = bnd (of_sum (validate_candidate_evidence c manifest)) (\<lambda>_.
     if evidence_manifest_hash manifest \<noteq> expected then state_error 409 ''evidence_changed''
     else ret (evidence_manifest_hash manifest))"

definition refuse_retired :: "string \<Rightarrow> string \<Rightarrow> (store, unit) op" where
  "refuse_retired account slug = bnd (retirement_info account slug) (\<lambda>r.
     if r \<noteq> None then state_error 410 ''overview_retired'' else ret ())"

text \<open>The two durable writes of a promotion.\<close>

definition write_version_file :: "string \<times> string \<Rightarrow> version \<Rightarrow> (store, unit) op" where
  "write_version_file k v = bnd (read_st (\<lambda>s. dir_at s k)) (\<lambda>d.
     if map_of (sd_versions d) (vs_revision v, vs_version_id v) \<noteq> None
     then state_error 409 ''storage_conflict''
     else put_dir k (d\<lparr>sd_versions := sd_versions d @ [((vs_revision v, vs_version_id v), Intact v)]\<rparr>))"

definition write_pointer :: "string \<times> string \<Rightarrow> version \<Rightarrow> (store, unit) op" where
  "write_pointer k v = bnd (read_st (\<lambda>s. dir_at s k)) (\<lambda>d.
     put_dir k (d\<lparr>sd_pointer := Some (Intact \<lparr>pt_revision = vs_revision v,
       pt_file = Some (vs_revision v, vs_version_id v), pt_checksum = version_checksum v\<rparr>)\<rparr>))"

definition commit_version :: "string \<times> string \<Rightarrow> version \<Rightarrow> (store, version) op" where
  "commit_version k v = bnd (write_version_file k v) (\<lambda>_. bnd (write_pointer k v) (\<lambda>_. ret v))"

definition promote_create ::
  "opp_identity \<Rightarrow> manifest_entry list \<Rightarrow> string \<Rightarrow> provenance \<Rightarrow> candidate \<Rightarrow> (store, version) op" where
  "promote_create identity manifest expected_hash prov c =
     bnd (check_manifest c manifest expected_hash) (\<lambda>hash.
     bnd (refuse_retired (oi_account identity) (oi_slug identity)) (\<lambda>_.
     bnd (read_current_raw (oi_account identity) (oi_slug identity)) (\<lambda>current.
     if current \<noteq> None then state_error 409 ''already_created''
     else bnd (paths (oi_account identity) (oi_slug identity)) (\<lambda>(k, d).
       if next_revision d > 1000000 then state_error 409 ''revision_limit''
       else bnd store_token (\<lambda>vid. bnd store_now (\<lambda>now.
         bnd (of_sum (mk_version \<lparr>vs_version_id = vid, vs_revision = next_revision d, vs_identity = identity,
           vs_created_at = now, vs_manifest = manifest, vs_manifest_hash = hash, vs_provenance = prov,
           vs_state = c, vs_parent_version_id = None, vs_parent_revision = None, vs_change_set = None\<rparr>))
         (commit_version k)))))))"

definition promote_update ::
  "opp_identity \<Rightarrow> string \<Rightarrow> nat \<Rightarrow> manifest_entry list \<Rightarrow> string \<Rightarrow> provenance \<Rightarrow> candidate
   \<Rightarrow> (store, version) op" where
  "promote_update identity parent_id parent_revision manifest expected_hash prov c =
     bnd (check_manifest c manifest expected_hash) (\<lambda>hash.
     bnd (refuse_retired (oi_account identity) (oi_slug identity)) (\<lambda>_.
     bnd (read_current_raw (oi_account identity) (oi_slug identity)) (\<lambda>current.
     case current of
       None \<Rightarrow> state_error 409 ''stale_base''
     | Some parent \<Rightarrow>
         if vs_version_id parent \<noteq> parent_id \<or> vs_revision parent \<noteq> parent_revision
         then state_error 409 ''stale_base''
         else bnd (paths (oi_account identity) (oi_slug identity)) (\<lambda>(k, d).
           if next_revision d > 1000000 then state_error 409 ''revision_limit''
           else if next_revision d \<noteq> vs_revision parent + 1 then state_malformed
           else bnd store_token (\<lambda>vid.
             bnd (of_sum (deterministic_change_set parent vid (next_revision d) c manifest)) (\<lambda>cs.
             bnd store_now (\<lambda>now.
             bnd (of_sum (mk_version \<lparr>vs_version_id = vid, vs_revision = next_revision d, vs_identity = identity,
               vs_created_at = now, vs_manifest = manifest, vs_manifest_hash = hash, vs_provenance = prov,
               vs_state = c, vs_parent_version_id = Some (vs_version_id parent),
               vs_parent_revision = Some (vs_revision parent), vs_change_set = Some cs\<rparr>))
             (commit_version k))))))))"

end
