(* ===== verification/State_Facts.thy ===== *)
theory State_Facts
  imports State_Store
begin

section \<open>Properties of the store of overview versions\<close>

text \<open>
  A directory is well formed when its files are a linked chain of valid versions and the pointer
  names the last one.  On such directories the reads return the chain, and promotion extends it
  by one version or changes nothing.
\<close>

subsection \<open>Well-formed directories\<close>

definition version_ok :: "string \<times> string \<Rightarrow> version \<Rightarrow> bool" where
  "version_ok k v \<longleftrightarrow> valid_version v \<and> (oi_account (vs_identity v), oi_slug (vs_identity v)) = k
     \<and> envelope_size v \<le> max_state_bytes"

definition file_of :: "version \<Rightarrow> (nat \<times> string) \<times> version stored" where
  "file_of v = ((vs_revision v, vs_version_id v), Intact v)"

definition pointer_to :: "version \<Rightarrow> pointer" where
  "pointer_to v = \<lparr>pt_revision = vs_revision v, pt_file = Some (vs_revision v, vs_version_id v),
     pt_checksum = version_checksum v\<rparr>"

definition head_pointer :: "version list \<Rightarrow> pointer stored option" where
  "head_pointer vs = (if vs = [] then None else Some (Intact (pointer_to (last vs))))"

text \<open>\<open>holds_chain k d vs\<close>: the directory \<open>d\<close> of the opportunity \<open>k\<close> holds the history \<open>vs\<close>.\<close>

definition holds_chain :: "string \<times> string \<Rightarrow> state_dir \<Rightarrow> version list \<Rightarrow> bool" where
  "holds_chain k d vs \<longleftrightarrow> \<not> sd_alien d \<and> sd_versions d = map file_of vs
     \<and> history_linked 1 None vs \<and> list_all (version_ok k) vs \<and> sd_pointer d = head_pointer vs"

lemma file_of_simps [simp]:
  "fst (file_of v) = (vs_revision v, vs_version_id v)" "snd (file_of v) = Intact v"
  by (simp_all add: file_of_def)

lemma hexn_checksum [simp]: "hexn 64 (version_checksum v)"
  by (simp add: version_checksum_def)

lemma linked_revisions: "history_linked n p vs \<Longrightarrow> map vs_revision vs = [n..<n + length vs]"
  proof (induction vs arbitrary: n p)
  case (Cons v vs)
  have "map vs_revision vs = [Suc n..<Suc n + length vs]"
    using Cons.IH [of "Suc n" "Some v"] Cons.prems by simp
  moreover have "[n..<n + Suc (length vs)] = n # [Suc n..<Suc n + length vs]" by (simp add: upt_conv_Cons del: upt_Suc)
  ultimately show ?case using Cons.prems by simp
qed simp

lemma linked_append:
  "history_linked n p (vs @ [v]) \<longleftrightarrow> history_linked n p vs
     \<and> (if vs = [] then history_linked n p [v] else history_linked (n + length vs) (Some (last vs)) [v])"
  by (induction vs arbitrary: n p) auto

lemma read_version_path_ok:
  "version_ok k v \<Longrightarrow> read_version_path k (file_of v) s = (Inr v, s)"
  by (auto simp: read_version_path_def file_of_def version_ok_def ret_def)

lemma map_op_ret:
  "(\<And>x. x \<in> set xs \<Longrightarrow> m x s = (Inr (g x), s)) \<Longrightarrow> map_op m xs s = (Inr (map g xs), s)"
  by (induction xs) (auto simp: op_defs)

lemma next_revision_upt:
  assumes "map (\<lambda>f. fst (fst f)) (sd_versions d) = [1..<Suc n]"
  shows "next_revision d = n + 1"
proof -
  have "foldr max [1..<Suc m] a = max m a" for m a :: nat by (induction m arbitrary: a) auto
  with assms show ?thesis by (simp add: next_revision_def del: upt_Suc)
qed

lemma holds_chain_revisions:
  assumes "holds_chain k d vs"
  shows "map vs_revision vs = [1..<Suc (length vs)]" and "distinct (map fst (sd_versions d))"
    and "next_revision d = length vs + 1"
proof -
  show r: "map vs_revision vs = [1..<Suc (length vs)]"
    using assms linked_revisions [of 1 None vs] by (simp add: holds_chain_def del: upt_Suc)
  then have "distinct (map vs_revision vs)" by (simp del: upt_Suc)
  then have "distinct (map (\<lambda>v. (vs_revision v, vs_version_id v)) vs)"
    by (auto simp: distinct_map inj_on_def)
  then show "distinct (map fst (sd_versions d))"
    using assms by (simp add: holds_chain_def file_of_def comp_def)
  have "map (\<lambda>f. fst (fst f)) (sd_versions d) = [1..<Suc (length vs)]"
    using assms r by (simp add: holds_chain_def file_of_def comp_def del: upt_Suc)
  then show "next_revision d = length vs + 1" by (rule next_revision_upt)
qed

subsection \<open>What the reads return\<close>

text \<open>A store in which the opportunity's account exists and its directory holds \<open>vs\<close>.\<close>

definition at_chain :: "store \<Rightarrow> string \<Rightarrow> string \<Rightarrow> version list \<Rightarrow> bool" where
  "at_chain s account slug vs \<longleftrightarrow> ss_safe_name s account \<in> set (ss_accounts s)
     \<and> holds_chain (dir_key s account slug) (dir_at s (dir_key s account slug)) vs"

lemma at_chain_frame: "at_chain (s\<lparr>ss_forgotten := f\<rparr>) account slug vs = at_chain s account slug vs"
  by (simp add: at_chain_def dir_key_def dir_at_def)

lemma paths_eq:
  "ss_safe_name s account \<in> set (ss_accounts s) \<Longrightarrow>
   paths account slug s = (Inr (dir_key s account slug, dir_at s (dir_key s account slug)), s)"
  by (simp add: paths_def op_defs)

lemma read_current_raw_eq:
  assumes "at_chain s account slug vs"
  shows "read_current_raw account slug s = (Inr (if vs = [] then None else Some (last vs)), s)"
proof -
  let ?k = "dir_key s account slug" let ?d = "dir_at s ?k"
  have p: "paths account slug s = (Inr (?k, ?d), s)"
    and c: "holds_chain ?k ?d vs" using assms by (simp_all add: at_chain_def paths_eq)
  show ?thesis
  proof (cases "vs = []")
    case True
    with p c show ?thesis
      by (simp add: read_current_raw_def bnd_def holds_chain_def head_pointer_def ret_def)
  next
    case False
    have "map_of (sd_versions ?d) (vs_revision (last vs), vs_version_id (last vs)) = Some (Intact (last vs))"
      using holds_chain_revisions(2) [OF c] c False
      by (intro map_of_is_SomeI) (auto simp: holds_chain_def file_of_def)
    moreover have "version_ok ?k (last vs)" using c False by (simp add: holds_chain_def list_all_iff)
    then have "read_version_path ?k ((vs_revision (last vs), vs_version_id (last vs)), Intact (last vs)) s
        = (Inr (last vs), s)"
      using read_version_path_ok [of ?k "last vs" s] by (simp add: file_of_def)
    ultimately show ?thesis
      using p c False
      by (simp add: read_current_raw_def bnd_def holds_chain_def head_pointer_def pointer_to_def ret_def)
  qed
qed

lemma read_history_unfiltered_eq:
  assumes "at_chain s account slug vs"
  shows "read_history_unfiltered account slug s = (Inr vs, s)"
proof (cases "vs = []")
  case True
  with read_current_raw_eq [OF assms] assms show ?thesis
    by (simp add: read_history_unfiltered_def bnd_def at_chain_def paths_eq ret_def)
next
  case False
  let ?k = "dir_key s account slug" let ?d = "dir_at s ?k"
  have c: "holds_chain ?k ?d vs" using assms by (simp add: at_chain_def)
  have "sorted (map (\<lambda>f. fst (fst f)) (sd_versions ?d))"
    using c holds_chain_revisions(1) [OF c]
    by (simp add: holds_chain_def file_of_def comp_def del: upt_Suc)
  then have srt: "sort_key (\<lambda>f. fst (fst f)) (sd_versions ?d) = map file_of vs"
    using c by (simp add: sort_key_id_if_sorted holds_chain_def)
  have "map_op (read_version_path ?k) (map file_of vs) s = (Inr (map (\<lambda>f. case snd f of Intact v \<Rightarrow> v) (map file_of vs)), s)"
    using c by (intro map_op_ret) (auto simp: holds_chain_def list_all_iff read_version_path_ok)
  then have "map_op (read_version_path ?k) (map file_of vs) s = (Inr vs, s)"
    by (simp add: comp_def)
  with c srt False read_current_raw_eq [OF assms] assms show ?thesis
    by (simp add: read_history_unfiltered_def bnd_def at_chain_def paths_eq ret_def holds_chain_def)
qed


lemma retirement_info_eq:
  assumes "at_chain s account slug vs" and "sd_retired (dir_at s (dir_key s account slug)) = None"
  shows "retirement_info account slug s = (Inr None, s)"
  using assms by (simp add: retirement_info_def bnd_def at_chain_def paths_eq ret_def)

subsection \<open>Commits\<close>

lemma dir_at_put [simp]: "dir_at (s\<lparr>ss_dirs := AList.update k d ds\<rparr>) k' = (if k' = k then d else dir_at (s\<lparr>ss_dirs := ds\<rparr>) k')"
  by (simp add: dir_at_def)

text \<open>Both writes of a promotion on a well-formed directory.\<close>

definition extended :: "state_dir \<Rightarrow> version list \<Rightarrow> version \<Rightarrow> state_dir" where
  "extended d vs v = d\<lparr>sd_versions := map file_of (vs @ [v]), sd_pointer := head_pointer (vs @ [v])\<rparr>"

lemma commit_version_eq:
  assumes "holds_chain k (dir_at s k) vs" and "vs_revision v = length vs + 1"
  shows "\<exists>ds. commit_version k v s = (Inr v, s\<lparr>ss_dirs := ds\<rparr>)
    \<and> (\<forall>k'. dir_at (s\<lparr>ss_dirs := ds\<rparr>) k' = (if k' = k then extended (dir_at s k) vs v else dir_at s k'))"
proof -
  have "vs_revision v \<notin> set (map vs_revision vs)"
    using holds_chain_revisions(1) [OF assms(1)] assms(2) by (simp del: upt_Suc)
  then have "map_of (sd_versions (dir_at s k)) (vs_revision v, vs_version_id v) = None"
    using assms(1) by (force simp: holds_chain_def map_of_eq_None_iff)
  then show ?thesis
    using assms(1)
    by (auto simp: commit_version_def write_version_file_def write_pointer_def bnd_def read_st_def put_dir_def
        modify_st_def ret_def extended_def holds_chain_def head_pointer_def pointer_to_def file_of_def dir_at_def)
qed

lemma holds_chain_extended:
  assumes "holds_chain k d vs" and "version_ok k v" and "vs_revision v = length vs + 1"
    and "vs = [] \<or> vs_parent_revision v = Some (vs_revision (last vs))
      \<and> vs_parent_version_id v = Some (vs_version_id (last vs))"
  shows "holds_chain k (extended d vs v) (vs @ [v])"
  using assms by (auto simp: holds_chain_def extended_def linked_append)

subsection \<open>Promotion\<close>

lemma check_manifest_eq:
  "check_manifest c es h s = (if \<not> evidence_authorized c es then Inl ValueError
     else if evidence_manifest_hash es \<noteq> h then Inl (OpportunityStateError 409 ''evidence_changed'')
     else Inr h, s)"
  by (auto simp: check_manifest_def validate_candidate_evidence_def op_defs)

text \<open>The version a promotion builds, from the version ID and the time it draws.\<close>

definition child_version ::
  "opp_identity \<Rightarrow> version option \<Rightarrow> manifest_entry list \<Rightarrow> string \<Rightarrow> provenance \<Rightarrow> candidate
   \<Rightarrow> string \<Rightarrow> datetime \<Rightarrow> change_set option \<Rightarrow> version" where
  "child_version identity parent manifest hash prov c vid now cs = \<lparr>vs_version_id = vid,
     vs_revision = (case parent of None \<Rightarrow> 1 | Some p \<Rightarrow> vs_revision p + 1), vs_identity = identity,
     vs_created_at = now, vs_manifest = manifest, vs_manifest_hash = hash, vs_provenance = prov,
     vs_state = c, vs_parent_version_id = map_option vs_version_id parent,
     vs_parent_revision = map_option vs_revision parent, vs_change_set = cs\<rparr>"

lemma last_revision: "holds_chain k d vs \<Longrightarrow> vs \<noteq> [] \<Longrightarrow> vs_revision (last vs) = length vs"
proof -
  assume c: "holds_chain k d vs" and ne: "vs \<noteq> []"
  have "last (map vs_revision vs) = vs_revision (last vs)" using ne by (rule last_map)
  with holds_chain_revisions(1) [OF c] ne show ?thesis by (simp del: upt_Suc)
qed

lemma dir_at_frame [simp]:
  "dir_at (s\<lparr>ss_ticks := n\<rparr>) k = dir_at s k" "dir_at (s\<lparr>ss_token_count := m\<rparr>) k = dir_at s k"
  by (simp_all add: dir_at_def)

lemma refuse_retired_pure: "\<exists>r. refuse_retired account slug s = (r, s)"
  by (auto simp: refuse_retired_def retirement_info_def paths_def op_defs
      split: option.splits stored.splits prod.splits sum.splits)

text \<open>
  What \<^verbatim>\<open>promote_update\<close> does to a store that holds a chain: either it raised and every directory
  is as before, or it returned a valid child of the version the caller named and only this
  directory grew by it.
\<close>

definition same_dirs :: "store \<Rightarrow> store \<Rightarrow> bool" where
  "same_dirs s s' \<longleftrightarrow> ss_dirs s' = ss_dirs s \<and> ss_safe_name s' = ss_safe_name s
     \<and> ss_accounts s' = ss_accounts s \<and> ss_forgotten s' = ss_forgotten s"

definition grown :: "store \<Rightarrow> string \<times> string \<Rightarrow> version list \<Rightarrow> version \<Rightarrow> store \<Rightarrow> bool" where
  "grown s k vs v s' \<longleftrightarrow> (\<forall>k'. dir_at s' k' = (if k' = k then extended (dir_at s k) vs v else dir_at s k'))
     \<and> ss_safe_name s' = ss_safe_name s \<and> ss_accounts s' = ss_accounts s \<and> ss_forgotten s' = ss_forgotten s"

lemma commit_step:
  assumes "commit_version k v t = (r, s')" and "same_dirs s t" and "holds_chain k (dir_at s k) vs"
    and "vs_revision v = length vs + 1"
  shows "r = Inr v \<and> grown s k vs v s'"
proof -
  have d: "dir_at t k' = dir_at s k'" for k' using assms(2) by (simp add: same_dirs_def dir_at_def)
  from commit_version_eq [of k t vs v] assms d obtain ds where
    "commit_version k v t = (Inr v, t\<lparr>ss_dirs := ds\<rparr>)"
    "\<forall>k'. dir_at (t\<lparr>ss_dirs := ds\<rparr>) k' = (if k' = k then extended (dir_at s k) vs v else dir_at s k')"
    by (metis (no_types, lifting))
  with assms(1,2) show ?thesis by (auto simp: grown_def same_dirs_def)
qed

lemma promote_update_cases:
  assumes chain: "at_chain s (oi_account i) (oi_slug i) vs"
    and run: "promote_update i pid prev es h prov c s = (r, s')"
  obtains (fails) e where "r = Inl e" and "same_dirs s s'"
    | (grows) v vid now cs where "r = Inr v" and "vs \<noteq> []" and "vs_version_id (last vs) = pid"
      and "vs_revision (last vs) = prev" and "evidence_authorized c es" and "h = evidence_manifest_hash es"
      and "v = child_version i (Some (last vs)) es h prov c vid now (Some cs)" and "vid \<in> range (ss_tokens s)"
      and "deterministic_change_set (last vs) vid (length vs + 1) c es = Inr cs" and "mk_version v = Inr v"
      and "sd_retired (dir_at s (dir_key s (oi_account i) (oi_slug i))) = None"
      and "grown s (dir_key s (oi_account i) (oi_slug i)) vs v s'"
proof -
  let ?k = "dir_key s (oi_account i) (oi_slug i)" let ?vid = "ss_tokens s (ss_token_count s)"
  have c0: "holds_chain ?k (dir_at s ?k) vs" and acc: "ss_safe_name s (oi_account i) \<in> set (ss_accounts s)"
    using chain by (simp_all add: at_chain_def)
  note eqs = check_manifest_eq read_current_raw_eq [OF chain] paths_eq [OF acc] holds_chain_revisions(3) [OF c0]
  obtain r1 where rr: "refuse_retired (oi_account i) (oi_slug i) s = (r1, s)" using refuse_retired_pure by blast
  have refl: "same_dirs s s" "same_dirs s (s\<lparr>ss_token_count := Suc (ss_token_count s)\<rparr>)"
    "same_dirs s (s\<lparr>ss_token_count := Suc (ss_token_count s), ss_ticks := Suc (ss_ticks s)\<rparr>)"
    by (simp_all add: same_dirs_def)
  show thesis
  proof (cases "evidence_authorized c es \<and> evidence_manifest_hash es = h \<and> (\<exists>u. r1 = Inr u) \<and> vs \<noteq> []
      \<and> vs_version_id (last vs) = pid \<and> vs_revision (last vs) = prev \<and> length vs + 1 \<le> 1000000")
    case False
    then have "\<exists>e. r = Inl e \<and> s' = s"
      using run last_revision [OF c0]
      by (cases r1) (auto simp: promote_update_def bnd_def eqs rr raise_def split: if_splits)
    with refl(1) show thesis using fails by auto
  next
    case True
    then have lr: "vs_revision (last vs) = length vs" using last_revision [OF c0] by auto
    show thesis
    proof (cases "deterministic_change_set (last vs) ?vid (length vs + 1) c es")
      case (Inl e)
      with True lr run have "r = Inl e \<and> s' = s\<lparr>ss_token_count := Suc (ss_token_count s)\<rparr>"
        by (auto simp: promote_update_def bnd_def eqs rr store_token_def of_sum_def)
      with refl(2) show thesis using fails by auto
    next
      case (Inr cs)
      let ?v = "child_version i (Some (last vs)) es h prov c ?vid (ss_clock s (ss_ticks s)) (Some cs)"
      let ?t = "s\<lparr>ss_token_count := Suc (ss_token_count s), ss_ticks := Suc (ss_ticks s)\<rparr>"
      from Inr True lr run have
        "(case mk_version ?v of Inl e \<Rightarrow> (Inl e, ?t) | Inr v \<Rightarrow> commit_version ?k v ?t) = (r, s')"
        by (auto simp: promote_update_def bnd_def eqs rr store_token_def of_sum_def store_now_def child_version_def cong: sum.case_cong)
      then consider (bad) e where "r = Inl e" "s' = ?t" "mk_version ?v = Inl e"
        | (good) "mk_version ?v = Inr ?v" "commit_version ?k ?v ?t = (r, s')"
        by (auto simp: mk_version_def split: if_splits)
      then show thesis
      proof cases
        case bad
        with refl(3) show thesis using fails by auto
      next
        case good
        have "vs_revision ?v = length vs + 1" using lr by (simp add: child_version_def)
        from commit_step [OF good(2) refl(3) c0 this] have g: "r = Inr ?v" "grown s ?k vs ?v s'" by auto
        from True rr have "sd_retired (dir_at s ?k) = None"
          by (auto simp: refuse_retired_def retirement_info_def bnd_def paths_eq [OF acc] op_defs
              split: option.splits stored.splits if_splits)
        with g True good Inr show thesis by (intro grows [of ?v ?vid _ cs]) auto
      qed
    qed
  qed
qed


lemma promote_create_cases:
  assumes chain: "at_chain s (oi_account i) (oi_slug i) vs"
    and run: "promote_create i es h prov c s = (r, s')"
  obtains (fails) e where "r = Inl e" and "same_dirs s s'"
    | (grows) v vid now where "r = Inr v" and "vs = []" and "evidence_authorized c es"
      and "h = evidence_manifest_hash es" and "v = child_version i None es h prov c vid now None"
      and "vid \<in> range (ss_tokens s)" and "mk_version v = Inr v"
      and "sd_retired (dir_at s (dir_key s (oi_account i) (oi_slug i))) = None"
      and "grown s (dir_key s (oi_account i) (oi_slug i)) vs v s'"
proof -
  let ?k = "dir_key s (oi_account i) (oi_slug i)" let ?vid = "ss_tokens s (ss_token_count s)"
  have c0: "holds_chain ?k (dir_at s ?k) vs" and acc: "ss_safe_name s (oi_account i) \<in> set (ss_accounts s)"
    using chain by (simp_all add: at_chain_def)
  note eqs = check_manifest_eq read_current_raw_eq [OF chain] paths_eq [OF acc] holds_chain_revisions(3) [OF c0]
  obtain r1 where rr: "refuse_retired (oi_account i) (oi_slug i) s = (r1, s)" using refuse_retired_pure by blast
  show thesis
  proof (cases "evidence_authorized c es \<and> evidence_manifest_hash es = h \<and> (\<exists>u. r1 = Inr u) \<and> vs = []")
    case False
    then have "\<exists>e. r = Inl e \<and> s' = s"
      using run by (cases r1) (auto simp: promote_create_def bnd_def eqs rr raise_def split: if_splits)
    then show thesis using fails by (auto simp: same_dirs_def)
  next
    case True
    let ?v = "child_version i None es h prov c ?vid (ss_clock s (ss_ticks s)) None"
    let ?t = "s\<lparr>ss_token_count := Suc (ss_token_count s), ss_ticks := Suc (ss_ticks s)\<rparr>"
    have same: "same_dirs s ?t" by (simp add: same_dirs_def)
    from True run have "(case mk_version ?v of Inl e \<Rightarrow> (Inl e, ?t) | Inr v \<Rightarrow> commit_version ?k v ?t) = (r, s')"
      by (auto simp: promote_create_def bnd_def eqs rr store_token_def of_sum_def store_now_def child_version_def
          cong: sum.case_cong)
    then consider (bad) e where "r = Inl e" "s' = ?t"
      | (good) "mk_version ?v = Inr ?v" "commit_version ?k ?v ?t = (r, s')"
      by (auto simp: mk_version_def split: if_splits)
    then show thesis
    proof cases
      case bad
      with same show thesis using fails by auto
    next
      case good
      have "vs_revision ?v = length vs + 1" using True by (simp add: child_version_def)
      from commit_step [OF good(2) same c0 this] have g: "r = Inr ?v" "grown s ?k vs ?v s'" by auto
      from True rr have "sd_retired (dir_at s ?k) = None"
        by (auto simp: refuse_retired_def retirement_info_def bnd_def paths_eq [OF acc] op_defs
            split: option.splits stored.splits if_splits)
      with g True good show thesis by (intro grows [of ?v ?vid]) auto
    qed
  qed
qed

text \<open>The chain after a promotion, when the arguments are validated models and the file fits.\<close>

lemma grown_chain:
  assumes "at_chain s account slug vs" and "grown s (dir_key s account slug) vs v s'"
    and "version_ok (dir_key s account slug) v" and "vs_revision v = length vs + 1"
    and "vs = [] \<or> vs_parent_revision v = Some (vs_revision (last vs))
      \<and> vs_parent_version_id v = Some (vs_version_id (last vs))"
  shows "at_chain s' account slug (vs @ [v])"
proof -
  have "dir_key s' account slug = dir_key s account slug" using assms(2) by (simp add: grown_def dir_key_def)
  moreover have "dir_at s' (dir_key s account slug) = extended (dir_at s (dir_key s account slug)) vs v"
    using assms(2) by (simp add: grown_def del: split_paired_All)
  moreover have "holds_chain (dir_key s account slug) (extended (dir_at s (dir_key s account slug)) vs v) (vs @ [v])"
    using assms(1,3-5) by (intro holds_chain_extended) (simp_all add: at_chain_def)
  ultimately show ?thesis using assms(1,2) by (simp add: at_chain_def grown_def)
qed

lemma mk_version_valid:
  assumes "mk_version v = Inr w" and "valid_opp_identity (vs_identity v)" "list_all valid_manifest_entry (vs_manifest v)"
    "valid_provenance (vs_provenance v)" "valid_candidate_state (vs_state v)" "opt_all valid_change_set (vs_change_set v)"
  shows "w = v \<and> valid_version v"
  using assms by (auto simp: mk_version_def valid_version_def split: if_splits)


subsection \<open>Reads do not write\<close>

interpretation store_frame: state_relation "(=) :: store \<Rightarrow> store \<Rightarrow> bool"
  by unfold_locales auto

lemma obeys_paths: "obeys (=) (paths account slug)"
  unfolding paths_def by (auto intro!: store_frame.obeys_bnd store_frame.obeys_basic)

lemmas store_pure = store_frame.obeys_bnd store_frame.obeys_if store_frame.obeys_basic obeys_paths

lemma obeys_read_version_path: "obeys (=) (read_version_path k f)"
  unfolding read_version_path_def by (auto intro!: store_pure split: stored.splits)

lemma obeys_read_current_raw: "obeys (=) (read_current_raw account slug)"
  unfolding read_current_raw_def
  by (auto intro!: store_pure obeys_read_version_path split: stored.splits option.splits prod.splits)

lemma obeys_retirement_info: "obeys (=) (retirement_info account slug)"
  unfolding retirement_info_def by (auto intro!: store_pure split: stored.splits option.splits prod.splits)

lemma obeys_read_history_unfiltered: "obeys (=) (read_history_unfiltered account slug)"
  unfolding read_history_unfiltered_def
  by (auto intro!: store_pure store_frame.obeys_map_op obeys_read_version_path obeys_read_current_raw
      split: option.splits prod.splits)

lemma obeys_read_current: "obeys (=) (read_current account slug)"
  unfolding read_current_def
  by (auto intro!: store_pure obeys_read_current_raw obeys_retirement_info obeys_read_history_unfiltered
      split: option.splits)

lemma obeys_read_history: "obeys (=) (read_history account slug)"
  unfolding read_history_def by (auto intro!: store_pure obeys_read_history_unfiltered)

lemma store_pureD: "obeys (=) m \<Longrightarrow> m s = (r, s') \<Longrightarrow> s' = (s :: store)"
  by (auto simp: obeys_def)

lemma read_version_path_result:
  "read_version_path k (file_of v) s = (Inr v, s)
   \<or> read_version_path k (file_of v) s = (Inl (OpportunityStateError 409 ''malformed_storage''), s)"
  by (auto simp: read_version_path_def ret_def raise_def)

lemma map_op_snoc:
  "map_op m (xs @ [x]) = bnd (map_op m xs) (\<lambda>ys. bnd (m x) (\<lambda>y. ret (ys @ [y])))"
  by (induction xs) (simp_all add: bnd_assoc)

end
