(* ===== verification/Overview_Demo.thy ===== *)
theory Overview_Demo
  imports State_Facts "HOL-Library.Multiset"
begin

section \<open>A small overview\<close>

text \<open>
  One opportunity with a first version and the candidate of a second one, on which the
  properties of the store and of reconciliation are exercised, and a bound on the size of
  printed JSON that shows its files fit the reader's limit.
\<close>

subsection \<open>The size of printed JSON\<close>

fun json_size :: "json \<Rightarrow> nat"
  and json_sizes :: "json list \<Rightarrow> nat"
  and member_sizes :: "(string \<times> json) list \<Rightarrow> nat" where
  "json_size (JStr s) = 6 * length s + 2"
| "json_size (JInt i) = length (dec i)"
| "json_size JNull = 4"
| "json_size (JBool b) = 5"
| "json_size (JList xs) = 2 + json_sizes xs"
| "json_size (JObj kvs) = 2 + member_sizes kvs"
| "json_sizes [] = 0"
| "json_sizes (x # xs) = 1 + json_size x + json_sizes xs"
| "member_sizes [] = 0"
| "member_sizes ((k, v) # kvs) = 4 + 6 * length k + json_size v + member_sizes kvs"

lemma esc_char_length: "length (esc_char c) \<le> 6"
  by (simp add: esc_char_def)

lemma jstr_length: "length (jstr s) \<le> 6 * length s + 2"
proof -
  have "length (concat (map esc_char s)) \<le> 6 * length s"
    by (induction s) (auto intro: order_trans [OF add_mono [OF esc_char_length]])
  then show ?thesis by (simp add: jstr_def)
qed

lemma jdump_length:
  "length (jdump j) \<le> json_size j"
  "length (jdump_items xs) \<le> json_sizes xs + 1"
  "length (jdump_members kvs) \<le> member_sizes kvs + 1"
proof (induction j and xs and kvs rule: jdump_jdump_items_jdump_members.induct)
  case (8 k v kvs)
  with jstr_length [of k] show ?case by simp
next
  case (12 k v kvs)
  with jstr_length [of k] show ?case by simp
qed (use jstr_length in auto)

lemma member_sizes_sum: "member_sizes kvs = sum_list (map (\<lambda>(k, v). 4 + 6 * length k + json_size v) kvs)"
  by (induction kvs) auto

lemma member_sizes_sort: "member_sizes (sort_key f kvs) = member_sizes kvs"
proof -
  have "mset (map g (sort_key f kvs)) = mset (map g kvs)" for g :: "string \<times> json \<Rightarrow> nat" by simp
  then show ?thesis unfolding member_sizes_sum by (simp only: sum_mset_sum_list [symmetric])
qed

lemma canon_size: "json_size (canon j) = json_size j" "json_sizes (canon_items xs) = json_sizes xs"
  "member_sizes (canon_members kvs) = member_sizes kvs"
  by (induction j and xs and kvs rule: canon_canon_items_canon_members.induct) (auto simp: member_sizes_sort)

lemma canonical_size: "length (canonical_bytes j) \<le> json_size j"
  using jdump_length(1) [of "canon j"] by (simp add: canonical_bytes_def canon_size)

lemma envelope_bound: "json_size (version_json v) \<le> max_state_bytes - 1000 \<Longrightarrow> envelope_size v \<le> max_state_bytes"
  using canonical_size [of "JObj [(''version'', version_json v), (''checksum'', JStr (version_checksum v))]"]
  by (simp add: envelope_size_def max_state_bytes_def version_checksum_def hexn_def [THEN iffD1, OF sha256_hex_hexn])

subsection \<open>Demonstration data\<close>

definition demo_src :: string where
  "demo_src = ''src_00000000000000000000000000000000''"

definition demo_metadata_entry :: manifest_entry where
  "demo_metadata_entry = \<lparr>me_type = OpportunityMetadata, me_id = ''opportunity-metadata'',
     me_sha256 = replicate 64 (CHR ''a''), me_byte_count = 120, me_observed_at = 0,
     me_display_name = ''Opportunity metadata''\<rparr>"

definition demo_entry :: "string \<Rightarrow> manifest_entry" where
  "demo_entry sid = \<lparr>me_type = Transcript, me_id = sid @ ''_r1'', me_sha256 = replicate 64 (CHR ''b''),
     me_byte_count = 40, me_observed_at = 0, me_display_name = ''Meeting''\<rparr>"

definition demo_brief :: brief where
  "demo_brief = \<lparr>br_customer_objective = unknown_claim, br_why_airbyte = unknown_claim,
     br_current_status = unknown_claim, br_path_to_decision = unknown_claim, br_immediate_priority = unknown_claim\<rparr>"

definition demo_indicator :: "health_key \<Rightarrow> health_status \<Rightarrow> indicator" where
  "demo_indicator k st = \<lparr>hi_key = k, hi_status = st, hi_reason = ''No evidence.'', hi_confidence = ConfLow,
     hi_confirmation = UnknownConfirmation, hi_last_confirmed_at = None, hi_refs = []\<rparr>"

definition demo_action :: recommended where
  "demo_action = \<lparr>ra_key = ''send-deck'', ra_action = ''Send pricing deck'', ra_goal = ''Unblock pricing'',
     ra_definition_of_done = ''Deck sent'', ra_owner = Some ''Customer security team'',
     ra_due_date = Some ''2026-01-05'', ra_status = NotStarted, ra_related_item_key = None,
     ra_refs = [\<lparr>evr_type = Transcript, evr_id = demo_src @ ''_r1'', evr_locator = Some ''Summary''\<rparr>]\<rparr>"

definition demo_candidate :: candidate where
  "demo_candidate = upgrade_legacy demo_brief None None None
     [demo_indicator DealQualification InsufficientEvidence, demo_indicator TechnicalFit InsufficientEvidence,
      demo_indicator Timeline HUnknown, demo_indicator CustomerSentiment HUnknown] [] [demo_action] []"

definition demo_manifest :: "manifest_entry list" where
  "demo_manifest = [demo_metadata_entry, demo_entry demo_src]"

definition demo_opp :: opp_identity where
  "demo_opp = \<lparr>oi_account = ''Acme'', oi_slug = ''renewal'', oi_name = ''Renewal''\<rparr>"

definition demo_provenance :: provenance where
  "demo_provenance = \<lparr>gp_updater_version = ''u1'', gp_model = ''m'', gp_runtime = ''cli'', gp_cli_version = ''1''\<rparr>"

definition demo_version :: version where
  "demo_version = \<lparr>vs_version_id = replicate 32 (CHR ''1''), vs_revision = 1, vs_identity = demo_opp,
     vs_created_at = 0, vs_manifest = demo_manifest, vs_manifest_hash = evidence_manifest_hash demo_manifest,
     vs_provenance = demo_provenance, vs_state = demo_candidate, vs_parent_version_id = None,
     vs_parent_revision = None, vs_change_set = None\<rparr>"

definition demo_store :: store where
  "demo_store = \<lparr>ss_safe_name = id, ss_accounts = [''Acme''],
     ss_dirs = [((''Acme'', ''renewal''), \<lparr>sd_versions = [file_of demo_version], sd_alien = False,
        sd_pointer = Some (Intact (pointer_to demo_version)), sd_retired = None\<rparr>)],
     ss_forgotten = [], ss_clock = int, ss_ticks = 0, ss_tokens = (\<lambda>_. replicate 32 (CHR ''2'')), ss_token_count = 0\<rparr>"

subsection \<open>Its validity\<close>

lemma unknown_claim_ok: "valid_claim unknown_claim"
  by (simp add: valid_claim_def unknown_claim_def claim_consistent_def)

lemmas text_simps = text_ok_def long_text_def state_short_text_def in_len_def strip_def is_space_def

lemma legacy_area_ok: "valid_area legacy_area"
  by (simp add: valid_area_def legacy_area_def unknown_claim_ok not_established_def text_simps)

lemma legacy_business_case_ok: "valid_business_case legacy_business_case"
  by (simp add: valid_business_case_def case_areas_def legacy_business_case_def legacy_area_ok)

lemma legacy_meddpicc_ok: "valid_meddpicc legacy_meddpicc"
  by (simp add: valid_meddpicc_def legacy_meddpicc_def valid_dimension_def unknown_claim_ok not_established_def
      dimension_keys_def meddpicc_complete_def text_simps)

lemma legacy_stakeholder_map_ok: "valid_stakeholder_map legacy_stakeholder_map"
  by (simp add: valid_stakeholder_map_def legacy_stakeholder_map_def key_roles_def stakeholder_map_consistent_def text_simps)

lemma demo_src_ok: "source_id_ok demo_src"
  by (simp add: source_id_ok_def demo_src_def hexn_def is_hex_def is_digit_def)

lemma demo_action_ok: "valid_recommended demo_action"
  by (simp add: valid_recommended_def demo_action_def stable_key_def key_char_def is_lower_def is_digit_def
      date_ok_def valid_evidence_ref_def demo_src_def text_simps)

lemma demo_candidate_ok: "valid_candidate_state demo_candidate"
  using legacy_business_case_ok legacy_meddpicc_ok legacy_stakeholder_map_ok demo_action_ok
  by (simp add: valid_candidate_state_def demo_candidate_def upgrade_legacy_def valid_brief_def brief_claims_def
      demo_brief_def unknown_claim_ok demo_indicator_def valid_indicator_def candidate_keys_ok_def health_keys_def
      text_simps)

lemma demo_manifest_ok: "list_all valid_manifest_entry demo_manifest" "distinct (map entry_key demo_manifest)"
  by (simp_all add: demo_manifest_def demo_metadata_entry_def demo_entry_def valid_manifest_entry_def demo_src_def
      hexn_def is_hex_def is_digit_def text_simps entry_key_def list_all_iff)

lemma demo_authorized: "evidence_authorized demo_candidate demo_manifest"
  by (simp add: evidence_authorized_def evidence_references_def demo_candidate_def upgrade_legacy_def brief_claims_def
      demo_brief_def unknown_claim_def legacy_business_case_def case_areas_def legacy_area_def legacy_meddpicc_def
      dimension_keys_def legacy_stakeholder_map_def demo_indicator_def demo_action_def demo_manifest_def
      demo_metadata_entry_def demo_entry_def entry_key_def)

lemma demo_opp_ok: "valid_opp_identity demo_opp"
  by (simp add: valid_opp_identity_def demo_opp_def opportunity_slug_def is_lower_def is_upper_def key_char_def text_simps)

lemma demo_provenance_ok: "valid_provenance demo_provenance"
  by (simp add: valid_provenance_def demo_provenance_def text_simps)


lemma demo_lengths: "length (json_time 0) = 20" "length (dec 1) = 1" "length (dec 120) = 3" "length (dec 40) = 2"
  by code_simp+

lemma demo_version_size: "json_size (version_json demo_version) \<le> 40000"
  by (simp add: demo_version_def version_json_def demo_candidate_def candidate_json_def upgrade_legacy_def brief_claims_def
      demo_brief_def unknown_claim_def legacy_business_case_def case_areas_def legacy_area_def legacy_meddpicc_def
      dimension_keys_def legacy_stakeholder_map_def demo_indicator_def demo_action_def demo_manifest_def
      demo_metadata_entry_def demo_entry_def claim_members_def area_members_def dimension_members_def
      indicator_members_def recommended_members_def jtext_def jtexts_def jtime_def jrefs_def evidence_ref_json_def
      key_roles_def not_established_def demo_src_def demo_opp_def demo_provenance_def
      hexn_def [THEN iffD1, OF sha256_hex_hexn] evidence_manifest_hash_def demo_lengths)


lemma demo_version_fields: "version_fields_ok demo_version"
  by (simp add: version_fields_ok_def demo_version_def demo_manifest_def evidence_manifest_hash_def
      hexn_def [of 32] is_hex_def is_digit_def list_all_iff)

lemma demo_version_valid: "valid_version demo_version"
  using demo_version_fields demo_manifest_ok demo_authorized demo_opp_ok demo_provenance_ok demo_candidate_ok
  by (simp add: valid_version_def version_consistent_def version_chain_ok_def) (simp add: demo_version_def)

lemma demo_version_ok: "version_ok (''Acme'', ''renewal'') demo_version"
  using demo_version_valid envelope_bound [OF order_trans [OF demo_version_size]]
  by (simp add: version_ok_def max_state_bytes_def) (simp add: demo_version_def demo_opp_def)

lemma demo_store_chain: "at_chain demo_store ''Acme'' ''renewal'' [demo_version]"
  using demo_version_ok
  by (simp add: at_chain_def holds_chain_def demo_store_def dir_key_def dir_at_def head_pointer_def)
     (simp add: demo_version_def)

end
