(* ===== verification/State_Claims.thy ===== *)
theory State_Claims
  imports Overview_Demo "HOL-Library.Multiset"
begin

section \<open>What the store of overview versions guarantees\<close>

text \<open>
  Compare-and-swap promotion, the immutable history, the withholding of forgotten evidence and
  the deterministic diff, with two ways a valid update can fail or lock the overview.
\<close>

subsection \<open>The diff\<close>

lemma sort_key_perm:
  assumes "mset xs = mset ys" and "inj_on f (set xs)"
  shows "sort_key f xs = sort_key f ys"
proof (rule properties_for_sort_key)
  show "mset (sort_key f ys) = mset xs" using assms(1) by simp
  show "filter (\<lambda>x. f k = f x) (sort_key f ys) = filter (\<lambda>x. f k = f x) xs" if "k \<in> set (sort_key f ys)" for k
  proof -
    have eq: "set xs = set ys" using assms(1) by (metis mset_eq_setD)
    have "filter (\<lambda>x. f k = f x) zs = replicate (count (mset zs) k) k" if "set zs = set xs" for zs
    proof -
      have "filter (\<lambda>x. f k = f x) zs = filter (\<lambda>x. k = x) zs"
        using that assms(2) \<open>k \<in> set (sort_key f ys)\<close> eq by (intro filter_cong) (auto simp: inj_on_def)
      also have "... = replicate (count (mset zs) k) k" by (induction zs) auto
      finally show ?thesis .
    qed
    from this [of "sort_key f ys"] this [of xs] eq assms(1) show ?thesis by simp
  qed
qed simp

text \<open>The manifest hash does not depend on the order of the manifest: two lists of the same
  entries, with distinct identities, have the same hash.\<close>

lemma manifest_hash_order:
  assumes "mset es = mset fs" and "distinct (map entry_key es)"
  shows "evidence_manifest_hash es = evidence_manifest_hash fs"
proof -
  have "inj_on entry_key (set es)" using assms(2) by (simp add: distinct_map)
  moreover have "evidence_type_value s = evidence_type_value t \<longleftrightarrow> s = t" for s t by (cases s; cases t) simp_all
  ultimately have "inj_on digest_key (set es)"
    by (auto simp: inj_on_def digest_key_def entry_key_def)
  from sort_key_perm [OF assms(1) this] show ?thesis by (simp add: evidence_manifest_hash_def)
qed

lemma changed_fields_refl [simp]: "changed_fields x x = []"
  by (simp add: changed_fields_def)

lemma keyed_changes_perm:
  assumes "mset xs = mset ys" and "distinct (map fst xs)"
  shows "keyed_changes r xs ys = []"
proof -
  have "mset (map fst xs) = mset (map fst ys)" using assms(1) by (metis mset_map)
  then have d: "distinct (map fst ys)" using assms(2) by (metis mset_eq_imp_distinct_iff)
  have "map_of (rev xs) = map_of xs" using assms(2) by (intro map_of_inject_set [THEN iffD2]) (simp_all add: rev_map [symmetric])
  moreover have "map_of (rev ys) = map_of xs"
    using assms d by (intro map_of_inject_set [THEN iffD2]) (auto simp: rev_map [symmetric] dest: mset_eq_setD)
  ultimately have eq: "map_of (rev xs) = map_of (rev ys)" by simp
  have "\<forall>k \<in> set (map fst xs @ map fst ys). \<exists>x. map_of (rev ys) k = Some x"
    using mset_eq_setD [OF assms(1)] by (auto simp: map_of_eq_None_iff weak_map_of_SomeI not_None_eq [symmetric] simp del: not_None_eq)
  then show ?thesis unfolding keyed_changes_def Let_def eq by (auto simp: concat_eq_Nil_conv split: option.splits)
qed


lemma keyed_keys [simp]: "map fst (keyed key mem xs) = map key xs"
  by (simp add: keyed_def comp_def)

lemma keyed_perm:
  "mset xs = mset ys \<Longrightarrow> distinct (map key xs) \<Longrightarrow> keyed_changes r (keyed key mem xs) (keyed key mem ys) = []"
  by (rule keyed_changes_perm) (simp_all add: keyed_def comp_def)

lemma part_changes_refl [simp]: "part_changes x x = []"
  by (simp add: part_changes_def)

lemma concat_map_nil: "(\<And>x. x \<in> set xs \<Longrightarrow> f x = []) \<Longrightarrow> concat (map f xs) = []"
  by (induction xs) auto

lemma source_changes_perm:
  assumes "mset es = mset fs" and "distinct (map entry_key es)"
  shows "source_changes es fs = []"
proof -
  let ?f = "\<lambda>es. map (\<lambda>e. (entry_key e, e)) es"
  have s: "set es = set fs" using assms(1) by (rule mset_eq_setD)
  have "mset (map entry_key es) = mset (map entry_key fs)" using assms(1) by (simp only: mset_map)
  then have d: "distinct (map entry_key fs)" using assms(2) by (metis mset_eq_imp_distinct_iff)
  have eq: "map_of (rev (?f es)) = map_of (rev (?f fs))"
    using assms(2) d s
    by (intro map_of_inject_set [THEN iffD2]) (auto simp: rev_map [symmetric] comp_def)
  show ?thesis unfolding source_changes_def Let_def eq
  proof (rule concat_map_nil, goal_cases)
    case (1 k)
    obtain t i where k: "k = (t, i)" by (cases k)
    from 1 have "(t, i) \<in> fst ` set (rev (?f fs))" by (simp add: k image_image)
    then have "map_of (rev (?f fs)) (t, i) \<noteq> None" by (simp only: map_of_eq_None_iff not_False_eq_True not_not)
    then show ?case by (auto simp: k)
  qed
qed

text \<open>The same content with its lists in another order.\<close>

definition reordered :: "candidate \<Rightarrow> candidate \<Rightarrow> bool" where
  "reordered c d \<longleftrightarrow> cd_brief d = cd_brief c \<and> cd_business_case d = cd_business_case c
     \<and> mset (mp_dimensions (cd_meddpicc c)) = mset (mp_dimensions (cd_meddpicc d))
     \<and> mset (smap_stakeholders (cd_stakeholders c)) = mset (smap_stakeholders (cd_stakeholders d))
     \<and> smap_missing (cd_stakeholders d) = smap_missing (cd_stakeholders c)
     \<and> smap_missing_roles (cd_stakeholders d) = smap_missing_roles (cd_stakeholders c)
     \<and> mset (cd_health c) = mset (cd_health d) \<and> mset (cd_risks c) = mset (cd_risks d)
     \<and> mset (cd_actions c) = mset (cd_actions d) \<and> mset (cd_missing c) = mset (cd_missing d)"

lemma distinct_of_card: "card (set (map f xs)) = n \<Longrightarrow> length xs = n \<Longrightarrow> distinct (map f xs)"
  by (metis card_distinct length_map)

lemma value_injs: "inj dimension_value" "inj health_key_value"
proof -
  show "inj dimension_value"
  proof (rule injI)
    fix a b assume "dimension_value a = dimension_value b" then show "a = b" by (cases a; cases b) simp_all
  qed
  show "inj health_key_value"
  proof (rule injI)
    fix a b assume "health_key_value a = health_key_value b" then show "a = b" by (cases a; cases b) simp_all
  qed
qed

lemma valid_keys_distinct:
  assumes "valid_candidate_state c"
  shows "distinct (map (\<lambda>d. dimension_value (md_key d)) (mp_dimensions (cd_meddpicc c)))"
    "distinct (map sh_key (smap_stakeholders (cd_stakeholders c)))"
    "distinct (map (\<lambda>h. health_key_value (hi_key h)) (cd_health c))"
    "distinct (map rk_key (cd_risks c))" "distinct (map ra_key (cd_actions c))" "distinct (map mi_key (cd_missing c))"
proof -
  have "distinct (map md_key (mp_dimensions (cd_meddpicc c)))"
    using assms by (intro distinct_of_card [of _ _ 8]) (auto simp: valid_candidate_state_def valid_meddpicc_def meddpicc_complete_def Let_def)
  then show "distinct (map (\<lambda>d. dimension_value (md_key d)) (mp_dimensions (cd_meddpicc c)))"
    using value_injs(1) by (auto simp: distinct_map inj_on_def)
  have "distinct (map hi_key (cd_health c))"
    using assms by (intro distinct_of_card [of _ _ 4]) (auto simp: valid_candidate_state_def candidate_keys_ok_def Let_def)
  then show "distinct (map (\<lambda>h. health_key_value (hi_key h)) (cd_health c))"
    using value_injs(2) by (auto simp: distinct_map inj_on_def)
qed (use assms in \<open>auto simp: valid_candidate_state_def candidate_keys_ok_def valid_stakeholder_map_def
        stakeholder_map_consistent_def Let_def\<close>)

definition blank_change_set :: "version \<Rightarrow> string \<Rightarrow> nat \<Rightarrow> change_set" where
  "blank_change_set p vid n = \<lparr>chs_parent_version_id = vs_version_id p, chs_parent_revision = vs_revision p,
     chs_child_version_id = vid, chs_child_revision = n, chs_brief = [], chs_business_case = [],
     chs_meddpicc = [], chs_stakeholders = [], chs_health = [], chs_risks = [], chs_actions = [],
     chs_missing = [], chs_sources = [], chs_metadata_changed = False\<rparr>"

lemma raw_change_set_reordered:
  assumes "valid_candidate_state (vs_state p)" and "distinct (map entry_key (vs_manifest p))"
    and "reordered (vs_state p) c" and "mset (vs_manifest p) = mset es"
  shows "raw_change_set p vid n c es = blank_change_set p vid n"
proof -
  note d = valid_keys_distinct [OF assms(1)]
  note r = assms(3) [unfolded reordered_def]
  show ?thesis
    using r keyed_perm [OF _ d(1)] keyed_perm [OF _ d(2)] keyed_perm [OF _ d(3)] keyed_perm [OF _ d(4)]
      keyed_perm [OF _ d(5)] keyed_perm [OF _ d(6)] source_changes_perm [OF assms(4,2)]
    by (simp add: raw_change_set_def blank_change_set_def Let_def gap_changes_def)
qed


definition demo_child_id :: string where
  "demo_child_id = replicate 32 (CHR ''2'')"

lemma demo_version_sel [simp]:
  "vs_state demo_version = demo_candidate" "vs_manifest demo_version = demo_manifest"
  "vs_version_id demo_version = replicate 32 (CHR ''1'')" "vs_revision demo_version = 1"
  by (simp_all add: demo_version_def)

lemma demo_change_set:
  "mset demo_manifest = mset es \<Longrightarrow>
   deterministic_change_set demo_version demo_child_id 2 demo_candidate es = Inr (blank_change_set demo_version demo_child_id 2)"
proof -
  assume m: "mset demo_manifest = mset es"
  have "raw_change_set demo_version demo_child_id 2 demo_candidate es = blank_change_set demo_version demo_child_id 2"
    using demo_candidate_ok demo_manifest_ok m
    by (intro raw_change_set_reordered) (simp_all add: reordered_def)
  moreover have "valid_change_set (blank_change_set demo_version demo_child_id 2)"
    by (simp add: valid_change_set_def blank_change_set_def demo_child_id_def chs_sections_def
        hexn_def is_hex_def is_digit_def list_all_iff)
  ultimately show ?thesis by (simp add: deterministic_change_set_def)
qed


text \<open>A complete change of stakeholders cannot be saved.  Replacing 24 stakeholders by 24
  others while the recorded gaps change gives 49 entries where the change set allows 48, so the
  diff of two valid stakeholder maps raises and the update is lost.\<close>

lemma stakeholder_turnover_rejected:
  assumes "valid_stakeholder_map (cd_stakeholders (vs_state p))" and "valid_stakeholder_map (cd_stakeholders c)"
    and "length (smap_stakeholders (cd_stakeholders (vs_state p))) = 24"
    and "length (smap_stakeholders (cd_stakeholders c)) = 24"
    and "set (map sh_key (smap_stakeholders (cd_stakeholders (vs_state p))))
       \<inter> set (map sh_key (smap_stakeholders (cd_stakeholders c))) = {}"
    and "smap_missing (cd_stakeholders (vs_state p)) \<noteq> smap_missing (cd_stakeholders c)"
  shows "deterministic_change_set p vid n c es = Inl ValidationError"
proof -
  let ?old = "keyed sh_key stakeholder_members (smap_stakeholders (cd_stakeholders (vs_state p)))"
  let ?new = "keyed sh_key stakeholder_members (smap_stakeholders (cd_stakeholders c))"
  let ?keys = "sort (remdups (map fst ?old @ map fst ?new))"
  have d: "distinct (map fst ?old @ map fst ?new)"
    using assms(1,2,5) by (auto simp: valid_stakeholder_map_def stakeholder_map_consistent_def Let_def)
  then have len: "length ?keys = 48"
    using assms(3,4) by (simp add: distinct_remdups_id del: remdups.simps)
  have one: "length (case (map_of (rev ?old) k, map_of (rev ?new) k) of
      (None, _) \<Rightarrow> [\<lparr>ic_key = k, ic_type = Added, ic_fields = []\<rparr>]
    | (Some x, None) \<Rightarrow> [\<lparr>ic_key = k, ic_type = Removed, ic_fields = []\<rparr>]
    | (Some x, Some y) \<Rightarrow> (let fs = changed_fields x y in
         if fs = [] then [] else [\<lparr>ic_key = k, ic_type = Changed, ic_fields = fs\<rparr>])) = 1"
    if "k \<in> set ?keys" for k
  proof -
    have "map_of (rev ?old) k = None \<or> map_of (rev ?new) k = None"
      using d by (auto simp: map_of_eq_None_iff keyed_def)
    then show ?thesis by (auto split: option.splits)
  qed
  have "length (keyed_changes Removed ?old ?new) = sum_list (map (\<lambda>_. 1) ?keys)"
    unfolding keyed_changes_def Let_def length_concat map_map comp_def
    by (intro arg_cong [of _ _ sum_list] map_cong refl) (use one [unfolded Let_def] in simp)
  then have "length (keyed_changes Removed ?old ?new) = 48" using len by (simp add: sum_list_triv)
  moreover have "length (gap_changes (cd_stakeholders (vs_state p)) (cd_stakeholders c)) = 1"
    using assms(6) by (simp add: gap_changes_def Let_def)
  ultimately have "length (chs_stakeholders (raw_change_set p vid n c es)) = 49"
    by (simp add: raw_change_set_def Let_def)
  then have "\<not> valid_change_set (raw_change_set p vid n c es)"
    by (simp add: valid_change_set_def chs_sections_def)
  then show ?thesis by (simp add: deterministic_change_set_def Let_def)
qed

definition demo_person :: "string \<Rightarrow> nat \<Rightarrow> stakeholder" where
  "demo_person prefix n = \<lparr>sh_key = prefix @ replicate n (CHR ''x''), sh_name = ''Ann'', sh_title_or_role = None,
     sh_category = OtherCategory, sh_influence = InfUnknown, sh_engagement = EngUnknown, sh_stance = StanceUnknown,
     sh_blocker_status = BlockerUnknown, sh_blocker_reason = None, sh_next_step = None,
     sh_refs = [\<lparr>evr_type = Transcript, evr_id = ''transcript-1'', evr_locator = None\<rparr>], sh_missing = []\<rparr>"

definition demo_people :: "string \<Rightarrow> string list \<Rightarrow> stakeholder_map" where
  "demo_people prefix gaps = \<lparr>smap_stakeholders = map (demo_person prefix) [0..<24], smap_missing_roles = [],
     smap_missing = gaps\<rparr>"

lemma demo_people_ok:
  assumes "is_lower p" and "\<And>n. replicate n (CHR ''x'') \<noteq> ''takeholder-gaps''"
    and "list_all long_text gaps" and "length gaps \<le> 10"
  shows "valid_stakeholder_map (demo_people [p] gaps)"
proof -
  have "valid_stakeholder (demo_person [p] n)" if "n < 24" for n
    using that assms(1)
    by (simp add: valid_stakeholder_def demo_person_def stable_key_def key_char_def valid_evidence_ref_def
        list_all_iff text_simps) (simp add: is_lower_def)
  moreover have "distinct (map sh_key (map (demo_person [p]) [0..<24]))"
    by (simp add: demo_person_def comp_def distinct_map inj_on_def)
  moreover have "''stakeholder-gaps'' \<noteq> sh_key (demo_person [p] n)" for n
    using assms(2) [of n] by (auto simp: demo_person_def)
  ultimately show ?thesis
    using assms(3,4)
    by (auto simp: valid_stakeholder_map_def stakeholder_map_consistent_def demo_people_def list_all_iff Let_def)
qed

lemma stakeholder_turnover_rejected_witness:
  "deterministic_change_set
     (demo_version\<lparr>vs_state := demo_candidate\<lparr>cd_stakeholders := demo_people ''a'' []\<rparr>\<rparr>) demo_child_id 2
     (demo_candidate\<lparr>cd_stakeholders := demo_people ''b'' [''Who signs?'']\<rparr>) demo_manifest = Inl ValidationError"
proof (rule stakeholder_turnover_rejected)
  have x: "replicate n (CHR ''x'') \<noteq> ''takeholder-gaps''" for n
    by (cases n) auto
  have "valid_stakeholder_map (demo_people ''a'' [])" "valid_stakeholder_map (demo_people ''b'' [''Who signs?''])"
    by (rule demo_people_ok; simp add: x is_lower_def text_simps)+
  then show "valid_stakeholder_map (cd_stakeholders (vs_state (demo_version\<lparr>vs_state := demo_candidate\<lparr>cd_stakeholders := demo_people ''a'' []\<rparr>\<rparr>)))"
    "valid_stakeholder_map (cd_stakeholders (demo_candidate\<lparr>cd_stakeholders := demo_people ''b'' [''Who signs?'']\<rparr>))" by simp_all
qed (auto simp: demo_people_def demo_person_def)

text \<open>States saved by earlier versions stay loadable.  A candidate without a business case, a
  MEDDPICC or a stakeholder map is completed to a valid one whenever the parts it has are valid.\<close>

lemma legacy_candidates_load:
  assumes "valid_candidate_state (upgrade_legacy b (Some bc) (Some mp) (Some sm) hs rs acts ms)"
  shows "valid_candidate_state (upgrade_legacy b (if k1 then Some bc else None) (if k2 then Some mp else None)
     (if k3 then Some sm else None) hs rs acts ms)"
  using assms legacy_business_case_ok legacy_meddpicc_ok legacy_stakeholder_map_ok
  by (cases k1; cases k2; cases k3) (simp_all add: valid_candidate_state_def upgrade_legacy_def candidate_keys_ok_def)

lemma legacy_candidates_load_witness:
  "valid_candidate_state (upgrade_legacy demo_brief None None None (cd_health demo_candidate) [] [demo_action] [])"
proof -
  have "valid_candidate_state (upgrade_legacy demo_brief (Some legacy_business_case) (Some legacy_meddpicc)
      (Some legacy_stakeholder_map) (cd_health demo_candidate) [] [demo_action] [])"
    using demo_candidate_ok by (simp add: demo_candidate_def upgrade_legacy_def)
  from legacy_candidates_load [OF this, of False False False] show ?thesis by simp
qed

subsection \<open>Promotion\<close>

text \<open>Arguments that are validated models of the right opportunity, and a file within the limit.\<close>

definition promotable ::
  "store \<Rightarrow> opp_identity \<Rightarrow> manifest_entry list \<Rightarrow> provenance \<Rightarrow> candidate \<Rightarrow> version \<Rightarrow> bool" where
  "promotable s i es prov c v \<longleftrightarrow> valid_opp_identity i \<and> dir_key s (oi_account i) (oi_slug i) = (oi_account i, oi_slug i)
     \<and> list_all valid_manifest_entry es \<and> valid_provenance prov \<and> valid_candidate_state c
     \<and> envelope_size v \<le> max_state_bytes"

lemma change_set_valid: "deterministic_change_set p vid n c es = Inr cs \<Longrightarrow> valid_change_set cs"
  by (auto simp: deterministic_change_set_def Let_def split: if_splits)

text \<open>C7: Promotion is compare-and-swap.  A successful \<^verbatim>\<open>promote_update\<close> found exactly the version
  and revision its caller named at the end of the history, and afterwards the history is the old
  one with the new version appended, which is also what \<^verbatim>\<open>_read_current\<close> returns.\<close>

theorem promote_update_appends:
  assumes "at_chain s (oi_account i) (oi_slug i) vs"
    and "promote_update i pid prev es h prov c s = (Inr v, s')" and "promotable s i es prov c v"
  shows "vs \<noteq> [] \<and> vs_version_id (last vs) = pid \<and> vs_revision (last vs) = prev
    \<and> read_history_unfiltered (oi_account i) (oi_slug i) s' = (Inr (vs @ [v]), s')
    \<and> read_current_raw (oi_account i) (oi_slug i) s' = (Inr (Some v), s')
    \<and> vs_state v = c \<and> vs_revision v = prev + 1"
proof -
  have chain: "holds_chain (dir_key s (oi_account i) (oi_slug i)) (dir_at s (dir_key s (oi_account i) (oi_slug i))) vs"
    using assms(1) by (simp add: at_chain_def)
  show ?thesis
    using assms(1,2)
  proof (cases rule: promote_update_cases)
    case (grows v' vid now cs)
    then have v: "v' = v" and rev: "vs_revision (last vs) = length vs" using last_revision [OF chain] by simp_all
    have "valid_version v"
      using mk_version_valid [OF grows(10)] grows(7,9) assms(3) change_set_valid
      unfolding v by (auto simp: promotable_def child_version_def)
    then have "version_ok (dir_key s (oi_account i) (oi_slug i)) v"
      using assms(3) grows(7) v by (auto simp: version_ok_def promotable_def child_version_def)
    then have "at_chain s' (oi_account i) (oi_slug i) (vs @ [v])"
      using grown_chain [OF assms(1)] grows(7,12) v rev by (auto simp: child_version_def)
    from read_history_unfiltered_eq [OF this] read_current_raw_eq [OF this] grows v
    show ?thesis by (auto simp: child_version_def)
  qed simp
qed

lemma promote_update_runs:
  assumes "at_chain s (oi_account i) (oi_slug i) vs" and "vs \<noteq> []" and "length vs < 1000000"
    and "sd_retired (dir_at s (dir_key s (oi_account i) (oi_slug i))) = None" and "evidence_authorized c es"
    and "deterministic_change_set (last vs) (ss_tokens s (ss_token_count s)) (length vs + 1) c es = Inr cs"
    and "v = child_version i (Some (last vs)) es (evidence_manifest_hash es) prov c (ss_tokens s (ss_token_count s))
        (ss_clock s (ss_ticks s)) (Some cs)" and "version_fields_ok v" and "version_consistent v"
  shows "\<exists>s'. promote_update i (vs_version_id (last vs)) (length vs) es (evidence_manifest_hash es) prov c s = (Inr v, s')"
proof -
  let ?k = "dir_key s (oi_account i) (oi_slug i)"
  let ?t = "s\<lparr>ss_token_count := Suc (ss_token_count s), ss_ticks := Suc (ss_ticks s)\<rparr>"
  have c0: "holds_chain ?k (dir_at s ?k) vs" and acc: "ss_safe_name s (oi_account i) \<in> set (ss_accounts s)"
    using assms(1) by (simp_all add: at_chain_def)
  note lr = last_revision [OF c0 assms(2)]
  obtain r' s' where com: "commit_version ?k v ?t = (r', s')" by (rule prod.exhaust)
  have "r' = Inr v"
    using commit_step [OF com _ c0] lr by (simp add: same_dirs_def assms(7) child_version_def)
  moreover have "refuse_retired (oi_account i) (oi_slug i) s = (Inr (), s)"
    using retirement_info_eq [OF assms(1,4)] by (simp add: refuse_retired_def bnd_def ret_def)
  moreover have "mk_version v = Inr v" using assms(8,9) by (simp add: mk_version_def)
  ultimately show ?thesis
    using com assms(2,3,5,6) lr
    by (auto simp: promote_update_def bnd_def check_manifest_eq read_current_raw_eq [OF assms(1)] paths_eq [OF acc]
        holds_chain_revisions(3) [OF c0] store_token_def of_sum_def store_now_def assms(7) child_version_def
        cong: sum.case_cong)
qed

definition demo_child :: version where
  "demo_child = child_version demo_opp (Some demo_version) demo_manifest (evidence_manifest_hash demo_manifest)
     demo_provenance demo_candidate demo_child_id 0 (Some (blank_change_set demo_version demo_child_id 2))"

lemma dec_2: "length (dec 2) = 1"
  by code_simp

lemma demo_child_size: "json_size (version_json demo_child) \<le> 60000"
proof -
  have "json_size (version_json demo_child) \<le> json_size (version_json demo_version) + 10000"
    by (simp add: version_json_def demo_child_def child_version_def demo_child_id_def jtext_def change_set_json_def
        blank_change_set_def Let_def) (simp add: demo_version_def jtext_def demo_lengths dec_2)
  with demo_version_size show ?thesis by simp
qed

lemma demo_promotes:
  "\<exists>s'. promote_update demo_opp (replicate 32 (CHR ''1'')) 1 demo_manifest (evidence_manifest_hash demo_manifest)
     demo_provenance demo_candidate demo_store = (Inr demo_child, s')"
proof -
  have opp: "oi_account demo_opp = ''Acme''" "oi_slug demo_opp = ''renewal''" by (simp_all add: demo_opp_def)
  have st: "ss_tokens demo_store n = demo_child_id" "ss_token_count demo_store = 0" "ss_clock demo_store = int"
    "ss_ticks demo_store = 0" for n by (simp_all add: demo_store_def demo_child_id_def)
  have "version_fields_ok demo_child"
    using demo_version_fields by (simp add: version_fields_ok_def demo_child_def child_version_def demo_child_id_def
      hexn_def [of 32] is_hex_def is_digit_def list_all_iff) (simp add: demo_version_def)
  moreover have "version_consistent demo_child"
    using demo_manifest_ok demo_authorized
    by (simp add: version_consistent_def version_chain_ok_def demo_child_def child_version_def blank_change_set_def)
  moreover have "sd_retired (dir_at demo_store (dir_key demo_store ''Acme'' ''renewal'')) = None"
    by (simp add: dir_at_def dir_key_def demo_store_def)
  ultimately show ?thesis
    using promote_update_runs [of demo_store demo_opp "[demo_version]" demo_candidate demo_manifest
      "blank_change_set demo_version demo_child_id 2" demo_child demo_provenance]
      demo_store_chain demo_authorized demo_change_set [of demo_manifest]
    by (simp add: opp st demo_child_def numeral_2_eq_2)
qed

lemma demo_promotable: "promotable demo_store demo_opp demo_manifest demo_provenance demo_candidate demo_child"
  using demo_opp_ok demo_manifest_ok demo_provenance_ok demo_candidate_ok
    envelope_bound [OF order_trans [OF demo_child_size]]
  by (simp add: promotable_def dir_key_def demo_store_def max_state_bytes_def)

lemma demo_opp_chain: "at_chain demo_store (oi_account demo_opp) (oi_slug demo_opp) [demo_version]"
  using demo_store_chain by (simp add: demo_opp_def)

theorem promote_update_appends_witness:
  "\<exists>s'. read_history_unfiltered ''Acme'' ''renewal'' s' = (Inr [demo_version, demo_child], s')"
proof -
  from demo_promotes obtain s' where "promote_update demo_opp (replicate 32 (CHR ''1'')) 1 demo_manifest
      (evidence_manifest_hash demo_manifest) demo_provenance demo_candidate demo_store = (Inr demo_child, s')" by blast
  from promote_update_appends [OF demo_opp_chain this demo_promotable] show ?thesis by (auto simp: demo_opp_def)
qed

text \<open>C25: No update is lost.  After one successful \<^verbatim>\<open>promote_update\<close> any other one that names the
  same base is refused as \<^verbatim>\<open>stale_base\<close>, whatever it wants to write.\<close>

theorem promote_update_no_lost_update:
  assumes "at_chain s (oi_account i) (oi_slug i) vs"
    and "promote_update i pid prev es h prov c s = (Inr v, s')" and "promotable s i es prov c v"
    and "oi_account j = oi_account i" and "oi_slug j = oi_slug i" and "evidence_authorized c2 es2"
  shows "promote_update j pid prev es2 (evidence_manifest_hash es2) prov2 c2 s'
    = (Inl (OpportunityStateError 409 ''stale_base''), s')"
proof -
  note app = promote_update_appends [OF assms(1-3)]
  let ?k = "dir_key s (oi_account i) (oi_slug i)"
  have ret: "retirement_info (oi_account i) (oi_slug i) s' = (Inr None, s')"
    using assms(1,2)
  proof (cases rule: promote_update_cases)
    case (grows v' vid now cs)
    then have "dir_key s' (oi_account i) (oi_slug i) = ?k" "sd_retired (dir_at s' ?k) = None"
      "ss_safe_name s' (oi_account i) \<in> set (ss_accounts s')"
      using assms(1) by (simp_all add: grown_def dir_key_def extended_def at_chain_def)
    then show ?thesis by (simp add: retirement_info_def bnd_def paths_eq ret_def)
  qed simp
  show ?thesis
    using app ret assms(4-6)
    by (simp add: promote_update_def bnd_def check_manifest_eq refuse_retired_def ret_def raise_def)
qed

theorem promote_update_no_lost_update_witness:
  "\<exists>s'. promote_update demo_opp (replicate 32 (CHR ''1'')) 1 demo_manifest (evidence_manifest_hash demo_manifest)
     demo_provenance demo_candidate s' = (Inl (OpportunityStateError 409 ''stale_base''), s')"
  using promote_update_no_lost_update [OF demo_opp_chain _ demo_promotable _ _ demo_authorized] demo_promotes by blast



text \<open>C28: A process that dies between the two writes of a promotion locks the overview.  The new
  file without its pointer leaves the current version readable, but its history is refused as
  malformed and no later \<^verbatim>\<open>promote_update\<close> can ever succeed.\<close>

theorem interrupted_promotion_locks:
  assumes "at_chain s (oi_account i) (oi_slug i) vs" and "vs \<noteq> []" and "vs_revision v = length vs + 1"
    and "vs_version_id v \<noteq> vs_version_id (last vs)"
    and "write_version_file (dir_key s (oi_account i) (oi_slug i)) v s = (Inr (), s')"
  shows "read_current_raw (oi_account i) (oi_slug i) s' = (Inr (Some (last vs)), s')
    \<and> fst (read_history_unfiltered (oi_account i) (oi_slug i) s') = Inl (OpportunityStateError 409 ''malformed_storage'')
    \<and> (\<exists>e. fst (promote_update i pid prev es h prov c s') = Inl e)"
proof -
  let ?k = "dir_key s (oi_account i) (oi_slug i)" let ?d = "dir_at s ?k" let ?l = "last vs"
  have c: "holds_chain ?k ?d vs" and acc: "ss_safe_name s (oi_account i) \<in> set (ss_accounts s)"
    using assms(1) by (simp_all add: at_chain_def)
  have files: "sd_versions ?d = map file_of vs" "\<not> sd_alien ?d" "sd_pointer ?d = Some (Intact (pointer_to ?l))"
    and ok: "list_all (version_ok ?k) vs"
    using c assms(2) by (simp_all add: holds_chain_def head_pointer_def)
  have s': "s' = s\<lparr>ss_dirs := AList.update ?k (?d\<lparr>sd_versions := map file_of (vs @ [v])\<rparr>) (ss_dirs s)\<rparr>"
    using assms(5) files
    by (auto simp: write_version_file_def bnd_def read_st_def put_dir_def modify_st_def raise_def file_of_def split: if_splits)
  then have k': "dir_key s' (oi_account i) (oi_slug i) = ?k" and acc': "ss_safe_name s' (oi_account i) \<in> set (ss_accounts s')"
    and d': "dir_at s' ?k = ?d\<lparr>sd_versions := map file_of (vs @ [v])\<rparr>"
    using acc by (simp_all add: dir_key_def)
  note p' = paths_eq [OF acc', of "oi_slug i", unfolded k' d']
  have revs: "map vs_revision (vs @ [v]) = [1..<Suc (Suc (length vs))]"
    using holds_chain_revisions(1) [OF c] assms(3) by simp
  then have dist: "distinct (map vs_revision (vs @ [v]))" by (metis distinct_upt)
  have "map_of (map file_of (vs @ [v])) (vs_revision ?l, vs_version_id ?l) = Some (Intact ?l)"
    using dist assms(2) by (intro map_of_is_SomeI) (auto simp: distinct_map inj_on_def file_of_def)
  moreover have "read_version_path ?k (file_of ?l) s' = (Inr ?l, s')"
    using ok assms(2) by (intro read_version_path_ok) (simp add: list_all_iff)
  ultimately have cur: "read_current_raw (oi_account i) (oi_slug i) s' = (Inr (Some ?l), s')"
    using files p' by (simp add: read_current_raw_def bnd_def pointer_to_def ret_def file_of_def)
  have "sorted (map (\<lambda>f. fst (fst f)) (map file_of (vs @ [v])))"
    using revs by (metis (no_types, lifting) comp_apply file_of_simps(1) fst_conv list.map_comp map_eq_conv sorted_upt)
  then have srt: "sort_key (\<lambda>f. fst (fst f)) (map file_of (vs @ [v])) = map file_of vs @ [file_of v]"
    by (simp only: sort_key_id_if_sorted map_append list.map)
  have "map_op (read_version_path ?k) (map file_of vs) s' = (Inr (map (\<lambda>f. case snd f of Intact v \<Rightarrow> v) (map file_of vs)), s')"
    using ok by (intro map_op_ret) (auto simp: list_all_iff read_version_path_ok)
  then have old: "map_op (read_version_path ?k) (map file_of vs) s' = (Inr vs, s')" by (simp add: comp_def)
  have hist: "fst (read_history_unfiltered (oi_account i) (oi_slug i) s') = Inl (OpportunityStateError 409 ''malformed_storage'')"
    using p' cur files srt old assms(4) read_version_path_result [of ?k v s']
    by (auto simp: read_history_unfiltered_def bnd_def map_op_snoc ret_def raise_def)
  have "map (\<lambda>f. fst (fst f)) (map file_of (vs @ [v])) = [1..<Suc (Suc (length vs))]"
    using revs by (simp add: comp_def del: upt_Suc)
  then have "next_revision (?d\<lparr>sd_versions := map file_of (vs @ [v])\<rparr>) = length vs + 2"
    using next_revision_upt [of "?d\<lparr>sd_versions := map file_of (vs @ [v])\<rparr>" "Suc (length vs)"] by simp
  moreover obtain rr where "refuse_retired (oi_account i) (oi_slug i) s' = (rr, s')" using refuse_retired_pure by blast
  ultimately have "\<exists>e. fst (promote_update i pid prev es h prov c s') = Inl e"
    using cur p' last_revision [OF c assms(2)]
    by (cases rr) (auto simp: promote_update_def bnd_def check_manifest_eq raise_def)
  with cur hist show ?thesis by blast
qed

theorem interrupted_promotion_locks_witness:
  "\<exists>s'. write_version_file (''Acme'', ''renewal'') demo_child demo_store = (Inr (), s')
     \<and> fst (read_history_unfiltered ''Acme'' ''renewal'' s') = Inl (OpportunityStateError 409 ''malformed_storage'')
     \<and> (\<forall>pid prev es h prov c. \<exists>e. fst (promote_update demo_opp pid prev es h prov c s') = Inl e)"
proof -
  have "\<exists>s'. write_version_file (dir_key demo_store (oi_account demo_opp) (oi_slug demo_opp)) demo_child demo_store = (Inr (), s')"
    by (simp add: write_version_file_def bnd_def read_st_def dir_at_def dir_key_def demo_store_def demo_opp_def
        put_dir_def modify_st_def demo_child_def child_version_def file_of_def)
  then obtain s' where w: "write_version_file (dir_key demo_store (oi_account demo_opp) (oi_slug demo_opp)) demo_child demo_store = (Inr (), s')"
    by blast
  have "vs_revision demo_child = length [demo_version] + 1" "vs_version_id demo_child \<noteq> vs_version_id (last [demo_version])"
    by (simp_all add: demo_child_def child_version_def demo_child_id_def)
  from interrupted_promotion_locks [OF demo_opp_chain _ this w] w show ?thesis
    by (auto simp: dir_key_def demo_store_def demo_opp_def)
qed

subsection \<open>Forgotten evidence\<close>

lemma visible_from_clean:
  "v \<in> set (visible_from forgotten t vs) \<Longrightarrow> sid \<in> set forgotten \<Longrightarrow> \<not> cites v sid"
proof (induction vs arbitrary: t)
  case (Cons w vs)
  have "cites w sid \<Longrightarrow> taint forgotten w t \<noteq> []"
    using Cons.prems(2) by (auto simp: taint_def filter_empty_conv cleaned_by_def)
  with Cons show ?case by (auto simp: Let_def split: if_splits)
qed simp

text \<open>C27: A forgotten source is never shown.  From any store, \<^verbatim>\<open>read_current\<close> and \<^verbatim>\<open>read_history\<close>
  return only versions none of whose transcripts is a revision of a forgotten source.\<close>

theorem reads_hide_forgotten:
  assumes "sid \<in> set (ss_forgotten s)"
  shows "(\<forall>v s'. read_current account slug s = (Inr (Some v), s') \<longrightarrow> \<not> cites v sid)
    \<and> (\<forall>vs s'. read_history account slug s = (Inr vs, s') \<longrightarrow> (\<forall>v \<in> set vs. \<not> cites v sid))"
proof (intro conjI allI impI ballI)
  fix v s' assume rd: "read_current account slug s = (Inr (Some v), s')"
  obtain x where x: "read_current_raw account slug s = (x, s)"
    using store_pureD [OF obeys_read_current_raw] by (metis prod.exhaust)
  obtain y where y: "retirement_info account slug s = (y, s)"
    using store_pureD [OF obeys_retirement_info] by (metis prod.exhaust)
  obtain z where z: "read_history_unfiltered account slug s = (z, s)"
    using store_pureD [OF obeys_read_history_unfiltered] by (metis prod.exhaust)
  have "ss_forgotten s \<noteq> []" using assms by auto
  with rd x y z obtain vs where "v \<in> set (visible_history (ss_forgotten s) vs)"
    by (auto simp: read_current_def bnd_def read_st_def ret_def raise_def split: sum.splits option.splits if_splits)
  with assms show "\<not> cites v sid" using visible_from_clean by (auto simp: visible_history_def split: if_splits)
next
  fix vs s' v assume rd: "read_history account slug s = (Inr vs, s')" and v: "v \<in> set vs"
  obtain z where z: "read_history_unfiltered account slug s = (z, s)"
    using store_pureD [OF obeys_read_history_unfiltered] by (metis prod.exhaust)
  with rd obtain ws where "vs = visible_history (ss_forgotten s) ws"
    by (auto simp: read_history_def bnd_def read_st_def ret_def split: sum.splits)
  with assms v show "\<not> cites v sid" using visible_from_clean by (auto simp: visible_history_def split: if_splits)
qed

theorem reads_hide_forgotten_witness:
  "fst (read_current ''Acme'' ''renewal'' (demo_store\<lparr>ss_forgotten := [demo_src]\<rparr>)) \<noteq> Inr (Some demo_version)"
proof
  let ?s = "demo_store\<lparr>ss_forgotten := [demo_src]\<rparr>"
  assume "fst (read_current ''Acme'' ''renewal'' ?s) = Inr (Some demo_version)"
  then have "read_current ''Acme'' ''renewal'' ?s = (Inr (Some demo_version), snd (read_current ''Acme'' ''renewal'' ?s))"
    by (simp add: prod_eq_iff)
  moreover have "cites demo_version demo_src"
    by (simp add: cites_def demo_manifest_def demo_entry_def demo_src_def)
  ultimately show False using reads_hide_forgotten [of demo_src ?s "''Acme''" "''renewal''"] by simp
qed

lemma manifest_hash_order_witness:
  "evidence_manifest_hash (rev demo_manifest) = evidence_manifest_hash demo_manifest"
  by (rule manifest_hash_order [of "rev demo_manifest" demo_manifest]) (use demo_manifest_ok in \<open>simp_all add: rev_map [symmetric]\<close>)

end
