(* ===== verification/Manifests.thy ===== *)
theory Manifests
  imports Overview Ledger
begin

section \<open>Evidence manifests\<close>

text \<open>
  The manifest functions that \<^verbatim>\<open>opportunity_state_create_service.py\<close> and
  \<^verbatim>\<open>opportunity_state_update_service.py\<close> share with reconciliation: the entry of the CRM metadata,
  the entries of transcripts, and the cumulative manifest of an update.  Prefix \<open>te_\<close>:
  ResolvedTranscriptEvidence.
\<close>

record transcript_evidence =
  te_id :: string
  te_display_name :: string
  te_content :: string
  te_sha256 :: string
  te_byte_count :: nat
  te_observed_at :: datetime

definition metadata_source_id :: string where
  "metadata_source_id = ''opportunity-metadata-v1''"

definition metadata_fields :: "string list" where
  "metadata_fields = [''name'', ''slug'', ''stage'', ''stage_num'', ''amount'', ''close_date'', ''type'',
     ''is_closed'', ''ae'', ''sfdc_url'', ''metadata_source'', ''metadata_complete'']"

definition metadata_payload :: "json \<Rightarrow> json" where
  "metadata_payload opportunity = (case opportunity of
     JObj kvs \<Rightarrow> JObj (map (\<lambda>f. (f, jfield kvs f)) metadata_fields)
   | _ \<Rightarrow> JObj (map (\<lambda>f. (f, JNull)) metadata_fields))"

definition metadata_bytes :: "json \<Rightarrow> string" where
  "metadata_bytes opportunity = canonical_bytes (metadata_payload opportunity)"

definition mk_entry :: "manifest_entry \<Rightarrow> exn + manifest_entry" where
  "mk_entry e = (if valid_manifest_entry e then Inr e else Inl ValidationError)"

definition metadata_entry :: "json \<Rightarrow> datetime \<Rightarrow> exn + manifest_entry" where
  "metadata_entry opportunity now = (let content = metadata_bytes opportunity in
     mk_entry \<lparr>me_type = OpportunityMetadata, me_id = metadata_source_id, me_sha256 = sha256_hex content,
       me_byte_count = length content, me_observed_at = now, me_display_name = ''Opportunity metadata''\<rparr>)"

definition transcript_entry :: "transcript_evidence \<Rightarrow> exn + manifest_entry" where
  "transcript_entry t = mk_entry \<lparr>me_type = Transcript, me_id = te_id t, me_sha256 = te_sha256 t,
     me_byte_count = te_byte_count t, me_observed_at = te_observed_at t, me_display_name = te_display_name t\<rparr>"

fun collect :: "('a \<Rightarrow> exn + 'b) \<Rightarrow> 'a list \<Rightarrow> exn + 'b list" where
  "collect f [] = Inr []"
| "collect f (x # xs) = (case f x of Inl e \<Rightarrow> Inl e
     | Inr y \<Rightarrow> (case collect f xs of Inl e \<Rightarrow> Inl e | Inr ys \<Rightarrow> Inr (y # ys)))"

text \<open>\<^verbatim>\<open>OpportunityStateCreateService._manifest\<close>\<close>

definition create_manifest :: "json \<Rightarrow> transcript_evidence list \<Rightarrow> datetime \<Rightarrow> exn + manifest_entry list" where
  "create_manifest opportunity ts now = (case metadata_entry opportunity now of
     Inl e \<Rightarrow> Inl e
   | Inr m \<Rightarrow> (case collect transcript_entry ts of Inl e \<Rightarrow> Inl e | Inr es \<Rightarrow> Inr (m # es)))"

definition current_metadata :: "version \<Rightarrow> exn + manifest_entry" where
  "current_metadata parent = (case filter (\<lambda>e. me_type e = OpportunityMetadata) (vs_manifest parent) of
     [e] \<Rightarrow> Inr e
   | _ \<Rightarrow> Inl (OpportunityStateUpdateError 409 ''malformed_storage''))"

definition classify_selected :: "version \<Rightarrow> transcript_evidence list \<Rightarrow> exn + unit" where
  "classify_selected parent selected =
     (let inherited = map_of (rev (map (\<lambda>e. (me_id e, e)) (filter (\<lambda>e. me_type e = Transcript) (vs_manifest parent)))) in
      if list_ex (\<lambda>t. case inherited (te_id t) of None \<Rightarrow> False | Some e \<Rightarrow> me_sha256 e = te_sha256 t) selected
      then Inl (OpportunityStateUpdateError 400 ''invalid_selection'') else Inr ())"

text \<open>The second loop of \<^verbatim>\<open>_cumulative_manifest\<close>: selected items not seen yet, each once.\<close>

fun append_unseen :: "string set \<Rightarrow> (string \<rightharpoonup> manifest_entry) \<Rightarrow> transcript_evidence list \<Rightarrow> manifest_entry list" where
  "append_unseen seen reps [] = []"
| "append_unseen seen reps (t # ts) =
     (if te_id t \<in> seen then append_unseen seen reps ts
      else the (reps (te_id t)) # append_unseen (insert (te_id t) seen) reps ts)"

definition cumulative_manifest ::
  "version \<Rightarrow> manifest_entry \<Rightarrow> transcript_evidence list \<Rightarrow> exn + manifest_entry list" where
  "cumulative_manifest parent metadata selected = (case collect transcript_entry selected of
     Inl e \<Rightarrow> Inl e
   | Inr es \<Rightarrow>
      (let reps = map_of (rev (map (\<lambda>e. (me_id e, e)) es));
           kept = filter (\<lambda>e. me_type e \<noteq> OpportunityMetadata) (vs_manifest parent);
           manifest = metadata # map (\<lambda>e. case reps (me_id e) of None \<Rightarrow> e | Some r \<Rightarrow> r) kept
             @ append_unseen (set (map me_id kept)) reps selected
       in if length manifest > 51 then Inl (OpportunityStateUpdateError 413 ''manifest_limit'')
          else Inr manifest))"

definition delta_hash :: "string \<Rightarrow> nat \<Rightarrow> manifest_entry \<Rightarrow> transcript_evidence list \<Rightarrow> string" where
  "delta_hash base_version_id base_revision metadata selected = sha256_hex (canonical_bytes (JObj [
     (''base_version_id'', JStr base_version_id), (''base_revision'', JInt (int base_revision)),
     (''metadata'', JStr (me_sha256 metadata)),
     (''selected'', JList (map (\<lambda>(i, h, n). JList [JStr i, JStr h, JInt (int n)])
        (sort (map (\<lambda>t. (te_id t, te_sha256 t, te_byte_count t)) selected))))]))"

end
