(* ===== verification/Jobs.thy ===== *)
theory Jobs
  imports Overview
begin

section \<open>Background jobs\<close>

text \<open>
  \<^verbatim>\<open>webapp/services/job_service.py\<close>, the managed jobs: the in-memory dictionary of jobs, the
  lookups the services decide by, the launch of a job and the recording of its outcome.  A job's
  runner is executed later by the event loop; it is a step of its own, whose result
  \<open>finish_job\<close> records.  The skill runner, which starts a subprocess, is not modelled.
\<close>

datatype job_status = JobRunning | JobDone | JobError

text \<open>
  A job of the dictionary: \<open>jb_sig\<close> is the signature tuple, \<open>jb_meta\<close> the safe metadata,
  \<open>jb_result\<close> what the runner returned.
\<close>

record job =
  jb_kind :: string
  jb_status :: job_status
  jb_ok :: "bool option"
  jb_account :: string
  jb_opportunity :: string
  jb_slug :: string
  jb_sig :: "json list"
  jb_started_at :: datetime
  jb_finished_at :: "datetime option"
  jb_meta :: members
  jb_result :: members
  jb_error_code :: "string option"
  jb_warning :: bool

text \<open>\<open>js_save_ok\<close>: whether the \<open>n\<close>-th attempt to write the snapshot to disk succeeds.\<close>

record jobs =
  js_jobs :: "(string \<times> job) list"
  js_clock :: "nat \<Rightarrow> datetime"
  js_ticks :: nat
  js_tokens :: "nat \<Rightarrow> string"
  js_token_count :: nat
  js_save_ok :: "nat \<Rightarrow> bool"
  js_saves :: nat

definition get_job :: "string \<Rightarrow> jobs \<Rightarrow> job option" where
  "get_job jid js = map_of (js_jobs js) jid"

definition list_jobs :: "string option \<Rightarrow> string option \<Rightarrow> jobs \<Rightarrow> (string \<times> job) list" where
  "list_jobs account slug js = filter (\<lambda>(jid, j).
     (account = None \<or> account = Some (jb_account j)) \<and> (slug = None \<or> slug = Some (jb_slug j))) (js_jobs js)"

definition find_reused_job :: "json list \<Rightarrow> jobs \<Rightarrow> (string \<times> job) option" where
  "find_reused_job sig js = find (\<lambda>(jid, j). jb_sig j = sig \<and> jb_status j = JobRunning) (js_jobs js)"

definition active_job :: "string \<Rightarrow> string \<Rightarrow> string \<Rightarrow> jobs \<Rightarrow> (string \<times> job) option" where
  "active_job kind account slug js = find (\<lambda>(jid, j). jb_kind j = kind \<and> jb_account j = account
     \<and> jb_slug j = slug \<and> jb_status j = JobRunning) (js_jobs js)"

definition state_job_kind :: "string \<Rightarrow> bool" where
  "state_job_kind k \<longleftrightarrow> k \<in> {''opportunity_state_create'', ''opportunity_state_update'', ''command_center_reconcile''}"

definition active_opportunity_state_job :: "string \<Rightarrow> string \<Rightarrow> jobs \<Rightarrow> (string \<times> job) option" where
  "active_opportunity_state_job account slug js = find (\<lambda>(jid, j). state_job_kind (jb_kind j)
     \<and> jb_account j = account \<and> jb_slug j = slug \<and> jb_status j = JobRunning) (js_jobs js)"

definition find_managed_job :: "string \<Rightarrow> json list \<Rightarrow> jobs \<Rightarrow> (string \<times> job) option" where
  "find_managed_job kind sig js = find (\<lambda>(jid, j). jb_kind j = kind \<and> jb_sig j = sig) (js_jobs js)"

text \<open>\<^verbatim>\<open>max(..., key=started_at)\<close> keeps the first of several latest jobs.\<close>

fun first_max :: "('a \<Rightarrow> int) \<Rightarrow> 'a list \<Rightarrow> 'a option" where
  "first_max f [] = None"
| "first_max f (x # xs) = (case first_max f xs of None \<Rightarrow> Some x
     | Some y \<Rightarrow> if f x < f y then Some y else Some x)"

definition latest_job :: "string \<Rightarrow> string \<Rightarrow> string \<Rightarrow> jobs \<Rightarrow> (string \<times> job) option" where
  "latest_job kind account slug js = first_max (\<lambda>(jid, j). jb_started_at j)
     (filter (\<lambda>(jid, j). jb_kind j = kind \<and> jb_account j = account \<and> jb_slug j = slug) (js_jobs js))"

definition put_job :: "string \<Rightarrow> (job \<Rightarrow> job) \<Rightarrow> jobs \<Rightarrow> jobs" where
  "put_job jid f js = js\<lparr>js_jobs := map (\<lambda>(k, j). (k, if k = jid then f j else j)) (js_jobs js)\<rparr>"

text \<open>\<^verbatim>\<open>save_snapshot\<close>: the result says whether a warning is returned.\<close>

definition save_snapshot :: "string \<Rightarrow> (jobs, bool) op" where
  "save_snapshot jid js = (let js' = js\<lparr>js_saves := Suc (js_saves js)\<rparr> in
     if js_save_ok js (js_saves js)
     then (Inr False, js'\<lparr>js_jobs := map (\<lambda>(k, j). (k, j\<lparr>jb_warning := False\<rparr>)) (js_jobs js)\<rparr>)
     else (Inr True, put_job jid (\<lambda>j. j\<lparr>jb_warning := True\<rparr>) js'))"

definition job_now :: "(jobs, datetime) op" where
  "job_now js = (Inr (js_clock js (js_ticks js)), js\<lparr>js_ticks := Suc (js_ticks js)\<rparr>)"

definition job_token :: "(jobs, string) op" where
  "job_token js = (Inr (take 12 (js_tokens js (js_token_count js))), js\<lparr>js_token_count := Suc (js_token_count js)\<rparr>)"

definition launch_managed ::
  "string \<Rightarrow> string \<Rightarrow> string \<Rightarrow> string \<Rightarrow> json list \<Rightarrow> members \<Rightarrow> (jobs, string \<times> bool) op" where
  "launch_managed kind account slug opportunity sig meta = bnd job_token (\<lambda>jid. bnd job_now (\<lambda>now.
     bnd (modify_st (\<lambda>js. js\<lparr>js_jobs := AList.update jid \<lparr>jb_kind = kind, jb_status = JobRunning, jb_ok = None,
       jb_account = account, jb_opportunity = opportunity, jb_slug = slug, jb_sig = sig, jb_started_at = now,
       jb_finished_at = None, jb_meta = meta, jb_result = [], jb_error_code = None, jb_warning = False\<rparr>
       (js_jobs js)\<rparr>)) (\<lambda>_. bnd (save_snapshot jid) (\<lambda>warn. ret (jid, warn)))))"

text \<open>The end of \<^verbatim>\<open>_run_managed_job\<close>: \<open>result\<close> is what the runner returned or raised.\<close>

definition outcome_of :: "exn + members \<Rightarrow> datetime \<Rightarrow> job \<Rightarrow> job" where
  "outcome_of result now j = (case result of
     Inr r \<Rightarrow> j\<lparr>jb_status := JobDone, jb_ok := Some True, jb_finished_at := Some now, jb_result := r\<rparr>
   | Inl (ManagedJobError code) \<Rightarrow> j\<lparr>jb_status := JobError, jb_ok := Some False, jb_error_code := Some code,
       jb_finished_at := Some now\<rparr>
   | Inl e \<Rightarrow> j\<lparr>jb_status := JobError, jb_ok := Some False, jb_error_code := Some ''internal_error'',
       jb_finished_at := Some now\<rparr>)"

definition finish_job :: "string \<Rightarrow> exn + members \<Rightarrow> (jobs, unit) op" where
  "finish_job jid result = bnd job_now (\<lambda>now. bnd (modify_st (put_job jid (outcome_of result now))) (\<lambda>_.
     bnd (save_snapshot jid) (\<lambda>_. ret ())))"

end
