(* ===== verification/Operations.thy ===== *)
theory Operations
  imports Manifests Jobs State_Store Ledger Actions
begin

section \<open>The operations service: storage, reads and human transitions\<close>

text \<open>
  \<^verbatim>\<open>webapp/services/command_center_operations_service.py\<close>: the durable actions of an opportunity,
  the log of changes, the receipts of reconciliation runs and the marker of a promotion whose
  application is pending.  The service calls the ledger, the version store and the job service;
  the world is the state of all four, and a call into one of them is an operation of its part.
  The service's lock makes each method atomic.
\<close>

subsection \<open>State\<close>

text \<open>
  \<open>w_actions\<close> is \<^verbatim>\<open>actions/<id>.json\<close>, \<open>w_changes\<close> is \<^verbatim>\<open>changes/<account>__<slug>/<sequence>.json\<close>,
  \<open>w_runs\<close> is \<^verbatim>\<open>runs/<source>/<run>.json\<close> and \<open>w_pending\<close> \<^verbatim>\<open>runs/<source>/pending.json\<close>.
  \<open>w_actor\<close> is the \<^verbatim>\<open>actor\<close> and \<open>w_clock\<close> the clock the service was built with.
\<close>

record world =
  w_ledger :: ledger
  w_store :: store
  w_jobs :: jobs
  w_actor :: string
  w_clock :: "nat \<Rightarrow> datetime"
  w_ticks :: nat
  w_actions :: "action stored dir"
  w_changes :: "(string \<times> (nat \<times> change_entry stored) list) list"
  w_runs :: "(string \<times> run_receipt stored dir) list"
  w_pending :: "pending stored dir"

abbreviation ops_error :: "int \<Rightarrow> string \<Rightarrow> (world, 'a) op" where
  "ops_error status code \<equiv> raise (CommandCenterOperationsError status code)"

definition ops_malformed :: exn where
  "ops_malformed = CommandCenterOperationsError 409 ''malformed_storage''"

text \<open>Calls into the other services.  The store reads the ledger's directory of forgotten sources.\<close>

definition in_ledger :: "(ledger, 'a) op \<Rightarrow> (world, 'a) op" where
  "in_ledger m = zoom w_ledger (\<lambda>l w. w\<lparr>w_ledger := l\<rparr>) m"

definition in_store :: "(store, 'a) op \<Rightarrow> (world, 'a) op" where
  "in_store m = zoom (\<lambda>w. (w_store w)\<lparr>ss_forgotten := forgotten_ids (w_ledger w)\<rparr>)
     (\<lambda>s w. w\<lparr>w_store := s\<rparr>) m"

definition in_jobs :: "(jobs, 'a) op \<Rightarrow> (world, 'a) op" where
  "in_jobs m = zoom w_jobs (\<lambda>j w. w\<lparr>w_jobs := j\<rparr>) m"

text \<open>\<^verbatim>\<open>except OpportunityStateError\<close>, and \<^verbatim>\<open>except EvidenceLedgerError\<close>, raised again as the service's own error.\<close>

definition as_ops :: "(world, 'a) op \<Rightarrow> (world, 'a) op" where
  "as_ops m = catch m (\<lambda>e. case e of
     OpportunityStateError status code \<Rightarrow> ops_error status code
   | _ \<Rightarrow> raise e)"

definition ledger_as_ops :: "(world, 'a) op \<Rightarrow> (world, 'a) op" where
  "ledger_as_ops m = catch m (\<lambda>e. case e of
     EvidenceLedgerError status code \<Rightarrow> ops_error status code
   | _ \<Rightarrow> raise e)"

definition ops_now :: "(world, datetime) op" where
  "ops_now w = (Inr (w_clock w (w_ticks w)), w\<lparr>w_ticks := Suc (w_ticks w)\<rparr>)"

definition ops_workspace_id :: "(world, string) op" where
  "ops_workspace_id = bnd (in_ledger scope) (\<lambda>sc. ret (workspace_id sc))"

subsection \<open>Records\<close>

text \<open>
  \<^verbatim>\<open>_read_record\<close>: a file that is no intact envelope is malformed, and a record of another
  workspace is refused.
\<close>

definition read_record :: "('a \<Rightarrow> string) \<Rightarrow> 'a stored \<Rightarrow> (world, 'a) op" where
  "read_record wid f = (case f of
     Corrupt \<Rightarrow> raise ops_malformed
   | Intact r \<Rightarrow> bnd ops_workspace_id (\<lambda>own.
       if wid r \<noteq> own then ops_error 409 ''scope_mismatch'' else ret r))"

definition write_action :: "action \<Rightarrow> (world, unit) op" where
  "write_action a = modify_st (\<lambda>w. w\<lparr>w_actions := AList.update (act_id a) (Intact a) (w_actions w)\<rparr>)"

definition load_action :: "string \<Rightarrow> (world, action) op" where
  "load_action aid =
     (if \<not> startswith aid ''act_'' \<or> length aid \<noteq> 36 then ops_error 404 ''unknown_action''
      else bnd (read_st (\<lambda>w. map_of (w_actions w) aid)) (\<lambda>f.
        case f of
          None \<Rightarrow> ops_error 404 ''unknown_action''
        | Some file \<Rightarrow> bnd (read_record act_workspace_id file) (\<lambda>raw.
            case parse_action raw of
              Inl _ \<Rightarrow> raise ops_malformed
            | Inr a \<Rightarrow> if act_id a \<noteq> aid then raise ops_malformed else ret a)))"

definition all_actions :: "(world, action list) op" where
  "all_actions = bnd (read_st (\<lambda>w. filter (\<lambda>n. startswith n ''act_'') (dir_listing (w_actions w))))
     (map_op load_action)"

definition opportunity_actions :: "string \<Rightarrow> string \<Rightarrow> (world, action list) op" where
  "opportunity_actions account slug = bnd all_actions (\<lambda>as.
     ret (filter (\<lambda>a. act_account a = account \<and> act_slug a = slug) as))"

subsection \<open>The change log\<close>

definition changes_dir :: "string \<Rightarrow> string \<Rightarrow> (world, string) op" where
  "changes_dir account slug =
     (if \<not> safe_token account \<or> \<not> safe_token slug then ops_error 400 ''invalid_scope''
      else ret (account @ ''__'' @ slug))"

definition changes_at :: "world \<Rightarrow> string \<Rightarrow> (nat \<times> change_entry stored) list" where
  "changes_at w dir = (case map_of (w_changes w) dir of None \<Rightarrow> [] | Some fs \<Rightarrow> sort_key fst fs)"

definition changes_for :: "string \<Rightarrow> string \<Rightarrow> (world, change_entry list) op" where
  "changes_for account slug = bnd (changes_dir account slug) (\<lambda>dir.
     bnd (read_st (\<lambda>w. changes_at w dir)) (map_op (\<lambda>f. read_record ch_workspace_id (snd f))))"

definition change_exists :: "string \<Rightarrow> string \<Rightarrow> change_type \<Rightarrow> string \<Rightarrow> (world, bool) op" where
  "change_exists account slug ct subject = bnd (changes_for account slug) (\<lambda>cs.
     ret (list_ex (\<lambda>c. ch_type c = ct \<and> ch_subject_id c = subject) cs))"

text \<open>The payload whose digest is the change ID.\<close>

definition change_payload :: "change_entry \<Rightarrow> json" where
  "change_payload c = JObj [
     (''workspace_id'', JStr (ch_workspace_id c)), (''account'', JStr (ch_account c)),
     (''opportunity_slug'', JStr (ch_slug c)), (''sequence'', JInt (int (ch_sequence c))),
     (''change_type'', JStr (change_type_value (ch_type c))), (''subject_id'', JStr (ch_subject_id c)),
     (''before'', ch_before c), (''after'', ch_after c), (''source'', j_opt ref_json (ch_source c)),
     (''actor'', JStr (actor_value (ch_actor c))), (''actor_id'', JStr (ch_actor_id c)),
     (''occurred_at'', JStr (isoformat (ch_occurred_at c))), (''applied_at'', JStr (isoformat (ch_applied_at c))),
     (''link'', JStr (ch_link c))]"

record change_draft =
  cg_type :: change_type
  cg_subject_id :: string
  cg_before :: members
  cg_after :: members
  cg_source :: "source_ref option"
  cg_actor :: actor
  cg_occurred_at :: datetime
  cg_link :: string

definition build_change ::
  "string \<Rightarrow> string \<Rightarrow> change_draft \<Rightarrow> nat \<Rightarrow> string \<Rightarrow> string \<Rightarrow> datetime \<Rightarrow> change_entry" where
  "build_change account slug g n wid actor_id now =
     (let c = \<lparr>ch_change_id = '''', ch_sequence = n, ch_workspace_id = wid, ch_account = account,
        ch_slug = slug, ch_type = cg_type g, ch_subject_id = cg_subject_id g, ch_before = JObj (cg_before g),
        ch_after = JObj (cg_after g), ch_source = cg_source g, ch_actor = cg_actor g, ch_actor_id = actor_id,
        ch_occurred_at = cg_occurred_at g, ch_applied_at = now, ch_link = cg_link g\<rparr>
      in c\<lparr>ch_change_id := ''chg_'' @ take 32 (sha256_hex (canonical_bytes (change_payload c)))\<rparr>)"

definition append_change :: "string \<Rightarrow> string \<Rightarrow> change_draft \<Rightarrow> (world, change_entry) op" where
  "append_change account slug g = bnd (changes_dir account slug) (\<lambda>dir.
     bnd (read_st (\<lambda>w. length (changes_at w dir) + 1)) (\<lambda>n.
     bnd ops_now (\<lambda>now. bnd ops_workspace_id (\<lambda>wid. bnd (read_st w_actor) (\<lambda>me.
       let c = build_change account slug g n wid me now in
       if \<not> valid_change c then raise ValidationError
       else bnd (modify_st (\<lambda>w. w\<lparr>w_changes :=
              AList.update dir (AList.update n (Intact c) (changes_at w dir)) (w_changes w)\<rparr>)) (\<lambda>_. ret c))))))"

definition action_link :: "string \<Rightarrow> string" where
  "action_link aid = ''/api/command-center/actions/'' @ aid"

subsection \<open>Runs and the pending marker\<close>

definition runs_dir :: "string \<Rightarrow> (world, string) op" where
  "runs_dir sid = (if \<not> source_id_ok sid then ops_error 404 ''unknown_source'' else ret sid)"

definition write_run :: "run_receipt \<Rightarrow> (world, unit) op" where
  "write_run r = bnd (runs_dir (run_source_id r)) (\<lambda>dir. modify_st (\<lambda>w. w\<lparr>w_runs :=
     AList.update dir (AList.update (run_id r) (Intact r)
       (case map_of (w_runs w) dir of None \<Rightarrow> [] | Some d \<Rightarrow> d)) (w_runs w)\<rparr>))"

definition list_runs :: "string \<Rightarrow> (world, run_receipt list) op" where
  "list_runs sid = bnd (in_ledger (is_forgotten sid)) (\<lambda>forgotten.
     if forgotten then ret []
     else bnd (runs_dir sid) (\<lambda>dir.
       bnd (read_st (\<lambda>w. case map_of (w_runs w) dir of None \<Rightarrow> [] | Some d \<Rightarrow> d)) (\<lambda>d.
       bnd (map_op (\<lambda>(name, f). bnd (read_record run_workspace_id f) (\<lambda>r.
              if valid_run r then ret r else raise ValidationError)) d)
         (\<lambda>rs. ret (sort_key (\<lambda>r. (run_started_at r, run_finished_at r, run_id r)) rs)))))"

definition read_pending :: "string \<Rightarrow> (world, pending option) op" where
  "read_pending sid = bnd (runs_dir sid) (\<lambda>dir. bnd (read_st (\<lambda>w. map_of (w_pending w) dir)) (\<lambda>f.
     case f of
       None \<Rightarrow> ret None
     | Some file \<Rightarrow> bnd (read_record pa_workspace_id file) (\<lambda>p.
         if valid_pending p then ret (Some p) else raise ops_malformed)))"

definition write_pending :: "pending \<Rightarrow> (world, unit) op" where
  "write_pending p = bnd (runs_dir (pa_source_id p)) (\<lambda>dir.
     modify_st (\<lambda>w. w\<lparr>w_pending := AList.update dir (Intact p) (w_pending w)\<rparr>))"

definition remove_pending :: "string \<Rightarrow> (world, unit) op" where
  "remove_pending sid = bnd (runs_dir sid) (\<lambda>dir.
     modify_st (\<lambda>w. w\<lparr>w_pending := AList.delete dir (w_pending w)\<rparr>))"

subsection \<open>Presenting actions\<close>

definition ops_retirement_info :: "string \<Rightarrow> string \<Rightarrow> (world, retirement option) op" where
  "ops_retirement_info account slug = as_ops (in_store (retirement_info account slug))"

definition action_retired :: "action \<Rightarrow> (world, bool) op" where
  "action_retired a = bnd (ops_retirement_info (act_account a) (act_slug a)) (\<lambda>marker.
     ret (case marker of None \<Rightarrow> False | Some r \<Rightarrow> re_source_id r = sr_source_id (act_origin a)))"

definition visible_source :: "string \<Rightarrow> (world, bool) op" where
  "visible_source sid = bnd (in_ledger (is_forgotten sid)) (\<lambda>f. ret (\<not> f))"

record presented_action =
  pr_action :: action
  pr_human_touched :: bool
  pr_retracted :: bool
  pr_effective :: "source_ref list"
  pr_active_suggestions :: "suggestion list"

definition present_duplicate :: "string option \<Rightarrow> (world, string option) op" where
  "present_duplicate dup = (case dup of
     None \<Rightarrow> ret None
   | Some aid \<Rightarrow>
       if aid = [] then ret dup
       else catch (bnd (load_action aid) (\<lambda>d. bnd (in_ledger (is_forgotten (sr_source_id (act_origin d)))) (\<lambda>f.
              ret (if f then None else dup))))
            (\<lambda>e. case e of CommandCenterOperationsError _ _ \<Rightarrow> ret dup | _ \<Rightarrow> raise e))"

definition present :: "action \<Rightarrow> (world, presented_action) op" where
  "present a =
     bnd (filter_op (\<lambda>r. visible_source (sr_source_id r)) (act_evidence a)) (\<lambda>ev.
     bnd (filter_op (\<lambda>e. visible_source (er_source_id e)) (act_evidence_retractions a)) (\<lambda>rts.
     bnd (filter_op (\<lambda>s. visible_source (sr_source_id (cs_source s))) (act_suggestions a)) (\<lambda>sgs.
     bnd (if act_retraction a \<noteq> None then ret True else action_retired a) (\<lambda>retracted.
     bnd (filter_op (\<lambda>r. visible_source (sr_source_id r)) (effective_evidence a)) (\<lambda>eff.
     bnd (filter_op (\<lambda>s. visible_source (sr_source_id (cs_source s)))
            (filter (\<lambda>s. cs_retracted_at s = None) (act_suggestions a))) (\<lambda>active.
     bnd (present_duplicate (act_duplicate_of a)) (\<lambda>dup.
     ret \<lparr>pr_action = a\<lparr>act_evidence := ev, act_evidence_retractions := rts, act_suggestions := sgs,
            act_duplicate_of := dup\<rparr>,
          pr_human_touched = human_touched a, pr_retracted = retracted, pr_effective = eff,
          pr_active_suggestions = active\<rparr>)))))))"

definition refuse_forgotten :: "action \<Rightarrow> (world, unit) op" where
  "refuse_forgotten a = bnd (in_ledger (is_forgotten (sr_source_id (act_origin a)))) (\<lambda>f.
     if f then ops_error 410 ''source_forgotten'' else ret ())"

definition get_action :: "string \<Rightarrow> (world, presented_action) op" where
  "get_action aid = bnd (load_action aid) (\<lambda>a. bnd (refuse_forgotten a) (\<lambda>_. present a))"

record action_page =
  ap_total :: nat
  ap_counts :: "(action_status \<times> nat) list"
  ap_actions :: "presented_action list"

definition count_actions :: "action list \<Rightarrow> (action_status \<times> nat) list" where
  "count_actions as = foldl (\<lambda>counts a. AList.update (act_status a)
     ((case map_of counts (act_status a) of None \<Rightarrow> 0 | Some n \<Rightarrow> n) + 1) counts) [] as"

definition list_actions ::
  "string \<Rightarrow> string \<Rightarrow> action_status option \<Rightarrow> bool \<Rightarrow> (world, action_page) op" where
  "list_actions account slug status include_retracted =
     bnd (opportunity_actions account slug) (\<lambda>all.
     bnd (filter_op (\<lambda>a. visible_source (sr_source_id (act_origin a))) all) (\<lambda>known.
     bnd (if include_retracted then ret known
          else filter_op (\<lambda>a. if act_retraction a \<noteq> None then ret False
                 else bnd (action_retired a) (\<lambda>r. ret (\<not> r))) known) (\<lambda>kept.
     let items = sort_key (\<lambda>a. (act_created_at a, act_id a))
           (case status of None \<Rightarrow> kept | Some st \<Rightarrow> filter (\<lambda>a. act_status a = st) kept) in
     bnd (map_op present items) (\<lambda>ps.
       ret \<lparr>ap_total = length items, ap_counts = count_actions items, ap_actions = ps\<rparr>))))"

subsection \<open>Human transitions\<close>

definition transition_after :: "action \<Rightarrow> transition \<Rightarrow> members" where
  "transition_after a t = [(''status'', JStr (status_value (act_status a))), (''owner'', jtext (act_owner a)),
     (''due_date'', jtext (act_due_date a)), (''reason'', JStr (tr_reason t)),
     (''transition_sequence'', JInt (int (tr_sequence t)))]
     @ (case tr_undoes t of None \<Rightarrow> [] | Some n \<Rightarrow> [(''undoes_sequence'', JInt (int n))])"

definition append_transition_change :: "action \<Rightarrow> action \<Rightarrow> transition \<Rightarrow> (world, change_entry) op" where
  "append_transition_change before after t = append_change (act_account after) (act_slug after)
     \<lparr>cg_type = ActionTransitioned, cg_subject_id = act_id after,
      cg_before = [(''status'', JStr (status_value (act_status before))), (''owner'', jtext (act_owner before)),
        (''due_date'', jtext (act_due_date before))],
      cg_after = transition_after after t, cg_source = None, cg_actor = User,
      cg_occurred_at = tr_recorded_at t, cg_link = action_link (act_id after)\<rparr>"

text \<open>The \<^verbatim>\<open>transition_sequence\<close> a recorded change carries, if any.\<close>

definition recorded_sequence :: "change_entry \<Rightarrow> json" where
  "recorded_sequence c = (case ch_after c of JObj kvs \<Rightarrow> jfield kvs ''transition_sequence'' | _ \<Rightarrow> JNull)"

text \<open>
  The states before and after the transition at index \<open>i\<close>, rebuilt from the record.  Python's
  \<^verbatim>\<open>transitions[index - 1]\<close> is the last element for index 0.
\<close>

definition state_before :: "action \<Rightarrow> nat \<Rightarrow> action" where
  "state_before a i = (let ts = act_transitions a; t = ts ! i;
       prior = (if i = 0 then last ts else ts ! (i - 1)) in
     a\<lparr>act_status := tr_to prior, act_owner := tr_prior_owner t, act_due_date := tr_prior_due_date t\<rparr>)"

definition state_after :: "action \<Rightarrow> nat \<Rightarrow> action" where
  "state_after a i = (let ts = act_transitions a in
     if i + 1 = length ts then a
     else a\<lparr>act_status := tr_to (ts ! i), act_owner := tr_prior_owner (ts ! (i + 1)),
            act_due_date := tr_prior_due_date (ts ! (i + 1))\<rparr>)"

text \<open>The indices of user transitions whose change is missing.\<close>

definition missing_changes :: "action \<Rightarrow> change_entry list \<Rightarrow> nat list" where
  "missing_changes a cs =
     (let seqs = map recorded_sequence (filter (\<lambda>c. ch_type c = ActionTransitioned \<and> ch_subject_id c = act_id a) cs) in
      filter (\<lambda>i. tr_actor (act_transitions a ! i) = User
          \<and> JInt (int (tr_sequence (act_transitions a ! i))) \<notin> set seqs) [0..<length (act_transitions a)])"

definition repair_action :: "action \<Rightarrow> nat \<Rightarrow> (world, nat) op" where
  "repair_action a repaired = bnd (changes_for (act_account a) (act_slug a)) (\<lambda>cs.
     bnd (for_each (\<lambda>i. bnd (append_transition_change (state_before a i) (state_after a i) (act_transitions a ! i))
            (\<lambda>_. ret ())) (missing_changes a cs))
       (\<lambda>_. ret (repaired + length (missing_changes a cs))))"

definition repair_transition_changes :: "action list \<Rightarrow> (world, nat) op" where
  "repair_transition_changes as = fold_op repair_action as 0"

definition repair :: "string \<Rightarrow> string \<Rightarrow> (world, nat) op" where
  "repair account slug = bnd (opportunity_actions account slug) repair_transition_changes"

text \<open>The next transition of a user and the record after it.\<close>

definition next_transition ::
  "action \<Rightarrow> action_status \<Rightarrow> string \<Rightarrow> nat option \<Rightarrow> string \<Rightarrow> datetime \<Rightarrow> transition" where
  "next_transition a to reason undoes actor_id now = \<lparr>
     tr_sequence = length (act_transitions a) + 1, tr_from = Some (act_status a), tr_to = to,
     tr_actor = User, tr_actor_id = actor_id, tr_reason = reason, tr_source = None, tr_undoes = undoes,
     tr_prior_owner = act_owner a, tr_prior_due_date = act_due_date a, tr_recorded_at = now\<rparr>"

record transition_request =
  tq_to :: action_status
  tq_reason :: string
  tq_owner :: "string option"
  tq_due_date :: "string option"
  tq_clear_due_date :: bool

definition moved_action :: "action \<Rightarrow> transition_request \<Rightarrow> transition \<Rightarrow> datetime \<Rightarrow> action" where
  "moved_action a q t now = a\<lparr>
     act_status := tq_to q,
     act_transitions := act_transitions a @ [t],
     act_updated_at := now,
     act_owner := (case tq_owner q of None \<Rightarrow> act_owner a | Some x \<Rightarrow> Some x),
     act_party := (case tq_owner q of None \<Rightarrow> act_party a | Some x \<Rightarrow> derive_party (Some x)),
     act_due_date := (if tq_clear_due_date q then None
       else case tq_due_date q of None \<Rightarrow> act_due_date a | Some x \<Rightarrow> Some x)\<rparr>"

text \<open>What both user operations check and repair first.\<close>

definition open_action :: "string \<Rightarrow> (world, action) op" where
  "open_action aid = bnd (load_action aid) (\<lambda>a. bnd (refuse_forgotten a) (\<lambda>_.
     bnd (action_retired a) (\<lambda>retired.
     if retired then ops_error 409 ''retracted''
     else bnd (repair_transition_changes [a]) (\<lambda>_. ret a))))"

definition transition_action :: "string \<Rightarrow> transition_request \<Rightarrow> (world, presented_action) op" where
  "transition_action aid q = bnd (open_action aid) (\<lambda>a.
     if act_retraction a \<noteq> None then ops_error 409 ''retracted''
     else if \<not> human_transition (act_status a) (tq_to q) then ops_error 409 ''invalid_transition''
     else bnd ops_now (\<lambda>now. bnd (read_st w_actor) (\<lambda>me.
       bnd (of_sum (mk_transition (next_transition a (tq_to q) (tq_reason q) None me now))) (\<lambda>t.
       case parse_action (moved_action a q t now) of
         Inl _ \<Rightarrow> ops_error 400 ''invalid_action''
       | Inr a' \<Rightarrow> bnd (write_action a') (\<lambda>_. bnd (append_transition_change a a' t) (\<lambda>_. present a'))))))"

definition undone_action :: "action \<Rightarrow> transition \<Rightarrow> action_status \<Rightarrow> transition \<Rightarrow> datetime \<Rightarrow> action" where
  "undone_action a latest from t now = a\<lparr>
     act_status := from, act_owner := tr_prior_owner latest, act_party := derive_party (tr_prior_owner latest),
     act_due_date := tr_prior_due_date latest, act_transitions := act_transitions a @ [t], act_updated_at := now\<rparr>"

definition undo_last_transition :: "string \<Rightarrow> string \<Rightarrow> (world, presented_action) op" where
  "undo_last_transition aid reason = bnd (open_action aid) (\<lambda>a.
     let latest = last (act_transitions a) in
     if tr_actor latest \<noteq> User \<or> tr_undoes latest \<noteq> None then ops_error 409 ''nothing_to_undo''
     else case tr_from latest of
       None \<Rightarrow> ops_error 409 ''nothing_to_undo''
     | Some from \<Rightarrow> bnd ops_now (\<lambda>now. bnd (read_st w_actor) (\<lambda>me.
         bnd (of_sum (mk_transition (next_transition a from reason (Some (tr_sequence latest)) me now))) (\<lambda>t.
         let a' = undone_action a latest from t now in
         bnd (write_action a') (\<lambda>_. bnd (append_transition_change a a' t) (\<lambda>_. present a'))))))"

subsection \<open>Listing changes\<close>

definition change_forgotten :: "change_entry \<Rightarrow> (world, bool) op" where
  "change_forgotten c = bnd (read_st (\<lambda>w. forgotten_ids (w_ledger w))) (\<lambda>forgotten.
     if forgotten = [] then ret False
     else if (case ch_source c of None \<Rightarrow> False | Some r \<Rightarrow> sr_source_id r \<in> set forgotten) then ret True
     else if list_ex (contains (jdump (JObj [(''before'', ch_before c), (''after'', ch_after c)]))) forgotten then ret True
     else if startswith (ch_subject_id c) ''act_'' then
       catch (bnd (load_action (ch_subject_id c)) (\<lambda>a. ret (sr_source_id (act_origin a) \<in> set forgotten)))
         (\<lambda>e. case e of CommandCenterOperationsError _ _ \<Rightarrow> ret False | _ \<Rightarrow> raise e)
     else if startswith (ch_subject_id c) ''src_'' then ret (ch_subject_id c \<in> set forgotten)
     else ret False)"

definition change_retired :: "change_entry \<Rightarrow> (world, bool) op" where
  "change_retired c =
     (if ch_actor c \<noteq> Analysis then ret False
      else bnd (ops_retirement_info (ch_account c) (ch_slug c)) (\<lambda>marker.
        ret (case (marker, ch_source c) of
               (Some r, Some s) \<Rightarrow> sr_source_id s = re_source_id r
             | _ \<Rightarrow> False)))"

record change_page =
  cp_total :: nat
  cp_changes :: "change_entry list"
  cp_next_offset :: "nat option"

definition read_change :: "change_entry stored \<Rightarrow> (world, change_entry) op" where
  "read_change f = bnd (read_record ch_workspace_id f) (\<lambda>c. if valid_change c then ret c else raise ValidationError)"

definition list_changes :: "string \<Rightarrow> string \<Rightarrow> int \<Rightarrow> int \<Rightarrow> (world, change_page) op" where
  "list_changes account slug limit offset =
     (if \<not> (1 \<le> limit \<and> limit \<le> 500) \<or> offset < 0 then ops_error 400 ''invalid_paging''
      else bnd (repair account slug) (\<lambda>_. bnd (changes_dir account slug) (\<lambda>dir.
        bnd (read_st (\<lambda>w. rev (map snd (changes_at w dir)))) (\<lambda>files.
        bnd (map_op read_change files) (\<lambda>entries.
        bnd (filter_op (\<lambda>c. bnd (change_forgotten c) (\<lambda>f.
               if f then ret False else bnd (change_retired c) (\<lambda>r. ret (\<not> r)))) entries) (\<lambda>visible.
        let next = nat offset + nat limit in
        ret \<lparr>cp_total = length visible, cp_changes = take (nat limit) (drop (nat offset) visible),
             cp_next_offset = (if next < length visible then Some next else None)\<rparr>))))))"

end
