(* ===== verification/Observations.thy ===== *)
theory Observations
  imports Operations
begin

section \<open>Observations: what the analysis of a source contributes\<close>

text \<open>
  The part of \<^verbatim>\<open>command_center_operations_service.py\<close> that turns a private snapshot into the text
  the runtime analyses, an accepted candidate into observations, and observations into actions
  and changes.  A snapshot is the JSON value of \<^verbatim>\<open>snapshot()\<close> of a normalized source, whose
  \<^verbatim>\<open>metadata\<close> and \<^verbatim>\<open>content\<close> are objects; of another shape they read as empty.
\<close>

subsection \<open>Rendering a snapshot\<close>

definition evidence_id_for :: "string \<Rightarrow> nat \<Rightarrow> string" where
  "evidence_id_for sid revision = sid @ ''_r'' @ dec_nat revision"

definition members_of :: "json \<Rightarrow> members" where
  "members_of j = (case j of JObj kvs \<Rightarrow> kvs | _ \<Rightarrow> [])"

definition items_of :: "json \<Rightarrow> json list" where
  "items_of j = (case j of JList xs \<Rightarrow> xs | _ \<Rightarrow> [])"

text \<open>Python's \<^verbatim>\<open>x or y\<close> and \<^verbatim>\<open>str(x)\<close> on JSON values (\<^verbatim>\<open>str\<close> of a list or an object is not needed).\<close>

definition jtruthy :: "json \<Rightarrow> bool" where
  "jtruthy j = (case j of JNull \<Rightarrow> False | JBool b \<Rightarrow> b | JInt i \<Rightarrow> i \<noteq> 0 | JStr s \<Rightarrow> s \<noteq> []
     | JList xs \<Rightarrow> xs \<noteq> [] | JObj kvs \<Rightarrow> kvs \<noteq> [])"

definition jor :: "json \<Rightarrow> json \<Rightarrow> json" where
  "jor a b = (if jtruthy a then a else b)"

definition py_str :: "json \<Rightarrow> string" where
  "py_str j = (case j of JStr s \<Rightarrow> s | JNull \<Rightarrow> ''None'' | JBool True \<Rightarrow> ''True'' | JBool False \<Rightarrow> ''False''
     | JInt i \<Rightarrow> dec i | _ \<Rightarrow> jdump j)"

definition text_of :: "json \<Rightarrow> string" where
  "text_of j = (case j of JStr s \<Rightarrow> s | _ \<Rightarrow> '''')"

definition attendee_name :: "json \<Rightarrow> string list" where
  "attendee_name item = (case item of
     JObj kvs \<Rightarrow>
       let n = jor (jfield kvs ''name'') (jfield kvs ''email'') in if jtruthy n then [py_str n] else []
   | _ \<Rightarrow> [])"

text \<open>\<^verbatim>\<open>segment.get("text", "")\<close>: the default stands for a missing member only.\<close>

definition segment_text :: "members \<Rightarrow> string" where
  "segment_text kvs = py_str (case map_of kvs ''text'' of None \<Rightarrow> JStr '''' | Some t \<Rightarrow> t)"

definition segment_line :: "json \<Rightarrow> string list" where
  "segment_line segment = (case segment of
     JObj kvs \<Rightarrow>
       let speaker = jor (jor (jfield kvs ''speaker_label'') (jfield kvs ''attribution'')) (JStr ''speaker'') in
       [''['' @ py_str speaker @ ''] '' @ segment_text kvs]
   | _ \<Rightarrow> [])"

definition titled :: "string \<Rightarrow> string \<Rightarrow> string list" where
  "titled heading value = (if value = [] then [] else [[], heading, value])"

definition newline :: string where
  "newline = [CHR 0x0A]"

definition snapshot_lines :: "json \<Rightarrow> string list" where
  "snapshot_lines snapshot =
     (let top = members_of snapshot; meta = members_of (jfield top ''metadata'');
          content = members_of (jfield top ''content'');
          title = text_of (jfield meta ''title''); occurred = text_of (jfield meta ''occurred_at'');
          names = concat (map attendee_name (items_of (jfield meta ''attendees'')));
          body = text_of (jfield content ''body_text''); transcript = items_of (jfield content ''transcript'')
      in (if title = [] then [] else [''# '' @ title])
         @ (if occurred = [] then [] else [''Occurred: '' @ occurred])
         @ (if names = [] then [] else [''Attendees: '' @ join '', '' names])
         @ titled ''## Message'' body
         @ titled ''## Summary'' (text_of (jfield content ''summary_markdown''))
         @ titled ''## Summary'' (text_of (jfield content ''summary_text''))
         @ titled ''## Private notes'' (text_of (jfield content ''private_notes_markdown''))
         @ titled ''## Private notes'' (text_of (jfield content ''private_notes_text''))
         @ (if transcript = [] then [] else [[], ''## Transcript''] @ concat (map segment_line transcript)))"

definition render_snapshot_text :: "json \<Rightarrow> string" where
  "render_snapshot_text snapshot = strip (join newline (snapshot_lines snapshot)) @ newline"

subsection \<open>The evidence of a revision\<close>

definition content_fields :: "string list" where
  "content_fields = [''body_text'', ''summary_markdown'', ''summary_text'', ''private_notes_markdown'',
     ''private_notes_text'']"

definition has_substance :: "members \<Rightarrow> bool" where
  "has_substance kvs0 \<longleftrightarrow>
     list_ex (\<lambda>k. strip (text_of (jfield kvs0 k)) \<noteq> []) content_fields
     \<or> list_ex (\<lambda>seg. case seg of JObj kvs \<Rightarrow> strip (segment_text kvs) \<noteq> [] | _ \<Rightarrow> False)
         (items_of (jfield kvs0 ''transcript''))"

definition max_evidence_bytes :: nat where "max_evidence_bytes = 2000000"

definition source_evidence :: "string \<Rightarrow> nat \<Rightarrow> datetime \<Rightarrow> (world, transcript_evidence) op" where
  "source_evidence sid revision observed_at =
     bnd (catch (in_ledger (read_content sid revision)) (\<lambda>e. case e of
            EvidenceLedgerError _ code \<Rightarrow> raise (ManagedJobError code) | _ \<Rightarrow> raise e)) (\<lambda>snapshot.
     if \<not> has_substance (members_of (jfield (members_of snapshot) ''content''))
     then raise (ManagedJobError ''content_unusable'')
     else let content = render_snapshot_text snapshot in
       if length content > max_evidence_bytes \<or> strip content = []
       then raise (ManagedJobError ''content_unusable'')
       else ret \<lparr>te_id = evidence_id_for sid revision,
              te_display_name = ''Meeting '' @ drop (length sid - 12) sid @ '' r'' @ dec_nat revision,
              te_content = content, te_sha256 = sha256_hex content, te_byte_count = length content,
              te_observed_at = observed_at\<rparr>)"

subsection \<open>Deriving observations\<close>

definition mk_observation :: "observation \<Rightarrow> exn + observation" where
  "mk_observation x = (if valid_observation x then Inr x else Inl ValidationError)"

definition observed_kind :: "recommended \<Rightarrow> observation_kind" where
  "observed_kind r = (if ra_status r = Done then CompletionKind else Commitment)"

definition observed_key :: "source_ref \<Rightarrow> recommended \<Rightarrow> string" where
  "observed_key ref r = key_for (sr_source_id ref) (observed_kind r) (ra_action r) (derive_party (ra_owner r))"

definition citing_refs :: "source_ref \<Rightarrow> recommended \<Rightarrow> evidence_ref list" where
  "citing_refs ref r = filter (\<lambda>x. evr_id x = sr_evidence_id ref) (ra_refs r)"

definition observation_of :: "string \<Rightarrow> source_ref \<Rightarrow> recommended \<Rightarrow> observation" where
  "observation_of text ref r =
     (let p = derive_party (ra_owner r);
          att = verify_attribution text (ra_owner r) (ra_due_date r) (Some (ra_action r)) in
      \<lparr>ob_key = observed_key ref r, ob_kind = observed_kind r, ob_commitment = ra_action r,
       ob_definition_of_done = Some (ra_definition_of_done r), ob_party = p, ob_owner = ra_owner r,
       ob_due_date = ra_due_date r,
       ob_explicit = (p \<noteq> Unknown \<and> ra_due_date r \<noteq> None \<and> att = SourceVerified), ob_attribution = att,
       ob_source = ref\<lparr>sr_locator := evr_locator (hd (citing_refs ref r))\<rparr>\<rparr>)"

text \<open>The loop over the recommendations; \<open>seen\<close> holds the keys met so far.\<close>

fun derive_from :: "string \<Rightarrow> source_ref \<Rightarrow> string list \<Rightarrow> recommended list \<Rightarrow> exn + observation list" where
  "derive_from text ref seen [] = Inr []"
| "derive_from text ref seen (r # rs) =
     (if citing_refs ref r = [] then derive_from text ref seen rs
      else if observed_key ref r \<in> set seen then derive_from text ref seen rs
      else case mk_observation (observation_of text ref r) of
        Inl e \<Rightarrow> Inl e
      | Inr x \<Rightarrow> (case derive_from text ref (observed_key ref r # seen) rs of
          Inl e \<Rightarrow> Inl e | Inr xs \<Rightarrow> Inr (x # xs)))"

definition derive_observations :: "candidate \<Rightarrow> source_ref \<Rightarrow> string option \<Rightarrow> exn + observation list" where
  "derive_observations c ref source_text =
     derive_from (case source_text of None \<Rightarrow> '''' | Some t \<Rightarrow> t) ref [] (cd_actions c)"


subsection \<open>Applying observations\<close>

text \<open>
  What one run knows (\<open>ax_\<close>) and what it has done so far (\<open>ag_\<close>): the actions of the opportunity,
  the keys of the recorded changes and the four lists of its receipt.
\<close>

record apply_ctx =
  ax_account :: string
  ax_slug :: string
  ax_source_id :: string
  ax_occurred_at :: datetime
  ax_now :: datetime

type_synonym change_key = "change_type \<times> string \<times> nat option"

record applying =
  ag_existing :: "action list"
  ag_recorded :: "change_key list"
  ag_created :: "string list"
  ag_linked :: "string list"
  ag_suggested :: "string list"
  ag_duplicates :: "string list"

definition recorded_key :: "change_entry \<Rightarrow> change_key" where
  "recorded_key c = (ch_type c, ch_subject_id c, map_option sr_revision (ch_source c))"

definition draft_key :: "change_draft \<Rightarrow> change_key" where
  "draft_key g = (cg_type g, cg_subject_id g, map_option sr_revision (cg_source g))"

definition ensure_change :: "apply_ctx \<Rightarrow> change_draft \<Rightarrow> applying \<Rightarrow> (world, applying) op" where
  "ensure_change x g st =
     (if draft_key g \<in> set (ag_recorded st) then ret st
      else bnd (append_change (ax_account x) (ax_slug x) g) (\<lambda>_.
        ret (st\<lparr>ag_recorded := draft_key g # ag_recorded st\<rparr>)))"

definition analysis_change ::
  "apply_ctx \<Rightarrow> change_type \<Rightarrow> string \<Rightarrow> source_ref \<Rightarrow> members \<Rightarrow> members \<Rightarrow> string \<Rightarrow> change_draft" where
  "analysis_change x ct subject src before after link = \<lparr>cg_type = ct, cg_subject_id = subject, cg_before = before,
     cg_after = after, cg_source = Some src, cg_actor = Analysis, cg_occurred_at = ax_occurred_at x, cg_link = link\<rparr>"

definition action_change ::
  "apply_ctx \<Rightarrow> change_type \<Rightarrow> string \<Rightarrow> source_ref \<Rightarrow> members \<Rightarrow> members \<Rightarrow> change_draft" where
  "action_change x ct aid src before after = analysis_change x ct aid src before after (action_link aid)"

definition section_counts :: "version \<Rightarrow> members" where
  "section_counts v = (case vs_change_set v of
     None \<Rightarrow> []
   | Some c \<Rightarrow> map (\<lambda>(k, n). (k, JInt (int n))) (filter (\<lambda>(k, n). n \<noteq> 0) [
       (''brief'', length (chs_brief c)), (''business_case'', length (chs_business_case c)),
       (''meddpicc'', length (chs_meddpicc c)), (''stakeholders'', length (chs_stakeholders c)),
       (''health_indicators'', length (chs_health c)), (''risks'', length (chs_risks c)),
       (''recommended_actions'', length (chs_actions c)), (''missing_information'', length (chs_missing c))]))"

definition history_link :: "string \<Rightarrow> string \<Rightarrow> nat \<Rightarrow> string" where
  "history_link account slug revision = ''/api/accounts/'' @ account @ ''/opportunities/'' @ slug
     @ ''/overview/history/'' @ dec_nat revision"

definition overview_change :: "apply_ctx \<Rightarrow> version \<Rightarrow> source_ref \<Rightarrow> change_draft" where
  "overview_change x v ref = analysis_change x OverviewRevision (vs_version_id v) ref
     [(''revision'', j_opt (\<lambda>n. JInt (int n)) (vs_parent_revision v)), (''version_id'', jtext (vs_parent_version_id v))]
     [(''revision'', JInt (int (vs_revision v))), (''version_id'', JStr (vs_version_id v)),
      (''changed_sections'', JObj (section_counts v))]
     (history_link (ax_account x) (ax_slug x) (vs_revision v))"

definition replace_action :: "action \<Rightarrow> action list \<Rightarrow> action list" where
  "replace_action a as = map (\<lambda>b. if act_id b = act_id a then a else b) as"

text \<open>A completion suggestion for one action of the opportunity.\<close>

definition suggestible :: "observation \<Rightarrow> action \<Rightarrow> bool" where
  "suggestible x a \<longleftrightarrow> act_retraction a = None \<and> act_status a \<in> {ActOpen, ActBlocked}
     \<and> normalize_text (act_commitment a) = normalize_text (ob_commitment x)
     \<and> (ob_party x = Unknown \<or> act_party a = ob_party x)"

definition suggested_change :: "apply_ctx \<Rightarrow> observation \<Rightarrow> action \<Rightarrow> change_draft" where
  "suggested_change x b a = action_change x CompletionSuggested (act_id a) (ob_source b)
     [(''status'', JStr (status_value (act_status a)))]
     [(''status'', JStr (status_value (act_status a))), (''suggested'', JStr ''completed'')]"

definition with_suggestion :: "observation \<Rightarrow> datetime \<Rightarrow> action \<Rightarrow> action" where
  "with_suggestion b now a = a\<lparr>act_suggestions := act_suggestions a @ [\<lparr>cs_source = ob_source b,
     cs_key = ob_key b, cs_recorded_at = now, cs_retracted_at = None\<rparr>], act_updated_at := now\<rparr>"

definition suggest_for :: "apply_ctx \<Rightarrow> observation \<Rightarrow> action \<Rightarrow> applying \<Rightarrow> (world, applying) op" where
  "suggest_for x b a st =
     (if \<not> suggestible b a then ret st
      else if list_ex (\<lambda>s. cs_source s = ob_source b) (act_suggestions a)
      then ensure_change x (suggested_change x b a) st
      else bnd (write_action (with_suggestion b (ax_now x) a)) (\<lambda>_.
        ensure_change x (suggested_change x b a) (st\<lparr>
          ag_existing := replace_action (with_suggestion b (ax_now x) a) (ag_existing st),
          ag_suggested := ag_suggested st @ [act_id a]\<rparr>)))"

text \<open>An action with the observation's ID exists: a replay, or a new revision to link.\<close>

definition created_change :: "apply_ctx \<Rightarrow> observation \<Rightarrow> action \<Rightarrow> action_status \<Rightarrow> change_draft" where
  "created_change x b a st = action_change x ActionCreated (act_id a) (ob_source b) []
     [(''status'', JStr (status_value st)), (''party'', JStr (party_value (act_party a))),
      (''due_date'', jtext (act_due_date a))]"

definition flagged_change :: "apply_ctx \<Rightarrow> observation \<Rightarrow> string \<Rightarrow> string \<Rightarrow> change_draft" where
  "flagged_change x b aid dup = action_change x PossibleDuplicateFlagged aid (ob_source b) []
     [(''possible_duplicate_of'', JStr dup)]"

definition linked_change :: "apply_ctx \<Rightarrow> observation \<Rightarrow> action \<Rightarrow> nat \<Rightarrow> change_draft" where
  "linked_change x b a prior = action_change x ActionLinked (act_id a) (ob_source b)
     [(''revision'', JInt (int prior))]
     [(''revision'', JInt (int (sr_revision (ob_source b)))), (''status'', JStr (status_value (act_status a)))]"

definition replay_changes :: "apply_ctx \<Rightarrow> observation \<Rightarrow> action \<Rightarrow> applying \<Rightarrow> (world, applying) op" where
  "replay_changes x b a st =
     (if act_origin a = ob_source b
      then bnd (ensure_change x (created_change x b a (tr_to (hd (act_transitions a)))) st) (\<lambda>st'.
        case act_duplicate_of a of
          None \<Rightarrow> ret st'
        | Some dup \<Rightarrow> ensure_change x (flagged_change x b (act_id a) dup) st')
      else ensure_change x (linked_change x b a (sr_revision (act_origin a))) st)"

definition with_evidence :: "observation \<Rightarrow> datetime \<Rightarrow> action \<Rightarrow> action" where
  "with_evidence b now a = a\<lparr>act_evidence := act_evidence a @ [ob_source b], act_updated_at := now\<rparr>"

definition link_action :: "apply_ctx \<Rightarrow> observation \<Rightarrow> action \<Rightarrow> applying \<Rightarrow> (world, applying) op" where
  "link_action x b a st =
     (if ob_source b \<in> set (act_evidence a) then replay_changes x b a st
      else bnd (write_action (with_evidence b (ax_now x) a)) (\<lambda>_.
        ensure_change x (linked_change x b a (sr_revision (last (act_evidence a)))) (st\<lparr>
          ag_existing := replace_action (with_evidence b (ax_now x) a) (ag_existing st),
          ag_linked := ag_linked st @ [act_id a]\<rparr>)))"

text \<open>No action with the observation's ID: a new one is opened or proposed.\<close>

definition duplicate_for :: "observation \<Rightarrow> action list \<Rightarrow> string option" where
  "duplicate_for b as = map_option act_id (find (\<lambda>a. act_retraction a = None
     \<and> normalize_text (act_commitment a) = normalize_text (ob_commitment b) \<and> act_party a = ob_party b) as)"

definition opening_status :: "observation \<Rightarrow> string option \<Rightarrow> action_status" where
  "opening_status b dup = (if ob_explicit b \<and> dup = None then ActOpen else ActProposed)"

definition opening_reason :: "observation \<Rightarrow> string option \<Rightarrow> string" where
  "opening_reason b dup =
     (if opening_status b dup = ActOpen then ''Commitment with responsible party and due date verified in the source''
      else if dup \<noteq> None then ''Possible duplicate of an existing action; review before opening''
      else if ob_attribution b = ModelOnly \<and> truthy (ob_owner b) \<and> truthy (ob_due_date b)
      then ''Owner or due date not found in the source text; review required''
      else ''Responsible party or due date not explicit; review required'')"

definition opened_action ::
  "apply_ctx \<Rightarrow> observation \<Rightarrow> string option \<Rightarrow> string \<Rightarrow> string \<Rightarrow> string \<Rightarrow> action" where
  "opened_action x b dup aid wid actor_id = \<lparr>
     act_id = aid, act_workspace_id = wid, act_account = ax_account x, act_slug = ax_slug x,
     act_commitment = ob_commitment b, act_definition_of_done = ob_definition_of_done b,
     act_party = ob_party b, act_owner = ob_owner b, act_due_date = ob_due_date b,
     act_status = opening_status b dup, act_origin = ob_source b, act_key = ob_key b,
     act_evidence = [ob_source b],
     act_transitions = [\<lparr>tr_sequence = 1, tr_from = None, tr_to = opening_status b dup, tr_actor = Analysis,
       tr_actor_id = actor_id, tr_reason = opening_reason b dup, tr_source = Some (ob_source b),
       tr_undoes = None, tr_prior_owner = None, tr_prior_due_date = None, tr_recorded_at = ax_now x\<rparr>],
     act_suggestions = [], act_duplicate_of = dup, act_retraction = None, act_evidence_retractions = [],
     act_created_at = ax_now x, act_updated_at = ax_now x\<rparr>"

definition open_new :: "apply_ctx \<Rightarrow> observation \<Rightarrow> string \<Rightarrow> applying \<Rightarrow> (world, applying) op" where
  "open_new x b aid st = (let dup = duplicate_for b (ag_existing st) in
     bnd ops_workspace_id (\<lambda>wid. bnd (read_st w_actor) (\<lambda>me.
     bnd (of_sum (mk_transition (hd (act_transitions (opened_action x b dup aid wid me))))) (\<lambda>_.
     bnd (of_sum (mk_action (opened_action x b dup aid wid me))) (\<lambda>a.
     bnd (write_action a) (\<lambda>_.
     bnd (ensure_change x (created_change x b a (act_status a)) (st\<lparr>
            ag_existing := ag_existing st @ [a], ag_created := ag_created st @ [aid]\<rparr>)) (\<lambda>st'.
     case dup of
       None \<Rightarrow> ret st'
     | Some d \<Rightarrow> ensure_change x (flagged_change x b aid d)
         (st'\<lparr>ag_duplicates := ag_duplicates st' @ [aid]\<rparr>))))))))"

definition apply_observation :: "apply_ctx \<Rightarrow> observation \<Rightarrow> applying \<Rightarrow> (world, applying) op" where
  "apply_observation x b st =
     (if ob_kind b = CompletionKind then fold_op (suggest_for x b) (ag_existing st) st
      else bnd ops_workspace_id (\<lambda>wid.
        let aid = action_id_for wid (ax_account x) (ax_slug x) (ax_source_id x) (ob_key b) in
        case find (\<lambda>a. act_id a = aid) (ag_existing st) of
          Some a \<Rightarrow> link_action x b a st
        | None \<Rightarrow> open_new x b aid st))"

definition apply_observations ::
  "observation list \<Rightarrow> string \<Rightarrow> string \<Rightarrow> version \<Rightarrow> source_ref \<Rightarrow> datetime \<Rightarrow> (world, applying) op" where
  "apply_observations obs account slug v ref occurred_at =
     bnd (opportunity_actions account slug) (\<lambda>existing. bnd ops_now (\<lambda>now.
     bnd (changes_for account slug) (\<lambda>cs.
     let x = \<lparr>ax_account = account, ax_slug = slug, ax_source_id = sr_source_id ref,
              ax_occurred_at = occurred_at, ax_now = now\<rparr>;
         st = \<lparr>ag_existing = existing, ag_recorded = map recorded_key cs, ag_created = [], ag_linked = [],
               ag_suggested = [], ag_duplicates = []\<rparr>
     in bnd (ensure_change x (overview_change x v ref) st) (fold_op (apply_observation x) obs))))"

end
