(* ===== verification/Reconcile.thy ===== *)
theory Reconcile
  imports Observations
begin

section \<open>Reconciliation runs\<close>

text \<open>
  The reconciliation of \<^verbatim>\<open>command_center_operations_service.py\<close>: the conditions under which a run
  starts, the run itself with its commit barrier, and the resumption of a run that was promoted
  but not applied.  The workspace service and the executor are injected; they are arguments, and
  each call of one of them is an operation of the world, so that it may stand for everything
  other tasks do while it is awaited.  Cancellation is not modelled.
\<close>

type_synonym identity_resolver = "string \<Rightarrow> string \<Rightarrow> (world, resolved_identity) op"

definition reconcile_kind :: string where "reconcile_kind = ''command_center_reconcile''"

definition updater_version :: string where "updater_version = ''opportunity-overview-complete-v1''"

subsection \<open>Receipts\<close>

datatype run_extra = NoExtra | PromotedExtra version | AppliedExtra version nat applying

definition promoted_members :: "version \<Rightarrow> members" where
  "promoted_members v = [(''promoted_version_id'', JStr (vs_version_id v)),
     (''promoted_revision'', JInt (int (vs_revision v)))]"

fun extra_members :: "run_extra \<Rightarrow> members" where
  "extra_members NoExtra = []"
| "extra_members (PromotedExtra v) = promoted_members v"
| "extra_members (AppliedExtra v n st) = promoted_members v @ [
     (''observation_count'', JInt (int n)), (''model'', JStr (gp_model (vs_provenance v))),
     (''runtime'', JStr (gp_runtime (vs_provenance v))), (''actions_created'', jtexts (ag_created st)),
     (''actions_linked'', jtexts (ag_linked st)), (''completion_suggestions'', jtexts (ag_suggested st)),
     (''possible_duplicates'', jtexts (ag_duplicates st))]"

fun with_extra :: "run_extra \<Rightarrow> run_receipt \<Rightarrow> run_receipt" where
  "with_extra NoExtra r = r"
| "with_extra (PromotedExtra v) r =
     r\<lparr>run_promoted_version_id := Some (vs_version_id v), run_promoted_revision := Some (vs_revision v)\<rparr>"
| "with_extra (AppliedExtra v n st) r =
     r\<lparr>run_promoted_version_id := Some (vs_version_id v), run_promoted_revision := Some (vs_revision v),
       run_observation_count := n, run_model := Some (gp_model (vs_provenance v)),
       run_runtime := Some (gp_runtime (vs_provenance v)), run_actions_created := ag_created st,
       run_actions_linked := ag_linked st, run_suggestions := ag_suggested st, run_duplicates := ag_duplicates st\<rparr>"

definition run_payload :: "run_receipt \<Rightarrow> run_extra \<Rightarrow> json" where
  "run_payload r extra = JObj ([
     (''workspace_id'', JStr (run_workspace_id r)), (''source_id'', JStr (run_source_id r)),
     (''revision'', JInt (int (run_revision r))), (''account'', JStr (run_account r)),
     (''opportunity_slug'', JStr (run_slug r)), (''base_version_id'', jtext (run_base_version_id r)),
     (''base_revision'', j_opt (\<lambda>n. JInt (int n)) (run_base_revision r)),
     (''status'', JStr (run_status_value (run_status r))), (''error_code'', jtext (run_error_code r)),
     (''started_at'', JStr (isoformat (run_started_at r))), (''finished_at'', JStr (isoformat (run_finished_at r)))]
     @ extra_members extra)"

definition record_terminal_run ::
  "source_summary \<Rightarrow> string \<Rightarrow> string \<Rightarrow> string option \<Rightarrow> nat option \<Rightarrow> run_status \<Rightarrow> string option
   \<Rightarrow> datetime \<Rightarrow> run_extra \<Rightarrow> (world, run_receipt) op" where
  "record_terminal_run sm account slug base_id base_rev status code started extra =
     bnd ops_now (\<lambda>now. bnd ops_workspace_id (\<lambda>wid.
     let r = \<lparr>run_id = '''', run_workspace_id = wid, run_source_id = sm_source_id sm,
           run_revision = sm_latest_revision sm, run_account = account, run_slug = slug,
           run_base_version_id = base_id, run_base_revision = base_rev, run_status = status,
           run_error_code = code, run_promoted_version_id = None, run_promoted_revision = None,
           run_observation_count = 0, run_actions_created = [], run_actions_linked = [],
           run_suggestions = [], run_duplicates = [], run_model = None, run_runtime = None,
           run_started_at = started, run_finished_at = now\<rparr>;
         r' = (with_extra extra r)\<lparr>run_id := ''run_'' @ take 32 (sha256_hex (canonical_bytes (run_payload r extra)))\<rparr>
     in if \<not> valid_run r' then raise ValidationError
        else bnd (write_run r') (\<lambda>_. ret r')))"

subsection \<open>What a run may rely on\<close>

definition identity_of :: "identity_resolver \<Rightarrow> string \<Rightarrow> string \<Rightarrow> (world, resolved_identity) op" where
  "identity_of resolve account slug = catch (resolve account slug) (\<lambda>e. case e of
     AccountError status \<Rightarrow> ops_error status ''unknown_opportunity'' | _ \<Rightarrow> raise e)"

definition current_or_error :: "string \<Rightarrow> string \<Rightarrow> (world, version) op" where
  "current_or_error account slug = bnd (as_ops (in_store (read_current account slug))) (\<lambda>v.
     case v of None \<Rightarrow> ops_error 409 ''overview_missing'' | Some cur \<Rightarrow> ret cur)"

definition owns_source :: "string \<Rightarrow> job \<Rightarrow> bool" where
  "owns_source sid j \<longleftrightarrow> jb_kind j = reconcile_kind \<and> map_of (jb_meta j) ''source_id'' = Some (JStr sid)
     \<and> jb_status j = JobRunning"

definition running_job_for_source :: "string \<Rightarrow> world \<Rightarrow> string option" where
  "running_job_for_source sid w = map_option fst (find (\<lambda>(jid, j). owns_source sid j) (js_jobs (w_jobs w)))"

definition promoted_version_for :: "version \<Rightarrow> pending \<Rightarrow> bool" where
  "promoted_version_for current p \<longleftrightarrow>
     vs_parent_version_id current = pa_base_version_id p \<and> vs_parent_revision current = pa_base_revision p
     \<and> list_ex (\<lambda>e. me_type e = Transcript \<and> me_id e = pa_evidence_id p \<and> me_sha256 e = pa_evidence_sha256 p)
         (vs_manifest current)"

definition job_error :: "string \<Rightarrow> (world, 'a) op" where
  "job_error code = raise (ManagedJobError code)"

definition check_source_unchanged ::
  "source_summary \<Rightarrow> nat \<Rightarrow> string \<Rightarrow> string \<Rightarrow> nat option \<Rightarrow> (world, unit) op" where
  "check_source_unchanged sm revision account slug association_sequence =
     (let a = sm_association sm in
      if withheld (sm_availability sm) \<or> lv_availability (sm_latest sm) \<noteq> ContentAvailable
      then job_error ''access_lost''
      else if sm_latest_revision sm \<noteq> revision then job_error ''revision_superseded''
      else if ad_state a \<noteq> Associated \<or> ad_account a \<noteq> Some account \<or> ad_opportunity_slug a \<noteq> Some slug
        \<or> (association_sequence \<noteq> None \<and> association_sequence \<noteq> Some (ad_sequence a))
      then job_error ''association_changed''
      else ret ())"

text \<open>The timestamp of the latest revision; parsing its ISO form gives it back.\<close>

definition latest_observed_at :: "source_summary \<Rightarrow> datetime" where
  "latest_observed_at sm = (case sm_revisions sm of None \<Rightarrow> 0 | Some rs \<Rightarrow> rev_observed_at (last rs))"

subsection \<open>After the promotion\<close>

text \<open>\<^verbatim>\<open>type(exc).__name__.lower()\<close>\<close>

fun exn_class :: "exn \<Rightarrow> string" where
  "exn_class (EvidenceLedgerError _ _) = ''evidenceledgererror''"
| "exn_class (CommandCenterOperationsError _ _) = ''commandcenteroperationserror''"
| "exn_class (OpportunityStateError _ _) = ''opportunitystateerror''"
| "exn_class (OpportunityStateCreateError _ _) = ''opportunitystatecreateerror''"
| "exn_class (OpportunityStateUpdateError _ _) = ''opportunitystateupdateerror''"
| "exn_class (TranscriptionError _ _) = ''transcriptionerror''"
| "exn_class (ManagedJobError _) = ''managedjoberror''"
| "exn_class (GmailTransportError _ _) = ''gmailtransporterror''"
| "exn_class (GmailImportError _ _) = ''gmailimporterror''"
| "exn_class (GmailIntakeError _ _) = ''gmailintakeerror''"
| "exn_class (AccountError _) = ''accounterror''"
| "exn_class (CanonicalStateExecutionError _) = ''canonicalstateexecutionerror''"
| "exn_class (ExecutorFailure name) = map lower_char (take 80 name)"
| "exn_class ValidationError = ''validationerror''"
| "exn_class ValueError = ''valueerror''"

record run_result =
  rr_run_id :: string
  rr_revision :: nat
  rr_version_id :: string
  rr_outcome :: proc_status
  rr_resumed :: bool
  rr_applied :: applying

definition mk_ref :: "source_ref \<Rightarrow> exn + source_ref" where
  "mk_ref r = (if valid_ref r then Inr r else Inl ValidationError)"

definition pending_ref :: "pending \<Rightarrow> source_ref" where
  "pending_ref p = \<lparr>sr_source_id = pa_source_id p, sr_revision = pa_revision p,
     sr_evidence_id = pa_evidence_id p, sr_locator = None\<rparr>"

text \<open>The steps of the \<^verbatim>\<open>try\<close> block of \<^verbatim>\<open>_complete\<close>.\<close>

definition mark_run_processed :: "pending \<Rightarrow> (world, proc_status) op" where
  "mark_run_processed p = bnd (in_ledger (get_source (pa_source_id p))) (\<lambda>latest.
     if ps_status (sm_processing latest) = Processed
        \<and> ps_processed_revision (sm_processing latest) = Some (pa_revision p)
     then ret Processed
     else bnd (in_ledger (mark_processed (pa_source_id p) (pa_revision p))) (\<lambda>sm. ret (the (sm_outcome sm))))"

definition complete_steps ::
  "pending \<Rightarrow> version \<Rightarrow> source_summary \<Rightarrow> source_ref \<Rightarrow> string option \<Rightarrow> bool \<Rightarrow> (world, run_result) op" where
  "complete_steps p v sm ref source_text resumed =
     bnd (of_sum (derive_observations (vs_state v) ref source_text)) (\<lambda>obs.
     bnd (apply_observations obs (pa_account p) (pa_slug p) v ref (pa_observed_at p)) (\<lambda>applied.
     bnd (mark_run_processed p) (\<lambda>outcome.
     bnd (record_terminal_run sm (pa_account p) (pa_slug p) (pa_base_version_id p) (pa_base_revision p)
            RunSucceeded None (pa_started_at p) (AppliedExtra v (length obs) applied)) (\<lambda>r.
     bnd (remove_pending (pa_source_id p)) (\<lambda>_.
     ret \<lparr>rr_run_id = run_id r, rr_revision = vs_revision v, rr_version_id = vs_version_id v,
          rr_outcome = outcome, rr_resumed = resumed, rr_applied = applied\<rparr>)))))"

definition apply_incomplete :: "pending \<Rightarrow> version \<Rightarrow> source_summary \<Rightarrow> exn \<Rightarrow> (world, 'a) op" where
  "apply_incomplete p v sm e =
     bnd (catch (bnd (record_terminal_run sm (pa_account p) (pa_slug p) (pa_base_version_id p) (pa_base_revision p)
            RunApplyIncomplete (Some (exn_class e)) (pa_started_at p) (PromotedExtra v)) (\<lambda>_. ret ()))
          (\<lambda>_. ret ())) (\<lambda>_. job_error ''apply_incomplete'')"

definition complete ::
  "pending \<Rightarrow> version \<Rightarrow> source_summary \<Rightarrow> string option \<Rightarrow> bool \<Rightarrow> (world, run_result) op" where
  "complete p v sm source_text resumed = bnd (of_sum (mk_ref (pending_ref p))) (\<lambda>ref.
     catch (complete_steps p v sm ref source_text resumed) (apply_incomplete p v sm))"

text \<open>\<^verbatim>\<open>_resume\<close>\<close>

definition resume_run :: "pending \<Rightarrow> (world, run_result) op" where
  "resume_run p = bnd (in_ledger (get_source (pa_source_id p))) (\<lambda>sm.
     bnd (check_source_unchanged sm (pa_revision p) (pa_account p) (pa_slug p) (pa_association_sequence p)) (\<lambda>_.
     bnd (current_or_error (pa_account p) (pa_slug p)) (\<lambda>current.
     if \<not> promoted_version_for current p
     then bnd (remove_pending (pa_source_id p)) (\<lambda>_. job_error ''stale_base'')
     else bnd (catch (bnd (in_ledger (read_content (pa_source_id p) (pa_revision p)))
                        (\<lambda>snapshot. ret (Some (render_snapshot_text snapshot))))
                (\<lambda>e. case e of EvidenceLedgerError _ _ \<Rightarrow> ret None | _ \<Rightarrow> raise e)) (\<lambda>source_text.
       complete p current sm source_text True))))"


subsection \<open>One run\<close>

record reconcile_args =
  rc_source_id :: string
  rc_revision :: nat
  rc_account :: string
  rc_slug :: string
  rc_identity :: resolved_identity
  rc_base_version_id :: "string option"
  rc_base_revision :: "nat option"
  rc_association_sequence :: "nat option"

record exec_request =
  eq_account :: string
  eq_slug :: string
  eq_name :: string
  eq_metadata :: json
  eq_metadata_source_id :: string
  eq_transcripts :: "transcript_evidence list"
  eq_base_state :: "candidate option"
  eq_base_version_id :: "string option"
  eq_base_revision :: "nat option"

record exec_result =
  ex_candidate :: candidate
  ex_model :: string
  ex_cli_version :: string
  ex_runtime :: string

type_synonym executor = "exec_request \<Rightarrow> (world, exec_result) op"

definition fail_status :: "string \<Rightarrow> run_status" where
  "fail_status code = (if code = ''stale_base'' then RunStaleBase
     else if code = ''revision_superseded'' then RunSuperseded else RunFailed)"

definition fail_run :: "source_summary \<Rightarrow> reconcile_args \<Rightarrow> string \<Rightarrow> datetime \<Rightarrow> (world, unit) op" where
  "fail_run sm g code started =
     bnd (catch (bnd (in_ledger (mark_failed (sm_source_id sm) (take 80 code) True)) (\<lambda>_. ret ()))
            (\<lambda>e. case e of EvidenceLedgerError _ _ \<Rightarrow> ret () | _ \<Rightarrow> raise e)) (\<lambda>_.
     bnd (record_terminal_run sm (rc_account g) (rc_slug g) (rc_base_version_id g) (rc_base_revision g)
            (fail_status code) (Some (take 80 code)) started NoExtra) (\<lambda>_. ret ()))"

text \<open>The two \<^verbatim>\<open>except\<close> clauses of \<^verbatim>\<open>_reconcile\<close>; \<open>sm\<close> is the last source read.\<close>

definition guarded :: "source_summary \<Rightarrow> reconcile_args \<Rightarrow> datetime \<Rightarrow> (world, 'a) op \<Rightarrow> (world, 'a) op" where
  "guarded sm g started m = catch m (\<lambda>e. case e of
     ManagedJobError code \<Rightarrow>
       if code \<noteq> ''apply_incomplete'' then bnd (fail_run sm g code started) (\<lambda>_. raise e) else raise e
   | EvidenceLedgerError _ code \<Rightarrow> bnd (fail_run sm g code started) (\<lambda>_. job_error code)
   | CommandCenterOperationsError _ code \<Rightarrow> bnd (fail_run sm g code started) (\<lambda>_. job_error code)
   | _ \<Rightarrow> raise e)"

text \<open>The base of the run and the manifest its candidate may cite.\<close>

definition first_manifest :: "reconcile_args \<Rightarrow> transcript_evidence \<Rightarrow> (world, version option \<times> manifest_entry list) op" where
  "first_manifest g ev =
     bnd (catch (in_store (read_current (rc_account g) (rc_slug g))) (\<lambda>e. case e of
            OpportunityStateError _ code \<Rightarrow> job_error code | _ \<Rightarrow> raise e)) (\<lambda>v.
     if v \<noteq> None then job_error ''overview_exists''
     else bnd ops_now (\<lambda>now. bnd (of_sum (create_manifest (opp_metadata (rc_identity g)) [ev] now)) (\<lambda>m. ret (None, m))))"

definition next_manifest ::
  "reconcile_args \<Rightarrow> string \<Rightarrow> transcript_evidence \<Rightarrow> (world, version option \<times> manifest_entry list) op" where
  "next_manifest g base_id ev =
     bnd (current_or_error (rc_account g) (rc_slug g)) (\<lambda>current.
     if vs_version_id current \<noteq> base_id \<or> rc_base_revision g \<noteq> Some (vs_revision current) then job_error ''stale_base''
     else bnd ops_now (\<lambda>now.
       bnd (of_sum (metadata_entry (opp_metadata (rc_identity g)) now)) (\<lambda>meta.
       bnd (of_sum (cumulative_manifest current meta [ev])) (\<lambda>m. ret (Some current, m)))))"

definition run_manifest :: "reconcile_args \<Rightarrow> transcript_evidence \<Rightarrow> (world, version option \<times> manifest_entry list) op" where
  "run_manifest g ev = (case rc_base_version_id g of
     None \<Rightarrow> first_manifest g ev | Some base_id \<Rightarrow> next_manifest g base_id ev)"

definition run_request :: "reconcile_args \<Rightarrow> transcript_evidence \<Rightarrow> version option \<Rightarrow> exec_request" where
  "run_request g ev current = \<lparr>eq_account = rc_account g, eq_slug = rc_slug g, eq_name = opp_name (rc_identity g),
     eq_metadata = metadata_payload (opp_metadata (rc_identity g)), eq_metadata_source_id = metadata_source_id,
     eq_transcripts = [ev], eq_base_state = map_option vs_state current,
     eq_base_version_id = map_option vs_version_id current, eq_base_revision = map_option vs_revision current\<rparr>"

definition execute_run :: "executor \<Rightarrow> exec_request \<Rightarrow> (world, exec_result) op" where
  "execute_run execute q = catch (execute q) (\<lambda>e. case e of
     CanonicalStateExecutionError code \<Rightarrow> job_error code | _ \<Rightarrow> job_error ''analysis_failed'')"

definition check_candidate :: "candidate \<Rightarrow> manifest_entry list \<Rightarrow> (world, unit) op" where
  "check_candidate c manifest = catch (of_sum (validate_candidate_evidence c manifest)) (\<lambda>e. case e of
     ValidationError \<Rightarrow> job_error ''invalid_candidate'' | ValueError \<Rightarrow> job_error ''invalid_candidate''
   | _ \<Rightarrow> raise e)"

text \<open>A first overview is refused when the CRM metadata changed during the analysis.\<close>

definition check_metadata :: "identity_resolver \<Rightarrow> reconcile_args \<Rightarrow> (world, unit) op" where
  "check_metadata resolve g =
     (if rc_base_version_id g \<noteq> None then ret ()
      else bnd (identity_of resolve (rc_account g) (rc_slug g)) (\<lambda>i.
        if metadata_bytes (opp_metadata i) \<noteq> metadata_bytes (opp_metadata (rc_identity g))
        then job_error ''evidence_changed'' else ret ()))"

definition run_pending ::
  "string \<Rightarrow> reconcile_args \<Rightarrow> transcript_evidence \<Rightarrow> datetime \<Rightarrow> datetime \<Rightarrow> pending" where
  "run_pending wid g ev observed_at started = \<lparr>pa_workspace_id = wid, pa_source_id = rc_source_id g,
     pa_revision = rc_revision g, pa_account = rc_account g, pa_slug = rc_slug g,
     pa_base_version_id = rc_base_version_id g, pa_base_revision = rc_base_revision g,
     pa_association_sequence = rc_association_sequence g, pa_evidence_id = te_id ev,
     pa_evidence_sha256 = te_sha256 ev, pa_observed_at = observed_at, pa_started_at = started\<rparr>"

definition mk_pending :: "pending \<Rightarrow> exn + pending" where
  "mk_pending p = (if valid_pending p then Inr p else Inl ValidationError)"

definition mk_opp_identity :: "opp_identity \<Rightarrow> exn + opp_identity" where
  "mk_opp_identity i = (if valid_opp_identity i then Inr i else Inl ValidationError)"

definition mk_provenance :: "provenance \<Rightarrow> exn + provenance" where
  "mk_provenance p = (if valid_provenance p then Inr p else Inl ValidationError)"

definition promote_run ::
  "reconcile_args \<Rightarrow> manifest_entry list \<Rightarrow> string \<Rightarrow> exec_result \<Rightarrow> (world, version) op" where
  "promote_run g manifest hash r =
     bnd (of_sum (mk_opp_identity \<lparr>oi_account = rc_account g, oi_slug = rc_slug g, oi_name = opp_name (rc_identity g)\<rparr>)) (\<lambda>i.
     bnd (of_sum (mk_provenance \<lparr>gp_updater_version = updater_version, gp_model = ex_model r,
            gp_runtime = ex_runtime r, gp_cli_version = ex_cli_version r\<rparr>)) (\<lambda>prov.
     case rc_base_version_id g of
       None \<Rightarrow> in_store (promote_create i manifest hash prov (ex_candidate r))
     | Some base_id \<Rightarrow> in_store (promote_update i base_id (the (rc_base_revision g)) manifest hash prov (ex_candidate r))))"

text \<open>A promotion that raises takes its marker back.\<close>

definition promote_or_clear ::
  "reconcile_args \<Rightarrow> manifest_entry list \<Rightarrow> string \<Rightarrow> exec_result \<Rightarrow> (world, version) op" where
  "promote_or_clear g manifest hash r = catch (promote_run g manifest hash r) (\<lambda>e.
     bnd (remove_pending (rc_source_id g)) (\<lambda>_. case e of
       OpportunityStateError _ code \<Rightarrow> job_error code | _ \<Rightarrow> raise e))"

definition commit_run ::
  "reconcile_args \<Rightarrow> transcript_evidence \<Rightarrow> manifest_entry list \<Rightarrow> exec_result \<Rightarrow> datetime \<Rightarrow> datetime
   \<Rightarrow> source_summary \<Rightarrow> (world, run_result) op" where
  "commit_run g ev manifest r observed_at started sm =
     bnd (check_source_unchanged sm (rc_revision g) (rc_account g) (rc_slug g) (rc_association_sequence g)) (\<lambda>_.
     bnd ops_workspace_id (\<lambda>wid.
     bnd (of_sum (mk_pending (run_pending wid g ev observed_at started))) (\<lambda>p.
     bnd (write_pending p) (\<lambda>_.
     bnd (promote_or_clear g manifest (evidence_manifest_hash manifest) r) (\<lambda>v.
     complete p v sm (Some (te_content ev)) False)))))"

text \<open>Up to the executor's answer and its checks.\<close>

definition analyse_run ::
  "identity_resolver \<Rightarrow> executor \<Rightarrow> reconcile_args \<Rightarrow> source_summary
   \<Rightarrow> (world, transcript_evidence \<times> manifest_entry list \<times> exec_result) op" where
  "analyse_run resolve execute g sm =
     bnd (check_source_unchanged sm (rc_revision g) (rc_account g) (rc_slug g) (rc_association_sequence g)) (\<lambda>_.
     bnd (source_evidence (rc_source_id g) (rc_revision g) (latest_observed_at sm)) (\<lambda>ev.
     bnd (run_manifest g ev) (\<lambda>(current, manifest).
     bnd (execute_run execute (run_request g ev current)) (\<lambda>r.
     bnd (check_candidate (ex_candidate r) manifest) (\<lambda>_.
     bnd (check_metadata resolve g) (\<lambda>_. ret (ev, manifest, r)))))))"

definition reconcile ::
  "identity_resolver \<Rightarrow> executor \<Rightarrow> reconcile_args \<Rightarrow> (world, run_result) op" where
  "reconcile resolve execute g = bnd ops_now (\<lambda>started.
     bnd (in_ledger (get_source (rc_source_id g))) (\<lambda>sm.
     bnd (guarded sm g started (bnd (analyse_run resolve execute g sm) (\<lambda>a.
       bnd (in_ledger (get_source (rc_source_id g))) (\<lambda>sm'. ret (a, sm'))))) (\<lambda>((ev, manifest, r), sm').
     guarded sm' g started (commit_run g ev manifest r (latest_observed_at sm) started sm'))))"

end
