(* ===== verification/Start.thy ===== *)
theory Start
  imports Reconcile
begin

section \<open>Starting a reconciliation\<close>

text \<open>
  \<^verbatim>\<open>start_reconciliation\<close> and \<^verbatim>\<open>start_first_overview\<close> of
  \<^verbatim>\<open>command_center_operations_service.py\<close>: the guards, the recovery of an interrupted run, the
  decision about a pending marker, and the launch of the job.  The closure handed to the job
  service is the \<open>run_plan\<close> returned beside the answer; \<open>run_job\<close> is its later execution.
\<close>

datatype run_plan = ResumePlan pending | ReconcilePlan reconcile_args

record start_answer =
  st_job_id :: string
  st_reused :: bool
  st_resumed :: bool
  st_source_id :: string
  st_persist_warn :: bool

definition reused_answer :: "string \<Rightarrow> string \<Rightarrow> start_answer \<times> run_plan option" where
  "reused_answer sid jid = (\<lparr>st_job_id = jid, st_reused = True, st_resumed = False, st_source_id = sid,
     st_persist_warn = False\<rparr>, None)"

definition run_signature :: "reconcile_args \<Rightarrow> json list" where
  "run_signature g = [JStr reconcile_kind, JStr (rc_source_id g), JInt (int (rc_revision g)),
     jtext (rc_base_version_id g), j_opt (\<lambda>n. JInt (int n)) (rc_base_revision g), JStr updater_version]"

definition run_metadata :: "reconcile_args \<Rightarrow> bool \<Rightarrow> members" where
  "run_metadata g resumed = [(''source_id'', JStr (rc_source_id g)), (''revision'', JInt (int (rc_revision g))),
     (''base_version_id'', jtext (rc_base_version_id g)), (''resumed'', JBool resumed)]"

definition launch :: "reconcile_args \<Rightarrow> pending option \<Rightarrow> (world, start_answer \<times> run_plan option) op" where
  "launch g resume =
     bnd (in_jobs (launch_managed reconcile_kind (rc_account g) (rc_slug g) (opp_name (rc_identity g))
            (run_signature g) (run_metadata g (resume \<noteq> None)))) (\<lambda>(jid, warn).
     ret (\<lparr>st_job_id = jid, st_reused = False, st_resumed = (resume \<noteq> None), st_source_id = rc_source_id g,
            st_persist_warn = warn\<rparr>,
          Some (case resume of Some p \<Rightarrow> ResumePlan p | None \<Rightarrow> ReconcilePlan g)))"

text \<open>A \<^verbatim>\<open>processing\<close> source that no job owns: make it retryable and record why.\<close>

definition interrupt :: "string \<Rightarrow> source_summary \<Rightarrow> string \<Rightarrow> string \<Rightarrow> string option \<Rightarrow> nat option
   \<Rightarrow> (world, datetime) op \<Rightarrow> (world, unit) op" where
  "interrupt sid sm account slug base_id base_rev started_at =
     bnd (in_ledger (mark_failed sid ''interrupted'' True)) (\<lambda>_. bnd started_at (\<lambda>started.
     bnd (record_terminal_run sm account slug base_id base_rev RunInterrupted (Some ''interrupted'') started NoExtra)
       (\<lambda>_. ret ())))"

definition claim_source :: "string \<Rightarrow> (world, unit) op" where
  "claim_source sid = ledger_as_ops (bnd (in_ledger (retry sid)) (\<lambda>_.
     bnd (in_ledger (mark_processing sid)) (\<lambda>_. ret ())))"

text \<open>\<^verbatim>\<open>_resume_plan\<close>\<close>

definition marker_moved :: "pending \<Rightarrow> source_summary \<Rightarrow> string \<Rightarrow> string \<Rightarrow> bool" where
  "marker_moved p sm account slug \<longleftrightarrow> pa_account p \<noteq> account \<or> pa_slug p \<noteq> slug
     \<or> pa_revision p \<noteq> sm_latest_revision sm
     \<or> (pa_association_sequence p \<noteq> None \<and> pa_association_sequence p \<noteq> Some (ad_sequence (sm_association sm)))"

definition resume_plan ::
  "pending \<Rightarrow> source_summary \<Rightarrow> string \<Rightarrow> string \<Rightarrow> version \<Rightarrow> string \<Rightarrow> nat \<Rightarrow> (world, pending option) op" where
  "resume_plan p sm account slug current base_id base_rev =
     (if marker_moved p sm account slug
      then bnd (remove_pending (pa_source_id p)) (\<lambda>_. ret None)
      else if \<not> promoted_version_for current p
      then bnd (remove_pending (pa_source_id p)) (\<lambda>_.
        if ps_status (sm_processing sm) = Processing
        then bnd (interrupt (pa_source_id p) sm account slug (pa_base_version_id p) (pa_base_revision p)
                   (ret (pa_started_at p))) (\<lambda>_. ret None)
        else ret None)
      else if \<not> (base_id = vs_version_id current \<and> base_rev = vs_revision current)
        \<and> \<not> (Some base_id = pa_base_version_id p \<and> Some base_rev = pa_base_revision p)
      then ops_error 409 ''stale_base''
      else if ps_status (sm_processing sm) \<noteq> Processing
        \<and> \<not> (ps_status (sm_processing sm) = Processed \<and> ps_processed_revision (sm_processing sm) = Some (pa_revision p))
      then bnd (claim_source (pa_source_id p)) (\<lambda>_. ret (Some p))
      else ret (Some p))"

definition associated_with :: "source_summary \<Rightarrow> (world, string \<times> string) op" where
  "associated_with sm = (let a = sm_association sm in
     if ad_state a \<noteq> Associated then ops_error 409 ''not_associated''
     else ret (the (ad_account a), the (ad_opportunity_slug a)))"

definition same_workspace :: "identity_resolver \<Rightarrow> string \<Rightarrow> string \<Rightarrow> (world, resolved_identity) op" where
  "same_workspace resolve account slug = bnd (identity_of resolve account slug) (\<lambda>i.
     if safe_account i \<noteq> account \<or> safe_opp i \<noteq> slug then ops_error 409 ''scope_mismatch'' else ret i)"

definition run_args ::
  "string \<Rightarrow> nat \<Rightarrow> string \<Rightarrow> string \<Rightarrow> resolved_identity \<Rightarrow> string option \<Rightarrow> nat option \<Rightarrow> nat option \<Rightarrow> reconcile_args" where
  "run_args sid revision account slug i base_id base_rev association_sequence = \<lparr>rc_source_id = sid,
     rc_revision = revision, rc_account = account, rc_slug = slug, rc_identity = i,
     rc_base_version_id = base_id, rc_base_revision = base_rev, rc_association_sequence = association_sequence\<rparr>"

text \<open>The normal path of \<^verbatim>\<open>start_reconciliation\<close>, once no marker is to be resumed.\<close>

definition start_fresh ::
  "source_summary \<Rightarrow> reconcile_args \<Rightarrow> version \<Rightarrow> (world, start_answer \<times> run_plan option) op" where
  "start_fresh sm g current =
     (let p = sm_processing sm in
      if Some (vs_version_id current) \<noteq> rc_base_version_id g \<or> Some (vs_revision current) \<noteq> rc_base_revision g
      then ops_error 409 ''stale_base''
      else if ps_status p = Processed \<and> ps_processed_revision p = Some (sm_latest_revision sm)
      then ops_error 409 ''already_processed''
      else bnd (if ps_status p = Processing
                then interrupt (rc_source_id g) sm (rc_account g) (rc_slug g) (rc_base_version_id g)
                       (rc_base_revision g) ops_now
                else ret ()) (\<lambda>_.
        bnd (claim_source (rc_source_id g)) (\<lambda>_. launch g None)))"

definition resume_args :: "string \<Rightarrow> string \<Rightarrow> string \<Rightarrow> resolved_identity \<Rightarrow> pending \<Rightarrow> reconcile_args" where
  "resume_args sid account slug i p =
     run_args sid (pa_revision p) account slug i (pa_base_version_id p) (pa_base_revision p) None"

definition start_reconciliation ::
  "identity_resolver \<Rightarrow> string \<Rightarrow> string \<Rightarrow> nat \<Rightarrow> (world, start_answer \<times> run_plan option) op" where
  "start_reconciliation resolve sid base_id base_rev =
     bnd (ledger_as_ops (in_ledger (get_source sid))) (\<lambda>sm.
     bnd (associated_with sm) (\<lambda>(account, slug).
     bnd (same_workspace resolve account slug) (\<lambda>i.
     bnd (current_or_error account slug) (\<lambda>current.
     bnd (read_st (running_job_for_source sid)) (\<lambda>running.
     case running of
       Some jid \<Rightarrow> ret (reused_answer sid jid)
     | None \<Rightarrow> bnd (read_st (\<lambda>w. active_opportunity_state_job account slug (w_jobs w))) (\<lambda>active.
         if active \<noteq> None then ops_error 409 ''update_in_progress''
         else bnd (read_pending sid) (\<lambda>marker.
         bnd (case marker of None \<Rightarrow> ret None
              | Some p \<Rightarrow> resume_plan p sm account slug current base_id base_rev) (\<lambda>resume.
         case resume of
           Some p \<Rightarrow> launch (resume_args sid account slug i p) (Some p)
         | None \<Rightarrow> start_fresh sm (run_args sid (sm_latest_revision sm) account slug i (Some base_id)
             (Some base_rev) None) current))))))))"

text \<open>\<^verbatim>\<open>start_first_overview\<close>: the confirmed source becomes revision one.\<close>

definition first_resumable ::
  "version option \<Rightarrow> pending option \<Rightarrow> string \<Rightarrow> string \<Rightarrow> nat \<Rightarrow> nat \<Rightarrow> pending option" where
  "first_resumable current marker account slug revision sequence = (case (current, marker) of
     (Some v, Some p) \<Rightarrow>
       if pa_base_version_id p = None \<and> pa_account p = account \<and> pa_slug p = slug \<and> pa_revision p = revision
          \<and> pa_association_sequence p = Some sequence \<and> promoted_version_for v p
       then Some p else None
   | _ \<Rightarrow> None)"

definition start_first_fresh ::
  "source_summary \<Rightarrow> reconcile_args \<Rightarrow> pending option \<Rightarrow> (world, start_answer \<times> run_plan option) op" where
  "start_first_fresh sm g marker =
     bnd (if marker \<noteq> None then remove_pending (rc_source_id g) else ret ()) (\<lambda>_.
     let p = sm_processing sm in
     if ps_status p = Processed \<and> ps_processed_revision p = Some (rc_revision g)
     then ops_error 409 ''already_processed''
     else bnd (if ps_status p = Processing
               then interrupt (rc_source_id g) sm (rc_account g) (rc_slug g) None None ops_now
               else ret ()) (\<lambda>_.
       bnd (claim_source (rc_source_id g)) (\<lambda>_. launch g None)))"

definition start_first_overview ::
  "identity_resolver \<Rightarrow> string \<Rightarrow> string \<Rightarrow> string \<Rightarrow> nat \<Rightarrow> nat \<Rightarrow> (world, start_answer \<times> run_plan option) op" where
  "start_first_overview resolve sid account slug revision sequence =
     bnd (ledger_as_ops (in_ledger (get_source sid))) (\<lambda>sm.
     let a = sm_association sm in
     if ad_state a \<noteq> Associated \<or> ad_account a \<noteq> Some account \<or> ad_opportunity_slug a \<noteq> Some slug
        \<or> ad_sequence a \<noteq> sequence
     then ops_error 409 ''association_changed''
     else if sm_latest_revision sm \<noteq> revision then ops_error 409 ''revision_superseded''
     else bnd (same_workspace resolve account slug) (\<lambda>i.
     bnd (read_st (running_job_for_source sid)) (\<lambda>running.
     case running of
       Some jid \<Rightarrow> ret (reused_answer sid jid)
     | None \<Rightarrow> bnd (as_ops (in_store (read_current account slug))) (\<lambda>current.
         bnd (read_pending sid) (\<lambda>marker.
         case first_resumable current marker account slug revision sequence of
           Some p \<Rightarrow> launch (run_args sid revision account slug i None None None) (Some p)
         | None \<Rightarrow>
             if current \<noteq> None then ops_error 409 ''overview_exists''
             else bnd (read_st (\<lambda>w. active_opportunity_state_job account slug (w_jobs w))) (\<lambda>active.
               if active \<noteq> None then ops_error 409 ''create_in_progress''
               else start_first_fresh sm (run_args sid revision account slug i None None (Some sequence)) marker))))))"

text \<open>The job: the closure, then the outcome in the job's record.\<close>

definition result_members :: "run_result \<Rightarrow> members" where
  "result_members r = [(''run_id'', JStr (rr_run_id r)), (''result_revision'', JInt (int (rr_revision r))),
     (''result_version_id'', JStr (rr_version_id r)),
     (''processing_outcome'', JStr (if rr_outcome r = Superseded then ''superseded'' else ''processed'')),
     (''resumed'', JBool (rr_resumed r)), (''actions_created'', jtexts (ag_created (rr_applied r))),
     (''actions_linked'', jtexts (ag_linked (rr_applied r))),
     (''completion_suggestions'', jtexts (ag_suggested (rr_applied r))),
     (''possible_duplicates'', jtexts (ag_duplicates (rr_applied r)))]"

definition run_plan_op :: "identity_resolver \<Rightarrow> executor \<Rightarrow> run_plan \<Rightarrow> (world, run_result) op" where
  "run_plan_op resolve execute p = (case p of
     ResumePlan m \<Rightarrow> resume_run m | ReconcilePlan g \<Rightarrow> reconcile resolve execute g)"

definition run_job :: "identity_resolver \<Rightarrow> executor \<Rightarrow> string \<Rightarrow> run_plan \<Rightarrow> (world, unit) op" where
  "run_job resolve execute jid p w = (case run_plan_op resolve execute p w of
     (r, w') \<Rightarrow> in_jobs (finish_job jid (map_sum id result_members r)) w')"

end
