(* ===== verification/Corrections.thy ===== *)
theory Corrections
  imports Reconcile
begin

section \<open>Association corrections\<close>

text \<open>
  The association wrappers of \<^verbatim>\<open>command_center_operations_service.py\<close>: confirming or clearing the
  association of a source retracts what the source contributed to the opportunity it leaves, and
  reverts or retires that opportunity's overview.  The ledger decision and the repair of the
  derived views happen under one lock.
\<close>

record reversion =
  rv_from_revision :: nat
  rv_to_revision :: "nat option"
  rv_restored_revision :: "nat option"
  rv_version_id :: string

record correction =
  cr_actions :: "string list"
  cr_evidence :: "string list"
  cr_suggestions :: "string list"
  cr_reverted :: "reversion option"
  cr_reprocess :: "string list"

definition empty_correction :: correction where
  "empty_correction = \<lparr>cr_actions = [], cr_evidence = [], cr_suggestions = [], cr_reverted = None, cr_reprocess = []\<rparr>"

text \<open>Where a source came from and where it goes.\<close>

record move =
  mv_source_id :: string
  mv_account :: string
  mv_slug :: string
  mv_to_account :: "string option"
  mv_to_slug :: "string option"
  mv_reason :: string

definition user_change ::
  "move \<Rightarrow> change_type \<Rightarrow> string \<Rightarrow> members \<Rightarrow> members \<Rightarrow> source_ref option \<Rightarrow> datetime \<Rightarrow> string \<Rightarrow> (world, unit) op" where
  "user_change m ct subject before after src now link =
     bnd (append_change (mv_account m) (mv_slug m) \<lparr>cg_type = ct, cg_subject_id = subject, cg_before = before,
       cg_after = after, cg_source = src, cg_actor = User, cg_occurred_at = now, cg_link = link\<rparr>) (\<lambda>_. ret ())"

subsection \<open>Retracting what a source contributed to an action\<close>

definition originates :: "move \<Rightarrow> action \<Rightarrow> bool" where
  "originates m a \<longleftrightarrow> sr_source_id (act_origin a) = mv_source_id m \<and> act_retraction a = None"

definition contributes :: "move \<Rightarrow> action \<Rightarrow> bool" where
  "contributes m a \<longleftrightarrow> sr_source_id (act_origin a) \<noteq> mv_source_id m
     \<and> mv_source_id m \<in> set (map sr_source_id (act_evidence a))
     \<and> mv_source_id m \<notin> set (retracted_source_ids a)"

definition suggests :: "move \<Rightarrow> action \<Rightarrow> bool" where
  "suggests m a \<longleftrightarrow> list_ex (\<lambda>s. sr_source_id (cs_source s) = mv_source_id m \<and> cs_retracted_at s = None)
     (act_suggestions a)"

definition retract_suggestions :: "move \<Rightarrow> datetime \<Rightarrow> suggestion list \<Rightarrow> suggestion list" where
  "retract_suggestions m now ss = map (\<lambda>s.
     if sr_source_id (cs_source s) = mv_source_id m \<and> cs_retracted_at s = None
     then s\<lparr>cs_retracted_at := Some now\<rparr> else s) ss"

definition retraction_of :: "move \<Rightarrow> datetime \<Rightarrow> retraction" where
  "retraction_of m now = \<lparr>rt_from_account = mv_account m, rt_from_slug = mv_slug m, rt_to_account = mv_to_account m,
     rt_to_slug = mv_to_slug m, rt_reason = mv_reason m, rt_recorded_at = now\<rparr>"

definition evidence_retraction_of :: "move \<Rightarrow> datetime \<Rightarrow> evidence_retraction" where
  "evidence_retraction_of m now = \<lparr>er_source_id = mv_source_id m, er_reason = mv_reason m, er_recorded_at = now\<rparr>"

text \<open>The action after the retraction; the constructors of the new parts may raise.\<close>

definition retracted_action :: "move \<Rightarrow> datetime \<Rightarrow> action \<Rightarrow> exn + action" where
  "retracted_action m now a =
     (if originates m a \<and> \<not> valid_retraction (retraction_of m now) then Inl ValidationError
      else if contributes m a \<and> \<not> valid_evidence_retraction (evidence_retraction_of m now) then Inl ValidationError
      else Inr (a\<lparr>
        act_retraction := (if originates m a then Some (retraction_of m now) else act_retraction a),
        act_evidence_retractions := (if contributes m a
          then act_evidence_retractions a @ [evidence_retraction_of m now] else act_evidence_retractions a),
        act_suggestions := retract_suggestions m now (act_suggestions a),
        act_updated_at := now\<rparr>))"

definition retraction_changes :: "move \<Rightarrow> datetime \<Rightarrow> action \<Rightarrow> action \<Rightarrow> (world, unit) op" where
  "retraction_changes m now a a' =
     (let st = (''status'', JStr (status_value (act_status a))); link = action_link (act_id a) in
      bnd (if originates m a
           then user_change m AssociationCorrected (act_id a)
             [(''account'', JStr (mv_account m)), (''opportunity_slug'', JStr (mv_slug m)), st]
             [(''account'', jtext (mv_to_account m)), (''opportunity_slug'', jtext (mv_to_slug m)), (''retracted'', JBool True)]
             (Some (act_origin a)) now link
           else ret ()) (\<lambda>_.
      bnd (if contributes m a
           then user_change m EvidenceRetracted (act_id a)
             [(''evidence_count'', JInt (int (length (effective_evidence a))))]
             [(''evidence_count'', JInt (int (length (effective_evidence a')))), (''source_id'', JStr (mv_source_id m))]
             None now link
           else ret ()) (\<lambda>_.
      if suggests m a
      then user_change m CompletionSuggestionRetracted (act_id a) [st] [st, (''source_id'', JStr (mv_source_id m))]
        None now link
      else ret ())))"

definition noted :: "move \<Rightarrow> action \<Rightarrow> correction \<Rightarrow> correction" where
  "noted m a c = c\<lparr>
     cr_actions := cr_actions c @ (if originates m a then [act_id a] else []),
     cr_evidence := cr_evidence c @ (if contributes m a then [act_id a] else []),
     cr_suggestions := cr_suggestions c @ (if suggests m a then [act_id a] else [])\<rparr>"

definition retract_action :: "move \<Rightarrow> datetime \<Rightarrow> action \<Rightarrow> correction \<Rightarrow> (world, correction) op" where
  "retract_action m now a c =
     (if \<not> originates m a \<and> \<not> contributes m a \<and> \<not> suggests m a then ret c
      else bnd (of_sum (retracted_action m now a)) (\<lambda>a'.
        bnd (write_action a') (\<lambda>_. bnd (retraction_changes m now a a') (\<lambda>_. ret (noted m a c)))))"

subsection \<open>Reverting the overview\<close>

text \<open>The revert entries cite a source by the prefix of its evidence IDs, as \<open>cites\<close> does.\<close>

definition dropped_evidence :: "string \<Rightarrow> version \<Rightarrow> version \<Rightarrow> string list" where
  "dropped_evidence sid current target = sort (remdups (map me_id (filter (\<lambda>e. me_type e = Transcript
     \<and> me_id e \<notin> set (map me_id (vs_manifest target)) \<and> \<not> startswith (me_id e) (sid @ ''_r''))
     (vs_manifest current))))"

text \<open>\<^verbatim>\<open>evidence_id.rsplit("_r", 1)[0]\<close>: the text before the last occurrence.\<close>

fun before_last :: "string \<Rightarrow> string option" where
  "before_last [] = None"
| "before_last (c # cs) = (case before_last cs of
     Some p \<Rightarrow> Some (c # p)
   | None \<Rightarrow> if startswith (c # cs) ''_r'' then Some [] else None)"

definition source_of_evidence :: "string \<Rightarrow> string" where
  "source_of_evidence eid = (case before_last eid of Some p \<Rightarrow> p | None \<Rightarrow> eid)"

definition reprocess_one :: "string \<Rightarrow> string list \<Rightarrow> (world, string list) op" where
  "reprocess_one eid done = (let sid = source_of_evidence eid in
     catch (bnd (in_ledger (request_reprocessing sid ''overview_reverted'')) (\<lambda>_. ret (done @ [sid])))
       (\<lambda>e. case e of EvidenceLedgerError _ _ \<Rightarrow> ret done | _ \<Rightarrow> raise e))"

definition no_model_provenance :: provenance where
  "no_model_provenance = \<lparr>gp_updater_version = updater_version, gp_model = ''none'',
     gp_runtime = ''association_correction'', gp_cli_version = ''n/a''\<rparr>"

definition retired_change :: "move \<Rightarrow> retirement \<Rightarrow> datetime \<Rightarrow> (world, unit) op" where
  "retired_change m r now = bnd (change_exists (mv_account m) (mv_slug m) OverviewRetired (re_version_id r)) (\<lambda>known.
     if known then ret ()
     else user_change m OverviewRetired (re_version_id r)
       [(''revision'', JInt 1), (''version_id'', JStr (re_version_id r))]
       [(''status'', JStr ''retired''), (''retracted_source_id'', JStr (mv_source_id m)), (''reason'', JStr (re_reason r))]
       None now (history_link (mv_account m) (mv_slug m) 1))"

definition reverted_change ::
  "move \<Rightarrow> version \<Rightarrow> version \<Rightarrow> version \<Rightarrow> string list \<Rightarrow> datetime \<Rightarrow> (world, unit) op" where
  "reverted_change m current target v dropped now = user_change m OverviewReverted (vs_version_id v)
     [(''revision'', JInt (int (vs_revision current))), (''version_id'', JStr (vs_version_id current))]
     [(''revision'', JInt (int (vs_revision v))), (''version_id'', JStr (vs_version_id v)),
      (''restored_revision'', JInt (int (vs_revision target))), (''retracted_source_id'', JStr (mv_source_id m)),
      (''dropped_evidence_ids'', jtexts dropped), (''reason'', JStr (mv_reason m))]
     None now (history_link (mv_account m) (mv_slug m) (vs_revision v))"

definition promote_target :: "version \<Rightarrow> version \<Rightarrow> (world, version) op" where
  "promote_target current target = as_ops (in_store (promote_update (vs_identity current) (vs_version_id current)
     (vs_revision current) (vs_manifest target) (vs_manifest_hash target) no_model_provenance (vs_state target)))"

definition revert_to ::
  "move \<Rightarrow> datetime \<Rightarrow> version \<Rightarrow> version \<Rightarrow> (world, (reversion \<times> string list) option) op" where
  "revert_to m now current target =
     (let dropped = dropped_evidence (mv_source_id m) current target in
      bnd (promote_target current target) (\<lambda>v.
      bnd (fold_op reprocess_one dropped []) (\<lambda>reprocess.
      bnd (reverted_change m current target v dropped now) (\<lambda>_.
      ret (Some (\<lparr>rv_from_revision = vs_revision current, rv_to_revision = Some (vs_revision v),
        rv_restored_revision = Some (vs_revision target), rv_version_id = vs_version_id v\<rparr>, reprocess))))))"

definition revert_overview :: "move \<Rightarrow> datetime \<Rightarrow> (world, (reversion \<times> string list) option) op" where
  "revert_overview m now = bnd (ops_retirement_info (mv_account m) (mv_slug m)) (\<lambda>marker.
     case marker of
       Some r \<Rightarrow>
         if re_source_id r \<noteq> mv_source_id m then ops_error 409 ''overview_retired''
         else bnd (retired_change m r now) (\<lambda>_. ret (Some (\<lparr>rv_from_revision = 1, rv_to_revision = None,
           rv_restored_revision = None, rv_version_id = re_version_id r\<rparr>, [])))
     | None \<Rightarrow> bnd (as_ops (in_store (read_current (mv_account m) (mv_slug m)))) (\<lambda>current.
         case current of
           None \<Rightarrow> ret None
         | Some cur \<Rightarrow>
             if \<not> cites cur (mv_source_id m) then ret None
             else bnd (in_store (read_history (mv_account m) (mv_slug m))) (\<lambda>history.
               let clean = filter (\<lambda>v. \<not> cites v (mv_source_id m)) history in
               if clean = [] then ops_error 409 ''overview_unrecoverable''
               else revert_to m now cur (last clean))))"

definition retract_source :: "move \<Rightarrow> bool \<Rightarrow> (world, correction) op" where
  "retract_source m revert = bnd ops_now (\<lambda>now.
     bnd (read_pending (mv_source_id m)) (\<lambda>marker.
     bnd (case marker of
            Some p \<Rightarrow> if pa_account p = mv_account m \<and> pa_slug p = mv_slug m
              then remove_pending (mv_source_id m) else ret ()
          | None \<Rightarrow> ret ()) (\<lambda>_.
     bnd (opportunity_actions (mv_account m) (mv_slug m)) (\<lambda>as.
     bnd (fold_op (retract_action m now) as empty_correction) (\<lambda>c.
     bnd (if revert then revert_overview m now else ret None) (\<lambda>reverted.
     ret (case reverted of
       None \<Rightarrow> c
     | Some (rv, reprocess) \<Rightarrow> c\<lparr>cr_reverted := Some rv, cr_reprocess := reprocess\<rparr>)))))))"

subsection \<open>Whether a correction can be undone in the overview\<close>

definition only_source :: "string \<Rightarrow> version \<Rightarrow> bool" where
  "only_source sid v \<longleftrightarrow> list_all (\<lambda>e. me_type e = OpportunityMetadata
     \<or> (me_type e = Transcript \<and> startswith (me_id e) (sid @ ''_r''))) (vs_manifest v)"

definition assert_revert_possible :: "string \<Rightarrow> string \<Rightarrow> string \<Rightarrow> (world, version option) op" where
  "assert_revert_possible sid account slug = bnd (ops_retirement_info account slug) (\<lambda>marker.
     case marker of
       Some r \<Rightarrow> if re_source_id r = sid then ret None else ops_error 409 ''overview_retired''
     | None \<Rightarrow> bnd (as_ops (in_store (read_current account slug))) (\<lambda>current.
         case current of
           None \<Rightarrow> ret None
         | Some cur \<Rightarrow>
             if \<not> cites cur sid then ret None
             else bnd (as_ops (in_store (read_history account slug))) (\<lambda>history.
               if \<not> list_all (\<lambda>v. cites v sid) history then ret None
               else bnd (opportunity_actions account slug) (\<lambda>as.
                 let touched = list_ex human_touched (filter (\<lambda>a. sr_source_id (act_origin a) = sid) as) in
                 if length history = 1 \<and> vs_revision cur = 1 \<and> only_source sid cur \<and> \<not> touched then ret (Some cur)
                 else ops_error 409 ''overview_unrecoverable''))))"

definition retire_first :: "string \<Rightarrow> string \<Rightarrow> string \<Rightarrow> version \<Rightarrow> string \<Rightarrow> (world, unit) op" where
  "retire_first sid account slug first reason = as_ops (bnd (in_store (retire_first_overview account slug sid
     (vs_version_id first) reason)) (\<lambda>_. ret ()))"

text \<open>
  \<^verbatim>\<open>_retired_prior_association\<close>: a correction that committed its ledger decision before it
  retracted the views is resumed.
\<close>

definition retired_prior_association :: "string \<Rightarrow> source_summary \<Rightarrow> (world, assoc_decision option) op" where
  "retired_prior_association sid sm =
     (let history = (case sm_history sm of None \<Rightarrow> [] | Some h \<Rightarrow> h) in
      if length history < 2 then ret None
      else let prior = history ! (length history - 2) in
        if ad_state prior \<noteq> Associated then ret None
        else let account = the (ad_account prior); slug = the (ad_opportunity_slug prior) in
          bnd (ops_retirement_info account slug) (\<lambda>marker.
          case marker of
            None \<Rightarrow> ret None
          | Some r \<Rightarrow>
              if re_source_id r \<noteq> sid then ret None
              else bnd (opportunity_actions account slug) (\<lambda>as.
                if list_ex (\<lambda>a. sr_source_id (act_origin a) = sid \<and> act_retraction a = None) as then ret (Some prior)
                else bnd (change_exists account slug OverviewRetired (re_version_id r)) (\<lambda>known.
                  ret (if known then None else Some prior)))))"

subsection \<open>The wrappers\<close>

definition leave ::
  "string \<Rightarrow> assoc_decision \<Rightarrow> string option \<Rightarrow> string option \<Rightarrow> string \<Rightarrow> move" where
  "leave sid d to_account to_slug reason = \<lparr>mv_source_id = sid, mv_account = the (ad_account d),
     mv_slug = the (ad_opportunity_slug d), mv_to_account = to_account, mv_to_slug = to_slug, mv_reason = reason\<rparr>"

definition retire_if_first :: "string \<Rightarrow> assoc_decision \<Rightarrow> string \<Rightarrow> (world, unit) op" where
  "retire_if_first sid before reason =
     (let account = the (ad_account before); slug = the (ad_opportunity_slug before) in
      bnd (assert_revert_possible sid account slug) (\<lambda>first. case first of
        None \<Rightarrow> ret ()
      | Some v \<Rightarrow> retire_first sid account slug v reason))"

definition resume_correction ::
  "string \<Rightarrow> source_summary \<Rightarrow> string option \<Rightarrow> string option \<Rightarrow> string \<Rightarrow> (world, correction) op" where
  "resume_correction sid sm to_account to_slug reason = bnd (retired_prior_association sid sm) (\<lambda>origin.
     case origin of
       None \<Rightarrow> ret empty_correction
     | Some d \<Rightarrow> retract_source (leave sid d to_account to_slug reason) True)"

definition confirm_and_correct ::
  "identity_resolver \<Rightarrow> string \<Rightarrow> string \<Rightarrow> string \<Rightarrow> string \<Rightarrow> (world, source_summary \<times> correction) op" where
  "confirm_and_correct resolve sid account slug reason = bnd (resolve account slug) (\<lambda>i.
     bnd (in_ledger (get_source sid)) (\<lambda>sm.
     let before = sm_association sm in
     bnd (if ad_state before = Associated
             \<and> (ad_account before \<noteq> Some (safe_account i) \<or> ad_opportunity_slug before \<noteq> Some (safe_opp i))
          then retire_if_first sid before reason else ret ()) (\<lambda>_.
     bnd (in_ledger (confirm_association sid (Inr i) reason Explicit None)) (\<lambda>summary.
     let after = sm_association summary in
     bnd (if ad_state before = Associated
             \<and> (ad_account before \<noteq> ad_account after \<or> ad_opportunity_slug before \<noteq> ad_opportunity_slug after)
          then retract_source (leave sid before (ad_account after) (ad_opportunity_slug after) reason) True
          else resume_correction sid sm (ad_account after) (ad_opportunity_slug after) reason) (\<lambda>c.
     ret (summary, c))))))"

definition clear_and_correct :: "string \<Rightarrow> string \<Rightarrow> (world, source_summary \<times> correction) op" where
  "clear_and_correct sid reason = bnd (in_ledger (get_source sid)) (\<lambda>sm.
     let before = sm_association sm in
     bnd (if ad_state before = Associated then retire_if_first sid before reason else ret ()) (\<lambda>_.
     bnd (in_ledger (clear_association sid reason None)) (\<lambda>summary.
     bnd (if ad_state before = Associated then retract_source (leave sid before None None reason) True
          else resume_correction sid sm None None reason) (\<lambda>c.
     ret (summary, c)))))"

end
