(* ===== verification/Ops_Facts.thy ===== *)
theory Ops_Facts
  imports Start Corrections Ledger_Facts State_Facts
begin

section \<open>Facts about the operations service\<close>

text \<open>
  What the properties of the operations service rest on: which part of the world a call can
  change, the accepted state that a failing run keeps, the round trip of action records, and
  the log of changes.
\<close>

subsection \<open>The accepted state\<close>

text \<open>What the users have accepted: the overviews, the actions and the log of changes.\<close>

definition same_accepted :: "world \<Rightarrow> world \<Rightarrow> bool" where
  "same_accepted w w' \<longleftrightarrow> ss_dirs (w_store w') = ss_dirs (w_store w) \<and> w_actions w' = w_actions w
     \<and> w_changes w' = w_changes w"

interpretation accepted: state_relation same_accepted
  by unfold_locales (auto simp: same_accepted_def)

lemma accepted_in_ledger: "obeys same_accepted (in_ledger m)"
  unfolding in_ledger_def by (rule accepted.obeys_zoom) (simp add: same_accepted_def)

lemma accepted_in_jobs: "obeys same_accepted (in_jobs m)"
  unfolding in_jobs_def by (rule accepted.obeys_zoom) (simp add: same_accepted_def)

lemma accepted_in_store: "obeys (=) m \<Longrightarrow> obeys same_accepted (in_store m)"
  unfolding in_store_def by (rule accepted.obeys_zoom) (auto simp: same_accepted_def dest: obeysD)

lemma accepted_ops_now: "obeys same_accepted ops_now"
  by (auto simp: obeys_def ops_now_def same_accepted_def)

lemma accepted_modify:
  "(\<And>w. w_store (f w) = w_store w \<and> w_actions (f w) = w_actions w \<and> w_changes (f w) = w_changes w)
   \<Longrightarrow> obeys same_accepted (modify_st f)"
  by (rule accepted.obeys_modify) (simp add: same_accepted_def)

lemmas accepted_base = accepted.obeys_bnd accepted.obeys_if accepted.obeys_catch accepted.obeys_basic
  accepted_in_ledger accepted_in_jobs accepted_in_store accepted_ops_now accepted_modify
  accepted.obeys_map_op accepted.obeys_fold_op accepted.obeys_filter_op
  obeys_read_current obeys_read_history obeys_retirement_info

lemma accepted_as_ops: "obeys same_accepted m \<Longrightarrow> obeys same_accepted (as_ops m)"
  unfolding as_ops_def by (intro accepted_base) (auto intro!: accepted_base split: exn.split)

lemma accepted_ledger_as_ops: "obeys same_accepted m \<Longrightarrow> obeys same_accepted (ledger_as_ops m)"
  unfolding ledger_as_ops_def by (intro accepted_base) (auto intro!: accepted_base split: exn.split)

lemma accepted_workspace_id: "obeys same_accepted ops_workspace_id"
  unfolding ops_workspace_id_def by (intro accepted_base)

lemma accepted_read_record: "obeys same_accepted (read_record wid f)"
  unfolding read_record_def by (auto intro!: accepted_base accepted_workspace_id split: stored.split)

lemma accepted_runs_dir: "obeys same_accepted (runs_dir sid)"
  unfolding runs_dir_def by (intro accepted_base)

lemma accepted_write_run: "obeys same_accepted (write_run r)"
  unfolding write_run_def by (intro accepted_base accepted_runs_dir) simp

lemma accepted_write_pending: "obeys same_accepted (write_pending p)"
  unfolding write_pending_def by (intro accepted_base accepted_runs_dir) simp

lemma accepted_remove_pending: "obeys same_accepted (remove_pending sid)"
  unfolding remove_pending_def by (intro accepted_base accepted_runs_dir) simp

lemma accepted_record_terminal_run:
  "obeys same_accepted (record_terminal_run sm account slug base_id base_rev status code started extra)"
  unfolding record_terminal_run_def Let_def
  by (intro accepted_base accepted_workspace_id accepted_write_run)

lemma accepted_fail_run: "obeys same_accepted (fail_run sm g code started)"
  unfolding fail_run_def
  by (intro accepted_base accepted_record_terminal_run) (auto intro!: accepted_base split: exn.split)

lemma accepted_current_or_error: "obeys same_accepted (current_or_error account slug)"
  unfolding current_or_error_def
  by (intro accepted_base accepted_as_ops) (auto intro!: accepted_base split: option.split)

lemma accepted_check_source: "obeys same_accepted (check_source_unchanged sm revision account slug sequence)"
  unfolding check_source_unchanged_def job_error_def Let_def by (intro accepted_base)

lemma accepted_source_evidence: "obeys same_accepted (source_evidence sid revision t)"
  unfolding source_evidence_def Let_def
  by (intro accepted_base) (auto intro!: accepted_base split: exn.split)

lemma accepted_first_manifest: "obeys same_accepted (first_manifest g ev)"
  unfolding first_manifest_def job_error_def
  by (intro accepted_base) (auto intro!: accepted_base split: exn.split)

lemma accepted_next_manifest: "obeys same_accepted (next_manifest g base ev)"
  unfolding next_manifest_def job_error_def by (intro accepted_base accepted_current_or_error)

lemma accepted_run_manifest: "obeys same_accepted (run_manifest g ev)"
  unfolding run_manifest_def by (auto intro: accepted_first_manifest accepted_next_manifest split: option.split)

lemma accepted_identity_of:
  "obeys same_accepted (resolve account slug) \<Longrightarrow> obeys same_accepted (identity_of resolve account slug)"
  unfolding identity_of_def by (intro accepted_base) (auto intro!: accepted_base split: exn.split)

lemma accepted_execute_run: "obeys same_accepted (execute q) \<Longrightarrow> obeys same_accepted (execute_run execute q)"
  unfolding execute_run_def job_error_def by (intro accepted_base) (auto intro!: accepted_base split: exn.split)

lemma accepted_check_candidate: "obeys same_accepted (check_candidate c manifest)"
  unfolding check_candidate_def job_error_def by (intro accepted_base) (auto intro!: accepted_base split: exn.split)

lemma accepted_check_metadata:
  "(\<And>a s. obeys same_accepted (resolve a s)) \<Longrightarrow> obeys same_accepted (check_metadata resolve g)"
  unfolding check_metadata_def job_error_def by (intro accepted_base accepted_identity_of)

lemma accepted_analyse_run:
  assumes "\<And>a s. obeys same_accepted (resolve a s)" and "\<And>q. obeys same_accepted (execute q)"
  shows "obeys same_accepted (analyse_run resolve execute g sm)"
  unfolding analyse_run_def
  by (auto intro!: accepted_base accepted_check_source accepted_source_evidence accepted_run_manifest
      accepted_execute_run accepted_check_candidate accepted_check_metadata assms split: prod.split)

subsection \<open>A promotion that raises\<close>

definition same_store_dirs :: "store \<Rightarrow> store \<Rightarrow> bool" where
  "same_store_dirs s s' \<longleftrightarrow> ss_dirs s' = ss_dirs s"

interpretation store_dirs: state_relation same_store_dirs
  by unfold_locales (auto simp: same_store_dirs_def)

lemma dirs_of_pure: "obeys (=) m \<Longrightarrow> obeys same_store_dirs m"
  by (auto simp: obeys_def same_store_dirs_def)

lemma dirs_draws: "obeys same_store_dirs store_now" "obeys same_store_dirs store_token"
  by (auto simp: obeys_def same_store_dirs_def store_now_def store_token_def)

lemma commit_version_fails: "fails_keep P same_store_dirs (commit_version k v)"
  by (auto simp: fails_keep_def same_store_dirs_def commit_version_def write_version_file_def write_pointer_def
      put_dir_def op_defs split: if_splits)

lemma obeys_check_manifest: "obeys (=) (check_manifest c es h)"
  by (auto simp: obeys_def check_manifest_eq)

lemma obeys_refuse_retired: "obeys (=) (refuse_retired account slug)"
  unfolding refuse_retired_def by (intro store_pure obeys_retirement_info)

lemmas fails_intros = store_dirs.fails_bnd store_dirs.fails_if commit_version_fails
  store_dirs.fails_obeys [OF store_dirs.obeys_raise] store_dirs.obeys_of_sum dirs_draws
  dirs_of_pure [OF obeys_paths] dirs_of_pure [OF obeys_read_current_raw]
  dirs_of_pure [OF obeys_check_manifest] dirs_of_pure [OF obeys_refuse_retired]

lemma promote_create_fails: "fails_keep P same_store_dirs (promote_create i es h prov c)"
  unfolding promote_create_def by (auto intro!: fails_intros split: prod.split)

lemma promote_update_fails: "fails_keep P same_store_dirs (promote_update i pid prev es h prov c)"
  unfolding promote_update_def by (auto intro!: fails_intros split: prod.split option.split)

lemma in_store_fails: "fails_keep P same_store_dirs m \<Longrightarrow> fails_keep P same_accepted (in_store m)"
  by (force simp: fails_keep_def same_accepted_def same_store_dirs_def in_store_def zoom_def split: prod.splits)

lemma promote_run_fails: "fails_keep P same_accepted (promote_run g es h r)"
  unfolding promote_run_def
  by (intro accepted.fails_bnd accepted_base)
    (auto intro: in_store_fails promote_create_fails promote_update_fails split: option.split)

lemma promote_or_clear_fails: "fails_keep P same_accepted (promote_or_clear g es h r)"
  unfolding promote_or_clear_def job_error_def
  by (intro accepted.fails_catch promote_run_fails accepted_base accepted_remove_pending)
    (auto intro!: accepted_base split: exn.split)

subsection \<open>A run that raises\<close>

lemma pending_ref_valid: "valid_pending p \<Longrightarrow> valid_ref (pending_ref p)"
  by (simp add: valid_pending_def valid_ref_def pending_ref_def revision_ok_def)

lemma apply_incomplete_raises: "\<exists>w'. apply_incomplete p v sm e w = (Inl (ManagedJobError ''apply_incomplete''), w')"
proof -
  have always: "\<exists>w'. catch (bnd m (\<lambda>_. ret ())) (\<lambda>_. ret ()) w = (Inr (), w')" for m :: "(world, 'b) op" and w
    by (auto simp: op_defs split: prod.splits sum.splits)
  show ?thesis
    unfolding apply_incomplete_def job_error_def
    using always [of "record_terminal_run sm (pa_account p) (pa_slug p) (pa_base_version_id p) (pa_base_revision p)
        RunApplyIncomplete (Some (exn_class e)) (pa_started_at p) (PromotedExtra v)" w]
    by (auto simp: bnd_def raise_def)
qed

text \<open>Once promoted, a run returns or ends as \<^verbatim>\<open>apply_incomplete\<close>.\<close>

lemma complete_error:
  assumes "valid_pending p" and "complete p v sm txt resumed w = (Inl e, w')"
  shows "e = ManagedJobError ''apply_incomplete''"
proof -
  have run: "catch (complete_steps p v sm (pending_ref p) txt resumed) (apply_incomplete p v sm) w = (Inl e, w')"
    using assms pending_ref_valid [OF assms(1)] by (simp add: complete_def mk_ref_def bnd_def of_sum_def)
  obtain r w1 where steps: "complete_steps p v sm (pending_ref p) txt resumed w = (r, w1)" by (rule prod.exhaust)
  show ?thesis
  proof (cases r)
    case (Inl e1)
    with run steps apply_incomplete_raises [of p v sm e1 w1, where 'a = run_result] show ?thesis
      by (auto simp: catch_def)
  next
    case (Inr x)
    with run steps show ?thesis by (simp add: catch_def)
  qed
qed

text \<open>The exceptions that say nothing was accepted.\<close>

definition clean_failure :: "exn \<Rightarrow> bool" where
  "clean_failure e \<longleftrightarrow> e \<noteq> ManagedJobError ''apply_incomplete''"

lemma fails_bnd_last:
  assumes "fails_keep P R m" and "\<And>x. fails_keep P (\<lambda>_ _. False) (f x)"
  shows "fails_keep P R (bnd m f)"
  unfolding fails_keep_def
proof (intro allI impI)
  fix s e s' assume "bnd m f s = (Inl e, s')" and "P e"
  then show "R s s'"
    by (cases rule: bnd_cases) (use assms in \<open>auto dest: fails_keepD\<close>)
qed

lemma commit_run_fails: "fails_keep clean_failure same_accepted (commit_run g ev manifest r t started sm)"
proof -
  have completes: "fails_keep clean_failure (\<lambda>_ _. False) (complete p v sm src resumed)" if "mk_pending q = Inr p"
    for q p v src resumed
    using that complete_error by (intro fails_never) (auto simp: mk_pending_def clean_failure_def split: if_splits)
  show ?thesis
    unfolding commit_run_def
    apply (rule accepted.fails_bnd [OF accepted_check_source])
    apply (rule accepted.fails_bnd [OF accepted_workspace_id])
    apply (rule fails_of_sum_bnd [OF accepted.R_refl])
    apply (rule accepted.fails_bnd [OF accepted_write_pending])
    apply (rule fails_bnd_last [OF promote_or_clear_fails])
    apply (erule completes)
    done
qed

text \<open>A failing run: everything before the promotion keeps the accepted state, and a promotion that
  is followed by an exception ends as \<^verbatim>\<open>apply_incomplete\<close>.\<close>

lemma guarded_fails:
  assumes "fails_keep clean_failure same_accepted m"
  shows "fails_keep clean_failure same_accepted (guarded sm g started m)"
  unfolding fails_keep_def
proof (intro allI impI)
  fix w e w'
  assume run: "guarded sm g started m w = (Inl e, w')" and e: "clean_failure e"
  obtain r w1 where m: "m w = (r, w1)" by (rule prod.exhaust)
  with run obtain e1 where e1: "r = Inl e1" by (cases r) (auto simp: guarded_def catch_def)
  have keep: "obeys same_accepted (bnd (fail_run sm g code started) (\<lambda>_. raise ex :: (world, 'a) op))" for code ex
    by (intro accepted_base accepted_fail_run)
  have "clean_failure e1" using run m e1 e by (auto simp: guarded_def catch_def raise_def clean_failure_def)
  then have "same_accepted w w1" using assms m e1 by (auto dest: fails_keepD)
  moreover have "same_accepted w1 w'"
    using run m e1 keep accepted.R_refl
    by (auto simp: guarded_def catch_def raise_def job_error_def split: exn.splits if_splits dest: obeysD)
  ultimately show "same_accepted w w'" by (rule accepted.R_trans)
qed

lemma accepted_guarded: "obeys same_accepted m \<Longrightarrow> obeys same_accepted (guarded sm g started m)"
  unfolding guarded_def job_error_def
  by (intro accepted_base) (auto intro!: accepted_base accepted_fail_run split: exn.split)

lemma reconcile_fails:
  assumes "\<And>a s. obeys same_accepted (resolve a s)" and "\<And>q. obeys same_accepted (execute q)"
  shows "fails_keep clean_failure same_accepted (reconcile resolve execute g)"
  unfolding reconcile_def
  by (intro accepted.fails_bnd accepted_ops_now accepted_in_ledger accepted_guarded accepted.obeys_bnd
      accepted_analyse_run assms accepted.obeys_ret)
    (auto intro!: guarded_fails commit_run_fails split: prod.split)

subsection \<open>The change log\<close>

text \<open>Numbered from one without gaps, as \<^verbatim>\<open>_append_change\<close> numbers it.\<close>

definition log_ok :: "world \<Rightarrow> bool" where
  "log_ok w \<longleftrightarrow> (\<forall>d. map fst (changes_at w d) = [1..<Suc (length (changes_at w d))])"

definition log_extends :: "world \<Rightarrow> world \<Rightarrow> bool" where
  "log_extends w w' \<longleftrightarrow> (log_ok w \<longrightarrow> log_ok w' \<and> (\<forall>d. \<exists>es. changes_at w' d = changes_at w d @ es))"

interpretation log_ext: state_relation log_extends
proof
  show "log_extends s s" for s by (auto simp: log_extends_def)
  show "log_extends s u" if "log_extends s t" and "log_extends t u" for s t u
    using that unfolding log_extends_def by (metis append.assoc)
qed

lemma log_extends_same: "w_changes w' = w_changes w \<Longrightarrow> log_extends w w'"
  by (auto simp: log_extends_def log_ok_def changes_at_def)

lemma update_fresh: "k \<notin> fst ` set l \<Longrightarrow> AList.update k v l = l @ [(k, v)]"
  by (induction l) auto

lemma changes_at_append:
  assumes "map fst (changes_at w d) = [1..<Suc (length (changes_at w d))]"
    and "w_changes w' = AList.update d (AList.update (length (changes_at w d) + 1) f (changes_at w d)) (w_changes w)"
  shows "changes_at w' d' = (if d' = d then changes_at w d @ [(length (changes_at w d) + 1, f)] else changes_at w d')"
proof (cases "d' = d")
  case True
  let ?l = "changes_at w d" let ?n = "length ?l + 1"
  have fresh: "?n \<notin> fst ` set ?l"
    unfolding set_map [symmetric] assms(1) by simp
  have "map fst (?l @ [(?n, f)]) = [1..<Suc ?n]" using assms(1) by simp
  then have "sorted (map fst (?l @ [(?n, f)]))" by (simp only: sorted_upt)
  then have "sort_key fst (?l @ [(?n, f)]) = ?l @ [(?n, f)]" by (rule sort_key_id_if_sorted)
  moreover have "changes_at w' d = sort_key fst (AList.update ?n f ?l)"
    unfolding changes_at_def [of w'] by (simp only: assms(2) map_of_dir_update fun_upd_same option.case)
  ultimately have "changes_at w' d = ?l @ [(?n, f)]" by (simp only: update_fresh [OF fresh])
  with True show ?thesis by simp
next
  case False
  then show ?thesis using assms(2) by (simp add: changes_at_def)
qed

text \<open>The workspace a record is checked against depends on the ledger only.\<close>

definition own_id :: "ledger \<Rightarrow> exn + string" where
  "own_id l = (case fst (scope l) of Inl e \<Rightarrow> Inl e | Inr sc \<Rightarrow> Inr (workspace_id sc))"

lemma ops_workspace_id_eq: "ops_workspace_id w = (own_id (w_ledger w), w)"
proof -
  obtain q l where sc: "scope (w_ledger w) = (q, l)" by (rule prod.exhaust)
  then have "l = w_ledger w" by (rule pureD [OF obeys_scope])
  with sc show ?thesis
    by (cases q) (simp_all add: ops_workspace_id_def in_ledger_def zoom_def bnd_def ret_def own_id_def)
qed

lemma append_changeE:
  assumes "append_change account slug g w = (r, w')"
  obtains (err) e n where "r = Inl e" and "w' = w\<lparr>w_ticks := n\<rparr>"
    | (ok) n wid now c where "r = Inr c" and "safe_token account" and "safe_token slug"
      and "n = length (changes_at w (account @ ''__'' @ slug)) + 1" and "own_id (w_ledger w) = Inr wid"
      and "c = build_change account slug g n wid (w_actor w) now"
      and "w' = w\<lparr>w_ticks := Suc (w_ticks w), w_changes := AList.update (account @ ''__'' @ slug)
        (AList.update n (Intact c) (changes_at w (account @ ''__'' @ slug))) (w_changes w)\<rparr>"
proof -
  let ?u = "w\<lparr>w_ticks := Suc (w_ticks w)\<rparr>" let ?d = "account @ ''__'' @ slug"
  let ?n = "length (changes_at w ?d) + 1"
  have ch: "changes_at ?u ?d = changes_at w ?d" by (simp add: changes_at_def)
  consider (scope) "\<not> (safe_token account \<and> safe_token slug)"
    | (ledger) e where "safe_token account" "safe_token slug" "own_id (w_ledger w) = Inl e"
    | (fine) i where "safe_token account" "safe_token slug" "own_id (w_ledger w) = Inr i"
    by (cases "own_id (w_ledger w)") auto
  then show ?thesis
  proof cases
    case scope
    have "w' = w\<lparr>w_ticks := w_ticks w\<rparr> \<and> r = Inl (CommandCenterOperationsError 400 ''invalid_scope'')"
      using assms scope by (auto simp: append_change_def changes_dir_def op_defs)
    then show ?thesis using that(1) by blast
  next
    case (ledger e)
    then have "r = Inl e \<and> w' = ?u"
      using assms by (auto simp: append_change_def changes_dir_def ops_now_def ops_workspace_id_eq op_defs)
    then show ?thesis using that(1) by blast
  next
    case (fine i)
    let ?c = "build_change account slug g ?n i (w_actor w) (w_clock w (w_ticks w))"
    have "(r, w') = (if \<not> valid_change ?c then (Inl ValidationError, ?u)
       else (Inr ?c, ?u\<lparr>w_changes := AList.update ?d (AList.update ?n (Intact ?c) (changes_at w ?d)) (w_changes w)\<rparr>))"
      using assms fine ch
      by (cases "valid_change ?c")
        (simp_all add: append_change_def changes_dir_def ops_now_def ops_workspace_id_eq Let_def op_defs)
    then show ?thesis using that(1) that(2) [OF _ fine(1,2) refl fine(3) refl] by (auto split: if_splits)
  qed
qed

text \<open>
  A relation of the operations' own records: it does not see the rest of the world, and an append
  to the change log keeps it.  What does not touch the accepted state keeps every such relation.
\<close>

locale ops_relation = state_relation R for R :: "world \<Rightarrow> world \<Rightarrow> bool" +
  assumes R_same: "w_actions w' = w_actions w \<Longrightarrow> w_changes w' = w_changes w \<Longrightarrow> R w w'"
    and R_append: "append_change account slug g w = (r, w') \<Longrightarrow> R w w'"
begin

lemma obeys_accepted: "obeys same_accepted m \<Longrightarrow> obeys R m"
  by (auto simp: obeys_def same_accepted_def intro: R_same)

lemma obeys_append_change: "obeys R (append_change account slug g)"
  using R_append by (rule obeysI)

lemma obeys_in_store: "obeys R (in_store m)"
  unfolding in_store_def by (rule obeys_zoom) (simp add: R_same)

lemmas obeys_simple = obeys_accepted [OF accepted_in_ledger] obeys_accepted [OF accepted_in_jobs] obeys_in_store
  obeys_accepted [OF accepted_ops_now] obeys_accepted [OF accepted_workspace_id]
  obeys_accepted [OF accepted_read_record] obeys_accepted [OF accepted_write_run]
  obeys_accepted [OF accepted_write_pending] obeys_accepted [OF accepted_remove_pending]
  obeys_accepted [OF accepted_record_terminal_run] obeys_accepted [OF accepted_fail_run]
  obeys_accepted [OF accepted_check_source] obeys_accepted [OF accepted_current_or_error]
  obeys_accepted [OF accepted_source_evidence] obeys_accepted [OF accepted_run_manifest]
  obeys_accepted [OF accepted_runs_dir] obeys_append_change

lemmas obeys_intros = obeys_bnd obeys_if obeys_catch obeys_basic obeys_simple
  obeys_map_op obeys_fold_op obeys_filter_op obeys_for_each

lemma obeys_as_ops: "obeys R m \<Longrightarrow> obeys R (as_ops m)"
  unfolding as_ops_def by (intro obeys_intros) (auto intro!: obeys_intros split: exn.split)

lemma obeys_ledger_as_ops: "obeys R m \<Longrightarrow> obeys R (ledger_as_ops m)"
  unfolding ledger_as_ops_def by (intro obeys_intros) (auto intro!: obeys_intros split: exn.split)

lemma obeys_load_action: "obeys R (load_action aid)"
  unfolding load_action_def
  by (intro obeys_intros) (auto intro!: obeys_intros split: option.split sum.split)

lemma obeys_opportunity_actions: "obeys R (opportunity_actions account slug)"
  unfolding opportunity_actions_def all_actions_def by (intro obeys_intros obeys_load_action)

lemma obeys_changes_for: "obeys R (changes_for account slug)"
  unfolding changes_for_def changes_dir_def by (intro obeys_intros)

lemma obeys_change_exists: "obeys R (change_exists account slug ct subject)"
  unfolding change_exists_def by (intro obeys_intros obeys_changes_for)

lemma obeys_append_transition_change: "obeys R (append_transition_change a a' t)"
  unfolding append_transition_change_def by (rule obeys_append_change)

lemma obeys_repair: "obeys R (repair_transition_changes as)"
  unfolding repair_transition_changes_def repair_action_def
  by (intro obeys_intros obeys_changes_for obeys_append_transition_change)

lemma obeys_ops_retirement_info: "obeys R (ops_retirement_info account slug)"
  unfolding ops_retirement_info_def by (intro obeys_as_ops obeys_intros)

lemma obeys_action_retired: "obeys R (action_retired a)"
  unfolding action_retired_def by (intro obeys_intros obeys_ops_retirement_info)

lemma obeys_visible_source: "obeys R (visible_source sid)"
  unfolding visible_source_def by (intro obeys_intros)

lemma obeys_present: "obeys R (present a)"
  unfolding present_def present_duplicate_def
  by (intro obeys_intros obeys_visible_source obeys_action_retired)
    (auto intro!: obeys_intros obeys_load_action split: option.split exn.split)

lemma obeys_refuse_forgotten: "obeys R (refuse_forgotten a)"
  unfolding refuse_forgotten_def by (intro obeys_intros)

lemma obeys_open_action: "obeys R (open_action aid)"
  unfolding open_action_def
  by (intro obeys_intros obeys_load_action obeys_refuse_forgotten obeys_action_retired obeys_repair)

lemma obeys_get_action: "obeys R (get_action aid)"
  unfolding get_action_def by (intro obeys_intros obeys_load_action obeys_refuse_forgotten obeys_present)

lemma obeys_list_actions: "obeys R (list_actions account slug status all)"
  unfolding list_actions_def Let_def
  by (intro obeys_intros obeys_opportunity_actions obeys_visible_source obeys_action_retired obeys_present)

lemma obeys_list_changes: "obeys R (list_changes account slug limit offset)"
  unfolding list_changes_def repair_def changes_dir_def read_change_def change_forgotten_def change_retired_def Let_def
  by (intro obeys_intros obeys_opportunity_actions obeys_repair obeys_ops_retirement_info obeys_load_action)
    (auto intro!: obeys_intros obeys_load_action split: exn.split)

end

interpretation log_rel: ops_relation log_extends
proof
  fix w w' :: world and account slug g r
  assume "append_change account slug g w = (r, w')"
  then show "log_extends w w'"
  proof (cases rule: append_changeE)
    case (err e n)
    then show ?thesis by (simp add: log_extends_same)
  next
    case (ok n wid now c)
    let ?d = "account @ ''__'' @ slug"
    show ?thesis
      unfolding log_extends_def
    proof (intro impI)
      assume l: "log_ok w"
      have eq: "changes_at w' d = (if d = ?d then changes_at w ?d @ [(n, Intact c)] else changes_at w d)" for d
        using changes_at_append [of w ?d w' "Intact c" d] l ok(4,7) by (simp add: log_ok_def)
      have "map fst (changes_at w' d) = [1..<Suc (length (changes_at w' d))]" for d
      proof -
        have snoc: "[1..<Suc (Suc k)] = [1..<Suc k] @ [Suc k]" for k :: nat by simp
        show ?thesis
        proof (cases "d = ?d")
          case True
          then show ?thesis using l ok(4) eq [of d] snoc by (simp add: log_ok_def del: upt_Suc)
        next
          case False
          then show ?thesis using l eq [of d] by (simp add: log_ok_def del: upt_Suc)
        qed
      qed
      then show "log_ok w' \<and> (\<forall>d. \<exists>es. changes_at w' d = changes_at w d @ es)"
        using eq by (simp add: log_ok_def)
    qed
  qed
qed (simp add: log_extends_same)

end
