(* ===== verification/Action_Life.thy ===== *)
theory Action_Life
  imports Ops_Facts
begin

section \<open>The life of an action record\<close>

text \<open>
  Every write of an action record is one step of a small state machine: a human transition, an
  undo, a further evidence link, a completion suggestion or the retraction of what a source
  contributed.  The invariants of the records are proved by induction over these steps; the
  operations of the service are then shown to move each stored record along them only.
\<close>

inductive act_step :: "action \<Rightarrow> action \<Rightarrow> bool" where
  moved: "human_transition (act_status a) (tq_to q) \<Longrightarrow> act_retraction a = None \<Longrightarrow>
    t = next_transition a (tq_to q) (tq_reason q) None me now \<Longrightarrow> act_step a (moved_action a q t now)"
| undone: "act_transitions a \<noteq> [] \<Longrightarrow> latest = last (act_transitions a) \<Longrightarrow> tr_actor latest = User \<Longrightarrow>
    tr_undoes latest = None \<Longrightarrow> tr_from latest = Some prior \<Longrightarrow>
    t = next_transition a prior reason (Some (tr_sequence latest)) me now \<Longrightarrow>
    act_step a (undone_action a latest prior t now)"
| linked: "act_step a (with_evidence b now a)"
| suggested: "act_step a (with_suggestion b now a)"
| retracted: "retracted_action m now a = Inr a' \<Longrightarrow> act_step a a'"

inductive_cases act_stepE: "act_step a a'"

lemmas act_updates = moved_action_def undone_action_def with_evidence_def with_suggestion_def retracted_action_def

subsection \<open>What no step changes\<close>

definition act_core :: "action \<Rightarrow> (string \<times> string \<times> string \<times> string) \<times> string \<times> source_ref \<times> string" where
  "act_core a = ((act_id a, act_workspace_id a, act_account a, act_slug a), act_commitment a, act_origin a, act_key a)"

lemma act_step_core: "act_step a a' \<Longrightarrow> act_core a' = act_core a"
  by (induction rule: act_step.induct) (auto simp: act_core_def act_updates split: if_splits)

subsection \<open>The chain of transitions\<close>

lemma walk_chain_append:
  "walk_chain n p (ts @ [t]) = (case walk_chain n p ts of None \<Rightarrow> None
     | Some last_st \<Rightarrow> if tr_sequence t \<noteq> n + length ts then None
         else if tr_from t \<noteq> last_st then None else Some (Some (tr_to t)))"
  by (induction ts arbitrary: n p) (auto split: option.split)

lemma chain_grows:
  assumes "action_chain_ok a" and "tr_sequence t = length (act_transitions a) + 1"
    and "tr_from t = Some (act_status a)" and "act_transitions a' = act_transitions a @ [t]"
    and "act_status a' = tr_to t"
  shows "action_chain_ok a'"
  using assms by (simp add: action_chain_ok_def walk_chain_append)

lemma act_step_chain: "act_step a a' \<Longrightarrow> action_chain_ok a \<Longrightarrow> action_chain_ok a'"
proof (induction rule: act_step.induct)
  case (moved a q t me now)
  show ?case
    by (rule chain_grows [where t = t, OF moved.prems]) (simp_all add: moved moved_action_def next_transition_def)
next
  case (undone a latest prior t reason me now)
  show ?case
    by (rule chain_grows [where t = t, OF undone.prems]) (simp_all add: undone undone_action_def next_transition_def)
qed (auto simp: action_chain_ok_def act_updates split: if_splits)

interpretation act_chain: invariant_system act_step action_chain_ok
  by unfold_locales (rule act_step_chain)

subsection \<open>Logs\<close>

lemma act_step_logs:
  "act_step a a' \<Longrightarrow> (\<exists>ts. act_transitions a' = act_transitions a @ ts) \<and> (\<exists>es. act_evidence a' = act_evidence a @ es)
     \<and> (\<exists>rs. act_evidence_retractions a' = act_evidence_retractions a @ rs)"
  by (induction rule: act_step.induct) (auto simp: act_updates split: if_splits)

interpretation transition_log: log_system act_step act_transitions
  by unfold_locales (simp add: act_step_logs)

interpretation evidence_log: log_system act_step act_evidence
  by unfold_locales (simp add: act_step_logs)

interpretation retraction_log: log_system act_step act_evidence_retractions
  by unfold_locales (simp add: act_step_logs)

subsection \<open>The responsible party and the retraction\<close>

lemma act_step_party:
  "act_step a a' \<Longrightarrow> act_party a = derive_party (act_owner a) \<Longrightarrow> act_party a' = derive_party (act_owner a')"
  by (induction rule: act_step.induct) (auto simp: act_updates split: if_splits option.split)

interpretation act_party_inv: invariant_system act_step "\<lambda>a. act_party a = derive_party (act_owner a)"
  by unfold_locales (rule act_step_party)

lemma act_step_retraction:
  "act_step a a' \<Longrightarrow> act_retraction a = Some r \<Longrightarrow> act_retraction a' = Some r"
  by (induction rule: act_step.induct) (auto simp: act_updates originates_def split: if_splits)

subsection \<open>Stored records\<close>

text \<open>\<open>stored w i a\<close>: the record of the action \<open>i\<close> is intact and is \<open>a\<close>.\<close>

definition stored_action :: "world \<Rightarrow> string \<Rightarrow> action \<Rightarrow> bool" where
  "stored_action w i a \<longleftrightarrow> map_of (w_actions w) i = Some (Intact a)"

definition same_actions :: "world \<Rightarrow> world \<Rightarrow> bool" where
  "same_actions w w' \<longleftrightarrow> w_actions w' = w_actions w"

interpretation same_acts: ops_relation same_actions
  by unfold_locales (auto simp: same_actions_def elim: append_changeE)

definition evolved :: "world \<Rightarrow> world \<Rightarrow> bool" where
  "evolved w w' \<longleftrightarrow> (\<forall>i a. stored_action w i a \<longrightarrow> (\<exists>a'. stored_action w' i a' \<and> act_step\<^sup>*\<^sup>* a a'))"

lemma evolved_same: "w_actions w' = w_actions w \<Longrightarrow> evolved w w'"
  by (auto simp: evolved_def stored_action_def)

interpretation evolves: ops_relation evolved
proof
  show "evolved s u" if "evolved s t" and "evolved t u" for s t u
    using that unfolding evolved_def by (meson rtranclp_trans)
  show "evolved w w'" if "append_change account slug g w = (r, w')" for account slug g w r w'
    using that by (cases rule: append_changeE) (simp_all add: evolved_same)
qed (simp_all add: evolved_same)

lemma evolved_write:
  assumes "stored_action w i a" and "act_step\<^sup>*\<^sup>* a a'" and "w_actions w' = AList.update i (Intact a') (w_actions w)"
  shows "evolved w w'"
  using assms by (auto simp: evolved_def stored_action_def)

lemma load_actionD:
  assumes "load_action i w = (Inr a, w')"
  shows "w' = w" "stored_action w i a" "valid_action a" "act_id a = i"
proof -
  from assms obtain f u where id: "startswith i ''act_''" "length i = 36"
    and f: "map_of (w_actions w) i = Some f" and rd: "read_record act_workspace_id f w = (Inr u, w')"
    and u: "valid_action u" "act_id u = i" "u = a"
    by (auto simp: load_action_def read_st_def bnd_def raise_def ret_def parse_action_def
        split: if_splits option.splits prod.splits sum.splits)
  obtain x where x: "f = Intact x" using rd by (cases f) (auto simp: read_record_def raise_def)
  obtain r l where sc: "scope (w_ledger w) = (r, l)" by (rule prod.exhaust)
  have l: "l = w_ledger w" using sc by (rule pureD [OF obeys_scope])
  have "w' = w \<and> u = x"
    using rd x sc l
    by (cases r) (auto simp: read_record_def ops_workspace_id_def in_ledger_def zoom_def bnd_def ret_def raise_def
        split: if_splits)
  with x f u show "w' = w" "stored_action w i a" "valid_action a" "act_id a = i"
    by (auto simp: stored_action_def)
qed

lemma open_actionD:
  assumes "open_action i w = (Inr a, w')"
  shows "stored_action w i a" "valid_action a" "act_id a = i" "w_actions w' = w_actions w"
proof -
  have "load_action i w = (Inr a, w)"
    using assms load_actionD(1)
    by (auto simp: open_action_def bnd_def raise_def ret_def split: prod.splits sum.splits if_splits)
  then show "stored_action w i a" "valid_action a" "act_id a = i" by (simp_all add: load_actionD)
  show "w_actions w' = w_actions w"
    using obeysD [OF same_acts.obeys_open_action assms] by (simp add: same_actions_def)
qed

subsection \<open>The two operations of a user\<close>

lemma act_id_moved [simp]: "act_id (moved_action a q t now) = act_id a"
  by (simp add: moved_action_def)

text \<open>What \<open>transition_action\<close> does to the records: nothing, or one step of the opened action.\<close>

lemma transition_action_cases:
  assumes "transition_action i q w = (r, w')"
  obtains (nothing) e where "r = Inl e" and "w_actions w' = w_actions w"
    | (moved) a w1 now t where "open_action i w = (Inr a, w1)" and "stored_action w i a" and "act_id a = i"
      and "act_retraction a = None" and "human_transition (act_status a) (tq_to q)"
      and "t = next_transition a (tq_to q) (tq_reason q) None (w_actor w1) now" and "valid_transition t"
      and "valid_action (moved_action a q t now)"
      and "w_actions w' = AList.update i (Intact (moved_action a q t now)) (w_actions w)"
      and "bnd (append_transition_change a (moved_action a q t now) t) (\<lambda>_. present (moved_action a q t now))
        (w1\<lparr>w_ticks := Suc (w_ticks w1), w_actions := AList.update i (Intact (moved_action a q t now)) (w_actions w1)\<rparr>)
        = (r, w')"
proof -
  obtain ra w1 where op: "open_action i w = (ra, w1)" by (rule prod.exhaust)
  have k1: "w_actions w1 = w_actions w"
    using obeysD [OF same_acts.obeys_open_action op] by (simp add: same_actions_def)
  show ?thesis
  proof (cases ra)
    case (Inl e)
    with assms op k1 have "r = Inl e \<and> w_actions w' = w_actions w" by (simp add: transition_action_def bnd_def)
    then show ?thesis using that(1) by blast
  next
    case (Inr a)
    note a = open_actionD [OF op [unfolded Inr]]
    let ?now = "w_clock w1 (w_ticks w1)" let ?u = "w1\<lparr>w_ticks := Suc (w_ticks w1)\<rparr>"
    let ?t = "next_transition a (tq_to q) (tq_reason q) None (w_actor w1) ?now"
    let ?a = "moved_action a q ?t ?now"
    consider "act_retraction a \<noteq> None \<or> \<not> human_transition (act_status a) (tq_to q)"
      | "act_retraction a = None" "human_transition (act_status a) (tq_to q)" by blast
    then show ?thesis
    proof cases
      case 1
      with assms op Inr k1 that(1) show ?thesis
        by (auto simp: transition_action_def bnd_def raise_def split: if_splits)
    next
      case 2
      have run: "(r, w') = (if \<not> valid_transition ?t then (Inl ValidationError, ?u)
          else if \<not> valid_action ?a then (Inl (CommandCenterOperationsError 400 ''invalid_action''), ?u)
          else bnd (append_transition_change a ?a ?t) (\<lambda>_. present ?a)
            (?u\<lparr>w_actions := AList.update i (Intact ?a) (w_actions w1)\<rparr>))"
        using assms op Inr 2 a(3)
        by (cases "valid_transition ?t"; cases "valid_action ?a")
          (simp_all add: transition_action_def bnd_def ops_now_def read_st_def of_sum_def mk_transition_def
            parse_action_def raise_def write_action_def modify_st_def)
      show ?thesis
      proof (cases "valid_transition ?t \<and> valid_action ?a")
        case False
        with run k1 that(1) show ?thesis by (auto split: if_splits)
      next
        case True
        let ?v = "?u\<lparr>w_actions := AList.update i (Intact ?a) (w_actions w1)\<rparr>"
        have "obeys same_actions (bnd (append_transition_change a ?a ?t) (\<lambda>_. present ?a))"
          by (intro same_acts.obeys_bnd same_acts.obeys_append_transition_change same_acts.obeys_present)
        with run True have "same_actions ?v w'" by (auto dest: obeysD [OF _ sym])
        then have "w_actions w' = AList.update i (Intact ?a) (w_actions w)" by (simp add: same_actions_def k1)
        with True run show ?thesis
          by (intro that(2) [where now = ?now and t = ?t, OF op [unfolded Inr] a(1,3) 2 refl]) simp_all
      qed
    qed
  qed
qed

lemma undo_cases:
  assumes "undo_last_transition i reason w = (r, w')"
  obtains (nothing) e where "r = Inl e" and "w_actions w' = w_actions w"
    | (undone) a w1 now t prior where "open_action i w = (Inr a, w1)" and "stored_action w i a" and "act_id a = i"
      and "tr_actor (last (act_transitions a)) = User" and "tr_undoes (last (act_transitions a)) = None"
      and "tr_from (last (act_transitions a)) = Some prior"
      and "t = next_transition a prior reason (Some (tr_sequence (last (act_transitions a)))) (w_actor w1) now"
      and "valid_transition t"
      and "w_actions w' = AList.update i (Intact (undone_action a (last (act_transitions a)) prior t now)) (w_actions w)"
proof -
  obtain ra w1 where op: "open_action i w = (ra, w1)" by (rule prod.exhaust)
  have k1: "w_actions w1 = w_actions w"
    using obeysD [OF same_acts.obeys_open_action op] by (simp add: same_actions_def)
  show ?thesis
  proof (cases ra)
    case (Inl e)
    with assms op k1 have "r = Inl e \<and> w_actions w' = w_actions w" by (simp add: undo_last_transition_def bnd_def)
    then show ?thesis using that(1) by blast
  next
    case (Inr a)
    note a = open_actionD [OF op [unfolded Inr]]
    let ?l = "last (act_transitions a)"
    show ?thesis
    proof (cases "tr_actor ?l \<noteq> User \<or> tr_undoes ?l \<noteq> None \<or> tr_from ?l = None")
      case True
      with assms op Inr k1 that(1) show ?thesis
        by (auto simp: undo_last_transition_def bnd_def raise_def Let_def split: if_splits option.splits)
    next
      case False
      then obtain prior where prior: "tr_from ?l = Some prior" and l: "tr_actor ?l = User" "tr_undoes ?l = None" by auto
      let ?now = "w_clock w1 (w_ticks w1)" let ?u = "w1\<lparr>w_ticks := Suc (w_ticks w1)\<rparr>"
      let ?t = "next_transition a prior reason (Some (tr_sequence ?l)) (w_actor w1) ?now"
      let ?a = "undone_action a ?l prior ?t ?now"
      let ?v = "?u\<lparr>w_actions := AList.update i (Intact ?a) (w_actions w1)\<rparr>"
      have run: "(r, w') = (if \<not> valid_transition ?t then (Inl ValidationError, ?u)
          else bnd (append_transition_change a ?a ?t) (\<lambda>_. present ?a) ?v)"
        using assms op Inr l prior a(3)
        by (cases "valid_transition ?t") (simp_all add: undo_last_transition_def bnd_def ops_now_def read_st_def of_sum_def mk_transition_def
            write_action_def modify_st_def undone_action_def Let_def)
      show ?thesis
      proof (cases "valid_transition ?t")
        case False
        with run k1 that(1) show ?thesis by auto
      next
        case True
        have "obeys same_actions (bnd (append_transition_change a ?a ?t) (\<lambda>_. present ?a))"
          by (intro same_acts.obeys_bnd same_acts.obeys_append_transition_change same_acts.obeys_present)
        with run True have "same_actions ?v w'" by (auto dest: obeysD [OF _ sym])
        then have "w_actions w' = AList.update i (Intact ?a) (w_actions w)" by (simp add: same_actions_def k1)
        then show ?thesis by (rule that(2) [OF op [unfolded Inr] a(1,3) l prior refl True])
      qed
    qed
  qed
qed

lemma evolves_transition: "obeys evolved (transition_action i q)"
proof (rule obeysI)
  fix w r w' assume "transition_action i q w = (r, w')"
  then show "evolved w w'"
  proof (cases rule: transition_action_cases)
    case (nothing e)
    then show ?thesis by (simp add: evolved_same)
  next
    case (moved a w1 now t)
    have "act_step a (moved_action a q t now)" using moved(5,4,6) by (rule act_step.moved)
    then show ?thesis by (rule evolved_write [OF moved(2) r_into_rtranclp moved(9)])
  qed
qed

lemma evolves_undo: "obeys evolved (undo_last_transition i reason)"
proof (rule obeysI)
  fix w r w' assume "undo_last_transition i reason w = (r, w')"
  then show "evolved w w'"
  proof (cases rule: undo_cases)
    case (nothing e)
    then show ?thesis by (simp add: evolved_same)
  next
    case (undone a w1 now t prior)
    have "act_transitions a \<noteq> []"
      using open_actionD(2) [OF undone(1)] by (auto simp: valid_action_def action_fields_ok_def)
    then have "act_step a (undone_action a (last (act_transitions a)) prior t now)"
      using undone(4,5,6,7) by (rule act_step.undone [OF _ refl])
    then show ?thesis by (rule evolved_write [OF undone(2) r_into_rtranclp undone(9)])
  qed
qed

end
