(* ===== verification/Apply_Facts.thy ===== *)
theory Apply_Facts
  imports Action_Life
begin

section \<open>Applying observations\<close>

text \<open>
  \<open>apply_observations\<close> keeps a copy of the opportunity's actions and of the keys of its changes.
  The lemmas show that the copy mirrors the store, that existing actions only gain evidence and
  suggestions, and that what one application has settled the next one leaves alone.
\<close>

subsection \<open>Growth of an action\<close>

definition grown_action :: "action \<Rightarrow> action \<Rightarrow> bool" where
  "grown_action a a' \<longleftrightarrow> (\<exists>ev sg t. a' = a\<lparr>act_evidence := act_evidence a @ ev,
     act_suggestions := act_suggestions a @ sg, act_updated_at := t\<rparr>)"

lemma grown_refl: "grown_action a a"
  unfolding grown_action_def by (intro exI [of _ "[]"] exI [of _ "act_updated_at a"]) simp

lemma grown_trans: "grown_action a b \<Longrightarrow> grown_action b c \<Longrightarrow> grown_action a c"
  unfolding grown_action_def by (elim exE, simp) ((rule exI)+, rule refl)

lemma grown_writes: "grown_action a (with_suggestion b now a)" "grown_action a (with_evidence b now a)"
  unfolding grown_action_def with_suggestion_def with_evidence_def
  by (rule exI [of _ "[]"], rule exI, rule exI, simp) (rule exI, rule exI [of _ "[]"], rule exI, simp)

lemma grown_same:
  assumes "grown_action a a'"
  shows "act_id a' = act_id a" "act_account a' = act_account a" "act_slug a' = act_slug a"
    "act_commitment a' = act_commitment a" "act_status a' = act_status a" "act_party a' = act_party a"
    "act_owner a' = act_owner a" "act_due_date a' = act_due_date a" "act_transitions a' = act_transitions a"
    "act_origin a' = act_origin a" "act_duplicate_of a' = act_duplicate_of a"
    "act_retraction a' = act_retraction a"
    "set (act_evidence a) \<subseteq> set (act_evidence a')" "set (act_suggestions a) \<subseteq> set (act_suggestions a')"
  using assms by (auto simp: grown_action_def)

lemma suggestible_grown: "grown_action a a' \<Longrightarrow> suggestible b a' = suggestible b a"
  by (simp add: suggestible_def grown_same)

subsection \<open>The mirror of the store\<close>

text \<open>
  \<open>mirrors w account slug st\<close>: the actions of the opportunity are exactly the stored ones that
  name it, and the recorded keys are exactly those of the change log.
\<close>

definition names_opportunity :: "string \<Rightarrow> string \<Rightarrow> action \<Rightarrow> bool" where
  "names_opportunity account slug a \<longleftrightarrow> act_account a = account \<and> act_slug a = slug"

definition action_mirror :: "string \<Rightarrow> string \<Rightarrow> action list \<Rightarrow> world \<Rightarrow> bool" where
  "action_mirror account slug as w \<longleftrightarrow> distinct (map act_id as)
     \<and> (\<forall>a \<in> set as. stored_action w (act_id a) a \<and> names_opportunity account slug a \<and> startswith (act_id a) ''act_'')
     \<and> (\<forall>a. stored_action w (act_id a) a \<longrightarrow> startswith (act_id a) ''act_'' \<longrightarrow> names_opportunity account slug a
       \<longrightarrow> a \<in> set as)"

definition logged_keys :: "string \<Rightarrow> string \<Rightarrow> change_key list \<Rightarrow> world \<Rightarrow> bool" where
  "logged_keys account slug ks w \<longleftrightarrow>
     (\<exists>cs. changes_for account slug w = (Inr cs, w) \<and> set (map recorded_key cs) = set ks)"

lemma read_record_eq:
  "read_record wid f w = (case f of Corrupt \<Rightarrow> (Inl ops_malformed, w)
     | Intact r \<Rightarrow> (case own_id (w_ledger w) of Inl e \<Rightarrow> (Inl e, w)
         | Inr own \<Rightarrow> if wid r \<noteq> own then (Inl (CommandCenterOperationsError 409 ''scope_mismatch''), w) else (Inr r, w)))"
  by (auto simp: read_record_def ops_workspace_id_eq op_defs split: stored.split sum.split)

interpretation world_frame: state_relation "(=) :: world \<Rightarrow> world \<Rightarrow> bool"
  by unfold_locales auto

lemma pure_read_record: "obeys (=) (read_record wid f)"
  by (auto simp: obeys_def read_record_eq split: stored.splits sum.splits if_splits)

lemma pure_changes_for: "obeys (=) (changes_for account slug)"
  unfolding changes_for_def changes_dir_def
  by (intro world_frame.obeys_bnd world_frame.obeys_if world_frame.obeys_basic world_frame.obeys_map_op pure_read_record)

lemma pure_load_action: "obeys (=) (load_action i)"
  unfolding load_action_def
  by (auto intro!: world_frame.obeys_bnd world_frame.obeys_basic pure_read_record split: option.split sum.split)

lemma pure_opportunity_actions: "obeys (=) (opportunity_actions account slug)"
  unfolding opportunity_actions_def all_actions_def
  by (intro world_frame.obeys_bnd world_frame.obeys_basic world_frame.obeys_map_op pure_load_action)

lemma world_pureD: "obeys (=) m \<Longrightarrow> m w = (r, w') \<Longrightarrow> w' = (w :: world)"
  by (auto simp: obeys_def)

lemma map_op_pureD:
  assumes "map_op m xs w = (Inr ys, w')" and "\<And>x. obeys (=) (m x)"
  shows "w' = w \<and> list_all2 (\<lambda>x y. m x w = (Inr y, w)) xs ys"
  using assms(1)
proof (induction xs arbitrary: ys w')
  case (Cons x xs)
  then obtain y w1 zs where m: "m x w = (Inr y, w1)" and rest: "map_op m xs w1 = (Inr zs, w')" and ys: "ys = y # zs"
    by (auto simp: ret_def elim!: bnd_InrE)
  have "w1 = w" using m assms(2) by (auto simp: obeys_def)
  with Cons.IH [of zs w'] m rest ys show ?case by simp
qed (simp add: ret_def)

text \<open>Loading the actions of an opportunity.\<close>

lemma loaded_list:
  "list_all2 (\<lambda>n a. load_action n w = (Inr a, w)) ns as \<Longrightarrow>
   map act_id as = ns \<and> (\<forall>a \<in> set as. stored_action w (act_id a) a \<and> valid_action a)"
  by (induction rule: list_all2_induct) (auto dest: load_actionD)

lemma opportunity_actions_mirror:
  assumes "opportunity_actions account slug w = (Inr as, w')" and "distinct (map fst (w_actions w))"
  shows "w' = w \<and> action_mirror account slug as w \<and> (\<forall>a \<in> set as. valid_action a)"
proof -
  let ?names = "filter (\<lambda>n. startswith n ''act_'') (dir_listing (w_actions w))"
  obtain all where load: "map_op load_action ?names w = (Inr all, w')"
    and as: "as = filter (names_opportunity account slug) all"
    using assms(1) by (auto simp: opportunity_actions_def all_actions_def bnd_def read_st_def ret_def
        names_opportunity_def [abs_def] split: prod.splits sum.splits)
  note l = map_op_pureD [OF load pure_load_action]
  then have pairs: "list_all2 (\<lambda>n a. load_action n w = (Inr a, w)) ?names all" by simp
  note loaded = loaded_list [OF pairs]
  have names: "map act_id all = ?names" using loaded by (rule conjunct1)
  have each: "stored_action w (act_id a) a \<and> valid_action a \<and> startswith (act_id a) ''act_''" if "a \<in> set all" for a
  proof -
    have "act_id a \<in> set (map act_id all)" using that by simp
    then have "act_id a \<in> set ?names" by (simp only: names)
    then show ?thesis using that loaded by simp
  qed
  have "distinct ?names" using assms(2) by (simp add: dir_listing_def)
  then have d: "distinct (map act_id all)" using names by simp
  have complete: "a \<in> set all" if "stored_action w i a" and "startswith i ''act_''" for i a
  proof -
    have "i \<in> set ?names" using that by (auto simp: stored_action_def)
    then have "i \<in> act_id ` set all" unfolding names [symmetric] by simp
    then obtain b where b: "b \<in> set all" "act_id b = i" by auto
    with each [of b] that show ?thesis by (auto simp: stored_action_def)
  qed
  have "distinct (map act_id as)" using d as by (simp add: distinct_map_filter)
  with each complete as l show ?thesis by (auto simp: action_mirror_def)
qed

subsection \<open>Recording a change once\<close>

lemma changes_for_eq:
  "changes_for account slug w = (if safe_token account \<and> safe_token slug
     then map_op (\<lambda>f. read_record ch_workspace_id (snd f)) (changes_at w (account @ ''__'' @ slug)) w
     else (Inl (CommandCenterOperationsError 400 ''invalid_scope''), w))"
  by (auto simp: changes_for_def changes_dir_def op_defs)

text \<open>Reading records depends on the ledger only.\<close>

lemma read_records_cong:
  assumes "map_op (\<lambda>f. read_record wid (g f)) xs w = (Inr ys, w)" and "w_ledger w' = w_ledger w"
  shows "map_op (\<lambda>f. read_record wid (g f)) xs w' = (Inr ys, w')"
  using assms(1)
proof (induction xs arbitrary: ys)
  case (Cons x xs)
  then obtain y w1 zs where r: "read_record wid (g x) w = (Inr y, w1)"
    and rest: "map_op (\<lambda>f. read_record wid (g f)) xs w1 = (Inr zs, w)" and ys: "ys = y # zs"
    by (auto simp: ret_def elim!: bnd_InrE)
  have "w1 = w" using world_pureD [OF pure_read_record r] .
  moreover have "read_record wid (g x) w' = (Inr y, w')"
    using r assms(2) by (auto simp: read_record_eq split: stored.splits sum.splits if_splits)
  ultimately show ?case using Cons.IH [of zs] rest ys by (simp add: bnd_def ret_def)
qed (simp add: ret_def)

lemma append_change_log:
  assumes "append_change account slug g w = (Inr c, w')" and "log_ok w" and "changes_for account slug w = (Inr cs, w)"
  shows "changes_for account slug w' = (Inr (cs @ [c]), w') \<and> log_ok w' \<and> recorded_key c = draft_key g
    \<and> w_actions w' = w_actions w \<and> w_ledger w' = w_ledger w"
  using assms(1)
proof (cases rule: append_changeE)
  case (ok n wid now c')
  let ?d = "account @ ''__'' @ slug"
  have c: "c = c'" "ch_workspace_id c = wid" using ok(1,6) by (simp_all add: build_change_def Let_def)
  have at: "changes_at w' ?d = changes_at w ?d @ [(n, Intact c)]"
    using changes_at_append [of w ?d w' "Intact c" ?d] assms(2) ok(4,7) c by (simp add: log_ok_def)
  have led: "w_ledger w' = w_ledger w" using ok(7) by simp
  have old: "map_op (\<lambda>f. read_record ch_workspace_id (snd f)) (changes_at w ?d) w' = (Inr cs, w')"
    using assms(3) ok(2,3) led by (auto simp: changes_for_eq intro: read_records_cong split: if_splits)
  have "read_record ch_workspace_id (Intact c) w' = (Inr c, w')"
    using c(2) ok(5) led by (simp add: read_record_eq)
  then have "changes_for account slug w' = (Inr (cs @ [c]), w')"
    using ok(2,3) at old by (simp add: changes_for_eq map_op_snoc bnd_def ret_def)
  moreover have "log_ok w'" using log_rel.R_append [OF assms(1)] assms(2) by (simp add: log_extends_def)
  moreover have "recorded_key c = draft_key g"
    using c(1) ok(6) by (simp add: recorded_key_def draft_key_def build_change_def Let_def)
  ultimately show ?thesis using ok(7) by simp
qed simp

definition applying_ok :: "apply_ctx \<Rightarrow> applying \<Rightarrow> world \<Rightarrow> bool" where
  "applying_ok x st w \<longleftrightarrow> action_mirror (ax_account x) (ax_slug x) (ag_existing st) w
     \<and> logged_keys (ax_account x) (ax_slug x) (ag_recorded st) w \<and> log_ok w
     \<and> (\<forall>a \<in> set (ag_existing st). act_origin a \<in> set (act_evidence a))"

lemma mirror_cong: "w_actions w' = w_actions w \<Longrightarrow> action_mirror account slug as w' = action_mirror account slug as w"
  by (simp add: action_mirror_def stored_action_def)

lemma ensure_changeD:
  assumes "ensure_change x g st w = (Inr st', w')" and "applying_ok x st w"
  shows "applying_ok x st' w' \<and> ag_existing st' = ag_existing st
    \<and> set (ag_recorded st') = insert (draft_key g) (set (ag_recorded st)) \<and> w_ledger w' = w_ledger w"
proof (cases "draft_key g \<in> set (ag_recorded st)")
  case True
  with assms show ?thesis by (auto simp: ensure_change_def ret_def)
next
  case False
  obtain cs where cs: "changes_for (ax_account x) (ax_slug x) w = (Inr cs, w)"
    "set (map recorded_key cs) = set (ag_recorded st)" and l: "log_ok w"
    using assms(2) by (auto simp: applying_ok_def logged_keys_def)
  from False assms(1) obtain c where ap: "append_change (ax_account x) (ax_slug x) g w = (Inr c, w')"
    and st': "st' = st\<lparr>ag_recorded := draft_key g # ag_recorded st\<rparr>"
    by (auto simp: ensure_change_def ret_def elim!: bnd_InrE)
  note a = append_change_log [OF ap l cs(1)]
  have "logged_keys (ax_account x) (ax_slug x) (ag_recorded st') w'"
    unfolding logged_keys_def using a cs(2) st' by (intro exI [of _ "cs @ [c]"]) auto
  moreover have "action_mirror (ax_account x) (ax_slug x) (ag_existing st) w'"
    using mirror_cong [of w' w] a assms(2) by (simp add: applying_ok_def)
  ultimately show ?thesis using a st' assms(2) by (simp add: applying_ok_def)
qed

lemma ensure_known: "draft_key g \<in> set (ag_recorded st) \<Longrightarrow> ensure_change x g st w = (Inr st, w)"
  by (simp add: ensure_change_def ret_def)

subsection \<open>Writing an action\<close>

lemma write_action_eq:
  "write_action a w = (Inr (), w\<lparr>w_actions := AList.update (act_id a) (Intact a) (w_actions w)\<rparr>)"
  by (simp add: write_action_def modify_st_def)

lemma ids_replace [simp]: "map act_id (replace_action a as) = map act_id as"
  by (auto simp: replace_action_def)

lemma set_replace:
  "distinct (map act_id as) \<Longrightarrow> a \<in> set as \<Longrightarrow> act_id a' = act_id a
   \<Longrightarrow> set (replace_action a' as) = insert a' (set as - {a})"
  by (auto simp: replace_action_def distinct_map inj_on_def image_iff)

lemma stored_write:
  "w_actions w' = AList.update (act_id a) (Intact a) (w_actions w) \<Longrightarrow>
   stored_action w' i b \<longleftrightarrow> (if i = act_id a then b = a else stored_action w i b)"
  by (auto simp: stored_action_def)

lemma mirror_replace:
  assumes "action_mirror account slug as w" and "a \<in> set as" and "grown_action a a'"
    and "w_actions w' = AList.update (act_id a') (Intact a') (w_actions w)"
  shows "action_mirror account slug (replace_action a' as) w'"
proof -
  have d: "distinct (map act_id as)" and a: "names_opportunity account slug a" "startswith (act_id a) ''act_''"
    using assms(1,2) by (auto simp: action_mirror_def)
  have a': "act_id a' = act_id a" "names_opportunity account slug a'"
    using grown_same [OF assms(3)] a by (simp_all add: names_opportunity_def)
  have other: "act_id b \<noteq> act_id a" if "b \<in> set as" "b \<noteq> a" for b
    using d that assms(2) by (auto simp: distinct_map inj_on_def)
  note st = stored_write [OF assms(4)]
  have els: "set (replace_action a' as) = insert a' (set as - {a})" by (rule set_replace [OF d assms(2) a'(1)])
  show ?thesis
    unfolding action_mirror_def
  proof (intro conjI ballI allI impI)
    show "distinct (map act_id (replace_action a' as))" using d by (simp only: ids_replace)
  next
    fix b assume "b \<in> set (replace_action a' as)"
    then consider "b = a'" | "b \<in> set as" "b \<noteq> a" using els by auto
    then have "stored_action w' (act_id b) b \<and> names_opportunity account slug b \<and> startswith (act_id b) ''act_''"
    proof cases
      case 1
      then show ?thesis using st a' a by simp
    next
      case 2
      then show ?thesis using st a'(1) other [OF 2] assms(1) by (simp add: action_mirror_def)
    qed
    then show "stored_action w' (act_id b) b" "names_opportunity account slug b" "startswith (act_id b) ''act_''" by auto
  next
    fix b assume s: "stored_action w' (act_id b) b" and i: "startswith (act_id b) ''act_''"
      and n: "names_opportunity account slug b"
    show "b \<in> set (replace_action a' as)"
    proof (cases "act_id b = act_id a'")
      case True
      then show ?thesis using s st els by simp
    next
      case False
      then have "stored_action w (act_id b) b" using s st by simp
      moreover have "b \<noteq> a" using False a'(1) by auto
      ultimately show ?thesis using assms(1) i n els by (auto simp: action_mirror_def)
    qed
  qed
qed

lemma mirror_append:
  assumes "action_mirror account slug as w" and "act_id a \<notin> set (map act_id as)"
    and "names_opportunity account slug a" and "startswith (act_id a) ''act_''"
    and "w_actions w' = AList.update (act_id a) (Intact a) (w_actions w)"
  shows "action_mirror account slug (as @ [a]) w'"
proof -
  note st = stored_write [OF assms(5)]
  have fresh: "act_id b \<noteq> act_id a" if "b \<in> set as" for b using that assms(2) by (metis image_eqI set_map)
  have old: "distinct (map act_id as)"
    "b \<in> set as \<Longrightarrow> stored_action w (act_id b) b \<and> names_opportunity account slug b \<and> startswith (act_id b) ''act_''"
    "stored_action w (act_id b) b \<Longrightarrow> startswith (act_id b) ''act_'' \<Longrightarrow> names_opportunity account slug b \<Longrightarrow> b \<in> set as"
    for b using assms(1) by (auto simp: action_mirror_def)
  show ?thesis
    unfolding action_mirror_def
  proof (intro conjI ballI allI impI)
    show "distinct (map act_id (as @ [a]))" using old(1) assms(2) by simp
  next
    fix b assume "b \<in> set (as @ [a])"
    then have "stored_action w' (act_id b) b \<and> names_opportunity account slug b \<and> startswith (act_id b) ''act_''"
      using old(2) [of b] fresh [of b] assms(3,4) st by auto
    then show "stored_action w' (act_id b) b" "names_opportunity account slug b" "startswith (act_id b) ''act_''" by auto
  next
    fix b assume "stored_action w' (act_id b) b" "startswith (act_id b) ''act_''" "names_opportunity account slug b"
    then show "b \<in> set (as @ [a])" using old(3) [of b] st by (cases "act_id b = act_id a") auto
  qed
qed

lemma write_mirrored:
  assumes "applying_ok x st w" and "a \<in> set (ag_existing st)" and "grown_action a a'"
    and "w' = w\<lparr>w_actions := AList.update (act_id a') (Intact a') (w_actions w)\<rparr>"
    and "ag_existing st' = replace_action a' (ag_existing st)" and "ag_recorded st' = ag_recorded st"
  shows "applying_ok x st' w'"
proof -
  have ch: "changes_at w' = changes_at w" using assms(4) by (auto simp: changes_at_def)
  have "logged_keys (ax_account x) (ax_slug x) (ag_recorded st') w'"
  proof -
    obtain cs where cs: "changes_for (ax_account x) (ax_slug x) w = (Inr cs, w)"
      "set (map recorded_key cs) = set (ag_recorded st)"
      using assms(1) by (auto simp: applying_ok_def logged_keys_def)
    have "changes_for (ax_account x) (ax_slug x) w' = (Inr cs, w')"
      using cs(1) assms(4) ch by (auto simp: changes_for_eq intro: read_records_cong split: if_splits)
    with cs(2) assms(6) show ?thesis by (auto simp: logged_keys_def)
  qed
  moreover have "log_ok w'" using assms(1) ch by (simp add: applying_ok_def log_ok_def)
  moreover have "action_mirror (ax_account x) (ax_slug x) (ag_existing st') w'"
    using assms mirror_replace [of _ _ "ag_existing st" w a a' w'] by (simp add: applying_ok_def)
  moreover have "act_origin c \<in> set (act_evidence c)" if "c \<in> set (ag_existing st')" for c
  proof (cases "c = a'")
    case True
    then show ?thesis using assms(1,2) grown_same(10,13) [OF assms(3)] by (auto simp: applying_ok_def)
  next
    case False
    then have "c \<in> set (ag_existing st)" using that assms(5) by (auto simp: replace_action_def split: if_splits)
    then show ?thesis using assms(1) by (simp add: applying_ok_def)
  qed
  ultimately show ?thesis by (simp add: applying_ok_def)
qed

subsection \<open>One observation\<close>

lemma opened_fields [simp]:
  "act_id (opened_action x b dup i wid me) = i" "act_account (opened_action x b dup i wid me) = ax_account x"
  "act_slug (opened_action x b dup i wid me) = ax_slug x" "act_commitment (opened_action x b dup i wid me) = ob_commitment b"
  "act_origin (opened_action x b dup i wid me) = ob_source b" "act_evidence (opened_action x b dup i wid me) = [ob_source b]"
  "act_duplicate_of (opened_action x b dup i wid me) = dup"
  by (simp_all add: opened_action_def)

text \<open>
  \<open>progress x b st st'\<close>: every action is still there and at most grown, a new one was opened for
  the commitment \<open>b\<close>, and no recorded key is lost.
\<close>

definition progress :: "apply_ctx \<Rightarrow> observation \<Rightarrow> applying \<Rightarrow> applying \<Rightarrow> bool" where
  "progress x b st st' \<longleftrightarrow> (\<forall>a \<in> set (ag_existing st). \<exists>a' \<in> set (ag_existing st'). grown_action a a')
     \<and> (\<forall>a' \<in> set (ag_existing st'). (\<exists>a \<in> set (ag_existing st). grown_action a a')
         \<or> (ob_kind b = Commitment \<and> (\<exists>dup i wid me. grown_action (opened_action x b dup i wid me) a')))
     \<and> set (ag_recorded st) \<subseteq> set (ag_recorded st')"

lemma progress_refl: "progress x b st st"
  unfolding progress_def by (blast intro: grown_refl)

lemma progress_trans: "progress x b st st1 \<Longrightarrow> progress x b st1 st2 \<Longrightarrow> progress x b st st2"
  unfolding progress_def
proof (elim conjE, intro conjI ballI)
  assume e1: "\<forall>a \<in> set (ag_existing st). \<exists>a' \<in> set (ag_existing st1). grown_action a a'"
    and e2: "\<forall>a \<in> set (ag_existing st1). \<exists>a' \<in> set (ag_existing st2). grown_action a a'"
    and n1: "\<forall>a' \<in> set (ag_existing st1). (\<exists>a \<in> set (ag_existing st). grown_action a a')
         \<or> (ob_kind b = Commitment \<and> (\<exists>dup i wid me. grown_action (opened_action x b dup i wid me) a'))"
    and n2: "\<forall>a' \<in> set (ag_existing st2). (\<exists>a \<in> set (ag_existing st1). grown_action a a')
         \<or> (ob_kind b = Commitment \<and> (\<exists>dup i wid me. grown_action (opened_action x b dup i wid me) a'))"
    and k1: "set (ag_recorded st) \<subseteq> set (ag_recorded st1)" and k2: "set (ag_recorded st1) \<subseteq> set (ag_recorded st2)"
  show "set (ag_recorded st) \<subseteq> set (ag_recorded st2)" using k1 k2 by (rule subset_trans)
  show "\<exists>a' \<in> set (ag_existing st2). grown_action a a'" if "a \<in> set (ag_existing st)" for a
    using that e1 e2 grown_trans by blast
  show "(\<exists>a \<in> set (ag_existing st). grown_action a a') \<or> (ob_kind b = Commitment \<and> (\<exists>dup i wid me. grown_action (opened_action x b dup i wid me) a'))"
    if a': "a' \<in> set (ag_existing st2)" for a'
  proof -
    from n2 a' consider "ob_kind b = Commitment \<and> (\<exists>dup i wid me. grown_action (opened_action x b dup i wid me) a')"
      | a1 where "a1 \<in> set (ag_existing st1)" "grown_action a1 a'" by blast
    then show ?thesis
    proof cases
      case 2
      from n1 2(1) consider a where "a \<in> set (ag_existing st)" "grown_action a a1"
        | dup i wid me where "ob_kind b = Commitment" "grown_action (opened_action x b dup i wid me) a1" by blast
      then show ?thesis using grown_trans [OF _ 2(2)] by cases blast+
    qed simp
  qed
qed

lemma progress_same:
  "ag_existing st' = ag_existing st \<Longrightarrow> set (ag_recorded st) \<subseteq> set (ag_recorded st') \<Longrightarrow> progress x b st st'"
  unfolding progress_def by (simp, blast intro: grown_refl)

lemma progress_replace:
  assumes "distinct (map act_id (ag_existing st))" and "a \<in> set (ag_existing st)" and "grown_action a a'"
    and "ag_existing st' = replace_action a' (ag_existing st)" and "ag_recorded st' = ag_recorded st"
  shows "progress x b st st'"
proof -
  have set: "set (ag_existing st') = insert a' (set (ag_existing st) - {a})"
    using set_replace [OF assms(1,2) grown_same(1) [OF assms(3)]] assms(4) by simp
  have "\<exists>c' \<in> set (ag_existing st'). grown_action c c'" if "c \<in> set (ag_existing st)" for c
    using that set assms(3) grown_refl [of c] by (cases "c = a") auto
  moreover have "\<exists>c \<in> set (ag_existing st). grown_action c c'" if "c' \<in> set (ag_existing st')" for c'
  proof (cases "c' = a'")
    case False
    with that set have "c' \<in> set (ag_existing st)" by simp
    then show ?thesis using grown_refl [of c'] by (rule bexI [rotated])
  qed (use assms(2,3) in blast)
  ultimately show ?thesis using assms(5) by (simp add: progress_def)
qed

text \<open>The keys of the changes an action is owed.\<close>

lemma change_keys [simp]:
  "draft_key (suggested_change x b a) = (CompletionSuggested, act_id a, Some (sr_revision (ob_source b)))"
  "draft_key (created_change x b a st) = (ActionCreated, act_id a, Some (sr_revision (ob_source b)))"
  "draft_key (flagged_change x b i dup) = (PossibleDuplicateFlagged, i, Some (sr_revision (ob_source b)))"
  "draft_key (linked_change x b a n) = (ActionLinked, act_id a, Some (sr_revision (ob_source b)))"
  "draft_key (overview_change x v ref) = (OverviewRevision, vs_version_id v, Some (sr_revision ref))"
  by (simp_all add: draft_key_def suggested_change_def created_change_def flagged_change_def linked_change_def
      overview_change_def action_change_def analysis_change_def)

definition suggestion_settled :: "observation \<Rightarrow> change_key set \<Rightarrow> action \<Rightarrow> bool" where
  "suggestion_settled b K a \<longleftrightarrow> (suggestible b a \<longrightarrow> ob_source b \<in> cs_source ` set (act_suggestions a)
     \<and> (CompletionSuggested, act_id a, Some (sr_revision (ob_source b))) \<in> K)"

definition commitment_settled :: "observation \<Rightarrow> change_key set \<Rightarrow> action \<Rightarrow> bool" where
  "commitment_settled b K a \<longleftrightarrow> ob_source b \<in> set (act_evidence a)
     \<and> (if act_origin a = ob_source b
        then (ActionCreated, act_id a, Some (sr_revision (ob_source b))) \<in> K
          \<and> (act_duplicate_of a \<noteq> None \<longrightarrow> (PossibleDuplicateFlagged, act_id a, Some (sr_revision (ob_source b))) \<in> K)
        else (ActionLinked, act_id a, Some (sr_revision (ob_source b))) \<in> K)"

definition settled :: "apply_ctx \<Rightarrow> string \<Rightarrow> observation \<Rightarrow> action set \<Rightarrow> change_key set \<Rightarrow> bool" where
  "settled x wid b E K \<longleftrightarrow> (if ob_kind b = CompletionKind then \<forall>a \<in> E. suggestion_settled b K a
     else \<exists>a \<in> E. act_id a = action_id_for wid (ax_account x) (ax_slug x) (ax_source_id x) (ob_key b)
       \<and> commitment_settled b K a)"

text \<open>What was settled for \<open>c\<close> stays settled when another observation \<open>b\<close> is applied.\<close>

definition unrelated :: "observation \<Rightarrow> observation \<Rightarrow> bool" where
  "unrelated b c \<longleftrightarrow> \<not> (ob_kind b = Commitment \<and> ob_kind c = CompletionKind
     \<and> normalize_text (ob_commitment b) = normalize_text (ob_commitment c))"

lemma suggestion_settled_grown:
  assumes "suggestion_settled b K a" and "grown_action a a'" and "K \<subseteq> K'"
  shows "suggestion_settled b K' a'"
  using assms grown_same(1,14) [OF assms(2)] by (auto simp: suggestion_settled_def suggestible_grown)

lemma commitment_settled_grown:
  assumes "commitment_settled b K a" and "grown_action a a'" and "K \<subseteq> K'"
  shows "commitment_settled b K' a'"
  using assms(1,3) grown_same [OF assms(2)] by (auto simp: commitment_settled_def split: if_splits)

lemma settled_progress:
  assumes "progress x b st st'" and "settled x wid c (set (ag_existing st)) (set (ag_recorded st))" and "unrelated b c"
  shows "settled x wid c (set (ag_existing st')) (set (ag_recorded st'))"
proof (cases "ob_kind c = CompletionKind")
  case True
  have "suggestion_settled c (set (ag_recorded st')) a'" if "a' \<in> set (ag_existing st')" for a'
  proof -
    have "(\<exists>a \<in> set (ag_existing st). grown_action a a')
      \<or> ob_kind b = Commitment \<and> (\<exists>dup i wid me. grown_action (opened_action x b dup i wid me) a')"
      using assms(1) that by (auto simp: progress_def)
    then consider a where "a \<in> set (ag_existing st)" "grown_action a a'"
      | "ob_kind b = Commitment" "act_commitment a' = ob_commitment b"
    proof (elim disjE conjE exE bexE)
      fix dup i wid me assume "ob_kind b = Commitment" "grown_action (opened_action x b dup i wid me) a'"
      then show ?thesis using that(2) grown_same(4) [of "opened_action x b dup i wid me" a'] by simp
    qed (use that(1) in blast)
    then show ?thesis
    proof cases
      case 1
      then show ?thesis using assms(1,2) True suggestion_settled_grown by (auto simp: settled_def progress_def)
    next
      case 2
      then show ?thesis using assms(3) True by (simp add: unrelated_def suggestion_settled_def suggestible_def)
    qed
  qed
  with True show ?thesis by (simp add: settled_def)
next
  case False
  with assms(2) obtain a where a: "a \<in> set (ag_existing st)" "commitment_settled c (set (ag_recorded st)) a"
    "act_id a = action_id_for wid (ax_account x) (ax_slug x) (ax_source_id x) (ob_key c)"
    by (auto simp: settled_def)
  with assms(1) obtain a' where a': "a' \<in> set (ag_existing st')" "grown_action a a'" by (auto simp: progress_def)
  have "commitment_settled c (set (ag_recorded st')) a'"
    using a(2) a'(2) assms(1) by (auto simp: progress_def intro: commitment_settled_grown)
  with a a' False show ?thesis using grown_same(1) [OF a'(2)] by (auto simp: settled_def)
qed

text \<open>A step that returned: the copy still mirrors the store, and the ledger is untouched.\<close>

definition good_step :: "apply_ctx \<Rightarrow> observation \<Rightarrow> applying \<Rightarrow> world \<Rightarrow> applying \<Rightarrow> world \<Rightarrow> bool" where
  "good_step x b st w st' w' \<longleftrightarrow> applying_ok x st' w' \<and> progress x b st st' \<and> w_ledger w' = w_ledger w"

lemma good_ensure:
  assumes "ensure_change x g st w = (Inr st', w')" and "applying_ok x st w"
  shows "good_step x b st w st' w' \<and> ag_existing st' = ag_existing st \<and> draft_key g \<in> set (ag_recorded st')"
  using ensure_changeD [OF assms] by (auto simp: good_step_def intro: progress_same)

lemma good_trans:
  "good_step x b st w st1 w1 \<Longrightarrow> good_step x b st1 w1 st2 w2 \<Longrightarrow> good_step x b st w st2 w2"
  using progress_trans by (auto simp: good_step_def)

lemma ok_distinct: "applying_ok x st w \<Longrightarrow> distinct (map act_id (ag_existing st))"
  by (simp add: applying_ok_def action_mirror_def)

text \<open>A grown action written in place of the one it grew from.\<close>

lemma good_write:
  assumes "applying_ok x st w" and "a \<in> set (ag_existing st)" and "grown_action a a'"
    and "ag_existing st' = replace_action a' (ag_existing st)" and "ag_recorded st' = ag_recorded st"
  shows "good_step x b st w st' (w\<lparr>w_actions := AList.update (act_id a') (Intact a') (w_actions w)\<rparr>)
    \<and> set (ag_existing st') = insert a' (set (ag_existing st) - {a})"
  using write_mirrored [OF assms(1-3) refl assms(4,5)] progress_replace [OF ok_distinct [OF assms(1)] assms(2-5)]
    set_replace [OF ok_distinct [OF assms(1)] assms(2) grown_same(1) [OF assms(3)]] assms(4)
  by (simp add: good_step_def)

lemma suggest_forD:
  assumes run: "suggest_for x b a st w = (Inr st', w')" and ok: "applying_ok x st w" and a: "a \<in> set (ag_existing st)"
  shows "good_step x b st w st' w' \<and> (\<exists>a' \<in> set (ag_existing st'). act_id a' = act_id a
      \<and> suggestion_settled b (set (ag_recorded st')) a') \<and> set (ag_existing st) - {a} \<subseteq> set (ag_existing st')"
proof -
  consider "\<not> suggestible b a"
    | "suggestible b a" "list_ex (\<lambda>s. cs_source s = ob_source b) (act_suggestions a)"
    | "suggestible b a" "\<not> list_ex (\<lambda>s. cs_source s = ob_source b) (act_suggestions a)" by blast
  then show ?thesis
  proof cases
    case 1
    then show ?thesis using run ok a progress_refl by (auto simp: suggest_for_def ret_def good_step_def suggestion_settled_def)
  next
    case 2
    then have "ensure_change x (suggested_change x b a) st w = (Inr st', w')" using run by (simp add: suggest_for_def)
    note g = good_ensure [OF this ok, of b]
    have "suggestion_settled b (set (ag_recorded st')) a"
      using 2(2) g by (auto simp: suggestion_settled_def list_ex_iff intro!: rev_image_eqI)
    with g a show ?thesis by auto
  next
    case 3
    let ?a = "with_suggestion b (ax_now x) a"
    let ?st = "st\<lparr>ag_existing := replace_action ?a (ag_existing st), ag_suggested := ag_suggested st @ [act_id a]\<rparr>"
    let ?w = "w\<lparr>w_actions := AList.update (act_id ?a) (Intact ?a) (w_actions w)\<rparr>"
    have w: "good_step x b st w ?st ?w \<and> set (ag_existing ?st) = insert ?a (set (ag_existing st) - {a})"
      by (rule good_write [OF ok a grown_writes(1)]) simp_all
    have "ensure_change x (suggested_change x b a) ?st ?w = (Inr st', w')"
      using run 3 by (simp add: suggest_for_def bnd_def write_action_eq)
    note g = good_ensure [OF this, of b]
    have ok1: "applying_ok x ?st ?w" using w by (simp add: good_step_def)
    have id: "act_id ?a = act_id a" by (simp add: with_suggestion_def)
    have "suggestion_settled b (set (ag_recorded st')) ?a"
      using g [OF ok1] id by (auto simp: suggestion_settled_def with_suggestion_def)
    moreover have "good_step x b st w st' w'" using w g [OF ok1] good_trans by blast
    ultimately show ?thesis using w g [OF ok1] id by auto
  qed
qed

lemma settled_later:
  assumes "good_step x b st w st' w'" and "\<exists>a' \<in> set (ag_existing st). act_id a' = i \<and> suggestion_settled b (set (ag_recorded st)) a'"
  shows "\<exists>a' \<in> set (ag_existing st'). act_id a' = i \<and> suggestion_settled b (set (ag_recorded st')) a'"
proof -
  from assms(2) obtain a where a: "a \<in> set (ag_existing st)" "act_id a = i" "suggestion_settled b (set (ag_recorded st)) a" by blast
  with assms(1) obtain a' where a': "a' \<in> set (ag_existing st')" "grown_action a a'" by (auto simp: good_step_def progress_def)
  have "suggestion_settled b (set (ag_recorded st')) a'"
    using suggestion_settled_grown [OF a(3) a'(2)] assms(1) by (simp add: good_step_def progress_def)
  with a' a(2) grown_same(1) [OF a'(2)] show ?thesis by auto
qed

lemma suggest_fold:
  assumes "fold_op (suggest_for x b) as st w = (Inr st', w')" and "applying_ok x st w"
    and "set as \<subseteq> set (ag_existing st)" and "distinct (map act_id as)"
  shows "good_step x b st w st' w'
    \<and> (\<forall>a \<in> set as. \<exists>a' \<in> set (ag_existing st'). act_id a' = act_id a \<and> suggestion_settled b (set (ag_recorded st')) a')"
  using assms
proof (induction as arbitrary: st w)
  case Nil
  then show ?case by (simp add: ret_def good_step_def progress_refl)
next
  case (Cons a as)
  from Cons.prems(1) obtain st1 w1 where one: "suggest_for x b a st w = (Inr st1, w1)"
    and rest: "fold_op (suggest_for x b) as st1 w1 = (Inr st', w')" by (auto elim!: bnd_InrE)
  note s = suggest_forD [OF one Cons.prems(2)]
  have g: "good_step x b st w st1 w1" and a: "\<exists>a' \<in> set (ag_existing st1). act_id a' = act_id a
      \<and> suggestion_settled b (set (ag_recorded st1)) a'" and keep: "set (ag_existing st) - {a} \<subseteq> set (ag_existing st1)"
    using s Cons.prems(3) by auto
  have "set as \<subseteq> set (ag_existing st1)" using Cons.prems(3,4) keep by auto
  then have later: "good_step x b st1 w1 st' w'"
    and all: "\<forall>a \<in> set as. \<exists>a' \<in> set (ag_existing st'). act_id a' = act_id a \<and> suggestion_settled b (set (ag_recorded st')) a'"
    using Cons.IH [OF rest] g Cons.prems(4) by (auto simp: good_step_def)
  from settled_later [OF later a] all good_trans [OF g later] show ?case by simp
qed

lemma replay_changesD:
  assumes run: "replay_changes x b a st w = (Inr st', w')" and ok: "applying_ok x st w"
    and ev: "ob_source b \<in> set (act_evidence a)"
  shows "good_step x b st w st' w' \<and> ag_existing st' = ag_existing st \<and> commitment_settled b (set (ag_recorded st')) a"
proof (cases "act_origin a = ob_source b")
  case True
  from run True obtain st1 w1 where one: "ensure_change x (created_change x b a (tr_to (hd (act_transitions a)))) st w = (Inr st1, w1)"
    and rest: "(case act_duplicate_of a of None \<Rightarrow> ret st1
        | Some dup \<Rightarrow> ensure_change x (flagged_change x b (act_id a) dup) st1) w1 = (Inr st', w')"
    by (auto simp: replay_changes_def elim!: bnd_InrE)
  note g = good_ensure [OF one ok, of b]
  show ?thesis
  proof (cases "act_duplicate_of a")
    case None
    with rest g True ev show ?thesis by (simp add: ret_def commitment_settled_def)
  next
    case (Some dup)
    with rest have "ensure_change x (flagged_change x b (act_id a) dup) st1 w1 = (Inr st', w')" by simp
    note g2 = good_ensure [OF this, of b]
    have "good_step x b st w st' w'" using g g2 good_trans by (auto simp: good_step_def)
    moreover have "set (ag_recorded st1) \<subseteq> set (ag_recorded st')" using g g2 by (auto simp: good_step_def progress_def)
    ultimately show ?thesis using g g2 True ev Some by (auto simp: good_step_def commitment_settled_def)
  qed
next
  case False
  with run have "ensure_change x (linked_change x b a (sr_revision (act_origin a))) st w = (Inr st', w')"
    by (simp add: replay_changes_def)
  note g = good_ensure [OF this ok, of b]
  with False ev show ?thesis by (simp add: commitment_settled_def)
qed

lemma link_actionD:
  assumes run: "link_action x b a st w = (Inr st', w')" and ok: "applying_ok x st w" and a: "a \<in> set (ag_existing st)"
  shows "good_step x b st w st' w' \<and> (\<exists>a' \<in> set (ag_existing st'). act_id a' = act_id a
    \<and> commitment_settled b (set (ag_recorded st')) a')"
proof (cases "ob_source b \<in> set (act_evidence a)")
  case True
  with run have "replay_changes x b a st w = (Inr st', w')" by (simp add: link_action_def)
  from replay_changesD [OF this ok True] a show ?thesis by auto
next
  case False
  let ?a = "with_evidence b (ax_now x) a"
  let ?st = "st\<lparr>ag_existing := replace_action ?a (ag_existing st), ag_linked := ag_linked st @ [act_id a]\<rparr>"
  let ?w = "w\<lparr>w_actions := AList.update (act_id ?a) (Intact ?a) (w_actions w)\<rparr>"
  have w: "good_step x b st w ?st ?w \<and> set (ag_existing ?st) = insert ?a (set (ag_existing st) - {a})"
    by (rule good_write [OF ok a grown_writes(2)]) simp_all
  have run2: "ensure_change x (linked_change x b a (sr_revision (last (act_evidence a)))) ?st ?w = (Inr st', w')"
    using run False by (simp add: link_action_def bnd_def write_action_eq)
  have ok1: "applying_ok x ?st ?w" using w by (simp add: good_step_def)
  note g = good_ensure [OF run2 ok1, of b]
  have f: "act_id ?a = act_id a" "act_origin ?a = act_origin a" "ob_source b \<in> set (act_evidence ?a)"
    by (simp_all add: with_evidence_def)
  have "commitment_settled b (set (ag_recorded st')) ?a"
    using g f False ok a by (auto simp: commitment_settled_def applying_ok_def)
  moreover have "good_step x b st w st' w'" using w g good_trans by blast
  ultimately show ?thesis using w g f(1) by auto
qed

lemma startswith_action_id: "startswith (action_id_for wid account slug sid k) ''act_''"
  by (simp add: action_id_for_def)

text \<open>A new action is owed its changes at once.\<close>

lemma applying_ok_open:
  assumes ok: "applying_ok x st w" and id: "act_id a \<notin> set (map act_id (ag_existing st))" "startswith (act_id a) ''act_''"
    and n: "names_opportunity (ax_account x) (ax_slug x) a" and c: "ob_kind b = Commitment" "a = opened_action x b dup i wid me"
  shows "good_step x b st w (st\<lparr>ag_existing := ag_existing st @ [a], ag_created := ag_created st @ [act_id a]\<rparr>)
     (w\<lparr>w_actions := AList.update (act_id a) (Intact a) (w_actions w)\<rparr>)"
proof -
  let ?w = "w\<lparr>w_actions := AList.update (act_id a) (Intact a) (w_actions w)\<rparr>"
  have ch: "changes_at ?w d = changes_at w d" for d by (simp add: changes_at_def)
  obtain cs where cs: "changes_for (ax_account x) (ax_slug x) w = (Inr cs, w)"
    "set (map recorded_key cs) = set (ag_recorded st)" using ok by (auto simp: applying_ok_def logged_keys_def)
  have "changes_for (ax_account x) (ax_slug x) ?w = (Inr cs, ?w)"
    using cs(1) by (auto simp: changes_for_eq ch intro: read_records_cong split: if_splits)
  moreover have "action_mirror (ax_account x) (ax_slug x) (ag_existing st @ [a]) ?w"
    by (rule mirror_append [OF _ id(1) n id(2)]) (use ok in \<open>simp_all add: applying_ok_def\<close>)
  moreover have "log_ok ?w" using ok ch by (simp add: applying_ok_def log_ok_def)
  ultimately have "applying_ok x (st\<lparr>ag_existing := ag_existing st @ [a], ag_created := ag_created st @ [act_id a]\<rparr>) ?w"
    using cs(2) ok c(2) by (auto simp: applying_ok_def logged_keys_def)
  moreover have "progress x b st (st\<lparr>ag_existing := ag_existing st @ [a], ag_created := ag_created st @ [act_id a]\<rparr>)"
    unfolding progress_def
  proof (intro conjI ballI)
    fix c assume c': "c \<in> set (ag_existing (st\<lparr>ag_existing := ag_existing st @ [a], ag_created := ag_created st @ [act_id a]\<rparr>))"
    show "(\<exists>d \<in> set (ag_existing st). grown_action d c)
      \<or> ob_kind b = Commitment \<and> (\<exists>dup i wid me. grown_action (opened_action x b dup i wid me) c)"
    proof (cases "c = a")
      case True
      then show ?thesis using c grown_refl [of a] by blast
    next
      case False
      then have "c \<in> set (ag_existing st)" using c' by simp
      then show ?thesis using grown_refl [of c] by blast
    qed
  next
    fix c assume "c \<in> set (ag_existing st)"
    then show "\<exists>d \<in> set (ag_existing (st\<lparr>ag_existing := ag_existing st @ [a], ag_created := ag_created st @ [act_id a]\<rparr>)). grown_action c d"
      by (intro bexI [of _ c] grown_refl) simp
  qed simp
  ultimately show ?thesis by (simp add: good_step_def)
qed


lemma open_newD:
  assumes run: "open_new x b i st w = (Inr st', w')" and ok: "applying_ok x st w" and kind: "ob_kind b = Commitment"
    and id: "i \<notin> set (map act_id (ag_existing st))" "startswith i ''act_''"
  shows "good_step x b st w st' w' \<and> (\<exists>a' \<in> set (ag_existing st'). act_id a' = i
    \<and> commitment_settled b (set (ag_recorded st')) a')"
proof -
  let ?dup = "duplicate_for b (ag_existing st)"
  obtain wid st1 w1 where wid: "own_id (w_ledger w) = Inr wid"
    and ens: "ensure_change x (created_change x b (opened_action x b ?dup i wid (w_actor w)) (opening_status b ?dup))
      (st\<lparr>ag_existing := ag_existing st @ [opened_action x b ?dup i wid (w_actor w)], ag_created := ag_created st @ [i]\<rparr>)
      (w\<lparr>w_actions := AList.update i (Intact (opened_action x b ?dup i wid (w_actor w))) (w_actions w)\<rparr>) = (Inr st1, w1)"
    and rest: "(case ?dup of None \<Rightarrow> ret st1 | Some d \<Rightarrow> ensure_change x (flagged_change x b i d)
      (st1\<lparr>ag_duplicates := ag_duplicates st1 @ [i]\<rparr>)) w1 = (Inr st', w')"
  proof -
    have st: "act_status (opened_action x b d i wid me) = opening_status b d" for d wid me by (simp add: opened_action_def)
    show ?thesis
      using run that
      by (auto simp: open_new_def Let_def ops_workspace_id_eq read_st_def of_sum_def mk_transition_def mk_action_def
          write_action_eq st split: if_splits elim!: bnd_InrE)
  qed
  let ?a = "opened_action x b ?dup i wid (w_actor w)"
  let ?st = "st\<lparr>ag_existing := ag_existing st @ [?a], ag_created := ag_created st @ [act_id ?a]\<rparr>"
  let ?w = "w\<lparr>w_actions := AList.update (act_id ?a) (Intact ?a) (w_actions w)\<rparr>"
  have w: "good_step x b st w ?st ?w"
    by (rule applying_ok_open [OF ok _ _ _ kind refl]) (use id in \<open>simp_all add: names_opportunity_def\<close>)
  have ok1: "applying_ok x ?st ?w" using w by (simp add: good_step_def)
  have "ensure_change x (created_change x b ?a (opening_status b ?dup)) ?st ?w = (Inr st1, w1)" using ens by simp
  note g = good_ensure [OF this ok1, of b]
  have g1: "good_step x b st w st1 w1" using w g good_trans by blast
  have a1: "?a \<in> set (ag_existing st1)" using g by simp
  show ?thesis
  proof (cases ?dup)
    case None
    then have "st' = st1" "w' = w1" using rest by (simp_all add: ret_def)
    then show ?thesis using g1 g a1 None by (auto simp: commitment_settled_def intro!: bexI [of _ ?a])
  next
    case (Some d)
    let ?st1 = "st1\<lparr>ag_duplicates := ag_duplicates st1 @ [i]\<rparr>"
    have e2: "ensure_change x (flagged_change x b i d) ?st1 w1 = (Inr st', w')" using rest Some by simp
    have ok2: "applying_ok x ?st1 w1" using g1 by (simp add: good_step_def applying_ok_def)
    note g2 = good_ensure [OF e2 ok2, of b]
    have "good_step x b st w ?st1 w1" using g1 by (simp add: good_step_def progress_def applying_ok_def)
    then have "good_step x b st w st' w'" using g2 good_trans by blast
    moreover have "commitment_settled b (set (ag_recorded st')) ?a"
      using g g2 by (auto simp: commitment_settled_def good_step_def progress_def)
    ultimately show ?thesis using g2 a1 by (auto intro!: bexI [of _ ?a])
  qed
qed

text \<open>One observation: a good step that settles it.\<close>

lemma apply_observationD:
  assumes run: "apply_observation x b st w = (Inr st', w')" and ok: "applying_ok x st w" and wid: "own_id (w_ledger w) = Inr wid"
  shows "good_step x b st w st' w' \<and> settled x wid b (set (ag_existing st')) (set (ag_recorded st'))"
proof (cases "ob_kind b = CompletionKind")
  case True
  with run have fold: "fold_op (suggest_for x b) (ag_existing st) st w = (Inr st', w')" by (simp add: apply_observation_def)
  note s = suggest_fold [OF fold ok subset_refl ok_distinct [OF ok]]
  have ok': "applying_ok x st' w'" using s by (simp add: good_step_def)
  have "suggestion_settled b (set (ag_recorded st')) c" if c: "c \<in> set (ag_existing st')" for c
  proof -
    obtain a where a: "a \<in> set (ag_existing st)" "grown_action a c"
      using s c True by (auto simp: good_step_def progress_def)
    then obtain a' where a': "a' \<in> set (ag_existing st')" "act_id a' = act_id a" "suggestion_settled b (set (ag_recorded st')) a'"
      using s by blast
    have "c = a'" using ok_distinct [OF ok'] c a'(1,2) grown_same(1) [OF a(2)] by (auto simp: distinct_map inj_on_def)
    with a'(3) show ?thesis by simp
  qed
  with s True show ?thesis by (simp add: settled_def)
next
  case False
  then have kind: "ob_kind b = Commitment" by (cases "ob_kind b") simp_all
  let ?i = "action_id_for wid (ax_account x) (ax_slug x) (ax_source_id x) (ob_key b)"
  show ?thesis
  proof (cases "find (\<lambda>a. act_id a = ?i) (ag_existing st)")
    case None
    then have "?i \<notin> set (map act_id (ag_existing st))" by (auto simp: find_None_iff)
    moreover have "open_new x b ?i st w = (Inr st', w')"
      using run False None wid by (simp add: apply_observation_def ops_workspace_id_eq bnd_def)
    ultimately show ?thesis using open_newD [OF _ ok kind] startswith_action_id False by (auto simp: settled_def)
  next
    case (Some a)
    then have a: "a \<in> set (ag_existing st)" "act_id a = ?i" by (auto simp: find_Some_iff)
    have "link_action x b a st w = (Inr st', w')"
      using run False Some wid by (simp add: apply_observation_def ops_workspace_id_eq bnd_def)
    from link_actionD [OF this ok a(1)] a(2) False show ?thesis by (auto simp: settled_def)
  qed
qed

subsection \<open>What a verified attribution says\<close>

lemma attribution_passage:
  assumes "verify_attribution text owner due (Some commitment) = SourceVerified"
  obtains o' d passage form where "owner = Some o'" and "due = Some d" and "passage \<in> set (source_passages text)"
    and "contains (padded passage) (padded (normalize_text o'))" and "form \<in> set (date_renderings d)"
    and "contains (padded passage) (padded form)" and "set (commitment_terms commitment) \<subseteq> set (split_ws passage)"
    and "commitment_terms commitment \<noteq> []"
proof -
  have "truthy owner" "truthy due" and ne: "commitment_terms commitment \<noteq> []"
    using assms by (auto simp: verify_attribution_def split: if_splits)
  then obtain o' d where od: "owner = Some o'" "due = Some d" by (auto simp: truthy_def split: option.splits)
  with assms obtain passage form where "passage \<in> set (source_passages text)"
    and "contains (padded passage) (padded (normalize_text o'))" and "form \<in> set (date_renderings d)"
    and "contains (padded passage) (padded form)" and "set (commitment_terms commitment) \<subseteq> set (split_ws passage)"
    by (auto simp: verify_attribution_def Let_def list_ex_iff list_all_iff split: if_splits)
  with od ne that show ?thesis by blast
qed

end
