(* ===== verification/Service_Runs.thy ===== *)
theory Service_Runs
  imports Apply_Facts
begin

section \<open>Every operation of the service\<close>

text \<open>
  Relations that also allow the writes of action records hold of every operation of the service,
  and so of every sequence of them.  Two are used: the change log only grows, and each action has
  one file.
\<close>

context ops_relation
begin

lemmas reading_intros = obeys_intros obeys_load_action obeys_open_action obeys_present
  obeys_opportunity_actions obeys_changes_for obeys_change_exists obeys_append_transition_change
  obeys_ops_retirement_info obeys_as_ops obeys_ledger_as_ops

lemma obeys_identity_of: "(\<And>a s. obeys R (resolve a s)) \<Longrightarrow> obeys R (identity_of resolve account slug)"
  unfolding identity_of_def by (intro reading_intros) (auto intro!: reading_intros split: exn.split)

text \<open>Starting a run.\<close>

lemma obeys_launch: "obeys R (launch g resume)"
  unfolding launch_def by (intro reading_intros) (auto intro!: reading_intros)

lemma obeys_interrupt: "obeys R started_at \<Longrightarrow> obeys R (interrupt sid sm account slug base_id base_rev started_at)"
  unfolding interrupt_def by (intro reading_intros)

lemma obeys_claim_source: "obeys R (claim_source sid)"
  unfolding claim_source_def by (intro reading_intros)

lemma obeys_resume_plan: "obeys R (resume_plan p sm account slug current base_id base_rev)"
  unfolding resume_plan_def by (intro reading_intros obeys_interrupt obeys_claim_source)

lemma obeys_read_pending: "obeys R (read_pending sid)"
  unfolding read_pending_def by (intro reading_intros) (auto intro!: reading_intros split: option.split)

lemma obeys_same_workspace: "(\<And>a s. obeys R (resolve a s)) \<Longrightarrow> obeys R (same_workspace resolve account slug)"
  unfolding same_workspace_def by (intro reading_intros obeys_identity_of)

lemma obeys_start_fresh: "obeys R (start_fresh sm g current)"
  unfolding start_fresh_def Let_def by (intro reading_intros obeys_interrupt obeys_claim_source obeys_launch)

lemma obeys_start_reconciliation:
  "(\<And>a s. obeys R (resolve a s)) \<Longrightarrow> obeys R (start_reconciliation resolve sid base_id base_rev)"
  unfolding start_reconciliation_def associated_with_def Let_def
  by (auto intro!: reading_intros obeys_same_workspace obeys_read_pending obeys_resume_plan obeys_launch
      obeys_start_fresh split: prod.split option.split)

lemma obeys_start_first_fresh: "obeys R (start_first_fresh sm g marker)"
  unfolding start_first_fresh_def Let_def by (intro reading_intros obeys_interrupt obeys_claim_source obeys_launch)

lemma obeys_start_first_overview:
  "(\<And>a s. obeys R (resolve a s)) \<Longrightarrow> obeys R (start_first_overview resolve sid account slug revision sequence)"
  unfolding start_first_overview_def Let_def
  by (auto intro!: reading_intros obeys_same_workspace obeys_read_pending obeys_launch
      obeys_start_first_fresh split: prod.split option.split)

lemma obeys_user_change: "obeys R (user_change m ct subject before after src now link)"
  unfolding user_change_def by (intro reading_intros)

lemma obeys_revert_overview: "obeys R (revert_overview m now)"
  unfolding revert_overview_def revert_to_def retired_change_def reverted_change_def promote_target_def
    reprocess_one_def Let_def
  by (auto intro!: reading_intros obeys_user_change split: option.split exn.split)

lemma obeys_retire_if_first: "obeys R (retire_if_first sid d reason)"
  unfolding retire_if_first_def assert_revert_possible_def retire_first_def Let_def
  by (auto intro!: reading_intros split: option.split)

end

locale service_relation = ops_relation +
  assumes R_write: "w_changes w' = w_changes w \<Longrightarrow> w_actions w' = AList.update i f (w_actions w) \<Longrightarrow> R w w'"
begin

lemma obeys_write_action: "obeys R (write_action a)"
  unfolding write_action_def by (rule obeys_modify, rule R_write) simp_all

lemmas service_intros = reading_intros obeys_write_action

lemma obeys_transition: "obeys R (transition_action i q)"
  unfolding transition_action_def
  by (intro service_intros) (auto intro!: service_intros split: sum.split)

lemma obeys_undo: "obeys R (undo_last_transition i reason)"
  unfolding undo_last_transition_def Let_def
  by (intro service_intros) (auto intro!: service_intros split: option.split)

lemma obeys_ensure_change: "obeys R (ensure_change x g st)"
  unfolding ensure_change_def by (intro service_intros)

lemma obeys_suggest_for: "obeys R (suggest_for x b a st)"
  unfolding suggest_for_def by (intro service_intros obeys_ensure_change)

lemma obeys_link_action: "obeys R (link_action x b a st)"
  unfolding link_action_def replay_changes_def
  by (intro service_intros obeys_ensure_change) (auto intro!: service_intros obeys_ensure_change split: option.split)

lemma obeys_open_new: "obeys R (open_new x b i st)"
  unfolding open_new_def Let_def
  by (intro service_intros obeys_ensure_change) (auto intro!: service_intros obeys_ensure_change split: option.split)

lemma obeys_apply_observation: "obeys R (apply_observation x b st)"
  unfolding apply_observation_def Let_def
  by (intro service_intros obeys_suggest_for)
    (auto intro!: service_intros obeys_link_action obeys_open_new split: option.split)

lemma obeys_apply_observations: "obeys R (apply_observations obs account slug v ref t)"
  unfolding apply_observations_def Let_def
  by (intro service_intros obeys_ensure_change obeys_apply_observation)

lemma obeys_complete: "obeys R (complete p v sm src resumed)"
  unfolding complete_def complete_steps_def mark_run_processed_def apply_incomplete_def job_error_def
  by (intro service_intros obeys_apply_observations)

lemma obeys_resume_run: "obeys R (resume_run p)"
  unfolding resume_run_def job_error_def
  by (intro service_intros obeys_complete) (auto intro!: service_intros obeys_complete split: exn.split)

lemma obeys_guarded: "obeys R m \<Longrightarrow> obeys R (guarded sm g started m)"
  unfolding guarded_def job_error_def by (intro service_intros) (auto intro!: service_intros split: exn.split)

lemma obeys_promote_or_clear: "obeys R (promote_or_clear g manifest h r)"
  unfolding promote_or_clear_def promote_run_def job_error_def
  by (intro service_intros) (auto intro!: service_intros split: option.split exn.split)

lemma obeys_commit_run: "obeys R (commit_run g ev manifest r t started sm)"
  unfolding commit_run_def by (intro service_intros obeys_promote_or_clear obeys_complete)

lemma obeys_analyse_run:
  assumes "\<And>a s. obeys R (resolve a s)" and "\<And>q. obeys R (execute q)"
  shows "obeys R (analyse_run resolve execute g sm)"
  unfolding analyse_run_def execute_run_def check_metadata_def job_error_def
  by (auto intro!: service_intros obeys_accepted [OF accepted_check_candidate] obeys_identity_of assms
      split: prod.split exn.split)

lemma obeys_reconcile:
  assumes "\<And>a s. obeys R (resolve a s)" and "\<And>q. obeys R (execute q)"
  shows "obeys R (reconcile resolve execute g)"
  unfolding reconcile_def
  by (intro service_intros obeys_guarded obeys_analyse_run assms)
    (auto intro!: obeys_guarded obeys_commit_run split: prod.split)

lemma obeys_run_job:
  assumes "\<And>a s. obeys R (resolve a s)" and "\<And>q. obeys R (execute q)"
  shows "obeys R (run_job resolve execute jid p)"
proof (rule obeysI)
  fix w r w' assume run: "run_job resolve execute jid p w = (r, w')"
  obtain q w1 where one: "run_plan_op resolve execute p w = (q, w1)" by (rule prod.exhaust)
  have "obeys R (run_plan_op resolve execute p)"
    using assms by (cases p) (auto simp: run_plan_op_def intro: obeys_resume_run obeys_reconcile)
  with one have "R w w1" by (auto dest: obeysD)
  moreover have "R w1 w'"
    using run one obeysD [OF obeys_accepted [OF accepted_in_jobs]] by (auto simp: run_job_def)
  ultimately show "R w w'" by (rule R_trans)
qed

text \<open>Corrections.\<close>

lemma obeys_retract_action: "obeys R (retract_action m now a c)"
  unfolding retract_action_def retraction_changes_def Let_def by (intro service_intros obeys_user_change)

lemma obeys_retract_source: "obeys R (retract_source m revert)"
  unfolding retract_source_def
  by (intro service_intros obeys_read_pending obeys_retract_action obeys_revert_overview)
    (auto intro!: service_intros split: option.split)

lemma obeys_resume_correction: "obeys R (resume_correction sid sm to_account to_slug reason)"
  unfolding resume_correction_def retired_prior_association_def Let_def
  by (auto intro!: service_intros obeys_retract_source split: option.split)

lemma obeys_confirm_and_correct:
  "(\<And>a s. obeys R (resolve a s)) \<Longrightarrow> obeys R (confirm_and_correct resolve sid account slug reason)"
  unfolding confirm_and_correct_def Let_def
  by (intro service_intros obeys_retire_if_first obeys_retract_source obeys_resume_correction)

lemma obeys_clear_and_correct: "obeys R (clear_and_correct sid reason)"
  unfolding clear_and_correct_def Let_def
  by (intro service_intros obeys_retire_if_first obeys_retract_source obeys_resume_correction)

end

subsection \<open>Sequences of operations\<close>

text \<open>
  A request to the service, or the execution of a job it started.  \<open>In_Ledger\<close>, \<open>In_Store\<close> and
  \<open>In_Jobs\<close> stand for whatever the other services of the process do in between.
\<close>

datatype service_cmd =
    Get_Action string
  | List_Actions string string "action_status option" bool
  | List_Changes string string int int
  | Repair string string
  | Transition string transition_request
  | Undo string string
  | Start_Reconciliation string string nat
  | Start_First_Overview string string string nat nat
  | Run_Job string run_plan
  | Confirm string string string string
  | Clear string string
  | In_Ledger "(ledger, unit) op"
  | In_Store "(store, unit) op"
  | In_Jobs "(jobs, unit) op"

definition quietly :: "(world, 'a) op \<Rightarrow> world \<Rightarrow> world" where
  "quietly m w = snd (m w)"

fun run_cmd :: "identity_resolver \<Rightarrow> executor \<Rightarrow> service_cmd \<Rightarrow> world \<Rightarrow> world" where
  "run_cmd resolve execute (Get_Action i) = quietly (get_action i)"
| "run_cmd resolve execute (List_Actions account slug st all) = quietly (list_actions account slug st all)"
| "run_cmd resolve execute (List_Changes account slug limit offset) = quietly (list_changes account slug limit offset)"
| "run_cmd resolve execute (Repair account slug) = quietly (repair account slug)"
| "run_cmd resolve execute (Transition i q) = quietly (transition_action i q)"
| "run_cmd resolve execute (Undo i reason) = quietly (undo_last_transition i reason)"
| "run_cmd resolve execute (Start_Reconciliation sid v n) = quietly (start_reconciliation resolve sid v n)"
| "run_cmd resolve execute (Start_First_Overview sid account slug n k) =
     quietly (start_first_overview resolve sid account slug n k)"
| "run_cmd resolve execute (Run_Job jid p) = quietly (run_job resolve execute jid p)"
| "run_cmd resolve execute (Confirm sid account slug reason) = quietly (confirm_and_correct resolve sid account slug reason)"
| "run_cmd resolve execute (Clear sid reason) = quietly (clear_and_correct sid reason)"
| "run_cmd resolve execute (In_Ledger m) = quietly (in_ledger m)"
| "run_cmd resolve execute (In_Store m) = quietly (in_store m)"
| "run_cmd resolve execute (In_Jobs m) = quietly (in_jobs m)"

definition run_service :: "identity_resolver \<Rightarrow> executor \<Rightarrow> service_cmd list \<Rightarrow> world \<Rightarrow> world" where
  "run_service resolve execute cmds w = fold (run_cmd resolve execute) cmds w"

context service_relation
begin

lemma R_quietly: "obeys R m \<Longrightarrow> R w (quietly m w)"
  by (cases "m w") (auto simp: quietly_def dest: obeysD)

lemma R_run_cmd:
  assumes "\<And>a s. obeys R (resolve a s)" and "\<And>q. obeys R (execute q)"
  shows "R w (run_cmd resolve execute c w)"
  using assms
  by (cases c) (auto simp: repair_def intro!: R_quietly obeys_get_action obeys_list_actions obeys_list_changes obeys_repair
      service_intros obeys_transition obeys_undo obeys_start_reconciliation obeys_start_first_overview obeys_run_job
      obeys_confirm_and_correct obeys_clear_and_correct)

lemma R_run_service:
  assumes "\<And>a s. obeys R (resolve a s)" and "\<And>q. obeys R (execute q)"
  shows "R w (run_service resolve execute cmds w)"
  unfolding run_service_def
proof (induction cmds arbitrary: w)
  case Nil
  show ?case by (simp add: R_refl)
next
  case (Cons c cmds)
  have "R w (run_cmd resolve execute c w)" by (rule R_run_cmd) (fact assms)+
  moreover have "R (run_cmd resolve execute c w) (fold (run_cmd resolve execute) cmds (run_cmd resolve execute c w))"
    by (rule Cons.IH)
  ultimately show ?case by (auto intro: R_trans)
qed

end

interpretation log_service: service_relation log_extends
  by unfold_locales (simp add: log_extends_same)

definition keeps_files :: "world \<Rightarrow> world \<Rightarrow> bool" where
  "keeps_files w w' \<longleftrightarrow> (distinct (map fst (w_actions w)) \<longrightarrow> distinct (map fst (w_actions w')))"

interpretation file_service: service_relation keeps_files
  by unfold_locales (auto simp: keeps_files_def distinct_update elim!: append_changeE)

end
