(* ===== verification/Replay.thy ===== *)
theory Replay
  imports Service_Runs
begin

section \<open>Applying the observations of a run, and applying them again\<close>

text \<open>
  The facts of a whole \<open>apply_observations\<close>: what it leaves of the existing actions, which new ones
  it opens, and that a second application over its result finds everything settled.
\<close>

subsection \<open>The loop over the observations\<close>

definition all_progress :: "apply_ctx \<Rightarrow> observation set \<Rightarrow> applying \<Rightarrow> applying \<Rightarrow> bool" where
  "all_progress x B st st' \<longleftrightarrow> (\<forall>a \<in> set (ag_existing st). \<exists>a' \<in> set (ag_existing st'). grown_action a a')
     \<and> (\<forall>a' \<in> set (ag_existing st'). (\<exists>a \<in> set (ag_existing st). grown_action a a')
         \<or> (\<exists>b \<in> B. ob_kind b = Commitment \<and> (\<exists>dup i wid me. grown_action (opened_action x b dup i wid me) a')))
     \<and> set (ag_recorded st) \<subseteq> set (ag_recorded st')"

lemma all_progress_refl: "all_progress x B st st"
  unfolding all_progress_def by (blast intro: grown_refl)

lemma all_progress_step:
  assumes "progress x b st st1" and "all_progress x B st1 st'"
  shows "all_progress x (insert b B) st st'"
  unfolding all_progress_def
proof (intro conjI ballI)
  fix a assume "a \<in> set (ag_existing st)"
  then obtain a1 where "a1 \<in> set (ag_existing st1)" "grown_action a a1" using assms(1) by (auto simp: progress_def)
  moreover from this(1) obtain a' where "a' \<in> set (ag_existing st')" "grown_action a1 a'"
    using assms(2) by (auto simp: all_progress_def)
  ultimately show "\<exists>a' \<in> set (ag_existing st'). grown_action a a'" using grown_trans by blast
next
  fix a' assume a': "a' \<in> set (ag_existing st')"
  show "(\<exists>a \<in> set (ag_existing st). grown_action a a')
    \<or> (\<exists>b \<in> insert b B. ob_kind b = Commitment \<and> (\<exists>dup i wid me. grown_action (opened_action x b dup i wid me) a'))"
  proof (cases "\<exists>a1 \<in> set (ag_existing st1). grown_action a1 a'")
    case True
    then obtain a1 where a1: "a1 \<in> set (ag_existing st1)" "grown_action a1 a'" by blast
    with assms(1) have "(\<exists>a \<in> set (ag_existing st). grown_action a a1)
      \<or> (ob_kind b = Commitment \<and> (\<exists>dup i wid me. grown_action (opened_action x b dup i wid me) a1))"
      by (simp add: progress_def)
    then show ?thesis using grown_trans [OF _ a1(2)] by blast
  next
    case False
    then show ?thesis using assms(2) a' by (auto simp: all_progress_def)
  qed
next
  show "set (ag_recorded st) \<subseteq> set (ag_recorded st')"
    using assms by (auto simp: progress_def all_progress_def)
qed

lemma apply_fold_grows:
  assumes "fold_op (apply_observation x) obs st w = (Inr st', w')" and "applying_ok x st w"
    and "own_id (w_ledger w) = Inr wid"
  shows "applying_ok x st' w' \<and> w_ledger w' = w_ledger w \<and> all_progress x (set obs) st st'"
  using assms
proof (induction obs arbitrary: st w)
  case Nil
  then show ?case by (simp add: ret_def all_progress_refl)
next
  case (Cons b obs)
  from Cons.prems(1) obtain st1 w1 where one: "apply_observation x b st w = (Inr st1, w1)"
    and rest: "fold_op (apply_observation x) obs st1 w1 = (Inr st', w')" by (auto elim!: bnd_InrE)
  have g: "good_step x b st w st1 w1" using apply_observationD [OF one Cons.prems(2,3)] by simp
  with Cons.IH [OF rest] Cons.prems(3) show ?case by (auto simp: good_step_def intro: all_progress_step)
qed

text \<open>No later observation is a commitment with the text of an earlier completion.\<close>

definition unrelated_order :: "observation list \<Rightarrow> bool" where
  "unrelated_order obs \<longleftrightarrow> sorted_wrt (\<lambda>c b. unrelated b c) obs"

lemma apply_fold_keeps:
  assumes "fold_op (apply_observation x) obs st w = (Inr st', w')" and "applying_ok x st w"
    and "own_id (w_ledger w) = Inr wid" and "settled x wid c (set (ag_existing st)) (set (ag_recorded st))"
    and "\<forall>b \<in> set obs. unrelated b c"
  shows "settled x wid c (set (ag_existing st')) (set (ag_recorded st'))"
  using assms
proof (induction obs arbitrary: st w)
  case Nil
  then show ?case by (simp add: ret_def)
next
  case (Cons b obs)
  from Cons.prems(1) obtain st1 w1 where one: "apply_observation x b st w = (Inr st1, w1)"
    and rest: "fold_op (apply_observation x) obs st1 w1 = (Inr st', w')" by (auto elim!: bnd_InrE)
  have g: "good_step x b st w st1 w1" using apply_observationD [OF one Cons.prems(2,3)] by simp
  have "settled x wid c (set (ag_existing st1)) (set (ag_recorded st1))"
    using settled_progress [OF _ Cons.prems(4)] g Cons.prems(5) by (auto simp: good_step_def)
  then show ?case using Cons.IH [OF rest] g Cons.prems(3,5) by (simp add: good_step_def)
qed

lemma apply_fold_settles:
  assumes "fold_op (apply_observation x) obs st w = (Inr st', w')" and "applying_ok x st w"
    and "own_id (w_ledger w) = Inr wid" and "unrelated_order obs" and "b \<in> set obs"
  shows "settled x wid b (set (ag_existing st')) (set (ag_recorded st'))"
  using assms
proof (induction obs arbitrary: st w)
  case (Cons c obs)
  from Cons.prems(1) obtain st1 w1 where one: "apply_observation x c st w = (Inr st1, w1)"
    and rest: "fold_op (apply_observation x) obs st1 w1 = (Inr st', w')" by (auto elim!: bnd_InrE)
  note s = apply_observationD [OF one Cons.prems(2,3)]
  then have ok1: "applying_ok x st1 w1" "own_id (w_ledger w1) = Inr wid" using Cons.prems(3) by (auto simp: good_step_def)
  show ?case
  proof (cases "b = c")
    case True
    then show ?thesis using apply_fold_keeps [OF rest ok1, of c] s Cons.prems(4) by (simp add: unrelated_order_def)
  next
    case False
    then show ?thesis using Cons.IH [OF rest ok1] Cons.prems(4,5) by (simp add: unrelated_order_def)
  qed
qed simp

subsection \<open>A settled observation changes nothing\<close>

lemma ensure_change_done: "draft_key g \<in> set (ag_recorded st) \<Longrightarrow> ensure_change x g st w = (Inr st, w)"
  by (simp add: ensure_change_def ret_def)

lemma suggest_done:
  assumes "suggestion_settled b (set (ag_recorded st)) a"
  shows "suggest_for x b a st w = (Inr st, w)"
proof (cases "suggestible b a")
  case False
  then show ?thesis by (simp add: suggest_for_def ret_def)
next
  case True
  then have "list_ex (\<lambda>s. cs_source s = ob_source b) (act_suggestions a)"
    and "draft_key (suggested_change x b a) \<in> set (ag_recorded st)"
    using assms by (auto simp: suggestion_settled_def list_ex_iff)
  then show ?thesis using True ensure_change_done by (simp add: suggest_for_def)
qed

lemma suggest_all_done:
  "\<forall>a \<in> set as. suggestion_settled b (set (ag_recorded st)) a \<Longrightarrow> fold_op (suggest_for x b) as st w = (Inr st, w)"
  by (induction as) (simp_all add: ret_def bnd_def suggest_done)

lemma commitment_done:
  assumes "commitment_settled b (set (ag_recorded st)) a"
  shows "link_action x b a st w = (Inr st, w)"
  using assms ensure_change_done
  by (auto simp: commitment_settled_def link_action_def replay_changes_def bnd_def ret_def split: if_splits option.split)

lemma apply_settled:
  assumes "settled x wid b (set (ag_existing st)) (set (ag_recorded st))" and "distinct (map act_id (ag_existing st))"
    and "own_id (w_ledger w) = Inr wid"
  shows "apply_observation x b st w = (Inr st, w)"
proof (cases "ob_kind b = CompletionKind")
  case True
  with assms(1) show ?thesis by (simp add: apply_observation_def settled_def suggest_all_done)
next
  case False
  let ?i = "action_id_for wid (ax_account x) (ax_slug x) (ax_source_id x) (ob_key b)"
  obtain a where a: "a \<in> set (ag_existing st)" "act_id a = ?i" "commitment_settled b (set (ag_recorded st)) a"
    using assms(1) False by (auto simp: settled_def)
  obtain c where c: "find (\<lambda>c. act_id c = ?i) (ag_existing st) = Some c"
    using a(1,2) by (cases "find (\<lambda>c. act_id c = ?i) (ag_existing st)") (auto simp: find_None_iff)
  then have "c \<in> set (ag_existing st)" "act_id c = ?i" by (auto simp: find_Some_iff)
  then have "c = a" using assms(2) a(1,2) by (auto simp: distinct_map inj_on_def)
  with c a(3) assms(3) False show ?thesis
    by (simp add: apply_observation_def ops_workspace_id_eq bnd_def commitment_done)
qed

lemma apply_all_settled:
  assumes "\<forall>b \<in> set obs. settled x wid b (set (ag_existing st)) (set (ag_recorded st))"
    and "distinct (map act_id (ag_existing st))" and "own_id (w_ledger w) = Inr wid"
  shows "fold_op (apply_observation x) obs st w = (Inr st, w)"
  using assms by (induction obs) (simp_all add: ret_def bnd_def apply_settled [where wid = wid])

subsection \<open>A whole application\<close>

text \<open>The context of a run and the copies it starts from.\<close>

definition run_ctx :: "string \<Rightarrow> string \<Rightarrow> source_ref \<Rightarrow> datetime \<Rightarrow> datetime \<Rightarrow> apply_ctx" where
  "run_ctx account slug ref occurred_at now = \<lparr>ax_account = account, ax_slug = slug, ax_source_id = sr_source_id ref,
     ax_occurred_at = occurred_at, ax_now = now\<rparr>"

definition start_copies :: "action list \<Rightarrow> change_entry list \<Rightarrow> applying" where
  "start_copies as cs = \<lparr>ag_existing = as, ag_recorded = map recorded_key cs, ag_created = [], ag_linked = [],
     ag_suggested = [], ag_duplicates = []\<rparr>"

definition tick :: "world \<Rightarrow> world" where
  "tick w = w\<lparr>w_ticks := Suc (w_ticks w)\<rparr>"

lemma tick_fields [simp]: "w_actions (tick w) = w_actions w" "w_changes (tick w) = w_changes w" "w_ledger (tick w) = w_ledger w"
  by (simp_all add: tick_def)

lemma apply_observations_eq:
  "apply_observations obs account slug v ref t =
     bnd (opportunity_actions account slug) (\<lambda>as. bnd ops_now (\<lambda>now. bnd (changes_for account slug) (\<lambda>cs.
       bnd (ensure_change (run_ctx account slug ref t now) (overview_change (run_ctx account slug ref t now) v ref)
         (start_copies as cs)) (fold_op (apply_observation (run_ctx account slug ref t now)) obs))))"
  by (simp add: apply_observations_def Let_def run_ctx_def start_copies_def)

lemma apply_observationsE:
  assumes "apply_observations obs account slug v ref t w = (Inr st', w')"
  obtains as cs st1 w1 where "opportunity_actions account slug w = (Inr as, w)"
    and "changes_for account slug (tick w) = (Inr cs, tick w)"
    and "ensure_change (run_ctx account slug ref t (w_clock w (w_ticks w)))
      (overview_change (run_ctx account slug ref t (w_clock w (w_ticks w))) v ref) (start_copies as cs) (tick w) = (Inr st1, w1)"
    and "fold_op (apply_observation (run_ctx account slug ref t (w_clock w (w_ticks w)))) obs st1 w1 = (Inr st', w')"
proof -
  from assms obtain as u now u1 cs u2 st1 w1 where as: "opportunity_actions account slug w = (Inr as, u)"
    and now: "ops_now u = (Inr now, u1)" and cs: "changes_for account slug u1 = (Inr cs, u2)"
    and ens: "ensure_change (run_ctx account slug ref t now) (overview_change (run_ctx account slug ref t now) v ref)
      (start_copies as cs) u2 = (Inr st1, w1)"
    and fold: "fold_op (apply_observation (run_ctx account slug ref t now)) obs st1 w1 = (Inr st', w')"
    unfolding apply_observations_eq by (elim bnd_InrE) blast
  have u: "u = w" using pure_opportunity_actions as by (rule world_pureD)
  have n: "now = w_clock w (w_ticks w)" "u1 = tick w" using now u by (simp_all add: ops_now_def tick_def)
  have "u2 = u1" using pure_changes_for cs by (rule world_pureD)
  with that as u n cs ens fold show ?thesis by simp
qed

lemma bnd_result: "m u = (Inr a, u') \<Longrightarrow> bnd m f u = f a u'"
  by (simp add: bnd_def)

lemma apply_observationsI:
  assumes "opportunity_actions account slug w = (Inr as, w)" and "changes_for account slug (tick w) = (Inr cs, tick w)"
  shows "apply_observations obs account slug v ref t w =
    (let x = run_ctx account slug ref t (w_clock w (w_ticks w)) in
     bnd (ensure_change x (overview_change x v ref) (start_copies as cs)) (fold_op (apply_observation x) obs) (tick w))"
  using assms
proof -
  have now: "bnd ops_now f w = f (w_clock w (w_ticks w)) (tick w)" for f :: "datetime \<Rightarrow> (world, applying) op"
    by (simp add: bnd_def ops_now_def tick_def)
  show ?thesis
    unfolding apply_observations_eq Let_def by (simp only: now bnd_result [where m = "opportunity_actions account slug", OF assms(1)]
      bnd_result [where m = "changes_for account slug", OF assms(2)])
qed

text \<open>Every action record of the opportunity names its origin among its evidence.\<close>

definition origins_kept :: "string \<Rightarrow> string \<Rightarrow> world \<Rightarrow> bool" where
  "origins_kept account slug w \<longleftrightarrow> (\<forall>i a. stored_action w i a \<longrightarrow> names_opportunity account slug a
     \<longrightarrow> act_origin a \<in> set (act_evidence a))"

lemma start_ok:
  assumes "opportunity_actions account slug w = (Inr as, w)" and "changes_for account slug (tick w) = (Inr cs, tick w)"
    and "distinct (map fst (w_actions w))" and "log_ok w" and "origins_kept account slug w"
  shows "applying_ok (run_ctx account slug ref t now) (start_copies as cs) (tick w)"
proof -
  have m: "action_mirror account slug as w" using opportunity_actions_mirror [OF assms(1,3)] by simp
  have "action_mirror account slug as (tick w)" using m mirror_cong [of "tick w" w] by simp
  moreover have "log_ok (tick w)" using assms(4) by (simp add: log_ok_def changes_at_def)
  moreover have "\<forall>a \<in> set as. act_origin a \<in> set (act_evidence a)"
    using m assms(5) by (auto simp: action_mirror_def origins_kept_def)
  ultimately show ?thesis
    using assms(2) by (auto simp: applying_ok_def run_ctx_def start_copies_def logged_keys_def)
qed

text \<open>A whole application, from the world it starts in to the one it leaves.\<close>

lemma apply_run:
  assumes "apply_observations obs account slug v ref t w = (Inr st, w')"
    and "distinct (map fst (w_actions w))" and "log_ok w" and "origins_kept account slug w"
    and "own_id (w_ledger w) = Inr wid"
  obtains x as cs st1 w1 where "x = run_ctx account slug ref t (w_clock w (w_ticks w))"
    and "action_mirror account slug as w" and "applying_ok x st1 w1" and "ag_existing st1 = as"
    and "draft_key (overview_change x v ref) \<in> set (ag_recorded st1)" and "w_ledger w1 = w_ledger w"
    and "fold_op (apply_observation x) obs st1 w1 = (Inr st, w')"
proof -
  let ?x = "run_ctx account slug ref t (w_clock w (w_ticks w))"
  from assms(1) obtain as cs st1 w1 where as: "opportunity_actions account slug w = (Inr as, w)"
    and cs: "changes_for account slug (tick w) = (Inr cs, tick w)"
    and ens: "ensure_change ?x (overview_change ?x v ref) (start_copies as cs) (tick w) = (Inr st1, w1)"
    and fold: "fold_op (apply_observation ?x) obs st1 w1 = (Inr st, w')" by (rule apply_observationsE)
  note ok = start_ok [OF as cs assms(2-4)]
  note g = ensure_changeD [OF ens ok]
  have "action_mirror account slug as w" using opportunity_actions_mirror [OF as assms(2)] by simp
  then show ?thesis using g fold by (intro that [OF refl]) (auto simp: start_copies_def)
qed

lemma apply_grows:
  assumes "apply_observations obs account slug v ref t w = (Inr st, w')"
    and "distinct (map fst (w_actions w))" and "log_ok w" and "origins_kept account slug w"
    and "own_id (w_ledger w) = Inr wid"
  shows "stored_action w (act_id a) a \<Longrightarrow> startswith (act_id a) ''act_'' \<Longrightarrow> names_opportunity account slug a
      \<Longrightarrow> \<exists>a'. stored_action w' (act_id a) a' \<and> grown_action a a'" (is "?s \<Longrightarrow> ?i \<Longrightarrow> ?n \<Longrightarrow> ?kept")
    and "stored_action w' (act_id a') a' \<Longrightarrow> startswith (act_id a') ''act_'' \<Longrightarrow> names_opportunity account slug a'
      \<Longrightarrow> (\<exists>a. stored_action w (act_id a) a \<and> grown_action a a')
        \<or> (\<exists>x b dup i wid me. b \<in> set obs \<and> ob_kind b = Commitment \<and> grown_action (opened_action x b dup i wid me) a')"
      (is "?s' \<Longrightarrow> ?i' \<Longrightarrow> ?n' \<Longrightarrow> ?new")
proof -
  from assms obtain x as cs st1 w1 where x: "x = run_ctx account slug ref t (w_clock w (w_ticks w))"
    and m: "action_mirror account slug as w" and ok: "applying_ok x st1 w1" "ag_existing st1 = as"
    and led: "w_ledger w1 = w_ledger w" and fold: "fold_op (apply_observation x) obs st1 w1 = (Inr st, w')"
    by (rule apply_run)
  have f: "ax_account x = account" "ax_slug x = slug" by (simp_all add: x run_ctx_def)
  have g: "applying_ok x st w' \<and> all_progress x (set obs) st1 st"
    using apply_fold_grows [OF fold ok(1)] led assms(5) by simp
  then have m': "action_mirror account slug (ag_existing st) w'" using f by (simp add: applying_ok_def)
  show ?kept if ?s ?i ?n
  proof -
    have "a \<in> set as" using m that by (simp add: action_mirror_def)
    then obtain a' where a': "a' \<in> set (ag_existing st)" "grown_action a a'" using g ok(2) by (auto simp: all_progress_def)
    then have "stored_action w' (act_id a') a'" using m' by (simp add: action_mirror_def)
    with a' grown_same(1) [OF a'(2)] show ?thesis by auto
  qed
  show ?new if ?s' ?i' ?n'
  proof -
    have "a' \<in> set (ag_existing st)" using m' that by (simp add: action_mirror_def)
    then have "(\<exists>a \<in> set as. grown_action a a')
      \<or> (\<exists>b \<in> set obs. ob_kind b = Commitment \<and> (\<exists>dup i wid me. grown_action (opened_action x b dup i wid me) a'))"
      using g ok(2) by (auto simp: all_progress_def)
    then show ?thesis using m by (auto simp: action_mirror_def)
  qed
qed

lemma mirror_unique: "action_mirror account slug as w \<Longrightarrow> action_mirror account slug bs w \<Longrightarrow> set as = set bs"
  by (auto simp: action_mirror_def)

lemma settled_ctx:
  "settled (run_ctx account slug ref t n) wid b E K = settled (run_ctx account slug ref t' n') wid b E K"
  by (simp add: settled_def run_ctx_def)

text \<open>The second application over the result of the first.\<close>

lemma replay_settled:
  assumes "apply_observations obs account slug v ref t w = (Inr st, w')"
    and "distinct (map fst (w_actions w))" and "log_ok w" and "origins_kept account slug w"
    and "own_id (w_ledger w) = Inr wid" and "unrelated_order obs"
    and "opportunity_actions account slug w' = (Inr as', w')"
  shows "\<exists>cs'. apply_observations obs account slug v ref t' w' = (Inr (start_copies as' cs'), tick w')"
proof -
  from assms(1-5) obtain x as cs st1 w1 where x: "x = run_ctx account slug ref t (w_clock w (w_ticks w))"
    and ok: "applying_ok x st1 w1" and key: "draft_key (overview_change x v ref) \<in> set (ag_recorded st1)"
    and led: "w_ledger w1 = w_ledger w" and fold: "fold_op (apply_observation x) obs st1 w1 = (Inr st, w')"
    by (rule apply_run)
  have f: "ax_account x = account" "ax_slug x = slug" by (simp_all add: x run_ctx_def)
  have wid1: "own_id (w_ledger w1) = Inr wid" using led assms(5) by simp
  note g = apply_fold_grows [OF fold ok wid1]
  have ok': "action_mirror account slug (ag_existing st) w'" "logged_keys account slug (ag_recorded st) w'"
    using g f by (simp_all add: applying_ok_def)
  obtain cs' where cs': "changes_for account slug w' = (Inr cs', w')" "set (map recorded_key cs') = set (ag_recorded st)"
    using ok'(2) by (auto simp: logged_keys_def)
  have tick': "changes_for account slug (tick w') = (Inr cs', tick w')"
    using cs'(1) by (auto simp: changes_for_eq changes_at_def intro: read_records_cong split: if_splits)
  let ?x = "run_ctx account slug ref t' (w_clock w' (w_ticks w'))" let ?st = "start_copies as' cs'"
  have "distinct (map fst (w_actions w'))"
    using obeysD [OF file_service.obeys_apply_observations assms(1)] assms(2) by (simp add: keeps_files_def)
  from opportunity_actions_mirror [OF assms(7) this] have mir: "action_mirror account slug as' w'" by simp
  have E: "set (ag_existing ?st) = set (ag_existing st)" "set (ag_recorded ?st) = set (ag_recorded st)"
    using mirror_unique [OF mir ok'(1)] cs'(2) by (simp_all add: start_copies_def)
  have "settled ?x wid b (set (ag_existing ?st)) (set (ag_recorded ?st))" if "b \<in> set obs" for b
    using apply_fold_settles [OF fold ok wid1 assms(6) that] unfolding E x by (rule settled_ctx [THEN iffD1])
  then have rest: "fold_op (apply_observation ?x) obs ?st (tick w') = (Inr ?st, tick w')"
    using mir g wid1 by (intro apply_all_settled) (auto simp: start_copies_def action_mirror_def)
  have "draft_key (overview_change ?x v ref) = draft_key (overview_change x v ref)" by simp
  then have "draft_key (overview_change ?x v ref) \<in> set (ag_recorded ?st)"
    using key g E(2) by (auto simp: all_progress_def)
  then have "ensure_change ?x (overview_change ?x v ref) ?st (tick w') = (Inr ?st, tick w')" by (rule ensure_change_done)
  then show ?thesis
    using rest unfolding apply_observationsI [OF assms(7) tick'] Let_def by (auto simp: bnd_def)
qed

end
