(* ===== verification/Ops_Demo.thy ===== *)
theory Ops_Demo
  imports Ledger_Claims Overview_Demo Service_Runs Replay
begin

section \<open>A small world of operations\<close>

text \<open>
  The ledger and the overview of the other demonstrations, with one open action, on which the
  properties of the operations service are exercised, and the conditions under which an append to
  the change log returns.
\<close>

subsection \<open>Appending a change\<close>

lemma append_change_returns:
  assumes "safe_token account" "safe_token slug" "own_id (w_ledger w) = Inr wid" "hexn 16 wid" "safe_token (w_actor w)"
    and "in_len 1 160 (cg_subject_id g)" "opt_all valid_ref (cg_source g)" "in_len 1 300 (cg_link g)"
  shows "\<exists>c w'. append_change account slug g w = (Inr c, w') \<and> w_ledger w' = w_ledger w \<and> w_actor w' = w_actor w
    \<and> w_actions w' = w_actions w \<and> w_store w' = w_store w"
proof -
  have "valid_change (build_change account slug g n wid (w_actor w) now)" if "1 \<le> n" for n now
    using that assms
    by (simp add: valid_change_def build_change_def Let_def change_id_ok_def hexn_take_sha)
  then show ?thesis
    using assms
    by (simp add: append_change_def changes_dir_def bnd_def read_st_def ops_now_def ops_workspace_id_eq modify_st_def
        ret_def raise_def Let_def)
qed

lemma ensure_change_returns:
  assumes "safe_token (ax_account x)" "safe_token (ax_slug x)" "own_id (w_ledger w) = Inr wid" "hexn 16 wid"
    and "safe_token (w_actor w)"
    and "in_len 1 160 (cg_subject_id g)" "opt_all valid_ref (cg_source g)" "in_len 1 300 (cg_link g)"
  shows "\<exists>st' w'. ensure_change x g st w = (Inr st', w') \<and> w_ledger w' = w_ledger w \<and> w_actor w' = w_actor w
    \<and> w_actions w' = w_actions w \<and> w_store w' = w_store w \<and> ag_existing st' = ag_existing st"
  using append_change_returns [OF assms]
  by (cases "draft_key g \<in> set (ag_recorded st)") (auto simp: ensure_change_def ret_def bnd_def)

subsection \<open>The world\<close>

definition demo_ref :: "nat \<Rightarrow> source_ref" where
  "demo_ref n = \<lparr>sr_source_id = demo_src, sr_revision = n, sr_evidence_id = demo_src @ ''_r'' @ dec_nat n, sr_locator = None\<rparr>"

definition demo_aid :: string where
  "demo_aid = ''act_00000000000000000000000000000000''"

definition demo_todo :: action where
  "demo_todo = \<lparr>act_id = demo_aid, act_workspace_id = ''0123456789abcdef'', act_account = ''Acme'', act_slug = ''renewal'',
     act_commitment = ''Send pricing deck'', act_definition_of_done = Some ''Deck sent'', act_party = Customer,
     act_owner = Some ''Customer team'', act_due_date = Some ''2026-01-05'', act_status = ActOpen,
     act_origin = demo_ref 1, act_key = ''0123456789abcdef'', act_evidence = [demo_ref 1],
     act_transitions = [\<lparr>tr_sequence = 1, tr_from = None, tr_to = ActOpen, tr_actor = Analysis, tr_actor_id = ''local'',
       tr_reason = ''Verified'', tr_source = Some (demo_ref 1), tr_undoes = None, tr_prior_owner = None,
       tr_prior_due_date = None, tr_recorded_at = 3\<rparr>],
     act_suggestions = [], act_duplicate_of = None, act_retraction = None, act_evidence_retractions = [],
     act_created_at = 3, act_updated_at = 3\<rparr>"

definition demo_jobs :: jobs where
  "demo_jobs = \<lparr>js_jobs = [], js_clock = int, js_ticks = 0, js_tokens = (\<lambda>_. replicate 32 (CHR ''3'')),
     js_token_count = 0, js_save_ok = (\<lambda>_. True), js_saves = 0\<rparr>"

definition demo_world :: world where
  "demo_world = \<lparr>w_ledger = demo_ledger, w_store = demo_store, w_jobs = demo_jobs, w_actor = ''local'', w_clock = int,
     w_ticks = 10, w_actions = [(demo_aid, Intact demo_todo)], w_changes = [], w_runs = [], w_pending = []\<rparr>"

lemma demo_world_fields [simp]:
  "w_ledger demo_world = demo_ledger" "w_store demo_world = demo_store" "w_jobs demo_world = demo_jobs"
  "w_actor demo_world = ''local''" "w_actions demo_world = [(demo_aid, Intact demo_todo)]"
  "w_changes demo_world = []" "w_runs demo_world = []" "w_pending demo_world = []"
  by (simp_all add: demo_world_def)

lemma demo_own [simp]: "own_id demo_ledger = Inr ''0123456789abcdef''"
  using demo_scope_ok by (simp add: own_id_def scope_def demo_ledger_def demo_scope_def op_defs)

lemma demo_hex: "hexn 16 ''0123456789abcdef''"
  by (simp add: hexn_def is_hex_def is_digit_def)

lemma demo_tokens: "safe_token ''local''" "safe_token ''Acme''" "safe_token ''renewal''"
  by (simp_all add: safe_token_def safe_char_def is_lower_def is_upper_def in_len_def)

lemma demo_ref_ok: "valid_ref (demo_ref 1)" "valid_ref (demo_ref 2)"
proof -
  have "dec_nat 1 = ''1''" "dec_nat 2 = ''2''" by code_simp+
  then show "valid_ref (demo_ref 1)" "valid_ref (demo_ref 2)"
    using demo_src_ok by (simp_all add: valid_ref_def demo_ref_def demo_src_def in_len_def)
qed

lemma demo_aid_ok: "action_id_ok demo_aid" "startswith demo_aid ''act_''" "length demo_aid = 36"
  by (simp_all add: action_id_ok_def demo_aid_def hexn_def is_hex_def is_digit_def)

lemma demo_todo_ok: "valid_action demo_todo"
  using demo_ref_ok demo_aid_ok demo_hex demo_tokens
  by (simp add: valid_action_def demo_todo_def action_fields_ok_def short_text_def in_len_def
      date_ok_def is_digit_def valid_transition_def action_chain_ok_def)

lemma demo_stored: "stored_action demo_world demo_aid demo_todo"
  by (simp add: stored_action_def)

lemma demo_names: "names_opportunity ''Acme'' ''renewal'' demo_todo" "act_id demo_todo = demo_aid"
  "act_workspace_id demo_todo = ''0123456789abcdef''"
  by (simp_all add: names_opportunity_def demo_todo_def)

lemma demo_origins: "origins_kept account slug demo_world"
  by (auto simp: origins_kept_def stored_action_def demo_todo_def split: if_splits)

lemma demo_log: "log_ok demo_world"
  by (simp add: log_ok_def changes_at_def)

lemma load_demo:
  assumes "map_of (w_actions w) demo_aid = Some (Intact demo_todo)" and "own_id (w_ledger w) = Inr ''0123456789abcdef''"
  shows "load_action demo_aid w = (Inr demo_todo, w)"
  using assms demo_aid_ok demo_todo_ok demo_names
  by (simp add: load_action_def read_st_def bnd_def read_record_eq parse_action_def ret_def)

lemma demo_listing: "dir_listing [(demo_aid, f)] = [demo_aid]"
  by (simp add: dir_listing_def)

lemma demo_opportunity:
  assumes "w_actions w = [(demo_aid, Intact demo_todo)]" and "own_id (w_ledger w) = Inr ''0123456789abcdef''"
  shows "opportunity_actions ''Acme'' ''renewal'' w = (Inr [demo_todo], w)"
  using assms load_demo [of w] demo_aid_ok(2) demo_names(1)
  by (simp add: opportunity_actions_def all_actions_def bnd_def read_st_def ret_def demo_listing names_opportunity_def)

lemma demo_changes: "changes_for ''Acme'' ''renewal'' (tick demo_world) = (Inr [], tick demo_world)"
  using demo_tokens by (simp add: changes_for_eq changes_at_def ret_def)

definition demo_identity :: resolved_identity where
  "demo_identity = \<lparr>safe_account = ''Acme'', safe_opp = ''renewal'', opp_account_sfdc = None, opp_sfdc = None,
     opp_metadata = JObj [(''name'', JStr ''Renewal'')], opp_name = ''Renewal''\<rparr>"

definition demo_resolve :: identity_resolver where
  "demo_resolve account slug = ret demo_identity"

definition demo_execute :: executor where
  "demo_execute q = ret \<lparr>ex_candidate = demo_candidate, ex_model = ''m'', ex_cli_version = ''1'', ex_runtime = ''cli''\<rparr>"

definition demo_block :: transition_request where
  "demo_block = \<lparr>tq_to = ActBlocked, tq_reason = ''Waiting for legal'', tq_owner = Some ''Customer legal'',
     tq_due_date = None, tq_clear_due_date = True\<rparr>"

end
