(* ===== verification/Commit_Claims.thy ===== *)
theory Commit_Claims
  imports Ops_Demo State_Claims
begin

section \<open>The commit barrier\<close>

text \<open>
  Between the end of the analysis and the promotion a run reads the source once more.  These lemmas
  show which part of a committing run can change an overview, and the properties that what it
  commits is still wanted and extends exactly the base the run was started from.
\<close>

subsection \<open>What leaves every overview as it is\<close>

definition same_overviews :: "world \<Rightarrow> world \<Rightarrow> bool" where
  "same_overviews w w' \<longleftrightarrow> ss_dirs (w_store w') = ss_dirs (w_store w)"

interpretation overviews: state_relation same_overviews
  by unfold_locales (auto simp: same_overviews_def)

lemma overviews_accepted: "obeys same_accepted m \<Longrightarrow> obeys same_overviews m"
  by (auto simp: obeys_def same_accepted_def same_overviews_def)

lemma overviews_pure: "obeys (=) m \<Longrightarrow> obeys same_overviews m"
  by (auto simp: obeys_def same_overviews_def)

lemma overviews_append_change: "obeys same_overviews (append_change account slug g)"
  by (rule obeysI) (auto simp: same_overviews_def elim!: append_changeE)

lemma overviews_write_action: "obeys same_overviews (write_action a)"
  unfolding write_action_def by (rule overviews.obeys_modify) (simp add: same_overviews_def)

lemmas overviews_intros = overviews.obeys_bnd overviews.obeys_if overviews.obeys_catch overviews.obeys_basic
  overviews.obeys_fold_op overviews_append_change overviews_write_action
  overviews_accepted [OF accepted_in_ledger] overviews_accepted [OF accepted_ops_now]
  overviews_accepted [OF accepted_workspace_id] overviews_accepted [OF accepted_record_terminal_run]
  overviews_accepted [OF accepted_remove_pending] overviews_pure [OF pure_opportunity_actions]
  overviews_pure [OF pure_changes_for]

lemma overviews_ensure_change: "obeys same_overviews (ensure_change x g st)"
  unfolding ensure_change_def by (intro overviews_intros)

lemma overviews_apply_observation: "obeys same_overviews (apply_observation x b st)"
  unfolding apply_observation_def suggest_for_def link_action_def replay_changes_def open_new_def Let_def
  by (intro overviews_intros overviews_ensure_change)
    (auto intro!: overviews_intros overviews_ensure_change split: option.split)

lemma overviews_complete: "obeys same_overviews (complete p v sm text resumed)"
  unfolding complete_def complete_steps_def mark_run_processed_def apply_incomplete_def job_error_def
    apply_observations_def Let_def
  by (intro overviews_intros overviews_ensure_change overviews_apply_observation)

subsection \<open>The promotion of a run\<close>

text \<open>A promotion of a run raises, or extends the chain whose head is the base of the run.\<close>

definition run_base_is :: "reconcile_args \<Rightarrow> version list \<Rightarrow> bool" where
  "run_base_is g vs \<longleftrightarrow> (case rc_base_version_id g of None \<Rightarrow> vs = []
     | Some b \<Rightarrow> vs \<noteq> [] \<and> vs_version_id (last vs) = b \<and> vs_revision (last vs) = the (rc_base_revision g))"

lemma grown_at: "grown s k vs v s' \<Longrightarrow> sd_versions (dir_at s' k) = map file_of (vs @ [v])"
  unfolding grown_def by (simp add: extended_def del: split_paired_All)

lemma promote_run_cases:
  assumes "at_chain (w_store w) (rc_account g) (rc_slug g) vs" and "promote_run g es h r w = (q, w')"
  obtains (fails) e where "q = Inl e" and "same_accepted w w'"
    | (grows) v where "q = Inr v" and "run_base_is g vs" and "vs_state v = ex_candidate r" and "vs_manifest v = es"
      and "evidence_authorized (ex_candidate r) es" and "vs_revision v = length vs + 1"
      and "sd_versions (dir_at (w_store w') (dir_key (w_store w) (rc_account g) (rc_slug g))) = map file_of (vs @ [v])"
proof -
  let ?s = "(w_store w)\<lparr>ss_forgotten := forgotten_ids (w_ledger w)\<rparr>"
  let ?i = "\<lparr>oi_account = rc_account g, oi_slug = rc_slug g, oi_name = opp_name (rc_identity g)\<rparr>"
  let ?p = "\<lparr>gp_updater_version = updater_version, gp_model = ex_model r, gp_runtime = ex_runtime r, gp_cli_version = ex_cli_version r\<rparr>"
  have chain: "at_chain ?s (oi_account ?i) (oi_slug ?i) vs" using assms(1) by (simp add: at_chain_frame)
  have key: "dir_key ?s = dir_key (w_store w)" by (intro ext) (simp add: dir_key_def)
  show ?thesis
  proof (cases q)
    case (Inl e)
    have "fails_keep (\<lambda>_. True) same_accepted (promote_run g es h r)" by (rule promote_run_fails)
    with assms(2) Inl have "same_accepted w w'" by (auto dest: fails_keepD)
    with Inl show ?thesis by (rule that(1))
  next
    case (Inr v)
    obtain s' where run: "(case rc_base_version_id g of None \<Rightarrow> promote_create ?i es h ?p (ex_candidate r)
        | Some b \<Rightarrow> promote_update ?i b (the (rc_base_revision g)) es h ?p (ex_candidate r)) ?s = (Inr v, s')"
      and w': "w_store w' = s'"
      using assms(2) Inr
      by (auto simp: promote_run_def of_sum_def mk_opp_identity_def mk_provenance_def in_store_def zoom_def ret_def raise_def
          split: option.splits prod.splits if_splits elim!: bnd_InrE)
    show ?thesis
    proof (cases "rc_base_version_id g")
      case None
      with run have "promote_create ?i es h ?p (ex_candidate r) ?s = (Inr v, s')" by simp
      from chain this show ?thesis
      proof (cases rule: promote_create_cases)
        case (grows v' vid now)
        then have v: "v' = v" by simp
        have "run_base_is g vs" using grows None by (simp add: run_base_is_def)
        moreover have "vs_state v = ex_candidate r" "vs_manifest v = es" "vs_revision v = length vs + 1"
          using grows v by (auto simp: child_version_def)
        moreover have "sd_versions (dir_at (w_store w') (dir_key (w_store w) (rc_account g) (rc_slug g))) = map file_of (vs @ [v])"
          using grown_at [of ?s "dir_key ?s (rc_account g) (rc_slug g)" vs v s'] grows v w' key by simp
        ultimately show ?thesis using grows by (intro that(2) [OF Inr]) simp_all
      qed simp
    next
      case (Some b)
      with run have "promote_update ?i b (the (rc_base_revision g)) es h ?p (ex_candidate r) ?s = (Inr v, s')" by simp
      from chain this show ?thesis
      proof (cases rule: promote_update_cases)
        case (grows v' vid now cs)
        then have v: "v' = v" by simp
        have n: "vs_revision (last vs) = length vs"
          using chain [unfolded at_chain_def] grows(2) by (blast intro: last_revision)
        have "run_base_is g vs" using grows Some by (simp add: run_base_is_def)
        moreover have "vs_state v = ex_candidate r" "vs_manifest v = es" "vs_revision v = length vs + 1"
          using grows v n by (auto simp: child_version_def)
        moreover have "sd_versions (dir_at (w_store w') (dir_key (w_store w) (rc_account g) (rc_slug g))) = map file_of (vs @ [v])"
          using grown_at [of ?s "dir_key ?s (rc_account g) (rc_slug g)" vs v s'] grows v w' key by simp
        ultimately show ?thesis using grows by (intro that(2) [OF Inr]) simp_all
      qed simp
    qed
  qed
qed

lemma check_source_unchangedD:
  assumes "check_source_unchanged sm revision account slug n w = (q, w')"
  shows "w' = w" and "q = Inr () \<Longrightarrow> \<not> withheld (sm_availability sm)
    \<and> lv_availability (sm_latest sm) = ContentAvailable \<and> sm_latest_revision sm = revision
    \<and> ad_state (sm_association sm) = Associated \<and> ad_account (sm_association sm) = Some account
    \<and> ad_opportunity_slug (sm_association sm) = Some slug
    \<and> (n = None \<or> n = Some (ad_sequence (sm_association sm)))"
  using assms by (auto simp: check_source_unchanged_def job_error_def Let_def ret_def raise_def split: if_splits)

lemma write_pending_store: "write_pending p w = (q, w') \<Longrightarrow> w_store w' = w_store w"
  by (auto simp: write_pending_def runs_dir_def op_defs split: if_splits)

lemma promote_or_clear_cases:
  assumes "at_chain (w_store w) (rc_account g) (rc_slug g) vs" and "promote_or_clear g es h r w = (q, w')"
  obtains (fails) e where "q = Inl e" and "same_overviews w w'"
    | (grows) v where "q = Inr v" and "run_base_is g vs" and "vs_state v = ex_candidate r" and "vs_manifest v = es"
      and "evidence_authorized (ex_candidate r) es" and "vs_revision v = length vs + 1"
      and "sd_versions (dir_at (w_store w') (dir_key (w_store w) (rc_account g) (rc_slug g))) = map file_of (vs @ [v])"
proof -
  obtain p w1 where run: "promote_run g es h r w = (p, w1)" by (rule prod.exhaust)
  from assms(1) run show ?thesis
  proof (cases rule: promote_run_cases)
    case (fails e)
    let ?k = "bnd (remove_pending (rc_source_id g)) (\<lambda>_. case e of
       OpportunityStateError _ code \<Rightarrow> job_error code | _ \<Rightarrow> (raise e :: (world, version) op))"
    have "?k w1 = (q, w')" using assms(2) run fails by (simp add: promote_or_clear_def catch_def)
    moreover have "obeys same_overviews ?k"
      unfolding job_error_def by (intro overviews_intros) (auto intro!: overviews_intros split: exn.split)
    ultimately have "same_overviews w1 w'" by (auto dest: obeysD)
    then have o: "same_overviews w w'" using fails by (simp add: same_overviews_def same_accepted_def)
    have "\<exists>e'. q = Inl e'"
      using \<open>?k w1 = (q, w')\<close>
      by (auto simp: bnd_def job_error_def raise_def split: sum.splits prod.splits exn.splits)
    with o show ?thesis using that(1) by blast
  next
    case (grows v)
    then have "q = Inr v" "w' = w1" using assms(2) run by (simp_all add: promote_or_clear_def catch_def)
    with grows show ?thesis using that(2) by blast
  qed
qed

lemma commit_run_steps:
  assumes "commit_run g ev manifest r observed_at started sm w = (q, w')"
  shows "w_store w' = w_store w \<or> (\<exists>p w1.
    check_source_unchanged sm (rc_revision g) (rc_account g) (rc_slug g) (rc_association_sequence g) w = (Inr (), w)
    \<and> write_pending p w = (Inr (), w1)
    \<and> bnd (promote_or_clear g manifest (evidence_manifest_hash manifest) r)
        (\<lambda>v. complete p v sm (Some (te_content ev)) False) w1 = (q, w'))"
  using assms [unfolded commit_run_def]
proof (cases rule: bnd_cases)
  case (err e)
  then show ?thesis using check_source_unchangedD(1) by blast
next
  case (ok u w0)
  then have w0: "w0 = w" by (simp add: check_source_unchangedD(1))
  from ok(2) show ?thesis
  proof (cases rule: bnd_cases)
    case (ok wid w2)
    then have w2: "w2 = w" using w0 by (simp add: ops_workspace_id_eq)
    from ok(2) show ?thesis
    proof (cases rule: bnd_cases)
      case (ok p w3)
      then have "w3 = w" using w2 by (simp add: of_sum_def ret_def raise_def split: sum.splits)
      with ok(2) show ?thesis
        by (elim bnd_cases [where m = "write_pending p"])
          (use \<open>check_source_unchanged _ _ _ _ _ w = (Inr u, w0)\<close> w0 in \<open>auto dest: write_pending_store\<close>)
    qed (use w2 in \<open>simp add: of_sum_def ret_def raise_def split: sum.splits\<close>)
  qed (use w0 in \<open>simp add: ops_workspace_id_eq\<close>)
qed


subsection \<open>A run that commits\<close>

definition demo_run :: reconcile_args where
  "demo_run = run_args demo_sid 1 ''Acme'' ''renewal'' demo_identity (Some (vs_version_id demo_version)) (Some 1) None"

definition demo_evidence :: transcript_evidence where
  "demo_evidence = \<lparr>te_id = demo_src @ ''_r1'', te_display_name = ''Meeting'', te_content = ''Ann: deck'',
     te_sha256 = replicate 64 (CHR ''b''), te_byte_count = 40, te_observed_at = 0\<rparr>"

definition demo_result :: exec_result where
  "demo_result = \<lparr>ex_candidate = demo_candidate, ex_model = ''m'', ex_cli_version = ''1'', ex_runtime = ''cli''\<rparr>"

definition run_provenance :: provenance where
  "run_provenance = \<lparr>gp_updater_version = updater_version, gp_model = ''m'', gp_runtime = ''cli'', gp_cli_version = ''1''\<rparr>"

lemma demo_checked:
  "check_source_unchanged (summarize True demo_source) 1 ''Acme'' ''renewal'' None demo_world = (Inr (), demo_world)"
proof -
  have "withheld ContentAvailable = False" by code_simp
  then show ?thesis
    using demo_available
    by (simp add: check_source_unchanged_def Let_def summarize_def ret_def)
       (simp add: demo_source_def demo_decision_def new_revision_def ret_def)
qed

lemma demo_run_promotes:
  "\<exists>v s'. promote_update demo_opp (vs_version_id demo_version) 1 demo_manifest (evidence_manifest_hash demo_manifest)
     run_provenance demo_candidate demo_store = (Inr v, s')"
proof -
  let ?v = "child_version demo_opp (Some demo_version) demo_manifest (evidence_manifest_hash demo_manifest)
     run_provenance demo_candidate demo_child_id 0 (Some (blank_change_set demo_version demo_child_id 2))"
  have opp: "oi_account demo_opp = ''Acme''" "oi_slug demo_opp = ''renewal''" by (simp_all add: demo_opp_def)
  have st: "ss_tokens demo_store n = demo_child_id" "ss_token_count demo_store = 0" "ss_clock demo_store = int"
    "ss_ticks demo_store = 0" for n by (simp_all add: demo_store_def demo_child_id_def)
  have "version_fields_ok ?v"
    using demo_version_fields by (simp add: version_fields_ok_def child_version_def demo_child_id_def
      hexn_def [of 32] is_hex_def is_digit_def list_all_iff) (simp add: demo_version_def)
  moreover have "version_consistent ?v"
    using demo_manifest_ok demo_authorized
    by (simp add: version_consistent_def version_chain_ok_def child_version_def blank_change_set_def)
  moreover have "sd_retired (dir_at demo_store (dir_key demo_store ''Acme'' ''renewal'')) = None"
    by (simp add: dir_at_def dir_key_def demo_store_def)
  ultimately show ?thesis
    using promote_update_runs [of demo_store demo_opp "[demo_version]" demo_candidate demo_manifest
      "blank_change_set demo_version demo_child_id 2" ?v run_provenance]
      demo_store_chain demo_authorized demo_change_set [of demo_manifest]
    by (auto simp: opp st numeral_2_eq_2)
qed

lemma demo_commits:
  "\<exists>q w'. commit_run demo_run demo_evidence demo_manifest demo_result 5 6 (summarize True demo_source) demo_world = (q, w')
     \<and> ss_dirs (w_store w') \<noteq> ss_dirs (w_store demo_world)"
proof -
  let ?m = "\<lambda>v. complete (run_pending ''0123456789abcdef'' demo_run demo_evidence 5 6) v (summarize True demo_source)
    (Some (te_content demo_evidence)) False"
  have f: "rc_source_id demo_run = demo_sid" "rc_revision demo_run = 1" "rc_account demo_run = ''Acme''"
    "rc_slug demo_run = ''renewal''" "rc_base_version_id demo_run = Some (vs_version_id demo_version)"
    "rc_base_revision demo_run = Some 1" "rc_association_sequence demo_run = None" "opp_name (rc_identity demo_run) = ''Renewal''"
    by (simp_all add: demo_run_def run_args_def demo_identity_def)
  have "valid_pending (run_pending ''0123456789abcdef'' demo_run demo_evidence 5 6)"
    using demo_hex demo_tokens
    by (simp add: valid_pending_def run_pending_def f revision_ok_def demo_evidence_def demo_src_def in_len_def)
       (simp add: hexn_def is_hex_def is_digit_def list_all_iff)
  then obtain p where p: "mk_pending (run_pending ''0123456789abcdef'' demo_run demo_evidence 5 6) = Inr p"
      "p = run_pending ''0123456789abcdef'' demo_run demo_evidence 5 6"
    by (simp add: mk_pending_def)
  define w1 where "w1 = demo_world\<lparr>w_pending := AList.update demo_sid (Intact p) []\<rparr>"
  have wp: "write_pending p demo_world = (Inr (), w1)"
    using p by (simp add: write_pending_def runs_dir_def bnd_def modify_st_def run_pending_def f ret_def w1_def)
  obtain v s' where pr: "promote_update demo_opp (vs_version_id demo_version) 1 demo_manifest
      (evidence_manifest_hash demo_manifest) run_provenance demo_candidate demo_store = (Inr v, s')"
    using demo_run_promotes by blast
  have s: "w_store w1\<lparr>ss_forgotten := forgotten_ids (w_ledger w1)\<rparr> = demo_store"
    by (simp add: w1_def forgotten_ids_def demo_ledger_def dir_listing_def) (simp add: demo_store_def)
  have "valid_provenance run_provenance" by (simp add: valid_provenance_def run_provenance_def updater_version_def text_simps)
  then have "promote_run demo_run demo_manifest (evidence_manifest_hash demo_manifest) demo_result w1 = (Inr v, w1\<lparr>w_store := s'\<rparr>)"
    using pr s demo_opp_ok
    by (simp add: promote_run_def bnd_def of_sum_def mk_opp_identity_def mk_provenance_def in_store_def zoom_def f demo_result_def
        run_provenance_def demo_opp_def ret_def)
  then have pc: "promote_or_clear demo_run demo_manifest (evidence_manifest_hash demo_manifest) demo_result w1 = (Inr v, w1\<lparr>w_store := s'\<rparr>)"
    by (simp add: promote_or_clear_def catch_def)
  obtain q w' where rest: "complete p v (summarize True demo_source) (Some (te_content demo_evidence)) False (w1\<lparr>w_store := s'\<rparr>) = (q, w')"
    by (rule prod.exhaust)
  have run: "commit_run demo_run demo_evidence demo_manifest demo_result 5 6 (summarize True demo_source) demo_world = (q, w')"
    using demo_checked wp pc rest p demo_own f
    by (simp add: commit_run_def bnd_def ops_workspace_id_eq of_sum_def ret_def)
  have w1: "w_store w1 = demo_store" by (simp add: w1_def)
  have chain: "at_chain (w_store w1) (rc_account demo_run) (rc_slug demo_run) [demo_version]"
    using demo_store_chain f w1 by simp
  have "\<exists>u. sd_versions (dir_at s' (dir_key demo_store ''Acme'' ''renewal'')) = map file_of ([demo_version] @ [u])"
    using chain pc by (cases rule: promote_or_clear_cases) (auto simp: f w1)
  moreover have "sd_versions (dir_at demo_store (dir_key demo_store ''Acme'' ''renewal'')) = map file_of [demo_version]"
    using demo_store_chain by (simp add: at_chain_def holds_chain_def)
  ultimately have "ss_dirs s' \<noteq> ss_dirs demo_store" by (auto simp: dir_at_def)
  moreover have "ss_dirs (w_store w') = ss_dirs s'"
    using obeysD [OF overviews_complete rest] by (simp add: same_overviews_def)
  ultimately show ?thesis using run by auto
qed


end
