(* ===== verification/Ops_Claims.thy ===== *)
theory Ops_Claims
  imports Ops_Demo
begin

section \<open>What the operations service guarantees\<close>

text \<open>
  The properties of reconciliation, of the actions it opens and links, of the users' transitions
  and of the log of changes, each with a concrete case in the small world of \<^theory_text>\<open>Ops_Demo\<close>.
\<close>

subsection \<open>A run that fails\<close>

text \<open>C8: a reconciliation run that raises leaves every stored overview, action and change as it was,
  unless the failure is the one that says that the overview was promoted and the rest is still to be
  applied; whatever the workspace service and the executor do, as long as they themselves leave those
  records alone.\<close>

theorem failed_run_keeps_accepted_state:
  assumes "\<forall>a s. obeys same_accepted (resolve a s)" and "\<forall>q. obeys same_accepted (execute q)"
    and "reconcile resolve execute g w = (Inl e, w')" and "e \<noteq> ManagedJobError ''apply_incomplete''"
  shows "ss_dirs (w_store w') = ss_dirs (w_store w) \<and> w_actions w' = w_actions w \<and> w_changes w' = w_changes w"
  using reconcile_fails [of resolve execute g] assms
  by (auto simp: fails_keep_def clean_failure_def same_accepted_def)

definition demo_args :: reconcile_args where
  "demo_args = run_args ''src_0'' 1 ''Acme'' ''renewal'' demo_identity (Some (vs_version_id demo_version)) (Some 1) None"

theorem failed_run_keeps_accepted_state_witness:
  "\<exists>e w'. reconcile demo_resolve demo_execute demo_args demo_world = (Inl e, w') \<and> w_actions w' = w_actions demo_world"
proof -
  have "get_source ''src_0'' demo_ledger = (Inl (EvidenceLedgerError 404 ''unknown_source''), demo_ledger)"
    by (simp add: get_source_def read_source_def is_forgotten_def source_id_ok_def hexn_def op_defs)
  then obtain w' where run: "reconcile demo_resolve demo_execute demo_args demo_world
      = (Inl (EvidenceLedgerError 404 ''unknown_source''), w')"
    by (simp add: reconcile_def bnd_def ops_now_def in_ledger_def zoom_def demo_args_def run_args_def)
  have "obeys same_accepted (demo_resolve a s)" "obeys same_accepted (demo_execute q)" for a s q
    by (simp_all add: demo_resolve_def demo_execute_def accepted.obeys_ret)
  then show ?thesis using failed_run_keeps_accepted_state [OF _ _ run] run by blast
qed

subsection \<open>Applying the analysis of a source\<close>

definition demo_done :: observation where
  "demo_done = \<lparr>ob_key = ''0123456789abcdef'', ob_kind = CompletionKind, ob_commitment = ''Send pricing deck!'',
     ob_definition_of_done = None, ob_party = Unknown, ob_owner = None, ob_due_date = None, ob_explicit = False,
     ob_attribution = ModelOnly, ob_source = demo_ref 2\<rparr>"

lemma demo_history_link: "in_len 1 300 (history_link ''Acme'' ''renewal'' 1)" "in_len 1 300 (action_link demo_aid)"
proof -
  have "dec_nat 1 = ''1''" by code_simp
  then show "in_len 1 300 (history_link ''Acme'' ''renewal'' 1)" "in_len 1 300 (action_link demo_aid)"
    by (simp_all add: history_link_def action_link_def demo_aid_def in_len_def)
qed

lemma demo_suggestible: "suggestible demo_done demo_todo"
proof -
  have "normalize_text ''Send pricing deck'' = normalize_text ''Send pricing deck!''" by code_simp
  then show ?thesis by (simp add: suggestible_def demo_done_def demo_todo_def)
qed

text \<open>The run of one completion suggestion over the small world.\<close>

lemma demo_apply:
  "\<exists>st w' n. apply_observations [demo_done] ''Acme'' ''renewal'' demo_version (demo_ref 2) 5 demo_world = (Inr st, w')
     \<and> w_actions w' = [(demo_aid, Intact (with_suggestion demo_done n demo_todo))] \<and> w_ledger w' = demo_ledger"
proof -
  let ?x = "run_ctx ''Acme'' ''renewal'' (demo_ref 2) 5 (w_clock demo_world (w_ticks demo_world))"
  let ?st = "start_copies [demo_todo] []"
  have x: "ax_account ?x = ''Acme''" "ax_slug ?x = ''renewal''" by (simp_all add: run_ctx_def)
  have opp: "opportunity_actions ''Acme'' ''renewal'' demo_world = (Inr [demo_todo], demo_world)"
    by (rule demo_opportunity) simp_all
  have "vs_version_id demo_version = replicate 32 (CHR ''1'')" "vs_revision demo_version = 1"
    by (simp_all add: demo_version_def)
  then have "\<exists>st' w'. ensure_change ?x (overview_change ?x demo_version (demo_ref 2)) ?st (tick demo_world) = (Inr st', w')
      \<and> w_ledger w' = w_ledger (tick demo_world) \<and> w_actor w' = w_actor (tick demo_world)
      \<and> w_actions w' = w_actions (tick demo_world) \<and> w_store w' = w_store (tick demo_world)
      \<and> ag_existing st' = ag_existing ?st"
    by (intro ensure_change_returns)
      (use demo_tokens demo_own demo_hex demo_ref_ok demo_history_link x in
        \<open>simp_all add: tick_def overview_change_def analysis_change_def in_len_def\<close>)
  then obtain st1 w1 where one: "ensure_change ?x (overview_change ?x demo_version (demo_ref 2)) ?st (tick demo_world) = (Inr st1, w1)"
    and f: "w_ledger w1 = demo_ledger" "w_actor w1 = ''local''" "ag_existing st1 = [demo_todo]"
      "w_actions w1 = [(demo_aid, Intact demo_todo)]"
    by (auto simp: tick_def start_copies_def)
  let ?a = "with_suggestion demo_done (ax_now ?x) demo_todo"
  let ?st1 = "st1\<lparr>ag_existing := replace_action ?a [demo_todo], ag_suggested := ag_suggested st1 @ [demo_aid]\<rparr>"
  let ?w1 = "w1\<lparr>w_actions := AList.update (act_id ?a) (Intact ?a) (w_actions w1)\<rparr>"
  have "\<exists>st' w'. ensure_change ?x (suggested_change ?x demo_done demo_todo) ?st1 ?w1 = (Inr st', w')
      \<and> w_ledger w' = w_ledger ?w1 \<and> w_actor w' = w_actor ?w1
      \<and> w_actions w' = w_actions ?w1 \<and> w_store w' = w_store ?w1 \<and> ag_existing st' = ag_existing ?st1"
    by (intro ensure_change_returns)
      (use demo_tokens demo_own demo_hex demo_ref_ok demo_history_link x f demo_names in
        \<open>simp_all add: suggested_change_def action_change_def analysis_change_def demo_done_def demo_aid_def in_len_def\<close>)
  then obtain st2 w2 where "suggest_for ?x demo_done demo_todo st1 w1 = (Inr st2, w2)"
    and w2: "w_ledger w2 = demo_ledger" "w_actions w2 = [(demo_aid, Intact ?a)]"
    using demo_suggestible f demo_names by (auto simp: suggest_for_def write_action_eq bnd_def demo_todo_def with_suggestion_def)
  then have "apply_observation ?x demo_done st1 w1 = (Inr st2, w2)"
    using f by (simp add: apply_observation_def demo_done_def bnd_def ret_def)
  then have "apply_observations [demo_done] ''Acme'' ''renewal'' demo_version (demo_ref 2) 5 demo_world = (Inr st2, w2)"
    using one unfolding apply_observationsI [OF opp demo_changes] Let_def by (simp add: bnd_def ret_def)
  with w2 show ?thesis by blast
qed

text \<open>C2: human decisions win.  Applying the observations of a run to an opportunity leaves status,
  owner, due date, commitment, responsible party and transitions of every stored action of it as they
  were; an action only gains evidence and completion suggestions, after those it had.\<close>

theorem human_decisions_win:
  assumes "apply_observations obs account slug v ref t w = (Inr st, w')"
    and "distinct (map fst (w_actions w))" and "log_ok w" and "origins_kept account slug w"
    and "own_id (w_ledger w) = Inr wid"
    and "stored_action w (act_id a) a" and "startswith (act_id a) ''act_''" and "names_opportunity account slug a"
  shows "\<exists>a' ev sg. stored_action w' (act_id a) a' \<and> act_status a' = act_status a \<and> act_owner a' = act_owner a
    \<and> act_due_date a' = act_due_date a \<and> act_party a' = act_party a \<and> act_commitment a' = act_commitment a
    \<and> act_transitions a' = act_transitions a \<and> act_retraction a' = act_retraction a
    \<and> act_evidence a' = act_evidence a @ ev \<and> act_suggestions a' = act_suggestions a @ sg"
proof -
  obtain a' where a': "stored_action w' (act_id a) a'" "grown_action a a'"
    using apply_grows [OF assms(1-5)] assms(6-8) by blast
  then show ?thesis
    unfolding grown_action_def by (elim exE) (intro exI conjI, assumption, simp_all)
qed

theorem human_decisions_win_witness:
  "\<exists>st w' a'. apply_observations [demo_done] ''Acme'' ''renewal'' demo_version (demo_ref 2) 5 demo_world = (Inr st, w')
     \<and> stored_action w' demo_aid a' \<and> act_status a' = ActOpen"
proof -
  obtain st w' where run: "apply_observations [demo_done] ''Acme'' ''renewal'' demo_version (demo_ref 2) 5 demo_world = (Inr st, w')"
    using demo_apply by blast
  have "stored_action demo_world (act_id demo_todo) demo_todo" "startswith (act_id demo_todo) ''act_''"
    using demo_stored demo_names demo_aid_ok by simp_all
  from human_decisions_win [OF run _ demo_log demo_origins _ this demo_names(1)] demo_own
  obtain a' where "stored_action w' (act_id demo_todo) a'" "act_status a' = act_status demo_todo" by auto
  with run show ?thesis using demo_names by (intro exI conjI) (assumption, simp_all add: demo_todo_def)
qed



text \<open>C9: the change log of every opportunity is append-only and numbered without gaps.  No request to
  the service and no execution of a job changes, removes or reorders an entry of any log; what is
  added follows the last entry with the next numbers.\<close>

theorem change_log_append_only:
  assumes "\<forall>a s. obeys log_extends (resolve a s)" and "\<forall>q. obeys log_extends (execute q)" and "log_ok w"
  shows "\<exists>es. changes_at (run_service resolve execute cmds w) dir = changes_at w dir @ es
    \<and> map fst (changes_at (run_service resolve execute cmds w) dir) = [1..<Suc (length (changes_at w dir) + length es)]"
proof -
  have "log_extends w (run_service resolve execute cmds w)"
    by (rule log_service.R_run_service) (use assms in blast)+
  then show ?thesis using assms(3) unfolding log_extends_def log_ok_def by (metis length_append)
qed

theorem change_log_append_only_witness:
  "let log = changes_at (run_service demo_resolve demo_execute
     [Transition demo_aid demo_block, Undo demo_aid ''Not blocked'', Repair ''Acme'' ''renewal''] demo_world) ''Acme__renewal''
   in map fst log = [1..<Suc (length log)]"
proof -
  have "obeys log_extends (demo_resolve a s)" "obeys log_extends (demo_execute q)" for a s q
    by (simp_all add: demo_resolve_def demo_execute_def log_ext.obeys_ret)
  with change_log_append_only [OF _ _ demo_log, of demo_resolve demo_execute]
  obtain es where "changes_at (run_service demo_resolve demo_execute
     [Transition demo_aid demo_block, Undo demo_aid ''Not blocked'', Repair ''Acme'' ''renewal''] demo_world) ''Acme__renewal''
      = changes_at demo_world ''Acme__renewal'' @ es"
    "map fst (changes_at (run_service demo_resolve demo_execute
     [Transition demo_aid demo_block, Undo demo_aid ''Not blocked'', Repair ''Acme'' ''renewal''] demo_world) ''Acme__renewal'')
      = [1..<Suc (length (changes_at demo_world ''Acme__renewal'') + length es)]" by blast
  then show ?thesis by (simp add: changes_at_def Let_def del: upt_Suc)
qed

subsection \<open>What the analysis contributes\<close>

lemma derive_from_result:
  assumes "derive_from text ref seen rs = Inr obs"
  shows "set (map ob_key obs) \<inter> set seen = {} \<and> distinct (map ob_key obs) \<and> length obs \<le> length rs
    \<and> (\<forall>b \<in> set obs. valid_observation b \<and> (\<exists>r \<in> set rs. citing_refs ref r \<noteq> [] \<and> b = observation_of text ref r))"
  using assms
proof (induction rs arbitrary: seen obs)
  case (Cons r rs)
  show ?case
  proof (cases "citing_refs ref r = [] \<or> observed_key ref r \<in> set seen")
    case True
    then have "derive_from text ref seen rs = Inr obs" using Cons.prems by (auto split: if_splits)
    from Cons.IH [OF this] show ?thesis by auto
  next
    case False
    then obtain xs where v: "valid_observation (observation_of text ref r)" and obs: "obs = observation_of text ref r # xs"
      and rest: "derive_from text ref (observed_key ref r # seen) rs = Inr xs"
      using Cons.prems by (auto simp: mk_observation_def split: if_splits sum.splits)
    have "ob_key (observation_of text ref r) = observed_key ref r" by (simp add: observation_of_def Let_def)
    with Cons.IH [OF rest] v obs False show ?thesis by auto
  qed
qed simp

text \<open>C30: the observations derived from an accepted state are valid, have distinct keys, are at most as
  many as the recommended actions, and each cites the analysed revision, with the locator of a
  reference of its recommendation to that revision's evidence.\<close>

theorem derived_observations_ok:
  assumes "derive_observations c ref source_text = Inr obs" and "b \<in> set obs"
  shows "valid_observation b \<and> distinct (map ob_key obs) \<and> length obs \<le> length (cd_actions c)
    \<and> (\<exists>r \<in> set (cd_actions c). \<exists>e \<in> set (ra_refs r). evr_id e = sr_evidence_id ref
        \<and> ob_source b = ref\<lparr>sr_locator := evr_locator e\<rparr> \<and> ob_commitment b = ra_action r \<and> ob_owner b = ra_owner r
        \<and> ob_party b = derive_party (ra_owner r))"
proof -
  note d = derive_from_result [OF assms(1) [unfolded derive_observations_def]]
  then obtain r t where r: "r \<in> set (cd_actions c)" "citing_refs ref r \<noteq> []" "b = observation_of t ref r"
    using assms(2) by blast
  then have "hd (citing_refs ref r) \<in> set (citing_refs ref r)" by simp
  then have "hd (citing_refs ref r) \<in> set (ra_refs r)" "evr_id (hd (citing_refs ref r)) = sr_evidence_id ref"
    unfolding citing_refs_def by auto
  then show ?thesis
    using d assms(2) r by (auto simp: observation_of_def Let_def intro!: bexI [of _ r] bexI [of _ "hd (citing_refs ref r)"])
qed

definition demo_todo_rec :: recommended where
  "demo_todo_rec = demo_action\<lparr>ra_owner := Some ''Customer team''\<rparr>"

definition demo_text :: string where
  "demo_text = ''Customer team: send pricing deck on Jan 5''"

lemma demo_citing: "citing_refs (demo_ref 1) demo_todo_rec = ra_refs demo_action"
proof -
  have "dec_nat 1 = ''1''" by code_simp
  then show ?thesis by (simp add: citing_refs_def demo_todo_rec_def demo_action_def demo_ref_def)
qed

definition demo_opening :: observation where
  "demo_opening = observation_of demo_text (demo_ref 1) demo_todo_rec"

lemma demo_derived:
  "derive_observations (demo_candidate\<lparr>cd_actions := [demo_todo_rec]\<rparr>) (demo_ref 1) (Some demo_text) = Inr [demo_opening]"
  "ob_explicit demo_opening" "ob_kind demo_opening = Commitment"
proof -
  have party: "derive_party (Some ''Customer team'') = Customer" by code_simp
  have "verify_attribution demo_text (Some ''Customer team'') (Some ''2026-01-05'') (Some ''Send pricing deck'') = SourceVerified"
    by code_simp
  then have att: "verify_attribution demo_text (ra_owner demo_todo_rec) (ra_due_date demo_todo_rec) (Some (ra_action demo_todo_rec)) = SourceVerified"
    by (simp add: demo_todo_rec_def demo_action_def)
  show e: "ob_explicit demo_opening" "ob_kind demo_opening = Commitment"
    using party att by (simp_all add: demo_opening_def observation_of_def Let_def demo_todo_rec_def demo_action_def observed_kind_def)
  have "hexn 16 (observed_key (demo_ref 1) demo_todo_rec)" by (simp add: observed_key_def key_for_def)
  then have "valid_observation demo_opening"
    using demo_ref_ok demo_citing
    by (simp add: valid_observation_def demo_opening_def observation_of_def Let_def valid_ref_def)
       (simp add: demo_todo_rec_def demo_action_def short_text_def in_len_def date_ok_def is_digit_def)
  then show "derive_observations (demo_candidate\<lparr>cd_actions := [demo_todo_rec]\<rparr>) (demo_ref 1) (Some demo_text) = Inr [demo_opening]"
    using demo_citing by (simp add: derive_observations_def mk_observation_def demo_opening_def demo_action_def)
qed

theorem derived_observations_ok_witness:
  "valid_observation demo_opening \<and> ob_party demo_opening = derive_party (Some ''Customer team'')"
  using derived_observations_ok [OF demo_derived(1), of demo_opening] by (auto simp: demo_todo_rec_def)

text \<open>C4: an action is opened without a human only when one passage of the analysed source states its
  owner, its due date (in one of the accepted renderings) and every term of its commitment, and the
  owner names one responsible party; every other new commitment is only proposed.\<close>

theorem opened_only_if_verified:
  assumes "derive_observations c ref (Some text) = Inr obs"
    and "apply_observations obs account slug v ref t w = (Inr st, w')"
    and "distinct (map fst (w_actions w))" and "log_ok w" and "origins_kept account slug w"
    and "own_id (w_ledger w) = Inr wid"
    and "stored_action w' (act_id a) a" and "startswith (act_id a) ''act_''" and "names_opportunity account slug a"
    and "\<forall>a0. \<not> stored_action w (act_id a) a0" and "act_status a = ActOpen"
  shows "\<exists>owner due passage form. act_owner a = Some owner \<and> act_due_date a = Some due
    \<and> act_party a = derive_party (Some owner) \<and> act_party a \<noteq> Unknown
    \<and> passage \<in> set (source_passages text) \<and> contains (padded passage) (padded (normalize_text owner))
    \<and> form \<in> set (date_renderings due) \<and> contains (padded passage) (padded form)
    \<and> set (commitment_terms (act_commitment a)) \<subseteq> set (split_ws passage)"
proof -
  obtain x b dup i wid' me where b: "b \<in> set obs" and g: "grown_action (opened_action x b dup i wid' me) a"
  proof -
    have "\<not> (\<exists>a0. stored_action w (act_id a0) a0 \<and> grown_action a0 a)" using assms(10) grown_same(1) by metis
    then show ?thesis using apply_grows(2) [OF assms(2-9)] that by blast
  qed
  have "\<exists>r. b = observation_of text ref r"
    using derive_from_result [OF assms(1) [unfolded derive_observations_def]] b by auto
  then obtain r where r: "b = observation_of text ref r" by blast
  have "opening_status b dup = ActOpen" using grown_same(5) [OF g] assms(11) by (simp add: opened_action_def)
  then have ex: "ob_explicit b" by (auto simp: opening_status_def split: if_splits)
  have f: "act_owner a = ra_owner r" "act_due_date a = ra_due_date r" "act_party a = derive_party (ra_owner r)"
    "act_commitment a = ra_action r"
    using grown_same(4,6,7,8) [OF g] r by (simp_all add: opened_action_def observation_of_def Let_def)
  have v: "verify_attribution text (ra_owner r) (ra_due_date r) (Some (ra_action r)) = SourceVerified"
    and p: "derive_party (ra_owner r) \<noteq> Unknown"
    using ex r by (simp_all add: observation_of_def Let_def)
  from attribution_passage [OF v] obtain o' d passage form where "ra_owner r = Some o'" "ra_due_date r = Some d"
    "passage \<in> set (source_passages text)" "contains (padded passage) (padded (normalize_text o'))"
    "form \<in> set (date_renderings d)" "contains (padded passage) (padded form)"
    "set (commitment_terms (ra_action r)) \<subseteq> set (split_ws passage)" by metis
  with f p show ?thesis by (intro exI conjI) (assumption | simp)+
qed

text \<open>The small world before any action exists, and the run that opens one.\<close>

definition demo_fresh :: world where
  "demo_fresh = demo_world\<lparr>w_actions := []\<rparr>"

definition demo_ctx :: apply_ctx where
  "demo_ctx = run_ctx ''Acme'' ''renewal'' (demo_ref 1) 5 (w_clock demo_fresh (w_ticks demo_fresh))"

definition demo_opened :: action where
  "demo_opened = opened_action demo_ctx demo_opening None
     (action_id_for ''0123456789abcdef'' ''Acme'' ''renewal'' demo_src (ob_key demo_opening)) ''0123456789abcdef'' ''local''"

lemma demo_opened_ok:
  "valid_transition (hd (act_transitions demo_opened))" "mk_action demo_opened = Inr demo_opened"
  "in_len 1 160 (act_id demo_opened)" "in_len 1 300 (action_link (act_id demo_opened))" "act_status demo_opened = ActOpen"
proof -
  have b: "ob_commitment demo_opening = ''Send pricing deck''" "ob_definition_of_done demo_opening = Some ''Deck sent''"
    "ob_owner demo_opening = Some ''Customer team''" "ob_due_date demo_opening = Some ''2026-01-05''"
    by (simp_all add: demo_opening_def observation_of_def Let_def demo_todo_rec_def demo_action_def)
  have v: "valid_observation demo_opening" using derive_from_result [OF demo_derived(1) [unfolded derive_observations_def]] by simp
  have "length (sha256_hex s) = 64" for s using sha256_hex_hexn [of s] by (simp add: hexn_def)
  then have id: "length (act_id demo_opened) = 36" "action_id_ok (act_id demo_opened)"
    by (simp_all add: demo_opened_def action_id_for_def action_id_ok_def)
  show st: "act_status demo_opened = ActOpen" using demo_derived(2) by (simp add: demo_opened_def opened_action_def opening_status_def)
  show "in_len 1 160 (act_id demo_opened)" "in_len 1 300 (action_link (act_id demo_opened))"
    using id(1) by (simp_all add: in_len_def action_link_def)
  show t: "valid_transition (hd (act_transitions demo_opened))"
    using v demo_tokens demo_derived(2)
    by (simp add: demo_opened_def opened_action_def valid_transition_def valid_observation_def opening_reason_def
        opening_status_def short_text_def in_len_def)
  have "action_fields_ok demo_opened \<and> action_chain_ok demo_opened"
    using id(2) v b demo_hex demo_tokens
    by (simp add: demo_opened_def opened_action_def action_fields_ok_def action_chain_ok_def valid_observation_def
        demo_ctx_def run_ctx_def)
  then show "mk_action demo_opened = Inr demo_opened" by (simp add: mk_action_def)
qed

lemma demo_open_run:
  "\<exists>st w'. apply_observations [demo_opening] ''Acme'' ''renewal'' demo_version (demo_ref 1) 5 demo_fresh = (Inr st, w')
     \<and> stored_action w' (act_id demo_opened) demo_opened"
proof -
  have x: "ax_account demo_ctx = ''Acme''" "ax_slug demo_ctx = ''renewal''" "ax_source_id demo_ctx = demo_src"
    by (simp_all add: demo_ctx_def run_ctx_def demo_ref_def)
  have w: "w_ledger demo_fresh = demo_ledger" "w_actor demo_fresh = ''local''" "w_actions demo_fresh = []"
    "w_changes demo_fresh = []" by (simp_all add: demo_fresh_def)
  have opp: "opportunity_actions ''Acme'' ''renewal'' demo_fresh = (Inr [], demo_fresh)"
    using w by (simp add: opportunity_actions_def all_actions_def bnd_def read_st_def ret_def dir_listing_def)
  have log: "changes_for ''Acme'' ''renewal'' (tick demo_fresh) = (Inr [], tick demo_fresh)"
    using demo_tokens w by (simp add: changes_for_eq changes_at_def ret_def)
  have "vs_version_id demo_version = replicate 32 (CHR ''1'')" "vs_revision demo_version = 1"
    by (simp_all add: demo_version_def)
  then have "\<exists>st' w'. ensure_change demo_ctx (overview_change demo_ctx demo_version (demo_ref 1)) (start_copies [] []) (tick demo_fresh) = (Inr st', w')
      \<and> w_ledger w' = w_ledger (tick demo_fresh) \<and> w_actor w' = w_actor (tick demo_fresh)
      \<and> w_actions w' = w_actions (tick demo_fresh) \<and> w_store w' = w_store (tick demo_fresh)
      \<and> ag_existing st' = ag_existing (start_copies [] [])"
    by (intro ensure_change_returns)
      (use demo_tokens demo_own demo_hex demo_ref_ok demo_history_link x w in
        \<open>simp_all add: tick_def overview_change_def analysis_change_def in_len_def\<close>)
  then obtain st1 w1 where one: "ensure_change demo_ctx (overview_change demo_ctx demo_version (demo_ref 1)) (start_copies [] []) (tick demo_fresh) = (Inr st1, w1)"
    and f: "w_ledger w1 = demo_ledger" "w_actor w1 = ''local''" "ag_existing st1 = []" "w_actions w1 = []"
    using w by (auto simp: tick_def start_copies_def)
  let ?g = "created_change demo_ctx demo_opening demo_opened (act_status demo_opened)"
  let ?st1 = "st1\<lparr>ag_existing := [demo_opened], ag_created := ag_created st1 @ [act_id demo_opened]\<rparr>"
  let ?w1 = "w1\<lparr>w_actions := AList.update (act_id demo_opened) (Intact demo_opened) (w_actions w1)\<rparr>"
  have v: "valid_observation demo_opening" using derive_from_result [OF demo_derived(1) [unfolded derive_observations_def]] by simp
  have "\<exists>st' w'. ensure_change demo_ctx ?g ?st1 ?w1 = (Inr st', w')
      \<and> w_ledger w' = w_ledger ?w1 \<and> w_actor w' = w_actor ?w1
      \<and> w_actions w' = w_actions ?w1 \<and> w_store w' = w_store ?w1 \<and> ag_existing st' = ag_existing ?st1"
    by (intro ensure_change_returns)
      (use demo_tokens demo_own demo_hex v demo_opened_ok x f in
        \<open>simp_all add: created_change_def action_change_def analysis_change_def valid_observation_def\<close>)
  then obtain st2 w2 where two: "ensure_change demo_ctx ?g ?st1 ?w1 = (Inr st2, w2)" and acts: "w_actions w2 = w_actions ?w1" by blast
  have o: "opened_action demo_ctx demo_opening None (act_id demo_opened) ''0123456789abcdef'' ''local'' = demo_opened"
    by (simp add: demo_opened_def)
  have "open_new demo_ctx demo_opening (act_id demo_opened) st1 w1 = (Inr st2, w2)"
    using two f demo_opened_ok demo_own o
    by (simp add: open_new_def Let_def bnd_def ops_workspace_id_eq read_st_def of_sum_def mk_transition_def
        duplicate_for_def write_action_eq ret_def)
  then have "apply_observation demo_ctx demo_opening st1 w1 = (Inr st2, w2)"
    using f demo_derived(3) demo_own x
    by (simp add: apply_observation_def bnd_def ops_workspace_id_eq demo_opened_def)
  then have "apply_observations [demo_opening] ''Acme'' ''renewal'' demo_version (demo_ref 1) 5 demo_fresh = (Inr st2, w2)"
    using one unfolding apply_observationsI [OF opp log] Let_def demo_ctx_def [symmetric] by (simp add: bnd_def ret_def)
  with acts show ?thesis by (auto simp: stored_action_def)
qed

theorem opened_only_if_verified_witness:
  "\<exists>passage form. passage \<in> set (source_passages demo_text) \<and> contains (padded passage) (padded (normalize_text ''Customer team''))
     \<and> form \<in> set (date_renderings ''2026-01-05'') \<and> contains (padded passage) (padded form)
     \<and> set (commitment_terms ''Send pricing deck'') \<subseteq> set (split_ws passage)"
proof -
  obtain st w' where run: "apply_observations [demo_opening] ''Acme'' ''renewal'' demo_version (demo_ref 1) 5 demo_fresh = (Inr st, w')"
    and a: "stored_action w' (act_id demo_opened) demo_opened" using demo_open_run by blast
  have w: "distinct (map fst (w_actions demo_fresh))" "log_ok demo_fresh" "origins_kept ''Acme'' ''renewal'' demo_fresh"
    "own_id (w_ledger demo_fresh) = Inr ''0123456789abcdef''" "\<forall>a0. \<not> stored_action demo_fresh (act_id demo_opened) a0"
    using demo_own by (simp_all add: demo_fresh_def log_ok_def changes_at_def origins_kept_def stored_action_def)
  have f: "startswith (act_id demo_opened) ''act_''" "names_opportunity ''Acme'' ''renewal'' demo_opened"
    by (simp_all add: demo_opened_def action_id_for_def names_opportunity_def demo_ctx_def run_ctx_def)
  have "act_owner demo_opened = Some ''Customer team''" "act_due_date demo_opened = Some ''2026-01-05''"
    "act_commitment demo_opened = ''Send pricing deck''"
    by (simp_all add: demo_opened_def opened_action_def demo_opening_def observation_of_def Let_def demo_todo_rec_def demo_action_def)
  with opened_only_if_verified [OF demo_derived(1) run w(1-4) a f w(5) demo_opened_ok(5)] show ?thesis by auto
qed

end
