(* ===== verification/Action_Claims.thy ===== *)
theory Action_Claims
  imports Ops_Demo
begin

section \<open>What the users' operations guarantee\<close>

text \<open>
  Transitions, undo and the repair of interrupted writes: what a successful call leaves in the record
  and in the log, what a failed one may leave behind, and that the repair makes up for it.
\<close>

subsection \<open>Presenting an action writes nothing\<close>

lemma accepted_load_action: "obeys same_accepted (load_action i)"
  using pure_load_action by (auto simp: obeys_def same_accepted_def)

lemma accepted_action_retired: "obeys same_accepted (action_retired a)"
  unfolding action_retired_def ops_retirement_info_def
  by (intro accepted_base accepted_as_ops)

lemma accepted_present: "obeys same_accepted (present a)"
  unfolding present_def present_duplicate_def visible_source_def
  by (intro accepted_base accepted_action_retired)
    (auto intro!: accepted_base accepted_load_action split: option.split exn.split)

subsection \<open>One entry for each transition\<close>

definition transition_entry :: "change_entry \<Rightarrow> string \<Rightarrow> transition \<Rightarrow> bool" where
  "transition_entry c i t \<longleftrightarrow> ch_type c = ActionTransitioned \<and> ch_subject_id c = i
     \<and> recorded_sequence c = JInt (int (tr_sequence t))"

lemma append_transition_entry:
  assumes "append_transition_change before after t w = (Inr c, w')"
  shows "transition_entry c (act_id after) t"
proof -
  have "jfield (transition_after after t) ''transition_sequence'' = JInt (int (tr_sequence t))"
    by (simp add: transition_after_def jfield_def split: option.split)
  with assms show ?thesis
    unfolding append_transition_change_def
    by (cases rule: append_changeE) (auto simp: transition_entry_def build_change_def Let_def recorded_sequence_def)
qed

lemma append_last:
  assumes "append_change account slug g w = (Inr c, w')" and "log_ok w"
  shows "\<exists>n. changes_at w' (account @ ''__'' @ slug) = changes_at w (account @ ''__'' @ slug) @ [(n, Intact c)]"
  using assms(1)
proof (cases rule: append_changeE)
  case (ok n wid now c')
  then have "w_changes w' = AList.update (account @ ''__'' @ slug) (AList.update
      (length (changes_at w (account @ ''__'' @ slug)) + 1) (Intact c) (changes_at w (account @ ''__'' @ slug))) (w_changes w)"
    by simp
  from changes_at_append [OF _ this, of "account @ ''__'' @ slug"] assms(2) show ?thesis by (auto simp: log_ok_def)
qed simp

text \<open>C10: a human transition that returns was legal from the action's status and is recorded twice: the
  stored record has the new status and one further transition, by the user, from the status before;
  and the last entry of the opportunity's log is the change of that action with that sequence number.\<close>

theorem transition_recorded:
  assumes "transition_action i q w = (Inr p, w')" and "log_ok w"
  shows "\<exists>a a' t n c. stored_action w i a \<and> stored_action w' i a' \<and> act_retraction a = None
    \<and> human_transition (act_status a) (tq_to q) \<and> act_status a' = tq_to q \<and> valid_action a'
    \<and> act_transitions a' = act_transitions a @ [t] \<and> tr_from t = Some (act_status a) \<and> tr_actor t = User
    \<and> tr_reason t = tq_reason q
    \<and> last (changes_at w' (act_account a @ ''__'' @ act_slug a)) = (n, Intact c) \<and> transition_entry c i t"
  using assms(1)
proof (cases rule: transition_action_cases)
  case (moved a w1 now t)
  let ?a = "moved_action a q t now"
  let ?u = "w1\<lparr>w_ticks := Suc (w_ticks w1), w_actions := AList.update i (Intact ?a) (w_actions w1)\<rparr>"
  from moved(10) obtain c w2 where ap: "append_transition_change a ?a t ?u = (Inr c, w2)"
    and pr: "present ?a w2 = (Inr p, w')" by (auto elim!: bnd_InrE)
  have "log_ok w1" using obeysD [OF log_rel.obeys_open_action moved(1)] assms(2) by (simp add: log_extends_def)
  then have "log_ok ?u" by (simp add: log_ok_def changes_at_def)
  then obtain n where "changes_at w2 (act_account ?a @ ''__'' @ act_slug ?a)
      = changes_at ?u (act_account ?a @ ''__'' @ act_slug ?a) @ [(n, Intact c)]"
    using append_last [OF ap [unfolded append_transition_change_def]] by blast
  moreover have "w_changes w' = w_changes w2"
    using obeysD [OF accepted_present pr] by (simp add: same_accepted_def)
  ultimately have "last (changes_at w' (act_account a @ ''__'' @ act_slug a)) = (n, Intact c)"
    by (simp add: changes_at_def moved_action_def)
  moreover have "transition_entry c i t" using append_transition_entry [OF ap] moved(3) by simp
  moreover have "stored_action w' i ?a" using moved(9) by (simp add: stored_action_def)
  ultimately show ?thesis
    using moved
    by (intro exI [of _ a] exI [of _ ?a] exI [of _ t] exI [of _ n] exI [of _ c])
      (simp add: moved_action_def next_transition_def)
qed simp

text \<open>C31: an undo gives back what the undone transition found: a transition followed by an undo leaves the
  record with the status, owner, due date and responsible party it had, its evidence and suggestions
  untouched, and both transitions in its history.\<close>

theorem undo_restores:
  assumes "transition_action i q w = (Inr p, w1)" and "undo_last_transition i reason w1 = (Inr p2, w2)"
    and "stored_action w i a" and "act_party a = derive_party (act_owner a)"
  shows "\<exists>a2 t u. stored_action w2 i a2 \<and> act_status a2 = act_status a \<and> act_owner a2 = act_owner a
    \<and> act_due_date a2 = act_due_date a \<and> act_party a2 = act_party a \<and> act_evidence a2 = act_evidence a
    \<and> act_suggestions a2 = act_suggestions a \<and> act_transitions a2 = act_transitions a @ [t, u]
    \<and> tr_undoes u = Some (tr_sequence t)"
  using assms(1)
proof (cases rule: transition_action_cases)
  case (moved a0 w0 now t)
  have a0: "a0 = a" using moved(2) assms(3) by (simp add: stored_action_def)
  let ?a = "moved_action a q t now"
  have st1: "stored_action w1 i ?a" using moved(9) a0 by (simp add: stored_action_def)
  from assms(2) show ?thesis
  proof (cases rule: undo_cases)
    case (undone b v0 now2 u prior)
    have b: "b = ?a" using undone(2) st1 by (simp add: stored_action_def)
    have l: "last (act_transitions ?a) = t" by (simp add: moved_action_def)
    have prior: "prior = act_status a" using undone(6) b l moved(6) a0 by (simp add: next_transition_def)
    have "stored_action w2 i (undone_action ?a t prior u now2)" using undone(9) b l by (simp add: stored_action_def)
    moreover have "tr_undoes u = Some (tr_sequence t)" using undone(7) b l by (simp add: next_transition_def)
    ultimately show ?thesis
      using prior moved(6) a0 assms(4)
      by (intro exI [of _ "undone_action ?a t prior u now2"] exI [of _ t] exI [of _ u])
        (simp add: undone_action_def moved_action_def next_transition_def)
  qed simp
qed simp

subsection \<open>The users' operations in the small world\<close>

text \<open>\<open>at_demo w\<close>: ledger and store are those of the small world.\<close>

definition at_demo :: "world \<Rightarrow> bool" where
  "at_demo w \<longleftrightarrow> w_ledger w = demo_ledger \<and> w_store w = demo_store \<and> w_actor w = ''local''"

lemma demo_visible: "at_demo w \<Longrightarrow> visible_source demo_src w = (Inr True, w)"
  using demo_src_ok
  by (cases w) (simp add: at_demo_def visible_source_def in_ledger_def zoom_def bnd_def is_forgotten_def read_st_def ret_def
    demo_ledger_def)

lemma demo_store_same: "demo_store\<lparr>ss_forgotten := forgotten_ids demo_ledger\<rparr> = demo_store"
  by (simp add: forgotten_ids_def demo_ledger_def dir_listing_def) (simp add: demo_store_def)

lemma demo_not_retired:
  assumes "at_demo w" and "act_account a = ''Acme''" "act_slug a = ''renewal''"
  shows "action_retired a w = (Inr False, w)"
proof -
  have "sd_retired (dir_at demo_store (dir_key demo_store ''Acme'' ''renewal'')) = None"
    by (simp add: dir_at_def dir_key_def demo_store_def)
  then have "retirement_info ''Acme'' ''renewal'' demo_store = (Inr None, demo_store)"
    using demo_store_chain by (rule retirement_info_eq [rotated])
  then show ?thesis
    using assms demo_store_same
    by (cases w) (simp add: at_demo_def action_retired_def ops_retirement_info_def as_ops_def in_store_def zoom_def bnd_def catch_def ret_def)
qed

lemma filter_op_all:
  "(\<And>x. x \<in> set xs \<Longrightarrow> p x w = (Inr True, w)) \<Longrightarrow> filter_op p xs w = (Inr xs, w)"
  by (induction xs) (simp_all add: ret_def bnd_def)

lemma demo_present:
  assumes "at_demo w" and "act_account a = ''Acme''" "act_slug a = ''renewal''" and "act_duplicate_of a = None"
    and "act_evidence a = [demo_ref 1]" and "act_evidence_retractions a = []" and "act_suggestions a = []"
  shows "\<exists>p. present a w = (Inr p, w)"
proof -
  have v: "visible_source (sr_source_id (demo_ref 1)) w = (Inr True, w)" using demo_visible [OF assms(1)] by (simp add: demo_ref_def)
  have e: "effective_evidence a = [demo_ref 1]" using assms(5,6) by (simp add: effective_evidence_def retracted_source_ids_def)
  show ?thesis
    using v e assms(4-7) demo_not_retired [OF assms(1-3)]
    by (simp add: present_def bnd_def ret_def present_duplicate_def)
qed

lemma demo_open:
  assumes "at_demo w" and "map_of (w_actions w) demo_aid = Some (Intact a)" and "valid_action a" and "act_id a = demo_aid"
    and "act_workspace_id a = ''0123456789abcdef''" and "sr_source_id (act_origin a) = demo_src"
    and "act_account a = ''Acme''" "act_slug a = ''renewal''"
    and "changes_for ''Acme'' ''renewal'' w = (Inr cs, w)" and "missing_changes a cs = []"
  shows "open_action demo_aid w = (Inr a, w)"
proof -
  have load: "load_action demo_aid w = (Inr a, w)"
    using assms demo_aid_ok demo_own
    by (simp add: load_action_def read_st_def bnd_def read_record_eq parse_action_def ret_def at_demo_def)
  have "in_ledger (is_forgotten demo_src) w = (Inr False, w)"
    using assms(1) demo_src_ok
    by (cases w) (simp add: at_demo_def in_ledger_def zoom_def is_forgotten_def read_st_def demo_ledger_def)
  then have "refuse_forgotten a w = (Inr (), w)"
    using assms(6) by (simp add: refuse_forgotten_def bnd_def ret_def)
  moreover have "repair_transition_changes [a] w = (Inr 0, w)"
    using assms(7-10) by (simp add: repair_transition_changes_def repair_action_def bnd_def ret_def)
  ultimately show ?thesis
    using load demo_not_retired [OF assms(1,7,8)] by (simp add: open_action_def bnd_def ret_def)
qed

definition demo_step :: transition where
  "demo_step = next_transition demo_todo ActBlocked ''Waiting for legal'' None ''local'' 10"

definition demo_blocked :: action where
  "demo_blocked = moved_action demo_todo demo_block demo_step 10"

lemma demo_blocked_fields:
  "act_id demo_blocked = demo_aid" "act_account demo_blocked = ''Acme''" "act_slug demo_blocked = ''renewal''"
  "act_duplicate_of demo_blocked = None" "act_evidence demo_blocked = [demo_ref 1]" "act_evidence_retractions demo_blocked = []"
  "act_suggestions demo_blocked = []" "act_workspace_id demo_blocked = ''0123456789abcdef''"
  "sr_source_id (act_origin demo_blocked) = demo_src" "act_transitions demo_blocked = act_transitions demo_todo @ [demo_step]"
  by (simp_all add: demo_blocked_def moved_action_def demo_todo_def demo_ref_def)

lemma demo_step_ok: "valid_transition demo_step" "valid_action demo_blocked"
proof -
  show t: "valid_transition demo_step"
    using demo_tokens by (simp add: demo_step_def next_transition_def valid_transition_def short_text_def in_len_def
        demo_todo_def date_ok_def is_digit_def)
  then show "valid_action demo_blocked"
    using demo_todo_ok
    by (simp add: demo_blocked_def moved_action_def valid_action_def action_fields_ok_def action_chain_ok_def demo_block_def
        in_len_def) (simp add: demo_todo_def demo_step_def next_transition_def)
qed

lemma demo_missing: "missing_changes demo_todo cs = []"
  by (simp add: missing_changes_def demo_todo_def Let_def)

lemma demo_transition:
  "\<exists>p w' c. transition_action demo_aid demo_block demo_world = (Inr p, w') \<and> at_demo w'
     \<and> w_actions w' = [(demo_aid, Intact demo_blocked)] \<and> changes_for ''Acme'' ''renewal'' w' = (Inr [c], w')
     \<and> transition_entry c demo_aid demo_step"
proof -
  have ad: "at_demo demo_world" by (simp add: at_demo_def)
  have log: "changes_for ''Acme'' ''renewal'' demo_world = (Inr [], demo_world)"
    using demo_tokens by (simp add: changes_for_eq changes_at_def ret_def)
  have op: "open_action demo_aid demo_world = (Inr demo_todo, demo_world)"
    by (rule demo_open [OF ad _ demo_todo_ok demo_names(2,3) _ _ _ log demo_missing])
      (simp_all add: demo_todo_def demo_ref_def)
  let ?u = "demo_world\<lparr>w_ticks := Suc (w_ticks demo_world), w_actions := [(demo_aid, Intact demo_blocked)]\<rparr>"
  have au: "at_demo ?u" using ad by (simp add: at_demo_def)
  have cu: "changes_for ''Acme'' ''renewal'' ?u = (Inr [], ?u)"
    using demo_tokens by (simp add: changes_for_eq changes_at_def ret_def)
  have "\<exists>c w'. append_transition_change demo_todo demo_blocked demo_step ?u = (Inr c, w') \<and> w_ledger w' = w_ledger ?u
      \<and> w_actor w' = w_actor ?u \<and> w_actions w' = w_actions ?u \<and> w_store w' = w_store ?u"
    unfolding append_transition_change_def
    by (rule append_change_returns)
      (use demo_tokens demo_own demo_hex demo_blocked_fields in \<open>simp_all add: demo_aid_def in_len_def action_link_def\<close>)
  then obtain c w2 where ap: "append_transition_change demo_todo demo_blocked demo_step ?u = (Inr c, w2)"
    and f: "at_demo w2" "w_actions w2 = [(demo_aid, Intact demo_blocked)]"
    by (auto simp: at_demo_def)
  have "log_ok ?u" by (simp add: log_ok_def changes_at_def)
  from append_change_log [OF ap [unfolded append_transition_change_def demo_blocked_fields(2,3)] this cu]
  have c2: "changes_for ''Acme'' ''renewal'' w2 = (Inr [c], w2)" by simp
  obtain p where pr: "present demo_blocked w2 = (Inr p, w2)"
    using demo_present [OF f(1) demo_blocked_fields(2-7)] by blast
  have now: "w_clock demo_world (w_ticks demo_world) = 10" by (simp add: demo_world_def)
  have h: "act_retraction demo_todo = None" "human_transition (act_status demo_todo) (tq_to demo_block)"
    by (simp_all add: demo_todo_def demo_block_def human_transition_def)
  have t: "next_transition demo_todo (tq_to demo_block) (tq_reason demo_block) None ''local'' 10 = demo_step"
    by (simp add: demo_step_def demo_block_def)
  have "transition_action demo_aid demo_block demo_world = (Inr p, w2)"
    using op h now t ap pr demo_step_ok demo_blocked_fields(1)
    by (simp add: transition_action_def bnd_def ops_now_def read_st_def of_sum_def mk_transition_def parse_action_def
        write_action_eq ret_def flip: demo_blocked_def)
  with f c2 append_transition_entry [OF ap] demo_blocked_fields(1) show ?thesis by auto
qed

theorem transition_recorded_witness:
  "\<exists>w' n c. last (changes_at w' ''Acme__renewal'') = (n, Intact c) \<and> transition_entry c demo_aid demo_step
     \<and> stored_action w' demo_aid demo_blocked"
proof -
  obtain p w' where run: "transition_action demo_aid demo_block demo_world = (Inr p, w')"
    and acts: "w_actions w' = [(demo_aid, Intact demo_blocked)]" using demo_transition by blast
  from transition_recorded [OF run demo_log] obtain a a' t n c where r: "stored_action demo_world demo_aid a"
    "stored_action w' demo_aid a'" "act_transitions a' = act_transitions a @ [t]"
    "last (changes_at w' (act_account a @ ''__'' @ act_slug a)) = (n, Intact c)" "transition_entry c demo_aid t" by blast
  have a: "a = demo_todo" "a' = demo_blocked" using r(1,2) demo_stored acts by (simp_all add: stored_action_def)
  then have "t = demo_step" using r(3) demo_blocked_fields(10) by simp
  with r a show ?thesis by (intro exI [of _ w'] exI [of _ n] exI [of _ c]) (simp add: demo_todo_def)
qed

lemma demo_undo:
  assumes "at_demo w" and "w_actions w = [(demo_aid, Intact demo_blocked)]"
    and "changes_for ''Acme'' ''renewal'' w = (Inr [c], w)" and "transition_entry c demo_aid demo_step"
  shows "\<exists>p w'. undo_last_transition demo_aid ''Not blocked'' w = (Inr p, w')"
proof -
  have "missing_changes demo_blocked [c] = []"
    using assms(4) demo_blocked_fields(1,10)
    by (auto simp: missing_changes_def transition_entry_def demo_todo_def less_Suc_eq filter_empty_conv)
  then have op: "open_action demo_aid w = (Inr demo_blocked, w)"
    by (intro demo_open [OF assms(1) _ demo_step_ok(2) _ _ _ _ _ assms(3)]) (simp_all add: assms(2) demo_blocked_fields)
  let ?now = "w_clock w (w_ticks w)"
  let ?u = "next_transition demo_blocked ActOpen ''Not blocked'' (Some (tr_sequence demo_step)) ''local'' ?now"
  let ?b = "undone_action demo_blocked demo_step ActOpen ?u ?now"
  have l: "last (act_transitions demo_blocked) = demo_step" using demo_blocked_fields(10) by simp
  have s: "tr_actor demo_step = User" "tr_undoes demo_step = None" "tr_from demo_step = Some ActOpen"
    by (simp_all add: demo_step_def next_transition_def demo_todo_def)
  have u: "valid_transition ?u"
    using demo_tokens demo_step_ok(2) by (simp add: next_transition_def valid_transition_def short_text_def in_len_def
      valid_action_def action_fields_ok_def demo_blocked_fields(10) demo_todo_def)
  have f: "act_id ?b = demo_aid" "act_account ?b = ''Acme''" "act_slug ?b = ''renewal''" "act_duplicate_of ?b = None"
    "act_evidence ?b = [demo_ref 1]" "act_evidence_retractions ?b = []" "act_suggestions ?b = []"
    by (simp_all add: undone_action_def demo_blocked_fields)
  let ?v = "w\<lparr>w_ticks := Suc (w_ticks w), w_actions := [(demo_aid, Intact ?b)]\<rparr>"
  have v: "at_demo ?v" using assms(1) by (simp add: at_demo_def)
  have "\<exists>c w'. append_transition_change demo_blocked ?b ?u ?v = (Inr c, w') \<and> w_ledger w' = w_ledger ?v
      \<and> w_actor w' = w_actor ?v \<and> w_actions w' = w_actions ?v \<and> w_store w' = w_store ?v"
    unfolding append_transition_change_def
    by (rule append_change_returns)
      (use demo_tokens demo_own demo_hex f v in \<open>simp_all add: demo_aid_def in_len_def action_link_def at_demo_def\<close>)
  then obtain c2 w2 where ap: "append_transition_change demo_blocked ?b ?u ?v = (Inr c2, w2)" and w2: "at_demo w2"
    using v by (auto simp: at_demo_def)
  obtain p where pr: "present ?b w2 = (Inr p, w2)" using demo_present [OF w2 f(2-7)] by blast
  have "w_actor w = ''local''" using assms(1) by (simp add: at_demo_def)
  then have "undo_last_transition demo_aid ''Not blocked'' w = (Inr p, w2)"
    using op l s u f(1) ap pr assms(2)
    by (simp add: undo_last_transition_def bnd_def ops_now_def read_st_def of_sum_def mk_transition_def Let_def
        write_action_eq ret_def)
  then show ?thesis by blast
qed

theorem undo_restores_witness:
  "\<exists>w2 a2. stored_action w2 demo_aid a2 \<and> act_status a2 = ActOpen \<and> act_owner a2 = Some ''Customer team''
     \<and> act_due_date a2 = Some ''2026-01-05'' \<and> length (act_transitions a2) = 3"
proof -
  obtain p w' c where run: "transition_action demo_aid demo_block demo_world = (Inr p, w')"
    and w': "at_demo w'" "w_actions w' = [(demo_aid, Intact demo_blocked)]"
      "changes_for ''Acme'' ''renewal'' w' = (Inr [c], w')" "transition_entry c demo_aid demo_step"
    using demo_transition by blast
  obtain p2 w2 where un: "undo_last_transition demo_aid ''Not blocked'' w' = (Inr p2, w2)" using demo_undo [OF w'] by blast
  have "derive_party (Some ''Customer team'') = Customer" by code_simp
  then have "act_party demo_todo = derive_party (act_owner demo_todo)" by (simp add: demo_todo_def)
  from undo_restores [OF run un demo_stored this] obtain a2 t u where "stored_action w2 demo_aid a2"
    "act_status a2 = act_status demo_todo" "act_owner a2 = act_owner demo_todo" "act_due_date a2 = act_due_date demo_todo"
    "act_transitions a2 = act_transitions demo_todo @ [t, u]" by blast
  then show ?thesis by (intro exI [of _ w2] exI [of _ a2]) (simp add: demo_todo_def)
qed

subsection \<open>Repairing an interrupted write\<close>

lemma missing_changes_iff:
  "i \<in> set (missing_changes a cs) \<longleftrightarrow> i < length (act_transitions a) \<and> tr_actor (act_transitions a ! i) = User
     \<and> \<not> (\<exists>c \<in> set cs. transition_entry c (act_id a) (act_transitions a ! i))"
  by (auto simp: missing_changes_def transition_entry_def Let_def image_iff)

lemma missing_changes_mono:
  assumes "set cs \<subseteq> set cs'" and "missing_changes a cs = []"
  shows "missing_changes a cs' = []"
proof -
  have "set (missing_changes a cs') \<subseteq> set (missing_changes a cs)"
    unfolding subset_iff missing_changes_iff using assms(1) by blast
  with assms(2) show ?thesis by simp
qed

text \<open>Appending the entries of the transitions \<open>is\<close>.\<close>

lemma repair_entries:
  assumes "for_each (\<lambda>i. bnd (append_transition_change (state_before a i) (state_after a i) (act_transitions a ! i)) (\<lambda>_. ret ())) is w
      = (Inr (), w')"
    and "log_ok w" and "changes_for (act_account a) (act_slug a) w = (Inr cs, w)"
  shows "\<exists>ds. changes_for (act_account a) (act_slug a) w' = (Inr (cs @ ds), w') \<and> log_ok w'
    \<and> w_actions w' = w_actions w \<and> w_ledger w' = w_ledger w
    \<and> (\<forall>i \<in> set is. \<exists>c \<in> set ds. transition_entry c (act_id a) (act_transitions a ! i))"
  using assms
proof (induction "is" arbitrary: w cs)
  case Nil
  then show ?case by (simp add: ret_def)
next
  case (Cons i rest)
  have f: "act_account (state_after a i) = act_account a" "act_slug (state_after a i) = act_slug a" "act_id (state_after a i) = act_id a"
    by (simp_all add: state_after_def Let_def)
  from Cons.prems(1) obtain c w1 where one: "append_transition_change (state_before a i) (state_after a i) (act_transitions a ! i) w = (Inr c, w1)"
    and more: "for_each (\<lambda>i. bnd (append_transition_change (state_before a i) (state_after a i) (act_transitions a ! i)) (\<lambda>_. ret ())) rest w1
      = (Inr (), w')"
    by (auto simp: ret_def elim!: bnd_InrE)
  note l = append_change_log [OF one [unfolded append_transition_change_def f] Cons.prems(2,3)]
  have e: "transition_entry c (act_id a) (act_transitions a ! i)" using append_transition_entry [OF one] f by simp
  from Cons.IH [OF more] l obtain ds where "changes_for (act_account a) (act_slug a) w' = (Inr ((cs @ [c]) @ ds), w')"
    "log_ok w'" "w_actions w' = w_actions w" "w_ledger w' = w_ledger w"
    "\<forall>i \<in> set rest. \<exists>c \<in> set ds. transition_entry c (act_id a) (act_transitions a ! i)" by auto
  with e show ?case by (intro exI [of _ "c # ds"]) auto
qed

lemma repair_actionD:
  assumes "repair_action a n w = (Inr m, w')" and "log_ok w"
  shows "\<exists>cs cs'. changes_for (act_account a) (act_slug a) w = (Inr cs, w)
    \<and> changes_for (act_account a) (act_slug a) w' = (Inr cs', w') \<and> set cs \<subseteq> set cs' \<and> missing_changes a cs' = []
    \<and> log_ok w' \<and> w_actions w' = w_actions w \<and> w_ledger w' = w_ledger w"
proof -
  from assms(1) obtain cs w1 where cs: "changes_for (act_account a) (act_slug a) w = (Inr cs, w1)"
    and each: "for_each (\<lambda>i. bnd (append_transition_change (state_before a i) (state_after a i) (act_transitions a ! i)) (\<lambda>_. ret ()))
      (missing_changes a cs) w1 = (Inr (), w')"
    by (auto simp: repair_action_def ret_def elim!: bnd_InrE)
  have "w1 = w" using pure_changes_for cs by (rule world_pureD)
  with cs each repair_entries [of a "missing_changes a cs" w w' cs] assms(2)
  obtain ds where d: "changes_for (act_account a) (act_slug a) w' = (Inr (cs @ ds), w')" "log_ok w'" "w_actions w' = w_actions w"
    "w_ledger w' = w_ledger w" "\<forall>i \<in> set (missing_changes a cs). \<exists>c \<in> set ds. transition_entry c (act_id a) (act_transitions a ! i)"
    by auto
  have "i \<notin> set (missing_changes a (cs @ ds))" for i
    using d(5) unfolding missing_changes_iff by (metis UnCI missing_changes_iff set_append)
  then have "missing_changes a (cs @ ds) = []" by (metis list.set_intros(1) neq_Nil_conv)
  with d cs \<open>w1 = w\<close> show ?thesis by (intro exI [of _ cs] exI [of _ "cs @ ds"]) simp
qed

text \<open>All actions of one opportunity share its log.\<close>

lemma repair_foldD:
  assumes "fold_op repair_action as n w = (Inr m, w')" and "log_ok w"
    and "\<forall>a \<in> set as. names_opportunity account slug a" and "changes_for account slug w = (Inr cs, w)"
  shows "\<exists>cs'. changes_for account slug w' = (Inr cs', w') \<and> set cs \<subseteq> set cs' \<and> log_ok w' \<and> w_actions w' = w_actions w
    \<and> w_ledger w' = w_ledger w \<and> (\<forall>a \<in> set as. missing_changes a cs' = [])"
  using assms
proof (induction as arbitrary: n w cs)
  case Nil
  then show ?case by (auto simp: ret_def)
next
  case (Cons a as)
  from Cons.prems(1) obtain k w1 where one: "repair_action a n w = (Inr k, w1)"
    and rest: "fold_op repair_action as k w1 = (Inr m, w')" by (auto elim!: bnd_InrE)
  have n: "act_account a = account" "act_slug a = slug" using Cons.prems(3) by (simp_all add: names_opportunity_def)
  from repair_actionD [OF one Cons.prems(2)] Cons.prems(4) obtain cs1 where c1: "changes_for account slug w1 = (Inr cs1, w1)"
    "set cs \<subseteq> set cs1" "missing_changes a cs1 = []" "log_ok w1" "w_actions w1 = w_actions w" "w_ledger w1 = w_ledger w"
    unfolding n by auto
  from Cons.IH [OF rest c1(4) _ c1(1)] Cons.prems(3) obtain cs' where c': "changes_for account slug w' = (Inr cs', w')"
    "set cs1 \<subseteq> set cs'" "log_ok w'" "w_actions w' = w_actions w1" "w_ledger w' = w_ledger w1"
    "\<forall>a \<in> set as. missing_changes a cs' = []" by auto
  have "missing_changes a cs' = []" using missing_changes_mono c'(2) c1(3) by blast
  with c' c1 show ?case by auto
qed

lemma repair_noop:
  assumes "\<forall>a \<in> set as. names_opportunity account slug a \<and> missing_changes a cs = []"
    and "changes_for account slug w = (Inr cs, w)"
  shows "fold_op repair_action as n w = (Inr n, w)"
  using assms
  by (induction as arbitrary: n) (auto simp: ret_def bnd_def repair_action_def names_opportunity_def)

text \<open>Loading depends on the action files and the workspace.\<close>

lemma load_action_cong:
  assumes "w_actions w' = w_actions w" and "w_ledger w' = w_ledger w"
  shows "fst (load_action i w') = fst (load_action i w)"
  using assms
  by (auto simp: load_action_def bnd_def read_st_def raise_def ret_def read_record_eq
      split: option.splits stored.splits sum.splits)

lemma opportunity_actions_cong:
  assumes "opportunity_actions account slug w = (Inr as, w)" and "w_actions w' = w_actions w" and "w_ledger w' = w_ledger w"
  shows "opportunity_actions account slug w' = (Inr as, w')"
proof -
  have one: "load_action i w' = (Inr a, w')" if "load_action i w = (Inr a, u)" for i a u
    using load_action_cong [OF assms(2,3), of i] that world_pureD [OF pure_load_action, of i w']
    by (metis fst_conv prod.collapse)
  have all: "map_op load_action ns w = (Inr bs, v) \<Longrightarrow> map_op load_action ns w' = (Inr bs, w')" for ns bs v
  proof (induction ns arbitrary: bs v)
    case (Cons n ns)
    then obtain b u cs where b: "load_action n w = (Inr b, u)" and r: "map_op load_action ns u = (Inr cs, v)" and bs: "bs = b # cs"
      by (auto simp: ret_def elim!: bnd_InrE)
    have "u = w" using pure_load_action b by (rule world_pureD)
    with Cons.IH r bs one [OF b] show ?case by (simp add: bnd_def ret_def)
  qed (simp add: ret_def)
  from assms(1) obtain bs v where "map_op load_action (filter (\<lambda>n. startswith n ''act_'') (dir_listing (w_actions w))) w = (Inr bs, v)"
    and "as = filter (\<lambda>a. act_account a = account \<and> act_slug a = slug) bs"
    by (auto simp: opportunity_actions_def all_actions_def bnd_def read_st_def ret_def split: prod.splits sum.splits)
  with all show ?thesis by (simp add: opportunity_actions_def all_actions_def bnd_def read_st_def ret_def assms(2))
qed

text \<open>C32: the repair completes every interrupted write.  When it returns, each user transition of each
  action of the opportunity has an entry with its sequence number in the log, the records themselves
  are as before, and a second repair finds nothing and writes nothing.\<close>

theorem repair_completes:
  assumes "repair account slug w = (Inr n, w')" and "log_ok w" and "distinct (map fst (w_actions w))"
    and "changes_for account slug w = (Inr cs, w)"
  shows "w_actions w' = w_actions w \<and> repair account slug w' = (Inr 0, w')
    \<and> (\<exists>cs'. changes_for account slug w' = (Inr cs', w') \<and> set cs \<subseteq> set cs'
      \<and> (\<forall>a. stored_action w (act_id a) a \<and> startswith (act_id a) ''act_'' \<and> act_account a = account \<and> act_slug a = slug
          \<longrightarrow> (\<forall>t \<in> set (act_transitions a). tr_actor t = User \<longrightarrow> (\<exists>c \<in> set cs'. transition_entry c (act_id a) t))))"
proof -
  from assms(1) obtain as u where as: "opportunity_actions account slug w = (Inr as, u)"
    and rep: "fold_op repair_action as 0 u = (Inr n, w')"
    by (auto simp: repair_def repair_transition_changes_def elim!: bnd_InrE)
  have u: "u = w" using pure_opportunity_actions as by (rule world_pureD)
  have m: "action_mirror account slug as w" using opportunity_actions_mirror [OF as assms(3)] by simp
  then have named: "\<forall>a \<in> set as. names_opportunity account slug a" by (simp add: action_mirror_def)
  from repair_foldD [OF rep [unfolded u] assms(2) named assms(4)] obtain cs' where cs': "changes_for account slug w' = (Inr cs', w')"
    "set cs \<subseteq> set cs'" "w_actions w' = w_actions w" "w_ledger w' = w_ledger w" "\<forall>a \<in> set as. missing_changes a cs' = []" by auto
  have "opportunity_actions account slug w' = (Inr as, w')"
    using opportunity_actions_cong as u cs'(3,4) by blast
  moreover have "fold_op repair_action as 0 w' = (Inr 0, w')" using repair_noop named cs'(1,5) by blast
  ultimately have again: "repair account slug w' = (Inr 0, w')"
    by (simp add: repair_def repair_transition_changes_def bnd_def)
  have entry: "\<exists>c \<in> set cs'. transition_entry c (act_id a) t"
    if st: "stored_action w (act_id a) a" "startswith (act_id a) ''act_''" "act_account a = account" "act_slug a = slug"
      "t \<in> set (act_transitions a)" "tr_actor t = User" for a t
  proof -
    have "a \<in> set as" using m st unfolding action_mirror_def names_opportunity_def by blast
    then have none: "missing_changes a cs' = []" using cs'(5) by blast
    obtain i where i: "i < length (act_transitions a)" "act_transitions a ! i = t" using st(5) by (auto simp: in_set_conv_nth)
    have "i \<notin> set (missing_changes a cs')" by (simp add: none)
    then show ?thesis unfolding missing_changes_iff using i st(6) by blast
  qed
  show ?thesis
  proof (intro conjI exI [of _ cs'] allI impI ballI; (elim conjE)?)
    fix a t
    assume "stored_action w (act_id a) a" "startswith (act_id a) ''act_''" "act_account a = account" "act_slug a = slug"
      "t \<in> set (act_transitions a)" "tr_actor t = User"
    then show "\<exists>c \<in> set cs'. transition_entry c (act_id a) t" by (rule entry)
  qed (fact again cs'(1-3))+
qed

text \<open>The small world after a crash between the two writes of a transition.\<close>

definition demo_broken :: world where
  "demo_broken = demo_world\<lparr>w_actions := [(demo_aid, Intact demo_blocked)]\<rparr>"

lemma demo_repairs:
  "\<exists>w'. repair ''Acme'' ''renewal'' demo_broken = (Inr 1, w')"
proof -
  have w: "at_demo demo_broken" "w_actions demo_broken = [(demo_aid, Intact demo_blocked)]"
    by (simp_all add: demo_broken_def at_demo_def)
  have log: "changes_for ''Acme'' ''renewal'' demo_broken = (Inr [], demo_broken)"
    using demo_tokens by (simp add: demo_broken_def changes_for_eq changes_at_def ret_def)
  have "load_action demo_aid demo_broken = (Inr demo_blocked, demo_broken)"
    using w demo_aid_ok demo_own demo_step_ok demo_blocked_fields
    by (simp add: load_action_def read_st_def bnd_def read_record_eq parse_action_def ret_def at_demo_def)
  then have opp: "opportunity_actions ''Acme'' ''renewal'' demo_broken = (Inr [demo_blocked], demo_broken)"
    using w demo_aid_ok(2) demo_blocked_fields
    by (simp add: opportunity_actions_def all_actions_def bnd_def read_st_def ret_def demo_listing)
  have up: "[0..<2] = [0, 1::nat]" by (simp add: upt_rec)
  have miss: "missing_changes demo_blocked [] = [1]"
    by (simp add: missing_changes_def demo_blocked_fields(10) up demo_todo_def Let_def demo_step_def next_transition_def)
  have f: "act_account (state_after demo_blocked 1) = ''Acme''" "act_slug (state_after demo_blocked 1) = ''renewal''"
    "act_id (state_after demo_blocked 1) = demo_aid"
    by (simp_all add: state_after_def Let_def demo_blocked_fields)
  have "\<exists>c w'. append_transition_change (state_before demo_blocked 1) (state_after demo_blocked 1) (act_transitions demo_blocked ! 1) demo_broken
      = (Inr c, w') \<and> w_ledger w' = w_ledger demo_broken \<and> w_actor w' = w_actor demo_broken
      \<and> w_actions w' = w_actions demo_broken \<and> w_store w' = w_store demo_broken"
    unfolding append_transition_change_def
    by (rule append_change_returns)
      (use demo_tokens demo_own demo_hex f w in \<open>simp_all add: demo_aid_def in_len_def action_link_def at_demo_def\<close>)
  then obtain c w' where "append_transition_change (state_before demo_blocked 1) (state_after demo_blocked 1) (act_transitions demo_blocked ! 1) demo_broken
      = (Inr c, w')" by blast
  then have "repair_action demo_blocked 0 demo_broken = (Inr 1, w')"
    using log miss demo_blocked_fields by (simp add: repair_action_def bnd_def ret_def)
  then have "repair_transition_changes [demo_blocked] demo_broken = (Inr 1, w')"
    by (simp add: repair_transition_changes_def bnd_def ret_def)
  then show ?thesis using opp by (simp add: repair_def bnd_def)
qed

theorem repair_completes_witness:
  "\<exists>w' cs c. changes_for ''Acme'' ''renewal'' w' = (Inr cs, w') \<and> c \<in> set cs \<and> transition_entry c demo_aid demo_step
     \<and> repair ''Acme'' ''renewal'' w' = (Inr 0, w')"
proof -
  obtain w' where run: "repair ''Acme'' ''renewal'' demo_broken = (Inr 1, w')" using demo_repairs by blast
  have w: "log_ok demo_broken" "distinct (map fst (w_actions demo_broken))"
    "changes_for ''Acme'' ''renewal'' demo_broken = (Inr [], demo_broken)"
    using demo_tokens by (simp_all add: demo_broken_def log_ok_def changes_for_eq changes_at_def ret_def)
  from repair_completes [OF run w] obtain cs where cs: "changes_for ''Acme'' ''renewal'' w' = (Inr cs, w')"
    "repair ''Acme'' ''renewal'' w' = (Inr 0, w')"
    "\<forall>a. stored_action demo_broken (act_id a) a \<and> startswith (act_id a) ''act_'' \<and> act_account a = ''Acme'' \<and> act_slug a = ''renewal''
      \<longrightarrow> (\<forall>t \<in> set (act_transitions a). tr_actor t = User \<longrightarrow> (\<exists>c \<in> set cs. transition_entry c (act_id a) t))" by blast
  have "stored_action demo_broken (act_id demo_blocked) demo_blocked"
    using demo_blocked_fields by (simp add: stored_action_def demo_broken_def)
  moreover have "demo_step \<in> set (act_transitions demo_blocked)" "tr_actor demo_step = User"
    using demo_blocked_fields(10) by (simp_all add: demo_step_def next_transition_def)
  ultimately have "\<exists>c \<in> set cs. transition_entry c (act_id demo_blocked) demo_step"
    using cs(3) demo_blocked_fields demo_aid_ok(2) by (metis (no_types, lifting))
  then show ?thesis using cs(1,2) demo_blocked_fields(1) by auto
qed

subsection \<open>A job ends\<close>

lemma map_of_put_job: "map_of (js_jobs (put_job jid f js)) k = map_option (if k = jid then f else id) (map_of (js_jobs js) k)"
proof -
  have "map_of (map (\<lambda>(k, j). (k, if k = jid then f j else j)) l) k = map_option (if k = jid then f else id) (map_of l k)" for l
    by (induction l) auto
  then show ?thesis by (simp add: put_job_def)
qed

lemma map_of_saved:
  "map_of (js_jobs (snd (save_snapshot jid js))) k = Some j \<Longrightarrow>
   \<exists>j0 b. map_of (js_jobs js) k = Some j0 \<and> j = j0\<lparr>jb_warning := b\<rparr>"
proof -
  have all: "map_of (map (\<lambda>(k, j). (k, j\<lparr>jb_warning := b\<rparr>)) l) k = map_option (\<lambda>j. j\<lparr>jb_warning := b\<rparr>) (map_of l k)" for l :: "(string \<times> job) list" and b
    by (induction l) auto
  assume a: "map_of (js_jobs (snd (save_snapshot jid js))) k = Some j"
  show ?thesis
  proof (cases "js_save_ok js (js_saves js)")
    case True
    with a show ?thesis by (auto simp: save_snapshot_def Let_def all)
  next
    case False
    with a obtain j0 where j0: "map_of (js_jobs js) k = Some j0" "j = (if k = jid then j0\<lparr>jb_warning := True\<rparr> else j0)"
      by (auto simp: save_snapshot_def Let_def map_of_put_job split: if_splits)
    have "j0 = j0\<lparr>jb_warning := jb_warning j0\<rparr>" by simp
    with j0 show ?thesis by metis
  qed
qed

text \<open>C33: a job ends.  Whatever the run it was started for does, once the job has been executed its record is
  no longer running: it has a verdict, a time, and an error code if it failed; so the source
  and the opportunity it held are free for the next run.\<close>

theorem run_job_ends:
  assumes "run_job resolve execute jid p w = (r, w')" and "get_job jid (w_jobs w') = Some j"
  shows "jb_status j \<noteq> JobRunning \<and> jb_finished_at j \<noteq> None \<and> jb_ok j = Some (jb_status j = JobDone)
    \<and> (jb_status j = JobError \<longrightarrow> jb_error_code j \<noteq> None)"
proof -
  obtain q w1 where plan: "run_plan_op resolve execute p w = (q, w1)" by (rule prod.exhaust)
  let ?q = "map_sum id result_members q" let ?now = "js_clock (w_jobs w1) (js_ticks (w_jobs w1))"
  let ?js = "put_job jid (outcome_of ?q ?now) ((w_jobs w1)\<lparr>js_ticks := Suc (js_ticks (w_jobs w1))\<rparr>)"
  have "w_jobs w' = snd (save_snapshot jid ?js)"
    using assms(1) plan
    by (auto simp: run_job_def in_jobs_def zoom_def finish_job_def job_now_def bnd_def modify_st_def ret_def
        split: prod.splits sum.splits)
  then have "map_of (js_jobs (snd (save_snapshot jid ?js))) jid = Some j" using assms(2) by (simp add: get_job_def)
  then obtain j0 b where j0: "map_of (js_jobs ?js) jid = Some j0" "j = j0\<lparr>jb_warning := b\<rparr>"
    by (blast dest: map_of_saved)
  then obtain j1 where j1: "map_of (js_jobs (w_jobs w1)) jid = Some j1" "j0 = outcome_of ?q ?now j1"
    by (auto simp: map_of_put_job)
  show ?thesis
    using j0(2) j1(2) by (cases ?q) (auto simp: outcome_of_def split: exn.split)
qed

definition demo_running :: world where
  "demo_running = demo_world\<lparr>w_jobs := demo_jobs\<lparr>js_jobs := [(''job'', \<lparr>jb_kind = reconcile_kind, jb_status = JobRunning, jb_ok = None,
     jb_account = ''Acme'', jb_opportunity = ''Renewal'', jb_slug = ''renewal'', jb_sig = [], jb_started_at = 1,
     jb_finished_at = None, jb_meta = [(''source_id'', JStr demo_sid)], jb_result = [], jb_error_code = None,
     jb_warning = False\<rparr>)]\<rparr>\<rparr>"

lemma demo_owner: "running_job_for_source demo_sid demo_running = Some ''job''"
  by (simp add: running_job_for_source_def demo_running_def owns_source_def)

lemma demo_run_job:
  "\<exists>j. get_job ''job'' (w_jobs (snd (run_job demo_resolve demo_execute ''job''
     (ReconcilePlan (run_args ''src_0'' 1 ''Acme'' ''renewal'' demo_identity None None None)) demo_running))) = Some j"
proof -
  let ?g = "run_args ''src_0'' 1 ''Acme'' ''renewal'' demo_identity None None None"
  have "get_source ''src_0'' demo_ledger = (Inl (EvidenceLedgerError 404 ''unknown_source''), demo_ledger)"
    by (simp add: get_source_def read_source_def is_forgotten_def source_id_ok_def hexn_def op_defs)
  then have "reconcile demo_resolve demo_execute ?g demo_running
      = (Inl (EvidenceLedgerError 404 ''unknown_source''), demo_running\<lparr>w_ticks := Suc (w_ticks demo_running)\<rparr>)"
    by (simp add: reconcile_def bnd_def ops_now_def in_ledger_def zoom_def run_args_def demo_running_def)
  then show ?thesis
    by (simp add: run_job_def run_plan_op_def in_jobs_def zoom_def finish_job_def job_now_def bnd_def modify_st_def ret_def
        put_job_def save_snapshot_def Let_def get_job_def demo_running_def demo_jobs_def)
qed

theorem run_job_ends_witness:
  "running_job_for_source demo_sid demo_running = Some ''job'' \<and>
   (\<exists>j. get_job ''job'' (w_jobs (snd (run_job demo_resolve demo_execute ''job''
     (ReconcilePlan (run_args ''src_0'' 1 ''Acme'' ''renewal'' demo_identity None None None)) demo_running))) = Some j
     \<and> jb_status j \<noteq> JobRunning)"
proof -
  obtain r w' where run: "run_job demo_resolve demo_execute ''job''
     (ReconcilePlan (run_args ''src_0'' 1 ''Acme'' ''renewal'' demo_identity None None None)) demo_running = (r, w')"
    by (rule prod.exhaust)
  with demo_run_job obtain j where j: "get_job ''job'' (w_jobs w') = Some j" by auto
  from run_job_ends [OF run j] run j demo_owner show ?thesis by auto
qed

end
