(* ===== verification/Correction_Facts.thy ===== *)
theory Correction_Facts
  imports Ops_Demo Corrections
begin

section \<open>Facts about retracting a source\<close>

text \<open>
  What \<^verbatim>\<open>retract_source\<close> does to one action record: in the opportunity the source leaves, nothing of the
  source counts in it any more; in any other opportunity it stays as it was.
\<close>

text \<open>Nothing of the source counts in the action any more.\<close>

definition free_of :: "move \<Rightarrow> action \<Rightarrow> bool" where
  "free_of m a \<longleftrightarrow> \<not> originates m a \<and> \<not> contributes m a \<and> \<not> suggests m a"

lemma retracted_free:
  assumes "retracted_action m now a = Inr a'"
  shows "free_of m a' \<and> act_core a' = act_core a \<and> act_id a' = act_id a"
proof -
  have f: "act_origin a' = act_origin a" "act_evidence a' = act_evidence a" "act_core a' = act_core a" "act_id a' = act_id a"
    "act_retraction a' = (if originates m a then Some (retraction_of m now) else act_retraction a)"
    "act_evidence_retractions a' = (if contributes m a then act_evidence_retractions a @ [evidence_retraction_of m now]
      else act_evidence_retractions a)"
    "act_suggestions a' = retract_suggestions m now (act_suggestions a)"
    using assms by (auto simp: retracted_action_def act_core_def split: if_splits)
  have "\<not> originates m a'" using f by (auto simp: originates_def)
  moreover have "\<not> contributes m a'"
    using f by (auto simp: contributes_def retracted_source_ids_def evidence_retraction_of_def)
  moreover have "\<not> suggests m a'"
    unfolding suggests_def f(7) by (auto simp: retract_suggestions_def list_ex_iff split: if_splits)
  ultimately show ?thesis using f by (simp add: free_of_def)
qed

lemma user_change_actions: "user_change m ct subject before after src now link w = (r, w') \<Longrightarrow> w_actions w' = w_actions w"
  by (auto simp: same_actions_def dest: obeysD [OF same_acts.obeys_user_change])

lemma retraction_changes_actions:
  "retraction_changes m now a a' w = (r, w') \<Longrightarrow> w_actions w' = w_actions w"
proof -
  assume run: "retraction_changes m now a a' w = (r, w')"
  have "obeys same_actions (retraction_changes m now a a')"
    unfolding retraction_changes_def Let_def by (intro same_acts.obeys_intros same_acts.obeys_user_change)
  from obeysD [OF this run] show ?thesis by (simp add: same_actions_def)
qed

lemma retract_actionD:
  assumes "retract_action m now a c w = (Inr c', w')" and "stored_action w (act_id a) a"
  shows "(\<exists>a'. stored_action w' (act_id a) a' \<and> free_of m a' \<and> act_core a' = act_core a)
    \<and> (\<forall>i. i \<noteq> act_id a \<longrightarrow> map_of (w_actions w') i = map_of (w_actions w) i)"
proof (cases "free_of m a")
  case True
  with assms show ?thesis by (auto simp: retract_action_def free_of_def ret_def)
next
  case False
  with assms(1) obtain a' w1 w2 where a': "retracted_action m now a = Inr a'"
    and w1: "w1 = w\<lparr>w_actions := AList.update (act_id a') (Intact a') (w_actions w)\<rparr>"
    and ch: "retraction_changes m now a a' w1 = (Inr (), w2)" and w': "w' = w2"
    by (auto simp: retract_action_def free_of_def of_sum_def write_action_eq ret_def raise_def elim!: bnd_InrE split: sum.splits)
  note f = retracted_free [OF a']
  have "w_actions w' = AList.update (act_id a) (Intact a') (w_actions w)"
    using retraction_changes_actions [OF ch] w1 w' f by simp
  with f show ?thesis by (auto simp: stored_action_def)
qed

lemma retract_foldD:
  assumes "fold_op (retract_action m now) as c w = (Inr c', w')" and "distinct (map act_id as)"
    and "\<forall>a \<in> set as. stored_action w (act_id a) a"
  shows "(\<forall>a \<in> set as. \<exists>a'. stored_action w' (act_id a) a' \<and> free_of m a' \<and> act_core a' = act_core a)
    \<and> (\<forall>i. i \<notin> act_id ` set as \<longrightarrow> map_of (w_actions w') i = map_of (w_actions w) i)"
  using assms
proof (induction as arbitrary: c w)
  case (Cons a as)
  from Cons.prems(1) obtain c1 w1 where one: "retract_action m now a c w = (Inr c1, w1)"
    and rest: "fold_op (retract_action m now) as c1 w1 = (Inr c', w')" by (auto elim!: bnd_InrE)
  have "stored_action w (act_id a) a" using Cons.prems(3) by simp
  note d = retract_actionD [OF one this]
  have "\<forall>b \<in> set as. stored_action w1 (act_id b) b"
    using Cons.prems(2,3) d by (auto simp: stored_action_def image_iff)
  then have ih: "(\<forall>b \<in> set as. \<exists>b'. stored_action w' (act_id b) b' \<and> free_of m b' \<and> act_core b' = act_core b)"
    "(\<forall>i. i \<notin> act_id ` set as \<longrightarrow> map_of (w_actions w') i = map_of (w_actions w1) i)"
    using Cons.IH [OF rest] Cons.prems(2) by auto
  have "act_id a \<notin> act_id ` set as" using Cons.prems(2) by simp
  then have "map_of (w_actions w') (act_id a) = map_of (w_actions w1) (act_id a)" using ih(2) by blast
  then have "\<exists>a'. stored_action w' (act_id a) a' \<and> free_of m a' \<and> act_core a' = act_core a"
    using d by (auto simp: stored_action_def)
  with ih d show ?case by auto
qed (simp add: ret_def)

lemma retract_source_steps:
  assumes "retract_source m revert w = (Inr c, w')"
  obtains as c1 now u w1 where "opportunity_actions (mv_account m) (mv_slug m) u = (Inr as, u)"
    and "w_actions u = w_actions w" and "fold_op (retract_action m now) as empty_correction u = (Inr c1, w1)"
    and "w_actions w' = w_actions w1"
proof -
  from assms obtain now u1 marker u2 u3 as u4 c1 w1 rv w2 where 1: "ops_now w = (Inr now, u1)"
    and 2: "read_pending (mv_source_id m) u1 = (Inr marker, u2)"
    and 3: "(case marker of Some p \<Rightarrow> if pa_account p = mv_account m \<and> pa_slug p = mv_slug m
              then remove_pending (mv_source_id m) else ret () | None \<Rightarrow> ret ()) u2 = (Inr (), u3)"
    and 4: "opportunity_actions (mv_account m) (mv_slug m) u3 = (Inr as, u4)"
    and 5: "fold_op (retract_action m now) as empty_correction u4 = (Inr c1, w1)"
    and 6: "(if revert then revert_overview m now else ret None) w1 = (Inr rv, w2)" and 7: "w' = w2"
    unfolding retract_source_def ret_def by (elim bnd_InrE) (auto simp: ret_def)
  have "w_actions u1 = w_actions w" using 1 by (auto simp: ops_now_def)
  moreover have "w_actions u2 = w_actions u1"
    using obeysD [OF same_acts.obeys_read_pending 2] by (simp add: same_actions_def)
  moreover have "w_actions u3 = w_actions u2"
    using 3 by (auto simp: remove_pending_def runs_dir_def op_defs split: option.splits if_splits)
  moreover have "u4 = u3" using pure_opportunity_actions 4 by (rule world_pureD)
  moreover have "w_actions w2 = w_actions w1"
    using 6 obeysD [OF same_acts.obeys_revert_overview] by (auto simp: ret_def same_actions_def split: if_splits)
  ultimately show ?thesis using 4 5 7 by (intro that [of u3 as now c1 w1]) simp_all
qed

text \<open>One stored action before and after the retraction.\<close>

lemma retract_source_action:
  assumes "retract_source m revert w = (Inr c, w')" and "distinct (map fst (w_actions w))"
    and "stored_action w (act_id a) a" and "startswith (act_id a) ''act_''"
  shows "\<exists>a'. stored_action w' (act_id a) a' \<and> act_core a' = act_core a
    \<and> (names_opportunity (mv_account m) (mv_slug m) a \<longrightarrow> free_of m a')
    \<and> (\<not> names_opportunity (mv_account m) (mv_slug m) a \<longrightarrow> a' = a)"
proof -
  from assms(1) obtain as c1 now u w1 where as: "opportunity_actions (mv_account m) (mv_slug m) u = (Inr as, u)"
    and u: "w_actions u = w_actions w" and fold: "fold_op (retract_action m now) as empty_correction u = (Inr c1, w1)"
    and w': "w_actions w' = w_actions w1" by (rule retract_source_steps)
  have mir: "action_mirror (mv_account m) (mv_slug m) as u" using opportunity_actions_mirror [OF as] assms(2) u by simp
  have "distinct (map act_id as)" "\<forall>a \<in> set as. stored_action u (act_id a) a"
    using mir by (simp_all add: action_mirror_def)
  note d = retract_foldD [OF fold this]
  have sa: "stored_action u (act_id a) a" using assms(3) u by (simp add: stored_action_def)
  show ?thesis
  proof (cases "names_opportunity (mv_account m) (mv_slug m) a")
    case True
    then have "a \<in> set as" using mir sa assms(4) unfolding action_mirror_def by blast
    then obtain a' where a': "stored_action w1 (act_id a) a'" "free_of m a'" "act_core a' = act_core a" using d by blast
    then show ?thesis using True w' by (intro exI [of _ a']) (simp add: stored_action_def)
  next
    case False
    have "act_id a \<notin> act_id ` set as"
    proof
      assume "act_id a \<in> act_id ` set as"
      then obtain b where "b \<in> set as" "act_id b = act_id a" by auto
      moreover from this(1) have "stored_action u (act_id b) b" using mir unfolding action_mirror_def by blast
      ultimately have "b = a" using sa by (simp add: stored_action_def)
      with \<open>b \<in> set as\<close> False mir show False unfolding action_mirror_def by blast
    qed
    then have "map_of (w_actions w1) (act_id a) = map_of (w_actions u) (act_id a)" using d by blast
    then show ?thesis using sa w' False by (intro exI [of _ a]) (simp add: stored_action_def)
  qed
qed

lemma free_of_effective:
  "free_of m a \<Longrightarrow> sr_source_id (act_origin a) \<noteq> mv_source_id m \<Longrightarrow> mv_source_id m \<notin> sr_source_id ` set (effective_evidence a)"
  by (auto simp: free_of_def contributes_def effective_evidence_def)

subsection \<open>A retraction that runs\<close>

lemma demo_target: "safe_token ''Globex''" "safe_token ''pilot''"
  by (simp_all add: safe_token_def safe_char_def is_lower_def is_upper_def in_len_def)

lemma demo_retracts_any:
  assumes mv: "mv_source_id m = demo_src" "mv_account m = ''Acme''" "mv_slug m = ''renewal''"
    and to: "opt_all safe_token (mv_to_account m)" "opt_all safe_token (mv_to_slug m)" "short_text (mv_reason m)"
    and w: "w_actions w = [(demo_aid, Intact demo_todo)]" "own_id (w_ledger w) = Inr ''0123456789abcdef''"
      "w_pending w = []" "w_actor w = ''local''"
  shows "\<exists>c w'. retract_source m False w = (Inr c, w') \<and> w_ledger w' = w_ledger w \<and> w_store w' = w_store w"
proof -
  let ?now = "w_clock w (w_ticks w)"
  let ?u = "w\<lparr>w_ticks := Suc (w_ticks w)\<rparr>"
  have opp: "opportunity_actions ''Acme'' ''renewal'' ?u = (Inr [demo_todo], ?u)" by (rule demo_opportunity) (simp_all add: w)
  have pend: "read_pending demo_src ?u = (Inr None, ?u)"
    using demo_src_ok by (simp add: read_pending_def runs_dir_def bnd_def ret_def read_st_def w)
  have t: "originates m demo_todo" "\<not> contributes m demo_todo" "\<not> suggests m demo_todo"
    by (simp_all add: originates_def contributes_def suggests_def mv demo_todo_def demo_ref_def)
  have "valid_retraction (retraction_of m ?now)"
    using to demo_tokens by (simp add: valid_retraction_def retraction_of_def mv)
  then obtain a' where a': "retracted_action m ?now demo_todo = Inr a'" using t by (simp add: retracted_action_def)
  let ?w1 = "?u\<lparr>w_actions := AList.update (act_id a') (Intact a') (w_actions ?u)\<rparr>"
  let ?g = "\<lparr>cg_type = AssociationCorrected, cg_subject_id = act_id demo_todo,
     cg_before = [(''account'', JStr ''Acme''), (''opportunity_slug'', JStr ''renewal''), (''status'', JStr (status_value (act_status demo_todo)))],
     cg_after = [(''account'', jtext (mv_to_account m)), (''opportunity_slug'', jtext (mv_to_slug m)), (''retracted'', JBool True)],
     cg_source = Some (act_origin demo_todo), cg_actor = User, cg_occurred_at = ?now, cg_link = action_link (act_id demo_todo)\<rparr>"
  have "in_len 1 160 demo_aid" "in_len 1 300 (action_link demo_aid)" by (simp_all add: demo_aid_def action_link_def in_len_def)
  then have "\<exists>c w'. append_change ''Acme'' ''renewal'' ?g ?w1 = (Inr c, w') \<and> w_ledger w' = w_ledger ?w1 \<and> w_actor w' = w_actor ?w1
      \<and> w_actions w' = w_actions ?w1 \<and> w_store w' = w_store ?w1"
    by (intro append_change_returns) (use demo_tokens demo_hex demo_ref_ok demo_names in \<open>simp_all add: demo_todo_def w\<close>)
  then obtain c w2 where w2: "append_change ''Acme'' ''renewal'' ?g ?w1 = (Inr c, w2)" "w_ledger w2 = w_ledger w" "w_store w2 = w_store w"
    by auto
  then have "retraction_changes m ?now demo_todo a' ?w1 = (Inr (), w2)"
    using t by (simp add: retraction_changes_def user_change_def mv bnd_def ret_def Let_def)
  then have "retract_action m ?now demo_todo empty_correction ?u = (Inr (noted m demo_todo empty_correction), w2)"
    using t a' by (simp add: retract_action_def of_sum_def write_action_eq bnd_def ret_def)
  then show ?thesis
    using opp pend w2 by (simp add: retract_source_def bnd_def ops_now_def mv ret_def)
qed

end
