(* ===== verification/Correction_Claims.thy ===== *)
theory Correction_Claims
  imports Correction_Facts
begin

section \<open>What the users' corrections and decisions leave behind\<close>

text \<open>
  The life of an action record over a whole session of requests, and the retraction of everything a
  source contributed to an opportunity it no longer belongs to.
\<close>

subsection \<open>The life of an action over a session\<close>

text \<open>The requests whose effect on action records is a transition or an undo; the runs and the corrections
  of associations are left to their own properties.\<close>

fun user_request :: "service_cmd \<Rightarrow> bool" where
  "user_request (Run_Job jid p) = False"
| "user_request (Confirm sid account slug reason) = False"
| "user_request (Clear sid reason) = False"
| "user_request c = True"

lemma evolved_quietly: "obeys evolved m \<Longrightarrow> evolved w (quietly m w)"
  by (cases "m w") (auto simp: quietly_def dest: obeysD)

lemma evolved_cmd:
  assumes "\<And>a s. obeys evolved (resolve a s)" and "user_request c"
  shows "evolved w (run_cmd resolve execute c w)"
  using assms
  by (cases c) (auto simp: repair_def intro!: evolved_quietly evolves.obeys_get_action evolves.obeys_list_actions
      evolves.obeys_list_changes evolves.obeys_repair evolves.obeys_bnd evolves.obeys_opportunity_actions
      evolves_transition evolves_undo evolves.obeys_start_reconciliation evolves.obeys_start_first_overview
      evolves.obeys_simple)

lemma evolved_session:
  assumes "\<And>a s. obeys evolved (resolve a s)" and "list_all user_request cmds"
  shows "evolved w (run_service resolve execute cmds w)"
  using assms(2) unfolding run_service_def
proof (induction cmds arbitrary: w)
  case (Cons c cmds)
  have "evolved w (run_cmd resolve execute c w)" using evolved_cmd assms(1) Cons.prems by simp
  moreover have "evolved (run_cmd resolve execute c w) (fold (run_cmd resolve execute) cmds (run_cmd resolve execute c w))"
    using Cons.IH Cons.prems by simp
  ultimately show ?case using evolves.R_trans by auto
qed (simp add: evolves.R_refl)



subsection \<open>Retracting a source\<close>

text \<open>C11: a correction leaves nothing of the moved source behind.  After \<^verbatim>\<open>retract_source\<close> returned, no action
  of the opportunity the source leaves originates in it without being marked as retracted, counts it
  among its effective evidence, or shows an open completion suggestion of it; and no action of another
  opportunity was touched.\<close>

theorem retraction_complete:
  assumes "retract_source m revert w = (Inr c, w')" and "distinct (map fst (w_actions w))"
    and "stored_action w (act_id a) a" and "startswith (act_id a) ''act_''"
  shows "\<exists>a'. stored_action w' (act_id a) a' \<and> act_core a' = act_core a
    \<and> (act_account a = mv_account m \<and> act_slug a = mv_slug m \<longrightarrow>
        (sr_source_id (act_origin a') = mv_source_id m \<longrightarrow> act_retraction a' \<noteq> None)
        \<and> (sr_source_id (act_origin a') \<noteq> mv_source_id m \<longrightarrow> mv_source_id m \<notin> sr_source_id ` set (effective_evidence a'))
        \<and> (\<forall>s \<in> set (act_suggestions a'). sr_source_id (cs_source s) = mv_source_id m \<longrightarrow> cs_retracted_at s \<noteq> None))
    \<and> (act_account a \<noteq> mv_account m \<or> act_slug a \<noteq> mv_slug m \<longrightarrow> a' = a)"
proof -
  obtain a' where a': "stored_action w' (act_id a) a'" "act_core a' = act_core a"
    "names_opportunity (mv_account m) (mv_slug m) a \<longrightarrow> free_of m a'"
    "\<not> names_opportunity (mv_account m) (mv_slug m) a \<longrightarrow> a' = a"
    using retract_source_action [OF assms] by blast
  then show ?thesis
    using free_of_effective [of m a']
    by (intro exI [of _ a']) (auto simp: free_of_def originates_def suggests_def list_ex_iff names_opportunity_def)
qed

definition demo_move :: move where
  "demo_move = \<lparr>mv_source_id = demo_src, mv_account = ''Acme'', mv_slug = ''renewal'', mv_to_account = Some ''Globex'',
     mv_to_slug = Some ''pilot'', mv_reason = ''Wrong customer''\<rparr>"

lemma demo_retracts: "\<exists>c w'. retract_source demo_move False demo_world = (Inr c, w')"
proof -
  have "\<exists>c w'. retract_source demo_move False demo_world = (Inr c, w') \<and> w_ledger w' = w_ledger demo_world \<and> w_store w' = w_store demo_world"
    by (rule demo_retracts_any) (simp_all add: demo_move_def demo_target short_text_def in_len_def)
  then show ?thesis by blast
qed

theorem retraction_complete_witness:
  "\<exists>w' a'. stored_action w' demo_aid a' \<and> act_commitment a' = ''Send pricing deck'' \<and> act_retraction a' \<noteq> None"
proof -
  obtain c w' where run: "retract_source demo_move False demo_world = (Inr c, w')" using demo_retracts by blast
  have "stored_action demo_world (act_id demo_todo) demo_todo" "startswith (act_id demo_todo) ''act_''"
    using demo_stored demo_names demo_aid_ok by simp_all
  from retraction_complete [OF run _ this] obtain a' where a': "stored_action w' (act_id demo_todo) a'" "act_core a' = act_core demo_todo"
    "act_account demo_todo = mv_account demo_move \<and> act_slug demo_todo = mv_slug demo_move \<longrightarrow>
      (sr_source_id (act_origin a') = mv_source_id demo_move \<longrightarrow> act_retraction a' \<noteq> None)" by auto
  then have "act_retraction a' \<noteq> None" by (simp add: act_core_def demo_move_def demo_todo_def demo_ref_def)
  with a'(1,2) demo_names show ?thesis by (intro exI [of _ w'] exI [of _ a']) (simp add: act_core_def demo_todo_def)
qed

end
