(* ===== verification/Defect_Claims.thy ===== *)
theory Defect_Claims
  imports Ops_Demo
begin

section \<open>Where the operations service falls short\<close>

text \<open>
  Three behaviours of the code, stated as theorems, that its own comments or callers do not expect: a
  suggestion without its change, an interrupted run that blocks its own restart, and two
  opportunities that share one change log.
\<close>

subsection \<open>A suggestion that leaves no trace in the log\<close>


definition demo_other_done :: observation where
  "demo_other_done = \<lparr>ob_key = ''fedcba9876543210'', ob_kind = CompletionKind, ob_commitment = ''send pricing deck'',
     ob_definition_of_done = None, ob_party = Unknown, ob_owner = None, ob_due_date = None, ob_explicit = False,
     ob_attribution = ModelOnly,
     ob_source = (demo_ref 2)\<lparr>sr_source_id := ''src_11111111111111111111111111111111''\<rparr>\<rparr>"


subsection \<open>An interrupted run that blocks its restart\<close>

lemma mark_failed_run:
  assumes "ledger_ok l" and "read_source sid l = (Inr s, l)" and "error_code_ok code"
    and "ps_status (src_processing s) = Processing"
  shows "\<exists>sm l' s'. mark_failed sid code True l = (Inr sm, l') \<and> ledger_ok l' \<and> read_source sid l' = (Inr s', l')
    \<and> ps_status (src_processing s') = Failed"
proof -
  note step = life_steps(6) [OF assms(3), of True]
  from assms(4) obtain s' where s': "mark_failed_step code True s (lg_clock l (lg_ticks l)) = Inr (Some s')"
    and f: "ps_status (src_processing s') = Failed" "src_revisions s' = src_revisions s" "src_history s' = src_history s"
      "ps_attempts (src_processing s') = ps_attempts (src_processing s)"
    by (auto simp: mark_failed_step_def Let_def)
  from updated_read [OF assms(1,2) step s'] obtain l' where l': "update_source sid (mark_failed_step code True) l = (Inr (summarize False s'), l')"
    "ledger_ok l'" "\<not> forgotten l' sid" "map_of (lg_sources l') sid = Some (Intact s')" by blast
  note r = assms(2) [unfolded read_source_eq [OF assms(1)]]
  have "source_id_ok sid" using r by (auto split: if_splits)
  moreover have "within_limits s'"
    using r f by (auto simp: within_limits_def split: if_splits option.splits stored.splits)
  ultimately have "read_source sid l' = (Inr s', l')" using l' by (simp add: read_source_eq)
  then show ?thesis using l' f assms(3) by (auto simp: mark_failed_def)
qed

lemma mark_failed_twice:
  assumes "ledger_ok l" and "read_source sid l = (Inr s, l)" and "error_code_ok code"
    and "ps_status (src_processing s) = Failed"
  shows "mark_failed sid code True l = (Inl (EvidenceLedgerError 409 ''not_processing''), l)"
  using assms by (simp add: mark_failed_def update_source_def bnd_def mark_failed_step_def)

lemma record_terminal_run_ledger:
  "record_terminal_run sm account slug base_id base_rev status code started extra w = (r, w') \<Longrightarrow> w_ledger w' = w_ledger w"
  by (auto simp: record_terminal_run_def Let_def ops_now_def ops_workspace_id_eq write_run_def runs_dir_def op_defs
      split: sum.splits if_splits)

lemma remove_pending_ledger: "remove_pending sid w = (r, w') \<Longrightarrow> w_ledger w' = w_ledger w"
  by (auto simp: remove_pending_def runs_dir_def op_defs split: if_splits)

lemma interrupted_code: "error_code_ok ''interrupted''"
  by (simp add: error_code_ok_def in_len_def is_lower_def)


text \<open>The small world in which the meeting's run was interrupted before its promotion.\<close>

definition demo_busy :: evidence_source where
  "demo_busy = demo_source\<lparr>src_updated_at := 8, src_processing := (src_processing demo_source)\<lparr>
     ps_status := Processing, ps_attempts := 1, ps_updated_at := 8\<rparr>\<rparr>"

definition demo_busy_ledger :: ledger where
  "demo_busy_ledger = demo_ledger\<lparr>lg_ticks := Suc (lg_ticks demo_ledger), lg_sources := [(demo_sid, Intact demo_busy)]\<rparr>"

definition demo_marker :: pending where
  "demo_marker = \<lparr>pa_workspace_id = ''0123456789abcdef'', pa_source_id = demo_sid, pa_revision = 1, pa_account = ''Acme'',
     pa_slug = ''renewal'', pa_base_version_id = Some (replicate 32 (CHR ''1'')), pa_base_revision = Some 1,
     pa_association_sequence = None, pa_evidence_id = demo_src @ ''_r1'', pa_evidence_sha256 = replicate 64 (CHR ''b''),
     pa_observed_at = 5, pa_started_at = 6\<rparr>"

definition demo_crashed :: world where
  "demo_crashed = demo_world\<lparr>w_ledger := demo_busy_ledger, w_pending := [(demo_sid, Intact demo_marker)]\<rparr>"

lemma demo_busy_ok:
  "ledger_ok demo_busy_ledger" "read_source demo_sid demo_busy_ledger = (Inr demo_busy, demo_busy_ledger)"
proof -
  have step: "mark_processing_step demo_source (lg_clock demo_ledger (lg_ticks demo_ledger)) = Inr (Some demo_busy)"
    by (simp add: mark_processing_step_def demo_busy_def demo_source_def demo_ledger_def)
  have "src_id demo_source = demo_sid" by (simp add: demo_source_def)
  then have run: "update_source demo_sid mark_processing_step demo_ledger = (Inr (summarize False demo_busy), demo_busy_ledger)"
    using update_source_eq [OF demo_read _ life_steps(4)] step
    by (simp add: demo_busy_ledger_def) (simp add: demo_ledger_def)
  show ok: "ledger_ok demo_busy_ledger"
    using obeysD [OF obeys_update_source [OF life_steps(4)] run] demo_ledger_ok by (simp add: ledger_rel_def)
  have "within_limits demo_busy" by (simp add: within_limits_def demo_busy_def demo_source_def)
  then show "read_source demo_sid demo_busy_ledger = (Inr demo_busy, demo_busy_ledger)"
    by (simp add: read_source_eq [OF ok]) (simp add: demo_busy_ledger_def demo_ledger_def)
qed

lemma demo_interrupted:
  "\<exists>resume w'. resume_plan demo_marker (summarize True demo_busy) ''Acme'' ''renewal'' demo_version
     (replicate 32 (CHR ''1'')) 1 demo_crashed = (Inr resume, w')"
proof -
  let ?sm = "summarize True demo_busy"
  have sm: "sm_source_id ?sm = demo_sid" "sm_latest_revision ?sm = 1" "ps_status (sm_processing ?sm) = Processing"
    by (simp_all add: summarize_def Let_def demo_busy_def demo_source_def)
  have busy: "ps_status (src_processing demo_busy) = Processing" by (simp add: demo_busy_def)
  obtain s' where s': "mark_failed_step ''interrupted'' True demo_busy (lg_clock demo_busy_ledger (lg_ticks demo_busy_ledger)) = Inr (Some s')"
    using busy by (simp add: mark_failed_step_def Let_def)
  have id: "src_id demo_busy = demo_sid" by (simp add: demo_busy_def demo_source_def)
  let ?l = "demo_busy_ledger\<lparr>lg_ticks := Suc (lg_ticks demo_busy_ledger), lg_sources := AList.update (src_id demo_busy) (Intact s') (lg_sources demo_busy_ledger)\<rparr>"
  have mf: "mark_failed demo_sid ''interrupted'' True demo_busy_ledger = (Inr (summarize False s'), ?l)"
    using update_source_eq [OF demo_busy_ok(2) _ life_steps(6) [OF interrupted_code, of True]] s' id interrupted_code
    by (simp add: mark_failed_def)
  have own: "own_id ?l = Inr ''0123456789abcdef''"
    using demo_scope_ok by (simp add: own_id_def scope_def demo_busy_ledger_def demo_ledger_def demo_scope_def op_defs)
  let ?u = "demo_crashed\<lparr>w_pending := []\<rparr>" let ?v = "?u\<lparr>w_ledger := ?l\<rparr>"
  have rm: "remove_pending demo_sid demo_crashed = (Inr (), ?u)"
    by (simp add: remove_pending_def runs_dir_def bnd_def modify_st_def ret_def demo_crashed_def)
  have in_l: "in_ledger (mark_failed demo_sid ''interrupted'' True) ?u = (Inr (summarize False s'), ?v)"
    using mf by (simp add: in_ledger_def zoom_def demo_crashed_def)
  have "hexn 32 (replicate 32 (CHR ''1''))" by (simp add: hexn_def is_hex_def is_digit_def list_all_iff)
  then have valid: "valid_run \<lparr>run_id = ''run_'' @ take 32 (sha256_hex z), run_workspace_id = ''0123456789abcdef'', run_source_id = demo_sid,
     run_revision = 1, run_account = ''Acme'', run_slug = ''renewal'', run_base_version_id = Some (replicate 32 (CHR ''1'')),
     run_base_revision = Some 1, run_status = RunInterrupted, run_error_code = Some ''interrupted'', run_promoted_version_id = None,
     run_promoted_revision = None, run_observation_count = 0, run_actions_created = [], run_actions_linked = [],
     run_suggestions = [], run_duplicates = [], run_model = None, run_runtime = None, run_started_at = 6, run_finished_at = t\<rparr>" for z t
    using demo_hex demo_tokens by (simp add: valid_run_def run_id_ok_def revision_ok_def in_len_def)
  have "\<exists>r w'. record_terminal_run ?sm ''Acme'' ''renewal'' (Some (replicate 32 (CHR ''1''))) (Some 1) RunInterrupted
      (Some ''interrupted'') 6 NoExtra ?v = (Inr r, w')"
    using own valid sm(1,2)
    by (simp add: record_terminal_run_def bnd_def ops_now_def ops_workspace_id_eq Let_def write_run_def runs_dir_def
        modify_st_def ret_def)
  then obtain r w' where rec: "record_terminal_run ?sm ''Acme'' ''renewal'' (Some (replicate 32 (CHR ''1''))) (Some 1) RunInterrupted
      (Some ''interrupted'') 6 NoExtra ?v = (Inr r, w')" by blast
  have mk: "pa_source_id demo_marker = demo_sid" "pa_base_version_id demo_marker = Some (replicate 32 (CHR ''1''))"
    "pa_base_revision demo_marker = Some 1" "pa_started_at demo_marker = 6"
    by (simp_all add: demo_marker_def)
  have "\<not> marker_moved demo_marker ?sm ''Acme'' ''renewal''"
    using sm(2) by (simp add: marker_moved_def demo_marker_def)
  moreover have "\<not> promoted_version_for demo_version demo_marker"
    by (simp add: promoted_version_for_def demo_marker_def demo_version_def)
  ultimately have "resume_plan demo_marker ?sm ''Acme'' ''renewal'' demo_version (replicate 32 (CHR ''1'')) 1 demo_crashed = (Inr None, w')"
    using rm in_l rec sm(3) mk by (simp add: resume_plan_def interrupt_def bnd_def ret_def)
  then show ?thesis by blast
qed


end
