(* ===== verification/Overview_Parse.thy ===== *)
theory Overview_Parse
  imports Overview "HOL-Library.Monad_Syntax"
begin

section \<open>Reading a candidate back\<close>

text \<open>
  \<^verbatim>\<open>OpportunityStateCandidate.model_validate\<close> of \<^verbatim>\<open>webapp/opportunity_state.py\<close> on JSON values: every
  model of a candidate with its required and defaulted fields, unknown fields refused, the
  enumerations by their values, texts stripped before their length is checked, and the
  model's own validator.  The theory shows that a valid candidate is read back from its dump.
  A timestamp is read in the one format that \<^verbatim>\<open>model_dump(mode="json")\<close> writes.
\<close>

subsection \<open>Timestamps\<close>

text \<open>The inverse of \<open>civil\<close>: the number of days before a date.\<close>

definition days_of :: "int \<Rightarrow> int \<Rightarrow> int \<Rightarrow> int" where
  "days_of y m d =
     (let y' = (if m \<le> 2 then y - 1 else y); era = y' div 400; yoe = y' mod 400;
          mp = (if m > 2 then m - 3 else m + 9); doy = (153 * mp + 2) div 5 + d - 1;
          doe = yoe * 365 + yoe div 4 - yoe div 100 + doy
      in era * 146097 + doe - 719468)"

lemma div_le:
  fixes x n :: int
  assumes "0 < n"
  shows "n * (x div n) \<le> x" and "x < n * (x div n) + n"
  using pos_mod_bound [OF assms, of x] pos_mod_sign [OF assms, of x] mult_div_mod_eq [of n x] by linarith+

lemma era_year:
  fixes doe :: int
  assumes doe: "0 \<le> doe" "doe < 146097"
    and yoe: "yoe = (doe - doe div 1460 + doe div 36524 - doe div 146096) div 365"
    and doy: "doy = doe - (365 * yoe + yoe div 4 - yoe div 100)"
  shows "0 \<le> yoe \<and> yoe < 400 \<and> 0 \<le> doy \<and> doy \<le> 365"
proof -
  define q where "q = doe div 1460"
  define a where "a = doe div 36524"
  define c where "c = doe div 146096"
  define h where "h = yoe div 100"
  define k where "k = yoe div 4"
  have q: "1460 * q \<le> doe" "doe < 1460 * q + 1460" using div_le [of 1460 doe] by (simp_all add: q_def)
  have a: "36524 * a \<le> doe" "doe < 36524 * a + 36524" using div_le [of 36524 doe] by (simp_all add: a_def)
  have c: "146096 * c \<le> doe" "doe < 146096 * c + 146096" using div_le [of 146096 doe] by (simp_all add: c_def)
  have h: "100 * h \<le> yoe" "yoe < 100 * h + 100" using div_le [of 100 yoe] by (simp_all add: h_def)
  have k: "4 * k \<le> yoe" "yoe < 4 * k + 4" using div_le [of 4 yoe] by (simp_all add: k_def)
  have y: "365 * yoe \<le> doe - q + a - c" "doe - q + a - c < 365 * yoe + 365"
    using div_le [of 365 "doe - q + a - c"] by (simp_all add: yoe q_def a_def c_def)
  have dy: "doy = doe - 365 * yoe - k + h" by (simp add: doy h_def k_def)
  have acq: "a \<in> {0, 1, 2, 3} \<and> c = 0 \<or> a = 4 \<and> c = 1" "q \<le> 100" "0 \<le> q" using doe a c q by auto
  then have qa: "25 * a \<le> q" using q(2) a(1) by auto
  have n: "36500 * a - 2 * c \<le> doe - q + a - c" using acq a q doe by auto
  then have ah: "a - c \<le> h" using y h acq by auto
  have "doe - q + a - c < 36500 * (a - c) + 36500" using acq a q doe by auto
  moreover have "36500 * h \<le> doe - q + a - c" using y(1) h(1) by linarith
  ultimately have "36500 * h < 36500 * (a - c + 1)" by (simp add: algebra_simps)
  then have ha: "h \<le> a - c" by simp
  have "1460 * k < 1460 * q + 1460" using q y k qa acq by auto
  then have kq: "k \<le> q" by linarith
  have "q - 2 < k" using q y k acq by auto
  then show ?thesis using doe q y dy ah ha kq n acq by auto
qed
lemma month_bounds:
  fixes doy :: int
  assumes "0 \<le> doy" and "doy \<le> 365" and "mp = (5 * doy + 2) div 153"
  shows "0 \<le> mp \<and> mp \<le> 11"
  using assms div_le [of 153 "5 * doy + 2"] by simp

lemma days_of_civil:
  assumes "civil z = (y, m, d)"
  shows "days_of y m d = z"
proof -
  define x where "x = z + 719468"
  define doe where "doe = x mod 146097"
  define yoe where "yoe = (doe - doe div 1460 + doe div 36524 - doe div 146096) div 365"
  define doy where "doy = doe - (365 * yoe + yoe div 4 - yoe div 100)"
  define mp where "mp = (5 * doy + 2) div 153"
  have doe: "0 \<le> doe" "doe < 146097" by (simp_all add: doe_def)
  note yy = era_year [OF doe yoe_def doy_def]
  with month_bounds [OF _ _ mp_def] have b: "0 \<le> yoe" "yoe < 400" "0 \<le> mp" "mp \<le> 11" by simp_all
  have m: "m = (if mp < 10 then mp + 3 else mp - 9)"
    and y: "y = yoe + x div 146097 * 400 + (if m \<le> 2 then 1 else 0)"
    and d: "d = doy - (153 * mp + 2) div 5 + 1"
    using assms unfolding civil_def Let_def x_def [symmetric] doe_def [symmetric] yoe_def [symmetric]
      doy_def [symmetric] mp_def [symmetric] by auto
  have y': "(if m \<le> 2 then y - 1 else y) = yoe + x div 146097 * 400" using y by simp
  have mp': "(if m > 2 then m - 3 else m + 9) = mp" using m b by auto
  have e: "(yoe + x div 146097 * 400) div 400 = x div 146097" "(yoe + x div 146097 * 400) mod 400 = yoe"
    using b by simp_all
  show ?thesis
    unfolding days_of_def Let_def y' mp' e d
    using mult_div_mod_eq [of 146097 x] by (simp add: doy_def doe_def x_def)
qed

text \<open>A fixed number of digits, and a fixed character.\<close>

definition digits_value :: "string \<Rightarrow> int" where
  "digits_value s = foldl (\<lambda>n c. 10 * n + (int (ord_c c) - 48)) 0 s"

definition read_digits :: "nat \<Rightarrow> string \<Rightarrow> (int \<times> string) option" where
  "read_digits n s = (if n \<le> length s \<and> list_all is_digit (take n s)
     then Some (digits_value (take n s), drop n s) else None)"

definition read_char :: "char \<Rightarrow> string \<Rightarrow> string option" where
  "read_char c s = (case s of [] \<Rightarrow> None | x # r \<Rightarrow> if x = c then Some r else None)"

definition read_fraction :: "string \<Rightarrow> (int \<times> string) option" where
  "read_fraction s = (case read_char (CHR ''.'') s of None \<Rightarrow> Some (0, s) | Some r \<Rightarrow> read_digits 6 r)"

definition parse_time :: "string \<Rightarrow> datetime option" where
  "parse_time s = do {
     (y, s) \<leftarrow> read_digits 4 s; s \<leftarrow> read_char (CHR ''-'') s;
     (mo, s) \<leftarrow> read_digits 2 s; s \<leftarrow> read_char (CHR ''-'') s;
     (d, s) \<leftarrow> read_digits 2 s; s \<leftarrow> read_char (CHR ''T'') s;
     (h, s) \<leftarrow> read_digits 2 s; s \<leftarrow> read_char (CHR '':'') s;
     (mi, s) \<leftarrow> read_digits 2 s; s \<leftarrow> read_char (CHR '':'') s;
     (sec, s) \<leftarrow> read_digits 2 s; (us, s) \<leftarrow> read_fraction s;
     if s = ''Z'' \<and> 1 \<le> y \<and> civil (days_of y mo d) = (y, mo, d) \<and> h < 24 \<and> mi < 60 \<and> sec < 60
     then Some (days_of y mo d * 86400000000 + ((h * 60 + mi) * 60 + sec) * 1000000 + us)
     else None}"

text \<open>The years a \<^verbatim>\<open>datetime\<close> can hold.\<close>

definition time_ok :: "datetime \<Rightarrow> bool" where
  "time_ok t \<longleftrightarrow> (let y = fst (civil (t div 86400000000)) in 1 \<le> y \<and> y \<le> 9999)"

lemma digits_value_snoc [simp]: "digits_value (s @ [c]) = 10 * digits_value s + (int (ord_c c) - 48)"
  by (simp add: digits_value_def)

lemma digits_value_Nil [simp]: "digits_value [] = 0"
  by (simp add: digits_value_def)

lemma of_digit_char: "d < 10 \<Longrightarrow> ord_c (digit_char d) = 48 + d"
  by (simp add: digit_char_def)

lemma digits_value_dec_nat: "digits_value (dec_nat n) = int n"
proof (induction n rule: dec_nat.induct)
  case (1 n)
  show ?case
  proof (cases "n < 10")
    case True
    then show ?thesis
      using of_digit_char [of n] digits_value_snoc [of "[]" "digit_char n"] by (subst dec_nat.simps) simp
  next
    case False
    then have "digits_value (dec_nat n) = 10 * int (n div 10) + int (n mod 10)"
      using 1 of_digit_char [of "n mod 10"] by (subst dec_nat.simps) simp
    then show ?thesis by presburger
  qed
qed

lemma digits_value_zeros: "digits_value (replicate k (CHR ''0'') @ s) = digits_value s"
proof -
  have "digits_value (replicate k (CHR ''0'')) = 0"
    by (induction k) (simp_all add: replicate_append_same [symmetric] del: replicate_append_same)
  then show ?thesis by (simp add: digits_value_def)
qed

lemma length_dec_nat: "n < 10 ^ k \<Longrightarrow> 1 \<le> k \<Longrightarrow> length (dec_nat n) \<le> k"
proof (induction n arbitrary: k rule: dec_nat.induct)
  case (1 n)
  show ?case
  proof (cases "n < 10")
    case True
    with "1.prems" show ?thesis by (subst dec_nat.simps) simp
  next
    case False
    with "1.prems" obtain j where k: "k = Suc j" "1 \<le> j"
      by (cases k; cases "k - 1") auto
    with "1.prems" have "n div 10 < 10 ^ j" by (simp add: less_mult_imp_div_less mult.commute)
    from "1.IH" [OF False this k(2)] False k show ?thesis by (subst dec_nat.simps) simp
  qed
qed

lemma read_digits_zfill:
  assumes "0 \<le> v" and "nat v < 10 ^ n" and "1 \<le> n"
  shows "read_digits n (zfill n (dec v) @ r) = Some (v, r)"
proof -
  have d: "dec v = dec_nat (nat v)" using assms(1) by (simp add: dec_def)
  have len: "length (zfill n (dec v)) = n" using length_dec_nat [OF assms(2,3)] by (simp add: zfill_def d)
  have "list_all is_digit (zfill n (dec v))"
    using dec_nat_digits [of "nat v"] by (auto simp: zfill_def d is_digit_def list_all_iff)
  moreover have "digits_value (zfill n (dec v)) = v"
    using assms(1) by (simp add: zfill_def digits_value_zeros d digits_value_dec_nat)
  ultimately show ?thesis using len by (simp add: read_digits_def)
qed

lemma read_char_Cons [simp]: "read_char c (c # r) = Some r" "d \<noteq> c \<Longrightarrow> read_char c (d # r) = None"
  by (simp_all add: read_char_def)

text \<open>The clock fields of a timestamp, as \<open>isoformat\<close> prints them.\<close>

lemma json_time_eq:
  assumes "civil (t div 86400000000) = (y, m, d)"
  shows "json_time t = (let us = t mod 86400000000; sec = us div 1000000; frac = us mod 1000000;
          p = (\<lambda>n v. zfill n (dec v))
      in p 4 y @ ''-'' @ p 2 m @ ''-'' @ p 2 d @ ''T'' @ p 2 (sec div 3600) @ '':'' @
         p 2 (sec div 60 mod 60) @ '':'' @ p 2 (sec mod 60) @
         (if frac = 0 then '''' else ''.'' @ p 6 frac) @ ''Z'')"
proof -
  have cut: "take (length (b @ ''+00:00'') - 6) (b @ ''+00:00'') = b" for b :: string by simp
  show ?thesis
    unfolding json_time_def isoformat_def assms Let_def prod.case
    unfolding append_assoc [symmetric] cut ..
qed

lemma civil_month_day:
  assumes "civil z = (y, m, d)"
  shows "1 \<le> m \<and> m \<le> 12 \<and> 1 \<le> d \<and> d \<le> 31"
proof -
  define x where "x = z + 719468"
  define doe where "doe = x mod 146097"
  define yoe where "yoe = (doe - doe div 1460 + doe div 36524 - doe div 146096) div 365"
  define doy where "doy = doe - (365 * yoe + yoe div 4 - yoe div 100)"
  define mp where "mp = (5 * doy + 2) div 153"
  have doe: "0 \<le> doe" "doe < 146097" by (simp_all add: doe_def)
  have b: "0 \<le> doy" "0 \<le> mp" "mp \<le> 11"
    using era_year [OF doe yoe_def doy_def] month_bounds [OF _ _ mp_def] by simp_all
  have m: "m = (if mp < 10 then mp + 3 else mp - 9)" and d: "d = doy - (153 * mp + 2) div 5 + 1"
    using assms unfolding civil_def Let_def x_def [symmetric] doe_def [symmetric] yoe_def [symmetric]
      doy_def [symmetric] mp_def [symmetric] by auto
  have "153 * mp \<le> 5 * doy + 2" "5 * doy + 2 < 153 * mp + 153" using div_le [of 153 "5 * doy + 2"] by (simp_all add: mp_def)
  moreover have "5 * ((153 * mp + 2) div 5) \<le> 153 * mp + 2" "153 * mp + 2 < 5 * ((153 * mp + 2) div 5) + 5"
    using div_le [of 5 "153 * mp + 2"] by simp_all
  ultimately show ?thesis using b m unfolding d by auto
qed

lemma parse_json_time:
  assumes "time_ok t"
  shows "parse_time (json_time t) = Some t"
proof -
  obtain y m d where c: "civil (t div 86400000000) = (y, m, d)" by (cases "civil (t div 86400000000)") auto
  define us where "us = t mod 86400000000"
  define sec where "sec = us div 1000000"
  define frac where "frac = us mod 1000000"
  have y: "1 \<le> y" "y \<le> 9999" using assms c by (simp_all add: time_ok_def)
  have r: "0 \<le> sec" "sec < 86400" "0 \<le> frac" "frac < 1000000" by (simp_all add: us_def sec_def frac_def)
  have hms: "0 \<le> sec div 3600" "sec div 3600 < 24" using r by simp_all
  have sum: "((sec div 3600 * 60 + sec div 60 mod 60) * 60 + sec mod 60) * 1000000 + frac = us"
  proof -
    have "sec div 3600 * 60 + sec div 60 mod 60 = sec div 60"
      using mult_div_mod_eq [of 60 "sec div 60"] by (simp add: zdiv_zmult2_eq [symmetric] mult.commute)
    then show ?thesis by (simp add: sec_def frac_def mult.commute)
  qed
  have days: "days_of y m d = t div 86400000000" using days_of_civil [OF c] .
  have whole: "days_of y m d * 86400000000 + us = t" by (simp add: days us_def mult.commute)
  define z where "z = (if frac = 0 then '''' else ''.'' @ zfill 6 (dec frac)) @ ''Z''"
  have z: "read_fraction z = Some (frac, ''Z'')"
    using r read_digits_zfill [of frac 6 "''Z''"] by (auto simp: z_def read_fraction_def nat_less_iff)
  have md: "0 \<le> m" "nat m < 10 ^ 2" "0 \<le> d" "nat d < 10 ^ 2" using civil_month_day [OF c] by (auto simp: nat_less_iff)
  have digits: "read_digits 4 (zfill 4 (dec y) @ q) = Some (y, q)" "read_digits 2 (zfill 2 (dec m) @ q) = Some (m, q)"
    "read_digits 2 (zfill 2 (dec d) @ q) = Some (d, q)"
    "read_digits 2 (zfill 2 (dec (sec div 3600)) @ q) = Some (sec div 3600, q)"
    "read_digits 2 (zfill 2 (dec (sec div 60 mod 60)) @ q) = Some (sec div 60 mod 60, q)"
    "read_digits 2 (zfill 2 (dec (sec mod 60)) @ q) = Some (sec mod 60, q)" for q
    using y md hms by (auto intro!: read_digits_zfill simp: nat_less_iff)
  have "parse_time (json_time t) = Some (days_of y m d * 86400000000
      + ((sec div 3600 * 60 + sec div 60 mod 60) * 60 + sec mod 60) * 1000000 + frac)"
    unfolding json_time_eq [OF c] parse_time_def Let_def us_def [symmetric] sec_def [symmetric] frac_def [symmetric]
      z_def [symmetric]
    using z y hms by (simp add: digits days c)
  then show ?thesis using sum whole by (simp add: add.assoc)
qed


subsection \<open>Fields\<close>

named_theorems parse_simps \<open>reading a dumped value back\<close>

text \<open>A required field, and one with a default.\<close>

definition needed :: "string \<Rightarrow> (json \<Rightarrow> 'a option) \<Rightarrow> members \<Rightarrow> 'a option" where
  "needed k p kvs = (case map_of kvs k of None \<Rightarrow> None | Some v \<Rightarrow> p v)"

definition defaulted :: "string \<Rightarrow> 'a \<Rightarrow> (json \<Rightarrow> 'a option) \<Rightarrow> members \<Rightarrow> 'a option" where
  "defaulted k d p kvs = (case map_of kvs k of None \<Rightarrow> Some d | Some v \<Rightarrow> p v)"

text \<open>\<open>parse_text\<close> strips; a field whose constraint does not strip is read by \<open>parse_str\<close>.\<close>

definition parse_str :: "json \<Rightarrow> string option" where
  "parse_str j = (case j of JStr s \<Rightarrow> Some s | _ \<Rightarrow> None)"

definition parse_text :: "json \<Rightarrow> string option" where
  "parse_text j = map_option strip (parse_str j)"

definition parse_stamp :: "json \<Rightarrow> datetime option" where
  "parse_stamp j = Option.bind (parse_str j) parse_time"

definition parse_opt :: "(json \<Rightarrow> 'a option) \<Rightarrow> json \<Rightarrow> 'a option option" where
  "parse_opt p j = (if j = JNull then Some None else map_option Some (p j))"

definition parse_list :: "(json \<Rightarrow> 'a option) \<Rightarrow> json \<Rightarrow> 'a list option" where
  "parse_list p j = (case j of JList xs \<Rightarrow> those (map p xs) | _ \<Rightarrow> None)"

definition parse_enum :: "('a \<Rightarrow> string) \<Rightarrow> 'a list \<Rightarrow> json \<Rightarrow> 'a option" where
  "parse_enum value values j = Option.bind (parse_str j) (\<lambda>s. find (\<lambda>x. value x = s) values)"

text \<open>\<^verbatim>\<open>StrictModel\<close>: an object with known fields only, then the validators of the model.\<close>

definition parse_model :: "string list \<Rightarrow> (members \<Rightarrow> 'a option) \<Rightarrow> ('a \<Rightarrow> bool) \<Rightarrow> json \<Rightarrow> 'a option" where
  "parse_model names p valid j = (case j of
     JObj kvs \<Rightarrow> if list_all (\<lambda>kv. fst kv \<in> set names) kvs
       then Option.bind (p kvs) (\<lambda>x. if valid x then Some x else None) else None
   | _ \<Rightarrow> None)"

lemma parse_model_dump:
  assumes "list_all (\<lambda>kv. fst kv \<in> set names) kvs" and "p kvs = Some x" and "valid x"
  shows "parse_model names p valid (JObj kvs) = Some x"
  using assms by (simp add: parse_model_def)

lemma parse_model_valid: "parse_model names p valid j = Some x \<Longrightarrow> valid x"
  by (auto simp: parse_model_def split: json.splits if_splits bind_splits)

lemma needed_simps [parse_simps]:
  "needed k p ((k, v) # kvs) = p v" "k \<noteq> k' \<Longrightarrow> needed k p ((k', v) # kvs) = needed k p kvs"
  by (simp_all add: needed_def)

lemma defaulted_simps [parse_simps]:
  "defaulted k d p ((k, v) # kvs) = p v" "k \<noteq> k' \<Longrightarrow> defaulted k d p ((k', v) # kvs) = defaulted k d p kvs"
  by (simp_all add: defaulted_def)

lemma parse_str_JStr [parse_simps]: "parse_str (JStr s) = Some s"
  by (simp add: parse_str_def)

lemma parse_text_JStr [parse_simps]: "text_ok lo hi s \<Longrightarrow> parse_text (JStr s) = Some s"
  by (simp add: parse_text_def parse_simps text_ok_def)

lemma parse_opt_null [parse_simps]: "parse_opt p JNull = Some None"
  by (simp add: parse_opt_def)

lemma parse_opt_dump [parse_simps]:
  assumes "\<And>v. x = Some v \<Longrightarrow> p (f v) = Some v \<and> f v \<noteq> JNull"
  shows "parse_opt p (j_opt f x) = Some x"
  using assms by (cases x) (auto simp: parse_opt_def)

lemma those_map_Some: "(\<And>x. x \<in> set xs \<Longrightarrow> p (f x) = Some x) \<Longrightarrow> those (map p (map f xs)) = Some xs"
  by (induction xs) auto

lemma parse_list_dump:
  "(\<And>x. x \<in> set xs \<Longrightarrow> p (f x) = Some x) \<Longrightarrow> parse_list p (JList (map f xs)) = Some xs"
  using those_map_Some [of xs p f] by (simp add: parse_list_def)

lemma parse_jtext: "opt_all (text_ok lo hi) x \<Longrightarrow> parse_opt parse_text (jtext x) = Some x"
  unfolding jtext_def by (rule parse_opt_dump) (auto simp: parse_text_def parse_str_def text_ok_def)

lemma parse_jtexts: "list_all (text_ok lo hi) xs \<Longrightarrow> parse_list parse_text (jtexts xs) = Some xs"
  unfolding jtexts_def by (rule parse_list_dump) (auto simp: list_all_iff parse_text_JStr)

lemma parse_jtime: "opt_all time_ok x \<Longrightarrow> parse_opt parse_stamp (jtime x) = Some x"
  unfolding jtime_def by (rule parse_opt_dump) (auto simp: parse_stamp_def parse_str_def parse_json_time)

lemma parse_enum_dump:
  "find (\<lambda>y. value y = value x) values = Some x \<Longrightarrow> parse_enum value values (JStr (value x)) = Some x"
  by (simp add: parse_enum_def parse_simps)

subsection \<open>Enumerations\<close>

definition parse_knowledge :: "json \<Rightarrow> knowledge_state option" where
  "parse_knowledge = parse_enum knowledge_value [Known, Partial, KnowUnknown, NotApplicable, Conflicting]"

definition parse_confidence :: "json \<Rightarrow> confidence option" where
  "parse_confidence = parse_enum confidence_value [ConfLow, ConfMedium, ConfMediumHigh, ConfHigh]"

definition parse_confirmation :: "json \<Rightarrow> confirmation option" where
  "parse_confirmation = parse_enum confirmation_value [EvidenceBacked, Inferred, UnknownConfirmation]"

definition parse_evidence_type :: "json \<Rightarrow> evidence_type option" where
  "parse_evidence_type = parse_enum evidence_type_value [Transcript, OpportunityMetadata]"

definition parse_dimension_key :: "json \<Rightarrow> dimension_key option" where
  "parse_dimension_key = parse_enum dimension_value dimension_keys"

definition parse_health_key :: "json \<Rightarrow> health_key option" where
  "parse_health_key = parse_enum health_key_value health_keys"

definition parse_health_status :: "json \<Rightarrow> health_status option" where
  "parse_health_status = parse_enum health_status_value [Strong, Moderate, Weak, HBlocked,
     InsufficientEvidence, Comfortable, Tight, AtRisk, HUnknown, Positive, Mixed, Negative]"

definition parse_severity :: "json \<Rightarrow> risk_severity option" where
  "parse_severity = parse_enum severity_value [SevLow, SevMedium, SevHigh, SevCritical]"

definition parse_risk_class :: "json \<Rightarrow> risk_class option" where
  "parse_risk_class = parse_enum risk_class_value [CriticalBlocker, ImplementationRisk, CommercialRisk,
     TimelineRisk, OpenValidationItem]"

definition parse_recommended_status :: "json \<Rightarrow> recommended_status option" where
  "parse_recommended_status = parse_enum recommended_status_value [NotStarted, InProgress, RBlocked, Done]"

definition parse_category :: "json \<Rightarrow> stakeholder_category option" where
  "parse_category = parse_enum category_value [SChampion, SEconomicBuyer, TechnicalDecisionMaker,
     SecurityApprover, Procurement, EndUser, OtherCategory]"

definition parse_influence :: "json \<Rightarrow> influence option" where
  "parse_influence = parse_enum influence_value [InfHigh, InfMedium, InfLow, InfUnknown]"

definition parse_engagement :: "json \<Rightarrow> engagement option" where
  "parse_engagement = parse_enum engagement_value [EngActive, EngEngaged, EngLimited, EngUnengaged, EngUnknown]"

definition parse_stance :: "json \<Rightarrow> stance option" where
  "parse_stance = parse_enum stance_value [Supportive, Neutral, Skeptical, Opposed, StanceUnknown]"

definition parse_blocker :: "json \<Rightarrow> blocker_status option" where
  "parse_blocker = parse_enum blocker_value [NotABlocker, PotentialBlocker, ActiveBlocker, BlockerUnknown]"

lemma parse_enums [parse_simps]:
  "parse_knowledge (JStr (knowledge_value k)) = Some k"
  "parse_confidence (JStr (confidence_value c)) = Some c"
  "parse_confirmation (JStr (confirmation_value m)) = Some m"
  "parse_evidence_type (JStr (evidence_type_value t)) = Some t"
  "parse_dimension_key (JStr (dimension_value d)) = Some d"
  "parse_health_key (JStr (health_key_value hk)) = Some hk"
  "parse_health_status (JStr (health_status_value hs)) = Some hs"
  "parse_severity (JStr (severity_value sv)) = Some sv"
  "parse_risk_class (JStr (risk_class_value rc)) = Some rc"
  "parse_recommended_status (JStr (recommended_status_value rs)) = Some rs"
  "parse_category (JStr (category_value cat)) = Some cat"
  "parse_influence (JStr (influence_value il)) = Some il"
  "parse_engagement (JStr (engagement_value eng)) = Some eng"
  "parse_stance (JStr (stance_value st)) = Some st"
  "parse_blocker (JStr (blocker_value bl)) = Some bl"
  subgoal by (cases k) (simp_all add: parse_knowledge_def parse_enum_def parse_str_def)
  subgoal by (cases c) (simp_all add: parse_confidence_def parse_enum_def parse_str_def)
  subgoal by (cases m) (simp_all add: parse_confirmation_def parse_enum_def parse_str_def)
  subgoal by (cases t) (simp_all add: parse_evidence_type_def parse_enum_def parse_str_def)
  subgoal by (cases d) (simp_all add: parse_dimension_key_def parse_enum_def parse_str_def dimension_keys_def)
  subgoal by (cases hk) (simp_all add: parse_health_key_def parse_enum_def parse_str_def health_keys_def)
  subgoal by (cases hs) (simp_all add: parse_health_status_def parse_enum_def parse_str_def)
  subgoal by (cases sv) (simp_all add: parse_severity_def parse_enum_def parse_str_def)
  subgoal by (cases rc) (simp_all add: parse_risk_class_def parse_enum_def parse_str_def)
  subgoal by (cases rs) (simp_all add: parse_recommended_status_def parse_enum_def parse_str_def)
  subgoal by (cases cat) (simp_all add: parse_category_def parse_enum_def parse_str_def)
  subgoal by (cases il) (simp_all add: parse_influence_def parse_enum_def parse_str_def)
  subgoal by (cases eng) (simp_all add: parse_engagement_def parse_enum_def parse_str_def)
  subgoal by (cases st) (simp_all add: parse_stance_def parse_enum_def parse_str_def)
  subgoal by (cases bl) (simp_all add: parse_blocker_def parse_enum_def parse_str_def)
  done

subsection \<open>Models\<close>

definition parse_evidence_ref :: "json \<Rightarrow> evidence_ref option" where
  "parse_evidence_ref = parse_model [''source_type'', ''source_id'', ''locator''] (\<lambda>f. do {
     t \<leftarrow> needed ''source_type'' parse_evidence_type f;
     i \<leftarrow> needed ''source_id'' parse_text f;
     l \<leftarrow> defaulted ''locator'' None (parse_opt parse_text) f;
     Some \<lparr>evr_type = t, evr_id = i, evr_locator = l\<rparr>}) valid_evidence_ref"

definition parse_claim :: "json \<Rightarrow> claim option" where
  "parse_claim = parse_model [''knowledge_state'', ''value'', ''confidence'', ''confirmation'',
      ''last_confirmed_at'', ''evidence_refs''] (\<lambda>f. do {
     k \<leftarrow> needed ''knowledge_state'' parse_knowledge f;
     v \<leftarrow> defaulted ''value'' None (parse_opt parse_text) f;
     c \<leftarrow> needed ''confidence'' parse_confidence f;
     m \<leftarrow> needed ''confirmation'' parse_confirmation f;
     t \<leftarrow> defaulted ''last_confirmed_at'' None (parse_opt parse_stamp) f;
     rs \<leftarrow> defaulted ''evidence_refs'' [] (parse_list parse_evidence_ref) f;
     Some \<lparr>cl_knowledge = k, cl_value = v, cl_confidence = c, cl_confirmation = m,
       cl_last_confirmed_at = t, cl_refs = rs\<rparr>}) valid_claim"

definition parse_area :: "json \<Rightarrow> case_area option" where
  "parse_area = parse_model [''knowledge'', ''missing_information'', ''points''] (\<lambda>f. do {
     k \<leftarrow> needed ''knowledge'' parse_claim f;
     ms \<leftarrow> needed ''missing_information'' (parse_list parse_text) f;
     ps \<leftarrow> defaulted ''points'' [] (parse_list parse_text) f;
     Some \<lparr>ba_knowledge = k, ba_missing = ms, ba_points = ps\<rparr>}) valid_area"

definition parse_business_case :: "json \<Rightarrow> business_case option" where
  "parse_business_case = parse_model [''current_state'', ''future_state'', ''negative_consequences'',
      ''positive_business_outcomes''] (\<lambda>f. do {
     a \<leftarrow> needed ''current_state'' parse_area f;
     b \<leftarrow> needed ''future_state'' parse_area f;
     c \<leftarrow> needed ''negative_consequences'' parse_area f;
     d \<leftarrow> needed ''positive_business_outcomes'' parse_area f;
     Some \<lparr>bc_current_state = a, bc_future_state = b, bc_negative_consequences = c,
       bc_positive_business_outcomes = d\<rparr>}) valid_business_case"

definition parse_dimension :: "json \<Rightarrow> dimension option" where
  "parse_dimension = parse_model [''key'', ''knowledge'', ''missing_information'', ''suggested_discovery'']
    (\<lambda>f. do {
     d \<leftarrow> needed ''key'' parse_dimension_key f;
     k \<leftarrow> needed ''knowledge'' parse_claim f;
     ms \<leftarrow> needed ''missing_information'' (parse_list parse_text) f;
     ds \<leftarrow> needed ''suggested_discovery'' (parse_list parse_text) f;
     Some \<lparr>md_key = d, md_knowledge = k, md_missing = ms, md_discovery = ds\<rparr>}) valid_dimension"

definition parse_meddpicc :: "json \<Rightarrow> meddpicc option" where
  "parse_meddpicc = parse_model [''dimensions''] (\<lambda>f. do {
     ds \<leftarrow> needed ''dimensions'' (parse_list parse_dimension) f;
     Some \<lparr>mp_dimensions = ds\<rparr>}) valid_meddpicc"

definition parse_brief :: "json \<Rightarrow> brief option" where
  "parse_brief = parse_model [''customer_objective'', ''why_airbyte'', ''current_status'',
      ''path_to_decision'', ''immediate_priority''] (\<lambda>f. do {
     a \<leftarrow> needed ''customer_objective'' parse_claim f;
     b \<leftarrow> needed ''why_airbyte'' parse_claim f;
     c \<leftarrow> needed ''current_status'' parse_claim f;
     d \<leftarrow> needed ''path_to_decision'' parse_claim f;
     e \<leftarrow> needed ''immediate_priority'' parse_claim f;
     Some \<lparr>br_customer_objective = a, br_why_airbyte = b, br_current_status = c,
       br_path_to_decision = d, br_immediate_priority = e\<rparr>}) valid_brief"

definition parse_indicator :: "json \<Rightarrow> indicator option" where
  "parse_indicator = parse_model [''key'', ''status'', ''reason'', ''confidence'', ''confirmation'',
      ''last_confirmed_at'', ''evidence_refs''] (\<lambda>f. do {
     k \<leftarrow> needed ''key'' parse_health_key f;
     s \<leftarrow> needed ''status'' parse_health_status f;
     r \<leftarrow> needed ''reason'' parse_text f;
     c \<leftarrow> needed ''confidence'' parse_confidence f;
     m \<leftarrow> needed ''confirmation'' parse_confirmation f;
     t \<leftarrow> defaulted ''last_confirmed_at'' None (parse_opt parse_stamp) f;
     rs \<leftarrow> defaulted ''evidence_refs'' [] (parse_list parse_evidence_ref) f;
     Some \<lparr>hi_key = k, hi_status = s, hi_reason = r, hi_confidence = c, hi_confirmation = m,
       hi_last_confirmed_at = t, hi_refs = rs\<rparr>}) valid_indicator"

definition parse_risk :: "json \<Rightarrow> risk option" where
  "parse_risk = parse_model [''key'', ''title'', ''description'', ''severity'', ''classification'',
      ''owner'', ''mitigation'', ''last_updated_at'', ''evidence_refs''] (\<lambda>f. do {
     k \<leftarrow> needed ''key'' parse_text f;
     ti \<leftarrow> needed ''title'' parse_text f;
     d \<leftarrow> needed ''description'' parse_text f;
     s \<leftarrow> needed ''severity'' parse_severity f;
     c \<leftarrow> needed ''classification'' parse_risk_class f;
     ow \<leftarrow> defaulted ''owner'' None (parse_opt parse_text) f;
     mi \<leftarrow> defaulted ''mitigation'' None (parse_opt parse_text) f;
     t \<leftarrow> defaulted ''last_updated_at'' None (parse_opt parse_stamp) f;
     rs \<leftarrow> defaulted ''evidence_refs'' [] (parse_list parse_evidence_ref) f;
     Some \<lparr>rk_key = k, rk_title = ti, rk_description = d, rk_severity = s, rk_class = c, rk_owner = ow,
       rk_mitigation = mi, rk_last_updated_at = t, rk_refs = rs\<rparr>}) valid_risk"

definition parse_recommended :: "json \<Rightarrow> recommended option" where
  "parse_recommended = parse_model [''key'', ''action'', ''goal'', ''definition_of_done'', ''owner'',
      ''due_date'', ''status'', ''related_item_key'', ''evidence_refs''] (\<lambda>f. do {
     k \<leftarrow> needed ''key'' parse_text f;
     a \<leftarrow> needed ''action'' parse_text f;
     g \<leftarrow> needed ''goal'' parse_text f;
     d \<leftarrow> needed ''definition_of_done'' parse_text f;
     ow \<leftarrow> defaulted ''owner'' None (parse_opt parse_text) f;
     due \<leftarrow> defaulted ''due_date'' None (parse_opt parse_str) f;
     s \<leftarrow> needed ''status'' parse_recommended_status f;
     ri \<leftarrow> defaulted ''related_item_key'' None (parse_opt parse_text) f;
     rs \<leftarrow> defaulted ''evidence_refs'' [] (parse_list parse_evidence_ref) f;
     Some \<lparr>ra_key = k, ra_action = a, ra_goal = g, ra_definition_of_done = d, ra_owner = ow,
       ra_due_date = due, ra_status = s, ra_related_item_key = ri, ra_refs = rs\<rparr>}) valid_recommended"

definition parse_missing :: "json \<Rightarrow> missing_info option" where
  "parse_missing = parse_model [''key'', ''description'', ''category'', ''evidence_refs''] (\<lambda>f. do {
     k \<leftarrow> needed ''key'' parse_text f;
     d \<leftarrow> needed ''description'' parse_text f;
     c \<leftarrow> needed ''category'' parse_text f;
     rs \<leftarrow> defaulted ''evidence_refs'' [] (parse_list parse_evidence_ref) f;
     Some \<lparr>mi_key = k, mi_description = d, mi_category = c, mi_refs = rs\<rparr>}) valid_missing"

definition parse_stakeholder :: "json \<Rightarrow> stakeholder option" where
  "parse_stakeholder = parse_model [''key'', ''name'', ''title_or_role'', ''category'', ''influence'',
      ''engagement'', ''stance'', ''blocker_status'', ''blocker_reason'', ''recommended_next_step'',
      ''evidence_refs'', ''missing_information''] (\<lambda>f. do {
     k \<leftarrow> needed ''key'' parse_text f;
     n \<leftarrow> needed ''name'' parse_text f;
     ti \<leftarrow> defaulted ''title_or_role'' None (parse_opt parse_text) f;
     c \<leftarrow> needed ''category'' parse_category f;
     il \<leftarrow> needed ''influence'' parse_influence f;
     en \<leftarrow> needed ''engagement'' parse_engagement f;
     s \<leftarrow> needed ''stance'' parse_stance f;
     b \<leftarrow> needed ''blocker_status'' parse_blocker f;
     br \<leftarrow> defaulted ''blocker_reason'' None (parse_opt parse_text) f;
     ns \<leftarrow> defaulted ''recommended_next_step'' None (parse_opt parse_text) f;
     rs \<leftarrow> needed ''evidence_refs'' (parse_list parse_evidence_ref) f;
     ms \<leftarrow> defaulted ''missing_information'' [] (parse_list parse_text) f;
     Some \<lparr>sh_key = k, sh_name = n, sh_title_or_role = ti, sh_category = c, sh_influence = il,
       sh_engagement = en, sh_stance = s, sh_blocker_status = b, sh_blocker_reason = br, sh_next_step = ns,
       sh_refs = rs, sh_missing = ms\<rparr>}) valid_stakeholder"

definition parse_stakeholder_map :: "json \<Rightarrow> stakeholder_map option" where
  "parse_stakeholder_map = parse_model [''stakeholders'', ''missing_key_roles'', ''missing_information'']
    (\<lambda>f. do {
     ss \<leftarrow> defaulted ''stakeholders'' [] (parse_list parse_stakeholder) f;
     rs \<leftarrow> needed ''missing_key_roles'' (parse_list parse_category) f;
     ms \<leftarrow> defaulted ''missing_information'' [] (parse_list parse_text) f;
     Some \<lparr>smap_stakeholders = ss, smap_missing_roles = rs, smap_missing = ms\<rparr>}) valid_stakeholder_map"

text \<open>
  \<^verbatim>\<open>OpportunityStateCandidate\<close>: \<^verbatim>\<open>upgrade_legacy_candidate\<close> gives the parts a file of an earlier
  schema lacks their legacy values, so they are fields with a default.
\<close>

definition parse_schema_version :: "json \<Rightarrow> unit option" where
  "parse_schema_version j = (if j = JInt 1 then Some () else None)"

definition parse_candidate :: "json \<Rightarrow> candidate option" where
  "parse_candidate = parse_model [''schema_version'', ''brief'', ''business_case'', ''meddpicc'',
      ''stakeholders'', ''health_indicators'', ''risks'', ''recommended_actions'', ''missing_information'']
    (\<lambda>f. do {
     needed ''schema_version'' parse_schema_version f;
     b \<leftarrow> needed ''brief'' parse_brief f;
     bc \<leftarrow> defaulted ''business_case'' legacy_business_case parse_business_case f;
     mp \<leftarrow> defaulted ''meddpicc'' legacy_meddpicc parse_meddpicc f;
     sm \<leftarrow> defaulted ''stakeholders'' legacy_stakeholder_map parse_stakeholder_map f;
     hs \<leftarrow> needed ''health_indicators'' (parse_list parse_indicator) f;
     rs \<leftarrow> defaulted ''risks'' [] (parse_list parse_risk) f;
     as \<leftarrow> defaulted ''recommended_actions'' [] (parse_list parse_recommended) f;
     ms \<leftarrow> defaulted ''missing_information'' [] (parse_list parse_missing) f;
     Some \<lparr>cd_brief = b, cd_business_case = bc, cd_meddpicc = mp, cd_stakeholders = sm, cd_health = hs,
       cd_risks = rs, cd_actions = as, cd_missing = ms\<rparr>}) valid_candidate_state"

subsection \<open>The dump is read back\<close>

text \<open>The timestamps of a candidate are \<^verbatim>\<open>datetime\<close> objects, so their years have four digits.\<close>

definition claims_of :: "candidate \<Rightarrow> claim list" where
  "claims_of c = map snd (brief_claims (cd_brief c))
     @ map (\<lambda>x. ba_knowledge (snd x)) (case_areas (cd_business_case c))
     @ map md_knowledge (mp_dimensions (cd_meddpicc c))"

definition candidate_times_ok :: "candidate \<Rightarrow> bool" where
  "candidate_times_ok c \<longleftrightarrow> list_all (\<lambda>x. opt_all time_ok (cl_last_confirmed_at x)) (claims_of c)
     \<and> list_all (\<lambda>h. opt_all time_ok (hi_last_confirmed_at h)) (cd_health c)
     \<and> list_all (\<lambda>r. opt_all time_ok (rk_last_updated_at r)) (cd_risks c)"

lemma stable_key_strip:
  assumes "stable_key s"
  shows "strip s = s"
proof -
  have "list_all key_char s" using assms by (cases s) (auto simp: stable_key_def in_len_def key_char_def)
  then have "\<forall>c \<in> set s. \<not> is_space c"
    by (auto simp: list_all_iff key_char_def is_space_def is_lower_def is_digit_def)
  then have "dropWhile is_space s = s" "dropWhile is_space (rev s) = rev s"
    by (metis dropWhile_id hd_in_set, metis dropWhile_id hd_in_set set_rev)
  then show ?thesis by (simp add: strip_def)
qed

lemma parse_needed_text [parse_simps]:
  "state_short_text s \<Longrightarrow> parse_text (JStr s) = Some s" "long_text s \<Longrightarrow> parse_text (JStr s) = Some s"
  "stable_key s \<Longrightarrow> parse_text (JStr s) = Some s"
  subgoal by (simp add: state_short_text_def parse_text_JStr)
  subgoal by (simp add: long_text_def parse_text_JStr)
  subgoal by (simp add: parse_text_def parse_str_def stable_key_strip)
  done

lemma parse_optional_text [parse_simps]:
  "opt_all state_short_text x \<Longrightarrow> parse_opt parse_text (jtext x) = Some x"
  "opt_all long_text x \<Longrightarrow> parse_opt parse_text (jtext x) = Some x"
  "opt_all stable_key x \<Longrightarrow> parse_opt parse_text (jtext x) = Some x"
  "parse_opt parse_str (jtext x) = Some x"
  unfolding jtext_def by (rule parse_opt_dump; auto simp: parse_simps)+

lemma parse_text_list [parse_simps]:
  "list_all long_text xs \<Longrightarrow> parse_list parse_text (jtexts xs) = Some xs"
  "list_all state_short_text xs \<Longrightarrow> parse_list parse_text (jtexts xs) = Some xs"
  unfolding jtexts_def by (rule parse_list_dump; auto simp: list_all_iff parse_simps)+

lemma parse_evidence_ref_dump:
  assumes "valid_evidence_ref r"
  shows "parse_evidence_ref (evidence_ref_json r) = Some r"
  unfolding parse_evidence_ref_def evidence_ref_json_def
  by (rule parse_model_dump)
    (use assms in \<open>simp_all add: parse_simps parse_jtext [of 1 200] parse_text_JStr [of 8 160] valid_evidence_ref_def\<close>)

lemma parse_jrefs [parse_simps]:
  "list_all valid_evidence_ref rs \<Longrightarrow> parse_list parse_evidence_ref (jrefs rs) = Some rs"
  unfolding jrefs_def by (rule parse_list_dump) (simp add: list_all_iff parse_evidence_ref_dump)

lemma parse_claim_dump:
  assumes "valid_claim c" and "opt_all time_ok (cl_last_confirmed_at c)"
  shows "parse_claim (JObj (claim_members c)) = Some c"
  unfolding parse_claim_def claim_members_def
  by (rule parse_model_dump)
    (use assms in \<open>simp_all add: parse_simps parse_jtime parse_jtext [of 1 2000] valid_claim_def\<close>)

lemma parse_area_dump:
  assumes "valid_area a" and "opt_all time_ok (cl_last_confirmed_at (ba_knowledge a))"
  shows "parse_area (JObj (area_members a)) = Some a"
  unfolding parse_area_def area_members_def
  by (rule parse_model_dump) (use assms in \<open>simp_all add: parse_simps parse_claim_dump valid_area_def\<close>)

lemma parse_dimension_dump:
  assumes "valid_dimension d" and "opt_all time_ok (cl_last_confirmed_at (md_knowledge d))"
  shows "parse_dimension (JObj (dimension_members d)) = Some d"
  unfolding parse_dimension_def dimension_members_def
  by (rule parse_model_dump) (use assms in \<open>simp_all add: parse_simps parse_claim_dump valid_dimension_def\<close>)

lemma parse_indicator_dump:
  assumes "valid_indicator h" and "opt_all time_ok (hi_last_confirmed_at h)"
  shows "parse_indicator (JObj (indicator_members h)) = Some h"
  unfolding parse_indicator_def indicator_members_def
  by (rule parse_model_dump) (use assms in \<open>simp_all add: parse_simps parse_jtime valid_indicator_def\<close>)

lemma parse_risk_dump:
  assumes "valid_risk r" and "opt_all time_ok (rk_last_updated_at r)"
  shows "parse_risk (JObj (risk_members r)) = Some r"
  unfolding parse_risk_def risk_members_def
  by (rule parse_model_dump) (use assms in \<open>simp_all add: parse_simps parse_jtime valid_risk_def\<close>)

lemma parse_recommended_dump:
  assumes "valid_recommended r"
  shows "parse_recommended (JObj (recommended_members r)) = Some r"
  unfolding parse_recommended_def recommended_members_def
  by (rule parse_model_dump) (use assms in \<open>simp_all add: parse_simps valid_recommended_def\<close>)

lemma parse_missing_dump:
  assumes "valid_missing m"
  shows "parse_missing (JObj (missing_members m)) = Some m"
  unfolding parse_missing_def missing_members_def
  by (rule parse_model_dump)
    (use assms in \<open>simp_all add: parse_simps parse_text_JStr [of 1 80] valid_missing_def\<close>)

lemma parse_stakeholder_dump:
  assumes "valid_stakeholder s"
  shows "parse_stakeholder (JObj (stakeholder_members s)) = Some s"
  unfolding parse_stakeholder_def stakeholder_members_def
  by (rule parse_model_dump) (use assms in \<open>simp_all add: parse_simps valid_stakeholder_def\<close>)

lemma parse_areas_dump:
  assumes "valid_business_case b" and "\<forall>a \<in> snd ` set (case_areas b). opt_all time_ok (cl_last_confirmed_at (ba_knowledge a))"
  shows "parse_business_case (JObj (map (\<lambda>(k, x). (k, JObj (area_members x))) (case_areas b))) = Some b"
  unfolding parse_business_case_def case_areas_def
  by (simp, rule parse_model_dump)
    (use assms in \<open>simp_all add: parse_simps parse_area_dump valid_business_case_def case_areas_def\<close>)

lemma parse_brief_dump:
  assumes "valid_brief b" and "\<forall>c \<in> snd ` set (brief_claims b). opt_all time_ok (cl_last_confirmed_at c)"
  shows "parse_brief (JObj (map (\<lambda>(k, x). (k, JObj (claim_members x))) (brief_claims b))) = Some b"
  unfolding parse_brief_def brief_claims_def
  by (simp, rule parse_model_dump)
    (use assms in \<open>simp_all add: parse_simps parse_claim_dump valid_brief_def brief_claims_def\<close>)

lemma parse_meddpicc_dump:
  assumes "valid_meddpicc m" and "\<forall>d \<in> set (mp_dimensions m). opt_all time_ok (cl_last_confirmed_at (md_knowledge d))"
  shows "parse_meddpicc (JObj [(''dimensions'', JList (map (\<lambda>d. JObj (dimension_members d)) (mp_dimensions m)))]) = Some m"
proof -
  have "parse_list parse_dimension (JList (map (\<lambda>d. JObj (dimension_members d)) (mp_dimensions m))) = Some (mp_dimensions m)"
    using assms by (intro parse_list_dump parse_dimension_dump) (auto simp: valid_meddpicc_def list_all_iff)
  with assms(1) show ?thesis
    unfolding parse_meddpicc_def by (intro parse_model_dump) (simp_all add: parse_simps)
qed

lemma parse_stakeholder_map_dump:
  assumes "valid_stakeholder_map m"
  shows "parse_stakeholder_map (JObj [
      (''stakeholders'', JList (map (\<lambda>s. JObj (stakeholder_members s)) (smap_stakeholders m))),
      (''missing_key_roles'', JList (map (\<lambda>r. JStr (category_value r)) (smap_missing_roles m))),
      (''missing_information'', jtexts (smap_missing m))]) = Some m"
proof -
  have "parse_list parse_stakeholder (JList (map (\<lambda>s. JObj (stakeholder_members s)) (smap_stakeholders m)))
      = Some (smap_stakeholders m)"
    using assms by (intro parse_list_dump parse_stakeholder_dump) (simp add: valid_stakeholder_map_def list_all_iff)
  moreover have "parse_list parse_category (JList (map (\<lambda>r. JStr (category_value r)) (smap_missing_roles m)))
      = Some (smap_missing_roles m)"
    by (intro parse_list_dump) (simp add: parse_simps)
  ultimately show ?thesis
    using assms unfolding parse_stakeholder_map_def
    by (intro parse_model_dump) (simp_all add: parse_simps valid_stakeholder_map_def)
qed

lemma candidate_times_parts:
  assumes "candidate_times_ok c"
  shows "\<forall>x \<in> snd ` set (brief_claims (cd_brief c)). opt_all time_ok (cl_last_confirmed_at x)"
    and "\<forall>a \<in> snd ` set (case_areas (cd_business_case c)). opt_all time_ok (cl_last_confirmed_at (ba_knowledge a))"
    and "\<forall>d \<in> set (mp_dimensions (cd_meddpicc c)). opt_all time_ok (cl_last_confirmed_at (md_knowledge d))"
    and "\<forall>h \<in> set (cd_health c). opt_all time_ok (hi_last_confirmed_at h)"
    and "\<forall>r \<in> set (cd_risks c). opt_all time_ok (rk_last_updated_at r)"
  using assms by (auto simp: candidate_times_ok_def claims_of_def list_all_iff)

lemma parse_candidate_json:
  assumes "valid_candidate_state c" and "candidate_times_ok c"
  shows "parse_candidate (candidate_json c) = Some c"
proof -
  note v = assms(1) [unfolded valid_candidate_state_def]
  note t = candidate_times_parts [OF assms(2)]
  have "parse_list parse_indicator (JList (map (\<lambda>h. JObj (indicator_members h)) (cd_health c))) = Some (cd_health c)"
    using v t(4) by (intro parse_list_dump parse_indicator_dump) (auto simp: list_all_iff)
  moreover have "parse_list parse_risk (JList (map (\<lambda>r. JObj (risk_members r)) (cd_risks c))) = Some (cd_risks c)"
    using v t(5) by (intro parse_list_dump parse_risk_dump) (auto simp: list_all_iff)
  moreover have "parse_list parse_recommended (JList (map (\<lambda>r. JObj (recommended_members r)) (cd_actions c))) = Some (cd_actions c)"
    using v by (intro parse_list_dump parse_recommended_dump) (auto simp: list_all_iff)
  moreover have "parse_list parse_missing (JList (map (\<lambda>m. JObj (missing_members m)) (cd_missing c))) = Some (cd_missing c)"
    using v by (intro parse_list_dump parse_missing_dump) (auto simp: list_all_iff)
  moreover have "parse_schema_version (JInt 1) = Some ()" by (simp add: parse_schema_version_def)
  ultimately show ?thesis
    unfolding parse_candidate_def candidate_json_def
    using v parse_brief_dump [OF _ t(1)] parse_areas_dump [OF _ t(2)] parse_meddpicc_dump [OF _ t(3)]
      parse_stakeholder_map_dump assms(1)
    by (intro parse_model_dump) (simp_all add: parse_simps)
qed

end
