(* ===== verification/Gmail_Adapter.thy ===== *)
theory Gmail_Adapter
  imports Overview_Parse
begin

section \<open>The Gmail adapter\<close>

text \<open>
  \<^verbatim>\<open>webapp/integrations/gmail.py\<close>: the payload contract of a message, the removal of quoted text and
  the normalization of a payload into the shape the ledger records.  The transport that fetches
  payloads is a protocol; what it returns is an argument here.  \<open>stamp\<close> is pydantic's reading of a
  \<^verbatim>\<open>datetime\<close> field.  Prefix \<open>gmsg_\<close>: GmailMessage.
\<close>

subsection \<open>Text\<close>

definition lower_text :: "string \<Rightarrow> string" where
  "lower_text s = map lower_char s"

text \<open>\<^verbatim>\<open>s.split(sep)\<close> with a separator of one character\<close>

fun split_at :: "char \<Rightarrow> string \<Rightarrow> string list" where
  "split_at sep [] = [[]]"
| "split_at sep (c # cs) = (if c = sep then [] # split_at sep cs
     else (case split_at sep cs of [] \<Rightarrow> [[c]] | w # ws \<Rightarrow> (c # w) # ws))"

text \<open>\<^verbatim>\<open>body.replace("\r\n", "\n")\<close>\<close>

fun unix_lines :: "string \<Rightarrow> string" where
  "unix_lines [] = []"
| "unix_lines [c] = [c]"
| "unix_lines (c # d # cs) = (if ord_c c = 13 \<and> ord_c d = 10 then d # unix_lines cs else c # unix_lines (d # cs))"

definition line_feed :: char where "line_feed = CHR 0x0A"

text \<open>\<^verbatim>\<open>email.rsplit("@", 1)[-1].lower()\<close>\<close>

definition domain_of :: "string \<Rightarrow> string" where
  "domain_of email = lower_text (last (split_at (CHR ''@'') email))"

subsection \<open>Quoted replies\<close>

definition endswith :: "string \<Rightarrow> string \<Rightarrow> bool" where
  "endswith s p \<longleftrightarrow> startswith (rev s) (rev p)"

text \<open>The patterns are matched on stripped lines: \<^verbatim>\<open>On ... wrote:\<close> with 3 to 200 characters between.\<close>

definition quote_header :: "string \<Rightarrow> bool" where
  "quote_header s \<longleftrightarrow> startswith s ''On '' \<and> endswith s '' wrote:'' \<and> 13 \<le> length s \<and> length s \<le> 210"

definition dashes :: "string \<Rightarrow> bool" where
  "dashes s \<longleftrightarrow> 2 \<le> length s \<and> list_all (\<lambda>c. c = CHR ''-'') s"

definition forward_marker :: "string \<Rightarrow> bool" where
  "forward_marker s \<longleftrightarrow>
     (let t = lower_text s; lead = takeWhile (\<lambda>c. c = CHR ''-'') t;
          body = dropWhile is_space (dropWhile (\<lambda>c. c = CHR ''-'') t) in
      dashes lead \<and> list_ex (\<lambda>p. startswith body p \<and> dashes (dropWhile is_space (drop (length p) body)))
        [''forwarded message'', ''original message''])"

definition signature_marker :: "string \<Rightarrow> bool" where
  "signature_marker s \<longleftrightarrow> s = ''--''"

definition cut_here :: "string \<Rightarrow> bool" where
  "cut_here line = (let s = strip line in
     startswith s ''>'' \<or> quote_header s \<or> forward_marker s \<or> signature_marker s)"

definition strip_quoted_reply :: "string \<Rightarrow> string \<times> bool" where
  "strip_quoted_reply body = (let ls = split_at line_feed (unix_lines body) in
     (strip (join [line_feed] (takeWhile (\<lambda>l. \<not> cut_here l) ls)), list_ex cut_here ls))"

subsection \<open>The payload contract\<close>

definition gmail_id :: "string \<Rightarrow> bool" where
  "gmail_id s \<longleftrightarrow> in_len 8 32 s \<and> list_all is_hex s"

record gmail_address =
  ga_name :: "string option"
  ga_email :: string

definition valid_address :: "gmail_address \<Rightarrow> bool" where
  "valid_address a \<longleftrightarrow> opt_all (in_len 0 200) (ga_name a) \<and> in_len 3 320 (ga_email a)"

definition parse_gmail_address :: "json \<Rightarrow> gmail_address option" where
  "parse_gmail_address = parse_model [''name'', ''email''] (\<lambda>f. do {
     n \<leftarrow> defaulted ''name'' None (parse_opt parse_text) f;
     e \<leftarrow> needed ''email'' parse_text f;
     Some \<lparr>ga_name = n, ga_email = e\<rparr>}) valid_address"

record gmail_message =
  gmsg_id :: string
  gmsg_thread_id :: string
  gmsg_subject :: "string option"
  gmsg_from :: gmail_address
  gmsg_to :: "gmail_address list"
  gmsg_cc :: "gmail_address list"
  gmsg_date :: datetime
  gmsg_internal_date :: "datetime option"
  gmsg_message_id_header :: "string option"
  gmsg_in_reply_to :: "string option"
  gmsg_references :: "string list"
  gmsg_body_text :: "string option"
  gmsg_attachment_count :: nat
  gmsg_web_url :: "string option"

definition valid_gmail_message :: "gmail_message \<Rightarrow> bool" where
  "valid_gmail_message m \<longleftrightarrow> gmail_id (gmsg_id m) \<and> gmail_id (gmsg_thread_id m)
     \<and> opt_all (in_len 0 500) (gmsg_subject m) \<and> length (gmsg_to m) \<le> 500 \<and> length (gmsg_cc m) \<le> 500
     \<and> opt_all (in_len 0 998) (gmsg_message_id_header m) \<and> opt_all (in_len 0 998) (gmsg_in_reply_to m)
     \<and> length (gmsg_references m) \<le> 500 \<and> opt_all (in_len 0 400000) (gmsg_body_text m)
     \<and> gmsg_attachment_count m \<le> 10000 \<and> opt_all (in_len 0 1000) (gmsg_web_url m)"

definition parse_count :: "json \<Rightarrow> nat option" where
  "parse_count j = (case j of JInt i \<Rightarrow> if 0 \<le> i then Some (nat i) else None | _ \<Rightarrow> None)"

text \<open>\<^verbatim>\<open>populate_by_name\<close>: the sender is read by its alias or by the name of the field.\<close>

definition parse_sender :: "members \<Rightarrow> gmail_address option" where
  "parse_sender f = (if map_of f ''from'' \<noteq> None then needed ''from'' parse_gmail_address f
     else needed ''from_'' parse_gmail_address f)"

definition parse_gmail_message :: "(json \<Rightarrow> datetime option) \<Rightarrow> json \<Rightarrow> gmail_message option" where
  "parse_gmail_message stamp = parse_model [''id'', ''thread_id'', ''subject'', ''from'', ''from_'', ''to'', ''cc'',
      ''date'', ''internal_date'', ''message_id_header'', ''in_reply_to'', ''references'', ''body_text'',
      ''attachment_count'', ''web_url''] (\<lambda>f. do {
     i \<leftarrow> needed ''id'' parse_text f;
     t \<leftarrow> needed ''thread_id'' parse_text f;
     s \<leftarrow> defaulted ''subject'' None (parse_opt parse_text) f;
     fr \<leftarrow> parse_sender f;
     to \<leftarrow> defaulted ''to'' [] (parse_list parse_gmail_address) f;
     cc \<leftarrow> defaulted ''cc'' [] (parse_list parse_gmail_address) f;
     d \<leftarrow> needed ''date'' stamp f;
     n \<leftarrow> defaulted ''internal_date'' None (parse_opt stamp) f;
     h \<leftarrow> defaulted ''message_id_header'' None (parse_opt parse_text) f;
     r \<leftarrow> defaulted ''in_reply_to'' None (parse_opt parse_text) f;
     rs \<leftarrow> defaulted ''references'' [] (parse_list parse_text) f;
     b \<leftarrow> defaulted ''body_text'' None (parse_opt parse_text) f;
     a \<leftarrow> defaulted ''attachment_count'' 0 parse_count f;
     u \<leftarrow> defaulted ''web_url'' None (parse_opt parse_text) f;
     Some \<lparr>gmsg_id = i, gmsg_thread_id = t, gmsg_subject = s, gmsg_from = fr, gmsg_to = to, gmsg_cc = cc,
       gmsg_date = d, gmsg_internal_date = n, gmsg_message_id_header = h, gmsg_in_reply_to = r,
       gmsg_references = rs, gmsg_body_text = b, gmsg_attachment_count = a, gmsg_web_url = u\<rparr>}) valid_gmail_message"

datatype row_error = NotFound | Unauthorized

fun row_error_value :: "row_error \<Rightarrow> string" where
  "row_error_value NotFound = ''NOT_FOUND''"
| "row_error_value Unauthorized = ''UNAUTHORIZED''"

record unavailable_row =
  ur_id :: string
  ur_thread_id :: "string option"
  ur_error :: row_error

definition parse_unavailable :: "json \<Rightarrow> unavailable_row option" where
  "parse_unavailable = parse_model [''id'', ''thread_id'', ''error_code''] (\<lambda>f. do {
     i \<leftarrow> needed ''id'' parse_text f;
     t \<leftarrow> defaulted ''thread_id'' None (parse_opt parse_text) f;
     e \<leftarrow> needed ''error_code'' (parse_enum row_error_value [NotFound, Unauthorized]) f;
     Some \<lparr>ur_id = i, ur_thread_id = t, ur_error = e\<rparr>}) (\<lambda>r. gmail_id (ur_id r) \<and> opt_all gmail_id (ur_thread_id r))"

subsection \<open>Normalization\<close>

definition mk_email :: "email_message \<Rightarrow> exn + email_message" where
  "mk_email m = (if valid_email m then Inr m else Inl ValidationError)"

definition gmail_identity :: "string \<Rightarrow> string \<Rightarrow> source_identity" where
  "gmail_identity message_id connection_id = \<lparr>si_provider = Gmail, si_connection_id = connection_id,
     si_source_workspace_id = None, si_provider_object_id = lower_text message_id, si_kind = EmailMessage\<rparr>"

definition empty_content :: email_content where
  "empty_content = \<lparr>ec_body_text = None, ec_quoted_text_removed = False\<rparr>"

definition attendee :: "email_role \<Rightarrow> gmail_address \<Rightarrow> email_participant" where
  "attendee r a = \<lparr>ep_role = r, ep_name = ga_name a, ep_email = lower_text (ga_email a)\<rparr>"

definition normalize_message :: "string \<Rightarrow> gmail_message \<Rightarrow> exn + email_message" where
  "normalize_message connection_id m =
     (let (body, removed) = strip_quoted_reply (case gmsg_body_text m of None \<Rightarrow> '''' | Some b \<Rightarrow> b) in
      mk_email \<lparr>ne_identity = gmail_identity (gmsg_id m) connection_id,
        ne_thread_id = lower_text (gmsg_thread_id m),
        ne_title = (if truthy (gmsg_subject m) then gmsg_subject m else None),
        ne_occurred_at = Some (gmsg_date m), ne_provider_updated_at = gmsg_internal_date m,
        ne_attendees = attendee RoleFrom (gmsg_from m) # map (attendee RoleTo) (gmsg_to m)
          @ map (attendee RoleCc) (gmsg_cc m),
        ne_message_id_header = gmsg_message_id_header m, ne_in_reply_to = gmsg_in_reply_to m,
        ne_reply_depth = length (gmsg_references m), ne_attachment_count = gmsg_attachment_count m,
        ne_availability = (if body \<noteq> [] then ContentAvailable else MetadataOnly),
        ne_unavailable_reason = (if body \<noteq> [] then None else if removed then Some ''quoted_only'' else Some ''no_body''),
        ne_content = (if body \<noteq> [] then \<lparr>ec_body_text = Some body, ec_quoted_text_removed = removed\<rparr>
          else empty_content),
        ne_provider_web_url = gmsg_web_url m\<rparr>)"

definition unavailable_email :: "string \<Rightarrow> unavailable_row \<Rightarrow> exn + email_message" where
  "unavailable_email connection_id r = mk_email \<lparr>ne_identity = gmail_identity (ur_id r) connection_id,
     ne_thread_id = lower_text (case ur_thread_id r of Some t \<Rightarrow> if t = '''' then ur_id r else t | None \<Rightarrow> ur_id r),
     ne_title = None, ne_occurred_at = None, ne_provider_updated_at = None, ne_attendees = [],
     ne_message_id_header = None, ne_in_reply_to = None, ne_reply_depth = 0, ne_attachment_count = 0,
     ne_availability = (case ur_error r of NotFound \<Rightarrow> PendingUnknown | Unauthorized \<Rightarrow> AccessLost),
     ne_unavailable_reason = Some (''provider reported '' @ row_error_value (ur_error r)),
     ne_content = empty_content, ne_provider_web_url = None\<rparr>"

text \<open>\<^verbatim>\<open>except ValidationError\<close>\<close>

definition malformed_payload :: exn where
  "malformed_payload = GmailImportError 400 ''malformed_payload''"

definition as_import :: "exn + 'a \<Rightarrow> exn + 'a" where
  "as_import r = (case r of Inl ValidationError \<Rightarrow> Inl malformed_payload | _ \<Rightarrow> r)"

definition parsed :: "'a option \<Rightarrow> exn + 'a" where
  "parsed x = (case x of None \<Rightarrow> Inl ValidationError | Some v \<Rightarrow> Inr v)"

definition max_message_bytes :: nat where "max_message_bytes = 1000000"

definition normalize_payload ::
  "(json \<Rightarrow> datetime option) \<Rightarrow> string \<Rightarrow> json \<Rightarrow> exn + email_message" where
  "normalize_payload stamp connection_id payload = (case payload of
     JObj kvs \<Rightarrow>
       if length (canonical_bytes payload) > max_message_bytes then Inl (GmailImportError 413 ''payload_too_large'')
       else if map_of kvs ''error_code'' = Some (JStr ''MALFORMED'') then Inl (GmailImportError 422 ''malformed_mime'')
       else if map_of kvs ''error_code'' \<noteq> None
       then as_import (case parsed (parse_unavailable payload) of Inl e \<Rightarrow> Inl e | Inr r \<Rightarrow> unavailable_email connection_id r)
       else as_import (case parsed (parse_gmail_message stamp payload) of Inl e \<Rightarrow> Inl e
              | Inr m \<Rightarrow> normalize_message connection_id m)
   | _ \<Rightarrow> Inl malformed_payload)"

end
