(* ===== verification/Gmail_Intake.thy ===== *)
theory Gmail_Intake
  imports Gmail_Adapter Corrections
begin

section \<open>Gmail intake\<close>

text \<open>
  \<^verbatim>\<open>webapp/services/gmail_intake_service.py\<close>: the explicit access check that binds the connection to
  one mailbox, the bounded listing of threads, the retrieval of selected messages into the ledger
  with proposals of an association, and the revocation.  The transport is a protocol: its replies
  are a function of the calls made so far, which the state logs.  \<open>stamp\<close> is pydantic's reading of a
  \<^verbatim>\<open>datetime\<close>, \<open>local\<close> the injected list of local opportunities.
\<close>

subsection \<open>State\<close>

text \<open>
  The private files of the service beside the ledger: the marker of the last check, and the
  index from source IDs to thread and participants.  A marker file that does not parse reads as none.
\<close>

record marker =
  mk_checked_at :: "string option"
  mk_domain :: "string option"
  mk_key :: string
  mk_scopes :: "string list"

datatype index_file = NoIndex | UnsafeIndex | MalformedIndex | IndexFile members

datatype transport_call =
    AskAccess
  | AskThreads int int "string list" nat
  | AskMessages "string list"

type_synonym transport = "transport_call list \<Rightarrow> exn + json"

record gmail_world =
  gm_world :: world
  gm_marker :: "marker option"
  gm_index :: index_file
  gm_clock :: "nat \<Rightarrow> datetime"
  gm_ticks :: nat
  gm_calls :: "transport_call list"

definition in_world :: "(world, 'a) op \<Rightarrow> (gmail_world, 'a) op" where
  "in_world m = zoom gm_world (\<lambda>w g. g\<lparr>gm_world := w\<rparr>) m"

definition in_evidence :: "(ledger, 'a) op \<Rightarrow> (gmail_world, 'a) op" where
  "in_evidence m = in_world (in_ledger m)"

definition gmail_now :: "(gmail_world, datetime) op" where
  "gmail_now g = (Inr (gm_clock g (gm_ticks g)), g\<lparr>gm_ticks := Suc (gm_ticks g)\<rparr>)"

text \<open>The call is logged before its reply is known.\<close>

definition ask :: "transport \<Rightarrow> transport_call \<Rightarrow> (gmail_world, json) op" where
  "ask net c = (\<lambda>g. (net (gm_calls g @ [c]), g\<lparr>gm_calls := gm_calls g @ [c]\<rparr>))"

abbreviation gmail_error :: "int \<Rightarrow> string \<Rightarrow> (gmail_world, 'a) op" where
  "gmail_error status code \<equiv> raise (GmailIntakeError status code)"

subsection \<open>Date ranges\<close>

text \<open>A \<^verbatim>\<open>date\<close> is its number of days since 1970; that day was a Thursday.\<close>

datatype time_range = Today | Yesterday | ThisWeek | LastWeek | Last30Days | Custom

definition weekday :: "int \<Rightarrow> int" where
  "weekday d = (d + 3) mod 7"

definition range_dates :: "int \<Rightarrow> time_range \<Rightarrow> int option \<Rightarrow> int option \<Rightarrow> exn + int \<times> int" where
  "range_dates today r custom_start custom_end = (case r of
     Today \<Rightarrow> Inr (today, today)
   | Yesterday \<Rightarrow> Inr (today - 1, today - 1)
   | ThisWeek \<Rightarrow> Inr (today - weekday today, today)
   | LastWeek \<Rightarrow> (let start = today - (weekday today + 7) in Inr (start, start + 6))
   | Last30Days \<Rightarrow> Inr (today - 30, today)
   | Custom \<Rightarrow> (case (custom_start, custom_end) of
        (Some a, Some b) \<Rightarrow>
          if b < a \<or> b - a > 92 then Inl (GmailIntakeError 400 ''invalid_range'') else Inr (a, b)
      | _ \<Rightarrow> Inl (GmailIntakeError 400 ''invalid_range'')))"

subsection \<open>The mailbox and its marker\<close>

definition readonly_scope :: string where
  "readonly_scope = ''https://www.googleapis.com/auth/gmail.readonly''"

definition mailbox_key :: "string \<Rightarrow> string" where
  "mailbox_key mailbox = take 16 (sha256_hex (lower_text (strip mailbox)))"

definition connection_id_for :: "string \<Rightarrow> string" where
  "connection_id_for key = ''gmail-readonly-local-'' @ key"

definition account_token :: "string \<Rightarrow> string" where
  "account_token account = filter (\<lambda>c. is_lower c \<or> is_digit c) (lower_text account)"

definition record_check :: "string \<Rightarrow> string list \<Rightarrow> (gmail_world, marker) op" where
  "record_check mailbox scopes = bnd gmail_now (\<lambda>now.
     let m = \<lparr>mk_checked_at = Some (isoformat now), mk_domain = Some (domain_of mailbox),
              mk_key = mailbox_key mailbox, mk_scopes = sort scopes\<rparr> in
     bnd (modify_st (\<lambda>g. g\<lparr>gm_marker := Some m\<rparr>)) (\<lambda>_. ret m))"

definition clear_check :: "(gmail_world, unit) op" where
  "clear_check = modify_st (\<lambda>g. case gm_marker g of
     None \<Rightarrow> g
   | Some m \<Rightarrow> if mk_checked_at m = None then g else g\<lparr>gm_marker := Some (m\<lparr>mk_checked_at := None\<rparr>)\<rparr>)"

text \<open>The reply of \<^verbatim>\<open>check_access\<close>: an address and a list of scopes, each of any type.\<close>

definition reply_mailbox :: "json \<Rightarrow> string option" where
  "reply_mailbox j = (case j of JObj kvs \<Rightarrow> (case map_of kvs ''email_address'' of
       Some (JStr s) \<Rightarrow> if CHR ''@'' \<in> set s then Some s else None | _ \<Rightarrow> None) | _ \<Rightarrow> None)"

definition reply_scopes :: "json \<Rightarrow> json option" where
  "reply_scopes j = (case j of JObj kvs \<Rightarrow> map_of kvs ''scopes'' | _ \<Rightarrow> None)"

definition scopes_readonly :: "json option \<Rightarrow> bool" where
  "scopes_readonly s \<longleftrightarrow> s = Some (JList [JStr readonly_scope])"

record access_report =
  ar_connected :: bool
  ar_error :: "string option"
  ar_switched :: bool
  ar_marker :: "marker option"

definition check_access :: "transport \<Rightarrow> (gmail_world, access_report) op" where
  "check_access net = catch
     (bnd (ask net AskAccess) (\<lambda>raw.
        case (reply_mailbox raw, reply_scopes raw) of
          (Some mailbox, Some (JList scopes)) \<Rightarrow>
            if \<not> scopes_readonly (Some (JList scopes))
            then bnd clear_check (\<lambda>_. bnd gmail_now (\<lambda>_. ret \<lparr>ar_connected = False,
                   ar_error = Some ''scope_not_readonly'', ar_switched = False, ar_marker = None\<rparr>))
            else bnd (read_st gm_marker) (\<lambda>previous. bnd (record_check mailbox [readonly_scope]) (\<lambda>m.
              ret \<lparr>ar_connected = True, ar_error = None,
                ar_switched = (case previous of None \<Rightarrow> False | Some p \<Rightarrow> mk_key p \<noteq> mailbox_key mailbox),
                ar_marker = Some m\<rparr>))
        | _ \<Rightarrow> gmail_error 502 ''unexpected_shape''))
     (\<lambda>e. case e of
        GmailTransportError code retryable \<Rightarrow> bnd gmail_now (\<lambda>_. ret \<lparr>ar_connected = False,
          ar_error = Some code, ar_switched = False, ar_marker = None\<rparr>)
      | _ \<Rightarrow> raise e)"

definition assert_checked :: "(gmail_world, marker) op" where
  "assert_checked = bnd (read_st gm_marker) (\<lambda>m. case m of
     None \<Rightarrow> gmail_error 409 ''not_checked''
   | Some k \<Rightarrow> if mk_checked_at k = None then gmail_error 409 ''not_checked'' else ret k)"

definition assert_access :: "transport \<Rightarrow> marker \<Rightarrow> (gmail_world, string \<times> string) op" where
  "assert_access net m = bnd (ask net AskAccess) (\<lambda>raw.
     case reply_mailbox raw of
       None \<Rightarrow> gmail_error 502 ''unexpected_shape''
     | Some mailbox \<Rightarrow>
         if \<not> scopes_readonly (reply_scopes raw) \<or> mk_scopes m \<noteq> [readonly_scope]
         then bnd clear_check (\<lambda>_. gmail_error 409 ''scope_changed'')
         else if mailbox_key mailbox \<noteq> mk_key m
         then bnd clear_check (\<lambda>_. gmail_error 409 ''mailbox_changed'')
         else ret (lower_text mailbox, connection_id_for (mailbox_key mailbox)))"

subsection \<open>The index\<close>

record index_entry =
  ie_thread_id :: string
  ie_participants :: "string list"

definition json_texts :: "json list \<Rightarrow> string list" where
  "json_texts xs = concat (map (\<lambda>x. case x of JStr s \<Rightarrow> [s] | _ \<Rightarrow> []) xs)"

definition read_entry :: "json \<Rightarrow> index_entry option" where
  "read_entry j = (case j of
     JObj kvs \<Rightarrow> (case (map_of kvs ''thread_id'', map_of kvs ''participants'') of
        (Some (JStr t), Some (JList ps)) \<Rightarrow> Some \<lparr>ie_thread_id = t, ie_participants = json_texts ps\<rparr>
      | _ \<Rightarrow> None)
   | _ \<Rightarrow> None)"

definition entry_json :: "index_entry \<Rightarrow> json" where
  "entry_json e = JObj [(''thread_id'', JStr (ie_thread_id e)), (''participants'', jtexts (ie_participants e))]"

definition max_index_bytes :: nat where "max_index_bytes = 8000000"

text \<open>Only the first bytes of the file are read; an object that is cut does not parse.\<close>

definition read_index :: "gmail_world \<Rightarrow> (string \<times> index_entry) list" where
  "read_index g = (case gm_index g of
     IndexFile kvs \<Rightarrow> if length (canonical_bytes (JObj kvs)) > max_index_bytes then []
       else concat (map (\<lambda>(k, j). case read_entry j of None \<Rightarrow> [] | Some e \<Rightarrow> [(k, e)]) kvs)
   | _ \<Rightarrow> [])"

definition write_index :: "(string \<times> index_entry) list \<Rightarrow> (gmail_world, unit) op" where
  "write_index ix = modify_st (\<lambda>g. g\<lparr>gm_index := IndexFile (map (\<lambda>(k, e). (k, entry_json e)) ix)\<rparr>)"

definition forget_index :: "string \<Rightarrow> (gmail_world, unit) op" where
  "forget_index sid = bnd (read_st gm_index) (\<lambda>file. case file of
     NoIndex \<Rightarrow> ret ()
   | UnsafeIndex \<Rightarrow> raise (EvidenceLedgerError 409 ''unsafe_storage'')
   | MalformedIndex \<Rightarrow> raise (EvidenceLedgerError 409 ''malformed_storage'')
   | IndexFile kvs \<Rightarrow>
       if length (canonical_bytes (JObj kvs)) > max_index_bytes then raise (EvidenceLedgerError 409 ''unsafe_storage'')
       else if map_of kvs sid = None then ret ()
       else modify_st (\<lambda>g. g\<lparr>gm_index := IndexFile (AList.delete sid kvs)\<rparr>))"

subsection \<open>Sources of the mailbox\<close>

definition gmail_source_id :: "string \<Rightarrow> string \<Rightarrow> (ledger, string) op" where
  "gmail_source_id connection_id message_id = bnd scope (\<lambda>sc. ret (source_id_for sc \<lparr>si_provider = Gmail,
     si_connection_id = connection_id, si_source_workspace_id = None, si_provider_object_id = message_id,
     si_kind = EmailMessage\<rparr>))"

definition own_items :: "string \<Rightarrow> source_summary list \<Rightarrow> (string \<times> source_summary) list" where
  "own_items connection_id items = map (\<lambda>i. (sm_source_id i, i))
     (filter (\<lambda>i. sm_provider i = Gmail \<and> sm_connection_id i = connection_id) items)"

text \<open>
  The loop over the pages; \<open>known[source_id] = item\<close>.  It has fuel, and None is a loop that did not
  end: \<open>gmail_sources\<close> gives it one more round than the ledger holds records.
\<close>

fun gmail_pages ::
  "nat \<Rightarrow> string \<Rightarrow> nat \<Rightarrow> (string \<times> source_summary) list \<Rightarrow> (ledger, (string \<times> source_summary) list option) op" where
  "gmail_pages 0 connection_id offset known = ret None"
| "gmail_pages (Suc n) connection_id offset known = bnd (list_sources None False 200 (int offset)) (\<lambda>page.
     let known' = fold (\<lambda>(k, i). AList.update k i) (own_items connection_id (pg_sources page)) known in
     case pg_next_offset page of
       None \<Rightarrow> ret (Some known')
     | Some next \<Rightarrow> gmail_pages n connection_id next known')"

definition gmail_sources :: "string \<Rightarrow> (ledger, (string \<times> source_summary) list) op" where
  "gmail_sources connection_id = bnd (read_st (\<lambda>l. length (lg_sources l))) (\<lambda>n.
     bnd (gmail_pages (Suc n) connection_id 0 []) (\<lambda>r. ret (case r of None \<Rightarrow> [] | Some known \<Rightarrow> known)))"

text \<open>
  \<^verbatim>\<open>_known_context\<close>: the dictionaries from contact, domain and thread to the list of targets are lists of
  pairs, in the order of appending.
\<close>

type_synonym target = "string \<times> string"

record gmail_context =
  kc_contacts :: "(string \<times> target) list"
  kc_domains :: "(string \<times> target) list"
  kc_threads :: "(string \<times> target) list"
  kc_by_object :: "(string \<times> source_summary) list"

definition targets :: "(string \<times> target) list \<Rightarrow> string \<Rightarrow> target list" where
  "targets signals k = map snd (filter (\<lambda>(k', t). k' = k) signals)"

definition generic_domains :: "string list" where
  "generic_domains = [''gmail.com'', ''googlemail.com'', ''outlook.com'', ''hotmail.com'', ''yahoo.com'',
     ''icloud.com'', ''proton.me'', ''protonmail.com'']"

definition same_domain :: "string option \<Rightarrow> string \<Rightarrow> bool" where
  "same_domain mailbox_domain address \<longleftrightarrow> truthy mailbox_domain \<and> mailbox_domain = Some (domain_of address)"

definition learn :: "string option \<Rightarrow> (string \<times> index_entry) list \<Rightarrow> string \<times> source_summary \<Rightarrow> gmail_context \<Rightarrow> gmail_context" where
  "learn mailbox_domain ix x c =
     (let (sid, item) = x; a = sm_association item;
          c' = c\<lparr>kc_by_object := AList.update (sm_provider_object_id item) item (kc_by_object c)\<rparr> in
      if ad_state a \<noteq> Associated then c'
      else (case map_of (rev ix) sid of
          None \<Rightarrow> c'
        | Some e \<Rightarrow>
            (let t = (the (ad_account a), the (ad_opportunity_slug a));
                 ps = filter (\<lambda>p. \<not> same_domain mailbox_domain p) (ie_participants e) in
             c'\<lparr>kc_threads := kc_threads c' @ [(ie_thread_id e, t)],
                kc_contacts := kc_contacts c' @ map (\<lambda>p. (p, t)) ps,
                kc_domains := kc_domains c' @ map (\<lambda>p. (domain_of p, t))
                  (filter (\<lambda>p. domain_of p \<notin> set generic_domains) ps)\<rparr>)))"

definition known_context :: "string option \<Rightarrow> string \<Rightarrow> (gmail_world, gmail_context) op" where
  "known_context mailbox_domain connection_id = bnd (in_evidence (gmail_sources connection_id)) (\<lambda>sources.
     bnd (read_st read_index) (\<lambda>ix.
     ret (fold (learn mailbox_domain ix) sources \<lparr>kc_contacts = [], kc_domains = [], kc_threads = [], kc_by_object = []\<rparr>)))"

subsection \<open>Listing\<close>

text \<open>\<^verbatim>\<open>_TERM\<close>: an optional local part and a domain with a top level of letters; \<^verbatim>\<open>$\<close> also matches before a
  final newline, but the terms are stripped.\<close>

definition is_letter :: "char \<Rightarrow> bool" where
  "is_letter c \<longleftrightarrow> is_lower c \<or> is_upper c"

definition host_ok :: "string \<Rightarrow> bool" where
  "host_ok s \<longleftrightarrow> (let parts = split_at (CHR ''.'') s in
     2 \<le> length parts \<and> 2 \<le> length (last parts) \<and> list_all is_letter (last parts)
     \<and> join ''.'' (butlast parts) \<noteq> []
     \<and> list_all (\<lambda>c. is_letter c \<or> is_digit c \<or> c \<in> {CHR ''.'', CHR ''-''}) s)"

definition local_ok :: "string \<Rightarrow> bool" where
  "local_ok s \<longleftrightarrow> s \<noteq> [] \<and> list_all (\<lambda>c. is_letter c \<or> is_digit c
     \<or> c \<in> {CHR ''.'', CHR ''_'', CHR ''%'', CHR ''+'', CHR ''-'', CHR 0x27}) s"

definition term_ok :: "string \<Rightarrow> bool" where
  "term_ok s \<longleftrightarrow> (case split_at (CHR ''@'') s of
     [h] \<Rightarrow> host_ok h | [l, h] \<Rightarrow> local_ok l \<and> host_ok h | _ \<Rightarrow> False)"

definition clean_term :: "string \<Rightarrow> string" where
  "clean_term raw = dropWhile (\<lambda>c. c = CHR ''@'') (lower_text (strip raw))"

fun clean_terms :: "string list \<Rightarrow> string list \<Rightarrow> exn + string list" where
  "clean_terms [] cleaned = Inr cleaned"
| "clean_terms (raw # raws) cleaned = (let t = clean_term raw in
     if t = [] then clean_terms raws cleaned
     else if \<not> term_ok t \<or> length t > 320 then Inl (GmailIntakeError 400 ''invalid_term'')
     else clean_terms raws (if t \<in> set cleaned then cleaned else cleaned @ [t]))"

definition normalize_terms :: "string list \<Rightarrow> exn + string list" where
  "normalize_terms raws = (case clean_terms raws [] of
     Inl e \<Rightarrow> Inl e
   | Inr ts \<Rightarrow> if length ts > 20 then Inl (GmailIntakeError 400 ''too_many_terms'') else Inr ts)"

text \<open>The part of a source that a listed message shows.\<close>

record ledger_view =
  gv_source_id :: string
  gv_latest_revision :: nat
  gv_availability :: availability
  gv_processing :: proc_status
  gv_association :: assoc_state

record listed_thread =
  lt_thread_id :: string
  lt_subject :: "string option"
  lt_message_count :: nat
  lt_last_message_at :: datetime
  lt_external :: "string list"
  lt_matched_on :: "string list"
  lt_messages :: "(string \<times> ledger_view option) list"

record listing =
  li_threads :: "listed_thread list"
  li_unrelated :: nat
  li_internal :: nat
  li_rejected :: nat

record thread_row =
  tw_id :: string
  tw_subject :: "string option"
  tw_message_count :: nat
  tw_last_message_at :: datetime
  tw_participants :: "string list"
  tw_message_ids :: "string list"

definition parse_thread_row :: "(json \<Rightarrow> datetime option) \<Rightarrow> json \<Rightarrow> thread_row option" where
  "parse_thread_row stamp = parse_model [''id'', ''subject'', ''message_count'', ''last_message_at'',
      ''participants'', ''message_ids''] (\<lambda>f. do {
     i \<leftarrow> needed ''id'' parse_text f;
     s \<leftarrow> defaulted ''subject'' None (parse_opt parse_text) f;
     n \<leftarrow> needed ''message_count'' parse_count f;
     t \<leftarrow> needed ''last_message_at'' stamp f;
     ps \<leftarrow> defaulted ''participants'' [] (parse_list parse_text) f;
     ms \<leftarrow> defaulted ''message_ids'' [] (parse_list parse_text) f;
     Some \<lparr>tw_id = i, tw_subject = s, tw_message_count = n, tw_last_message_at = t, tw_participants = ps,
       tw_message_ids = ms\<rparr>})
    (\<lambda>r. gmail_id (tw_id r) \<and> opt_all (in_len 0 500) (tw_subject r) \<and> 1 \<le> tw_message_count r
       \<and> tw_message_count r \<le> 10000 \<and> length (tw_participants r) \<le> 1000 \<and> length (tw_message_ids r) \<le> 10000)"

definition matched_on :: "gmail_context \<Rightarrow> string list \<Rightarrow> thread_row \<Rightarrow> string list \<Rightarrow> string list" where
  "matched_on c bound row external =
     (if lower_text (tw_id row) \<in> fst ` set (kc_threads c) then [''thread''] else [])
     @ (if list_ex (\<lambda>a. a \<in> set bound) external then [''contact''] else [])
     @ (if list_ex (\<lambda>a. domain_of a \<in> set bound) external then [''domain''] else [])"

definition view_of :: "source_summary \<Rightarrow> ledger_view" where
  "view_of i = \<lparr>gv_source_id = sm_source_id i, gv_latest_revision = sm_latest_revision i,
     gv_availability = sm_availability i, gv_processing = ps_status (sm_processing i),
     gv_association = ad_state (sm_association i)\<rparr>"

definition list_message :: "gmail_context \<Rightarrow> string \<Rightarrow> string \<Rightarrow> (string \<times> ledger_view option) list
   \<Rightarrow> (gmail_world, (string \<times> ledger_view option) list) op" where
  "list_message c connection_id message_id acc = (let m = lower_text message_id in
     bnd (in_evidence (bnd (gmail_source_id connection_id m) is_forgotten)) (\<lambda>forgotten.
     ret (if forgotten then acc else acc @ [(m, map_option view_of (map_of (kc_by_object c) m))])))"

definition max_listed :: nat where "max_listed = 100"

fun list_rows :: "(json \<Rightarrow> datetime option) \<Rightarrow> gmail_context \<Rightarrow> string list \<Rightarrow> string \<Rightarrow> string \<Rightarrow> json list
   \<Rightarrow> listing \<Rightarrow> (gmail_world, listing) op" where
  "list_rows stamp c bound mailbox_domain connection_id [] acc = ret acc"
| "list_rows stamp c bound mailbox_domain connection_id (raw # raws) acc =
     (case parse_thread_row stamp raw of
        None \<Rightarrow> list_rows stamp c bound mailbox_domain connection_id raws (acc\<lparr>li_rejected := Suc (li_rejected acc)\<rparr>)
      | Some row \<Rightarrow>
          (let external = filter (\<lambda>a. domain_of a \<noteq> mailbox_domain)
                 (sort (remdups (map lower_text (tw_participants row))));
               matched = matched_on c bound row external in
           if external = []
           then list_rows stamp c bound mailbox_domain connection_id raws (acc\<lparr>li_internal := Suc (li_internal acc)\<rparr>)
           else if matched = []
           then list_rows stamp c bound mailbox_domain connection_id raws (acc\<lparr>li_unrelated := Suc (li_unrelated acc)\<rparr>)
           else bnd (fold_op (list_message c connection_id) (tw_message_ids row) []) (\<lambda>messages.
             if messages = [] then list_rows stamp c bound mailbox_domain connection_id raws acc
             else (let acc' = acc\<lparr>li_threads := li_threads acc @ [\<lparr>lt_thread_id = lower_text (tw_id row),
                     lt_subject = tw_subject row, lt_message_count = tw_message_count row,
                     lt_last_message_at = tw_last_message_at row, lt_external = external,
                     lt_matched_on = matched, lt_messages = messages\<rparr>]\<rparr> in
                   if length (li_threads acc') \<ge> max_listed then ret acc'
                   else list_rows stamp c bound mailbox_domain connection_id raws acc'))))"

definition reply_items :: "json \<Rightarrow> json list" where
  "reply_items j = (case j of JList xs \<Rightarrow> xs | _ \<Rightarrow> [])"

definition discovery_bound :: "string list \<Rightarrow> gmail_context \<Rightarrow> string list" where
  "discovery_bound terms c = sort (remdups (terms @ map fst (kc_contacts c) @ map fst (kc_domains c)))"

text \<open>\<^verbatim>\<open>except GmailTransportError\<close> around the check and the listing\<close>

definition listing_call :: "(gmail_world, 'a) op \<Rightarrow> (gmail_world, 'a) op" where
  "listing_call m = catch m (\<lambda>e. case e of
     GmailTransportError code retryable \<Rightarrow> gmail_error (if retryable then 502 else 409) code
   | _ \<Rightarrow> raise e)"

definition list_threads :: "(json \<Rightarrow> datetime option) \<Rightarrow> transport \<Rightarrow> time_range \<Rightarrow> int option \<Rightarrow> int option
   \<Rightarrow> string list \<Rightarrow> (gmail_world, listing) op" where
  "list_threads stamp net r custom_start custom_end participants = bnd gmail_now (\<lambda>now.
     bnd (of_sum (range_dates (now div 86400000000) r custom_start custom_end)) (\<lambda>(after, before).
     bnd assert_checked (\<lambda>m.
     bnd (of_sum (normalize_terms participants)) (\<lambda>terms.
     bnd (known_context (mk_domain m) (connection_id_for (mk_key m))) (\<lambda>c.
     if discovery_bound terms c = [] then gmail_error 400 ''unbounded_discovery''
     else bnd (listing_call (bnd (assert_access net m) (\<lambda>(mailbox, connection_id).
       bnd (ask net (AskThreads after before (discovery_bound terms c) (2 * max_listed))) (\<lambda>rows.
       ret (mailbox, connection_id, reply_items rows))))) (\<lambda>(mailbox, connection_id, rows).
     list_rows stamp c (discovery_bound terms c) (domain_of mailbox) connection_id rows
       \<lparr>li_threads = [], li_unrelated = 0, li_internal = 0, li_rejected = 0\<rparr>))))))"

subsection \<open>Retrieval\<close>

definition intake_kind :: string where
  "intake_kind = ''command_center_gmail_intake''"

definition max_selection :: nat where "max_selection = 25"

text \<open>\<^verbatim>\<open>GMAIL_ID.match\<close>: Python's \<^verbatim>\<open>$\<close> also matches before a final newline.\<close>

definition gmail_id_match :: "string \<Rightarrow> bool" where
  "gmail_id_match s \<longleftrightarrow> gmail_id s \<or> (s \<noteq> [] \<and> last s = line_feed \<and> gmail_id (butlast s))"

fun selected_ids :: "string list \<Rightarrow> string list \<Rightarrow> exn + string list" where
  "selected_ids [] ids = Inr ids"
| "selected_ids (raw # raws) ids =
     (if \<not> gmail_id_match (lower_text raw) then Inl (GmailIntakeError 400 ''invalid_message_id'')
      else selected_ids raws (if lower_text raw \<in> set ids then ids else ids @ [lower_text raw]))"

fun any_id_forgotten :: "string \<Rightarrow> string list \<Rightarrow> (ledger, bool) op" where
  "any_id_forgotten connection_id [] = ret False"
| "any_id_forgotten connection_id (i # is) = bnd (gmail_source_id connection_id i) (\<lambda>sid. bnd (is_forgotten sid) (\<lambda>f.
     if f then ret True else any_id_forgotten connection_id is))"

record retrieval_start =
  rs_job_id :: string
  rs_requested :: nat
  rs_persist_warn :: bool

text \<open>The answer and the closure handed to the job service.\<close>

definition start_retrieval :: "string list \<Rightarrow> (gmail_world, retrieval_start \<times> string list \<times> marker) op" where
  "start_retrieval message_ids = bnd (of_sum (selected_ids message_ids [])) (\<lambda>ids.
     if ids = [] then gmail_error 400 ''empty_selection''
     else if length ids > max_selection then gmail_error 400 ''selection_too_large''
     else bnd assert_checked (\<lambda>m.
     bnd (in_evidence (any_id_forgotten (connection_id_for (mk_key m)) ids)) (\<lambda>forgotten.
     if forgotten then gmail_error 410 ''source_forgotten''
     else bnd (read_st (\<lambda>g. list_ex (\<lambda>(jid, j). jb_kind j = intake_kind \<and> jb_status j = JobRunning)
            (js_jobs (w_jobs (gm_world g))))) (\<lambda>running.
     if running then gmail_error 409 ''retrieval_in_progress''
     else bnd (in_world (in_jobs (launch_managed intake_kind '''' '''' '''' []
            [(''trigger'', JStr ''user_triggered_retrieval''), (''unattended_discovery'', JBool False),
             (''message_ids'', jtexts ids), (''requested'', JInt (int (length ids)))]))) (\<lambda>(jid, warn).
     ret (\<lparr>rs_job_id = jid, rs_requested = length ids, rs_persist_warn = warn\<rparr>, ids, m))))))"

text \<open>Outcomes of one retrieval.\<close>

datatype outcome =
    FailedRetryable string
  | Rejected string
  | Recorded string import_result "nat option" assoc_state proc_status

text \<open>\<^verbatim>\<open>_classify\<close>\<close>

definition classify_result :: "import_result \<Rightarrow> string" where
  "classify_result r =
     (if ir_availability r = AccessLost then ''inaccessible''
      else if ir_availability r = PendingUnknown then ''not_found''
      else if ir_availability r = MetadataOnly then (if ir_created_revision r then ''no_body'' else ''already_known'')
      else if \<not> ir_created_revision r then ''already_known''
      else if ir_revision r > 1 then ''edited''
      else ''imported'')"

definition plain_outcome :: "import_result \<Rightarrow> outcome" where
  "plain_outcome r = Recorded (classify_result r) r None (ir_association_state r) (ir_processing_status r)"

text \<open>\<^verbatim>\<open>_candidates\<close>\<close>

definition max_candidates :: nat where "max_candidates = 20"

definition add_candidate :: "assoc_method \<Rightarrow> string \<Rightarrow> target \<Rightarrow> (target \<times> assoc_candidate) list
   \<Rightarrow> exn + (target \<times> assoc_candidate) list" where
  "add_candidate how reason t seen =
     (if \<not> safe_token (fst t) \<or> \<not> safe_token (snd t) \<or> length seen \<ge> max_candidates then Inr seen
      else (let c = \<lparr>ac_account = fst t, ac_opportunity_slug = Some (snd t), ac_method = how, ac_reason = reason\<rparr> in
        if \<not> valid_candidate c then Inl ValidationError
        else Inr (if map_of seen t = None then seen @ [(t, c)] else seen)))"

fun add_all :: "(assoc_method \<times> string \<times> target) list \<Rightarrow> (target \<times> assoc_candidate) list
   \<Rightarrow> exn + (target \<times> assoc_candidate) list" where
  "add_all [] seen = Inr seen"
| "add_all ((how, reason, t) # xs) seen = (case add_candidate how reason t seen of
     Inl e \<Rightarrow> Inl e | Inr seen' \<Rightarrow> add_all xs seen')"

definition external_of :: "string \<Rightarrow> email_message \<Rightarrow> string list" where
  "external_of mailbox_domain m = filter (\<lambda>a. domain_of a \<noteq> mailbox_domain) (map ep_email (ne_attendees m))"

definition external_domains :: "string list \<Rightarrow> string list" where
  "external_domains external = sort (remdups (filter (\<lambda>d. d \<notin> set generic_domains) (map domain_of external)))"

definition domain_label :: "string \<Rightarrow> string" where
  "domain_label d = account_token (hd (split_at (CHR ''.'') d))"

definition signals :: "target list \<Rightarrow> gmail_context \<Rightarrow> string \<Rightarrow> email_message \<Rightarrow> (assoc_method \<times> string \<times> target) list" where
  "signals opportunities c mailbox_domain m =
     (let external = external_of mailbox_domain m; domains = external_domains external in
      map (\<lambda>t. (ThreadMapping, ''Another message in this thread is associated here.'', t))
        (targets (kc_threads c) (ne_thread_id m))
      @ concat (map (\<lambda>a. map (\<lambda>t. (Contact, a @ '' appears on associated evidence.'', t))
          (targets (kc_contacts c) a)) external)
      @ concat (map (\<lambda>d. map (\<lambda>t. (Domain, ''Domain '' @ d @ '' appears on associated evidence.'', t))
          (targets (kc_domains c) d)) domains)
      @ concat (map (\<lambda>d. map (\<lambda>t. (Domain, ''Domain '' @ d @ '' matches account '' @ fst t @ ''.'', t))
          (filter (\<lambda>t. domain_label d \<noteq> [] \<and> account_token (fst t) = domain_label d) opportunities)) domains))"

definition candidates_for :: "target list \<Rightarrow> gmail_context \<Rightarrow> string \<Rightarrow> email_message \<Rightarrow> exn + assoc_candidate list" where
  "candidates_for opportunities c mailbox_domain m = (case add_all (signals opportunities c mailbox_domain m) [] of
     Inl e \<Rightarrow> Inl e | Inr seen \<Rightarrow> Inr (map snd seen))"

text \<open>\<^verbatim>\<open>_summary\<close>: a requested message without an outcome counts as failed.\<close>

record retrieval_summary =
  su_import_id :: "string option"
  su_unrequested :: nat
  su_proposals :: nat
  su_results :: "(string \<times> outcome) list"

definition retrieval_result :: "string list \<Rightarrow> (string \<times> outcome) list \<Rightarrow> string option \<Rightarrow> nat \<Rightarrow> nat \<Rightarrow> retrieval_summary" where
  "retrieval_result ids outcomes import_id unrequested proposals = \<lparr>su_import_id = import_id,
     su_unrequested = unrequested, su_proposals = proposals,
     su_results = map (\<lambda>i. (i, case map_of outcomes i of Some o' \<Rightarrow> o' | None \<Rightarrow> FailedRetryable ''no_result'')) ids\<rparr>"

text \<open>The rows of the reply: those that were asked for, each once.\<close>

fun requested_rows :: "string list \<Rightarrow> json list \<Rightarrow> (string \<times> json) list \<Rightarrow> nat \<Rightarrow> (string \<times> json) list \<times> nat" where
  "requested_rows ids [] details n = (details, n)"
| "requested_rows ids (row # rows) details n = (case row of
     JObj kvs \<Rightarrow> (case map_of kvs ''id'' of
        Some (JStr i) \<Rightarrow>
          (let k = lower_text i in
           if k \<notin> set ids \<or> map_of details k \<noteq> None then requested_rows ids rows details (Suc n)
           else requested_rows ids rows (details @ [(k, row)]) n)
      | _ \<Rightarrow> requested_rows ids rows details (Suc n))
   | _ \<Rightarrow> requested_rows ids rows details (Suc n))"

definition row_failure :: "string \<Rightarrow> string" where
  "row_failure code = (if code \<in> {''access_revoked'', ''transport_unavailable'', ''not_authorized''}
     then ''UNAUTHORIZED'' else ''NOT_FOUND'')"

definition error_row :: "string \<Rightarrow> string \<Rightarrow> json" where
  "error_row message_id code = JObj [(''id'', JStr message_id), (''error_code'', JStr code)]"

text \<open>What each requested message became: a message to record, or an outcome.\<close>

fun normalize_rows :: "(json \<Rightarrow> datetime option) \<Rightarrow> string \<Rightarrow> string option \<Rightarrow> (string \<times> json) list \<Rightarrow> string list
   \<Rightarrow> exn + email_message list \<times> (string \<times> outcome) list" where
  "normalize_rows stamp connection_id code details [] = Inr ([], [])"
| "normalize_rows stamp connection_id code details (i # is) =
     (let payload = (case code of Some c \<Rightarrow> error_row i c
         | None \<Rightarrow> (case map_of details i of None \<Rightarrow> error_row i ''NOT_FOUND'' | Some row \<Rightarrow> row)) in
      case normalize_payload stamp connection_id payload of
        Inr m \<Rightarrow> map_sum id (\<lambda>(ms, os). (m # ms, os)) (normalize_rows stamp connection_id code details is)
      | Inl (GmailImportError status c) \<Rightarrow>
          map_sum id (\<lambda>(ms, os). (ms, (i, Rejected c) # os)) (normalize_rows stamp connection_id code details is)
      | Inl e \<Rightarrow> Inl e)"

text \<open>The proposals after an import: a message of a new, unassociated source with known signals.\<close>

definition proposal_reason :: string where
  "proposal_reason = ''Proposed from Gmail thread, contact, and domain signals.''"

definition propose_for :: "target list \<Rightarrow> gmail_context \<Rightarrow> string \<Rightarrow> email_message \<times> import_result
   \<Rightarrow> (string \<times> outcome) list \<times> nat \<Rightarrow> (gmail_world, (string \<times> outcome) list \<times> nat) op" where
  "propose_for opportunities c mailbox_domain x acc =
     (let (m, r) = x; key = si_provider_object_id (ne_identity m); (outcomes, proposals) = acc;
          note_it = (\<lambda>o'. AList.update key o' outcomes) in
      if ir_created_revision r \<and> ir_association_state r = Unassociated
         \<and> ne_availability m \<in> {ContentAvailable, MetadataOnly}
      then bnd (of_sum (candidates_for opportunities c mailbox_domain m)) (\<lambda>cs.
        if cs = []
        then ret (note_it (Recorded (classify_result r) r (Some 0) (ir_association_state r) (ir_processing_status r)), proposals)
        else catch
          (bnd (in_evidence (propose_association (ir_source_id r) cs proposal_reason)) (\<lambda>sm.
             ret (note_it (Recorded (classify_result r) r (Some (length cs)) (ad_state (sm_association sm))
                    (ps_status (sm_processing sm))), Suc proposals)))
          (\<lambda>e. case e of
             EvidenceLedgerError status code \<Rightarrow>
               ret (note_it (Recorded (classify_result r) r (Some 0) (ir_association_state r) (ir_processing_status r)), proposals)
           | _ \<Rightarrow> raise e))
      else ret (note_it (plain_outcome r), proposals))"

definition indexed :: "(email_message \<times> import_result) list \<Rightarrow> (string \<times> index_entry) list \<Rightarrow> (string \<times> index_entry) list" where
  "indexed recorded ix = fold (\<lambda>(m, r) ix. AList.update (ir_source_id r) \<lparr>ie_thread_id = ne_thread_id m,
       ie_participants = sort (remdups (map ep_email (ne_attendees m)))\<rparr> ix)
     (filter (\<lambda>(m, r). ne_availability m \<in> {ContentAvailable, MetadataOnly}) recorded) ix"

text \<open>The import and the update of the index, under the ledger's lock.\<close>

definition import_and_index :: "email_message list \<Rightarrow> (gmail_world, string \<times> import_result list) op" where
  "import_and_index ms = bnd (in_evidence (import_meetings (map EmailSource ms) None UserTriggeredRetrieval)) (\<lambda>(tok, results).
     bnd (read_st read_index) (\<lambda>ix. bnd (write_index (indexed (zip ms results) ix)) (\<lambda>_. ret (tok, results))))"

text \<open>An access check inside the job: its failure ends the job, a revocation clears the marker.\<close>

definition job_access :: "transport \<Rightarrow> marker \<Rightarrow> (gmail_world, string \<times> string) op" where
  "job_access net m = catch (assert_access net m) (\<lambda>e. case e of
     GmailTransportError code retryable \<Rightarrow>
       bnd (if code = ''access_revoked'' then clear_check else ret ()) (\<lambda>_. raise (ManagedJobError code))
   | GmailIntakeError status code \<Rightarrow> raise (ManagedJobError code)
   | _ \<Rightarrow> raise e)"

definition ledger_as_job :: "(gmail_world, 'a) op \<Rightarrow> (gmail_world, 'a) op" where
  "ledger_as_job m = catch m (\<lambda>e. case e of
     EvidenceLedgerError status code \<Rightarrow> raise (ManagedJobError code) | _ \<Rightarrow> raise e)"

definition fetch_rows :: "transport \<Rightarrow> string list \<Rightarrow> (gmail_world, exn + json list) op" where
  "fetch_rows net ids = catch (bnd (ask net (AskMessages ids)) (\<lambda>rows. ret (Inr (reply_items rows))))
     (\<lambda>e. case e of GmailTransportError code retryable \<Rightarrow> ret (Inl e) | _ \<Rightarrow> raise e)"

definition record_messages :: "target list \<Rightarrow> transport \<Rightarrow> marker \<Rightarrow> string \<Rightarrow> string \<Rightarrow> email_message list
   \<Rightarrow> (string \<times> outcome) list \<Rightarrow> (gmail_world, string \<times> (string \<times> outcome) list \<times> nat) op" where
  "record_messages opportunities net m mailbox connection_id ms outcomes =
     bnd (job_access net m) (\<lambda>(mailbox', connection').
     if mailbox' \<noteq> mailbox \<or> connection' \<noteq> connection_id
     then bnd clear_check (\<lambda>_. raise (ManagedJobError ''mailbox_changed''))
     else bnd (ledger_as_job (import_and_index ms)) (\<lambda>(tok, results).
       bnd (known_context (Some (domain_of mailbox)) connection_id) (\<lambda>c.
       bnd (fold_op (propose_for opportunities c (domain_of mailbox)) (zip ms results) (outcomes, 0)) (\<lambda>(os, n).
       ret (tok, os, n)))))"

text \<open>\<^verbatim>\<open>_run\<close>\<close>

definition run_retrieval :: "(json \<Rightarrow> datetime option) \<Rightarrow> target list \<Rightarrow> transport \<Rightarrow> string list \<Rightarrow> marker
   \<Rightarrow> (gmail_world, retrieval_summary) op" where
  "run_retrieval stamp opportunities net ids m = bnd (job_access net m) (\<lambda>(mailbox, connection_id).
     bnd (fetch_rows net ids) (\<lambda>reply. case reply of
       Inl (GmailTransportError code True) \<Rightarrow>
         ret (retrieval_result ids (map (\<lambda>i. (i, FailedRetryable code)) ids) None 0 0)
     | _ \<Rightarrow>
       (let (details, unrequested) = (case reply of Inr rows \<Rightarrow> requested_rows ids rows [] 0 | Inl _ \<Rightarrow> ([], 0));
            code = (case reply of Inl e \<Rightarrow> Some (row_failure (exn_code e)) | Inr _ \<Rightarrow> None) in
        bnd (of_sum (normalize_rows stamp connection_id code details ids)) (\<lambda>(ms, outcomes).
        if ms = [] then ret (retrieval_result ids outcomes None unrequested 0)
        else bnd (record_messages opportunities net m mailbox connection_id ms outcomes) (\<lambda>(tok, os, n).
          ret (retrieval_result ids os (Some tok) unrequested n))))))"

subsection \<open>Revocation\<close>

definition revoked_row :: "(string \<times> index_entry) list \<Rightarrow> source_summary \<Rightarrow> json" where
  "revoked_row ix i = JObj [(''id'', JStr (sm_provider_object_id i)),
     (''thread_id'', JStr (case map_of (rev ix) (sm_source_id i) of
        Some e \<Rightarrow> ie_thread_id e | None \<Rightarrow> sm_provider_object_id i)),
     (''error_code'', JStr ''UNAUTHORIZED'')]"

record revocation =
  ro_marked :: nat
  ro_already_lost :: nat
  ro_results :: "string list"

fun normalize_all :: "(json \<Rightarrow> datetime option) \<Rightarrow> (string \<times> json) list \<Rightarrow> exn + email_message list" where
  "normalize_all stamp [] = Inr []"
| "normalize_all stamp ((connection_id, row) # rows) = (case normalize_payload stamp connection_id row of
     Inl e \<Rightarrow> Inl e
   | Inr m \<Rightarrow> (case normalize_all stamp rows of Inl e \<Rightarrow> Inl e | Inr ms \<Rightarrow> Inr (m # ms)))"

definition revoke_access :: "(json \<Rightarrow> datetime option) \<Rightarrow> (gmail_world, revocation) op" where
  "revoke_access stamp = bnd (read_st gm_marker) (\<lambda>m.
     bnd (case m of None \<Rightarrow> ret [] | Some k \<Rightarrow> in_evidence (gmail_sources (connection_id_for (mk_key k)))) (\<lambda>sources.
     bnd (read_st read_index) (\<lambda>ix.
     let live = filter (\<lambda>i. sm_availability i \<noteq> AccessLost) (map snd sources) in
     bnd (of_sum (normalize_all stamp (map (\<lambda>i. (sm_connection_id i, revoked_row ix i)) live))) (\<lambda>ms.
     bnd (if ms = [] then ret [] else bnd (in_evidence (import_meetings (map EmailSource ms) None UserTriggeredRetrieval))
            (\<lambda>(tok, results). ret results)) (\<lambda>results.
     bnd clear_check (\<lambda>_.
     ret \<lparr>ro_marked = length (filter ir_created_revision results), ro_already_lost = length sources - length ms,
       ro_results = map classify_result results\<rparr>))))))"

end
