(* ===== verification/Merge.thy ===== *)
theory Merge
  imports Overview_Parse
begin

section \<open>Undoing one delta of a document\<close>

text \<open>
  \<^verbatim>\<open>_undo\<close> of \<^verbatim>\<open>webapp/services/gmail_forget_service.py\<close>: a three-way merge on JSON values that takes
  back what changed from \<open>before\<close> to \<open>after\<close> and keeps later edits of other fields and items.
  An absent member (\<^verbatim>\<open>_MISSING\<close>) is None, \<^verbatim>\<open>_UnsafeMerge\<close> is the left value of the result.
  Two dictionaries are equal in Python when they have the same members in any order, which is
  equality of the canonical forms; the dumps it is used on hold no number but the schema version.
\<close>

definition jsame :: "json option \<Rightarrow> json option \<Rightarrow> bool" where
  "jsame a b \<longleftrightarrow> map_option canon a = map_option canon b"

datatype unsafe_merge = UnsafeMerge

text \<open>\<^verbatim>\<open>_key\<close>: what identifies an item of a list.\<close>

definition item_key :: "json \<Rightarrow> json option" where
  "item_key j = (case j of
     JObj kvs \<Rightarrow>
       (case map_of kvs ''key'' of
          Some k \<Rightarrow> Some (JList [JStr ''key'', k])
        | None \<Rightarrow>
            (case (map_of kvs ''source_type'', map_of kvs ''source_id'') of
               (Some t, Some i) \<Rightarrow> Some (JList [JStr ''evidence'', t, i, jfield kvs ''locator''])
             | _ \<Rightarrow> None))
   | _ \<Rightarrow> None)"

definition item_keys :: "json list \<Rightarrow> json list option" where
  "item_keys xs = Option.bind (those (map item_key xs)) (\<lambda>ks. if distinct ks then Some ks else None)"

text \<open>The loop over the keys of both sides: the result holds the restored value of each.\<close>

fun try_map :: "('a \<Rightarrow> 'e + 'b) \<Rightarrow> 'a list \<Rightarrow> 'e + ('a \<times> 'b) list" where
  "try_map f [] = Inr []"
| "try_map f (x # xs) = (case f x of Inl e \<Rightarrow> Inl e
     | Inr y \<Rightarrow> (case try_map f xs of Inl e \<Rightarrow> Inl e | Inr ys \<Rightarrow> Inr ((x, y) # ys)))"

lemma try_map_cong [fundef_cong]:
  "xs = ys \<Longrightarrow> (\<And>x. x \<in> set ys \<Longrightarrow> f x = g x) \<Longrightarrow> try_map f xs = try_map g ys"
  by (induction ys arbitrary: xs) (auto split: sum.splits)

text \<open>\<^verbatim>\<open>result.pop(name, None)\<close> or \<^verbatim>\<open>result[name] = restored\<close>\<close>

definition store_member :: "'k \<times> 'v option \<Rightarrow> ('k \<times> 'v) list \<Rightarrow> ('k \<times> 'v) list" where
  "store_member r kvs = (case snd r of None \<Rightarrow> AList.delete (fst r) kvs | Some v \<Rightarrow> AList.update (fst r) v kvs)"

definition merged_order :: "'k list \<Rightarrow> 'k list \<Rightarrow> ('k \<times> 'v) list \<Rightarrow> 'v list" where
  "merged_order now old result =
     (let kept = filter (\<lambda>k. k \<in> fst ` set result) now in
      map (\<lambda>k. the (map_of result k)) (kept @ filter (\<lambda>k. k \<in> fst ` set result \<and> k \<notin> set kept) old))"

definition both_keys :: "('k \<times> 'v) list \<Rightarrow> ('k \<times> 'v) list \<Rightarrow> 'k list" where
  "both_keys old new = remdups (map fst old @ map fst new)"

lemma size_member [termination_simp]: "map_of kvs k = Some v \<Longrightarrow> size v < size_list (size_prod (\<lambda>_. 0) size) kvs"
  by (induction kvs) (auto split: if_splits)

lemma size_item: "map_of (zip ks xs) k = Some v \<Longrightarrow> size v < size_list size xs"
  by (induction ks xs rule: list_induct2') (auto split: if_splits)

function undo :: "json option \<Rightarrow> json option \<Rightarrow> json option \<Rightarrow> unsafe_merge + json option" where
  "undo before after current =
     (if jsame before after then Inr current
      else if jsame current before then Inr current
      else if jsame current after then Inr before
      else (case (before, after, current) of
        (Some (JObj old), Some (JObj new), Some (JObj now)) \<Rightarrow>
          map_sum id (\<lambda>rs. Some (JObj (fold store_member rs now)))
            (try_map (\<lambda>k. undo (map_of old k) (map_of new k) (map_of now k)) (both_keys old new))
      | (Some (JList xs), Some (JList ys), Some (JList zs)) \<Rightarrow>
          (case (item_keys xs, item_keys ys, item_keys zs) of
             (Some kx, Some ky, Some kz) \<Rightarrow>
               (let old = zip kx xs; new = zip ky ys; now = zip kz zs in
                map_sum id (\<lambda>rs. Some (JList (merged_order kz kx (fold store_member rs now))))
                  (try_map (\<lambda>k. undo (map_of old k) (map_of new k) (map_of now k)) (both_keys old new)))
           | _ \<Rightarrow> Inl UnsafeMerge)
      | _ \<Rightarrow> Inl UnsafeMerge))"
  by pat_completeness auto

termination
  apply (relation "measure (\<lambda>(b, a, c). (case b of None \<Rightarrow> 0 | Some j \<Rightarrow> size j))")
    apply simp
   apply (auto split: option.splits dest: size_member size_item)
  done
end
