(* ===== verification/Merge_Facts.thy ===== *)
theory Merge_Facts
  imports Merge
begin

section \<open>Laws of the merge\<close>

declare undo.simps [simp del]

lemma jsame_refl [simp]: "jsame a a"
  by (simp add: jsame_def)

lemma jsame_sym: "jsame a b \<Longrightarrow> jsame b a"
  by (simp add: jsame_def)

lemma jsame_trans: "jsame a b \<Longrightarrow> jsame b c \<Longrightarrow> jsame a c"
  by (simp add: jsame_def)

lemma jsame_None [simp]: "jsame None x \<longleftrightarrow> x = None" "jsame x None \<longleftrightarrow> x = None"
  by (auto simp: jsame_def)

lemma jsame_member:
  assumes "jsame (Some (JObj a)) (Some (JObj b))" and "distinct (map fst a)" and "distinct (map fst b)"
  shows "jsame (map_of a k) (map_of b k)"
  using canon_JObj_eqD [of a b k] assms by (simp add: jsame_def)

text \<open>The three cases that need no merge.\<close>

lemma undo_unchanged: "jsame b a \<Longrightarrow> undo b a c = Inr c"
  by (simp add: undo.simps [of b])

lemma undo_not_present: "jsame c b \<Longrightarrow> undo b a c = Inr c"
  by (simp add: undo.simps [of b])

lemma undo_latest: "jsame c a \<Longrightarrow> \<exists>r. undo b a c = Inr r \<and> jsame r b"
  by (auto simp: undo.simps [of b] intro: jsame_sym jsame_trans)

lemma try_map_Inr:
  assumes "try_map f xs = Inr rs"
  shows "map fst rs = xs \<and> (\<forall>(x, y) \<in> set rs. f x = Inr y)"
  using assms
proof (induction xs arbitrary: rs)
  case (Cons x xs)
  then obtain y ys where "f x = Inr y" "try_map f xs = Inr ys" "rs = (x, y) # ys"
    by (auto split: sum.splits)
  with Cons.IH show ?case by auto
qed simp

lemma try_map_ok: "(\<And>x. x \<in> set xs \<Longrightarrow> \<exists>y. f x = Inr y) \<Longrightarrow> \<exists>rs. try_map f xs = Inr rs"
proof (induction xs)
  case (Cons x xs)
  from Cons.prems [of x] obtain y where "f x = Inr y" by auto
  moreover from Cons obtain rs where "try_map f xs = Inr rs" by auto
  ultimately show ?case by simp
qed simp

lemma map_of_store_member: "map_of (store_member r kvs) k = (if k = fst r then snd r else map_of kvs k)"
  by (cases "snd r") (simp_all add: store_member_def)

lemma map_of_fold_store:
  assumes "distinct (map fst rs)"
  shows "map_of (fold store_member rs kvs) k = (case map_of rs k of Some r \<Rightarrow> r | None \<Rightarrow> map_of kvs k)"
  using assms
proof (induction rs arbitrary: kvs)
  case (Cons r rs)
  have "map_of rs (fst r) = None" using Cons.prems by (simp add: map_of_eq_None_iff)
  then show ?case
    using Cons by (auto simp: map_of_store_member split: option.splits prod.splits)
qed simp

lemma distinct_both_keys [simp]: "distinct (both_keys a b)"
  by (simp add: both_keys_def)

lemma set_both_keys: "k \<notin> set (both_keys a b) \<longleftrightarrow> map_of a k = None \<and> map_of b k = None"
  by (simp add: both_keys_def map_of_eq_None_iff)

text \<open>An object is merged field by field.\<close>

lemma undo_objects:
  assumes "\<not> jsame (Some (JObj old)) (Some (JObj new))" and "\<not> jsame (Some (JObj now)) (Some (JObj old))"
    and "\<not> jsame (Some (JObj now)) (Some (JObj new))"
  shows "undo (Some (JObj old)) (Some (JObj new)) (Some (JObj now)) =
    map_sum id (\<lambda>rs. Some (JObj (fold store_member rs now)))
      (try_map (\<lambda>k. undo (map_of old k) (map_of new k) (map_of now k)) (both_keys old new))"
  by (subst undo.simps) (simp only: assms if_False option.case json.case prod.case)

lemma undo_object:
  assumes "undo (Some (JObj old)) (Some (JObj new)) (Some (JObj now)) = Inr r"
    and d: "distinct (map fst old)" "distinct (map fst new)" "distinct (map fst now)"
  shows "\<exists>res. r = Some (JObj res)
    \<and> (\<forall>k. \<exists>x. undo (map_of old k) (map_of new k) (map_of now k) = Inr x \<and> jsame x (map_of res k))"
proof -
  let ?b = "Some (JObj old)" and ?a = "Some (JObj new)" and ?c = "Some (JObj now)"
  consider (same) "jsame ?b ?a" | (absent) "jsame ?c ?b" | (latest) "\<not> jsame ?b ?a" "\<not> jsame ?c ?b" "jsame ?c ?a"
    | (merge) "\<not> jsame ?b ?a" "\<not> jsame ?c ?b" "\<not> jsame ?c ?a" by blast
  then show ?thesis
  proof cases
    case same
    have "undo (map_of old k) (map_of new k) (map_of now k) = Inr (map_of now k)" for k
      by (rule undo_unchanged) (rule jsame_member [OF same d(1,2)])
    then show ?thesis using assms(1) undo_unchanged [OF same] by auto
  next
    case absent
    have "undo (map_of old k) (map_of new k) (map_of now k) = Inr (map_of now k)" for k
      by (rule undo_not_present) (rule jsame_member [OF absent d(3,1)])
    then show ?thesis using assms(1) undo_not_present [OF absent] by auto
  next
    case latest
    have "\<exists>x. undo (map_of old k) (map_of new k) (map_of now k) = Inr x \<and> jsame x (map_of old k)" for k
      by (rule undo_latest) (rule jsame_member [OF latest(3) d(3,2)])
    moreover have "r = ?b" using assms(1) latest by (simp add: undo.simps [of ?b])
    ultimately show ?thesis by auto
  next
    case merge
    from assms(1) obtain rs
      where rs: "try_map (\<lambda>k. undo (map_of old k) (map_of new k) (map_of now k)) (both_keys old new) = Inr rs"
        and r: "r = Some (JObj (fold store_member rs now))"
      unfolding undo_objects [OF merge]
      by (cases "try_map (\<lambda>k. undo (map_of old k) (map_of new k) (map_of now k)) (both_keys old new)") auto
    note m = try_map_Inr [OF rs]
    have "\<exists>x. undo (map_of old k) (map_of new k) (map_of now k) = Inr x
        \<and> jsame x (map_of (fold store_member rs now) k)" for k
    proof (cases "map_of rs k")
      case None
      then have "k \<notin> set (both_keys old new)" using m by (metis map_of_eq_None_iff set_map)
      with None m show ?thesis
        using distinct_both_keys [of old new] by (simp add: set_both_keys undo_unchanged map_of_fold_store)
    next
      case (Some x)
      then have "(k, x) \<in> set rs" by (rule map_of_SomeD)
      with Some m show ?thesis using distinct_both_keys [of old new] by (auto simp: map_of_fold_store)
    qed
    with r show ?thesis by blast
  qed
qed

lemma undo_object_defined:
  assumes "\<And>k. \<exists>x. undo (map_of old k) (map_of new k) (map_of now k) = Inr x"
  shows "\<exists>r. undo (Some (JObj old)) (Some (JObj new)) (Some (JObj now)) = Inr r"
proof -
  have "\<exists>rs. try_map (\<lambda>k. undo (map_of old k) (map_of new k) (map_of now k)) (both_keys old new) = Inr rs"
    by (rule try_map_ok) (rule assms)
  then obtain rs where "try_map (\<lambda>k. undo (map_of old k) (map_of new k) (map_of now k)) (both_keys old new) = Inr rs"
    by (elim exE)
  then have "\<exists>r. map_sum id (\<lambda>rs. Some (JObj (fold store_member rs now)))
      (try_map (\<lambda>k. undo (map_of old k) (map_of new k) (map_of now k)) (both_keys old new)) = Inr r" by simp
  then have merge: "\<exists>r. undo (Some (JObj old)) (Some (JObj new)) (Some (JObj now)) = Inr r"
    if "\<not> jsame (Some (JObj old)) (Some (JObj new))" "\<not> jsame (Some (JObj now)) (Some (JObj old))"
      "\<not> jsame (Some (JObj now)) (Some (JObj new))"
    by (simp only: undo_objects [OF that])
  show ?thesis
    using merge undo_unchanged undo_not_present undo_latest by blast
qed

end
