(* ===== verification/Forget.thy ===== *)
theory Forget
  imports Gmail_Intake Merge_Facts
begin

section \<open>Forgetting a Gmail message\<close>

text \<open>
  \<^verbatim>\<open>webapp/services/gmail_forget_service.py\<close>: the deletion receipt is written first and blocks every
  later read; then the index, the pending marker, the actions and the overviews are cleaned, the
  stored content is purged and the receipt is completed.  Every step can be repeated.
\<close>

subsection \<open>Repairing an overview\<close>

definition gives_evidence :: "string \<Rightarrow> string \<Rightarrow> bool" where
  "gives_evidence sid evidence_id \<longleftrightarrow> startswith evidence_id (sid @ ''_r'')"

definition repair_tag :: "string \<Rightarrow> string" where
  "repair_tag sid = ''gmail-forget-v1-'' @ sid"

text \<open>The versions that added or replaced evidence of the message, with their parents.\<close>

definition attributed :: "string \<Rightarrow> version \<Rightarrow> bool" where
  "attributed sid v \<longleftrightarrow> (case vs_change_set v of
     None \<Rightarrow> False | Some cs \<Rightarrow> list_ex (\<lambda>s. gives_evidence sid (sc_id s)) (chs_sources cs))"

definition transitions_of :: "string \<Rightarrow> version list \<Rightarrow> (version \<times> version) list" where
  "transitions_of sid history = filter (\<lambda>(parent, child). attributed sid child) (zip history (tl history))"

text \<open>A model run that saw the message's overview as its base may have copied from it.\<close>

definition may_have_copied :: "(version \<times> version) list \<Rightarrow> version list \<Rightarrow> bool" where
  "may_have_copied transitions history \<longleftrightarrow> list_ex (\<lambda>v. vs_revision v > vs_revision (snd (hd transitions))
     \<and> vs_version_id v \<notin> set (map (\<lambda>t. vs_version_id (snd t)) transitions)
     \<and> gp_runtime (vs_provenance v) \<notin> {''human_edit'', ''gmail_forget''}) history"

fun undo_chain :: "(version \<times> version) list \<Rightarrow> json option \<Rightarrow> unsafe_merge + json option" where
  "undo_chain [] j = Inr j"
| "undo_chain ((parent, child) # ts) j =
     (case undo (Some (candidate_json (vs_state parent))) (Some (candidate_json (vs_state child))) j of
        Inl e \<Rightarrow> Inl e | Inr j' \<Rightarrow> undo_chain ts j')"

text \<open>\<^verbatim>\<open>OpportunityStateCandidate.model_validate\<close>; every failure of the merge withholds the overview.\<close>

definition repaired_state :: "(version \<times> version) list \<Rightarrow> candidate \<Rightarrow> candidate option" where
  "repaired_state transitions c = (case undo_chain (rev transitions) (Some (candidate_json c)) of
     Inr (Some j) \<Rightarrow> parse_candidate j | _ \<Rightarrow> None)"

definition forget_provenance :: "string \<Rightarrow> provenance" where
  "forget_provenance sid = \<lparr>gp_updater_version = repair_tag sid, gp_model = ''none'',
     gp_runtime = ''gmail_forget'', gp_cli_version = ''n/a''\<rparr>"

definition promote_repair :: "string \<Rightarrow> version \<Rightarrow> candidate \<Rightarrow> (store, overview_cleanup) op" where
  "promote_repair sid current st =
     (let manifest = filter (\<lambda>e. \<not> gives_evidence sid (me_id e)) (vs_manifest current) in
      catch (bnd (promote_update (vs_identity current) (vs_version_id current) (vs_revision current) manifest
               (evidence_manifest_hash manifest) (forget_provenance sid) st) (\<lambda>_. ret Repaired))
        (\<lambda>e. case e of ValueError \<Rightarrow> ret OverviewWithheld | ValidationError \<Rightarrow> ret OverviewWithheld
           | OpportunityStateError status code \<Rightarrow> ret OverviewWithheld | _ \<Rightarrow> raise e))"

definition repair_overview :: "string \<Rightarrow> string \<Rightarrow> string \<Rightarrow> (store, overview_cleanup) op" where
  "repair_overview sid account slug = bnd (read_history_unfiltered account slug) (\<lambda>history.
     if history = [] then ret NotPresent
     else if list_ex (\<lambda>v. gp_updater_version (vs_provenance v) = repair_tag sid) history then ret Repaired
     else (let transitions = transitions_of sid history in
       if transitions = [] then ret OverviewWithheld
       else if may_have_copied transitions history then ret OverviewWithheld
       else (case repaired_state transitions (vs_state (last history)) of
          None \<Rightarrow> ret OverviewWithheld
        | Some st \<Rightarrow> promote_repair sid (last history) st)))"

text \<open>\<^verbatim>\<open>_affected_opportunities\<close>: the directories in the order of the listing, which is arbitrary.\<close>

definition affects :: "string \<Rightarrow> version list \<Rightarrow> bool" where
  "affects sid history \<longleftrightarrow> list_ex (\<lambda>v. list_ex (\<lambda>e. gives_evidence sid (me_id e)) (vs_manifest v)) history"

definition check_opportunity :: "string \<Rightarrow> string \<times> string \<Rightarrow> (string \<times> string) list \<Rightarrow> (store, (string \<times> string) list) op" where
  "check_opportunity sid k found = catch
     (bnd (read_history_unfiltered (fst k) (snd k)) (\<lambda>history.
        ret (if affects sid history then found @ [k] else found)))
     (\<lambda>e. case e of OpportunityStateError status code \<Rightarrow> if code = ''unknown_account'' then ret found else raise e
        | _ \<Rightarrow> raise e)"

definition affected_opportunities :: "string \<Rightarrow> (store, (string \<times> string) list) op" where
  "affected_opportunities sid = bnd (read_st (\<lambda>s. map fst (ss_dirs s))) (\<lambda>ks. fold_op (check_opportunity sid) ks [])"

subsection \<open>The whole forget\<close>

definition touches :: "string \<Rightarrow> action \<Rightarrow> bool" where
  "touches sid a \<longleftrightarrow> sr_source_id (act_origin a) = sid \<or> list_ex (\<lambda>r. sr_source_id r = sid) (act_evidence a)
     \<or> list_ex (\<lambda>s. sr_source_id (cs_source s) = sid) (act_suggestions a)"

definition forget_move :: "string \<Rightarrow> string \<times> string \<Rightarrow> move" where
  "forget_move sid k = \<lparr>mv_source_id = sid, mv_account = fst k, mv_slug = snd k, mv_to_account = None,
     mv_to_slug = None, mv_reason = ''Gmail message forgotten''\<rparr>"

definition retract_everywhere :: "string \<Rightarrow> (world, unit) op" where
  "retract_everywhere sid = bnd all_actions (\<lambda>as.
     for_each (\<lambda>k. bnd (retract_source (forget_move sid k) False) (\<lambda>_. ret ()))
       (sort (remdups (map (\<lambda>a. (act_account a, act_slug a)) (filter (touches sid) as)))))"

definition worse :: "overview_cleanup \<Rightarrow> overview_cleanup \<Rightarrow> overview_cleanup" where
  "worse result status = (if result = OverviewWithheld then OverviewWithheld
     else if status \<noteq> OverviewWithheld then Repaired else status)"

definition clean_overviews :: "string \<Rightarrow> (world, overview_cleanup) op" where
  "clean_overviews sid = bnd (in_store (affected_opportunities sid)) (\<lambda>ks.
     fold_op (\<lambda>k status. bnd (in_store (repair_overview sid (fst k) (snd k))) (\<lambda>result. ret (worse result status)))
       ks NotPresent)"

definition forget_steps :: "string \<Rightarrow> (gmail_world, forget_receipt) op" where
  "forget_steps sid = bnd (forget_index sid) (\<lambda>_.
     bnd (in_world (remove_pending sid)) (\<lambda>_.
     bnd (in_world (retract_everywhere sid)) (\<lambda>_.
     bnd (in_world (clean_overviews sid)) (\<lambda>status.
     bnd (in_evidence (purge_forgotten_source sid)) (\<lambda>_.
     in_evidence (finish_forget sid status))))))"

definition forget :: "string \<Rightarrow> (gmail_world, forget_receipt) op" where
  "forget sid = bnd (in_evidence (get_forget_receipt sid)) (\<lambda>receipt. case receipt of
     Some r \<Rightarrow> if fr_status r = ForgetComplete then ret r else forget_steps sid
   | None \<Rightarrow> bnd (in_evidence (begin_forget sid)) (\<lambda>_. forget_steps sid))"

end
