(* ===== verification/Forget_Facts.thy ===== *)
theory Forget_Facts
  imports Forget Correction_Facts
begin

section \<open>Facts about forgetting a message\<close>

text \<open>
  How the steps of \<^verbatim>\<open>forget\<close> compose: the retraction over all opportunities, the removal of the
  pending marker and of the index entry, and the repair of an overview.
\<close>

subsection \<open>Actions\<close>

definition clear_of :: "string \<Rightarrow> action \<Rightarrow> bool" where
  "clear_of sid a \<longleftrightarrow> free_of (forget_move sid ('''', '''')) a"

lemma free_of_move: "free_of (forget_move sid k) a = clear_of sid a"
  by (simp add: clear_of_def free_of_def forget_move_def originates_def contributes_def suggests_def)

lemma untouched_clear: "\<not> touches sid a \<Longrightarrow> clear_of sid a"
  by (auto simp: clear_of_def free_of_def touches_def originates_def contributes_def suggests_def forget_move_def list_ex_iff)

abbreviation forget_one :: "string \<Rightarrow> string \<times> string \<Rightarrow> (world, unit) op" where
  "forget_one sid k \<equiv> bnd (retract_source (forget_move sid k) False) (\<lambda>_. ret ())"

lemma distinct_files_kept:
  assumes "retract_source m revert w = (r, w')" and "distinct (map fst (w_actions w))"
  shows "distinct (map fst (w_actions w'))"
  using obeysD [OF file_service.obeys_retract_source assms(1)] assms(2) by (simp add: keeps_files_def)

lemma forget_keys:
  assumes "for_each (forget_one sid) ks w = (Inr (), w')" and "distinct (map fst (w_actions w))"
    and "stored_action w (act_id a) a" and "startswith (act_id a) ''act_''"
  shows "distinct (map fst (w_actions w')) \<and> (\<exists>a'. stored_action w' (act_id a) a' \<and> act_core a' = act_core a
    \<and> ((act_account a, act_slug a) \<in> set ks \<or> clear_of sid a \<longrightarrow> clear_of sid a'))"
  using assms
proof (induction ks arbitrary: w a)
  case Nil
  then show ?case by (auto simp: ret_def)
next
  case (Cons k ks)
  from Cons.prems(1) obtain c w1 where one: "retract_source (forget_move sid k) False w = (Inr c, w1)"
    and rest: "for_each (forget_one sid) ks w1 = (Inr (), w')" by (auto simp: ret_def elim!: bnd_InrE)
  from retract_source_action [OF one Cons.prems(2-4)] obtain b where
    b: "stored_action w1 (act_id a) b" "act_core b = act_core a"
    "names_opportunity (fst k) (snd k) a \<longrightarrow> clear_of sid b" "\<not> names_opportunity (fst k) (snd k) a \<longrightarrow> b = a"
    unfolding free_of_move by (auto simp: forget_move_def)
  have core: "act_id b = act_id a" "act_account b = act_account a" "act_slug b = act_slug a"
    using b(2) by (simp_all add: act_core_def)
  have d: "distinct (map fst (w_actions w1))" using distinct_files_kept [OF one Cons.prems(2)] .
  from Cons.IH [OF rest d, of b] b(1) core Cons.prems(4) obtain a' where
    a': "stored_action w' (act_id a) a'" "act_core a' = act_core b" "distinct (map fst (w_actions w'))"
    "(act_account a, act_slug a) \<in> set ks \<or> clear_of sid b \<longrightarrow> clear_of sid a'" by auto
  with b core show ?case by (auto simp: names_opportunity_def)
qed

lemma all_actions_complete:
  assumes "all_actions w = (Inr all, w')" and "distinct (map fst (w_actions w))"
    and "stored_action w (act_id a) a" and "startswith (act_id a) ''act_''"
  shows "w' = w \<and> a \<in> set all"
proof -
  have "opportunity_actions (act_account a) (act_slug a) w
      = (Inr (filter (\<lambda>b. act_account b = act_account a \<and> act_slug b = act_slug a) all), w')"
    using assms(1) by (simp add: opportunity_actions_def bnd_def ret_def)
  from opportunity_actions_mirror [OF this assms(2)] assms(3,4) show ?thesis
    unfolding action_mirror_def by (auto simp: names_opportunity_def)
qed

lemma retract_everywhere_clears:
  assumes "retract_everywhere sid w = (Inr (), w')" and "distinct (map fst (w_actions w))"
    and "stored_action w (act_id a) a" and "startswith (act_id a) ''act_''"
  shows "\<exists>a'. stored_action w' (act_id a) a' \<and> act_core a' = act_core a \<and> clear_of sid a'"
proof -
  from assms(1) obtain all w1 where all: "all_actions w = (Inr all, w1)"
    and each: "for_each (forget_one sid) (sort (remdups (map (\<lambda>a. (act_account a, act_slug a)) (filter (touches sid) all)))) w1
      = (Inr (), w')"
    unfolding retract_everywhere_def by (elim bnd_InrE)
  have a: "w1 = w" "a \<in> set all" using all_actions_complete [OF all assms(2-4)] by simp_all
  from forget_keys [OF each [unfolded a(1)] assms(2-4)] a(2) untouched_clear [of sid a]
  show ?thesis by auto
qed

subsection \<open>The marker and the index\<close>

definition marker_gone :: "string \<Rightarrow> world \<Rightarrow> world \<Rightarrow> bool" where
  "marker_gone sid w w' \<longleftrightarrow> (map_of (w_pending w) sid = None \<longrightarrow> map_of (w_pending w') sid = None)"

interpretation gone: state_relation "marker_gone sid" for sid
  by unfold_locales (auto simp: marker_gone_def)

lemma gone_pure: "obeys (=) m \<Longrightarrow> obeys (marker_gone sid) m"
  by (auto simp: obeys_def marker_gone_def)

lemma gone_append_change: "obeys (marker_gone sid) (append_change account slug g)"
  by (rule obeysI) (auto simp: marker_gone_def elim: append_changeE)

lemma gone_retract_source: "obeys (marker_gone sid) (retract_source m False)"
proof -
  have w: "obeys (marker_gone sid) (write_action a)" for a
    unfolding write_action_def by (rule gone.obeys_modify) (simp add: marker_gone_def)
  have n: "obeys (marker_gone sid) ops_now" by (simp add: obeys_def ops_now_def marker_gone_def)
  have p: "obeys (=) (read_pending s)" for s
    unfolding read_pending_def runs_dir_def
    by (auto intro!: world_frame.obeys_bnd world_frame.obeys_if world_frame.obeys_basic pure_read_record split: option.split)
  have r: "obeys (marker_gone sid) (remove_pending s)" for s
    unfolding remove_pending_def runs_dir_def
    by (intro gone.obeys_bnd gone.obeys_if gone.obeys_basic gone.obeys_modify) (simp add: marker_gone_def)
  have a: "obeys (marker_gone sid) (retract_action m now a c)" for now a c
    unfolding retract_action_def retraction_changes_def user_change_def Let_def
    by (intro gone.obeys_bnd gone.obeys_if gone.obeys_basic gone_append_change w)
  show ?thesis
    unfolding retract_source_def
    by (intro gone.obeys_bnd gone.obeys_if gone.obeys_basic gone.obeys_fold_op n gone_pure [OF p]
        gone_pure [OF pure_opportunity_actions] a)
      (auto intro!: gone.obeys_if gone.obeys_basic r split: option.split)
qed

lemma gone_retract_everywhere: "obeys (marker_gone sid) (retract_everywhere sid')"
proof -
  have "obeys (=) all_actions"
    unfolding all_actions_def
    by (intro world_frame.obeys_bnd world_frame.obeys_basic world_frame.obeys_map_op pure_load_action)
  from gone_pure [OF this] show ?thesis
    unfolding retract_everywhere_def
    by (intro gone.obeys_bnd gone.obeys_for_each gone_retract_source gone.obeys_basic)
qed

end
