(* ===== verification/Parse_Facts.thy ===== *)
theory Parse_Facts
  imports Overview_Parse
begin

section \<open>The order of keys does not matter to the parser\<close>

text \<open>
  A stored version is the canonical text of its dump, whose keys are sorted.  Reading the sorted
  form gives the candidate as well, so canonical bytes determine a valid candidate.
\<close>

fun wf_json :: "json \<Rightarrow> bool" and wf_items :: "json list \<Rightarrow> bool" and wf_members :: "members \<Rightarrow> bool" where
  "wf_json (JObj kvs) \<longleftrightarrow> distinct (map fst kvs) \<and> wf_members kvs"
| "wf_json (JList xs) \<longleftrightarrow> wf_items xs"
| "wf_json j \<longleftrightarrow> True"
| "wf_items [] \<longleftrightarrow> True"
| "wf_items (x # xs) \<longleftrightarrow> wf_json x \<and> wf_items xs"
| "wf_members [] \<longleftrightarrow> True"
| "wf_members ((k, v) # kvs) \<longleftrightarrow> wf_json v \<and> wf_members kvs"

lemma wf_items_iff: "wf_items xs \<longleftrightarrow> (\<forall>x \<in> set xs. wf_json x)"
  by (induction xs) auto

lemma wf_member: "wf_members kvs \<Longrightarrow> map_of kvs k = Some v \<Longrightarrow> wf_json v"
  by (induction kvs) (auto split: if_splits)

text \<open>A reader that gives the same result on the sorted form.\<close>

definition order_free :: "(json \<Rightarrow> 'a option) \<Rightarrow> bool" where
  "order_free p \<longleftrightarrow> (\<forall>j. wf_json j \<longrightarrow> p (canon j) = p j)"

definition sorted_members :: "members \<Rightarrow> members" where
  "sorted_members kvs = sort_key fst (canon_members kvs)"

lemma map_of_sorted:
  assumes "distinct (map fst kvs)"
  shows "map_of (sorted_members kvs) k = map_option canon (map_of kvs k)"
proof -
  have d: "distinct (map fst (canon_members kvs))" using assms by (simp add: fst_canon_members)
  then have "distinct (map fst (sorted_members kvs))" by (simp add: sorted_members_def distinct_map)
  then have "map_of (sorted_members kvs) = map_of (canon_members kvs)"
    using d by (intro map_of_inject_set [THEN iffD2]) (simp_all add: sorted_members_def)
  then show ?thesis by (simp add: map_of_canon_members)
qed

lemma needed_sorted:
  assumes "order_free p" and "distinct (map fst kvs)" and "wf_members kvs"
  shows "needed k p (sorted_members kvs) = needed k p kvs"
  using assms wf_member [OF assms(3), of k]
  by (auto simp: needed_def map_of_sorted order_free_def split: option.splits)

lemma defaulted_sorted:
  assumes "order_free p" and "distinct (map fst kvs)" and "wf_members kvs"
  shows "defaulted k d p (sorted_members kvs) = defaulted k d p kvs"
  using assms wf_member [OF assms(3), of k]
  by (auto simp: defaulted_def map_of_sorted order_free_def split: option.splits)

lemma order_free_str: "order_free parse_str"
  unfolding order_free_def
proof (intro allI impI)
  fix j show "parse_str (canon j) = parse_str j" by (cases j) (simp_all add: parse_str_def)
qed

lemma order_free_text: "order_free parse_text"
  using order_free_str by (simp add: order_free_def parse_text_def)

lemma order_free_stamp: "order_free parse_stamp"
  using order_free_str by (simp add: order_free_def parse_stamp_def)

lemma order_free_enum: "order_free (parse_enum value values)"
  using order_free_str by (simp add: order_free_def parse_enum_def)

lemma canon_null: "canon j = JNull \<longleftrightarrow> j = JNull"
  by (cases j) simp_all

lemma order_free_opt: "order_free p \<Longrightarrow> order_free (parse_opt p)"
  by (simp add: order_free_def parse_opt_def canon_null)

lemma order_free_list:
  assumes "order_free p"
  shows "order_free (parse_list p)"
  unfolding order_free_def
proof (intro allI impI)
  fix j assume "wf_json j"
  then show "parse_list p (canon j) = parse_list p j"
  proof (cases j)
    case (JList xs)
    then have "map p (canon_items xs) = map p xs"
      using assms \<open>wf_json j\<close> by (simp add: canon_items_map wf_items_iff order_free_def)
    with JList show ?thesis by (simp add: parse_list_def)
  qed (simp_all add: parse_list_def)
qed

lemma order_free_schema: "order_free parse_schema_version"
  unfolding order_free_def
proof (intro allI impI)
  fix j show "parse_schema_version (canon j) = parse_schema_version j"
    by (cases j) (simp_all add: parse_schema_version_def)
qed

lemma order_free_model:
  assumes "\<And>kvs. distinct (map fst kvs) \<Longrightarrow> wf_members kvs \<Longrightarrow> p (sorted_members kvs) = p kvs"
  shows "order_free (parse_model names p valid)"
  unfolding order_free_def
proof (intro allI impI)
  fix j assume wf: "wf_json j"
  show "parse_model names p valid (canon j) = parse_model names p valid j"
  proof (cases j)
    case (JObj kvs)
    have "list_all (\<lambda>kv. fst kv \<in> set names) (sorted_members kvs) = list_all (\<lambda>kv. fst kv \<in> set names) kvs"
    proof -
      have "fst ` set (sorted_members kvs) = fst ` set kvs"
        using fst_canon_members [of kvs] by (simp add: sorted_members_def flip: set_map)
      moreover have "list_all (\<lambda>kv. fst kv \<in> set names) xs \<longleftrightarrow> fst ` set xs \<subseteq> set names" for xs :: members
        by (auto simp: list_all_iff)
      ultimately show ?thesis by simp
    qed
    with JObj wf assms [of kvs] show ?thesis by (simp add: parse_model_def sorted_members_def)
  qed (simp_all add: parse_model_def)
qed

named_theorems order_intros \<open>readers that do not depend on the order of keys\<close>

declare order_free_text [order_intros] order_free_str [order_intros] order_free_stamp [order_intros]
  order_free_enum [order_intros] order_free_opt [order_intros] order_free_list [order_intros]
  order_free_schema [order_intros]

lemmas sorted_simps = needed_sorted defaulted_sorted

lemma order_free_enums [order_intros]:
  "order_free parse_knowledge" "order_free parse_confidence" "order_free parse_confirmation"
  "order_free parse_evidence_type" "order_free parse_dimension_key" "order_free parse_health_key"
  "order_free parse_health_status" "order_free parse_severity" "order_free parse_risk_class"
  "order_free parse_recommended_status" "order_free parse_category" "order_free parse_influence"
  "order_free parse_engagement" "order_free parse_stance" "order_free parse_blocker"
  by (simp_all add: parse_knowledge_def parse_confidence_def parse_confirmation_def parse_evidence_type_def
    parse_dimension_key_def parse_health_key_def parse_health_status_def parse_severity_def
    parse_risk_class_def parse_recommended_status_def parse_category_def parse_influence_def
    parse_engagement_def parse_stance_def parse_blocker_def order_free_enum)

lemma order_free_evidence_ref [order_intros]: "order_free parse_evidence_ref"
  unfolding parse_evidence_ref_def by (rule order_free_model) (simp add: sorted_simps order_intros)

lemma order_free_claim [order_intros]: "order_free parse_claim"
  unfolding parse_claim_def by (rule order_free_model) (simp add: sorted_simps order_intros)

lemma order_free_area [order_intros]: "order_free parse_area"
  unfolding parse_area_def by (rule order_free_model) (simp add: sorted_simps order_intros)

lemma order_free_parts [order_intros]:
  "order_free parse_business_case" "order_free parse_brief" "order_free parse_indicator" "order_free parse_risk"
  "order_free parse_recommended" "order_free parse_missing" "order_free parse_stakeholder" "order_free parse_dimension"
  unfolding parse_business_case_def parse_brief_def parse_indicator_def parse_risk_def parse_recommended_def
    parse_missing_def parse_stakeholder_def parse_dimension_def
  by (rule order_free_model, simp add: sorted_simps order_intros)+

lemma order_free_groups [order_intros]: "order_free parse_meddpicc" "order_free parse_stakeholder_map"
  unfolding parse_meddpicc_def parse_stakeholder_map_def
  by (rule order_free_model, simp add: sorted_simps order_intros)+

lemma order_free_candidate: "order_free parse_candidate"
  unfolding parse_candidate_def by (rule order_free_model) (simp add: sorted_simps order_intros)

subsection \<open>Dumps have distinct keys\<close>

lemma wf_opt: "(\<And>v. x = Some v \<Longrightarrow> wf_json (f v)) \<Longrightarrow> wf_json (j_opt f x)"
  by (cases x) auto

lemma wf_texts [simp]: "wf_json (jtext x)" "wf_json (jtexts xs)" "wf_json (jtime t)"
  by (auto simp: jtext_def jtexts_def jtime_def wf_items_iff intro: wf_opt split: option.split)

lemma wf_refs [simp]: "wf_json (jrefs rs)"
  by (auto simp: jrefs_def wf_items_iff evidence_ref_json_def)

lemma wf_claim [simp]: "wf_json (JObj (claim_members c))"
  by (simp add: claim_members_def)

lemma wf_area [simp]: "wf_json (JObj (area_members a))"
  using wf_claim by (simp add: area_members_def)

lemma wf_models [simp]:
  "wf_json (JObj (dimension_members d))" "wf_json (JObj (indicator_members h))" "wf_json (JObj (risk_members r))"
  "wf_json (JObj (recommended_members a))" "wf_json (JObj (missing_members m))" "wf_json (JObj (stakeholder_members s))"
  using wf_claim
  by (simp_all add: dimension_members_def indicator_members_def risk_members_def recommended_members_def
      missing_members_def stakeholder_members_def)

lemma wf_list: "(\<And>x. wf_json (f x)) \<Longrightarrow> wf_json (JList (map f xs))"
  by (auto simp: wf_items_iff)

lemma wf_int: "wf_json (JInt i)"
  by simp

lemma wf_object: "distinct (map fst kvs) \<Longrightarrow> wf_members kvs \<Longrightarrow> wf_json (JObj kvs)"
  by simp

lemma wf_lists:
  "wf_json (JList (map (\<lambda>d. JObj (dimension_members d)) ds))" "wf_json (JList (map (\<lambda>h. JObj (indicator_members h)) hs))"
  "wf_json (JList (map (\<lambda>r. JObj (risk_members r)) rs))" "wf_json (JList (map (\<lambda>a. JObj (recommended_members a)) as))"
  "wf_json (JList (map (\<lambda>m. JObj (missing_members m)) ms))" "wf_json (JList (map (\<lambda>s. JObj (stakeholder_members s)) ss))"
  "wf_json (JList (map (\<lambda>r. JStr (category_value r)) cs))"
  by (rule wf_list, rule wf_models)+ (rule wf_list, simp)

lemma wf_candidate: "wf_json (candidate_json c)"
proof -
  have "wf_json (JObj (map (\<lambda>(k, x). (k, JObj (claim_members x))) (brief_claims (cd_brief c))))"
    using wf_claim by (simp add: brief_claims_def)
  moreover have "wf_json (JObj (map (\<lambda>(k, x). (k, JObj (area_members x))) (case_areas (cd_business_case c))))"
    using wf_area by (simp add: case_areas_def)
  moreover have "wf_json (JObj [(''dimensions'', JList (map (\<lambda>d. JObj (dimension_members d)) ds))])" for ds
    by (rule wf_object) (simp_all only: wf_members.simps wf_lists, simp)
  moreover have "wf_json (JObj [(''stakeholders'', JList (map (\<lambda>s. JObj (stakeholder_members s)) ss)),
      (''missing_key_roles'', JList (map (\<lambda>r. JStr (category_value r)) cs)), (''missing_information'', jtexts ms)])" for ss cs ms
    by (rule wf_object) (simp_all only: wf_members.simps wf_lists wf_texts, simp)
  ultimately show ?thesis
    unfolding candidate_json_def
    by (intro wf_object) (simp_all only: wf_members.simps wf_lists wf_int simp_thms, simp)
qed

lemma parse_canon_json:
  assumes "valid_candidate_state c" and "candidate_times_ok c"
  shows "parse_candidate (canon (candidate_json c)) = Some c"
proof -
  have "parse_candidate (canon (candidate_json c)) = parse_candidate (candidate_json c)"
    using order_free_candidate wf_candidate [of c] unfolding order_free_def by blast
  then show ?thesis by (simp only: parse_candidate_json [OF assms])
qed

lemma candidate_json_inj:
  assumes "valid_candidate_state c" "candidate_times_ok c" "valid_candidate_state d" "candidate_times_ok d"
    and "canon (candidate_json c) = canon (candidate_json d)"
  shows "c = d"
  using parse_canon_json [OF assms(1,2)] parse_canon_json [OF assms(3,4)] unfolding assms(5) by (simp only: option.inject)

end
