(* ===== verification/Forget_Claims.thy ===== *)
theory Forget_Claims
  imports Forget_Facts Parse_Facts State_Claims
begin

section \<open>What forgetting a message guarantees\<close>

text \<open>
  The properties of \<^verbatim>\<open>GmailForgetService\<close>: the laws of its merge, the overview it restores, and the
  state in which a completed forget leaves the workspace.
\<close>

subsection \<open>The completed forget\<close>

lemma in_world_eq: "in_world m g = (case m (gm_world g) of (r, w') \<Rightarrow> (r, g\<lparr>gm_world := w'\<rparr>))"
  by (simp add: in_world_def zoom_def)

lemma in_worldE:
  assumes "in_world m g = (r, g')"
  obtains w' where "m (gm_world g) = (r, w')" and "g' = g\<lparr>gm_world := w'\<rparr>"
  using assms by (auto simp: in_world_eq split: prod.splits)

lemma in_evidenceE:
  assumes "in_evidence m g = (r, g')"
  obtains l' where "m (w_ledger (gm_world g)) = (r, l')" and "g' = g\<lparr>gm_world := (gm_world g)\<lparr>w_ledger := l'\<rparr>\<rparr>"
  using assms unfolding in_evidence_def in_ledger_def
  by (elim in_worldE) (auto simp: zoom_def split: prod.splits)

lemma forget_indexD:
  assumes "forget_index sid g = (Inr (), g')"
  shows "gm_world g' = gm_world g \<and> (\<forall>kvs. gm_index g' = IndexFile kvs \<longrightarrow> map_of kvs sid = None)"
  using assms by (auto simp: forget_index_def bnd_def read_st_def ret_def raise_def modify_st_def
      split: index_file.splits if_splits)

definition only_store :: "world \<Rightarrow> world \<Rightarrow> bool" where
  "only_store w w' \<longleftrightarrow> w_actions w' = w_actions w \<and> w_pending w' = w_pending w \<and> w_ledger w' = w_ledger w"

interpretation store_only: state_relation only_store
  by unfold_locales (auto simp: only_store_def)

lemma only_store_in_store: "obeys only_store (in_store m)"
  unfolding in_store_def by (rule store_only.obeys_zoom) (simp add: only_store_def)

lemma clean_overviews_frame: "obeys only_store (clean_overviews sid)"
  unfolding clean_overviews_def
  by (intro store_only.obeys_bnd store_only.obeys_fold_op store_only.obeys_basic only_store_in_store)

text \<open>The state after the steps of a forget that returned.\<close>

lemma forget_stepsD:
  assumes "forget_steps sid g = (Inr r, g')" and "distinct (map fst (w_actions (gm_world g)))"
  shows "fr_status r = ForgetComplete
    \<and> map_of (lg_forgotten (w_ledger (gm_world g'))) sid = Some (Intact r)
    \<and> map_of (lg_sources (w_ledger (gm_world g'))) sid = None
    \<and> (\<forall>entry \<in> set (lg_contents (w_ledger (gm_world g'))). fst (fst entry) \<noteq> sid)
    \<and> (\<forall>kvs. gm_index g' = IndexFile kvs \<longrightarrow> map_of kvs sid = None)
    \<and> map_of (w_pending (gm_world g')) sid = None
    \<and> (\<forall>a. stored_action (gm_world g) (act_id a) a \<longrightarrow> startswith (act_id a) ''act_'' \<longrightarrow>
        (\<exists>a'. stored_action (gm_world g') (act_id a) a' \<and> act_core a' = act_core a \<and> clear_of sid a'))"
proof -
  from assms(1) obtain g1 g2 g3 g4 g5 st where 1: "forget_index sid g = (Inr (), g1)"
    and 2: "in_world (remove_pending sid) g1 = (Inr (), g2)" and 3: "in_world (retract_everywhere sid) g2 = (Inr (), g3)"
    and 4: "in_world (clean_overviews sid) g3 = (Inr st, g4)" and 5: "in_evidence (purge_forgotten_source sid) g4 = (Inr (), g5)"
    and 6: "in_evidence (finish_forget sid st) g5 = (Inr r, g')"
    unfolding forget_steps_def by (elim bnd_InrE) auto
  note i = forget_indexD [OF 1]
  from 2 obtain w2 where w2: "remove_pending sid (gm_world g1) = (Inr (), w2)" and g2: "g2 = g1\<lparr>gm_world := w2\<rparr>" by (rule in_worldE)
  from 3 obtain w3 where w3: "retract_everywhere sid w2 = (Inr (), w3)" and g3: "g3 = g1\<lparr>gm_world := w3\<rparr>"
    unfolding g2 by (rule in_worldE) simp
  from 4 obtain w4 where w4: "clean_overviews sid w3 = (Inr st, w4)" and g4: "g4 = g1\<lparr>gm_world := w4\<rparr>"
    unfolding g3 by (rule in_worldE) simp
  from 5 obtain l5 where l5: "purge_forgotten_source sid (w_ledger w4) = (Inr (), l5)"
    and g5: "g5 = g1\<lparr>gm_world := w4\<lparr>w_ledger := l5\<rparr>\<rparr>" unfolding g4 by (rule in_evidenceE) simp
  from 6 obtain l6 where l6: "finish_forget sid st l5 = (Inr r, l6)"
    and g': "g' = g1\<lparr>gm_world := w4\<lparr>w_ledger := l6\<rparr>\<rparr>" unfolding g5 by (rule in_evidenceE) simp
  have pend2: "map_of (w_pending w2) sid = None" and act2: "w_actions w2 = w_actions (gm_world g)"
    using w2 i by (auto simp: remove_pending_def runs_dir_def op_defs split: if_splits)
  have "map_of (w_pending w3) sid = None"
    using obeysD [OF gone_retract_everywhere w3, of sid] pend2 by (simp add: marker_gone_def)
  moreover have frame: "w_actions w4 = w_actions w3" "w_pending w4 = w_pending w3"
    using obeysD [OF clean_overviews_frame w4] by (simp_all add: only_store_def)
  moreover have "\<exists>a'. stored_action w3 (act_id a) a' \<and> act_core a' = act_core a \<and> clear_of sid a'"
    if "stored_action (gm_world g) (act_id a) a" "startswith (act_id a) ''act_''" for a
    using retract_everywhere_clears [OF w3 _ _ that(2)] assms(2) act2 that(1) by (simp add: stored_action_def)
  moreover have "map_of (lg_sources l5) sid = None" "\<forall>entry \<in> set (lg_contents l5). fst (fst entry) \<noteq> sid"
    using l5 by (auto simp: purge_forgotten_source_def is_forgotten_def op_defs split: if_splits)
  moreover have "fr_status r = ForgetComplete \<and> map_of (lg_forgotten l6) sid = Some (Intact r)
      \<and> lg_sources l6 = lg_sources l5 \<and> lg_contents l6 = lg_contents l5"
  proof -
    from l6 obtain rc l where "get_forget_receipt sid l5 = (Inr (Some rc), l)"
      and "l6 = l\<lparr>lg_forgotten := AList.update sid (Intact r) (lg_forgotten l)\<rparr>" "fr_status r = ForgetComplete"
      by (auto simp: finish_forget_def Let_def modify_st_def ret_def raise_def bnd_def split: prod.splits sum.splits option.splits)
    moreover from this(1) have "l = l5"
      using obeys_forget_receipt by (auto simp: obeys_def)
    ultimately show ?thesis by simp
  qed
  ultimately show ?thesis using g' i by (auto simp: stored_action_def)
qed


text \<open>C37: a completed forget leaves nothing of the message.  When \<^verbatim>\<open>forget\<close> returned and the message was not
  forgotten before, its receipt is complete and stored, its source record and every stored revision of
  its content are gone, the index and the pending markers no longer name it, and every stored action
  keeps its identity and commitment but neither originates in the message without being retracted,
  nor counts it as effective evidence, nor shows an open completion suggestion of it.\<close>

theorem forget_complete:
  assumes "forget sid g = (Inr r, g')" and "distinct (map fst (w_actions (gm_world g)))"
    and "\<forall>r0. map_of (lg_forgotten (w_ledger (gm_world g))) sid = Some (Intact r0) \<longrightarrow> fr_status r0 \<noteq> ForgetComplete"
  shows "fr_status r = ForgetComplete
    \<and> map_of (lg_forgotten (w_ledger (gm_world g'))) sid = Some (Intact r)
    \<and> map_of (lg_sources (w_ledger (gm_world g'))) sid = None
    \<and> (\<forall>entry \<in> set (lg_contents (w_ledger (gm_world g'))). fst (fst entry) \<noteq> sid)
    \<and> (\<forall>kvs. gm_index g' = IndexFile kvs \<longrightarrow> map_of kvs sid = None)
    \<and> map_of (w_pending (gm_world g')) sid = None
    \<and> (\<forall>a. stored_action (gm_world g) (act_id a) a \<longrightarrow> startswith (act_id a) ''act_'' \<longrightarrow>
        (\<exists>a'. stored_action (gm_world g') (act_id a) a' \<and> act_core a' = act_core a
          \<and> (sr_source_id (act_origin a') = sid \<longrightarrow> act_retraction a' \<noteq> None)
          \<and> (sr_source_id (act_origin a') \<noteq> sid \<longrightarrow> sid \<notin> sr_source_id ` set (effective_evidence a'))
          \<and> (\<forall>s \<in> set (act_suggestions a'). sr_source_id (cs_source s) = sid \<longrightarrow> cs_retracted_at s \<noteq> None)))"
proof -
  from assms(1) obtain receipt g1 where 1: "in_evidence (get_forget_receipt sid) g = (Inr receipt, g1)"
    and 2: "(case receipt of Some r \<Rightarrow> if fr_status r = ForgetComplete then ret r else forget_steps sid
       | None \<Rightarrow> bnd (in_evidence (begin_forget sid)) (\<lambda>_. forget_steps sid)) g1 = (Inr r, g')"
    unfolding forget_def by (elim bnd_InrE)
  from 1 obtain l' where "get_forget_receipt sid (w_ledger (gm_world g)) = (Inr receipt, l')"
    and g1: "g1 = g\<lparr>gm_world := (gm_world g)\<lparr>w_ledger := l'\<rparr>\<rparr>" by (rule in_evidenceE)
  then have stored: "map_of (lg_forgotten (w_ledger (gm_world g))) sid = map_option Intact receipt"
    by (auto simp: get_forget_receipt_def op_defs split: if_splits option.splits stored.splits sum.splits prod.splits)
  obtain g2 where steps: "forget_steps sid g2 = (Inr r, g')" and acts: "w_actions (gm_world g2) = w_actions (gm_world g)"
  proof (cases receipt)
    case None
    with 2 obtain x g2 where "in_evidence (begin_forget sid) g1 = (Inr x, g2)" and s: "forget_steps sid g2 = (Inr r, g')"
      by (auto elim: bnd_InrE)
    from this(1) have "w_actions (gm_world g2) = w_actions (gm_world g)"
      unfolding g1 by (elim in_evidenceE) simp
    with s that show ?thesis by blast
  next
    case (Some r0)
    then have "fr_status r0 \<noteq> ForgetComplete" using stored assms(3) by simp
    with 2 Some g1 that show ?thesis by simp
  qed
  note d = forget_stepsD [OF steps, unfolded acts, OF assms(2)]
  have "\<exists>a'. stored_action (gm_world g') (act_id a) a' \<and> act_core a' = act_core a
      \<and> (sr_source_id (act_origin a') = sid \<longrightarrow> act_retraction a' \<noteq> None)
      \<and> (sr_source_id (act_origin a') \<noteq> sid \<longrightarrow> sid \<notin> sr_source_id ` set (effective_evidence a'))
      \<and> (\<forall>s \<in> set (act_suggestions a'). sr_source_id (cs_source s) = sid \<longrightarrow> cs_retracted_at s \<noteq> None)"
    if "stored_action (gm_world g) (act_id a) a" "startswith (act_id a) ''act_''" for a
  proof -
    have "stored_action (gm_world g2) (act_id a) a" using that(1) acts by (simp add: stored_action_def)
    with d that(2) obtain a' where a': "stored_action (gm_world g') (act_id a) a'" "act_core a' = act_core a" "clear_of sid a'"
      by blast
    with free_of_effective [of "forget_move sid ([], [])" a'] show ?thesis
      by (intro exI [of _ a'])
        (auto simp: clear_of_def free_of_def originates_def suggests_def list_ex_iff forget_move_def)
  qed
  with d show ?thesis by blast
qed

subsection \<open>A message that is forgotten\<close>

definition demo_receipt :: forget_receipt where
  "demo_receipt = \<lparr>fr_source_id = demo_src, fr_workspace_id = ''0123456789abcdef'', fr_requested_at = [],
     fr_status = ForgetPending, fr_overview_status = None\<rparr>"

definition demo_forgetting :: ledger where
  "demo_forgetting = demo_ledger\<lparr>lg_forgotten := [(demo_src, Intact demo_receipt)]\<rparr>"

definition demo_gmail :: gmail_world where
  "demo_gmail = \<lparr>gm_world = demo_world\<lparr>w_ledger := demo_forgetting\<rparr>, gm_marker = None, gm_index = NoIndex,
     gm_clock = int, gm_ticks = 0, gm_calls = []\<rparr>"

lemma demo_forgetting_scope: "scope demo_forgetting = (Inr demo_scope, demo_forgetting)"
  using demo_scope_ok by (simp add: scope_def demo_forgetting_def demo_ledger_def op_defs)

lemma demo_receipt_found: "get_forget_receipt demo_src demo_forgetting = (Inr (Some demo_receipt), demo_forgetting)"
  using demo_src_ok demo_forgetting_scope
  by (simp add: get_forget_receipt_def bnd_def read_st_def ret_def)
    (simp add: demo_forgetting_def demo_receipt_def demo_scope_def ret_def)

lemma clean_demo:
  assumes "w_store w = demo_store"
  shows "\<exists>w'. clean_overviews demo_src w = (Inr OverviewWithheld, w') \<and> w_ledger w' = w_ledger w"
proof -
  let ?s = "(w_store w)\<lparr>ss_forgotten := forgotten_ids (w_ledger w)\<rparr>"
  let ?w = "w\<lparr>w_store := ?s\<rparr>"
  have zoomed: "in_store m w = (r, ?w) \<and> in_store m ?w = (r, ?w)" if "m ?s = (r, ?s)" for m :: "(store, 'a) op" and r
    using that by (simp add: in_store_def zoom_def)
  have h: "read_history_unfiltered ''Acme'' ''renewal'' ?s = (Inr [demo_version], ?s)"
    by (rule read_history_unfiltered_eq) (simp add: assms at_chain_frame demo_store_chain)
  have keys: "map fst (ss_dirs ?s) = [(''Acme'', ''renewal'')]" by (simp add: assms demo_store_def)
  have "affects demo_src [demo_version]"
    by (simp add: affects_def demo_version_def demo_manifest_def demo_entry_def gives_evidence_def) (simp add: demo_src_def)
  then have "affected_opportunities demo_src ?s = (Inr [(''Acme'', ''renewal'')], ?s)"
    using h keys by (simp add: affected_opportunities_def bnd_def read_st_def check_opportunity_def catch_def ret_def)
  then have a: "in_store (affected_opportunities demo_src) w = (Inr [(''Acme'', ''renewal'')], ?w)" by (rule zoomed [THEN conjunct1])
  have "gp_updater_version (vs_provenance demo_version) \<noteq> repair_tag demo_src"
    by (simp add: demo_version_def demo_provenance_def repair_tag_def)
  then have "repair_overview demo_src ''Acme'' ''renewal'' ?s = (Inr OverviewWithheld, ?s)"
    using h by (simp add: repair_overview_def bnd_def transitions_of_def ret_def)
  then have b: "in_store (repair_overview demo_src ''Acme'' ''renewal'') ?w = (Inr OverviewWithheld, ?w)" by (rule zoomed [THEN conjunct2])
  show ?thesis using a b by (simp add: clean_overviews_def bnd_def ret_def worse_def)
qed

lemma demo_forgets: "\<exists>r g'. forget demo_src demo_gmail = (Inr r, g')"
proof -
  let ?w = "gm_world demo_gmail"
  have w: "?w = demo_world\<lparr>w_ledger := demo_forgetting\<rparr>" by (simp add: demo_gmail_def)
  have own: "own_id demo_forgetting = Inr ''0123456789abcdef''"
    using demo_forgetting_scope by (simp add: own_id_def demo_scope_def)
  have rm: "remove_pending demo_src ?w = (Inr (), ?w)"
    using demo_src_ok by (simp add: remove_pending_def runs_dir_def op_defs w)
  have tokens: "opt_all safe_token (mv_to_account (forget_move demo_src k))" for k by (simp add: forget_move_def)
  have "\<exists>c w'. retract_source (forget_move demo_src (''Acme'', ''renewal'')) False ?w = (Inr c, w')
      \<and> w_ledger w' = w_ledger ?w \<and> w_store w' = w_store ?w"
    by (rule demo_retracts_any) (simp_all add: forget_move_def short_text_def in_len_def w own)
  then obtain c w' where w': "retract_source (forget_move demo_src (''Acme'', ''renewal'')) False ?w = (Inr c, w')"
    "w_ledger w' = demo_forgetting" "w_store w' = demo_store" using w by auto
  have "all_actions ?w = (Inr [demo_todo], ?w)"
    using load_demo [of ?w] demo_aid_ok(2) own
    by (simp add: all_actions_def bnd_def read_st_def ret_def demo_listing w)
  moreover have "touches demo_src demo_todo" by (simp add: touches_def demo_todo_def demo_ref_def)
  ultimately have rt: "retract_everywhere demo_src ?w = (Inr (), w')"
    using w'(1) demo_names(1) by (simp add: retract_everywhere_def bnd_def ret_def names_opportunity_def)
  obtain w4 where cl: "clean_overviews demo_src w' = (Inr OverviewWithheld, w4)" "w_ledger w4 = demo_forgetting"
    using clean_demo [OF w'(3)] w'(2) by auto
  let ?l = "demo_forgetting\<lparr>lg_contents := filter (\<lambda>entry. fst (fst entry) \<noteq> demo_src) (lg_contents demo_forgetting),
    lg_sources := AList.delete demo_src (lg_sources demo_forgetting)\<rparr>"
  have pu: "purge_forgotten_source demo_src demo_forgetting = (Inr (), ?l)"
    using demo_src_ok by (simp add: purge_forgotten_source_def is_forgotten_def op_defs) (simp add: demo_forgetting_def)
  have "scope ?l = (Inr demo_scope, ?l)"
    using demo_scope_ok by (simp add: scope_def demo_forgetting_def demo_ledger_def op_defs)
  then have "get_forget_receipt demo_src ?l = (Inr (Some demo_receipt), ?l)"
    using demo_src_ok
    by (simp add: get_forget_receipt_def bnd_def read_st_def ret_def)
      (simp add: demo_forgetting_def demo_receipt_def demo_scope_def ret_def)
  then have fi: "\<exists>r l'. finish_forget demo_src OverviewWithheld ?l = (Inr r, l')"
    by (simp add: finish_forget_def bnd_def modify_st_def ret_def Let_def)
  have ix: "forget_index demo_src demo_gmail = (Inr (), demo_gmail)"
    by (simp add: forget_index_def bnd_def read_st_def ret_def demo_gmail_def)
  have l: "in_evidence m g = (r, g\<lparr>gm_world := (gm_world g)\<lparr>w_ledger := l'\<rparr>\<rparr>)" if "m (w_ledger (gm_world g)) = (r, l')"
    for m :: "(ledger, 'a) op" and r g l'
    using that by (simp add: in_evidence_def in_world_eq in_ledger_def zoom_def)
  have re: "in_evidence (get_forget_receipt demo_src) demo_gmail = (Inr (Some demo_receipt), demo_gmail)"
    using l [of "get_forget_receipt demo_src" demo_gmail] demo_receipt_found w by (simp add: demo_gmail_def)
  have "\<exists>r g'. forget_steps demo_src demo_gmail = (Inr r, g')"
    using ix rm rt cl pu fi w'(2)
    by (auto simp: forget_steps_def bnd_def in_world_eq in_evidence_def in_ledger_def zoom_def)
  then show ?thesis using re by (simp add: forget_def bnd_def demo_receipt_def)
qed

theorem forget_complete_witness:
  "\<exists>(g' :: gmail_world) r a'. forget demo_src demo_gmail = (Inr r, g') \<and> fr_status r = ForgetComplete
     \<and> stored_action (gm_world g') demo_aid a' \<and> act_commitment a' = ''Send pricing deck'' \<and> act_retraction a' \<noteq> None"
proof -
  obtain r g' where run: "forget demo_src demo_gmail = (Inr r, g')" using demo_forgets by blast
  have "stored_action (gm_world demo_gmail) (act_id demo_todo) demo_todo" "startswith (act_id demo_todo) ''act_''"
    using demo_stored demo_names demo_aid_ok by (simp_all add: demo_gmail_def stored_action_def)
  moreover have "distinct (map fst (w_actions (gm_world demo_gmail)))" by (simp add: demo_gmail_def)
  moreover have "\<forall>r0. map_of (lg_forgotten (w_ledger (gm_world demo_gmail))) demo_src = Some (Intact r0) \<longrightarrow> fr_status r0 \<noteq> ForgetComplete"
    by (simp add: demo_gmail_def demo_forgetting_def demo_receipt_def)
  ultimately obtain a' where a': "fr_status r = ForgetComplete" "stored_action (gm_world g') (act_id demo_todo) a'"
    "act_core a' = act_core demo_todo" "sr_source_id (act_origin a') = demo_src \<longrightarrow> act_retraction a' \<noteq> None"
    using forget_complete [OF run] by blast
  have "sr_source_id (act_origin a') = demo_src" "act_commitment a' = ''Send pricing deck''"
    using a'(3) by (simp_all add: act_core_def demo_todo_def demo_ref_def)
  with a' run demo_names show ?thesis by (intro exI [of _ g'] exI [of _ r] exI [of _ a']) simp
qed

end
