(* ===== verification/Repair_Claims.thy ===== *)
theory Repair_Claims
  imports Forget_Facts Parse_Facts State_Claims
begin

section \<open>What the merge of a forgotten message restores\<close>

text \<open>
  The laws of \<^verbatim>\<open>_undo\<close>, the round trip of an overview through JSON, and the state that the repair of an
  overview promotes.
\<close>

subsection \<open>The merge and the round trip\<close>

text \<open>C39: the merge that takes an edit back works field by field.  When the inverse of the edit from \<open>old\<close> to
  \<open>new\<close> applies to \<open>now\<close>, the result is an object in which a field the edit did not touch keeps the value
  it has now, a field nobody changed after the edit gets its old value back (or vanishes, when the edit
  added it), and every other field is the merge of its own three values.\<close>

theorem undo_fieldwise:
  assumes "undo (Some (JObj old)) (Some (JObj new)) (Some (JObj now)) = Inr r"
    and "distinct (map fst old)" and "distinct (map fst new)" and "distinct (map fst now)"
  shows "\<exists>res. r = Some (JObj res) \<and> (\<forall>k.
      (jsame (map_of old k) (map_of new k) \<longrightarrow> jsame (map_of res k) (map_of now k))
    \<and> (jsame (map_of now k) (map_of new k) \<longrightarrow> jsame (map_of res k) (map_of old k))
    \<and> (\<exists>x. undo (map_of old k) (map_of new k) (map_of now k) = Inr x \<and> jsame x (map_of res k)))"
proof -
  from undo_object [OF assms] obtain res where res: "r = Some (JObj res)"
    "\<And>k. \<exists>x. undo (map_of old k) (map_of new k) (map_of now k) = Inr x \<and> jsame x (map_of res k)" by blast
  have "jsame (map_of res k) (map_of now k)" if "jsame (map_of old k) (map_of new k)" for k
  proof -
    obtain x where "undo (map_of old k) (map_of new k) (map_of now k) = Inr x" "jsame x (map_of res k)" using res(2) by blast
    with undo_unchanged [OF that, of "map_of now k"] show ?thesis by (simp add: jsame_sym)
  qed
  moreover have "jsame (map_of res k) (map_of old k)" if "jsame (map_of now k) (map_of new k)" for k
  proof -
    obtain x where x: "undo (map_of old k) (map_of new k) (map_of now k) = Inr x" "jsame x (map_of res k)" using res(2) by blast
    with undo_latest [OF that, of "map_of old k"] have "jsame x (map_of old k)" by simp
    with x(2) show ?thesis by (rule jsame_trans [OF jsame_sym])
  qed
  ultimately show ?thesis using res by blast
qed

theorem undo_fieldwise_witness:
  "\<exists>res. undo (Some (JObj [(''goal'', JInt 1)])) (Some (JObj [(''goal'', JInt 2)])) (Some (JObj [(''goal'', JInt 2), (''note'', JInt 3)]))
      = Inr (Some (JObj res)) \<and> jsame (map_of res ''note'') (Some (JInt 3)) \<and> jsame (map_of res ''goal'') (Some (JInt 1))"
proof -
  let ?old = "[(''goal'', JInt 1)]" let ?new = "[(''goal'', JInt 2)]" let ?now = "[(''goal'', JInt 2), (''note'', JInt 3)]"
  have run: "undo (Some (JObj ?old)) (Some (JObj ?new)) (Some (JObj ?now)) = Inr (Some (JObj [(''note'', JInt 3), (''goal'', JInt 1)]))
      \<or> undo (Some (JObj ?old)) (Some (JObj ?new)) (Some (JObj ?now)) = Inr (Some (JObj [(''goal'', JInt 1), (''note'', JInt 3)]))"
    by code_simp
  then obtain r where r: "undo (Some (JObj ?old)) (Some (JObj ?new)) (Some (JObj ?now)) = Inr r" by blast
  from undo_fieldwise [OF r] obtain res where res: "r = Some (JObj res)"
    "\<forall>k. (jsame (map_of ?old k) (map_of ?new k) \<longrightarrow> jsame (map_of res k) (map_of ?now k))
      \<and> (jsame (map_of ?now k) (map_of ?new k) \<longrightarrow> jsame (map_of res k) (map_of ?old k))" by auto
  from res(2) [rule_format, of "''note''"] res(2) [rule_format, of "''goal''"] r res(1)
  show ?thesis by (intro exI [of _ res]) simp
qed

text \<open>C40: an overview survives its file.  Reading back the canonical form in which an overview is stored and
  shown to the merge, whose keys are sorted, gives the overview, for every valid state whose times are
  in the years that the format can write.\<close>

theorem candidate_roundtrip:
  assumes "valid_candidate_state c" and "candidate_times_ok c"
  shows "parse_candidate (canon (candidate_json c)) = Some c \<and> parse_candidate (candidate_json c) = Some c"
  using parse_canon_json [OF assms] parse_candidate_json [OF assms] by simp

theorem candidate_roundtrip_witness: "parse_candidate (canon (candidate_json demo_candidate)) = Some demo_candidate"
proof -
  have "candidate_times_ok demo_candidate" by code_simp
  with candidate_roundtrip [OF demo_candidate_ok] show ?thesis by blast
qed

subsection \<open>The repair of an overview\<close>

lemma repaired_latest:
  assumes "valid_candidate_state (vs_state p)" "candidate_times_ok (vs_state p)"
    and "valid_candidate_state (vs_state c)" "candidate_times_ok (vs_state c)"
  shows "repaired_state [(p, c)] (vs_state c) = Some (vs_state p)"
proof (cases "jsame (Some (candidate_json (vs_state p))) (Some (candidate_json (vs_state c)))")
  case True
  then have "vs_state p = vs_state c"
    using candidate_json_inj [OF assms] by (simp add: jsame_def)
  then show ?thesis
    using True by (simp add: repaired_state_def undo_unchanged parse_candidate_json [OF assms(3,4)])
next
  case False
  moreover have "\<not> jsame (Some (candidate_json (vs_state c))) (Some (candidate_json (vs_state p)))"
    using False jsame_sym by blast
  ultimately have "undo (Some (candidate_json (vs_state p))) (Some (candidate_json (vs_state c))) (Some (candidate_json (vs_state c)))
      = Inr (Some (candidate_json (vs_state p)))"
    by (subst undo.simps) (simp only: if_False if_True jsame_refl)
  then show ?thesis by (simp add: repaired_state_def parse_candidate_json [OF assms(1,2)])
qed

lemma transitions_last:
  assumes "\<not> list_ex (attributed sid) (vs @ [p])" and "attributed sid c"
  shows "transitions_of sid (vs @ [p, c]) = [(p, c)]"
proof -
  have split: "zip (vs @ [p, c]) (tl (vs @ [p, c])) = zip (vs @ [p]) (tl (vs @ [p])) @ [(p, c)]" for vs
  proof (induction vs)
    case (Cons a vs)
    then show ?case by (cases vs) auto
  qed simp
  have "x \<notin> set (zip (vs @ [p]) (tl (vs @ [p])))" if "attributed sid (snd x)" for x
    using assms(1) that by (cases x) (auto simp: list_ex_iff dest!: set_zip_rightD list.set_sel(2) [rotated] split: list.splits)
  then have "filter (\<lambda>(parent, child). attributed sid child) (zip (vs @ [p]) (tl (vs @ [p]))) = []"
    by (auto simp: filter_empty_conv)
  then show ?thesis unfolding transitions_of_def split using assms(2) by simp
qed

lemma holds_chain_revision:
  assumes "holds_chain k d vs" and "v \<in> set vs"
  shows "vs_revision v \<le> length vs"
proof -
  have "vs_revision v \<in> set (map vs_revision vs)" using assms(2) by simp
  then show ?thesis using holds_chain_revisions(1) [OF assms(1)] by auto
qed

lemma repair_reaches:
  assumes chain: "at_chain s account slug (vs @ [p, c])"
    and tags: "\<not> list_ex (\<lambda>v. gp_updater_version (vs_provenance v) = repair_tag sid) (vs @ [p, c])"
    and seen: "\<not> list_ex (attributed sid) (vs @ [p])" "attributed sid c"
    and times: "candidate_times_ok (vs_state p)" "candidate_times_ok (vs_state c)"
  shows "repair_overview sid account slug s = promote_repair sid c (vs_state p) s"
proof -
  let ?k = "dir_key s account slug"
  have holds: "holds_chain ?k (dir_at s ?k) (vs @ [p, c])" using chain by (simp add: at_chain_def)
  then have "version_ok ?k p" "version_ok ?k c" by (simp_all add: holds_chain_def list_all_iff)
  then have st: "repaired_state [(p, c)] (vs_state c) = Some (vs_state p)"
    using times by (intro repaired_latest) (simp_all add: version_ok_def valid_version_def)
  have "vs_revision c = length (vs @ [p, c])" using last_revision [OF holds] by simp
  then have "\<not> may_have_copied [(p, c)] (vs @ [p, c])"
    using holds_chain_revision [OF holds] unfolding may_have_copied_def list_ex_iff by fastforce
  then show ?thesis
    using tags st transitions_last [OF seen]
    by (simp add: repair_overview_def bnd_def read_history_unfiltered_eq [OF chain] del: list_ex_append)
qed

text \<open>C38: forgetting a message takes back exactly the version that used it.  When the last version of an
  overview is the only one that added or replaced evidence of the message, its repair promotes a new
  version whose state is that of the version before, whose manifest is the last one without the message's
  entries, and which clears the message for every later read; the history before it stays.\<close>

theorem repair_restores:
  assumes "at_chain s account slug (vs @ [p, c])" and "dir_key s account slug = (account, slug)"
    and "\<not> list_ex (\<lambda>v. gp_updater_version (vs_provenance v) = repair_tag sid) (vs @ [p, c])"
    and "\<not> list_ex (attributed sid) (vs @ [p])" and "attributed sid c"
    and "candidate_times_ok (vs_state p)" and "candidate_times_ok (vs_state c)"
    and "repair_overview sid account slug s = (Inr Repaired, s')"
  shows "\<exists>v. sd_versions (dir_at s' (account, slug)) = map file_of (vs @ [p, c, v])
    \<and> vs_state v = vs_state p \<and> vs_revision v = length vs + 3
    \<and> vs_manifest v = filter (\<lambda>e. \<not> gives_evidence sid (me_id e)) (vs_manifest c)
    \<and> evidence_authorized (vs_state p) (vs_manifest v) \<and> cleaned_by v sid"
proof -
  let ?m = "filter (\<lambda>e. \<not> gives_evidence sid (me_id e)) (vs_manifest c)"
  have holds: "holds_chain (account, slug) (dir_at s (account, slug)) (vs @ [p, c])"
    using assms(1,2) by (simp add: at_chain_def)
  then have id: "oi_account (vs_identity c) = account" "oi_slug (vs_identity c) = slug"
    by (simp_all add: holds_chain_def version_ok_def)
  then have chain: "at_chain s (oi_account (vs_identity c)) (oi_slug (vs_identity c)) (vs @ [p, c])" using assms(1) by simp
  have "promote_repair sid c (vs_state p) s = (Inr Repaired, s')"
    using assms(8) repair_reaches [OF assms(1,3-7)] by simp
  then obtain v where run: "promote_update (vs_identity c) (vs_version_id c) (vs_revision c) ?m (evidence_manifest_hash ?m)
      (forget_provenance sid) (vs_state p) s = (Inr v, s')"
    by (auto simp: promote_repair_def catch_def bnd_def ret_def raise_def Let_def split: prod.splits sum.splits exn.splits)
  from chain run show ?thesis
  proof (cases rule: promote_update_cases)
    case (grows v' vid now cs)
    have "vs_revision c = length vs + 2" using last_revision [OF holds] by simp
    moreover have "cleaned_by v sid"
      using grows(1,7)
      by (auto simp: cleaned_by_def child_version_def forget_provenance_def repair_tag_def cites_def gives_evidence_def list_ex_iff)
    moreover have "sd_versions (dir_at s' (account, slug)) = map file_of (vs @ [p, c, v])"
      using grows(1,12) id assms(2) by (auto simp: grown_def extended_def)
    ultimately show ?thesis using grows(1,5,7) by (intro exI [of _ v]) (auto simp: child_version_def)
  qed simp
qed

definition demo_mail :: string where
  "demo_mail = ''src_11111111111111111111111111111111''"

definition demo_gap :: missing_info where
  "demo_gap = \<lparr>mi_key = ''budget'', mi_description = ''Who owns the budget?'', mi_category = ''Commercial'', mi_refs = []\<rparr>"

definition demo_told :: candidate where
  "demo_told = demo_candidate\<lparr>cd_missing := [demo_gap]\<rparr>"

definition demo_mail_manifest :: "manifest_entry list" where
  "demo_mail_manifest = demo_manifest @ [demo_entry demo_mail]"

definition demo_mail_version :: version where
  "demo_mail_version = child_version demo_opp (Some demo_version) demo_mail_manifest
     (evidence_manifest_hash demo_mail_manifest) demo_provenance demo_told demo_child_id 0
     (Some ((blank_change_set demo_version demo_child_id 2)\<lparr>
        chs_missing := [\<lparr>ic_key = ''budget'', ic_type = Added, ic_fields = []\<rparr>],
        chs_sources := [\<lparr>sc_type = Transcript, sc_id = demo_mail @ ''_r1'', sc_change = Added\<rparr>]\<rparr>))"

definition demo_repair :: version where
  "demo_repair = child_version demo_opp (Some demo_mail_version) demo_manifest (evidence_manifest_hash demo_manifest)
     (forget_provenance demo_mail) demo_candidate (replicate 32 (CHR ''3'')) 0
     (Some ((blank_change_set demo_mail_version (replicate 32 (CHR ''3'')) 3)\<lparr>
        chs_missing := [\<lparr>ic_key = ''budget'', ic_type = Resolved, ic_fields = []\<rparr>]\<rparr>))"

definition demo_told_store :: store where
  "demo_told_store = demo_store\<lparr>ss_dirs := [((''Acme'', ''renewal''), \<lparr>sd_versions = map file_of [demo_version, demo_mail_version],
     sd_alien = False, sd_pointer = head_pointer [demo_version, demo_mail_version], sd_retired = None\<rparr>)],
     ss_tokens := (\<lambda>_. replicate 32 (CHR ''3'')), ss_clock := (\<lambda>_. 0)\<rparr>"

lemma demo_told_ok: "valid_candidate_state demo_told"
  using demo_candidate_ok
  by (simp add: demo_told_def valid_candidate_state_def candidate_keys_ok_def demo_gap_def valid_missing_def
      stable_key_def key_char_def is_lower_def text_simps Let_def) (simp add: health_keys_def)

lemma demo_mail_manifest_ok: "list_all valid_manifest_entry demo_mail_manifest" "distinct (map entry_key demo_mail_manifest)"
  using demo_manifest_ok
  by (simp_all add: demo_mail_manifest_def demo_manifest_def demo_metadata_entry_def demo_entry_def valid_manifest_entry_def
      demo_mail_def demo_src_def hexn_def is_hex_def is_digit_def text_simps entry_key_def list_all_iff)

lemma demo_told_authorized: "evidence_authorized demo_told demo_mail_manifest"
proof -
  have "evidence_references demo_told = evidence_references demo_candidate"
    by (simp add: evidence_references_def demo_told_def demo_gap_def) (simp add: demo_candidate_def upgrade_legacy_def)
  then show ?thesis
    using demo_authorized unfolding evidence_authorized_def demo_mail_manifest_def list_all_iff by auto
qed

lemma demo_mail_fields: "version_fields_ok demo_mail_version" "version_fields_ok demo_repair"
  by (simp_all add: version_fields_ok_def demo_mail_version_def demo_repair_def demo_mail_manifest_def demo_manifest_def
      child_version_def demo_child_id_def evidence_manifest_hash_def hexn_def [of 32] is_hex_def is_digit_def list_all_iff)

lemma demo_mail_consistent: "version_consistent demo_mail_version" "version_consistent demo_repair"
  using demo_manifest_ok demo_authorized demo_mail_manifest_ok demo_told_authorized
  by (simp_all add: version_consistent_def version_chain_ok_def demo_mail_version_def demo_repair_def child_version_def
      blank_change_set_def)

lemma demo_mail_change_set: "opt_all valid_change_set (vs_change_set demo_mail_version)"
  by (simp add: valid_change_set_def demo_mail_version_def child_version_def blank_change_set_def demo_child_id_def chs_sections_def
      hexn_def is_hex_def is_digit_def list_all_iff demo_mail_def valid_item_change_def text_simps)
     (simp add: stable_key_def key_char_def is_lower_def in_len_def)

lemma json_sizes_append: "json_sizes (xs @ ys) = json_sizes xs + json_sizes ys"
  by (induction xs) auto

lemma demo_told_size: "json_size (candidate_json demo_told) \<le> json_size (candidate_json demo_candidate) + 500"
proof -
  have "cd_missing demo_candidate = []" by (simp add: demo_candidate_def upgrade_legacy_def)
  then show ?thesis
    by (simp add: candidate_json_def demo_told_def demo_gap_def missing_members_def jrefs_def)
qed

lemma demo_mail_size: "json_size (version_json demo_mail_version) \<le> 60000"
proof -
  note c = demo_told_size
  have "json_size (version_json demo_mail_version) \<le> json_size (version_json demo_version) + 20000"
    using c by (simp add: version_json_def demo_mail_version_def child_version_def demo_child_id_def jtext_def change_set_json_def
        blank_change_set_def Let_def)
      (simp add: demo_version_def jtext_def demo_lengths dec_2 demo_mail_manifest_def json_sizes_append demo_entry_def
        evidence_manifest_hash_def hexn_def [THEN iffD1, OF sha256_hex_hexn] item_change_json_def jtexts_def demo_mail_def)
  with demo_version_size show ?thesis by simp
qed

lemma demo_told_chain: "at_chain demo_told_store ''Acme'' ''renewal'' [demo_version, demo_mail_version]"
proof -
  have v: "valid_version demo_mail_version"
    using demo_mail_fields demo_mail_consistent demo_mail_change_set
    by (simp add: valid_version_def)
       (use demo_mail_manifest_ok demo_opp_ok demo_provenance_ok demo_told_ok in
         \<open>simp add: demo_mail_version_def child_version_def\<close>)
  have "version_ok (''Acme'', ''renewal'') demo_mail_version"
    using v envelope_bound [OF order_trans [OF demo_mail_size]]
    by (simp add: version_ok_def max_state_bytes_def)
       (simp add: demo_mail_version_def child_version_def demo_opp_def)
  moreover have "history_linked 1 None [demo_version, demo_mail_version]"
    using demo_store_chain by (simp add: at_chain_def holds_chain_def demo_mail_version_def child_version_def)
  ultimately show ?thesis
    using demo_version_ok
    by (simp add: at_chain_def holds_chain_def demo_told_store_def dir_key_def dir_at_def demo_store_def)
qed

lemma demo_no_sources: "source_changes demo_mail_manifest demo_manifest = []"
proof -
  have "map fst (rev (map (\<lambda>e. (entry_key e, e)) es)) = rev (map entry_key es)" for es by (simp add: rev_map)
  then have d: "distinct (map fst (rev (map (\<lambda>e. (entry_key e, e)) demo_mail_manifest)))"
    "distinct (map fst (rev (map (\<lambda>e. (entry_key e, e)) demo_manifest)))"
    using demo_mail_manifest_ok(2) demo_manifest_ok(2) by (simp_all only: distinct_rev)
  have "map_of (rev (map (\<lambda>e. (entry_key e, e)) demo_mail_manifest)) (entry_key e) = Some e
      \<and> map_of (rev (map (\<lambda>e. (entry_key e, e)) demo_manifest)) (entry_key e) = Some e" if "e \<in> set demo_manifest" for e
    using that by (intro conjI map_of_is_SomeI d) (simp_all add: demo_mail_manifest_def)
  then show ?thesis
    unfolding source_changes_def Let_def
    by (intro concat_map_nil) (auto split: option.splits)
qed

lemma demo_repair_change_set:
  "deterministic_change_set demo_mail_version (replicate 32 (CHR ''3'')) 3 demo_candidate demo_manifest
   = Inr ((blank_change_set demo_mail_version (replicate 32 (CHR ''3'')) 3)\<lparr>
        chs_missing := [\<lparr>ic_key = ''budget'', ic_type = Resolved, ic_fields = []\<rparr>]\<rparr>)"
  (is "_ = Inr ?cs")
proof -
  note d = valid_keys_distinct [OF demo_candidate_ok]
  have m: "cd_missing demo_candidate = []" by (simp add: demo_candidate_def upgrade_legacy_def)
  have v: "vs_state demo_mail_version = demo_told" "vs_manifest demo_mail_version = demo_mail_manifest"
    by (simp_all add: demo_mail_version_def child_version_def)
  have "keyed_changes Resolved (keyed mi_key missing_members [demo_gap]) (keyed mi_key missing_members [])
      = [\<lparr>ic_key = ''budget'', ic_type = Resolved, ic_fields = []\<rparr>]"
    by (simp add: keyed_changes_def keyed_def demo_gap_def)
  then have "raw_change_set demo_mail_version (replicate 32 (CHR ''3'')) 3 demo_candidate demo_manifest = ?cs"
    using keyed_perm [OF _ d(1)] keyed_perm [OF _ d(2)] keyed_perm [OF _ d(3)] keyed_perm [OF _ d(4)] keyed_perm [OF _ d(5)] m
    by (simp add: raw_change_set_def blank_change_set_def Let_def v demo_told_def demo_no_sources gap_changes_def)
  moreover have "valid_change_set ?cs"
    by (simp add: valid_change_set_def demo_mail_version_def child_version_def blank_change_set_def demo_child_id_def chs_sections_def
        hexn_def is_hex_def is_digit_def list_all_iff valid_item_change_def text_simps)
       (simp add: stable_key_def key_char_def is_lower_def in_len_def)?
  ultimately show ?thesis by (simp add: deterministic_change_set_def Let_def)
qed

lemma demo_filtered: "filter (\<lambda>e. \<not> gives_evidence demo_mail (me_id e)) demo_mail_manifest = demo_manifest"
  by (simp add: demo_mail_manifest_def demo_manifest_def demo_metadata_entry_def demo_entry_def gives_evidence_def)
     (simp add: demo_mail_def demo_src_def)

lemma demo_attributed: "\<not> attributed demo_mail demo_version" "attributed demo_mail demo_mail_version"
  by (simp_all add: attributed_def demo_mail_version_def child_version_def gives_evidence_def demo_version_def)
     (simp add: demo_mail_def)

lemma demo_times: "candidate_times_ok demo_candidate" "candidate_times_ok demo_told"
proof -
  show "candidate_times_ok demo_candidate" by code_simp
  then show "candidate_times_ok demo_told"
    by (simp add: candidate_times_ok_def demo_told_def claims_of_def)
qed

lemma demo_overview_repairs:
  "\<exists>s'. repair_overview demo_mail ''Acme'' ''renewal'' demo_told_store = (Inr Repaired, s')"
proof -
  let ?s = demo_told_store and ?c = demo_mail_version
  have f: "vs_identity ?c = demo_opp" "vs_manifest ?c = demo_mail_manifest" "vs_revision ?c = 2" "vs_state ?c = demo_told"
    "oi_account demo_opp = ''Acme''" "oi_slug demo_opp = ''renewal''" "vs_provenance ?c = demo_provenance"
    by (simp_all add: demo_mail_version_def child_version_def demo_opp_def)
  have st: "ss_tokens ?s n = replicate 32 (CHR ''3'')" "ss_clock ?s n = 0" for n
    by (simp_all add: demo_told_store_def)
  have retired: "sd_retired (dir_at ?s (dir_key ?s ''Acme'' ''renewal'')) = None"
    by (simp add: dir_at_def dir_key_def demo_told_store_def demo_store_def)
  have "\<exists>s'. promote_update demo_opp (vs_version_id ?c) 2 demo_manifest (evidence_manifest_hash demo_manifest)
      (forget_provenance demo_mail) demo_candidate ?s = (Inr demo_repair, s')"
    using promote_update_runs [of ?s demo_opp "[demo_version, ?c]" demo_candidate demo_manifest _ demo_repair "forget_provenance demo_mail"]
      demo_told_chain demo_authorized demo_repair_change_set demo_mail_fields(2) demo_mail_consistent(2) retired
    by (simp add: f st numeral_2_eq_2 numeral_3_eq_3 demo_repair_def)
  then have pr: "\<exists>s'. promote_repair demo_mail ?c demo_candidate ?s = (Inr Repaired, s')"
    by (auto simp: promote_repair_def f demo_filtered catch_def bnd_def ret_def)
  have tags: "gp_updater_version demo_provenance \<noteq> repair_tag demo_mail" by (simp add: demo_provenance_def repair_tag_def)
  have "vs_provenance demo_version = demo_provenance" by (simp add: demo_version_def)
  then have "repair_overview demo_mail ''Acme'' ''renewal'' ?s = promote_repair demo_mail ?c (vs_state demo_version) ?s"
    using demo_told_chain tags demo_attributed demo_times f by (intro repair_reaches [of _ _ _ "[]"]) simp_all
  with pr show ?thesis by simp
qed

theorem repair_restores_witness:
  "\<exists>(s' :: store) v. repair_overview demo_mail ''Acme'' ''renewal'' demo_told_store = (Inr Repaired, s')
     \<and> sd_versions (dir_at s' (''Acme'', ''renewal'')) = map file_of [demo_version, demo_mail_version, v]
     \<and> vs_state v = demo_candidate \<and> vs_manifest v = demo_manifest"
proof -
  obtain s' where run: "repair_overview demo_mail ''Acme'' ''renewal'' demo_told_store = (Inr Repaired, s')"
    using demo_overview_repairs by blast
  have f: "vs_manifest demo_mail_version = demo_mail_manifest" "vs_state demo_mail_version = demo_told"
    "vs_provenance demo_mail_version = demo_provenance" "vs_provenance demo_version = demo_provenance"
    by (simp_all add: demo_mail_version_def child_version_def demo_version_def)
  have tags: "gp_updater_version demo_provenance \<noteq> repair_tag demo_mail" by (simp add: demo_provenance_def repair_tag_def)
  have "dir_key demo_told_store ''Acme'' ''renewal'' = (''Acme'', ''renewal'')"
    by (simp add: dir_key_def demo_told_store_def demo_store_def)
  then obtain v where "sd_versions (dir_at s' (''Acme'', ''renewal'')) = map file_of ([] @ [demo_version, demo_mail_version, v])"
    "vs_state v = vs_state demo_version"
    "vs_manifest v = filter (\<lambda>e. \<not> gives_evidence demo_mail (me_id e)) (vs_manifest demo_mail_version)"
    using repair_restores [of demo_told_store "''Acme''" "''renewal''" "[]" demo_version demo_mail_version demo_mail s']
      demo_told_chain tags demo_attributed demo_times f run by auto
  with run show ?thesis by (intro exI [of _ s'] exI [of _ v]) (simp add: f demo_filtered)
qed

end
