(* ===== verification/Transcripts.thy ===== *)
theory Transcripts
  imports Manifests
begin

section \<open>Saved transcripts\<close>

text \<open>
  The part of \<^verbatim>\<open>webapp/services/transcription_service.py\<close> that offers saved transcripts as evidence: the
  opaque identifiers (an HMAC of account and file name under a local key), the listing, and the
  resolution of identifiers to exact bytes, with the checks that a file did not change while it was
  read.  What the file system answers to the calls on one file is a parameter of the state.  Contents
  are bytes, one character each.
\<close>

unbundle bit_operations_syntax

subsection \<open>Identifiers\<close>

definition xor_char :: "nat \<Rightarrow> char \<Rightarrow> char" where
  "xor_char n c = char_of (of_char c XOR n)"

definition word_bytes :: "32 word \<Rightarrow> string" where
  "word_bytes w = map (\<lambda>k. char_of (unat (drop_bit k w) mod 256)) [24, 16, 8, 0]"

definition sha256_bytes :: "string \<Rightarrow> string" where
  "sha256_bytes s = concat (map word_bytes (sha256_words s))"

text \<open>\<^verbatim>\<open>hmac.new(key, material, hashlib.sha256).digest()\<close>\<close>

definition hmac_sha256 :: "string \<Rightarrow> string \<Rightarrow> string" where
  "hmac_sha256 key material =
     (let k = (if length key > 64 then sha256_bytes key else key);
          padded = k @ replicate (64 - length k) (char_of (0::nat)) in
      sha256_bytes (map (xor_char 92) padded @ sha256_bytes (map (xor_char 54) padded @ material)))"

definition base64_char :: "nat \<Rightarrow> char" where
  "base64_char n = ''ABCDEFGHIJKLMNOPQRSTUVWXYZabcdefghijklmnopqrstuvwxyz0123456789-_'' ! (n mod 64)"

text \<open>\<^verbatim>\<open>base64.urlsafe_b64encode\<close> without the padding that \<^verbatim>\<open>rstrip("=")\<close> removes.\<close>

fun base64_url :: "string \<Rightarrow> string" where
  "base64_url (a # b # c # s) = (let n = (of_char a * 256 + of_char b) * 256 + of_char c in
     map base64_char [n div 262144, n div 4096, n div 64, n] @ base64_url s)"
| "base64_url [a, b] = (let n = (of_char a * 256 + of_char b) * 4 in map base64_char [n div 4096, n div 64, n])"
| "base64_url [a] = (let n = of_char a * 16 in map base64_char [n div 64, n])"
| "base64_url [] = []"

subsection \<open>State\<close>

datatype key_file = NoKey | KeyUnreadable | Key string

text \<open>One entry of the transcript directory; \<open>sv_stat\<close> is None when \<^verbatim>\<open>stat\<close> raises.\<close>

record saved =
  sv_symlink :: bool
  sv_regular :: bool
  sv_inside :: bool
  sv_stat :: "(datetime \<times> nat) option"

record file_stat =
  fs_link :: bool
  fs_regular :: bool
  fs_node :: "int \<times> int"
  fs_size :: nat
  fs_mtime_ns :: int
  fs_time :: datetime

text \<open>
  What reading one file sees: \<^verbatim>\<open>lstat\<close> before, then \<^verbatim>\<open>fstat\<close> of the open file, its bytes, \<^verbatim>\<open>fstat\<close> again and
  \<^verbatim>\<open>lstat\<close> after; None where an \<^verbatim>\<open>OSError\<close> is raised.
\<close>

record probe =
  pb_before :: "file_stat option"
  pb_read :: "(file_stat \<times> string \<times> file_stat \<times> file_stat) option"

record transcripts =
  ts_safe_name :: "string \<Rightarrow> string"
  ts_titlecase :: "string \<Rightarrow> string"
  ts_key :: key_file
  ts_fresh_key :: string
  ts_dir_ok :: bool
  ts_files :: "(string \<times> saved) list"
  ts_probes :: "nat \<Rightarrow> string \<Rightarrow> probe"
  ts_reads :: nat

abbreviation transcription_error :: "int \<Rightarrow> (transcripts, 'a) op" where
  "transcription_error status \<equiv> raise (TranscriptionError status '''')"

definition evidence_key :: "(transcripts, string) op" where
  "evidence_key = bnd (read_st ts_key) (\<lambda>k. case k of
     KeyUnreadable \<Rightarrow> transcription_error 500
   | Key key \<Rightarrow> if length key \<noteq> 32 then transcription_error 500 else ret key
   | NoKey \<Rightarrow> bnd (read_st ts_fresh_key) (\<lambda>key.
       bnd (modify_st (\<lambda>t. t\<lparr>ts_key := Key key\<rparr>)) (\<lambda>_. ret key)))"

definition evidence_id_of :: "string \<Rightarrow> string \<Rightarrow> string \<Rightarrow> string" where
  "evidence_id_of key account filename =
     ''tr_'' @ base64_url (take 24 (hmac_sha256 key (account @ char_of (0::nat) # filename)))"

definition transcript_id :: "string \<Rightarrow> string \<Rightarrow> (transcripts, string) op" where
  "transcript_id account filename = bnd evidence_key (\<lambda>key. ret (evidence_id_of key account filename))"

subsection \<open>Listing\<close>

definition txt_suffix :: "string \<Rightarrow> bool" where
  "txt_suffix name \<longleftrightarrow> length name > 4 \<and> drop (length name - 4) name = ''.txt''"

definition eligible_paths :: "string \<Rightarrow> transcripts \<Rightarrow> string list" where
  "eligible_paths account t =
     (let prefix = ts_titlecase t (ts_safe_name t account) @ ''-'' in
      if \<not> ts_dir_ok t then []
      else map fst (filter (\<lambda>(name, f). \<not> sv_symlink f \<and> sv_regular f \<and> txt_suffix name
             \<and> startswith name prefix \<and> sv_inside f) (ts_files t)))"

record listed_transcript =
  lt_id :: string
  lt_display_name :: string
  lt_modified_at :: string
  lt_size_bytes :: nat

definition list_entry_for :: "string \<Rightarrow> string \<Rightarrow> (transcripts, listed_transcript list) op" where
  "list_entry_for account name = bnd (read_st (\<lambda>t. Option.bind (map_of (ts_files t) name) sv_stat)) (\<lambda>st.
     case st of
       None \<Rightarrow> ret []
     | Some (mtime, n) \<Rightarrow> bnd (transcript_id account name) (\<lambda>i.
         ret [\<lparr>lt_id = i, lt_display_name = name, lt_modified_at = isoformat mtime, lt_size_bytes = n\<rparr>]))"

definition list_evidence_transcripts :: "string \<Rightarrow> (transcripts, listed_transcript list) op" where
  "list_evidence_transcripts account = bnd (read_st (\<lambda>t. ts_safe_name t account)) (\<lambda>safe.
     bnd (read_st (eligible_paths safe)) (\<lambda>names.
     bnd (map_op (list_entry_for safe) names) (\<lambda>items.
     ret (rev (sort_key (\<lambda>i. (lt_modified_at i, lt_display_name i)) (concat items))))))"

subsection \<open>Resolution\<close>

text \<open>Strict UTF-8.\<close>

definition cont_byte :: "char \<Rightarrow> bool" where
  "cont_byte c \<longleftrightarrow> 128 \<le> (of_char c :: nat) \<and> (of_char c :: nat) < 192"

fun utf8_ok :: "string \<Rightarrow> bool" where
  "utf8_ok [] \<longleftrightarrow> True"
| "utf8_ok (a # s) \<longleftrightarrow> (let n = of_char a :: nat in
     if n < 128 then utf8_ok s
     else (case s of
       [] \<Rightarrow> False
     | b # s1 \<Rightarrow>
        if \<not> cont_byte b then False
        else if 194 \<le> n \<and> n < 224 then utf8_ok s1
        else (case s1 of
          [] \<Rightarrow> False
        | c # s2 \<Rightarrow>
           if \<not> cont_byte c then False
           else if 224 \<le> n \<and> n < 240
           then (n = 224 \<longrightarrow> 160 \<le> (of_char b :: nat)) \<and> (n = 237 \<longrightarrow> (of_char b :: nat) < 160) \<and> utf8_ok s2
           else (case s2 of
             [] \<Rightarrow> False
           | d # s3 \<Rightarrow> cont_byte d \<and> 240 \<le> n \<and> n < 245 \<and> (n = 240 \<longrightarrow> 144 \<le> (of_char b :: nat))
               \<and> (n = 244 \<longrightarrow> (of_char b :: nat) < 144) \<and> utf8_ok s3))))"

text \<open>The reading of one file: the error raised, or its content and its time.\<close>

definition stable_read :: "nat \<Rightarrow> probe \<Rightarrow> exn + string \<times> datetime" where
  "stable_read max_item p = (case pb_before p of
     None \<Rightarrow> Inl (TranscriptionError 409 '''')
   | Some before \<Rightarrow>
      if fs_link before \<or> \<not> fs_regular before then Inl (TranscriptionError 409 '''')
      else if fs_size before > max_item then Inl (TranscriptionError 413 '''')
      else (case pb_read p of
        None \<Rightarrow> Inl (TranscriptionError 409 '''')
      | Some (opened, bytes, after_read, after_path) \<Rightarrow>
         if \<not> fs_regular opened \<or> fs_node opened \<noteq> fs_node before then Inl (TranscriptionError 409 '''')
         else (let content = take (max_item + 1) bytes in
           if length content > max_item then Inl (TranscriptionError 413 '''')
           else if fs_link after_path
             \<or> \<not> (fs_node opened = fs_node after_read \<and> fs_node after_read = fs_node after_path)
             \<or> \<not> (fs_size opened = fs_size after_read \<and> fs_size after_read = fs_size after_path
                  \<and> fs_size after_path = length content
                  \<and> fs_mtime_ns opened = fs_mtime_ns after_read \<and> fs_mtime_ns after_read = fs_mtime_ns after_path)
           then Inl (TranscriptionError 409 '''')
           else Inr (content, fs_time after_read))))"

definition probe_file :: "string \<Rightarrow> (transcripts, probe) op" where
  "probe_file name t = (Inr (ts_probes t (ts_reads t) name), t\<lparr>ts_reads := Suc (ts_reads t)\<rparr>)"

definition resolve_one :: "nat \<Rightarrow> nat \<Rightarrow> string \<Rightarrow> (string \<times> string) list \<Rightarrow> string
   \<Rightarrow> transcript_evidence list \<times> nat \<Rightarrow> (transcripts, transcript_evidence list \<times> nat) op" where
  "resolve_one max_item max_total safe by_id i acc = (case map_of (rev by_id) i of
     None \<Rightarrow> transcription_error 400
   | Some name \<Rightarrow> bnd (transcript_id safe name) (\<lambda>i'.
      if i' \<noteq> i then transcription_error 400
      else bnd (probe_file name) (\<lambda>p. bnd (of_sum (stable_read max_item p)) (\<lambda>(content, time).
        let total = snd acc + length content in
        if total > max_total then transcription_error 413
        else if \<not> utf8_ok content then transcription_error 400
        else ret (fst acc @ [\<lparr>te_id = i, te_display_name = name, te_content = content, te_sha256 = sha256_hex content,
               te_byte_count = length content, te_observed_at = time\<rparr>], total)))))"

definition resolve_transcripts :: "string \<Rightarrow> string list \<Rightarrow> nat \<Rightarrow> nat \<Rightarrow> nat \<Rightarrow> (transcripts, transcript_evidence list) op" where
  "resolve_transcripts account ids max_items max_item max_total =
     bnd (read_st (\<lambda>t. ts_safe_name t account)) (\<lambda>safe.
     if ids = [] then transcription_error 400
     else if length ids > max_items \<or> \<not> distinct ids then transcription_error 400
     else if list_ex (\<lambda>i. length i > 80) ids then transcription_error 400
     else bnd (read_st (eligible_paths safe)) (\<lambda>names.
       bnd (map_op (\<lambda>n. bnd (transcript_id safe n) (\<lambda>i. ret (i, n))) names) (\<lambda>by_id.
       bnd (fold_op (resolve_one max_item max_total safe by_id) ids ([], 0)) (\<lambda>(found, total). ret found))))"

definition resolve_selected :: "string \<Rightarrow> string list \<Rightarrow> (transcripts, transcript_evidence list) op" where
  "resolve_selected account ids = resolve_transcripts account ids 50 500000 750000"

definition inspect_one :: "string \<Rightarrow> listed_transcript \<Rightarrow> (transcripts, transcript_evidence list) op" where
  "inspect_one account i = catch (resolve_transcripts account [lt_id i] 1 500000 500000) (\<lambda>e. case e of
     TranscriptionError status code \<Rightarrow> if status = 409 \<or> status = 413 then ret [] else raise e
   | _ \<Rightarrow> raise e)"

definition inspect_evidence_transcripts :: "string \<Rightarrow> (transcripts, transcript_evidence list) op" where
  "inspect_evidence_transcripts account = bnd (list_evidence_transcripts account) (\<lambda>listed.
     if length listed > 200 then transcription_error 413
     else bnd (map_op (inspect_one account) listed) (\<lambda>xs. ret (concat xs)))"

end
