(* ===== verification/Overview_Flows.thy ===== *)
theory Overview_Flows
  imports Start Transcripts
begin

section \<open>The create and update flows of an overview\<close>

text \<open>
  \<^verbatim>\<open>opportunity_state_create_service.py\<close> and \<^verbatim>\<open>opportunity_state_update_service.py\<close>: the readiness of an
  update, the guards under which a job starts, and the job itself, which takes its snapshot of the
  evidence before and after the analysis and promotes only what was authorized.  The workspace
  service and the executor are arguments, as in \<open>Reconcile\<close>.
\<close>

record desk =
  dk_world :: world
  dk_transcripts :: transcripts

type_synonym desk_resolver = "string \<Rightarrow> string \<Rightarrow> (desk, resolved_identity) op"
type_synonym desk_executor = "exec_request \<Rightarrow> (desk, exec_result) op"

definition at_world :: "(world, 'a) op \<Rightarrow> (desk, 'a) op" where
  "at_world m = zoom dk_world (\<lambda>w d. d\<lparr>dk_world := w\<rparr>) m"

definition at_transcripts :: "(transcripts, 'a) op \<Rightarrow> (desk, 'a) op" where
  "at_transcripts m = zoom dk_transcripts (\<lambda>t d. d\<lparr>dk_transcripts := t\<rparr>) m"

definition at_store :: "(store, 'a) op \<Rightarrow> (desk, 'a) op" where
  "at_store m = at_world (in_store m)"

definition active_flow :: "resolved_identity \<Rightarrow> (desk, (string \<times> job) option) op" where
  "active_flow i = read_st (\<lambda>d. active_opportunity_state_job (safe_account i) (safe_opp i) (w_jobs (dk_world d)))"

abbreviation create_error :: "int \<Rightarrow> string \<Rightarrow> (desk, 'a) op" where
  "create_error status code \<equiv> raise (OpportunityStateCreateError status code)"

abbreviation update_error :: "int \<Rightarrow> string \<Rightarrow> (desk, 'a) op" where
  "update_error status code \<equiv> raise (OpportunityStateUpdateError status code)"

abbreviation flow_error :: "string \<Rightarrow> (desk, 'a) op" where
  "flow_error code \<equiv> raise (ManagedJobError code)"

record flow_answer =
  fa_job_id :: string
  fa_reused :: bool
  fa_warning :: bool

text \<open>What both runners do with the executor's answer; \<open>promote\<close> is the store's promotion.\<close>

definition flow_request :: "resolved_identity \<Rightarrow> transcript_evidence list \<Rightarrow> version option \<Rightarrow> exec_request" where
  "flow_request i ts base = \<lparr>eq_account = safe_account i, eq_slug = safe_opp i, eq_name = opp_name i,
     eq_metadata = metadata_payload (opp_metadata i), eq_metadata_source_id = metadata_source_id,
     eq_transcripts = ts, eq_base_state = map_option vs_state base,
     eq_base_version_id = map_option vs_version_id base, eq_base_revision = map_option vs_revision base\<rparr>"

definition promote_flow :: "resolved_identity \<Rightarrow> exec_result
   \<Rightarrow> (opp_identity \<Rightarrow> provenance \<Rightarrow> (store, version) op) \<Rightarrow> (desk, members) op" where
  "promote_flow i r promote =
     bnd (of_sum (mk_opp_identity \<lparr>oi_account = safe_account i, oi_slug = safe_opp i, oi_name = opp_name i\<rparr>)) (\<lambda>oi.
     bnd (of_sum (mk_provenance \<lparr>gp_updater_version = updater_version, gp_model = ex_model r,
            gp_runtime = ex_runtime r, gp_cli_version = ex_cli_version r\<rparr>)) (\<lambda>prov.
     bnd (at_store (promote oi prov)) (\<lambda>v.
     ret [(''result_revision'', JInt (int (vs_revision v))), (''result_version_id'', JStr (vs_version_id v))])))"

text \<open>The \<^verbatim>\<open>except\<close> clauses of the create runner; the update runner has one more.\<close>

definition as_create_job :: "(desk, 'a) op \<Rightarrow> (desk, 'a) op" where
  "as_create_job m = catch m (\<lambda>e. case e of
     CanonicalStateExecutionError code \<Rightarrow> flow_error code
   | TranscriptionError status code \<Rightarrow> flow_error ''evidence_unavailable''
   | OpportunityStateError status code \<Rightarrow> flow_error code
   | ValidationError \<Rightarrow> flow_error ''invalid_model_output''
   | ValueError \<Rightarrow> flow_error ''invalid_model_output''
   | _ \<Rightarrow> raise e)"

definition as_update_job :: "(desk, 'a) op \<Rightarrow> (desk, 'a) op" where
  "as_update_job m = as_create_job (catch m (\<lambda>e. case e of
     OpportunityStateUpdateError status code \<Rightarrow> flow_error code
   | _ \<Rightarrow> raise e))"

subsection \<open>Creating an overview\<close>

definition create_kind :: string where "create_kind = ''opportunity_state_create''"

definition list_eligible_evidence :: "desk_resolver \<Rightarrow> string \<Rightarrow> string \<Rightarrow> (desk, resolved_identity \<times> listed_transcript list) op" where
  "list_eligible_evidence resolve account slug = bnd (resolve account slug) (\<lambda>i.
     bnd (at_transcripts (list_evidence_transcripts (safe_account i))) (\<lambda>items. ret (i, items)))"

record create_snapshot =
  cs_identity :: resolved_identity
  cs_transcripts :: "transcript_evidence list"
  cs_manifest :: "manifest_entry list"
  cs_hash :: string

definition snapshot_create :: "desk_resolver \<Rightarrow> string \<Rightarrow> string \<Rightarrow> string list \<Rightarrow> (desk, create_snapshot) op" where
  "snapshot_create resolve account slug ids = bnd (resolve account slug) (\<lambda>i.
     bnd (at_transcripts (resolve_selected (safe_account i) ids)) (\<lambda>ts.
     bnd (at_world ops_now) (\<lambda>now.
     bnd (of_sum (create_manifest (opp_metadata i) ts now)) (\<lambda>m.
     ret \<lparr>cs_identity = i, cs_transcripts = ts, cs_manifest = m, cs_hash = evidence_manifest_hash m\<rparr>))))"

text \<open>What the runner closes over.\<close>

record create_plan =
  cp_account :: string
  cp_slug :: string
  cp_transcript_ids :: "string list"
  cp_hash :: string

definition run_create :: "desk_resolver \<Rightarrow> desk_executor \<Rightarrow> create_plan \<Rightarrow> (desk, members) op" where
  "run_create resolve execute p = as_create_job
     (bnd (snapshot_create resolve (cp_account p) (cp_slug p) (cp_transcript_ids p)) (\<lambda>before.
     if cs_hash before \<noteq> cp_hash p then flow_error ''evidence_changed''
     else bnd (execute (flow_request (cs_identity before) (cs_transcripts before) None)) (\<lambda>r.
       bnd (of_sum (validate_candidate_evidence (ex_candidate r) (cs_manifest before))) (\<lambda>_.
       bnd (snapshot_create resolve (cp_account p) (cp_slug p) (cp_transcript_ids p)) (\<lambda>after.
       if cs_hash after \<noteq> cp_hash p then flow_error ''evidence_changed''
       else promote_flow (cs_identity after) r
              (\<lambda>oi prov. promote_create oi (cs_manifest after) (cp_hash p) prov (ex_candidate r)))))))"

definition start_create :: "desk_resolver \<Rightarrow> string \<Rightarrow> string \<Rightarrow> string list \<Rightarrow> (desk, flow_answer \<times> create_plan option) op" where
  "start_create resolve account slug ids = bnd (snapshot_create resolve account slug ids) (\<lambda>s.
     let i = cs_identity s in
     bnd (at_store (inspect_current (safe_account i) (safe_opp i))) (\<lambda>current.
     case current of
       CurrentVersion v \<Rightarrow> create_error 409 ''already_created''
     | MalformedState \<Rightarrow> create_error 409 ''malformed_storage''
     | _ \<Rightarrow> bnd (active_flow i) (\<lambda>active.
         case active of
           Some (jid, j) \<Rightarrow>
             if jb_kind j = create_kind \<and> map_of (jb_meta j) ''evidence_manifest_hash'' = Some (JStr (cs_hash s))
             then ret (\<lparr>fa_job_id = jid, fa_reused = True, fa_warning = False\<rparr>, None)
             else create_error 409 ''create_in_progress''
         | None \<Rightarrow>
             bnd (at_world (in_jobs (launch_managed create_kind (safe_account i) (safe_opp i) (opp_name i)
                [JStr create_kind, JStr (safe_account i), JStr (safe_opp i), JStr (cs_hash s), JInt 1, JStr updater_version]
                [(''evidence_manifest_hash'', JStr (cs_hash s)), (''evidence_count'', JInt (int (length (cs_manifest s))))])))
              (\<lambda>(jid, warn). ret (\<lparr>fa_job_id = jid, fa_reused = False, fa_warning = warn\<rparr>,
                Some \<lparr>cp_account = safe_account i, cp_slug = safe_opp i, cp_transcript_ids = ids, cp_hash = cs_hash s\<rparr>)))))"

text \<open>A managed job with its runner, and the view of a job that the routes return.\<close>

definition flow_job :: "string \<Rightarrow> (desk, members) op \<Rightarrow> (desk, unit) op" where
  "flow_job jid runner d = (case runner d of (r, d') \<Rightarrow> at_world (in_jobs (finish_job jid r)) d')"

record job_view =
  jv_status :: job_status
  jv_ok :: "bool option"
  jv_started_at :: datetime
  jv_finished_at :: "datetime option"
  jv_meta :: members
  jv_result :: members
  jv_error_code :: "string option"
  jv_warning :: bool

definition view_job :: "string list \<Rightarrow> job \<Rightarrow> job_view" where
  "view_job allowed j = \<lparr>jv_status = jb_status j, jv_ok = jb_ok j, jv_started_at = jb_started_at j,
     jv_finished_at = jb_finished_at j, jv_meta = filter (\<lambda>(k, v). k \<in> set allowed) (jb_meta j),
     jv_result = filter (\<lambda>(k, v). k \<in> set allowed) (jb_result j), jv_error_code = jb_error_code j,
     jv_warning = jb_warning j\<rparr>"

definition own_job :: "string \<Rightarrow> string \<Rightarrow> string \<Rightarrow> string \<Rightarrow> desk \<Rightarrow> job option" where
  "own_job kind account slug jid d = (case get_job jid (w_jobs (dk_world d)) of
     None \<Rightarrow> None
   | Some j \<Rightarrow> if jb_kind j = kind \<and> jb_account j = account \<and> jb_slug j = slug then Some j else None)"

definition get_create_job :: "string \<Rightarrow> string \<Rightarrow> string \<Rightarrow> (desk, job_view) op" where
  "get_create_job account slug jid = bnd (read_st (own_job create_kind account slug jid)) (\<lambda>j. case j of
     None \<Rightarrow> create_error 404 ''unknown_job''
   | Some j \<Rightarrow> ret (view_job [''evidence_manifest_hash'', ''evidence_count'', ''result_revision'', ''result_version_id''] j))"

subsection \<open>The readiness of an update\<close>

definition update_kind :: string where "update_kind = ''opportunity_state_update''"

definition select_transcripts :: "string \<Rightarrow> string list \<Rightarrow> (desk, transcript_evidence list) op" where
  "select_transcripts account ids = (if ids = [] then ret [] else at_transcripts (resolve_selected account ids))"

definition inherited_entries :: "version \<Rightarrow> (string \<times> manifest_entry) list" where
  "inherited_entries parent = fold (\<lambda>e m. AList.update (me_id e) e m)
     (filter (\<lambda>e. me_type e = Transcript) (vs_manifest parent)) []"

definition available_entries :: "transcript_evidence list \<Rightarrow> (string \<times> transcript_evidence) list" where
  "available_entries ts = fold (\<lambda>t m. AList.update (te_id t) t m) ts []"

text \<open>What a page shows of a source: one that can be used, and one that was used.\<close>

record offered_source =
  os_id :: string
  os_display_name :: string
  os_modified_at :: string
  os_size_bytes :: nat

definition public_source :: "string \<times> transcript_evidence \<Rightarrow> offered_source" where
  "public_source x = \<lparr>os_id = te_id (snd x), os_display_name = te_display_name (snd x),
     os_modified_at = isoformat (te_observed_at (snd x)), os_size_bytes = te_byte_count (snd x)\<rparr>"

record noted_source =
  no_id :: string
  no_display_name :: string
  no_observed_at :: string

definition by_name :: "('a \<Rightarrow> string \<times> string) \<Rightarrow> 'a list \<Rightarrow> 'a list" where
  "by_name name xs = sort_key name xs"

definition new_sources :: "version \<Rightarrow> transcript_evidence list \<Rightarrow> offered_source list" where
  "new_sources parent ts = by_name (\<lambda>s. (os_display_name s, os_id s)) (map public_source
     (filter (\<lambda>(i, t). map_of (inherited_entries parent) i = None) (available_entries ts)))"

definition changed_sources :: "version \<Rightarrow> transcript_evidence list \<Rightarrow> offered_source list" where
  "changed_sources parent ts = by_name (\<lambda>s. (os_display_name s, os_id s)) (map public_source
     (filter (\<lambda>(i, t). case map_of (inherited_entries parent) i of None \<Rightarrow> False | Some e \<Rightarrow> me_sha256 e \<noteq> te_sha256 t)
        (available_entries ts)))"

definition inherited_sources :: "version \<Rightarrow> transcript_evidence list \<Rightarrow> noted_source list" where
  "inherited_sources parent ts = by_name (\<lambda>s. (no_display_name s, no_id s))
     (map (\<lambda>(i, e). \<lparr>no_id = me_id e, no_display_name = me_display_name e, no_observed_at = isoformat (me_observed_at e)\<rparr>)
       (filter (\<lambda>(i, e). case map_of (available_entries ts) i of None \<Rightarrow> False | Some t \<Rightarrow> me_sha256 e = te_sha256 t)
          (inherited_entries parent)))"

text \<open>The identifier and the name.\<close>

definition missing_sources :: "version \<Rightarrow> transcript_evidence list \<Rightarrow> (string \<times> string) list" where
  "missing_sources parent ts = by_name (\<lambda>(i, name). (name, i)) (map (\<lambda>(i, e). (me_id e, me_display_name e))
     (filter (\<lambda>(i, e). map_of (available_entries ts) i = None) (inherited_entries parent)))"

record readiness =
  rd_base_version_id :: string
  rd_base_revision :: nat
  rd_metadata :: json
  rd_metadata_changed :: bool
  rd_active :: "(string \<times> string \<times> job_status) option"
  rd_new :: "offered_source list"
  rd_changed :: "offered_source list"
  rd_inherited :: "noted_source list"
  rd_missing :: "(string \<times> string) list"
  rd_up_to_date :: bool
  rd_created_at :: string
  rd_last_job :: "string option"

definition get_readiness :: "desk_resolver \<Rightarrow> string \<Rightarrow> string \<Rightarrow> (desk, readiness) op" where
  "get_readiness resolve account slug = bnd (resolve account slug) (\<lambda>i.
     bnd (at_store (read_current (safe_account i) (safe_opp i))) (\<lambda>current. case current of
       None \<Rightarrow> update_error 409 ''not_created''
     | Some parent \<Rightarrow> bnd (at_world ops_now) (\<lambda>now.
       bnd (of_sum (metadata_entry (opp_metadata i) now)) (\<lambda>meta.
       bnd (of_sum (current_metadata parent)) (\<lambda>old.
       bnd (at_transcripts (inspect_evidence_transcripts (safe_account i))) (\<lambda>ts.
       bnd (active_flow i) (\<lambda>active.
       bnd (read_st (\<lambda>d. latest_job update_kind (safe_account i) (safe_opp i) (w_jobs (dk_world d)))) (\<lambda>latest.
       let metadata_changed = (me_sha256 meta \<noteq> me_sha256 old) in
       ret \<lparr>rd_base_version_id = vs_version_id parent, rd_base_revision = vs_revision parent,
         rd_metadata = metadata_payload (opp_metadata i), rd_metadata_changed = metadata_changed,
         rd_active = map_option (\<lambda>(jid, j). (jid, jb_kind j, jb_status j)) active,
         rd_new = new_sources parent ts, rd_changed = changed_sources parent ts,
         rd_inherited = inherited_sources parent ts, rd_missing = missing_sources parent ts,
         rd_up_to_date = (\<not> metadata_changed \<and> new_sources parent ts = [] \<and> changed_sources parent ts = []),
         rd_created_at = isoformat (vs_created_at parent),
         rd_last_job = (case latest of None \<Rightarrow> None
           | Some (jid, j) \<Rightarrow> if jb_ok j = Some True then Some jid else None)\<rparr>))))))))"

subsection \<open>Updating an overview\<close>

record update_plan =
  up_account :: string
  up_slug :: string
  up_base_version_id :: string
  up_base_revision :: nat
  up_transcript_ids :: "string list"
  up_hash :: string
  up_delta :: string

record update_snapshot =
  us_identity :: resolved_identity
  us_parent :: version
  us_selected :: "transcript_evidence list"
  us_manifest :: "manifest_entry list"
  us_hash :: string
  us_delta :: string

definition snapshot_update :: "desk_resolver \<Rightarrow> string \<Rightarrow> string \<Rightarrow> string \<Rightarrow> nat \<Rightarrow> string list \<Rightarrow> (desk, update_snapshot) op" where
  "snapshot_update resolve account slug base_id base_rev ids = bnd (resolve account slug) (\<lambda>i.
     bnd (at_store (read_current (safe_account i) (safe_opp i))) (\<lambda>current. case current of
       None \<Rightarrow> update_error 409 ''stale_base''
     | Some parent \<Rightarrow>
       if vs_version_id parent \<noteq> base_id \<or> vs_revision parent \<noteq> base_rev then update_error 409 ''stale_base''
       else bnd (select_transcripts (safe_account i) ids) (\<lambda>selected.
         bnd (of_sum (classify_selected parent selected)) (\<lambda>_.
         bnd (at_world ops_now) (\<lambda>now.
         bnd (of_sum (metadata_entry (opp_metadata i) now)) (\<lambda>meta.
         bnd (if selected = [] then bnd (of_sum (current_metadata parent)) (\<lambda>old.
                if me_sha256 meta = me_sha256 old then update_error 409 ''no_op'' else ret ())
              else ret ()) (\<lambda>_.
         bnd (of_sum (cumulative_manifest parent meta selected)) (\<lambda>m.
         ret \<lparr>us_identity = i, us_parent = parent, us_selected = selected, us_manifest = m,
           us_hash = evidence_manifest_hash m,
           us_delta = delta_hash (vs_version_id parent) (vs_revision parent) meta selected\<rparr>))))))))"

definition authorized_snapshot :: "desk_resolver \<Rightarrow> update_plan \<Rightarrow> (desk, update_snapshot) op" where
  "authorized_snapshot resolve p =
     bnd (snapshot_update resolve (up_account p) (up_slug p) (up_base_version_id p) (up_base_revision p) (up_transcript_ids p))
       (\<lambda>s. if us_hash s \<noteq> up_hash p \<or> us_delta s \<noteq> up_delta p then flow_error ''evidence_changed'' else ret s)"

definition run_update :: "desk_resolver \<Rightarrow> desk_executor \<Rightarrow> update_plan \<Rightarrow> (desk, members) op" where
  "run_update resolve execute p = as_update_job
     (bnd (authorized_snapshot resolve p) (\<lambda>before.
      bnd (execute (flow_request (us_identity before) (us_selected before) (Some (us_parent before)))) (\<lambda>r.
      bnd (of_sum (validate_candidate_evidence (ex_candidate r) (us_manifest before))) (\<lambda>_.
      bnd (authorized_snapshot resolve p) (\<lambda>after.
      promote_flow (us_identity after) r (\<lambda>oi prov. promote_update oi (up_base_version_id p) (up_base_revision p)
        (us_manifest after) (up_hash p) prov (ex_candidate r)))))))"

definition update_signature :: "resolved_identity \<Rightarrow> string \<Rightarrow> nat \<Rightarrow> string \<Rightarrow> json list" where
  "update_signature i base_id base_rev delta = [JStr update_kind, JStr (safe_account i), JStr (safe_opp i),
     JStr base_id, JInt (int base_rev), JStr delta, JStr updater_version]"

definition launch_update :: "json list \<Rightarrow> update_snapshot \<Rightarrow> string \<Rightarrow> nat \<Rightarrow> string list
   \<Rightarrow> (desk, flow_answer \<times> update_plan option) op" where
  "launch_update sig s base_id base_rev ids = (let i = us_identity s in
     bnd (at_world (in_jobs (launch_managed update_kind (safe_account i) (safe_opp i) (opp_name i) sig
        [(''base_version_id'', JStr (vs_version_id (us_parent s))), (''base_revision'', JInt (int (vs_revision (us_parent s)))),
         (''authorized_delta_hash'', JStr (us_delta s)), (''evidence_manifest_hash'', JStr (us_hash s)),
         (''selected_transcript_count'', JInt (int (length ids))), (''evidence_count'', JInt (int (length (us_manifest s))))])))
      (\<lambda>(jid, warn). ret (\<lparr>fa_job_id = jid, fa_reused = False, fa_warning = warn\<rparr>,
        Some \<lparr>up_account = safe_account i, up_slug = safe_opp i, up_base_version_id = base_id, up_base_revision = base_rev,
          up_transcript_ids = ids, up_hash = us_hash s, up_delta = us_delta s\<rparr>)))"

definition start_update :: "desk_resolver \<Rightarrow> string \<Rightarrow> string \<Rightarrow> string \<Rightarrow> nat \<Rightarrow> string list
   \<Rightarrow> (desk, flow_answer \<times> update_plan option) op" where
  "start_update resolve account slug base_id base_rev ids = bnd (resolve account slug) (\<lambda>i.
     bnd (select_transcripts (safe_account i) ids) (\<lambda>selected.
     bnd (at_world ops_now) (\<lambda>now.
     bnd (of_sum (metadata_entry (opp_metadata i) now)) (\<lambda>meta.
     let delta = delta_hash base_id base_rev meta selected; sig = update_signature i base_id base_rev delta in
     bnd (read_st (\<lambda>d. find_managed_job update_kind sig (w_jobs (dk_world d)))) (\<lambda>existing.
     case (case existing of None \<Rightarrow> None | Some (jid, j) \<Rightarrow> if jb_status j = JobError then None else Some jid) of
       Some jid \<Rightarrow> ret (\<lparr>fa_job_id = jid, fa_reused = True, fa_warning = False\<rparr>, None)
     | None \<Rightarrow> bnd (snapshot_update resolve (safe_account i) (safe_opp i) base_id base_rev ids) (\<lambda>s.
         if us_delta s \<noteq> delta then update_error 409 ''evidence_changed''
         else bnd (active_flow (us_identity s)) (\<lambda>active.
           if active \<noteq> None then update_error 409 ''update_in_progress''
           else launch_update sig s base_id base_rev ids)))))))"

definition get_update_job :: "string \<Rightarrow> string \<Rightarrow> string \<Rightarrow> (desk, job_view) op" where
  "get_update_job account slug jid = bnd (read_st (own_job update_kind account slug jid)) (\<lambda>j. case j of
     None \<Rightarrow> update_error 404 ''unknown_job''
   | Some j \<Rightarrow> ret (view_job [''base_version_id'', ''base_revision'', ''authorized_delta_hash'', ''evidence_manifest_hash'',
       ''selected_transcript_count'', ''evidence_count'', ''result_revision'', ''result_version_id''] j))"

end
