(* ===== verification/Flow_Claims.thy ===== *)
theory Flow_Claims
  imports Overview_Flows Commit_Claims
begin

section \<open>What the create and update flows promise\<close>

text \<open>
  Two promises: a selection of saved transcripts resolves to exactly the files it names, read as a
  whole and unchanged while they were read; and an update flow leaves the versions of the overview
  alone unless it appends the one version that was authorized.
\<close>

subsection \<open>Identifiers\<close>

lemma length_base64_url: "length (base64_url s) = (4 * length s + 2) div 3"
  by (induction s rule: base64_url.induct) (simp_all add: Let_def del: of_char_of)

lemma length_sha256_bytes: "length (sha256_bytes s) = 32"
  by (simp add: sha256_bytes_def length_concat comp_def word_bytes_def sum_list_triv length_sha256_words)

lemma length_evidence_id: "length (evidence_id_of key account filename) = 35"
  by (simp add: evidence_id_of_def hmac_sha256_def Let_def length_base64_url length_sha256_bytes)

subsection \<open>The transcript directory while it is read\<close>

definition same_files :: "transcripts \<Rightarrow> transcripts \<Rightarrow> bool" where
  "same_files t t' \<longleftrightarrow> ts_safe_name t' = ts_safe_name t \<and> ts_titlecase t' = ts_titlecase t \<and> ts_dir_ok t' = ts_dir_ok t
     \<and> ts_files t' = ts_files t \<and> ts_probes t' = ts_probes t \<and> ts_reads t \<le> ts_reads t'
     \<and> (\<forall>k. ts_key t = Key k \<longrightarrow> ts_key t' = Key k)"

interpretation files: state_relation same_files
  by unfold_locales (auto simp: same_files_def)

lemma evidence_keyD:
  "evidence_key t = (r, t') \<Longrightarrow> same_files t t' \<and> (\<forall>key. r = Inr key \<longrightarrow> ts_key t' = Key key)"
  by (auto simp: evidence_key_def same_files_def op_defs split: key_file.splits if_splits)

lemma transcript_idD:
  "transcript_id account name t = (Inr i, t') \<Longrightarrow> same_files t t' \<and> (\<exists>key. ts_key t' = Key key \<and> i = evidence_id_of key account name)"
  by (auto simp: transcript_id_def ret_def dest!: evidence_keyD elim!: bnd_InrE)

lemma files_transcript_id: "obeys same_files (transcript_id account name)"
  unfolding transcript_id_def
  by (intro files.obeys_bnd files.obeys_basic obeysI) (auto dest: evidence_keyD)

text \<open>A read that is accepted returns the whole file, unchanged from the first look at it to the last.\<close>

definition read_whole :: "nat \<Rightarrow> probe \<Rightarrow> string \<Rightarrow> datetime \<Rightarrow> bool" where
  "read_whole max_item p content time \<longleftrightarrow> length content \<le> max_item \<and> (\<exists>before opened after_read after_path.
     pb_before p = Some before \<and> pb_read p = Some (opened, content, after_read, after_path)
     \<and> \<not> fs_link before \<and> \<not> fs_link after_path \<and> fs_regular before \<and> fs_regular opened
     \<and> fs_node opened = fs_node before \<and> fs_node after_read = fs_node before \<and> fs_node after_path = fs_node before
     \<and> fs_size opened = length content \<and> fs_size after_path = length content
     \<and> fs_mtime_ns opened = fs_mtime_ns after_path \<and> time = fs_time after_read)"

lemma stable_readD: "stable_read max_item p = Inr (content, time) \<Longrightarrow> read_whole max_item p content time"
  by (auto simp: stable_read_def read_whole_def Let_def split: option.splits prod.splits if_splits)

text \<open>What one resolved transcript is, for the files of \<open>t\<close> under a key.\<close>

definition exact_evidence :: "nat \<Rightarrow> string \<Rightarrow> transcripts \<Rightarrow> transcripts \<Rightarrow> transcript_evidence \<Rightarrow> bool" where
  "exact_evidence max_item safe t t' x \<longleftrightarrow>
     (\<exists>key. ts_key t' = Key key \<and> te_id x = evidence_id_of key safe (te_display_name x))
     \<and> (\<exists>n < ts_reads t'. read_whole max_item (ts_probes t n (te_display_name x)) (te_content x) (te_observed_at x))
     \<and> te_sha256 x = sha256_hex (te_content x) \<and> te_byte_count x = length (te_content x) \<and> utf8_ok (te_content x)"

lemma exact_evidence_later:
  "exact_evidence m safe t t1 x \<Longrightarrow> same_files t1 t2 \<Longrightarrow> exact_evidence m safe t t2 x"
  unfolding exact_evidence_def same_files_def by (meson less_le_trans)

lemma resolve_oneD:
  assumes "resolve_one max_item max_total safe by_id i (found, tot) t = (Inr (found', tot'), t')"
  obtains x where "found' = found @ [x]" and "tot' = tot + te_byte_count x" and "tot' \<le> max_total"
    and "te_id x = i" and "(i, te_display_name x) \<in> set by_id" and "exact_evidence max_item safe t t' x"
    and "same_files t t'"
proof -
  from assms obtain name t1 content time where
    n: "map_of (rev by_id) i = Some name" and i: "transcript_id safe name t = (Inr i, t1)"
    and p: "stable_read max_item (ts_probes t1 (ts_reads t1) name) = Inr (content, time)"
    and t': "t' = t1\<lparr>ts_reads := Suc (ts_reads t1)\<rparr>" and le: "tot + length content \<le> max_total"
    and u: "utf8_ok content" and out: "found' = found @ [\<lparr>te_id = i, te_display_name = name, te_content = content,
      te_sha256 = sha256_hex content, te_byte_count = length content, te_observed_at = time\<rparr>]"
    and tot: "tot' = tot + length content"
    by (auto simp: resolve_one_def Let_def raise_def ret_def probe_file_def of_sum_def
        split: option.splits if_splits elim!: bnd_InrE)
  from transcript_idD [OF i] have s1: "same_files t t1" and k: "\<exists>key. ts_key t1 = Key key \<and> i = evidence_id_of key safe name"
    by auto
  have s: "same_files t t'" using s1 t' by (auto simp: same_files_def)
  have "(i, name) \<in> set by_id" using map_of_SomeD [OF n] by simp
  moreover have "exact_evidence max_item safe t t' \<lparr>te_id = i, te_display_name = name, te_content = content,
      te_sha256 = sha256_hex content, te_byte_count = length content, te_observed_at = time\<rparr>"
    using k u stable_readD [OF p] s1 t' by (auto simp: exact_evidence_def same_files_def)
  ultimately show thesis using out tot le s by (intro that) auto
qed

lemma resolve_foldD:
  "fold_op (resolve_one max_item max_total safe by_id) ids (found, tot) t = (Inr (found', tot'), t') \<Longrightarrow>
   \<exists>xs. found' = found @ xs \<and> map te_id xs = ids \<and> tot' = tot + sum_list (map te_byte_count xs)
     \<and> (ids \<noteq> [] \<longrightarrow> tot' \<le> max_total) \<and> same_files t t'
     \<and> (\<forall>x \<in> set xs. (te_id x, te_display_name x) \<in> set by_id \<and> exact_evidence max_item safe t t' x)"
proof (induction ids arbitrary: found tot t)
  case Nil
  then show ?case by (simp add: ret_def files.R_refl)
next
  case (Cons i ids)
  from Cons.prems obtain acc t1 where one: "resolve_one max_item max_total safe by_id i (found, tot) t = (Inr acc, t1)"
    and rest: "fold_op (resolve_one max_item max_total safe by_id) ids acc t1 = (Inr (found', tot'), t')"
    by (auto elim!: bnd_InrE)
  obtain f1 n1 where acc: "acc = (f1, n1)" by (cases acc)
  from one [unfolded acc] obtain x where x: "f1 = found @ [x]" "n1 = tot + te_byte_count x" "n1 \<le> max_total"
    "te_id x = i" "(i, te_display_name x) \<in> set by_id" "exact_evidence max_item safe t t1 x" and s: "same_files t t1"
    by (rule resolve_oneD)
  from Cons.IH [OF rest [unfolded acc]] obtain xs where xs: "found' = f1 @ xs" "map te_id xs = ids"
    "tot' = n1 + sum_list (map te_byte_count xs)" "ids \<noteq> [] \<longrightarrow> tot' \<le> max_total" and s1: "same_files t1 t'"
    and all: "\<forall>x \<in> set xs. (te_id x, te_display_name x) \<in> set by_id \<and> exact_evidence max_item safe t1 t' x" by auto
  have "exact_evidence max_item safe t t' y" if "exact_evidence max_item safe t1 t' y" for y
    using that s by (simp add: exact_evidence_def same_files_def)
  with all exact_evidence_later [OF x(6) s1] x xs s s1 show ?case
    by (intro exI [of _ "x # xs"]) (auto intro: files.R_trans)
qed

lemma map_op_ids:
  "map_op (\<lambda>n. bnd (transcript_id safe n) (\<lambda>i. ret (i, n))) names t = (Inr by_id, t') \<Longrightarrow>
   same_files t t' \<and> map snd by_id = names"
proof (induction names arbitrary: t by_id)
  case Nil
  then show ?case by (simp add: ret_def files.R_refl)
next
  case (Cons n ns)
  then show ?case
    by (auto simp: ret_def elim!: bnd_InrE dest!: transcript_idD intro: files.R_trans)
qed


text \<open>C17: a selection is exact.  When the service resolves a selection of transcripts it returns one entry per
  requested identifier, in the order of the request and without repetition; every entry is a file of
  the account that was eligible when the request came, under the identifier that the local key gives
  it; its content is the whole file as it was from the first look at it to the last, of at most
  500,000 bytes of UTF-8, with its true size and digest; and all together are at most 750,000 bytes.\<close>

theorem selection_is_exact:
  assumes "resolve_selected account ids t = (Inr found, t')"
  shows "map te_id found = ids \<and> distinct ids \<and> ids \<noteq> [] \<and> length ids \<le> 50
    \<and> sum_list (map te_byte_count found) \<le> 750000
    \<and> (\<forall>x \<in> set found. te_display_name x \<in> set (eligible_paths (ts_safe_name t account) t)
        \<and> exact_evidence 500000 (ts_safe_name t account) t t' x)"
proof -
  let ?safe = "ts_safe_name t account"
  from assms obtain by_id t1 tot where ids: "ids \<noteq> []" "length ids \<le> 50" "distinct ids"
    and by_id: "map_op (\<lambda>n. bnd (transcript_id ?safe n) (\<lambda>i. ret (i, n))) (eligible_paths ?safe t) t = (Inr by_id, t1)"
    and run: "fold_op (resolve_one 500000 750000 ?safe by_id) ids ([], 0) t1 = (Inr (found, tot), t')"
    by (auto simp: resolve_selected_def resolve_transcripts_def read_st_def raise_def ret_def split: if_splits elim!: bnd_InrE)
  from map_op_ids [OF by_id] have s: "same_files t t1" and names: "map snd by_id = eligible_paths ?safe t" by auto
  from resolve_foldD [OF run] obtain xs where "found = xs" "map te_id xs = ids" "tot = sum_list (map te_byte_count xs)"
    "tot \<le> 750000" and all: "\<forall>x \<in> set xs. (te_id x, te_display_name x) \<in> set by_id \<and> exact_evidence 500000 ?safe t1 t' x"
    using ids by auto
  moreover have "te_display_name x \<in> set (eligible_paths ?safe t)" if "(te_id x, te_display_name x) \<in> set by_id" for x
    using that names by (metis (no_types, lifting) image_eqI list.set_map snd_conv)
  moreover have "exact_evidence 500000 ?safe t t' y" if "exact_evidence 500000 ?safe t1 t' y" for y
    using that s by (simp add: exact_evidence_def same_files_def)
  ultimately show ?thesis using ids by auto
qed

definition demo_stat :: file_stat where
  "demo_stat = \<lparr>fs_link = False, fs_regular = True, fs_node = (1, 2), fs_size = 5, fs_mtime_ns = 7, fs_time = 7\<rparr>"

definition demo_probe :: probe where
  "demo_probe = \<lparr>pb_before = Some demo_stat, pb_read = Some (demo_stat, ''hello'', demo_stat, demo_stat)\<rparr>"

definition demo_transcripts :: transcripts where
  "demo_transcripts = \<lparr>ts_safe_name = (\<lambda>s. s), ts_titlecase = (\<lambda>s. s), ts_key = Key (replicate 32 CHR ''k''),
     ts_fresh_key = [], ts_dir_ok = True,
     ts_files = [(''Acme-kickoff.txt'', \<lparr>sv_symlink = False, sv_regular = True, sv_inside = True, sv_stat = Some (7, 5)\<rparr>),
       (''Other-kickoff.txt'', \<lparr>sv_symlink = False, sv_regular = True, sv_inside = True, sv_stat = Some (7, 5)\<rparr>)],
     ts_probes = (\<lambda>_ _. demo_probe), ts_reads = 0\<rparr>"

abbreviation after_reads :: "nat \<Rightarrow> transcripts" where
  "after_reads n \<equiv> demo_transcripts\<lparr>ts_reads := n\<rparr>"

definition demo_transcript_id :: string where
  "demo_transcript_id = evidence_id_of (replicate 32 CHR ''k'') ''Acme'' ''Acme-kickoff.txt''"

definition demo_selected :: transcript_evidence where
  "demo_selected = \<lparr>te_id = demo_transcript_id, te_display_name = ''Acme-kickoff.txt'', te_content = ''hello'',
     te_sha256 = sha256_hex ''hello'', te_byte_count = 5, te_observed_at = 7\<rparr>"

lemma demo_transcript_ids:
  "transcript_id ''Acme'' f (after_reads n) = (Inr (evidence_id_of (replicate 32 CHR ''k'') ''Acme'' f), after_reads n)"
  by (simp add: transcript_id_def evidence_key_def demo_transcripts_def op_defs)

lemma demo_eligible: "eligible_paths ''Acme'' (after_reads n) = [''Acme-kickoff.txt'']"
  by (simp add: eligible_paths_def demo_transcripts_def txt_suffix_def startswith_def)

lemma demo_file_read: "stable_read 500000 demo_probe = Inr (''hello'', 7)"
  by (simp add: stable_read_def demo_probe_def demo_stat_def)

lemma demo_selection:
  "resolve_selected ''Acme'' [demo_transcript_id] (after_reads n) = (Inr [demo_selected], after_reads (Suc n))"
proof -
  have id: "\<not> 80 < length demo_transcript_id" by (simp add: demo_transcript_id_def length_evidence_id)
  have probe: "probe_file ''Acme-kickoff.txt'' (after_reads n) = (Inr demo_probe, after_reads (Suc n))"
    by (simp add: probe_file_def demo_transcripts_def)
  have safe: "ts_safe_name demo_transcripts s = s" for s by (simp add: demo_transcripts_def)
  have "utf8_ok ''hello''" by code_simp
  then have "resolve_one 500000 750000 ''Acme'' [(demo_transcript_id, ''Acme-kickoff.txt'')] demo_transcript_id ([], 0) (after_reads n)
      = (Inr ([demo_selected], 5), after_reads (Suc n))"
    using probe demo_file_read
    by (simp add: resolve_one_def bnd_def of_sum_def ret_def Let_def demo_transcript_ids demo_selected_def
        flip: demo_transcript_id_def)
  then show ?thesis
    using id safe demo_eligible
    by (simp add: resolve_selected_def resolve_transcripts_def bnd_def read_st_def ret_def demo_transcript_ids
        flip: demo_transcript_id_def)
qed

theorem selection_is_exact_witness:
  "\<exists>x t'. te_id x = demo_transcript_id \<and> te_content x = ''hello'' \<and> te_display_name x = ''Acme-kickoff.txt''
     \<and> exact_evidence 500000 ''Acme'' demo_transcripts t' x"
proof -
  have t: "after_reads 0 = demo_transcripts" and safe: "ts_safe_name demo_transcripts ''Acme'' = ''Acme''"
    by (simp_all add: demo_transcripts_def)
  have "exact_evidence 500000 ''Acme'' demo_transcripts (after_reads 1) demo_selected"
    using selection_is_exact [OF demo_selection [of 0]] safe unfolding t by simp
  then show ?thesis by (intro exI [of _ demo_selected] exI [of _ "after_reads 1"]) (simp add: demo_selected_def)
qed


subsection \<open>What the steps before the promotion leave alone\<close>

text \<open>The stored overviews, with what their paths depend on.\<close>

definition same_shelf :: "desk \<Rightarrow> desk \<Rightarrow> bool" where
  "same_shelf d d' \<longleftrightarrow> (let s = w_store (dk_world d); s' = w_store (dk_world d') in
     ss_dirs s' = ss_dirs s \<and> ss_safe_name s' = ss_safe_name s \<and> ss_accounts s' = ss_accounts s)"

interpretation shelf: state_relation same_shelf
  by unfold_locales (auto simp: same_shelf_def Let_def)

lemma shelf_at_transcripts: "obeys same_shelf (at_transcripts m)"
  unfolding at_transcripts_def by (rule shelf.obeys_zoom) (simp add: same_shelf_def)

lemma shelf_at_store: "obeys (=) m \<Longrightarrow> obeys same_shelf (at_store m)"
  unfolding at_store_def at_world_def in_store_def
  by (intro shelf.obeys_zoom) (auto simp: zoom_def same_shelf_def Let_def dest: obeysD split: prod.splits)

lemma shelf_now: "obeys same_shelf (at_world ops_now)"
  unfolding at_world_def by (rule shelf.obeys_zoom) (auto simp: ops_now_def same_shelf_def)

lemmas shelf_intros = shelf.obeys_bnd shelf.obeys_if shelf.obeys_basic shelf_at_transcripts shelf_now
  shelf_at_store [OF obeys_read_current]

lemma shelf_select: "obeys same_shelf (select_transcripts account ids)"
  unfolding select_transcripts_def by (intro shelf_intros)

lemma shelf_snapshot_update:
  assumes "obeys same_shelf (resolve account slug)"
  shows "obeys same_shelf (snapshot_update resolve account slug base_id base_rev ids)"
  unfolding snapshot_update_def
  by (intro shelf_intros assms) (auto intro!: shelf_intros shelf_select split: option.split)

lemma shelf_authorized:
  assumes "obeys same_shelf (resolve (up_account p) (up_slug p))"
  shows "obeys same_shelf (authorized_snapshot resolve p)"
  unfolding authorized_snapshot_def by (intro shelf_intros shelf_snapshot_update assms)

lemma authorized_snapshotD:
  assumes "authorized_snapshot resolve p d = (Inr s, d')"
  shows "us_hash s = up_hash p \<and> us_delta s = up_delta p \<and> us_hash s = evidence_manifest_hash (us_manifest s)
    \<and> (\<exists>d0. resolve (up_account p) (up_slug p) d = (Inr (us_identity s), d0))"
  using assms
  by (auto simp: authorized_snapshot_def snapshot_update_def ret_def raise_def split: if_splits option.splits elim!: bnd_InrE)

lemma chain_shelf: "same_shelf d d' \<Longrightarrow>
  at_chain (w_store (dk_world d')) account slug vs = at_chain (w_store (dk_world d)) account slug vs
  \<and> dir_key (w_store (dk_world d')) = dir_key (w_store (dk_world d)) \<and> dir_at (w_store (dk_world d')) = dir_at (w_store (dk_world d))"
  by (auto simp: same_shelf_def Let_def at_chain_def dir_key_def dir_at_def fun_eq_iff)

subsection \<open>The promotion at the end of an update\<close>

definition appended :: "string \<times> string \<Rightarrow> version list \<Rightarrow> version \<Rightarrow> desk \<Rightarrow> desk \<Rightarrow> bool" where
  "appended k vs v d d' \<longleftrightarrow> (\<forall>k'. dir_at (w_store (dk_world d')) k' =
     (if k' = k then extended (dir_at (w_store (dk_world d)) k) vs v else dir_at (w_store (dk_world d)) k'))"

lemma promote_flow_cases:
  assumes chain: "at_chain (w_store (dk_world d)) (safe_account i) (safe_opp i) vs"
    and run: "promote_flow i r (\<lambda>oi prov. promote_update oi pid prev es h prov (ex_candidate r)) d = (q, d')"
  obtains (fails) e where "q = Inl e" and "same_shelf d d'"
    | (grows) v where "q = Inr [(''result_revision'', JInt (int (vs_revision v))), (''result_version_id'', JStr (vs_version_id v))]"
      and "vs \<noteq> []" and "vs_version_id (last vs) = pid" and "vs_revision (last vs) = prev"
      and "vs_state v = ex_candidate r" and "vs_manifest v = es" and "vs_manifest_hash v = h" and "h = evidence_manifest_hash es"
      and "evidence_authorized (ex_candidate r) es"
      and "appended (dir_key (w_store (dk_world d)) (safe_account i) (safe_opp i)) vs v d d'"
proof -
  let ?w = "dk_world d" let ?s = "(w_store ?w)\<lparr>ss_forgotten := forgotten_ids (w_ledger ?w)\<rparr>"
  let ?oi = "\<lparr>oi_account = safe_account i, oi_slug = safe_opp i, oi_name = opp_name i\<rparr>"
  let ?gp = "\<lparr>gp_updater_version = updater_version, gp_model = ex_model r, gp_runtime = ex_runtime r, gp_cli_version = ex_cli_version r\<rparr>"
  have chain': "at_chain ?s (oi_account ?oi) (oi_slug ?oi) vs" using chain by (simp add: at_chain_frame)
  have frame: "dir_key ?s = dir_key (w_store ?w)" "dir_at ?s = dir_at (w_store ?w)"
    by (intro ext, simp add: dir_key_def dir_at_def)+
  obtain pr s' where pu: "promote_update ?oi pid prev es h ?gp (ex_candidate r) ?s = (pr, s')" by (rule prod.exhaust)
  have at: "at_store (promote_update ?oi pid prev es h ?gp (ex_candidate r)) d = (pr, d\<lparr>dk_world := ?w\<lparr>w_store := s'\<rparr>\<rparr>)"
    using pu by (simp add: at_store_def at_world_def in_store_def zoom_def)
  have early: thesis if "\<exists>e. q = Inl e \<and> d' = d" using that fails by (auto intro: shelf.R_refl)
  show thesis
  proof (cases "mk_opp_identity ?oi = Inr ?oi \<and> mk_provenance ?gp = Inr ?gp")
    case False
    then have "\<exists>e. q = Inl e \<and> d' = d"
      using run by (auto simp: promote_flow_def mk_opp_identity_def mk_provenance_def bnd_def of_sum_def split: if_splits)
    then show thesis by (rule early)
  next
    case True
    note run' = run [unfolded promote_flow_def bnd_def of_sum_def, simplified True sum.case prod.case at]
    from chain' pu show thesis
    proof (cases rule: promote_update_cases)
      case (fails e)
      then have "q = Inl e" "same_shelf d d'" using run' by (auto simp: same_shelf_def same_dirs_def)
      then show thesis by (rule that(1))
    next
      case (grows v vid now cs)
      then have out: "q = Inr [(''result_revision'', JInt (int (vs_revision v))), (''result_version_id'', JStr (vs_version_id v))]"
        "w_store (dk_world d') = s'" using run' by (auto simp: ret_def)
      have "appended (dir_key (w_store ?w) (safe_account i) (safe_opp i)) vs v d d'"
        using grows(12) out(2) frame by (simp add: grown_def appended_def del: split_paired_All)
      with grows out show thesis by (intro that(2)) (simp_all add: child_version_def)
    qed
  qed
qed


lemma as_update_jobD:
  assumes "as_update_job m d = (q, d')"
  obtains q0 where "m d = (q0, d')" and "\<And>x. q0 = Inr x \<longleftrightarrow> q = Inr x"
proof -
  obtain q0 d0 where m: "m d = (q0, d0)" by (rule prod.exhaust)
  have "d0 = d' \<and> (\<forall>x. q0 = Inr x \<longleftrightarrow> q = Inr x)"
    using assms m
    by (cases q0) (auto simp: as_update_job_def as_create_job_def catch_def raise_def split: exn.splits)
  with m that show thesis by blast
qed

lemma run_update_cases:
  assumes run: "run_update resolve execute p d = (q, d')"
    and quiet: "\<And>account slug. obeys same_shelf (resolve account slug)" "\<And>request. obeys same_shelf (execute request)"
  obtains (stops) e where "q = Inl e" and "same_shelf d d'"
    | (promotes) q0 d1 after r da db where "same_shelf d d1" and "authorized_snapshot resolve p da = (Inr after, db)"
      and "promote_flow (us_identity after) r (\<lambda>oi prov. promote_update oi (up_base_version_id p)
        (up_base_revision p) (us_manifest after) (up_hash p) prov (ex_candidate r)) d1 = (q0, d')"
      and "\<And>x. q0 = Inr x \<longleftrightarrow> q = Inr x"
proof -
  let ?promote = "\<lambda>r after. promote_flow (us_identity after) r (\<lambda>oi prov. promote_update oi (up_base_version_id p)
    (up_base_revision p) (us_manifest after) (up_hash p) prov (ex_candidate r))"
  let ?pre = "bnd (authorized_snapshot resolve p) (\<lambda>before.
      bnd (execute (flow_request (us_identity before) (us_selected before) (Some (us_parent before)))) (\<lambda>r.
      bnd (of_sum (validate_candidate_evidence (ex_candidate r) (us_manifest before))) (\<lambda>_.
      bnd (authorized_snapshot resolve p) (\<lambda>after. ret (r, after)))))"
  from run obtain q0 where inner: "bnd (authorized_snapshot resolve p) (\<lambda>before.
      bnd (execute (flow_request (us_identity before) (us_selected before) (Some (us_parent before)))) (\<lambda>r.
      bnd (of_sum (validate_candidate_evidence (ex_candidate r) (us_manifest before))) (\<lambda>_.
      bnd (authorized_snapshot resolve p) (?promote r)))) d = (q0, d')"
    and same: "\<And>x. q0 = Inr x \<longleftrightarrow> q = Inr x"
    unfolding run_update_def by (rule as_update_jobD) (rule that)
  have split: "bnd ?pre (\<lambda>(r, after). ?promote r after) d = (q0, d')"
    using inner by (simp add: bnd_assoc)
  have snap: "obeys same_shelf (authorized_snapshot resolve p)" by (rule shelf_authorized) (rule quiet(1))
  have pre: "obeys same_shelf ?pre" by (intro shelf_intros snap quiet(2))
  from split show thesis
  proof (cases rule: bnd_cases)
    case (err e)
    then have "\<exists>e. q = Inl e" using same [of "projr q"] by (cases q) auto
    with err pre show thesis by (auto dest: obeysD intro: that(1))
  next
    case (ok x d1)
    obtain r after where x: "x = (r, after)" by (cases x)
    with ok(1) obtain da db where snapped: "authorized_snapshot resolve p da = (Inr after, db)"
      by (auto simp: ret_def elim!: bnd_InrE)
    have s1: "same_shelf d d1" using ok(1) pre by (auto dest: obeysD)
    have "?promote r after d1 = (q0, d')" using ok(2) x by simp
    from that(2) [OF s1 snapped this same] show thesis .
  qed
qed

text \<open>C12: an update is all or nothing.  Whatever the workspace service and the analysis do, as long as they do not
  write the stored overviews themselves, a finished update flow either raised and left every stored
  version as it was, or returned and appended exactly one version to the overview it was started
  for and to no other: a child of the very version the user consented to update, holding a state
  whose citations the authorized manifest covers, and the manifest whose hash was authorized at the start.\<close>

theorem update_all_or_nothing:
  assumes "at_chain (w_store (dk_world d)) (up_account p) (up_slug p) vs"
    and "run_update resolve execute p d = (q, d')"
    and "\<And>account slug. obeys same_shelf (resolve account slug)" and "\<And>request. obeys same_shelf (execute request)"
    and "\<forall>i e e'. resolve (up_account p) (up_slug p) e = (Inr i, e') \<longrightarrow> safe_account i = up_account p \<and> safe_opp i = up_slug p"
  shows "case q of
      Inl e \<Rightarrow> same_shelf d d'
    | Inr answer \<Rightarrow> \<exists>v. answer = [(''result_revision'', JInt (int (vs_revision v))), (''result_version_id'', JStr (vs_version_id v))]
        \<and> vs \<noteq> [] \<and> vs_version_id (last vs) = up_base_version_id p \<and> vs_revision (last vs) = up_base_revision p
        \<and> evidence_authorized (vs_state v) (vs_manifest v) \<and> evidence_manifest_hash (vs_manifest v) = up_hash p
        \<and> appended (dir_key (w_store (dk_world d)) (up_account p) (up_slug p)) vs v d d'"
proof -
  have early: ?thesis if "\<exists>e. q = Inl e" "same_shelf d d'" using that by auto
  from assms(2-4) show ?thesis
  proof (cases rule: run_update_cases)
    case (stops e)
    then show ?thesis by (intro early) auto
  next
    case (promotes q0 d1 after r da db)
    note s1 = promotes(1) and same = promotes(4)
    from authorized_snapshotD [OF promotes(2)] assms(5) have after: "us_hash after = up_hash p"
      "us_hash after = evidence_manifest_hash (us_manifest after)"
      "safe_account (us_identity after) = up_account p" "safe_opp (us_identity after) = up_slug p" by auto
    have chain: "at_chain (w_store (dk_world d1)) (safe_account (us_identity after)) (safe_opp (us_identity after)) vs"
      using assms(1) chain_shelf [OF s1] after by simp
    from chain promotes(3) show ?thesis
    proof (cases rule: promote_flow_cases)
      case (fails e)
      then have "\<exists>e. q = Inl e" using same [of "projr q"] by (cases q) auto
      with fails s1 show ?thesis by (intro early) (auto intro: shelf.R_trans)
    next
      case (grows v)
      then have "appended (dir_key (w_store (dk_world d)) (up_account p) (up_slug p)) vs v d d'"
        using chain_shelf [OF s1] after by (simp add: appended_def del: split_paired_All)
      with grows same show ?thesis by auto
    qed
  qed
qed


subsection \<open>A flow that appends\<close>

lemma concat_singletons:
  "(\<And>k. map key (f k) = (if f k = [] then [] else [k])) \<Longrightarrow> map key (concat (map f ks)) = filter (\<lambda>k. f k \<noteq> []) ks"
  by (induction ks) auto

lemma source_changes_keys:
  "\<exists>P. map (\<lambda>s. (sc_type s, sc_id s)) (source_changes before after)
     = filter P (sort_key (\<lambda>(t, i). (evidence_type_value t, i)) (remdups (map entry_key after)))"
  unfolding source_changes_def Let_def
  by (rule exI, rule concat_singletons) (auto split: option.split)

lemma source_changes_kinds: "x \<in> set (source_changes before after) \<Longrightarrow> sc_change x \<in> {Added, Replaced}"
  by (auto simp: source_changes_def Let_def split: option.splits if_splits)

lemma source_changes_ok:
  assumes "list_all valid_manifest_entry after" and "length after \<le> 50"
  shows "list_all (\<lambda>s. text_ok 8 160 (sc_id s) \<and> sc_change s \<in> {Added, Replaced}) (filter P (source_changes before after))"
    and "length (filter P (source_changes before after)) \<le> 50"
    and "distinct (map (\<lambda>s. (sc_type s, sc_id s)) (filter P (source_changes before after)))"
proof -
  let ?keys = "map (\<lambda>s. (sc_type s, sc_id s)) (source_changes before after)"
  obtain Q where Q: "?keys = filter Q (sort_key (\<lambda>(t, i). (evidence_type_value t, i)) (remdups (map entry_key after)))"
    using source_changes_keys by blast
  then have "distinct ?keys" by simp
  then show "distinct (map (\<lambda>s. (sc_type s, sc_id s)) (filter P (source_changes before after)))"
    by (auto simp: distinct_map inj_on_def)
  have "length ?keys \<le> length after"
    unfolding Q by (rule order_trans [OF length_filter_le])
      (simp add: order_trans [OF length_remdups_leq])
  then have "length (source_changes before after) \<le> length after" by (simp only: length_map)
  then show "length (filter P (source_changes before after)) \<le> 50"
    using assms(2) length_filter_le [of P "source_changes before after"] by linarith
  have "(sc_type x, sc_id x) \<in> entry_key ` set after" if "x \<in> set (source_changes before after)" for x
  proof -
    have "(sc_type x, sc_id x) \<in> set ?keys" using that by (simp only: set_map) (rule imageI)
    then show ?thesis unfolding Q by auto
  qed
  then show "list_all (\<lambda>s. text_ok 8 160 (sc_id s) \<and> sc_change s \<in> {Added, Replaced}) (filter P (source_changes before after))"
    using assms(1) source_changes_kinds by (fastforce simp: list_all_iff entry_key_def valid_manifest_entry_def)
qed

lemma same_state_change_set:
  assumes "valid_candidate_state (vs_state p)" and "vs_revision p = 1" and "hexn 32 (vs_version_id p)" and "hexn 32 vid"
    and "list_all valid_manifest_entry es" and "length es \<le> 50"
  shows "\<exists>cs. deterministic_change_set p vid 2 (vs_state p) es = Inr cs \<and> chs_parent_version_id cs = vs_version_id p
    \<and> chs_parent_revision cs = 1 \<and> chs_child_version_id cs = vid \<and> chs_child_revision cs = 2"
proof -
  note d = valid_keys_distinct [OF assms(1)]
  let ?srcs = "source_changes (vs_manifest p) es"
  have "raw_change_set p vid 2 (vs_state p) es = (blank_change_set p vid 2)\<lparr>
      chs_sources := filter (\<lambda>s. sc_type s \<noteq> OpportunityMetadata) ?srcs,
      chs_metadata_changed := list_ex (\<lambda>s. sc_type s = OpportunityMetadata) ?srcs\<rparr>" (is "_ = ?cs")
    using keyed_perm [OF refl d(1)] keyed_perm [OF refl d(2)] keyed_perm [OF refl d(3)] keyed_perm [OF refl d(4)]
      keyed_perm [OF refl d(5)] keyed_perm [OF refl d(6)]
    by (simp add: raw_change_set_def blank_change_set_def Let_def gap_changes_def part_changes_refl)
  moreover have "valid_change_set ?cs"
    using assms source_changes_ok [OF assms(5,6), of "\<lambda>s. sc_type s \<noteq> OpportunityMetadata" "vs_manifest p"]
    by (simp add: valid_change_set_def blank_change_set_def chs_sections_def)
  ultimately show ?thesis using assms(2) by (simp add: deterministic_change_set_def blank_change_set_def)
qed


definition demo_update_meta :: manifest_entry where
  "demo_update_meta = \<lparr>me_type = OpportunityMetadata, me_id = metadata_source_id,
     me_sha256 = sha256_hex (metadata_bytes (opp_metadata demo_identity)),
     me_byte_count = length (metadata_bytes (opp_metadata demo_identity)), me_observed_at = 0,
     me_display_name = ''Opportunity metadata''\<rparr>"

definition demo_selected_entry :: manifest_entry where
  "demo_selected_entry = \<lparr>me_type = Transcript, me_id = demo_transcript_id, me_sha256 = sha256_hex ''hello'',
     me_byte_count = 5, me_observed_at = 7, me_display_name = ''Acme-kickoff.txt''\<rparr>"

definition demo_update_manifest :: "manifest_entry list" where
  "demo_update_manifest = [demo_update_meta, demo_entry demo_src, demo_selected_entry]"

definition demo_update_plan :: update_plan where
  "demo_update_plan = \<lparr>up_account = ''Acme'', up_slug = ''renewal'', up_base_version_id = vs_version_id demo_version,
     up_base_revision = 1, up_transcript_ids = [demo_transcript_id], up_hash = evidence_manifest_hash demo_update_manifest,
     up_delta = delta_hash (vs_version_id demo_version) 1 demo_update_meta [demo_selected]\<rparr>"

definition demo_desk :: "nat \<Rightarrow> nat \<Rightarrow> desk" where
  "demo_desk m n = \<lparr>dk_world = demo_world\<lparr>w_clock := (\<lambda>_. 0), w_ticks := m\<rparr>, dk_transcripts = after_reads n\<rparr>"

definition desk_resolve :: desk_resolver where
  "desk_resolve account slug = ret demo_identity"

definition desk_execute :: desk_executor where
  "desk_execute request = ret demo_result"

definition demo_snapshot :: update_snapshot where
  "demo_snapshot = \<lparr>us_identity = demo_identity, us_parent = demo_version, us_selected = [demo_selected],
     us_manifest = demo_update_manifest, us_hash = evidence_manifest_hash demo_update_manifest,
     us_delta = delta_hash (vs_version_id demo_version) 1 demo_update_meta [demo_selected]\<rparr>"

lemma base64_no_space: "\<not> is_space (base64_char n)"
proof -
  have "list_all (\<lambda>c. \<not> is_space c) ''ABCDEFGHIJKLMNOPQRSTUVWXYZabcdefghijklmnopqrstuvwxyz0123456789-_''" by code_simp
  moreover have "n mod 64 < length ''ABCDEFGHIJKLMNOPQRSTUVWXYZabcdefghijklmnopqrstuvwxyz0123456789-_''" by simp
  ultimately show ?thesis unfolding base64_char_def list_all_length by blast
qed

lemma base64_url_no_space: "list_all (\<lambda>c. \<not> is_space c) (base64_url s)"
  by (induction s rule: base64_url.induct) (simp_all add: Let_def base64_no_space)

lemma evidence_id_text: "text_ok 8 160 (evidence_id_of key account filename)"
proof -
  have "list_all (\<lambda>c. \<not> is_space c) (evidence_id_of key account filename)"
    using base64_url_no_space by (simp add: evidence_id_of_def) (simp add: is_space_def)
  then show ?thesis by (simp add: text_ok_def strip_no_space in_len_def length_evidence_id)
qed

lemma demo_entries_ok: "valid_manifest_entry demo_update_meta" "valid_manifest_entry demo_selected_entry"
proof -
  have "json_size (metadata_payload (opp_metadata demo_identity)) \<le> 2000000"
    by (simp add: demo_identity_def metadata_payload_def metadata_fields_def jfield_def)
  then have "length (metadata_bytes (opp_metadata demo_identity)) \<le> 2000000"
    unfolding metadata_bytes_def by (rule order_trans [OF canonical_size])
  then show "valid_manifest_entry demo_update_meta"
    by (simp add: valid_manifest_entry_def demo_update_meta_def metadata_source_id_def text_simps)
  show "valid_manifest_entry demo_selected_entry"
    using evidence_id_text by (simp add: valid_manifest_entry_def demo_selected_entry_def demo_transcript_id_def text_simps)
qed

lemma demo_update_manifest_ok: "list_all valid_manifest_entry demo_update_manifest"
  using demo_entries_ok demo_manifest_ok(1) by (simp add: demo_update_manifest_def demo_manifest_def)

lemma demo_fresh_id: "demo_transcript_id \<noteq> demo_src @ ''_r1''" "metadata_source_id \<noteq> demo_transcript_id"
  by (simp_all add: demo_transcript_id_def evidence_id_of_def demo_src_def metadata_source_id_def)

lemma demo_update_distinct: "distinct (map entry_key demo_update_manifest)"
  using demo_fresh_id
  by (simp add: demo_update_manifest_def entry_key_def demo_update_meta_def demo_entry_def demo_selected_entry_def)

lemma demo_update_authorized: "evidence_authorized demo_candidate demo_update_manifest"
  by (simp add: evidence_authorized_def evidence_references_def demo_candidate_def upgrade_legacy_def brief_claims_def
      demo_brief_def unknown_claim_def legacy_business_case_def case_areas_def legacy_area_def legacy_meddpicc_def
      dimension_keys_def legacy_stakeholder_map_def demo_indicator_def demo_action_def demo_update_manifest_def
      demo_entry_def entry_key_def)


lemma demo_desk_parts [simp]:
  "dk_transcripts (demo_desk m n) = after_reads n" "w_store (dk_world (demo_desk m n)) = demo_store"
  by (simp_all add: demo_desk_def)

lemma demo_snapshots:
  "authorized_snapshot desk_resolve demo_update_plan (demo_desk m n) = (Inr demo_snapshot, demo_desk (Suc m) (Suc n))"
proof -
  have st: "ss_forgotten demo_store = []" by (simp add: demo_store_def)
  have ret: "sd_retired (dir_at demo_store (dir_key demo_store ''Acme'' ''renewal'')) = None"
    by (simp add: dir_at_def dir_key_def demo_store_def)
  have "read_current ''Acme'' ''renewal'' demo_store = (Inr (Some demo_version), demo_store)"
    using st by (simp add: read_current_def bnd_def read_current_raw_eq [OF demo_store_chain]
      retirement_info_eq [OF demo_store_chain ret] read_st_def ret_def)
  moreover have "demo_store\<lparr>ss_forgotten := forgotten_ids demo_ledger\<rparr> = demo_store"
    by (simp add: forgotten_ids_def demo_ledger_def dir_listing_def) (simp add: demo_store_def)
  ultimately have current: "at_store (read_current ''Acme'' ''renewal'') (demo_desk m n) = (Inr (Some demo_version), demo_desk m n)"
    by (simp add: at_store_def at_world_def in_store_def zoom_def demo_desk_def)
  have selected: "select_transcripts ''Acme'' [demo_transcript_id] (demo_desk m n) = (Inr [demo_selected], demo_desk m (Suc n))"
    by (simp add: select_transcripts_def at_transcripts_def zoom_def demo_selection demo_desk_def)
  have now: "at_world ops_now (demo_desk m n) = (Inr 0, demo_desk (Suc m) n)" for m n
    by (simp add: at_world_def zoom_def ops_now_def demo_desk_def)
  have "metadata_entry (opp_metadata demo_identity) 0 = Inr demo_update_meta"
    using demo_entries_ok(1) by (simp add: metadata_entry_def mk_entry_def demo_update_meta_def Let_def)
  moreover have entry: "transcript_entry demo_selected = Inr demo_selected_entry"
    using demo_entries_ok(2) by (simp add: transcript_entry_def mk_entry_def demo_selected_def demo_selected_entry_def)
  moreover have "classify_selected demo_version [demo_selected] = Inr ()"
    using demo_fresh_id
    by (simp add: classify_selected_def demo_manifest_def demo_metadata_entry_def demo_entry_def demo_selected_def)
  moreover have "cumulative_manifest demo_version demo_update_meta [demo_selected] = Inr demo_update_manifest"
    using demo_fresh_id entry
    by (simp add: cumulative_manifest_def Let_def demo_manifest_def)
       (simp add: demo_metadata_entry_def demo_entry_def demo_selected_def demo_selected_entry_def demo_update_manifest_def)
  moreover have "safe_account demo_identity = ''Acme''" "safe_opp demo_identity = ''renewal''" by (simp_all add: demo_identity_def)
  ultimately show ?thesis
    using current selected now
    by (simp add: authorized_snapshot_def snapshot_update_def bnd_def desk_resolve_def ret_def of_sum_def demo_update_plan_def
        demo_snapshot_def)
qed

lemma demo_update_promotes:
  "\<exists>v s'. promote_update demo_opp (vs_version_id demo_version) 1 demo_update_manifest (evidence_manifest_hash demo_update_manifest)
     run_provenance demo_candidate demo_store = (Inr v, s')"
proof -
  have opp: "oi_account demo_opp = ''Acme''" "oi_slug demo_opp = ''renewal''" by (simp_all add: demo_opp_def)
  have st: "ss_tokens demo_store n = demo_child_id" "ss_token_count demo_store = 0" "ss_clock demo_store = int"
    "ss_ticks demo_store = 0" for n by (simp_all add: demo_store_def demo_child_id_def)
  have ids: "hexn 32 demo_child_id" "hexn 32 (vs_version_id demo_version)" "hexn 32 (replicate 32 CHR ''1'')"
    by (simp_all add: demo_child_id_def hexn_def is_hex_def is_digit_def list_all_iff)
  have "length demo_update_manifest \<le> 50" by (simp add: demo_update_manifest_def)
  from same_state_change_set [OF _ _ ids(2,1) demo_update_manifest_ok this] demo_candidate_ok obtain cs where
    cs: "deterministic_change_set demo_version demo_child_id 2 demo_candidate demo_update_manifest = Inr cs"
    "chs_parent_version_id cs = vs_version_id demo_version" "chs_parent_revision cs = 1"
    "chs_child_version_id cs = demo_child_id" "chs_child_revision cs = 2" by auto
  let ?v = "child_version demo_opp (Some demo_version) demo_update_manifest (evidence_manifest_hash demo_update_manifest)
     run_provenance demo_candidate demo_child_id 0 (Some cs)"
  have "version_fields_ok ?v"
    using ids by (simp add: version_fields_ok_def child_version_def demo_update_manifest_def evidence_manifest_hash_def)
  moreover have "version_consistent ?v"
    using demo_update_distinct demo_update_authorized cs
    by (simp add: version_consistent_def version_chain_ok_def child_version_def)
  moreover have "sd_retired (dir_at demo_store (dir_key demo_store ''Acme'' ''renewal'')) = None"
    by (simp add: dir_at_def dir_key_def demo_store_def)
  ultimately show ?thesis
    using promote_update_runs [of demo_store demo_opp "[demo_version]" demo_candidate demo_update_manifest cs ?v run_provenance]
      demo_store_chain demo_update_authorized cs(1)
    by (auto simp: opp st numeral_2_eq_2)
qed


lemma demo_update_runs:
  "\<exists>answer d'. run_update desk_resolve desk_execute demo_update_plan (demo_desk 0 0) = (Inr answer, d')"
proof -
  obtain v s' where pr: "promote_update demo_opp (vs_version_id demo_version) 1 demo_update_manifest
      (evidence_manifest_hash demo_update_manifest) run_provenance demo_candidate demo_store = (Inr v, s')"
    using demo_update_promotes by blast
  have "demo_store\<lparr>ss_forgotten := forgotten_ids demo_ledger\<rparr> = demo_store"
    by (simp add: forgotten_ids_def demo_ledger_def dir_listing_def) (simp add: demo_store_def)
  with pr have "at_store (promote_update demo_opp (vs_version_id demo_version) 1 demo_update_manifest
      (evidence_manifest_hash demo_update_manifest) run_provenance demo_candidate) (demo_desk m n)
      = (Inr v, (demo_desk m n)\<lparr>dk_world := (dk_world (demo_desk m n))\<lparr>w_store := s'\<rparr>\<rparr>)" for m n
    by (simp add: at_store_def at_world_def in_store_def zoom_def demo_desk_def)
  moreover have "\<lparr>oi_account = safe_account demo_identity, oi_slug = safe_opp demo_identity, oi_name = opp_name demo_identity\<rparr> = demo_opp"
    by (simp add: demo_identity_def demo_opp_def)
  moreover have "\<lparr>gp_updater_version = updater_version, gp_model = ex_model demo_result, gp_runtime = ex_runtime demo_result,
      gp_cli_version = ex_cli_version demo_result\<rparr> = run_provenance" "ex_candidate demo_result = demo_candidate"
    by (simp_all add: run_provenance_def demo_result_def)
  moreover have "valid_provenance run_provenance" by (simp add: valid_provenance_def run_provenance_def updater_version_def text_simps)
  ultimately have flow: "\<exists>d'. promote_flow demo_identity demo_result (\<lambda>oi prov. promote_update oi (vs_version_id demo_version) 1
      demo_update_manifest (evidence_manifest_hash demo_update_manifest) prov (ex_candidate demo_result)) (demo_desk m n)
      = (Inr [(''result_revision'', JInt (int (vs_revision v))), (''result_version_id'', JStr (vs_version_id v))], d')" for m n
    using demo_opp_ok by (simp add: promote_flow_def mk_opp_identity_def mk_provenance_def bnd_def of_sum_def ret_def)
  have p: "up_base_version_id demo_update_plan = vs_version_id demo_version" "up_base_revision demo_update_plan = 1"
    "up_hash demo_update_plan = evidence_manifest_hash demo_update_manifest" by (simp_all add: demo_update_plan_def)
  have s: "us_manifest demo_snapshot = demo_update_manifest" "us_identity demo_snapshot = demo_identity"
    by (simp_all add: demo_snapshot_def)
  have "validate_candidate_evidence (ex_candidate demo_result) demo_update_manifest = Inr ()"
    using demo_update_authorized by (simp add: validate_candidate_evidence_def demo_result_def)
  then show ?thesis
    using flow [of 2 2] unfolding run_update_def as_update_job_def as_create_job_def
    by (auto simp: catch_def bnd_def demo_snapshots desk_execute_def ret_def of_sum_def s p numeral_2_eq_2)
qed

theorem update_all_or_nothing_witness:
  "\<exists>answer (d' :: desk) v. run_update desk_resolve desk_execute demo_update_plan (demo_desk 0 0) = (Inr answer, d')
     \<and> evidence_manifest_hash (vs_manifest v) = evidence_manifest_hash demo_update_manifest
     \<and> sd_versions (dir_at (w_store (dk_world d')) (dir_key demo_store ''Acme'' ''renewal'')) = map file_of [demo_version, v]"
proof -
  obtain answer d' where run: "run_update desk_resolve desk_execute demo_update_plan (demo_desk 0 0) = (Inr answer, d')"
    using demo_update_runs by blast
  have f: "up_account demo_update_plan = ''Acme''" "up_slug demo_update_plan = ''renewal''"
    "up_hash demo_update_plan = evidence_manifest_hash demo_update_manifest" by (simp_all add: demo_update_plan_def)
  have chain: "at_chain (w_store (dk_world (demo_desk 0 0))) (up_account demo_update_plan) (up_slug demo_update_plan) [demo_version]"
    using demo_store_chain by (simp add: f)
  have quiet: "obeys same_shelf (desk_resolve account slug)" "obeys same_shelf (desk_execute request)" for account slug request
    by (simp_all add: desk_resolve_def desk_execute_def shelf.obeys_basic)
  have "\<forall>i e e'. desk_resolve (up_account demo_update_plan) (up_slug demo_update_plan) e = (Inr i, e') \<longrightarrow>
      safe_account i = up_account demo_update_plan \<and> safe_opp i = up_slug demo_update_plan"
    by (auto simp: desk_resolve_def ret_def f demo_identity_def)
  from update_all_or_nothing [OF chain run quiet this] obtain v where
    v: "evidence_manifest_hash (vs_manifest v) = up_hash demo_update_plan"
      "appended (dir_key demo_store ''Acme'' ''renewal'') [demo_version] v (demo_desk 0 0) d'"
    by (auto simp: f)
  then have "sd_versions (dir_at (w_store (dk_world d')) (dir_key demo_store ''Acme'' ''renewal'')) = map file_of [demo_version, v]"
    by (simp add: appended_def extended_def del: split_paired_All)
  with run v(1) f show ?thesis by auto
qed

end
