(* ===== verification/Gmail_Claims.thy ===== *)
theory Gmail_Claims
  imports Gmail_Intake Ops_Demo
begin

section \<open>What Gmail intake promises\<close>

text \<open>
  Intake is a session of checks, listings, retrievals and revocations against any transport.  None of
  them associates evidence with an opportunity: only people do.  And the loop that collects the known
  sources of the mailbox ends, with every one of them.
\<close>

subsection \<open>Associations stay\<close>

text \<open>
  \<open>settled l l'\<close>: what is associated in \<open>l'\<close> was so in \<open>l\<close>, by the same decision; reading a record strips the
  blanks around its texts.
\<close>

definition settled_by :: "ledger \<Rightarrow> string \<Rightarrow> assoc_decision \<Rightarrow> bool" where
  "settled_by l sid d \<longleftrightarrow> (\<exists>s. map_of (lg_sources l) sid = Some (Intact s) \<and> strip_decision (src_association s) = strip_decision d)"

definition settled :: "ledger \<Rightarrow> ledger \<Rightarrow> bool" where
  "settled l l' \<longleftrightarrow> (\<forall>sid s'. map_of (lg_sources l') sid = Some (Intact s') \<and> ad_state (src_association s') = Associated
     \<longrightarrow> settled_by l sid (src_association s'))"

lemma strip_decision_state: "ad_state (strip_decision d) = ad_state d"
  by (simp add: strip_decision_def strip_decision_fields_def)

lemma strip_decision_twice: "strip_decision (strip_decision d) = strip_decision d"
proof -
  have "strip_candidate (strip_candidate c) = strip_candidate c" for c
    by (cases c) (auto simp: strip_candidate_def option.map_comp comp_def)
  then show ?thesis by (simp add: strip_decision_def strip_decision_fields_def option.map_comp comp_def)
qed

lemma settled_refl: "settled l l"
  by (auto simp: settled_def settled_by_def)

lemma settled_trans:
  assumes "settled l m" and "settled m n"
  shows "settled l n"
  unfolding settled_def
proof (intro allI impI)
  fix sid s' assume s': "map_of (lg_sources n) sid = Some (Intact s') \<and> ad_state (src_association s') = Associated"
  with assms(2) obtain s where s: "map_of (lg_sources m) sid = Some (Intact s)"
    and eq: "strip_decision (src_association s) = strip_decision (src_association s')"
    unfolding settled_def settled_by_def by blast
  have "ad_state (src_association s) = Associated" using eq s' strip_decision_state by metis
  with assms(1) s have "settled_by l sid (src_association s)" unfolding settled_def by blast
  with eq show "settled_by l sid (src_association s')" by (simp add: settled_by_def)
qed

interpretation settling: state_relation settled
  by unfold_locales (rule settled_refl, rule settled_trans)

lemma settled_pure: "obeys (=) m \<Longrightarrow> obeys settled m"
  by (rule obeysI) (metis obeysD settled_refl)

lemma settled_sources: "(\<And>l r l'. m l = (r, l') \<Longrightarrow> lg_sources l' = lg_sources l) \<Longrightarrow> obeys settled m"
  by (rule obeysI) (auto simp: settled_def settled_by_def)

lemma read_source_settled:
  assumes "read_source sid l = (Inr s, l')"
  shows "l' = l \<and> src_id s = sid \<and> settled_by l sid (src_association s)"
proof -
  have "l' = l" using assms obeys_read_source by (rule pureD [rotated])
  moreover from assms obtain raw where "map_of (lg_sources l) sid = Some (Intact raw)" "s = strip_source raw" "src_id s = sid"
    by (auto simp: read_source_def parse_source_def Let_def ret_def raise_def read_st_def
        split: option.splits stored.splits sum.splits if_splits
        elim!: bnd_InrE dest!: pureD [OF obeys_scope] pureD [OF obeys_is_forgotten])
  ultimately show ?thesis by (auto simp: settled_by_def strip_source_def strip_decision_twice)
qed

text \<open>A write of a record that is not associated, or by the decision that was already stored.\<close>

lemma write_settled:
  assumes "ad_state (src_association s) = Associated \<Longrightarrow> settled_by l (src_id s) (src_association s)"
    and "write_source s l = (r, l')"
  shows "settled l l'"
  using assms by (auto simp: write_source_def modify_st_def raise_def settled_def settled_by_def split: if_splits)

lemma store_revision_settled:
  assumes "ad_state (src_association s) = Associated \<Longrightarrow> settled_by l (src_id s) (src_association s)"
    and "store_revision sid m s rv outcome l = (r, l')"
  shows "settled l l'"
proof -
  obtain l1 where l1: "store_content sid (sha256_hex (canonical_bytes (ns_snapshot m))) (ns_snapshot m) l = (Inr (), l1)"
    and s1: "lg_sources l1 = lg_sources l" by (auto simp: store_content_def modify_st_def)
  obtain x l2 where w: "write_source s l1 = (x, l2)" by (rule prod.exhaust)
  have "l' = l2" using assms(2) l1 w by (auto simp: store_revision_def bnd_def ret_def split: sum.splits)
  moreover have "settled l1 l2" using w assms(1) s1 by (intro write_settled) (auto simp: settled_by_def)
  moreover have "settled l l1" using s1 by (auto simp: settled_def settled_by_def)
  ultimately show ?thesis using settled_trans by blast
qed

lemma derive_association [simp]: "src_association (derive_processing s now) = src_association s" "src_id (derive_processing s now) = src_id s"
  by (simp_all add: derive_processing_def Let_def)

lemma revise_association: "src_association (revise_source s m rv now) = src_association s" "src_id (revise_source s m rv now) = src_id s"
  by (simp_all add: revise_source_def Let_def)

lemma settled_update:
  assumes "\<And>s now s'. step s now = Inr (Some s') \<Longrightarrow> ad_state (src_association s') \<noteq> Associated"
  shows "obeys settled (update_source sid step)"
  unfolding update_source_def
proof (intro settling.obeys_bnd settled_pure [OF obeys_read_source] obeysI)
  fix s l r l'
  assume run: "(case step s (lg_clock l (lg_ticks l)) of
     Inl e \<Rightarrow> (Inl e, l)
   | Inr None \<Rightarrow> (Inr (summarize False s), l)
   | Inr (Some s') \<Rightarrow> bnd ledger_now (\<lambda>_. bnd (write_source s') (\<lambda>_. ret (summarize False s'))) l) = (r, l')"
  have "settled m m'" if "write_source s' m = (x, m')" "step s now = Inr (Some s')" for s' m x m' now
    using that assms by (intro write_settled) auto
  then have "obeys settled (bnd ledger_now (\<lambda>_. bnd (write_source s') (\<lambda>_. ret (summarize False s'))))"
    if "step s now = Inr (Some s')" for s' now
    using that by (intro settling.obeys_bnd settling.obeys_basic settled_sources [of ledger_now] obeysI)
      (auto simp: ledger_now_def)
  with run show "settled l l'"
    by (auto simp: settled_refl split: sum.splits option.splits dest: obeysD)
qed

lemma settled_propose: "obeys settled (propose_association sid cs reason)"
  unfolding propose_association_def
  by (intro settling.obeys_if settling.obeys_basic settled_update)
     (auto simp: append_decision_def elim!: propose_stepE)

lemma settled_record_first: "obeys settled (record_first sid sc m tok trig now)"
  unfolding record_first_def Let_def
  by (rule obeysI, erule store_revision_settled [rotated]) (simp add: create_source_def first_decision_def)

lemma settled_record_next: "obeys settled (bnd (read_source sid) (record_next sid m tok trig now))"
proof (rule obeysI)
  fix l r l' assume "bnd (read_source sid) (record_next sid m tok trig now) l = (r, l')"
  then show "settled l l'"
  proof (cases rule: bnd_cases)
    case (err e)
    then show ?thesis using pureD [OF obeys_read_source] settled_refl by metis
  next
    case (ok s l1)
    from read_source_settled [OF ok(1)] have s: "l1 = l" "src_id s = sid" "settled_by l sid (src_association s)" by auto
    with ok(2) show ?thesis
      by (auto simp: record_next_def Let_def raise_def ret_def settled_refl revise_association
          split: if_splits elim!: store_revision_settled [rotated])
  qed
qed

lemma settled_record_meeting: "obeys settled (record_meeting m tok trig)"
  unfolding record_meeting_def Let_def
  by (intro settling.obeys_bnd settling.obeys_if settling.obeys_basic settled_pure [OF obeys_scope]
      settled_pure [OF obeys_is_forgotten] settled_sources [of ledger_now])
     (auto simp: ledger_now_def split: option.split intro!: settled_record_first settled_record_next)

lemma settled_import: "obeys settled (import_meetings ms import_id trigger)"
proof -
  have "obeys settled (any_forgotten sc ms)" for sc
    unfolding any_forgotten_def
    by (intro settled_pure frame.obeys_fold_op frame.obeys_if obeys_is_forgotten frame.obeys_basic)
  moreover have "obeys settled ensure_scope_file"
    unfolding ensure_scope_file_def
    by (intro settling.obeys_bnd settled_pure [OF obeys_scope] settling.obeys_modify) (auto simp: settled_def settled_by_def)
  moreover have "obeys settled new_token" by (rule settled_sources) (auto simp: new_token_def)
  ultimately show ?thesis
    unfolding import_meetings_def
    by (intro settling.obeys_bnd settling.obeys_if settling.obeys_basic settling.obeys_map_op settled_record_meeting
        settled_pure [OF obeys_scope])
       (auto split: option.split intro: settling.obeys_basic)
qed


subsection \<open>A session of intake\<close>

text \<open>What intake keeps: associations, and every part of the world but the ledger and the jobs.\<close>

definition intake_keeps :: "gmail_world \<Rightarrow> gmail_world \<Rightarrow> bool" where
  "intake_keeps g g' \<longleftrightarrow> (let w = gm_world g; w' = gm_world g' in
     settled (w_ledger w) (w_ledger w') \<and> w_store w' = w_store w \<and> w_actions w' = w_actions w
     \<and> w_changes w' = w_changes w \<and> w_runs w' = w_runs w \<and> w_pending w' = w_pending w)"

interpretation intake: state_relation intake_keeps
proof
  fix s t u :: gmail_world
  show "intake_keeps s s" by (simp add: intake_keeps_def settled_refl)
  show "intake_keeps s t \<Longrightarrow> intake_keeps t u \<Longrightarrow> intake_keeps s u"
    by (simp add: intake_keeps_def Let_def) (blast intro: settled_trans)
qed

lemma keeps_same_world: "(\<And>g r g'. m g = (r, g') \<Longrightarrow> gm_world g' = gm_world g) \<Longrightarrow> obeys intake_keeps m"
  by (rule obeysI) (simp add: intake_keeps_def settled_refl)

lemma keeps_modify: "(\<And>g. gm_world (f g) = gm_world g) \<Longrightarrow> obeys intake_keeps (modify_st f)"
  by (rule keeps_same_world) (auto simp: modify_st_def)

lemma keeps_ask: "obeys intake_keeps (ask net c)"
  by (rule keeps_same_world) (auto simp: ask_def)

lemma keeps_now: "obeys intake_keeps gmail_now"
  by (rule keeps_same_world) (auto simp: gmail_now_def)

lemma keeps_clear: "obeys intake_keeps clear_check"
  unfolding clear_check_def by (rule keeps_modify) (auto split: option.split)

lemma keeps_evidence: "obeys settled m \<Longrightarrow> obeys intake_keeps (in_evidence m)"
  unfolding in_evidence_def in_world_def in_ledger_def
  by (intro intake.obeys_zoom) (auto simp: zoom_def intake_keeps_def dest: obeysD split: prod.splits)

lemma keeps_jobs: "obeys intake_keeps (in_world (in_jobs m))"
  unfolding in_world_def in_jobs_def
  by (intro intake.obeys_zoom) (auto simp: zoom_def intake_keeps_def settled_refl split: prod.splits)

lemmas keeps_intros = intake.obeys_bnd intake.obeys_if intake.obeys_basic intake.obeys_catch intake.obeys_fold_op
  keeps_ask keeps_now keeps_clear keeps_jobs

lemma settled_list_sources: "obeys settled (list_sources status only limit offset)"
proof -
  have "obeys (=) (list_entry status only name acc)" for name acc
    unfolding list_entry_def Let_def
    by (intro frame.obeys_catch frame.obeys_bnd obeys_read_source frame.obeys_if frame.obeys_basic)
  then show ?thesis
    unfolding list_sources_def Let_def
    by (intro settled_pure frame.obeys_if frame.obeys_bnd frame.obeys_fold_op frame.obeys_basic)
       (auto intro: frame.obeys_basic split: prod.split)
qed

lemma settled_pages: "obeys settled (gmail_pages n cid offset known)"
  by (induction n arbitrary: offset known)
     (auto simp: Let_def intro!: settling.obeys_bnd settling.obeys_basic settled_list_sources split: option.split)

lemma settled_gmail_sources: "obeys settled (gmail_sources cid)"
  unfolding gmail_sources_def by (intro settling.obeys_bnd settling.obeys_basic settled_pages)

lemma keeps_known: "obeys intake_keeps (known_context d cid)"
  unfolding known_context_def by (intro keeps_intros keeps_evidence settled_gmail_sources)

lemma keeps_access: "obeys intake_keeps (assert_access net m)"
  unfolding assert_access_def
  by (intro keeps_intros) (auto split: option.split intro!: keeps_intros)

lemma keeps_job_access: "obeys intake_keeps (job_access net m)"
  unfolding job_access_def
  by (intro keeps_intros keeps_access) (auto split: exn.split intro!: keeps_intros)

lemma keeps_propose_for: "obeys intake_keeps (propose_for opps c d x acc)"
  unfolding propose_for_def
  by (cases x; cases acc)
     (auto simp: Let_def intro!: keeps_intros keeps_evidence settled_propose split: exn.split)

lemma keeps_import: "obeys intake_keeps (import_and_index ms)"
  unfolding import_and_index_def write_index_def
  by (intro keeps_intros keeps_evidence settled_import)
     (auto intro!: keeps_intros keeps_modify)

lemma keeps_record: "obeys intake_keeps (record_messages opps net m mailbox cid ms outcomes)"
proof -
  have "obeys intake_keeps (ledger_as_job (import_and_index ms))"
    unfolding ledger_as_job_def by (intro keeps_intros keeps_import) (auto split: exn.split intro!: keeps_intros)
  then show ?thesis
    unfolding record_messages_def
    by (intro intake.obeys_bnd keeps_job_access)
       (auto intro!: keeps_intros keeps_known keeps_propose_for split: prod.split)
qed

lemma keeps_fetch: "obeys intake_keeps (fetch_rows net ids)"
  unfolding fetch_rows_def by (intro keeps_intros) (auto split: exn.split intro!: keeps_intros)

lemma keeps_retrieval: "obeys intake_keeps (run_retrieval stamp opps net ids m)"
proof -
  have rest: "obeys intake_keeps (bnd (of_sum (normalize_rows stamp cid code details ids)) (\<lambda>(ms, outcomes).
        if ms = [] then ret (retrieval_result ids outcomes None unrequested 0)
        else bnd (record_messages opps net m mailbox cid ms outcomes) (\<lambda>(tok, os, n).
          ret (retrieval_result ids os (Some tok) unrequested n))))" for cid code details unrequested mailbox
    by (intro intake.obeys_bnd intake.obeys_basic)
       (auto intro!: keeps_intros keeps_record split: prod.split)
  show ?thesis
    unfolding run_retrieval_def Let_def
    by (intro intake.obeys_bnd keeps_job_access)
       (auto intro!: intake.obeys_bnd [OF keeps_fetch] rest keeps_intros split: prod.split sum.split exn.split bool.split)
qed

lemma keeps_revoke: "obeys intake_keeps (revoke_access stamp)"
  unfolding revoke_access_def Let_def
  by (intro keeps_intros)
     (auto intro!: keeps_intros keeps_evidence settled_gmail_sources settled_import split: option.split)

lemma keeps_check: "obeys intake_keeps (check_access net)"
  unfolding check_access_def record_check_def Let_def
  by (intro keeps_intros)
     (auto intro!: keeps_intros keeps_modify split: option.split json.split exn.split)

lemma keeps_start: "obeys intake_keeps (start_retrieval ids)"
proof -
  have "obeys (=) (gmail_source_id cid i)" for cid i
    unfolding gmail_source_id_def by (intro frame.obeys_bnd obeys_scope frame.obeys_basic)
  then have "obeys (=) (any_id_forgotten cid is)" for cid "is"
    by (induction "is") (auto intro!: frame.obeys_bnd frame.obeys_basic obeys_is_forgotten)
  then show ?thesis
    unfolding start_retrieval_def assert_checked_def
    by (intro keeps_intros keeps_evidence settled_pure)
       (auto intro!: keeps_intros keeps_evidence settled_pure split: option.split prod.split)
qed


lemma keeps_list_rows: "obeys intake_keeps (list_rows stamp c bound d cid raws acc)"
proof (induction raws arbitrary: acc)
  case (Cons raw raws)
  have "obeys (=) (bnd (gmail_source_id cid i) is_forgotten)" for i
    unfolding gmail_source_id_def by (intro frame.obeys_bnd obeys_scope frame.obeys_basic obeys_is_forgotten)
  then have "obeys intake_keeps (list_message c cid i a)" for i a
    unfolding list_message_def Let_def by (intro keeps_intros keeps_evidence settled_pure)
  with Cons.IH show ?case
    by (auto simp: Let_def intro!: keeps_intros split: option.split)
qed (simp add: keeps_intros)

lemma keeps_list: "obeys intake_keeps (list_threads stamp net rg a b ps)"
proof -
  have call: "obeys intake_keeps (listing_call (bnd (assert_access net m) (\<lambda>(mailbox, cid).
       bnd (ask net (AskThreads after before bound k)) (\<lambda>rows. ret (mailbox, cid, reply_items rows)))))" for m after before bound k
    unfolding listing_call_def
    by (intro keeps_intros keeps_access) (auto intro!: keeps_intros split: prod.split exn.split)
  have "obeys intake_keeps assert_checked"
    unfolding assert_checked_def by (intro keeps_intros) (auto intro!: keeps_intros split: option.split)
  then show ?thesis
    unfolding list_threads_def
    by (intro intake.obeys_bnd keeps_now intake.obeys_basic)
       (auto intro!: keeps_intros keeps_known call keeps_list_rows split: prod.split)
qed

text \<open>One call of the service, or one run of its job, with whatever the transport answers.\<close>

inductive intake_step :: "(json \<Rightarrow> datetime option) \<Rightarrow> gmail_world \<Rightarrow> gmail_world \<Rightarrow> bool" for stamp where
  checked: "check_access net g = (cr, g') \<Longrightarrow> intake_step stamp g g'"
| listed: "list_threads stamp net rg a b ps g = (lr, g') \<Longrightarrow> intake_step stamp g g'"
| started: "start_retrieval ids g = (sr, g') \<Longrightarrow> intake_step stamp g g'"
| retrieved: "run_retrieval stamp opportunities net ids m g = (rr, g') \<Longrightarrow> intake_step stamp g g'"
| job_ended: "in_world (in_jobs (finish_job jid outcome)) g = (fr, g') \<Longrightarrow> intake_step stamp g g'"
| revoked: "revoke_access stamp g = (vr, g') \<Longrightarrow> intake_step stamp g g'"

lemma intake_step_keeps: "intake_step stamp g g' \<Longrightarrow> intake_keeps g g'"
  by (induction rule: intake_step.induct)
     (auto dest: obeysD [OF keeps_check] obeysD [OF keeps_list] obeysD [OF keeps_start] obeysD [OF keeps_retrieval]
       obeysD [OF keeps_jobs] obeysD [OF keeps_revoke])

lemma intake_run_keeps: "(intake_step stamp)\<^sup>*\<^sup>* g g' \<Longrightarrow> intake_keeps g g'"
  by (induction rule: rtranclp_induct) (auto intro: intake.R_refl intake.R_trans intake_step_keeps)



definition demo_answer :: json where
  "demo_answer = JObj [(''email_address'', JStr ''ann@example.com''), (''scopes'', JList [JStr readonly_scope])]"

definition demo_mail_world :: gmail_world where
  "demo_mail_world = \<lparr>gm_world = demo_world, gm_marker = None, gm_index = NoIndex, gm_clock = (\<lambda>_. 0), gm_ticks = 0,
     gm_calls = []\<rparr>"



subsection \<open>The sources of a mailbox\<close>

text \<open>What one record contributes: its summary, when it can be read.\<close>

definition readable :: "ledger \<Rightarrow> string \<Rightarrow> source_summary list" where
  "readable l name = (case fst (read_source name l) of Inr s \<Rightarrow> [summarize False s] | Inl e \<Rightarrow> [])"

definition all_items :: "ledger \<Rightarrow> source_summary list" where
  "all_items l = rev (sort_key (\<lambda>i. (sm_updated_at i, sm_source_id i)) (concat (map (readable l) (dir_listing (lg_sources l)))))"

lemma read_source_codes:
  assumes "read_source name l = (Inl e, l')"
  shows "exn_code e \<in> {''source_forgotten'', ''malformed_storage'', ''scope_mismatch'', ''unknown_source''}"
  using assms
  by (auto simp: read_source_def is_forgotten_def scope_def malformed_def op_defs
      split: option.splits stored.splits sum.splits if_splits)

lemma list_entry_eq:
  "\<exists>bad. list_entry None False name (found, n) l = (Inr (found @ readable l name, bad), l)"
proof (cases "read_source name l")
  case (Pair r l')
  then have "l' = l" using pureD [OF obeys_read_source] by blast
  with Pair show ?thesis
    using read_source_codes [of name l]
    by (cases r) (auto simp: list_entry_def catch_def bnd_def readable_def ret_def raise_def)
qed

lemma list_fold_eq:
  "\<exists>bad. fold_op (list_entry None False) names (found, n) l = (Inr (found @ concat (map (readable l) names), bad), l)"
proof (induction names arbitrary: found n)
  case (Cons name names)
  obtain b where "list_entry None False name (found, n) l = (Inr (found @ readable l name, b), l)"
    using list_entry_eq by blast
  moreover obtain b' where "fold_op (list_entry None False) names (found @ readable l name, b) l
      = (Inr ((found @ readable l name) @ concat (map (readable l) names), b'), l)" using Cons.IH by blast
  ultimately show ?case by (simp add: bnd_def)
qed (simp add: ret_def)

lemma list_page_eq:
  "\<exists>page. list_sources None False 200 (int offset) l = (Inr page, l)
     \<and> pg_sources page = take 200 (drop offset (all_items l))
     \<and> pg_next_offset page = (if offset + 200 < length (all_items l) then Some (offset + 200) else None)"
proof -
  obtain b where "fold_op (list_entry None False) (dir_listing (lg_sources l)) ([], 0) l
      = (Inr (concat (map (readable l) (dir_listing (lg_sources l))), b), l)"
    using list_fold_eq [of "dir_listing (lg_sources l)" "[]" 0 l] by auto
  then show ?thesis by (simp add: list_sources_def bnd_def read_st_def ret_def Let_def all_items_def)
qed

lemma own_items_append: "own_items cid (xs @ ys) = own_items cid xs @ own_items cid ys"
  by (simp add: own_items_def)

lemma gmail_pages_eq:
  assumes "length (all_items l) \<le> offset + 200 * Suc n"
  shows "gmail_pages (Suc n) cid offset known l
    = (Inr (Some (fold (\<lambda>(k, i). AList.update k i) (own_items cid (drop offset (all_items l))) known)), l)"
  using assms
proof (induction n arbitrary: offset known)
  case 0
  obtain page where "list_sources None False 200 (int offset) l = (Inr page, l)"
    "pg_sources page = drop offset (all_items l)" "pg_next_offset page = None"
    using list_page_eq [of offset l] 0 by auto
  then show ?case by (simp add: bnd_def ret_def Let_def)
next
  case (Suc n)
  obtain page where page: "list_sources None False 200 (int offset) l = (Inr page, l)"
    "pg_sources page = take 200 (drop offset (all_items l))"
    "pg_next_offset page = (if offset + 200 < length (all_items l) then Some (offset + 200) else None)"
    using list_page_eq by blast
  show ?case
  proof (cases "offset + 200 < length (all_items l)")
    case True
    have "drop offset (all_items l) = take 200 (drop offset (all_items l)) @ drop (offset + 200) (all_items l)"
      by (metis append_take_drop_id drop_drop add.commute)
    then have "own_items cid (drop offset (all_items l))
        = own_items cid (take 200 (drop offset (all_items l))) @ own_items cid (drop (offset + 200) (all_items l))"
      by (metis own_items_append)
    with page True Suc.IH [of "offset + 200"] Suc.prems show ?thesis
      by (subst gmail_pages.simps) (simp add: bnd_def Let_def del: gmail_pages.simps)
  next
    case False
    with page show ?thesis by (subst gmail_pages.simps) (simp add: bnd_def Let_def ret_def del: gmail_pages.simps)
  qed
qed

lemma readable_ids: "i \<in> set (readable l name) \<Longrightarrow> sm_source_id i = name"
proof -
  assume "i \<in> set (readable l name)"
  then show "sm_source_id i = name"
    using read_source_settled [of name l]
    by (cases "read_source name l") (auto simp: readable_def summarize_def Let_def split: sum.splits)
qed

lemma all_items_set: "i \<in> set (all_items l) \<longleftrightarrow> i \<in> set (readable l (sm_source_id i))"
proof -
  have "name \<in> set (dir_listing (lg_sources l))" if "readable l name \<noteq> []" for name
  proof (rule ccontr)
    assume "name \<notin> set (dir_listing (lg_sources l))"
    then have "map_of (lg_sources l) name = None" by (auto simp: set_dir_listing)
    with that show False
      by (auto simp: readable_def read_source_def is_forgotten_def op_defs split: if_splits)
  qed
  then have listed: "name \<in> set (dir_listing (lg_sources l))" if "i \<in> set (readable l name)" for name i
    using that by (metis list.set(1) empty_iff)
  show ?thesis
  proof
    assume "i \<in> set (all_items l)"
    then obtain name where "i \<in> set (readable l name)" by (auto simp: all_items_def)
    with readable_ids [OF this] show "i \<in> set (readable l (sm_source_id i))" by simp
  next
    assume "i \<in> set (readable l (sm_source_id i))"
    with listed [OF this] show "i \<in> set (all_items l)" by (auto simp: all_items_def simp del: set_dir_listing)
  qed
qed

lemma map_of_fold_update:
  assumes "\<And>k i j. (k, i) \<in> set xs \<Longrightarrow> (k, j) \<in> set xs \<Longrightarrow> i = j"
  shows "map_of (fold (\<lambda>(k, i). AList.update k i) xs known) k = Some i
    \<longleftrightarrow> (k, i) \<in> set xs \<or> k \<notin> fst ` set xs \<and> map_of known k = Some i"
  using assms
proof (induction xs arbitrary: known)
  case (Cons x xs)
  obtain a b where x: "x = (a, b)" by (cases x)
  have "map_of (fold (\<lambda>(k, i). AList.update k i) xs (AList.update a b known)) k = Some i
    \<longleftrightarrow> (k, i) \<in> set xs \<or> k \<notin> fst ` set xs \<and> map_of (AList.update a b known) k = Some i"
    by (rule Cons.IH) (use Cons.prems in \<open>meson list.set_intros(2)\<close>)
  moreover have "(a, j) \<in> set xs \<Longrightarrow> j = b" for j using Cons.prems [of a j b] x by simp
  ultimately show ?case using x by (auto simp: image_iff) (metis fst_conv)?
qed simp

abbreviation found_items :: "string \<Rightarrow> ledger \<Rightarrow> (string \<times> source_summary) list" where
  "found_items cid l \<equiv> fold (\<lambda>(k, i). AList.update k i) (own_items cid (all_items l)) []"

lemma all_items_length: "length (all_items l) \<le> length (lg_sources l)"
proof -
  have one: "length (readable l n) \<le> 1" for n by (simp add: readable_def split: sum.split)
  have "length (concat (map (readable l) names)) \<le> length names" for names
  proof (induction names)
    case (Cons n ns)
    then show ?case using one [of n] by (simp only: list.map concat.simps length_append list.size)
  qed simp
  then have "length (all_items l) \<le> length (dir_listing (lg_sources l))" by (simp add: all_items_def)
  also have "\<dots> \<le> length (lg_sources l)" by (simp add: dir_listing_def)
  finally show ?thesis .
qed

lemma found_items_iff:
  "map_of (found_items cid l) sid = Some i \<longleftrightarrow>
    i \<in> set (readable l sid) \<and> sm_provider i = Gmail \<and> sm_connection_id i = cid"
proof -
  let ?xs = "own_items cid (all_items l)"
  have mem: "(sid, i) \<in> set ?xs \<longleftrightarrow> i \<in> set (readable l sid) \<and> sm_provider i = Gmail \<and> sm_connection_id i = cid" for sid i
    using readable_ids [of i l sid] by (auto simp: own_items_def all_items_set)
  have "i = j" if "i \<in> set (readable l sid)" "j \<in> set (readable l sid)" for i j sid
    using that by (cases "fst (read_source sid l)") (auto simp: readable_def)
  then have "map_of (found_items cid l) sid = Some i \<longleftrightarrow> (sid, i) \<in> set ?xs"
    by (subst map_of_fold_update) (auto simp: mem)
  then show ?thesis by (simp only: mem)
qed

lemma found_items_source:
  "map_of (found_items cid l) sid = (case fst (read_source sid l) of Inl e \<Rightarrow> None
    | Inr s \<Rightarrow> if si_provider (src_identity s) = Gmail \<and> si_connection_id (src_identity s) = cid
              then Some (summarize False s) else None)"
proof (cases "fst (read_source sid l)")
  case (Inl e)
  then have "map_of (found_items cid l) sid \<noteq> Some i" for i by (simp add: found_items_iff readable_def)
  then have "map_of (found_items cid l) sid = None" by (cases "map_of (found_items cid l) sid") auto
  then show ?thesis using Inl by (simp only: sum.case)
next
  case (Inr s)
  have "sm_provider (summarize False s) = si_provider (src_identity s)"
    "sm_connection_id (summarize False s) = si_connection_id (src_identity s)"
    by (simp_all add: summarize_def Let_def)
  then have k: "map_of (found_items cid l) sid = Some i \<longleftrightarrow> i = summarize False s
      \<and> si_provider (src_identity s) = Gmail \<and> si_connection_id (src_identity s) = cid" for i
    using Inr by (auto simp: found_items_iff readable_def)
  show ?thesis
  proof (cases "si_provider (src_identity s) = Gmail \<and> si_connection_id (src_identity s) = cid")
    case True
    with k [of "summarize False s"] Inr show ?thesis by simp
  next
    case False
    then have "map_of (found_items cid l) sid \<noteq> Some i" for i using k by blast
    then have "map_of (found_items cid l) sid = None" by (cases "map_of (found_items cid l) sid") auto
    with False Inr show ?thesis by auto
  qed
qed


end
