(* ===== verification/Tool_Xml.thy ===== *)
theory Tool_Xml
  imports Gmail_Adapter
begin

section \<open>XML results of the Granola tools\<close>

text \<open>
  \<^verbatim>\<open>webapp/integrations/granola_tool_xml.py\<close>: the reader of tool results that are XML text.  The parser of
  the standard library is a parameter, from the text to the tree of elements; everything the module
  does with the tree is here: the bounds, the allow-listed names, the records and what it refuses.
\<close>

subsection \<open>Elements\<close>

datatype element = Element (tag_of: string) (attrib_of: "(string \<times> string) list") (elem_text: "string option")
  (children_of: "element list") (tail_of: "string option")

definition max_xml_depth :: nat where "max_xml_depth = 6"
definition max_xml_elements :: nat where "max_xml_elements = 20000"
definition max_xml_records :: nat where "max_xml_records = 1000"
definition max_xml_participants :: nat where "max_xml_participants = 500"

definition wrapper_fields :: "string list" where
  "wrapper_fields = [''count'', ''from'', ''to'']"

definition field_names :: "string list" where
  "field_names = [''id'', ''title'', ''date'', ''url'', ''summary'', ''transcript'', ''created_at'',
     ''captured_by_me'', ''listed_as_participant'', ''is_workspace_visible'', ''recording_context'',
     ''description'', ''audio_sources'', ''recorder'', ''microphone_sharing'', ''name'', ''email'',
     ''note_access_scope'']"

text \<open>\<^verbatim>\<open>_UUID\<close>\<close>

definition uuid_ok :: "string \<Rightarrow> bool" where
  "uuid_ok s \<longleftrightarrow> length s = 36 \<and> list_all (\<lambda>(i, c).
     if i \<in> {8, 13, 18, 23} then c = CHR ''-'' else is_hex (lower_char c)) (enumerate 0 s)"

text \<open>\<^verbatim>\<open>_DECLARATION.search\<close>, ignoring case\<close>

fun occurs_in :: "string \<Rightarrow> string \<Rightarrow> bool" where
  "occurs_in p [] \<longleftrightarrow> p = []"
| "occurs_in p (c # cs) \<longleftrightarrow> startswith (c # cs) p \<or> occurs_in p cs"

definition has_declaration :: "string \<Rightarrow> bool" where
  "has_declaration s \<longleftrightarrow> list_ex (\<lambda>p. occurs_in p (lower_text s))
     [''<!doctype'', ''<!entity'', ''<!element'', ''<!attlist'', ''<!notation'']"

definition local_name :: "string \<Rightarrow> string" where
  "local_name tag = last (split_at (CHR ''}'') tag)"

subsection \<open>Bounds\<close>

fun elements :: "element \<Rightarrow> nat" where
  "elements (Element t a x cs tail) = Suc (sum_list (map elements cs))"

lemma elements_children: "elements e = Suc (sum_list (map elements (children_of e)))"
  by (cases e) simp

text \<open>The loop over the stack: the last child pushed is on top.\<close>

function check_bounds :: "nat \<Rightarrow> (element \<times> nat) list \<Rightarrow> exn + unit" where
  "check_bounds count [] = Inr ()"
| "check_bounds count ((e, depth) # stack) =
     (if count + 1 > max_xml_elements then Inl (GranolaXmlIssue ''too_many_elements'')
      else if depth > max_xml_depth then Inl (GranolaXmlIssue ''too_deep'')
      else check_bounds (count + 1) (rev (map (\<lambda>c. (c, depth + 1)) (children_of e)) @ stack))"
  by pat_completeness auto

termination
proof (relation "measure (\<lambda>(count, stack). sum_list (map (elements \<circ> fst) stack))")
  fix count depth :: nat and e stack
  have "sum_list (map (elements \<circ> fst) (rev (map (\<lambda>c. (c, depth + 1)) cs))) = sum_list (map elements cs)" for cs
    by (simp add: rev_map [symmetric] sum_list_rev comp_def)
  then show "((count + 1, rev (map (\<lambda>c. (c, depth + 1)) (children_of e)) @ stack), count, (e, depth) # stack)
      \<in> measure (\<lambda>(count, stack). sum_list (map (elements \<circ> fst) stack))"
    by (simp add: elements_children)
qed simp

subsection \<open>Values\<close>

text \<open>Sequencing of steps that may raise.\<close>

definition and_then :: "exn + 'a \<Rightarrow> ('a \<Rightarrow> exn + 'b) \<Rightarrow> exn + 'b" where
  "and_then r f = (case r of Inl e \<Rightarrow> Inl e | Inr x \<Rightarrow> f x)"

lemma and_then_cong [fundef_cong]:
  "r = r' \<Longrightarrow> (\<And>x. r' = Inr x \<Longrightarrow> f x = f' x) \<Longrightarrow> and_then r f = and_then r' f'"
  by (auto simp: and_then_def split: sum.split)

lemma and_then_simps [simp]: "and_then (Inl e) f = Inl e" "and_then (Inr x) f = f x"
  by (simp_all add: and_then_def)

lemma and_then_Inr_iff: "and_then r f = Inr y \<longleftrightarrow> (\<exists>x. r = Inr x \<and> f x = Inr y)"
  by (cases r) simp_all

definition stripped :: "string option \<Rightarrow> string" where
  "stripped x = strip (case x of None \<Rightarrow> '''' | Some s \<Rightarrow> s)"

definition has_text :: "element \<Rightarrow> bool" where
  "has_text e \<longleftrightarrow> stripped (elem_text e) \<noteq> '''' \<or> list_ex (\<lambda>c. stripped (tail_of c) \<noteq> '''') (children_of e)"

text \<open>
  \<^verbatim>\<open>_scalar\<close>.  A text of digits becomes a number; \<^verbatim>\<open>int\<close> refuses more than 4300 digits with a plain
  \<^verbatim>\<open>ValueError\<close>.
\<close>

definition scalar :: "string \<Rightarrow> exn + json" where
  "scalar s = (if s = [] \<or> \<not> list_all is_digit s then Inr (JStr s)
     else if length s > 4300 then Inl ValueError else Inr (JInt (digits_value s)))"

definition set_field :: "string \<Rightarrow> json \<Rightarrow> members \<Rightarrow> exn + members" where
  "set_field k v out = (if map_of out k \<noteq> None then Inl (GranolaXmlIssue ''ambiguous_field'') else Inr (out @ [(k, v)]))"

text \<open>The names of people in one text, separated by line ends, commas or semicolons.\<close>

definition people_text :: "string \<Rightarrow> json list" where
  "people_text s = map (\<lambda>p. JObj [(''name'', JStr p)]) (filter (\<lambda>p. p \<noteq> '''') (map strip
     (split_at (CHR '','') (map (\<lambda>c. if c = line_feed \<or> c = CHR '';'' then CHR '','' else c) s))))"

subsection \<open>Records\<close>

text \<open>The second component counts the nodes that are ignored.\<close>

fun xml_attribs :: "string list \<Rightarrow> (string \<times> string) list \<Rightarrow> members \<times> nat \<Rightarrow> exn + members \<times> nat" where
  "xml_attribs names [] acc = Inr acc"
| "xml_attribs names ((name, value) # rest) (out, n) =
     (if local_name name \<in> set names
      then and_then (scalar value) (\<lambda>v. and_then (set_field (local_name name) v out) (\<lambda>out'.
        xml_attribs names rest (out', n)))
      else xml_attribs names rest (out, Suc n))"

function (sequential) xml_record :: "element \<Rightarrow> nat \<Rightarrow> exn + members \<times> nat"
  and xml_children :: "element list \<Rightarrow> members \<times> nat \<Rightarrow> exn + members \<times> nat"
  and xml_participants :: "element \<Rightarrow> nat \<Rightarrow> exn + json list \<times> nat"
  and xml_people :: "element list \<Rightarrow> json list \<times> nat \<Rightarrow> exn + json list \<times> nat" where
  "xml_record (Element t attrs x cs tail) n = and_then (xml_attribs (field_names @ wrapper_fields) attrs ([], n)) (\<lambda>acc.
     if cs \<noteq> [] \<and> has_text (Element t attrs x cs tail) then Inl (GranolaXmlIssue ''mixed_content'')
     else xml_children cs acc)"
| "xml_children [] acc = Inr acc"
| "xml_children (c # cs) (out, n) = (let k = local_name (tag_of c) in
     if k = ''known_participants''
     then and_then (xml_participants c n) (\<lambda>(rows, n'). and_then (set_field k (JList rows) out) (\<lambda>out'.
       xml_children cs (out', n')))
     else if k \<in> set field_names
     then if children_of c \<noteq> []
       then and_then (xml_record c n) (\<lambda>(r, n'). and_then (set_field k (JObj r) out) (\<lambda>out'.
         xml_children cs (out', n')))
       else and_then (scalar (stripped (elem_text c))) (\<lambda>v. and_then (set_field k v out) (\<lambda>out'.
         xml_children cs (out', n)))
     else xml_children cs (out, Suc n))"
| "xml_participants (Element t attrs x cs tail) n =
     and_then (if cs \<noteq> [] then xml_people cs ([], n) else Inr (people_text (stripped x), n)) (\<lambda>(rows, n').
       if length rows > max_xml_participants then Inl (GranolaXmlIssue ''too_many_elements'') else Inr (rows, n'))"
| "xml_people [] acc = Inr acc"
| "xml_people (c # cs) (rows, n) =
     (if local_name (tag_of c) = ''participant''
      then and_then (xml_record c n) (\<lambda>(r, n'). xml_people cs (rows @ [JObj r], n'))
      else xml_people cs (rows, Suc n))"
  by pat_completeness auto

termination
  by (relation "measure (case_sum
       (case_sum (\<lambda>(e, n). size e) (\<lambda>(cs, acc). size_list size cs))
       (case_sum (\<lambda>(e, n). size e) (\<lambda>(cs, acc). size_list size cs)))") auto

text \<open>The rows that carry a UUID, the number of the others, the ignored nodes.\<close>

fun xml_records :: "element list \<Rightarrow> json list \<times> nat \<times> nat \<Rightarrow> exn + json list \<times> nat \<times> nat" where
  "xml_records [] acc = Inr acc"
| "xml_records (c # cs) (rows, rejected, n) = and_then (xml_record c n) (\<lambda>(r, n').
     case map_of r ''id'' of
       Some (JStr i) \<Rightarrow> if uuid_ok i then xml_records cs (rows @ [JObj r], rejected, n')
                        else xml_records cs (rows, Suc rejected, n')
     | _ \<Rightarrow> xml_records cs (rows, Suc rejected, n'))"

definition is_record :: "element \<Rightarrow> bool" where
  "is_record c \<longleftrightarrow> local_name (tag_of c) = ''meeting''"

definition xml_listing :: "element \<Rightarrow> exn + members" where
  "xml_listing root = (let records = filter is_record (children_of root) in
     if length records > max_xml_records then Inl (GranolaXmlIssue ''too_many_records'')
     else and_then (xml_attribs wrapper_fields (attrib_of root) ([], 0)) (\<lambda>(out, n).
       and_then (xml_records records ([], 0, n)) (\<lambda>(rows, rejected, n').
         Inr (out @ [(''meetings'', JList rows), (''rejected_rows'', JInt (int rejected)),
           (''ignored_nodes'', JInt (int (n' + (length (children_of root) - length records))))]))))"

definition parse_tool_xml :: "(string \<Rightarrow> element option) \<Rightarrow> string \<Rightarrow> exn + members" where
  "parse_tool_xml from_string s =
     (if has_declaration s then Inl (GranolaXmlIssue ''dtd_rejected'')
      else case from_string s of
        None \<Rightarrow> Inl (GranolaXmlIssue ''malformed_xml'')
      | Some root \<Rightarrow> and_then (check_bounds 0 [(root, 1)]) (\<lambda>_.
          if filter is_record (children_of root) = []
          then and_then (xml_record root 0) (\<lambda>(out, n). Inr (out @ [(''ignored_nodes'', JInt (int n))]))
          else xml_listing root))"

end
