(* ===== verification/Granola_Relay.thy ===== *)
theory Granola_Relay
  imports Tool_Xml
begin

section \<open>The Granola relay\<close>

text \<open>
  \<^verbatim>\<open>webapp/integrations/granola_mcp_relay.py\<close>: which MCP server a call may reach, the restricted command,
  and the reading of the one tool result out of the event stream of the subprocess.  The subprocess
  itself is an argument, as are \<^verbatim>\<open>json.loads\<close>, the XML parser and the \<^verbatim>\<open>repr\<close> of containers.  The report on
  the shape of an unparseable result is not modelled.
\<close>

subsection \<open>Calls\<close>

datatype granola_tool = GetAccountInfo | ListMeetings | GetMeetings | GetMeetingTranscript

fun tool_value :: "granola_tool \<Rightarrow> string" where
  "tool_value GetAccountInfo = ''get_account_info''"
| "tool_value ListMeetings = ''list_meetings''"
| "tool_value GetMeetings = ''get_meetings''"
| "tool_value GetMeetingTranscript = ''get_meeting_transcript''"

definition known_granola_tools :: "string list" where
  "known_granola_tools = [''get_account_info'', ''list_meeting_folders'', ''list_meetings'', ''get_meetings'',
     ''get_meeting_transcript'', ''query_granola_meetings'']"

record runtime =
  rt_loads :: "string \<Rightarrow> json option"
  rt_repr :: "json \<Rightarrow> string"
  rt_xml :: "string \<Rightarrow> element option"

definition relay_error :: "string \<Rightarrow> bool \<Rightarrow> exn + 'a" where
  "relay_error code retryable = Inl (GranolaRelayError code retryable)"

subsection \<open>Where the server is configured\<close>

definition text_member :: "string \<Rightarrow> members \<Rightarrow> string option" where
  "text_member k kvs = (case map_of kvs k of Some (JStr s) \<Rightarrow> Some s | _ \<Rightarrow> None)"

definition object_member :: "string \<Rightarrow> members \<Rightarrow> members" where
  "object_member k kvs = (case map_of kvs k of Some (JObj o') \<Rightarrow> o' | _ \<Rightarrow> [])"

text \<open>The type and the address of a remote server.\<close>

type_synonym server = "string \<times> string"

definition validated_definition :: "json \<Rightarrow> server option" where
  "validated_definition entry = (case entry of
     JObj kvs \<Rightarrow> (case (text_member ''type'' kvs, text_member ''url'' kvs) of
        (Some kind, Some url) \<Rightarrow>
          if kind \<in> {''http'', ''sse'', ''streamable-http''} \<and> startswith url ''https://'' then Some (kind, url) else None
      | _ \<Rightarrow> None)
   | _ \<Rightarrow> None)"

text \<open>An entry that is there and not null.\<close>

definition server_entry :: "string \<Rightarrow> members \<Rightarrow> json option" where
  "server_entry name kvs = (case map_of (object_member ''mcpServers'' kvs) name of
     Some JNull \<Rightarrow> None | e \<Rightarrow> e)"

fun local_matches :: "(string \<Rightarrow> string) \<Rightarrow> string \<Rightarrow> string list \<Rightarrow> members \<Rightarrow> exn + server list" where
  "local_matches project_key name wanted [] = Inr []"
| "local_matches project_key name wanted ((key, project) # rest) = (case project of
     JObj kvs \<Rightarrow>
       if project_key key \<notin> set wanted then local_matches project_key name wanted rest
       else (case server_entry name kvs of
          None \<Rightarrow> local_matches project_key name wanted rest
        | Some entry \<Rightarrow> (case validated_definition entry of
            None \<Rightarrow> relay_error ''mcp_server_not_configured'' False
          | Some d \<Rightarrow> and_then (local_matches project_key name wanted rest) (\<lambda>ds. Inr (d # ds))))
   | _ \<Rightarrow> local_matches project_key name wanted rest)"

datatype config_scope = LocalScope | UserScope

text \<open>\<open>config\<close> is what the file of the user parses to; \<open>project_key\<close> the normalization of a path.\<close>

definition locate_server_definition ::
  "(string \<Rightarrow> string) \<Rightarrow> string \<Rightarrow> string list \<Rightarrow> json option \<Rightarrow> exn + config_scope \<times> server" where
  "locate_server_definition project_key name project_paths config = (case config of
     Some (JObj raw) \<Rightarrow>
       and_then (if project_paths = [] then Inr []
         else local_matches project_key name (map project_key project_paths) (object_member ''projects'' raw)) (\<lambda>ds.
       case ds of
         d # rest \<Rightarrow> if list_ex (\<lambda>m. m \<noteq> d) rest then relay_error ''mcp_server_not_configured'' False
                     else Inr (LocalScope, d)
       | [] \<Rightarrow> (case Option.bind (server_entry name raw) validated_definition of
            None \<Rightarrow> relay_error ''mcp_server_not_configured'' False
          | Some d \<Rightarrow> Inr (UserScope, d)))
   | _ \<Rightarrow> relay_error ''mcp_server_not_configured'' False)"

subsection \<open>The command\<close>

definition qualified_tool :: "string \<Rightarrow> string \<Rightarrow> string" where
  "qualified_tool mcp_server tool = ''mcp__'' @ mcp_server @ ''__'' @ tool"

definition denied_tools :: "string \<Rightarrow> granola_tool \<Rightarrow> string list" where
  "denied_tools mcp_server tool = map (qualified_tool mcp_server) (filter (\<lambda>t. t \<noteq> tool_value tool) known_granola_tools)"

definition relay_command :: "string \<Rightarrow> string \<Rightarrow> nat \<Rightarrow> string \<Rightarrow> granola_tool \<Rightarrow> string \<Rightarrow> string list" where
  "relay_command executable model max_turns mcp_server tool config_path =
     [executable, ''-p'', ''--max-turns'', dec_nat max_turns, ''--strict-mcp-config'', ''--mcp-config'', config_path,
      ''--setting-sources'', ''user'', ''--tools'', '''', ''--allowedTools'', qualified_tool mcp_server (tool_value tool),
      ''--disallowedTools''] @ denied_tools mcp_server tool @
     [''--permission-mode'', ''dontAsk'', ''--permission-prompts'', ''none'', ''--disable-slash-commands'',
      ''--no-session-persistence'', ''--no-chrome'', ''--output-format'', ''stream-json'', ''--verbose'',
      ''--model'', model]"

subsection \<open>Errors of a tool\<close>

definition classify_tool_error :: "string \<Rightarrow> string" where
  "classify_tool_error s = (let l = lower_text s; has = (\<lambda>ps. list_ex (\<lambda>p. occurs_in p l) ps) in
     if has [''401'', ''unauthorized'', ''authenticat'', ''log in'', ''login''] then ''tool_auth_required''
     else if has [''403'', ''forbidden'', ''permission'', ''access''] then ''tool_access_denied''
     else if has [''404'', ''not found'', ''does not exist'', ''no meeting''] then ''tool_not_found''
     else ''tool_error'')"

subsection \<open>The content of a result\<close>

text \<open>\<^verbatim>\<open>str(x)\<close> and \<^verbatim>\<open>bool(x)\<close>\<close>

fun json_text :: "runtime \<Rightarrow> json \<Rightarrow> string" where
  "json_text rt (JStr s) = s"
| "json_text rt (JInt i) = dec i"
| "json_text rt (JBool b) = (if b then ''True'' else ''False'')"
| "json_text rt JNull = ''None''"
| "json_text rt j = rt_repr rt j"

fun json_truthy :: "json \<Rightarrow> bool" where
  "json_truthy JNull = False"
| "json_truthy (JBool b) = b"
| "json_truthy (JInt i) = (i \<noteq> 0)"
| "json_truthy (JStr s) = (s \<noteq> '''')"
| "json_truthy (JList xs) = (xs \<noteq> [])"
| "json_truthy (JObj kvs) = (kvs \<noteq> [])"

definition str_member :: "runtime \<Rightarrow> string \<Rightarrow> members \<Rightarrow> string" where
  "str_member rt k kvs = (case map_of kvs k of None \<Rightarrow> '''' | Some j \<Rightarrow> json_text rt j)"

definition text_blocks :: "runtime \<Rightarrow> json \<Rightarrow> string list" where
  "text_blocks rt content = (case content of
     JStr s \<Rightarrow> [s]
   | JList bs \<Rightarrow> concat (map (\<lambda>b. case b of
        JObj kvs \<Rightarrow> if map_of kvs ''type'' = Some (JStr ''text'') then [str_member rt ''text'' kvs] else []
      | _ \<Rightarrow> []) bs)
   | _ \<Rightarrow> [])"

text \<open>\<^verbatim>\<open>_FENCED_JSON\<close>: one fence around the whole text; the shortest inner text that leaves a line end
  and the closing fence.\<close>

definition after_newline :: "string \<Rightarrow> string option" where
  "after_newline s = (if startswith s [CHR 0x0D, line_feed] then Some (drop 2 s)
     else if startswith s [line_feed] then Some (drop 1 s) else None)"

definition fenced_json :: "string \<Rightarrow> string option" where
  "fenced_json s = (let s = dropWhile is_space s in
     if \<not> startswith s ''```'' then None
     else (let r = drop 3 s; r = (if startswith r ''json'' \<or> startswith r ''JSON'' then drop 4 r else r) in
       case after_newline (dropWhile (\<lambda>c. c = CHR '' '' \<or> c = CHR 0x09) r) of
         None \<Rightarrow> None
       | Some body \<Rightarrow> (let b = rev (dropWhile is_space (rev body)) in
           if \<not> endswith b (line_feed # ''```'') then None
           else (let inner = take (length b - 4) b in
             Some (if inner \<noteq> [] \<and> last inner = CHR 0x0D then butlast inner else inner)))))"

definition parse_tool_json :: "runtime \<Rightarrow> json \<Rightarrow> exn + json" where
  "parse_tool_json rt content = (case text_blocks rt content of
     [s] \<Rightarrow> (case rt_loads rt (case fenced_json s of Some inner \<Rightarrow> inner | None \<Rightarrow> s) of
        Some j \<Rightarrow> Inr j
      | None \<Rightarrow>
          if startswith (dropWhile is_space s) ''<''
          then (case parse_tool_xml (rt_xml rt) s of
              Inr out \<Rightarrow> Inr (JObj out)
            | Inl (GranolaXmlIssue i) \<Rightarrow> relay_error ''relay_unparseable_result'' True
            | Inl e \<Rightarrow> Inl e)
          else relay_error ''relay_unparseable_result'' True)
   | _ \<Rightarrow> relay_error ''relay_unparseable_result'' True)"

text \<open>\<^verbatim>\<open>json.dumps\<close> with its default separators; it escapes everything but printable ASCII.\<close>

definition py_char :: "char \<Rightarrow> string" where
  "py_char c = (if ord_c c = 127 then [CHR 0x5C] @ ''u007f'' else esc_char c)"

fun py_dumps :: "json \<Rightarrow> string" where
  "py_dumps JNull = ''null''"
| "py_dumps (JBool b) = (if b then ''true'' else ''false'')"
| "py_dumps (JInt i) = dec i"
| "py_dumps (JStr s) = [CHR 0x22] @ concat (map py_char s) @ [CHR 0x22]"
| "py_dumps (JList xs) = ''['' @ join '', '' (map py_dumps xs) @ '']''"
| "py_dumps (JObj kvs) = ''{'' @ join '', '' (map (\<lambda>kv. [CHR 0x22] @ concat (map py_char (fst kv)) @ [CHR 0x22] @ '': ''
     @ py_dumps (snd kv)) kvs) @ ''}''"

subsection \<open>The event stream\<close>

text \<open>Lines of bytes; blank ones are skipped, so a carriage return may end a line by itself.\<close>

definition stream_lines :: "string \<Rightarrow> string list" where
  "stream_lines s = filter (\<lambda>l. l \<noteq> '''') (map (\<lambda>l. let blank = (\<lambda>c. ord_c c = 32 \<or> 9 \<le> ord_c c \<and> ord_c c \<le> 13) in
     rev (dropWhile blank (rev (dropWhile blank l))))
     (split_at line_feed (map (\<lambda>c. if c = CHR 0x0D then line_feed else c) s)))"

definition event_blocks :: "json option \<Rightarrow> members list" where
  "event_blocks event = (case event of
     Some (JObj kvs) \<Rightarrow> (case map_of (object_member ''message'' kvs) ''content'' of
        Some (JList bs) \<Rightarrow> concat (map (\<lambda>b. case b of JObj block \<Rightarrow> [block] | _ \<Rightarrow> []) bs)
      | _ \<Rightarrow> [])
   | _ \<Rightarrow> [])"

definition stream_blocks :: "runtime \<Rightarrow> string \<Rightarrow> members list" where
  "stream_blocks rt s = concat (map (\<lambda>l. event_blocks (rt_loads rt l)) (stream_lines s))"

text \<open>\<^verbatim>\<open>uses\<close> is a dictionary: a later block with the same ID replaces the earlier one.\<close>

type_synonym uses = "(string \<times> string \<times> json) list"

record tool_result =
  tr_use_id :: string
  tr_content :: json
  tr_is_error :: bool

definition member_or_null :: "string \<Rightarrow> members \<Rightarrow> json" where
  "member_or_null k kvs = (case map_of kvs k of None \<Rightarrow> JNull | Some j \<Rightarrow> j)"

definition note_block :: "runtime \<Rightarrow> members \<Rightarrow> uses \<times> tool_result list \<Rightarrow> uses \<times> tool_result list" where
  "note_block rt block acc = (let (us, rs) = acc in
     case (map_of block ''type'', text_member ''id'' block, text_member ''tool_use_id'' block) of
       (Some (JStr kind), i, u) \<Rightarrow>
         if kind = ''tool_use'' \<and> i \<noteq> None
         then (AList.update (the i) (str_member rt ''name'' block, member_or_null ''input'' block) us, rs)
         else if kind = ''tool_result'' \<and> u \<noteq> None
         then (us, rs @ [\<lparr>tr_use_id = the u, tr_content = member_or_null ''content'' block,
           tr_is_error = json_truthy (member_or_null ''is_error'' block)\<rparr>])
         else acc
     | _ \<Rightarrow> acc)"

text \<open>The mapping a call was made with, in canonical form.\<close>

definition same_arguments :: "members \<Rightarrow> json \<Rightarrow> bool" where
  "same_arguments arguments actual \<longleftrightarrow> (case actual of
     JObj kvs \<Rightarrow> canonical_bytes (JObj kvs) = canonical_bytes (JObj arguments) | _ \<Rightarrow> False)"

definition tool_failure :: "json \<Rightarrow> bool" where
  "tool_failure answer \<longleftrightarrow> (case answer of
     JObj kvs \<Rightarrow> json_truthy (member_or_null ''error'' kvs) \<and> length kvs \<le> 3 | _ \<Rightarrow> False)"

definition read_result :: "runtime \<Rightarrow> tool_result \<Rightarrow> exn + json" where
  "read_result rt r =
     (if tr_is_error r then relay_error (classify_tool_error (concat (text_blocks rt (tr_content r)))) False
      else and_then (parse_tool_json rt (tr_content r)) (\<lambda>answer.
        if tool_failure answer then relay_error (classify_tool_error (py_dumps answer)) False else Inr answer))"

definition extract_tool_result ::
  "runtime \<Rightarrow> string \<Rightarrow> granola_tool \<Rightarrow> members option \<Rightarrow> string \<Rightarrow> exn + json" where
  "extract_tool_result rt stream tool arguments mcp_server =
     (let (us, rs) = fold (note_block rt) (stream_blocks rt stream) ([], []);
          matched = filter (\<lambda>r. map_of us (tr_use_id r) \<noteq> None) rs in
      if list_ex (\<lambda>(i, name, input). name \<noteq> qualified_tool mcp_server (tool_value tool)) us
      then relay_error ''relay_wrong_tool'' False
      else if length us > 1 then relay_error ''relay_unexpected_call'' False
      else if list_ex (\<lambda>(i, name, input). \<not> opt_all (\<lambda>args. same_arguments args input) arguments) us
      then relay_error ''relay_wrong_arguments'' False
      else case matched of
          [] \<Rightarrow> relay_error ''relay_no_tool_result'' True
        | [r] \<Rightarrow> read_result rt r
        | _ \<Rightarrow> relay_error ''relay_unexpected_call'' False)"

subsection \<open>One call\<close>

text \<open>What the subprocess did: it did not start, ran out of time or output, or ended.\<close>

datatype process_end = NotStarted | TimedOut | TooMuchOutput | Exited int string

definition relay_call ::
  "runtime \<Rightarrow> (exn + server) \<Rightarrow> bool \<Rightarrow> (granola_tool \<Rightarrow> members \<Rightarrow> process_end) \<Rightarrow> string \<Rightarrow> granola_tool \<Rightarrow> members
   \<Rightarrow> exn + json" where
  "relay_call rt definition isolated run mcp_server tool arguments = and_then definition (\<lambda>_.
     if \<not> isolated then relay_error ''runtime_unavailable'' False
     else case run tool arguments of
         NotStarted \<Rightarrow> relay_error ''runtime_unavailable'' False
       | TimedOut \<Rightarrow> relay_error ''relay_timeout'' True
       | TooMuchOutput \<Rightarrow> relay_error ''relay_output_too_large'' False
       | Exited code out \<Rightarrow>
           if code \<noteq> 0 \<and> stream_lines out = [] then relay_error ''relay_exit_error'' True
           else extract_tool_result rt out tool (Some arguments) mcp_server)"

end
