(* ===== verification/Granola_Adapter.thy ===== *)
theory Granola_Adapter
  imports Tool_Xml
begin

section \<open>The Granola adapter\<close>

text \<open>
  \<^verbatim>\<open>webapp/integrations/granola.py\<close>: the three payloads that are accepted (the note of the REST
  interface, the meeting of the MCP server, the row that only reports an error) and their
  normalization into the meeting the ledger records.  The payload models do not strip their texts; the
  normalized models do.  \<open>stamp\<close> is pydantic's reading of a \<^verbatim>\<open>datetime\<close>.  Prefixes: \<open>gs_\<close> speaker, \<open>gi_\<close>
  transcript item, \<open>gn_\<close> note, \<open>gx_\<close> MCP meeting, \<open>gu_\<close> unavailable row, \<open>gf_\<close> folder.
\<close>

subsection \<open>Identifiers\<close>

definition alnum14 :: "string \<Rightarrow> bool" where
  "alnum14 s \<longleftrightarrow> length s = 14 \<and> list_all (\<lambda>c. is_digit c \<or> is_lower c \<or> is_upper c) s"

definition note_id_ok :: "string \<Rightarrow> bool" where
  "note_id_ok s \<longleftrightarrow> startswith s ''not_'' \<and> alnum14 (drop 4 s)"

definition folder_id_ok :: "string \<Rightarrow> bool" where
  "folder_id_ok s \<longleftrightarrow> startswith s ''fol_'' \<and> alnum14 (drop 4 s)"

text \<open>\<^verbatim>\<open>GRANOLA_MCP_MEETING_ID.match\<close>: Python's \<^verbatim>\<open>$\<close> also matches before a final newline.\<close>

definition uuid_match :: "string \<Rightarrow> bool" where
  "uuid_match s \<longleftrightarrow> uuid_ok s \<or> (s \<noteq> [] \<and> last s = line_feed \<and> uuid_ok (butlast s))"

subsection \<open>The REST note\<close>

text \<open>\<^verbatim>\<open>GranolaUser\<close> has the fields of a participant, its address required.\<close>

definition parse_user :: "json \<Rightarrow> participant option" where
  "parse_user = parse_model [''name'', ''email''] (\<lambda>f. do {
     n \<leftarrow> defaulted ''name'' None (parse_opt parse_str) f;
     e \<leftarrow> needed ''email'' parse_str f;
     Some \<lparr>np_name = n, np_email = Some e\<rparr>}) valid_participant"

record granola_folder =
  gf_id :: string
  gf_name :: "string option"
  gf_parent :: "string option"

definition parse_const :: "string \<Rightarrow> json \<Rightarrow> unit option" where
  "parse_const s j = (if j = JStr s then Some () else None)"

definition parse_folder :: "json \<Rightarrow> granola_folder option" where
  "parse_folder = parse_model [''id'', ''object'', ''name'', ''parent_folder_id''] (\<lambda>f. do {
     i \<leftarrow> needed ''id'' parse_str f;
     _ \<leftarrow> defaulted ''object'' () (parse_const ''folder'') f;
     n \<leftarrow> defaulted ''name'' None (parse_opt parse_str) f;
     p \<leftarrow> defaulted ''parent_folder_id'' None (parse_opt parse_str) f;
     Some \<lparr>gf_id = i, gf_name = n, gf_parent = p\<rparr>})
    (\<lambda>x. folder_id_ok (gf_id x) \<and> opt_all (in_len 0 300) (gf_name x) \<and> opt_all folder_id_ok (gf_parent x))"

text \<open>A model that allows any further field and declares none.\<close>

definition parse_any_object :: "json \<Rightarrow> members option" where
  "parse_any_object j = (case j of JObj kvs \<Rightarrow> Some kvs | _ \<Rightarrow> None)"

record granola_speaker =
  gs_source :: speaker_source
  gs_attribution :: "attribution_side option"
  gs_label :: "string option"
  gs_name :: "string option"

definition parse_speaker :: "json \<Rightarrow> granola_speaker option" where
  "parse_speaker = parse_model [''source'', ''attribution'', ''diarization_label'', ''name''] (\<lambda>f. do {
     s \<leftarrow> needed ''source'' (parse_enum (\<lambda>x. case x of Microphone \<Rightarrow> ''microphone'' | Speaker \<Rightarrow> ''speaker'')
       [Microphone, Speaker]) f;
     a \<leftarrow> defaulted ''attribution'' None (parse_opt (parse_enum (\<lambda>x. case x of Me \<Rightarrow> ''me'' | Them \<Rightarrow> ''them'')
       [Me, Them])) f;
     l \<leftarrow> defaulted ''diarization_label'' None (parse_opt parse_str) f;
     n \<leftarrow> defaulted ''name'' None (parse_opt parse_str) f;
     Some \<lparr>gs_source = s, gs_attribution = a, gs_label = l, gs_name = n\<rparr>})
    (\<lambda>x. opt_all (in_len 0 120) (gs_label x) \<and> opt_all (in_len 0 200) (gs_name x))"

record granola_item =
  gi_speaker :: granola_speaker
  gi_text :: string
  gi_start_time :: "datetime option"
  gi_end_time :: "datetime option"

definition parse_item :: "(json \<Rightarrow> datetime option) \<Rightarrow> json \<Rightarrow> granola_item option" where
  "parse_item stamp = parse_model [''speaker'', ''text'', ''start_time'', ''end_time''] (\<lambda>f. do {
     s \<leftarrow> needed ''speaker'' parse_speaker f;
     t \<leftarrow> needed ''text'' parse_str f;
     a \<leftarrow> defaulted ''start_time'' None (parse_opt stamp) f;
     b \<leftarrow> defaulted ''end_time'' None (parse_opt stamp) f;
     Some \<lparr>gi_speaker = s, gi_text = t, gi_start_time = a, gi_end_time = b\<rparr>})
    (\<lambda>x. in_len 1 20000 (gi_text x))"

record granola_note =
  gn_id :: string
  gn_title :: "string option"
  gn_owner :: "participant option"
  gn_created_at :: datetime
  gn_updated_at :: datetime
  gn_web_url :: "string option"
  gn_calendar_event :: "members option"
  gn_attendees :: "participant list"
  gn_folders :: "granola_folder list"
  gn_summary_text :: "string option"
  gn_summary_markdown :: "string option"
  gn_private_notes_text :: "string option"
  gn_private_notes_markdown :: "string option"
  gn_transcript :: "granola_item list option"

definition valid_note :: "granola_note \<Rightarrow> bool" where
  "valid_note n \<longleftrightarrow> note_id_ok (gn_id n) \<and> opt_all (in_len 0 500) (gn_title n)
     \<and> opt_all (in_len 0 1000) (gn_web_url n) \<and> length (gn_attendees n) \<le> 1000 \<and> length (gn_folders n) \<le> 200
     \<and> opt_all (in_len 0 200000) (gn_summary_text n) \<and> opt_all (in_len 0 400000) (gn_summary_markdown n)
     \<and> opt_all (in_len 0 200000) (gn_private_notes_text n) \<and> opt_all (in_len 0 400000) (gn_private_notes_markdown n)
     \<and> opt_all (\<lambda>xs. length xs \<le> 20000) (gn_transcript n)"

definition parse_note :: "(json \<Rightarrow> datetime option) \<Rightarrow> json \<Rightarrow> granola_note option" where
  "parse_note stamp = parse_model [''id'', ''object'', ''title'', ''owner'', ''created_at'', ''updated_at'',
      ''web_url'', ''calendar_event'', ''attendees'', ''folder_membership'', ''summary_text'',
      ''summary_markdown'', ''private_notes_text'', ''private_notes_markdown'', ''transcript''] (\<lambda>f. do {
     i \<leftarrow> needed ''id'' parse_str f;
     _ \<leftarrow> defaulted ''object'' () (parse_const ''note'') f;
     t \<leftarrow> defaulted ''title'' None (parse_opt parse_str) f;
     w \<leftarrow> defaulted ''owner'' None (parse_opt parse_user) f;
     ca \<leftarrow> needed ''created_at'' stamp f;
     ua \<leftarrow> needed ''updated_at'' stamp f;
     u \<leftarrow> defaulted ''web_url'' None (parse_opt parse_str) f;
     ev \<leftarrow> defaulted ''calendar_event'' None (parse_opt parse_any_object) f;
     as \<leftarrow> defaulted ''attendees'' [] (parse_list parse_user) f;
     fs \<leftarrow> defaulted ''folder_membership'' [] (parse_list parse_folder) f;
     st \<leftarrow> defaulted ''summary_text'' None (parse_opt parse_str) f;
     sm \<leftarrow> defaulted ''summary_markdown'' None (parse_opt parse_str) f;
     pt \<leftarrow> defaulted ''private_notes_text'' None (parse_opt parse_str) f;
     pm \<leftarrow> defaulted ''private_notes_markdown'' None (parse_opt parse_str) f;
     tr \<leftarrow> defaulted ''transcript'' None (parse_opt (parse_list (parse_item stamp))) f;
     Some \<lparr>gn_id = i, gn_title = t, gn_owner = w, gn_created_at = ca, gn_updated_at = ua, gn_web_url = u,
       gn_calendar_event = ev, gn_attendees = as, gn_folders = fs, gn_summary_text = st, gn_summary_markdown = sm,
       gn_private_notes_text = pt, gn_private_notes_markdown = pm, gn_transcript = tr\<rparr>}) valid_note"

subsection \<open>The row without content\<close>

datatype granola_failure = TranscriptTooLarge | NoteNotFound | NoteUnauthorized | TranscriptDeleted

fun failure_value :: "granola_failure \<Rightarrow> string" where
  "failure_value TranscriptTooLarge = ''TRANSCRIPT_TOO_LARGE''"
| "failure_value NoteNotFound = ''NOT_FOUND''"
| "failure_value NoteUnauthorized = ''UNAUTHORIZED''"
| "failure_value TranscriptDeleted = ''TRANSCRIPT_DELETED''"

fun failure_availability :: "granola_failure \<Rightarrow> availability" where
  "failure_availability TranscriptTooLarge = MetadataOnly"
| "failure_availability NoteNotFound = PendingUnknown"
| "failure_availability NoteUnauthorized = AccessLost"
| "failure_availability TranscriptDeleted = MetadataOnly"

record granola_unavailable =
  gu_id :: string
  gu_title :: "string option"
  gu_created_at :: "datetime option"
  gu_updated_at :: "datetime option"
  gu_attendees :: "participant list"
  gu_error :: granola_failure

definition parse_unavailable_note :: "(json \<Rightarrow> datetime option) \<Rightarrow> json \<Rightarrow> granola_unavailable option" where
  "parse_unavailable_note stamp = parse_model [''id'', ''title'', ''created_at'', ''updated_at'', ''attendees'',
      ''error_code''] (\<lambda>f. do {
     i \<leftarrow> needed ''id'' parse_str f;
     t \<leftarrow> defaulted ''title'' None (parse_opt parse_str) f;
     ca \<leftarrow> defaulted ''created_at'' None (parse_opt stamp) f;
     ua \<leftarrow> defaulted ''updated_at'' None (parse_opt stamp) f;
     as \<leftarrow> defaulted ''attendees'' [] (parse_list parse_user) f;
     e \<leftarrow> needed ''error_code'' (parse_enum failure_value
       [TranscriptTooLarge, NoteNotFound, NoteUnauthorized, TranscriptDeleted]) f;
     Some \<lparr>gu_id = i, gu_title = t, gu_created_at = ca, gu_updated_at = ua, gu_attendees = as, gu_error = e\<rparr>})
    (\<lambda>x. (note_id_ok (gu_id x) \<or> uuid_ok (gu_id x)) \<and> opt_all (in_len 0 500) (gu_title x)
       \<and> length (gu_attendees x) \<le> 1000)"

subsection \<open>The MCP meeting\<close>

definition parse_mcp_person :: "json \<Rightarrow> participant option" where
  "parse_mcp_person = parse_model [''name'', ''email''] (\<lambda>f. do {
     n \<leftarrow> defaulted ''name'' None (parse_opt parse_str) f;
     e \<leftarrow> defaulted ''email'' None (parse_opt parse_str) f;
     Some \<lparr>np_name = n, np_email = e\<rparr>}) valid_participant"

record granola_mcp_meeting =
  gx_id :: string
  gx_title :: "string option"
  gx_date :: "string option"
  gx_created_at :: "datetime option"
  gx_url :: "string option"
  gx_participants :: "participant list"
  gx_summary :: "string option"
  gx_transcript :: "string option"
  gx_context :: "members option"

definition valid_mcp_meeting :: "granola_mcp_meeting \<Rightarrow> bool" where
  "valid_mcp_meeting m \<longleftrightarrow> uuid_ok (gx_id m) \<and> opt_all (in_len 0 500) (gx_title m) \<and> opt_all (in_len 0 120) (gx_date m)
     \<and> opt_all (in_len 0 1000) (gx_url m) \<and> length (gx_participants m) \<le> 1000
     \<and> opt_all (in_len 0 200000) (gx_summary m) \<and> opt_all (in_len 0 2000000) (gx_transcript m)"

definition parse_mcp_meeting :: "(json \<Rightarrow> datetime option) \<Rightarrow> json \<Rightarrow> granola_mcp_meeting option" where
  "parse_mcp_meeting stamp = parse_model [''id'', ''title'', ''date'', ''created_at'', ''url'', ''known_participants'',
      ''summary'', ''transcript'', ''recording_context''] (\<lambda>f. do {
     i \<leftarrow> needed ''id'' parse_str f;
     t \<leftarrow> defaulted ''title'' None (parse_opt parse_str) f;
     d \<leftarrow> defaulted ''date'' None (parse_opt parse_str) f;
     ca \<leftarrow> defaulted ''created_at'' None (parse_opt stamp) f;
     u \<leftarrow> defaulted ''url'' None (parse_opt parse_str) f;
     ps \<leftarrow> defaulted ''known_participants'' [] (parse_list parse_mcp_person) f;
     s \<leftarrow> defaulted ''summary'' None (parse_opt parse_str) f;
     tr \<leftarrow> defaulted ''transcript'' None (parse_opt parse_str) f;
     rc \<leftarrow> defaulted ''recording_context'' None (parse_opt parse_any_object) f;
     Some \<lparr>gx_id = i, gx_title = t, gx_date = d, gx_created_at = ca, gx_url = u, gx_participants = ps,
       gx_summary = s, gx_transcript = tr, gx_context = rc\<rparr>}) valid_mcp_meeting"

subsection \<open>The normalized models\<close>

text \<open>The constructors of the normalized models strip every text, then check.\<close>

definition strip_participant :: "participant \<Rightarrow> participant" where
  "strip_participant p = p\<lparr>np_name := map_option strip (np_name p), np_email := map_option strip (np_email p)\<rparr>"

definition strip_segment :: "transcript_segment \<Rightarrow> transcript_segment" where
  "strip_segment t = t\<lparr>ts_speaker_label := map_option strip (ts_speaker_label t), ts_text := strip (ts_text t)\<rparr>"

definition strip_content :: "meeting_content \<Rightarrow> meeting_content" where
  "strip_content c = c\<lparr>mc_summary_text := map_option strip (mc_summary_text c),
     mc_summary_markdown := map_option strip (mc_summary_markdown c),
     mc_private_notes_text := map_option strip (mc_private_notes_text c),
     mc_private_notes_markdown := map_option strip (mc_private_notes_markdown c),
     mc_transcript := map strip_segment (mc_transcript c)\<rparr>"

definition strip_meeting :: "meeting \<Rightarrow> meeting" where
  "strip_meeting m = m\<lparr>nm_identity := strip_identity (nm_identity m), nm_title := map_option strip (nm_title m),
     nm_attendees := map strip_participant (nm_attendees m),
     nm_unavailable_reason := map_option strip (nm_unavailable_reason m),
     nm_content := strip_content (nm_content m), nm_provider_web_url := map_option strip (nm_provider_web_url m)\<rparr>"

definition mk_content :: "meeting_content \<Rightarrow> exn + meeting_content" where
  "mk_content c = (if valid_meeting_content (strip_content c) then Inr (strip_content c) else Inl ValidationError)"

definition mk_meeting :: "meeting \<Rightarrow> exn + meeting" where
  "mk_meeting m = (if valid_meeting (strip_meeting m) then Inr (strip_meeting m) else Inl ValidationError)"

definition granola_identity :: "string \<Rightarrow> string \<Rightarrow> source_identity" where
  "granola_identity connection_id object_id = \<lparr>si_provider = Granola, si_connection_id = connection_id,
     si_source_workspace_id = None, si_provider_object_id = object_id, si_kind = Meeting\<rparr>"

text \<open>\<^verbatim>\<open>x or None\<close>, \<^verbatim>\<open>x or y\<close>\<close>

definition or_none :: "string option \<Rightarrow> string option" where
  "or_none x = (if truthy x then x else None)"

definition or_else :: "string option \<Rightarrow> string option \<Rightarrow> string option" where
  "or_else x y = (if truthy x then x else y)"

subsection \<open>Normalization\<close>

function chunk :: "string \<Rightarrow> string list" where
  "chunk s = (if s = [] then [] else take 20000 s # chunk (drop 20000 s))"
  by pat_completeness auto
termination by (relation "measure length") auto

declare chunk.simps [simp del]

definition plain_segment :: "string \<Rightarrow> transcript_segment" where
  "plain_segment s = \<lparr>ts_speaker_source = None, ts_attribution = None, ts_speaker_label = None, ts_text = s,
     ts_start_time = None, ts_end_time = None\<rparr>"

definition normalize_mcp_meeting :: "string \<Rightarrow> granola_mcp_meeting \<Rightarrow> exn + meeting" where
  "normalize_mcp_meeting connection_id m = and_then (mk_content \<lparr>mc_summary_text = or_none (gx_summary m),
       mc_summary_markdown = None, mc_private_notes_text = None, mc_private_notes_markdown = None,
       mc_transcript = map plain_segment (chunk (stripped (gx_transcript m)))\<rparr>) (\<lambda>content.
     let has_content = truthy (mc_summary_text content) \<or> mc_transcript content \<noteq> [] in
     mk_meeting \<lparr>nm_identity = granola_identity connection_id (lower_text (gx_id m)), nm_title = gx_title m,
       nm_occurred_at = gx_created_at m, nm_provider_updated_at = None, nm_attendees = gx_participants m,
       nm_availability = (if has_content then ContentAvailable else MetadataOnly),
       nm_unavailable_reason = (if has_content then None else Some ''meeting_has_no_summary_or_transcript''),
       nm_content = content, nm_provider_web_url = gx_url m\<rparr>)"

definition item_segment :: "granola_item \<Rightarrow> transcript_segment" where
  "item_segment i = \<lparr>ts_speaker_source = Some (gs_source (gi_speaker i)), ts_attribution = gs_attribution (gi_speaker i),
     ts_speaker_label = or_else (gs_name (gi_speaker i)) (gs_label (gi_speaker i)), ts_text = gi_text i,
     ts_start_time = gi_start_time i, ts_end_time = gi_end_time i\<rparr>"

definition normalize_note :: "string \<Rightarrow> granola_note \<Rightarrow> exn + meeting" where
  "normalize_note connection_id n = and_then (mk_content \<lparr>mc_summary_text = or_none (gn_summary_text n),
       mc_summary_markdown = or_none (gn_summary_markdown n),
       mc_private_notes_text = or_none (gn_private_notes_text n),
       mc_private_notes_markdown = or_none (gn_private_notes_markdown n),
       mc_transcript = (case gn_transcript n of None \<Rightarrow> [] | Some is \<Rightarrow> map item_segment is)\<rparr>) (\<lambda>content.
     let has_content = \<not> meeting_content_empty content in
     mk_meeting \<lparr>nm_identity = granola_identity connection_id (gn_id n), nm_title = gn_title n,
       nm_occurred_at = Some (gn_created_at n), nm_provider_updated_at = Some (gn_updated_at n),
       nm_attendees = gn_attendees n,
       nm_availability = (if has_content then ContentAvailable else MetadataOnly),
       nm_unavailable_reason = (if has_content then None else Some ''note_has_no_summary_or_transcript''),
       nm_content = content, nm_provider_web_url = gn_web_url n\<rparr>)"

definition no_content :: meeting_content where
  "no_content = \<lparr>mc_summary_text = None, mc_summary_markdown = None, mc_private_notes_text = None,
     mc_private_notes_markdown = None, mc_transcript = []\<rparr>"

definition normalize_unavailable :: "string \<Rightarrow> granola_unavailable \<Rightarrow> exn + meeting" where
  "normalize_unavailable connection_id u = mk_meeting \<lparr>nm_identity = granola_identity connection_id (gu_id u),
     nm_title = gu_title u, nm_occurred_at = gu_created_at u, nm_provider_updated_at = gu_updated_at u,
     nm_attendees = gu_attendees u, nm_availability = failure_availability (gu_error u),
     nm_unavailable_reason = Some (lower_text (failure_value (gu_error u))), nm_content = no_content,
     nm_provider_web_url = None\<rparr>"

definition max_note_bytes :: nat where "max_note_bytes = 2000000"

definition granola_malformed :: exn where
  "granola_malformed = GranolaImportError 400 ''malformed_payload''"

definition as_granola_import :: "exn + 'a \<Rightarrow> exn + 'a" where
  "as_granola_import r = (case r of Inl ValidationError \<Rightarrow> Inl granola_malformed | _ \<Rightarrow> r)"

definition normalize_granola :: "(json \<Rightarrow> datetime option) \<Rightarrow> string \<Rightarrow> json \<Rightarrow> exn + meeting" where
  "normalize_granola stamp connection_id payload = (case payload of
     JObj kvs \<Rightarrow>
       if length (canonical_bytes payload) > max_note_bytes then Inl (GranolaImportError 413 ''payload_too_large'')
       else as_granola_import
        (if map_of kvs ''error_code'' \<noteq> None
         then and_then (parsed (parse_unavailable_note stamp payload)) (normalize_unavailable connection_id)
         else if (case map_of kvs ''id'' of Some (JStr i) \<Rightarrow> uuid_match i | _ \<Rightarrow> False)
         then and_then (parsed (parse_mcp_meeting stamp payload)) (normalize_mcp_meeting connection_id)
         else and_then (parsed (parse_note stamp payload)) (normalize_note connection_id))
   | _ \<Rightarrow> Inl granola_malformed)"

end
