(* ===== verification/Granola_Retrieval.thy ===== *)
theory Granola_Retrieval
  imports Granola_Adapter Gmail_Intake
begin

section \<open>Granola retrieval\<close>

text \<open>
  \<^verbatim>\<open>webapp/services/granola_retrieval_service.py\<close>: the connection check, the listing of meetings, and the
  retrieval of the meetings the user selected into the ledger.  The transport is a protocol, as in
  \<open>Gmail_Intake\<close>: its replies are a function of the calls made so far.  The description of the shape of
  an account result, a diagnostic, is not modelled.
\<close>

subsection \<open>State\<close>

text \<open>The marker file holds the time of the last check; one that does not parse reads as none.\<close>

datatype granola_call =
    AskAccount
  | AskListing members
  | AskMeetings "string list"
  | AskTranscript string

type_synonym granola_transport = "granola_call list \<Rightarrow> exn + json"

record granola_world =
  gw_world :: world
  gw_checked_at :: "string option"
  gw_clock :: "nat \<Rightarrow> datetime"
  gw_ticks :: nat
  gw_calls :: "granola_call list"

definition with_world :: "(world, 'a) op \<Rightarrow> (granola_world, 'a) op" where
  "with_world m = zoom gw_world (\<lambda>w g. g\<lparr>gw_world := w\<rparr>) m"

definition with_ledger :: "(ledger, 'a) op \<Rightarrow> (granola_world, 'a) op" where
  "with_ledger m = with_world (in_ledger m)"

definition granola_now :: "(granola_world, datetime) op" where
  "granola_now g = (Inr (gw_clock g (gw_ticks g)), g\<lparr>gw_ticks := Suc (gw_ticks g)\<rparr>)"

definition query :: "granola_transport \<Rightarrow> granola_call \<Rightarrow> (granola_world, json) op" where
  "query net c = (\<lambda>g. (net (gw_calls g @ [c]), g\<lparr>gw_calls := gw_calls g @ [c]\<rparr>))"

abbreviation granola_error :: "int \<Rightarrow> string \<Rightarrow> (granola_world, 'a) op" where
  "granola_error status code \<equiv> raise (GranolaRetrievalError status code)"

definition granola_connection :: string where
  "granola_connection = ''claude-code-mcp''"

definition granola_kind :: string where
  "granola_kind = ''command_center_granola_retrieval''"

definition max_meetings :: nat where "max_meetings = 10"
definition max_listed_meetings :: nat where "max_listed_meetings = 100"

subsection \<open>The connection\<close>

definition scope_label_names :: "string list" where
  "scope_label_names = [''personal'', ''workspace'', ''shared'', ''team'', ''organization'', ''private'', ''public'']"

text \<open>The known labels, and how many entries are not shown.\<close>

definition scope_labels :: "string list \<Rightarrow> string list \<times> nat" where
  "scope_labels items = (let known = sort (remdups (filter (\<lambda>x. x \<in> set scope_label_names)
       (map (\<lambda>x. lower_text (strip x)) items))) in (known, length items - length known))"

text \<open>\<^verbatim>\<open>_AccountInfo\<close>: a list of texts, one text or nothing; other fields are ignored.\<close>

definition parse_account :: "members \<Rightarrow> string list option" where
  "parse_account = defaulted ''note_access_scope'' [] (\<lambda>j. case j of
     JNull \<Rightarrow> Some []
   | JStr s \<Rightarrow> Some [s]
   | _ \<Rightarrow> parse_list parse_str j)"

definition is_object :: "json \<Rightarrow> bool" where
  "is_object j \<longleftrightarrow> (case j of JObj kvs \<Rightarrow> True | _ \<Rightarrow> False)"

definition object_members :: "json \<Rightarrow> members" where
  "object_members j = (case j of JObj kvs \<Rightarrow> kvs | _ \<Rightarrow> [])"

record connection_report =
  cn_connected :: bool
  cn_labels :: "string list"
  cn_hidden :: nat
  cn_failure :: "(string \<times> bool) option"
  cn_checked_at :: string

definition check_connection :: "granola_transport \<Rightarrow> (granola_world, connection_report) op" where
  "check_connection net =
     bnd (catch (bnd (query net AskAccount) (\<lambda>raw. ret (Inr raw)))
       (\<lambda>e. case e of GranolaRelayError code retryable \<Rightarrow> ret (Inl (code, retryable)) | _ \<Rightarrow> raise e)) (\<lambda>reply.
     case reply of
       Inl failure \<Rightarrow> bnd granola_now (\<lambda>now. ret \<lparr>cn_connected = False, cn_labels = [], cn_hidden = 0,
         cn_failure = Some failure, cn_checked_at = isoformat now\<rparr>)
     | Inr raw \<Rightarrow>
         if \<not> is_object raw then granola_error 502 ''unexpected_shape''
         else (case parse_account (object_members raw) of
             None \<Rightarrow> raise ValidationError
           | Some items \<Rightarrow> bnd granola_now (\<lambda>now.
               bnd (modify_st (\<lambda>g. g\<lparr>gw_checked_at := Some (isoformat now)\<rparr>)) (\<lambda>_.
               ret \<lparr>cn_connected = True, cn_labels = fst (scope_labels items), cn_hidden = snd (scope_labels items),
                 cn_failure = None, cn_checked_at = isoformat now\<rparr>))))"

text \<open>\<^verbatim>\<open>_assert_connected\<close>\<close>

definition assert_connected :: "granola_transport \<Rightarrow> (granola_world, unit) op" where
  "assert_connected net = bnd (query net AskAccount) (\<lambda>raw.
     if is_object raw then ret () else granola_error 502 ''unexpected_shape'')"

definition assert_granola_checked :: "(granola_world, unit) op" where
  "assert_granola_checked = bnd (read_st gw_checked_at) (\<lambda>c.
     if c = None then granola_error 409 ''not_checked'' else ret ())"

subsection \<open>Listing\<close>

definition meeting_rows :: "json \<Rightarrow> exn + json list" where
  "meeting_rows raw = (case raw of
     JList xs \<Rightarrow> Inr xs
   | JObj kvs \<Rightarrow> (case find (\<lambda>k. case map_of kvs k of Some (JList xs) \<Rightarrow> True | _ \<Rightarrow> False)
          [''meetings'', ''results'', ''documents'', ''items''] of
        Some k \<Rightarrow> (case map_of kvs k of Some (JList xs) \<Rightarrow> Inr xs | _ \<Rightarrow> Inr [])
      | None \<Rightarrow> (case map_of kvs ''id'' of Some (JStr i) \<Rightarrow> Inr [raw]
          | _ \<Rightarrow> Inl (GranolaRetrievalError 502 ''unexpected_shape'')))
   | _ \<Rightarrow> Inl (GranolaRetrievalError 502 ''unexpected_shape''))"

text \<open>\<^verbatim>\<open>rejected_rows\<close> of an object, when it is an \<^verbatim>\<open>int\<close>; a \<^verbatim>\<open>bool\<close> is one.\<close>

definition rejected_rows :: "json \<Rightarrow> int" where
  "rejected_rows raw = (case map_of (object_members raw) ''rejected_rows'' of
     Some (JInt i) \<Rightarrow> i | Some (JBool b) \<Rightarrow> (if b then 1 else 0) | _ \<Rightarrow> 0)"

text \<open>pydantic's reading of a \<^verbatim>\<open>bool\<close> field\<close>

definition parse_bool :: "json \<Rightarrow> bool option" where
  "parse_bool j = (case j of
     JBool b \<Rightarrow> Some b
   | JInt i \<Rightarrow> if i = 1 then Some True else if i = 0 then Some False else None
   | JStr s \<Rightarrow>
       if lower_text s \<in> {''1'', ''on'', ''t'', ''true'', ''y'', ''yes''} then Some True
       else if lower_text s \<in> {''0'', ''off'', ''f'', ''false'', ''n'', ''no''} then Some False else None
   | _ \<Rightarrow> None)"

text \<open>\<^verbatim>\<open>_Loose\<close>: fields that are not declared are ignored.\<close>

definition parse_loose :: "(members \<Rightarrow> 'a option) \<Rightarrow> ('a \<Rightarrow> bool) \<Rightarrow> json \<Rightarrow> 'a option" where
  "parse_loose p valid j = (case j of
     JObj kvs \<Rightarrow> Option.bind (p kvs) (\<lambda>x. if valid x then Some x else None) | _ \<Rightarrow> None)"

definition parse_listed_person :: "json \<Rightarrow> participant option" where
  "parse_listed_person = parse_loose (\<lambda>f. do {
     n \<leftarrow> defaulted ''name'' None (parse_opt parse_str) f;
     e \<leftarrow> defaulted ''email'' None (parse_opt parse_str) f;
     Some \<lparr>np_name = n, np_email = e\<rparr>}) valid_participant"

record meeting_row =
  mr_id :: string
  mr_title :: "string option"
  mr_date :: "string option"
  mr_url :: "string option"
  mr_participants :: "participant list"
  mr_captured_by_me :: "bool option"
  mr_listed_as_participant :: "bool option"
  mr_workspace_visible :: "bool option"

definition parse_meeting_row :: "json \<Rightarrow> meeting_row option" where
  "parse_meeting_row = parse_loose (\<lambda>f. do {
     i \<leftarrow> needed ''id'' parse_str f;
     t \<leftarrow> defaulted ''title'' None (parse_opt parse_str) f;
     d \<leftarrow> defaulted ''date'' None (parse_opt parse_str) f;
     u \<leftarrow> defaulted ''url'' None (parse_opt parse_str) f;
     ps \<leftarrow> defaulted ''known_participants'' [] (parse_list parse_listed_person) f;
     c \<leftarrow> defaulted ''captured_by_me'' None (parse_opt parse_bool) f;
     l \<leftarrow> defaulted ''listed_as_participant'' None (parse_opt parse_bool) f;
     w \<leftarrow> defaulted ''is_workspace_visible'' None (parse_opt parse_bool) f;
     Some \<lparr>mr_id = i, mr_title = t, mr_date = d, mr_url = u, mr_participants = ps, mr_captured_by_me = c,
       mr_listed_as_participant = l, mr_workspace_visible = w\<rparr>})
    (\<lambda>r. uuid_ok (mr_id r) \<and> opt_all (in_len 0 500) (mr_title r) \<and> opt_all (in_len 0 120) (mr_date r)
       \<and> opt_all (in_len 0 2000) (mr_url r) \<and> length (mr_participants r) \<le> 500)"

text \<open>\<^verbatim>\<open>_known_by_object\<close>; \<^verbatim>\<open>setdefault\<close> keeps the first.  The loop over the pages has fuel, as \<open>gmail_pages\<close>.\<close>

definition default_update :: "string \<times> 'a \<Rightarrow> (string \<times> 'a) list \<Rightarrow> (string \<times> 'a) list" where
  "default_update kv known = (if map_of known (fst kv) = None then known @ [kv] else known)"

fun granola_pages ::
  "nat \<Rightarrow> nat \<Rightarrow> (string \<times> source_summary) list \<Rightarrow> (ledger, (string \<times> source_summary) list option) op" where
  "granola_pages 0 offset known = ret None"
| "granola_pages (Suc n) offset known = bnd (list_sources None False 200 (int offset)) (\<lambda>page.
     let known' = fold default_update (map (\<lambda>i. (sm_provider_object_id i, i))
           (filter (\<lambda>i. sm_provider i = Granola) (pg_sources page))) known in
     case pg_next_offset page of
       None \<Rightarrow> ret (Some known')
     | Some next \<Rightarrow> granola_pages n next known')"

definition known_by_object :: "(ledger, (string \<times> source_summary) list) op" where
  "known_by_object = bnd (read_st (\<lambda>l. length (lg_sources l))) (\<lambda>n.
     bnd (granola_pages (Suc n) 0 []) (\<lambda>r. ret (case r of None \<Rightarrow> [] | Some known \<Rightarrow> known)))"

record listed_meeting =
  lm_meeting :: meeting_row
  lm_meeting_id :: string
  lm_ledger :: "ledger_view option"
  lm_observed_at :: "string option"

record meeting_listing =
  ml_returned :: nat
  ml_truncated :: bool
  ml_rejected :: int
  ml_meetings :: "listed_meeting list"

definition listed_of :: "(string \<times> source_summary) list \<Rightarrow> meeting_row \<Rightarrow> listed_meeting" where
  "listed_of known r = (let k = lower_text (mr_id r); source = map_of known k in
     \<lparr>lm_meeting = r, lm_meeting_id = k, lm_ledger = map_option view_of source,
       lm_observed_at = map_option (\<lambda>i. lv_observed_at (sm_latest i)) source\<rparr>)"

definition listing_of :: "(string \<times> source_summary) list \<Rightarrow> json \<Rightarrow> json list \<Rightarrow> meeting_listing" where
  "listing_of known raw rows = (let parsed = map parse_meeting_row (take max_listed_meetings rows) in
     \<lparr>ml_returned = length rows, ml_truncated = length rows > max_listed_meetings,
       ml_rejected = rejected_rows raw + int (length (filter (\<lambda>p. p = None) parsed)),
       ml_meetings = concat (map (\<lambda>p. case p of None \<Rightarrow> [] | Some r \<Rightarrow> [listed_of known r]) parsed)\<rparr>)"

fun range_value :: "time_range \<Rightarrow> string" where
  "range_value Today = ''today''"
| "range_value Yesterday = ''yesterday''"
| "range_value ThisWeek = ''this_week''"
| "range_value LastWeek = ''last_week''"
| "range_value Last30Days = ''last_30_days''"
| "range_value Custom = ''custom''"

definition date_text :: "int \<Rightarrow> string" where
  "date_text d = take 10 (isoformat (d * 86400000000))"

definition check_range :: "time_range \<Rightarrow> int option \<Rightarrow> int option \<Rightarrow> exn + unit" where
  "check_range r custom_start custom_end =
     (if r \<noteq> Custom then Inr ()
      else case (custom_start, custom_end) of
          (Some a, Some b) \<Rightarrow> if b < a \<or> b - a > 92 then Inl (GranolaRetrievalError 400 ''invalid_range'') else Inr ()
        | _ \<Rightarrow> Inl (GranolaRetrievalError 400 ''invalid_range''))"

definition listing_arguments :: "time_range \<Rightarrow> int option \<Rightarrow> int option \<Rightarrow> bool \<Rightarrow> members" where
  "listing_arguments r custom_start custom_end workspace_only =
     [(''time_range'', JStr (range_value r))]
     @ (if r = Custom then [(''custom_start'', JStr (date_text (the custom_start))),
          (''custom_end'', JStr (date_text (the custom_end)))] else [])
     @ (if workspace_only then [(''workspace_only'', JBool True)] else [])"

definition list_granola :: "granola_transport \<Rightarrow> time_range \<Rightarrow> int option \<Rightarrow> int option \<Rightarrow> bool
   \<Rightarrow> (granola_world, meeting_listing) op" where
  "list_granola net r custom_start custom_end workspace_only =
     bnd (of_sum (check_range r custom_start custom_end)) (\<lambda>_.
     bnd assert_granola_checked (\<lambda>_.
     bnd (catch (bnd (assert_connected net) (\<lambda>_. query net (AskListing (listing_arguments r custom_start custom_end workspace_only))))
       (\<lambda>e. case e of GranolaRelayError code retryable \<Rightarrow> granola_error (if retryable then 502 else 409) code
          | _ \<Rightarrow> raise e)) (\<lambda>raw.
     bnd (of_sum (meeting_rows raw)) (\<lambda>rows.
     bnd (with_ledger known_by_object) (\<lambda>known. ret (listing_of known raw rows))))))"

subsection \<open>Selection\<close>

fun granola_selection :: "string list \<Rightarrow> string list \<Rightarrow> exn + string list" where
  "granola_selection [] ids = Inr ids"
| "granola_selection (raw # raws) ids =
     (if \<not> uuid_match raw then Inl (GranolaRetrievalError 400 ''invalid_meeting_id'')
      else granola_selection raws (if lower_text raw \<in> set ids then ids else ids @ [lower_text raw]))"

definition start_granola :: "string list \<Rightarrow> (granola_world, retrieval_start \<times> string list) op" where
  "start_granola meeting_ids = bnd (of_sum (granola_selection meeting_ids [])) (\<lambda>ids.
     if ids = [] then granola_error 400 ''empty_selection''
     else if length ids > max_meetings then granola_error 400 ''selection_too_large''
     else bnd assert_granola_checked (\<lambda>_.
     bnd (read_st (\<lambda>g. list_ex (\<lambda>(jid, j). jb_kind j = granola_kind \<and> jb_status j = JobRunning)
            (js_jobs (w_jobs (gw_world g))))) (\<lambda>running.
     if running then granola_error 409 ''retrieval_in_progress''
     else bnd (with_world (in_jobs (launch_managed granola_kind '''' '''' '''' []
            [(''trigger'', JStr ''user_triggered_retrieval''), (''unattended_discovery'', JBool False),
             (''meeting_ids'', jtexts ids), (''requested'', JInt (int (length ids)))]))) (\<lambda>(jid, warn).
     ret (\<lparr>rs_job_id = jid, rs_requested = length ids, rs_persist_warn = warn\<rparr>, ids)))))"

definition granola_job :: "string \<Rightarrow> jobs \<Rightarrow> job option" where
  "granola_job jid js = (case get_job jid js of
     Some j \<Rightarrow> if jb_kind j = granola_kind then Some j else None | None \<Rightarrow> None)"

subsection \<open>Payloads\<close>

definition pick_keys :: "string list" where
  "pick_keys = [''id'', ''title'', ''date'', ''url'', ''known_participants'', ''summary'', ''created_at'']"

definition pick_person :: "json \<Rightarrow> json list" where
  "pick_person person = (case person of
     JObj kvs \<Rightarrow> [JObj (concat (map (\<lambda>k. case map_of kvs k of
        None \<Rightarrow> [] | Some JNull \<Rightarrow> [] | Some v \<Rightarrow> [(k, v)]) [''name'', ''email'']))]
   | _ \<Rightarrow> [])"

text \<open>The row was selected, so its \<^verbatim>\<open>id\<close> is a text.\<close>

definition pick_member :: "members \<Rightarrow> string \<Rightarrow> members" where
  "pick_member row k = (case map_of row k of
     None \<Rightarrow> []
   | Some v \<Rightarrow> [(k, case v of
        JStr s \<Rightarrow> if k = ''id'' then JStr (lower_text s) else v
      | JList people \<Rightarrow> if k = ''known_participants'' then JList (concat (map pick_person people)) else v
      | _ \<Rightarrow> v)])"

definition pick :: "members \<Rightarrow> members" where
  "pick row = concat (map (pick_member row) pick_keys)"

record granola_transcript =
  gt_id :: "string option"
  gt_created_at :: "datetime option"
  gt_transcript :: "string option"
  gt_context :: "members option"

definition no_transcript :: granola_transcript where
  "no_transcript = \<lparr>gt_id = None, gt_created_at = None, gt_transcript = None, gt_context = None\<rparr>"

definition parse_transcript :: "(json \<Rightarrow> datetime option) \<Rightarrow> json \<Rightarrow> granola_transcript option" where
  "parse_transcript stamp = parse_loose (\<lambda>f. do {
     i \<leftarrow> defaulted ''id'' None (parse_opt parse_str) f;
     t \<leftarrow> defaulted ''created_at'' None (parse_opt stamp) f;
     s \<leftarrow> defaulted ''transcript'' None (parse_opt parse_str) f;
     c \<leftarrow> defaulted ''recording_context'' None (parse_opt parse_any_object) f;
     Some \<lparr>gt_id = i, gt_created_at = t, gt_transcript = s, gt_context = c\<rparr>}) (\<lambda>x. opt_all uuid_ok (gt_id x))"

text \<open>The transcript of another meeting is discarded.\<close>

definition own_transcript :: "string \<Rightarrow> granola_transcript \<Rightarrow> granola_transcript" where
  "own_transcript meeting_id t = (if opt_all (\<lambda>i. lower_text i = meeting_id) (gt_id t) then t else no_transcript)"

definition put_opt :: "string \<Rightarrow> json option \<Rightarrow> members \<Rightarrow> members" where
  "put_opt k v payload = (case v of None \<Rightarrow> payload | Some j \<Rightarrow> AList.update k j payload)"

definition add_transcript :: "granola_transcript \<Rightarrow> members \<Rightarrow> members" where
  "add_transcript t payload = put_opt ''recording_context'' (map_option JObj (gt_context t))
     (put_opt ''created_at'' (map_option (\<lambda>x. JStr (isoformat x)) (gt_created_at t))
     (put_opt ''transcript'' (map_option JStr (or_none (gt_transcript t))) payload))"

definition denied_codes :: "string list" where
  "denied_codes = [''tool_access_denied'', ''tool_auth_required'']"

definition error_code_for :: "string \<Rightarrow> string" where
  "error_code_for code = (if code \<in> set denied_codes then ''UNAUTHORIZED'' else ''NOT_FOUND'')"

definition error_payload :: "string \<Rightarrow> string \<Rightarrow> members" where
  "error_payload meeting_id code = [(''id'', JStr meeting_id), (''error_code'', JStr code)]"

text \<open>The payload of one listed meeting; \<open>Inl\<close> is a failure that may be retried.\<close>

definition transcript_payload :: "(json \<Rightarrow> datetime option) \<Rightarrow> granola_transport \<Rightarrow> string \<Rightarrow> members
   \<Rightarrow> (granola_world, string + members) op" where
  "transcript_payload stamp net meeting_id payload = catch
     (bnd (query net (AskTranscript meeting_id)) (\<lambda>raw.
        case parse_transcript stamp (JObj (object_members raw)) of
          None \<Rightarrow> ret (Inr payload)
        | Some t \<Rightarrow> ret (Inr (add_transcript (own_transcript meeting_id t) payload))))
     (\<lambda>e. case e of
        GranolaRelayError code retryable \<Rightarrow>
          if retryable then ret (Inl code)
          else if code \<in> set denied_codes then ret (Inr (error_payload meeting_id ''UNAUTHORIZED''))
          else ret (Inr payload)
      | _ \<Rightarrow> raise e)"

definition meeting_payload :: "(json \<Rightarrow> datetime option) \<Rightarrow> granola_transport \<Rightarrow> string option \<Rightarrow> (string \<times> json) list
   \<Rightarrow> string \<Rightarrow> (granola_world, string + members) op" where
  "meeting_payload stamp net code details meeting_id = (case code of
     Some c \<Rightarrow> ret (Inr (error_payload meeting_id (error_code_for c)))
   | None \<Rightarrow> (case map_of details meeting_id of
        None \<Rightarrow> ret (Inr (error_payload meeting_id ''NOT_FOUND''))
      | Some row \<Rightarrow> transcript_payload stamp net meeting_id (pick (object_members row))))"

subsection \<open>Outcomes\<close>

datatype granola_outcome =
    MeetingFailed string
  | MeetingRejected string
  | MeetingRecorded string import_result

definition classify_meeting :: "import_result \<Rightarrow> string" where
  "classify_meeting r =
     (if ir_availability r = AccessLost then ''inaccessible''
      else if ir_availability r \<in> {PendingUnknown, MetadataOnly} then ''pending_content''
      else if \<not> ir_created_revision r then ''already_known''
      else if ir_revision r > 1 then ''edited''
      else ''imported'')"

definition outcome_value :: "granola_outcome \<Rightarrow> string" where
  "outcome_value x = (case x of MeetingFailed c \<Rightarrow> ''failed_retryable'' | MeetingRejected c \<Rightarrow> ''rejected''
     | MeetingRecorded v r \<Rightarrow> v)"

record granola_summary =
  gy_import_id :: "string option"
  gy_unrequested :: int
  gy_counts :: "(string \<times> nat) list"
  gy_results :: "(string \<times> granola_outcome) list"

definition count_value :: "string \<Rightarrow> (string \<times> nat) list \<Rightarrow> (string \<times> nat) list" where
  "count_value v counts = AList.update v (case map_of counts v of None \<Rightarrow> 1 | Some n \<Rightarrow> Suc n) counts"

definition granola_result :: "string list \<Rightarrow> (string \<times> granola_outcome) list \<Rightarrow> string option \<Rightarrow> int \<Rightarrow> granola_summary" where
  "granola_result ids outcomes import_id unrequested =
     (let rows = map (\<lambda>i. (i, case map_of outcomes i of Some x \<Rightarrow> x
            | None \<Rightarrow> MeetingFailed ''relay_no_tool_result'')) ids in
      \<lparr>gy_import_id = import_id, gy_unrequested = unrequested,
        gy_counts = fold (\<lambda>row. count_value (outcome_value (snd row))) rows [], gy_results = rows\<rparr>)"

subsection \<open>The job\<close>

text \<open>The failures of the connection end the job.\<close>

definition connect_for_job :: "granola_transport \<Rightarrow> (granola_world, unit) op" where
  "connect_for_job net = catch (assert_connected net) (\<lambda>e. case e of
     GranolaRelayError code retryable \<Rightarrow> raise (ManagedJobError code)
   | GranolaRetrievalError status code \<Rightarrow> raise (ManagedJobError code)
   | _ \<Rightarrow> raise e)"

text \<open>
  The reply to the batch: the selected rows, the number of the others, and the exception that ended
  it.  The rows the reply itself rejected are counted before its shape is known.
\<close>

definition fetch_meetings :: "granola_transport \<Rightarrow> string list
   \<Rightarrow> (granola_world, (string \<times> json) list \<times> int \<times> exn option) op" where
  "fetch_meetings net ids = catch
     (bnd (query net (AskMeetings ids)) (\<lambda>raw. case meeting_rows raw of
        Inl e \<Rightarrow> ret ([], rejected_rows raw, Some e)
      | Inr rows \<Rightarrow> (let (details, n) = requested_rows ids rows [] 0 in ret (details, rejected_rows raw + int n, None))))
     (\<lambda>e. case e of
        GranolaRelayError code retryable \<Rightarrow> ret ([], 0, Some e)
      | GranolaRetrievalError status code \<Rightarrow> ret ([], 0, Some e)
      | _ \<Rightarrow> raise e)"

type_synonym collected = "(string \<times> meeting) list \<times> (string \<times> granola_outcome) list"

definition collect_meeting :: "(json \<Rightarrow> datetime option) \<Rightarrow> granola_transport \<Rightarrow> string option \<Rightarrow> (string \<times> json) list
   \<Rightarrow> string \<Rightarrow> collected \<Rightarrow> (granola_world, collected) op" where
  "collect_meeting stamp net code details meeting_id acc = (let (ms, outcomes) = acc in
     bnd (meeting_payload stamp net code details meeting_id) (\<lambda>p. case p of
       Inl c \<Rightarrow> ret (ms, AList.update meeting_id (MeetingFailed c) outcomes)
     | Inr payload \<Rightarrow> (case normalize_granola stamp granola_connection (JObj payload) of
          Inr m \<Rightarrow> ret (ms @ [(meeting_id, m)], outcomes)
        | Inl (GranolaImportError status c) \<Rightarrow> ret (ms, AList.update meeting_id (MeetingRejected c) outcomes)
        | Inl e \<Rightarrow> raise e)))"

definition record_meetings :: "(string \<times> meeting) list \<Rightarrow> (granola_world, string \<times> import_result list) op" where
  "record_meetings ms = catch
     (with_ledger (import_meetings (map (\<lambda>(i, m). MeetingSource m) ms) None UserTriggeredRetrieval))
     (\<lambda>e. case e of EvidenceLedgerError status code \<Rightarrow> raise (ManagedJobError code) | _ \<Rightarrow> raise e)"

definition recorded_outcomes :: "(string \<times> meeting) list \<Rightarrow> import_result list \<Rightarrow> (string \<times> granola_outcome) list
   \<Rightarrow> (string \<times> granola_outcome) list" where
  "recorded_outcomes ms results outcomes = fold (\<lambda>(i, r). AList.update i (MeetingRecorded (classify_meeting r) r))
     (zip (map fst ms) results) outcomes"

text \<open>\<^verbatim>\<open>_run\<close>\<close>

definition run_granola :: "(json \<Rightarrow> datetime option) \<Rightarrow> granola_transport \<Rightarrow> string list
   \<Rightarrow> (granola_world, granola_summary) op" where
  "run_granola stamp net ids = bnd (connect_for_job net) (\<lambda>_.
     bnd (fetch_meetings net ids) (\<lambda>(details, unrequested, failure). case failure of
       Some (GranolaRelayError code True) \<Rightarrow>
         ret (granola_result ids (map (\<lambda>i. (i, MeetingFailed code)) ids) None unrequested)
     | _ \<Rightarrow>
       bnd (fold_op (collect_meeting stamp net (map_option exn_code failure) details) ids ([], [])) (\<lambda>(ms, outcomes).
       if ms = [] then ret (granola_result ids outcomes None unrequested)
       else bnd (record_meetings ms) (\<lambda>(tok, results).
         ret (granola_result ids (recorded_outcomes ms results outcomes) (Some tok) unrequested)))))"

end
