(* ===== verification/Granola_Claims.thy ===== *)
theory Granola_Claims
  imports Granola_Relay Granola_Retrieval Gmail_Claims
begin

section \<open>What Granola retrieval promises\<close>

text \<open>
  The reader of XML results accepts bounded trees and lets only allow-listed names through; the relay
  hands on one result of one expected call; the retrieval writes no record but those of the meetings
  the user selected.
\<close>

subsection \<open>Bounded and allow-listed XML\<close>

fun height :: "element \<Rightarrow> nat" where
  "height (Element t a x cs tail) = Suc (fold max (map height cs) 0)"

lemma fold_max_le: "fold max xs (m :: nat) \<le> n \<longleftrightarrow> m \<le> n \<and> (\<forall>x \<in> set xs. x \<le> n)"
  by (induction xs arbitrary: m) auto

lemma height_children: "height e \<le> Suc n \<longleftrightarrow> (\<forall>c \<in> set (children_of e). height c \<le> n)"
  by (cases e) (simp add: fold_max_le)

lemma height_pos: "0 < height e"
  by (cases e) simp

text \<open>The loop over the stack accepts exactly the trees within the bounds.\<close>

lemma check_bounds_iff:
  assumes "n \<le> max_xml_elements"
  shows "check_bounds n stack = Inr () \<longleftrightarrow> n + sum_list (map (elements \<circ> fst) stack) \<le> max_xml_elements
    \<and> (\<forall>(e, d) \<in> set stack. d + height e \<le> Suc max_xml_depth)"
  using assms
proof (induction n stack rule: check_bounds.induct)
  case (1 n)
  then show ?case by simp
next
  case (2 n e d stack)
  have sum: "(\<Sum>a\<leftarrow>rev (map (\<lambda>c. (c, Suc d)) cs). elements (fst a)) = sum_list (map elements cs)" for cs
    by (simp add: rev_map [symmetric] sum_list_rev comp_def)
  have deep: "(\<forall>(c, k) \<in> set (rev (map (\<lambda>c. (c, Suc d)) (children_of e))). k + height c \<le> Suc max_xml_depth)
      \<longleftrightarrow> d + height e \<le> Suc max_xml_depth" if "d \<le> max_xml_depth"
    using that height_children [of e "max_xml_depth - d"] by (auto simp: le_diff_conv2)
  show ?case
  proof (cases "n + 1 > max_xml_elements \<or> d > max_xml_depth")
    case True
    then show ?thesis using height_pos [of e] by (auto simp: elements_children)
  next
    case False
    then have "check_bounds n ((e, d) # stack) = Inr () \<longleftrightarrow>
        check_bounds (n + 1) (rev (map (\<lambda>c. (c, d + 1)) (children_of e)) @ stack) = Inr ()" by simp
    also have "\<dots> \<longleftrightarrow> n + 1 + (sum_list (map elements (children_of e)) + sum_list (map (elements \<circ> fst) stack)) \<le> max_xml_elements
        \<and> (\<forall>(c, k) \<in> set (rev (map (\<lambda>c. (c, d + 1)) (children_of e)) @ stack). k + height c \<le> Suc max_xml_depth)"
      using 2 False sum by (simp add: comp_def)
    finally show ?thesis using deep False elements_children [of e] by (simp add: ball_Un comp_def)
  qed
qed

text \<open>Objects without repeated keys, with allow-listed keys at every depth.\<close>

fun clean :: "string list \<Rightarrow> json \<Rightarrow> bool" where
  "clean names (JObj kvs) \<longleftrightarrow> distinct (map fst kvs) \<and> list_all (\<lambda>kv. fst kv \<in> set names \<and> clean names (snd kv)) kvs"
| "clean names (JList xs) \<longleftrightarrow> list_all (clean names) xs"
| "clean names j \<longleftrightarrow> True"

definition record_names :: "string list" where
  "record_names = field_names @ wrapper_fields @ [''known_participants'']"

definition xml_names :: "string list" where
  "xml_names = record_names @ [''meetings'', ''rejected_rows'', ''ignored_nodes'']"

lemma clean_mono: "set names \<subseteq> set names' \<Longrightarrow> clean names j \<Longrightarrow> clean names' j"
  by (induction names j rule: clean.induct) (auto simp: list_all_iff)

lemma set_field_clean:
  assumes "set_field k v out = Inr out'" and "clean names (JObj out)" and "k \<in> set names" and "clean names v"
  shows "clean names (JObj out')"
  using assms by (auto simp: set_field_def map_of_eq_None_iff split: if_splits)

lemma scalar_clean: "scalar s = Inr v \<Longrightarrow> clean names v"
  by (auto simp: scalar_def split: if_splits)

lemma people_clean: "''name'' \<in> set names \<Longrightarrow> list_all (clean names) (people_text s)"
  by (auto simp: people_text_def list_all_iff)

lemma attribs_clean:
  "xml_attribs ks as (out, n) = Inr (out', n') \<Longrightarrow> clean names (JObj out) \<Longrightarrow> set ks \<subseteq> set names
   \<Longrightarrow> clean names (JObj out')"
proof (induction ks as "(out, n)" arbitrary: out n rule: xml_attribs.induct)
  case (2 ks name v rest out n)
  show ?case
  proof (cases "local_name name \<in> set ks")
    case True
    with "2.prems"(1) obtain x out1 where *: "scalar v = Inr x" "set_field (local_name name) x out = Inr out1"
      "xml_attribs ks rest (out1, n) = Inr (out', n')" by (auto simp: and_then_Inr_iff)
    have "clean names (JObj out1)"
      using *(2) "2.prems"(2) by (rule set_field_clean) (use True * "2.prems"(3) scalar_clean in auto)
    with "2.hyps"(1) True * "2.prems"(3) show ?thesis by blast
  next
    case False
    with "2.prems" "2.hyps"(2) show ?thesis by simp
  qed
qed simp

lemma record_clean:
  "xml_record e n = Inr (out', n') \<Longrightarrow> clean record_names (JObj out')"
  "xml_children cs (out, m) = Inr (out', n') \<Longrightarrow> clean record_names (JObj out) \<Longrightarrow> clean record_names (JObj out')"
  "xml_participants e' p = Inr (rows', n') \<Longrightarrow> list_all (clean record_names) rows'"
  "xml_people ps (rows, q) = Inr (rows', n') \<Longrightarrow> list_all (clean record_names) rows \<Longrightarrow> list_all (clean record_names) rows'"
proof (induction e n and cs "(out, m)" and e' p and ps "(rows, q)" arbitrary: out' n' and out m out' n' and rows' n' and rows q rows' n'
    rule: xml_record_xml_children_xml_participants_xml_people.induct)
  case (1 t attrs x cs tail n)
  from "1.prems" obtain out m where a: "xml_attribs (field_names @ wrapper_fields) attrs ([], n) = Inr (out, m)"
    and c: "\<not> (cs \<noteq> [] \<and> has_text (Element t attrs x cs tail))" "xml_children cs (out, m) = Inr (out', n')"
    by (auto simp: and_then_Inr_iff split: if_splits)
  have "clean record_names (JObj out)"
    using a by (rule attribs_clean) (auto simp: record_names_def)
  with "1.hyps" a c show ?case by blast
next
  case (2 out n)
  then show ?case by simp
next
  case (3 c cs out n)
  let ?k = "local_name (tag_of c)"
  have known: "''known_participants'' \<in> set record_names" and names: "set field_names \<subseteq> set record_names"
    by (auto simp: record_names_def)
  consider (people) "?k = ''known_participants''" | (nested) "?k \<noteq> ''known_participants''" "?k \<in> set field_names" "children_of c \<noteq> []"
    | (leaf) "?k \<noteq> ''known_participants''" "?k \<in> set field_names" "children_of c = []"
    | (other) "?k \<noteq> ''known_participants''" "?k \<notin> set field_names" by blast
  then show ?case
  proof cases
    case people
    with "3.prems"(1) obtain rows p out1 where *: "xml_participants c n = Inr (rows, p)" "set_field ?k (JList rows) out = Inr out1"
      "xml_children cs (out1, p) = Inr (out', n')" by (auto simp: Let_def and_then_Inr_iff)
    have "clean record_names (JObj out1)"
      using *(2) "3.prems"(2) by (rule set_field_clean) (use people known "3.hyps"(1) * in auto)
    with "3.hyps"(2) people * show ?thesis by blast
  next
    case nested
    with "3.prems"(1) obtain r p out1 where *: "xml_record c n = Inr (r, p)" "set_field ?k (JObj r) out = Inr out1"
      "xml_children cs (out1, p) = Inr (out', n')" by (auto simp: Let_def and_then_Inr_iff)
    have "clean record_names (JObj out1)"
      using *(2) "3.prems"(2) by (rule set_field_clean) (use nested names "3.hyps"(3) * in auto)
    with "3.hyps"(4) nested * show ?thesis by blast
  next
    case leaf
    with "3.prems"(1) obtain v out1 where *: "scalar (stripped (elem_text c)) = Inr v" "set_field ?k v out = Inr out1"
      "xml_children cs (out1, n) = Inr (out', n')" by (auto simp: Let_def and_then_Inr_iff)
    have "clean record_names (JObj out1)"
      using *(2) "3.prems"(2) by (rule set_field_clean) (use leaf names scalar_clean * in auto)
    with "3.hyps"(5) leaf * show ?thesis by blast
  next
    case other
    with "3.prems" "3.hyps"(6) show ?thesis by (simp add: Let_def)
  qed
next
  case (4 t attrs x cs tail n)
  have "''name'' \<in> set record_names" by (simp add: record_names_def field_names_def)
  with 4 show ?case by (auto simp: and_then_Inr_iff people_clean split: if_splits)
next
  case (5 acc)
  then show ?case by simp
next
  case (6 c cs rows n)
  show ?case
  proof (cases "local_name (tag_of c) = ''participant''")
    case True
    with "6.prems"(1) obtain r p where *: "xml_record c n = Inr (r, p)" "xml_people cs (rows @ [JObj r], p) = Inr (rows', n')"
      by (auto simp: and_then_Inr_iff)
    have "list_all (clean record_names) (rows @ [JObj r])" using "6.hyps"(1) True * "6.prems"(2) by auto
    with "6.hyps"(2) True * show ?thesis by blast
  next
    case False
    with "6.prems" "6.hyps"(3) show ?thesis by simp
  qed
qed

definition good_row :: "json \<Rightarrow> bool" where
  "good_row row \<longleftrightarrow> clean record_names row \<and> (\<exists>kvs i. row = JObj kvs \<and> map_of kvs ''id'' = Some (JStr i) \<and> uuid_ok i)"

lemma records_clean:
  assumes "xml_records cs (rows, rej, n) = Inr (rows', rej', n')" and "\<forall>row \<in> set rows. good_row row"
  shows "length rows' \<le> length rows + length cs \<and> (\<forall>row \<in> set rows'. good_row row)"
  using assms
proof (induction cs arbitrary: rows rej n)
  case (Cons c cs)
  from Cons.prems(1) obtain r p where r: "xml_record c n = Inr (r, p)" by (auto simp: and_then_Inr_iff)
  have ok: "clean record_names (JObj r)" using record_clean(1) [OF r] .
  show ?case
  proof (cases "\<exists>i. map_of r ''id'' = Some (JStr i) \<and> uuid_ok i")
    case True
    then obtain i where "map_of r ''id'' = Some (JStr i)" "uuid_ok i" by blast
    with Cons.prems(1) r have next_row: "xml_records cs (rows @ [JObj r], rej, p) = Inr (rows', rej', n')"
      by (simp only: xml_records.simps and_then_simps prod.case option.case json.case if_True)
    have "good_row (JObj r)" unfolding good_row_def using ok True by blast
    then have "\<forall>row \<in> set (rows @ [JObj r]). good_row row" using Cons.prems(2) by (auto simp only: set_append list.set)
    from Cons.IH [OF next_row this] show ?thesis by (simp only: length_append list.size add.assoc) simp
  next
    case False
    with Cons.prems(1) r have "xml_records cs (rows, Suc rej, p) = Inr (rows', rej', n')"
      by (auto simp only: xml_records.simps and_then_simps prod.case option.case json.case if_False split: option.splits json.splits if_splits)
    from Cons.IH [OF this Cons.prems(2)] show ?thesis by (simp only: list.size le_SucI add_Suc_right) simp
  qed
qed simp

lemma clean_append:
  "clean names (JObj (out @ kvs)) \<longleftrightarrow> clean names (JObj out) \<and> clean names (JObj kvs) \<and> fst ` set out \<inter> fst ` set kvs = {}"
  by (auto simp: list_all_iff)

text \<open>The keys of a record are none of the keys added around it.\<close>

lemma record_apart: "clean record_names (JObj out) \<Longrightarrow> fst ` set out \<inter> {''meetings'', ''rejected_rows'', ''ignored_nodes''} = {}"
  by (auto simp: list_all_iff record_names_def field_names_def wrapper_fields_def)

lemma record_xml: "clean record_names j \<Longrightarrow> clean xml_names j"
  by (rule clean_mono) (auto simp: xml_names_def)

lemma listing_clean:
  assumes "xml_listing root = Inr out"
  shows "clean xml_names (JObj out) \<and> (\<forall>rows. map_of out ''meetings'' = Some (JList rows) \<longrightarrow> length rows \<le> max_xml_records
    \<and> (\<forall>row \<in> set rows. \<exists>kvs i. row = JObj kvs \<and> map_of kvs ''id'' = Some (JStr i) \<and> uuid_ok i))"
proof -
  let ?records = "filter is_record (children_of root)"
  from assms obtain o1 n rows rej n' where few: "length ?records \<le> max_xml_records"
    and a: "xml_attribs wrapper_fields (attrib_of root) ([], 0) = Inr (o1, n)"
    and r: "xml_records ?records ([], 0, n) = Inr (rows, rej, n')"
    and out: "out = o1 @ [(''meetings'', JList rows), (''rejected_rows'', JInt (int rej)),
       (''ignored_nodes'', JInt (int (n' + (length (children_of root) - length ?records))))]"
    by (auto simp: xml_listing_def Let_def and_then_Inr_iff split: if_splits)
  have o1: "clean record_names (JObj o1)" using a by (rule attribs_clean) (auto simp: record_names_def)
  from records_clean [OF r] have rows: "length rows \<le> length ?records" "\<forall>row \<in> set rows. clean record_names row"
    "\<forall>row \<in> set rows. \<exists>kvs i. row = JObj kvs \<and> map_of kvs ''id'' = Some (JStr i) \<and> uuid_ok i" by (auto simp: good_row_def)
  have "map_of o1 ''meetings'' = None" using record_apart [OF o1] by (auto simp: map_of_eq_None_iff)
  then have m: "map_of out ''meetings'' = Some (JList rows)" by (simp add: out map_add_def)
  have "list_all (clean xml_names) rows" using rows(2) record_xml by (auto simp: list_all_iff)
  then have "clean xml_names (JObj out)"
    unfolding out clean_append using record_xml [OF o1] record_apart [OF o1] by (simp add: xml_names_def)
  with rows few m show ?thesis by auto
qed

text \<open>C16: what the reader of XML results accepts is bounded and allow-listed.  A text it returns a value for holds no
  declaration, parses to a tree of at most 20000 elements and depth 6, and yields an object in which
  every key at every depth is on the allow list and none is defined twice; a listing has at most 1000
  meetings, each with a UUID.\<close>

theorem tool_xml_bounded:
  assumes "parse_tool_xml from_string s = Inr out"
  shows "\<not> has_declaration s \<and> (\<exists>root. from_string s = Some root \<and> elements root \<le> 20000 \<and> height root \<le> 6)
    \<and> clean xml_names (JObj out)
    \<and> (\<forall>rows. map_of out ''meetings'' = Some (JList rows) \<longrightarrow> length rows \<le> 1000
        \<and> (\<forall>row \<in> set rows. \<exists>kvs i. row = JObj kvs \<and> map_of kvs ''id'' = Some (JStr i) \<and> uuid_ok i))"
proof -
  from assms obtain root where root: "\<not> has_declaration s" "from_string s = Some root" "check_bounds 0 [(root, 1)] = Inr ()"
    by (auto simp: parse_tool_xml_def and_then_Inr_iff split: if_splits option.splits)
  then have "elements root \<le> 20000 \<and> height root \<le> 6"
    using check_bounds_iff [of 0 "[(root, 1)]"] by (simp add: max_xml_elements_def max_xml_depth_def)
  moreover have "clean xml_names (JObj out) \<and> (\<forall>rows. map_of out ''meetings'' = Some (JList rows) \<longrightarrow> length rows \<le> 1000
        \<and> (\<forall>row \<in> set rows. \<exists>kvs i. row = JObj kvs \<and> map_of kvs ''id'' = Some (JStr i) \<and> uuid_ok i))"
  proof (cases "filter is_record (children_of root) = []")
    case True
    with assms root obtain o1 n where o1: "xml_record root 0 = Inr (o1, n)" "out = o1 @ [(''ignored_nodes'', JInt (int n))]"
      by (auto simp: parse_tool_xml_def and_then_Inr_iff)
    note c = record_clean(1) [OF o1(1)]
    have "clean xml_names (JObj out)"
      unfolding o1(2) clean_append using record_xml [OF c] record_apart [OF c] by (simp add: xml_names_def)
    moreover have "map_of out ''meetings'' = None" using record_apart [OF c] by (auto simp: o1(2) map_of_eq_None_iff)
    ultimately show ?thesis by simp
  next
    case False
    with assms root have "xml_listing root = Inr out" by (auto simp: parse_tool_xml_def and_then_Inr_iff)
    from listing_clean [OF this] show ?thesis by (simp add: max_xml_records_def)
  qed
  ultimately show ?thesis using root by blast
qed

definition demo_uuid :: string where
  "demo_uuid = ''aaaaaaaa-bbbb-cccc-dddd-000000000001''"

text \<open>A listing of two meetings, one of them without an ID.\<close>

definition demo_xml :: element where
  "demo_xml = Element ''{urn:x}meetings'' [(''count'', ''2''), (''cursor'', ''c'')] None
     [Element ''meeting'' [(''id'', demo_uuid)] None
        [Element ''title'' [] (Some '' Kickoff '') [] None, Element ''known_participants'' [] (Some ''Ann; Bob'') [] None] None,
      Element ''meeting'' [] None [Element ''title'' [] (Some ''2024'') [] None] None] None"

lemma demo_xml_names:
  "local_name ''{urn:x}meetings'' = ''meetings''" "local_name ''count'' = ''count''" "local_name ''cursor'' = ''cursor''"
  "local_name ''meeting'' = ''meeting''" "local_name ''id'' = ''id''" "local_name ''title'' = ''title''"
  "local_name ''known_participants'' = ''known_participants''"
  by code_simp+

lemma demo_xml_values:
  "stripped (Some '' Kickoff '') = ''Kickoff''" "stripped (Some ''2024'') = ''2024''" "stripped None = ''''"
  "people_text (stripped (Some ''Ann; Bob'')) = [JObj [(''name'', JStr ''Ann'')], JObj [(''name'', JStr ''Bob'')]]"
  by code_simp+

lemma demo_uuid_ok: "uuid_ok demo_uuid"
  by (simp add: uuid_ok_def demo_uuid_def is_hex_def is_digit_def lower_char_def is_upper_def)

lemma demo_scalars:
  "scalar demo_uuid = Inr (JStr demo_uuid)" "scalar ''2'' = Inr (JInt 2)" "scalar ''2024'' = Inr (JInt 2024)"
  "scalar ''Kickoff'' = Inr (JStr ''Kickoff'')"
  by (simp_all add: scalar_def demo_uuid_def is_digit_def digits_value_def)

lemma demo_xml_read:
  "\<not> has_declaration ''<x/>''" "check_bounds 0 [(demo_xml, 1)] = Inr ()" "filter is_record (children_of demo_xml) \<noteq> []"
  "xml_listing demo_xml = Inr [(''count'', JInt 2),
     (''meetings'', JList [JObj [(''id'', JStr demo_uuid), (''title'', JStr ''Kickoff''),
        (''known_participants'', JList [JObj [(''name'', JStr ''Ann'')], JObj [(''name'', JStr ''Bob'')]])]]),
     (''rejected_rows'', JInt 1), (''ignored_nodes'', JInt 1)]"
proof -
  show "\<not> has_declaration ''<x/>''" by code_simp
  show "check_bounds 0 [(demo_xml, 1)] = Inr ()"
    by (subst check_bounds_iff) (simp_all add: demo_xml_def max_xml_elements_def max_xml_depth_def)
  show "filter is_record (children_of demo_xml) \<noteq> []"
    by (simp add: demo_xml_def is_record_def demo_xml_names)
  show "xml_listing demo_xml = Inr [(''count'', JInt 2),
     (''meetings'', JList [JObj [(''id'', JStr demo_uuid), (''title'', JStr ''Kickoff''),
        (''known_participants'', JList [JObj [(''name'', JStr ''Ann'')], JObj [(''name'', JStr ''Bob'')]])]]),
     (''rejected_rows'', JInt 1), (''ignored_nodes'', JInt 1)]"
    by (simp add: xml_listing_def demo_xml_def is_record_def demo_xml_names demo_xml_values demo_uuid_ok demo_scalars wrapper_fields_def
        field_names_def set_field_def has_text_def max_xml_records_def max_xml_participants_def)
qed

theorem tool_xml_bounded_witness:
  "parse_tool_xml (\<lambda>_. Some demo_xml) ''<x/>'' = Inr [(''count'', JInt 2),
     (''meetings'', JList [JObj [(''id'', JStr demo_uuid), (''title'', JStr ''Kickoff''),
        (''known_participants'', JList [JObj [(''name'', JStr ''Ann'')], JObj [(''name'', JStr ''Bob'')]])]]),
     (''rejected_rows'', JInt 1), (''ignored_nodes'', JInt 1)]
   \<and> elements demo_xml \<le> 20000 \<and> height demo_xml \<le> 6"
proof -
  have run: "parse_tool_xml (\<lambda>_. Some demo_xml) ''<x/>'' = Inr [(''count'', JInt 2),
     (''meetings'', JList [JObj [(''id'', JStr demo_uuid), (''title'', JStr ''Kickoff''),
        (''known_participants'', JList [JObj [(''name'', JStr ''Ann'')], JObj [(''name'', JStr ''Bob'')]])]]),
     (''rejected_rows'', JInt 1), (''ignored_nodes'', JInt 1)]"
    using demo_xml_read by (simp add: parse_tool_xml_def)
  from tool_xml_bounded [OF run] run show ?thesis by simp
qed


subsection \<open>One call, one result\<close>

text \<open>The calls and the results in a stream, in order.\<close>

definition use_blocks :: "runtime \<Rightarrow> members list \<Rightarrow> uses" where
  "use_blocks rt bs = concat (map (\<lambda>b. case text_member ''id'' b of
     Some i \<Rightarrow> if map_of b ''type'' = Some (JStr ''tool_use'')
       then [(i, str_member rt ''name'' b, member_or_null ''input'' b)] else []
   | None \<Rightarrow> []) bs)"

definition result_blocks :: "members list \<Rightarrow> tool_result list" where
  "result_blocks bs = concat (map (\<lambda>b. case text_member ''tool_use_id'' b of
     Some u \<Rightarrow> if map_of b ''type'' = Some (JStr ''tool_result'')
       then [\<lparr>tr_use_id = u, tr_content = member_or_null ''content'' b,
         tr_is_error = json_truthy (member_or_null ''is_error'' b)\<rparr>] else []
   | None \<Rightarrow> []) bs)"

lemma note_block_eq:
  "note_block rt b (us, rs) = (fold (\<lambda>(i, v). AList.update i v) (use_blocks rt [b]) us, rs @ result_blocks [b])"
proof (cases "\<exists>kind. map_of b ''type'' = Some (JStr kind)")
  case True
  then obtain kind where "map_of b ''type'' = Some (JStr kind)" ..
  then show ?thesis
    by (cases "text_member ''id'' b"; cases "text_member ''tool_use_id'' b")
       (simp_all add: note_block_def use_blocks_def result_blocks_def Let_def)
next
  case False
  then have "note_block rt b (us, rs) = (us, rs)" by (auto simp: note_block_def Let_def split: option.split json.split)
  moreover have "map_of b ''type'' \<noteq> Some (JStr t)" for t using False by blast
  then have "use_blocks rt [b] = []" "result_blocks [b] = []"
    by (simp_all add: use_blocks_def result_blocks_def split: option.split)
  ultimately show ?thesis by simp
qed

lemma blocks_Cons: "use_blocks rt (b # bs) = use_blocks rt [b] @ use_blocks rt bs"
  "result_blocks (b # bs) = result_blocks [b] @ result_blocks bs"
  by (simp_all add: use_blocks_def result_blocks_def)

lemma fold_note_block:
  "fold (note_block rt) bs (us, rs) = (fold (\<lambda>(i, v). AList.update i v) (use_blocks rt bs) us, rs @ result_blocks bs)"
proof (induction bs arbitrary: us rs)
  case Nil
  then show ?case by (simp add: use_blocks_def result_blocks_def)
next
  case (Cons b bs)
  then show ?case by (simp only: fold_Cons o_apply note_block_eq blocks_Cons(1) [of rt b bs] blocks_Cons(2) [of b bs] fold_append append_assoc)
qed

lemma keys_fold_update: "set (map fst (fold (\<lambda>(i, v). AList.update i v) xs us)) = set (map fst xs) \<union> set (map fst us)"
  by (induction xs arbitrary: us) (auto simp: dom_update split: prod.splits)

lemma last_of_fold_update:
  "xs \<noteq> [] \<Longrightarrow> map_of (fold (\<lambda>(i, v). AList.update i v) xs us) (fst (last xs)) = Some (snd (last xs))"
  by (induction xs rule: rev_induct) (auto split: prod.splits)


text \<open>A stream of two lines: a call of \<^verbatim>\<open>get_meetings\<close> and its answer.\<close>

definition demo_input :: members where
  "demo_input = [(''meeting_ids'', JList [JStr demo_uuid])]"

definition demo_loads :: "string \<Rightarrow> json option" where
  "demo_loads l = (if l = ''use'' then Some (JObj [(''message'', JObj [(''content'', JList [JObj [(''type'', JStr ''tool_use''),
       (''id'', JStr ''t1''), (''name'', JStr ''mcp__granola__get_meetings''), (''input'', JObj demo_input)]])])])
     else if l = ''result'' then Some (JObj [(''message'', JObj [(''content'', JList [JObj [(''type'', JStr ''tool_result''),
       (''tool_use_id'', JStr ''t1''), (''content'', JStr ''[]'')]])])])
     else if l = ''[]'' then Some (JList []) else None)"

definition demo_runtime :: runtime where
  "demo_runtime = \<lparr>rt_loads = demo_loads, rt_repr = (\<lambda>_. ''''), rt_xml = (\<lambda>_. None)\<rparr>"

definition demo_stream :: string where
  "demo_stream = ''use'' @ line_feed # ''result''"

definition demo_block_list :: "members list" where
  "demo_block_list = [[(''type'', JStr ''tool_use''), (''id'', JStr ''t1''), (''name'', JStr ''mcp__granola__get_meetings''),
       (''input'', JObj demo_input)],
     [(''type'', JStr ''tool_result''), (''tool_use_id'', JStr ''t1''), (''content'', JStr ''[]'')]]"

lemma demo_blocks: "stream_blocks demo_runtime demo_stream = demo_block_list"
  by code_simp

lemma demo_parsed: "parse_tool_json demo_runtime (JStr ''[]'') = Inr (JList [])"
  by code_simp


end
