(* ===== verification/Retrieval_Claims.thy ===== *)
theory Retrieval_Claims
  imports Granola_Claims
begin

section \<open>What a retrieval records\<close>

text \<open>
  A retrieval imports what the user selected and nothing else, whatever the provider returns.  The
  identity of a normalized meeting follows the ID of its payload, that ID follows the selection, and
  the ledger writes only the records of the identities it is given.
\<close>

subsection \<open>The records a retrieval may write\<close>

text \<open>Every record that differs afterwards is intact and belongs to one of the meetings; the deletion barrier stays.\<close>

definition selected_only :: "string list \<Rightarrow> ledger \<Rightarrow> ledger \<Rightarrow> bool" where
  "selected_only ids l l' \<longleftrightarrow> lg_forgotten l' = lg_forgotten l
     \<and> (\<forall>sid. map_of (lg_sources l') sid \<noteq> map_of (lg_sources l) sid \<longrightarrow>
         (\<exists>i \<in> set ids. \<exists>s. map_of (lg_sources l') sid = Some (Intact s) \<and> src_id s = sid
            \<and> src_identity s = granola_identity granola_connection i))"

interpretation selected: state_relation "selected_only ids" for ids
proof
  fix s t u :: ledger
  show "selected_only ids s s" by (simp add: selected_only_def)
  show "selected_only ids s t \<Longrightarrow> selected_only ids t u \<Longrightarrow> selected_only ids s u"
    unfolding selected_only_def by (metis (no_types, lifting))
qed

lemma selected_same:
  "lg_sources l' = lg_sources l \<Longrightarrow> lg_forgotten l' = lg_forgotten l \<Longrightarrow> selected_only ids l l'"
  by (simp add: selected_only_def)

lemma selected_pure: "obeys (=) m \<Longrightarrow> obeys (selected_only ids) m"
  by (rule obeysI) (metis obeysD selected_same)

lemma selected_keeps:
  "(\<And>l r l'. m l = (r, l') \<Longrightarrow> lg_sources l' = lg_sources l \<and> lg_forgotten l' = lg_forgotten l) \<Longrightarrow> obeys (selected_only ids) m"
  by (rule obeysI) (metis selected_same)

lemma selected_write:
  assumes "src_identity s = granola_identity granola_connection i" and "i \<in> set ids"
  shows "obeys (selected_only ids) (write_source s)"
  using assms by (auto simp: obeys_def write_source_def modify_st_def raise_def selected_only_def split: if_splits)

lemma selected_store:
  assumes "src_identity s = granola_identity granola_connection i" and "i \<in> set ids"
  shows "obeys (selected_only ids) (store_revision sid m s rv outcome)"
  unfolding store_revision_def
  by (intro selected.obeys_bnd selected.obeys_basic selected_write [OF assms] selected_keeps)
     (auto simp: store_content_def modify_st_def)

lemma revise_identity: "src_identity (derive_processing s now) = src_identity s" "src_identity (revise_source s m rv now) = src_identity s"
  by (simp_all add: derive_processing_def revise_source_def Let_def)

lemma selected_record:
  assumes "ns_identity m = granola_identity granola_connection i" and "i \<in> set ids"
  shows "obeys (selected_only ids) (record_meeting m tok trig)"
proof -
  have first: "obeys (selected_only ids) (record_first sid sc m tok trig now)" for sid sc now
    unfolding record_first_def Let_def
    by (rule selected_store [OF _ assms(2)]) (simp add: create_source_def revise_identity assms(1))
  have next': "obeys (selected_only ids) (record_next sid m tok trig now s)" for sid now s
    using assms unfolding record_next_def Let_def
    by (auto simp: revise_identity intro!: selected.obeys_if selected.obeys_basic selected_store)
  show ?thesis
    unfolding record_meeting_def Let_def
    by (intro selected.obeys_bnd selected.obeys_if selected.obeys_basic selected_pure [OF obeys_scope]
        selected_pure [OF obeys_is_forgotten] selected_keeps [of ledger_now])
       (auto simp: ledger_now_def split: option.split
         intro!: first selected.obeys_bnd next' selected_pure [OF obeys_read_source])
qed

lemma selected_import:
  assumes "\<forall>m \<in> set ms. \<exists>i \<in> set ids. ns_identity m = granola_identity granola_connection i"
  shows "obeys (selected_only ids) (import_meetings ms import_id trigger)"
proof -
  have "obeys (selected_only ids) (any_forgotten sc ms)" for sc
    unfolding any_forgotten_def
    by (intro selected_pure frame.obeys_fold_op frame.obeys_if obeys_is_forgotten frame.obeys_basic)
  moreover have "obeys (selected_only ids) ensure_scope_file"
    unfolding ensure_scope_file_def
    by (intro selected.obeys_bnd selected_pure [OF obeys_scope] selected.obeys_modify) (simp add: selected_only_def)
  moreover have "obeys (selected_only ids) new_token" by (rule selected_keeps) (auto simp: new_token_def)
  moreover have "obeys (selected_only ids) (record_meeting m tok trigger)" if "m \<in> set ms" for m tok
    using assms that selected_record by blast
  ultimately show ?thesis
    unfolding import_meetings_def
    by (intro selected.obeys_bnd selected.obeys_if selected.obeys_basic selected.obeys_map_op
        selected_pure [OF obeys_scope])
       (auto split: option.split intro: selected.obeys_basic)
qed

subsection \<open>The identity of a normalized meeting\<close>

lemma uuid_no_space: "uuid_ok s \<Longrightarrow> list_all (\<lambda>c. \<not> is_space c) s"
proof -
  assume ok: "uuid_ok s"
  have hex: "\<not> is_space c" if "is_hex (lower_char c)" for c
    using that by (auto simp: is_hex_def is_digit_def is_space_def lower_char_def is_upper_def split: if_splits)
  show ?thesis
    unfolding list_all_iff
  proof
    fix c assume "c \<in> set s"
    then obtain n where "n < length s" "s ! n = c" by (auto simp: in_set_conv_nth)
    then have "(n, c) \<in> set (enumerate 0 s)" by (auto simp: in_set_enumerate_eq)
    with ok hex show "\<not> is_space c" by (auto simp: uuid_ok_def list_all_iff is_space_def split: if_splits)
  qed
qed

lemma alnum_char: "is_digit c \<or> is_lower c \<or> is_upper c \<Longrightarrow> \<not> is_space c"
  by (auto simp: is_space_def is_digit_def is_lower_def is_upper_def)

lemma alnum_no_space:
  assumes "note_id_ok s"
  shows "list_all (\<lambda>c. \<not> is_space c) s"
proof -
  from assms obtain t where s: "s = ''not_'' @ t" and t: "\<forall>c \<in> set t. is_digit c \<or> is_lower c \<or> is_upper c"
    by (auto simp: note_id_ok_def alnum14_def startswith_iff list_all_iff)
  have "list_all (\<lambda>c. \<not> is_space c) t" using t alnum_char by (auto simp: list_all_iff)
  moreover have "list_all (\<lambda>c. \<not> is_space c) ''not_''" by code_simp
  ultimately show ?thesis by (simp add: s)
qed

lemma strip_granola_id: "uuid_ok s \<or> note_id_ok s \<Longrightarrow> strip s = s"
  using uuid_no_space alnum_no_space strip_no_space by blast

lemma lower_twice: "lower_text (lower_text s) = lower_text s"
  by (simp add: lower_text_def lower_char_def is_upper_def)

lemma mk_meeting_identity:
  assumes "mk_meeting m = Inr m'" and "nm_identity m = granola_identity granola_connection i" and "strip i = i"
  shows "nm_identity m' = granola_identity granola_connection i"
proof -
  have "strip granola_connection = granola_connection" by code_simp
  with assms show ?thesis
    by (auto simp: mk_meeting_def strip_meeting_def strip_identity_def granola_identity_def split: if_splits)
qed

lemma parse_model_field:
  assumes "parse_model names p valid (JObj kvs) = Some x"
  obtains "p kvs = Some x" "valid x"
  using assms by (auto simp: parse_model_def split: if_splits bind_splits)

lemma needed_JStr: "needed k parse_str kvs = Some i \<longleftrightarrow> map_of kvs k = Some (JStr i)"
  by (auto simp: needed_def parse_str_def split: option.splits json.splits)

lemma as_granola_import_Inr: "as_granola_import r = Inr x \<Longrightarrow> r = Inr x"
  by (auto simp: as_granola_import_def split: sum.splits exn.splits)

lemma parsed_Inr: "parsed x = Inr v \<Longrightarrow> x = Some v"
  by (auto simp: parsed_def split: option.splits)

lemma normalize_identity:
  assumes run: "normalize_granola stamp granola_connection (JObj kvs) = Inr m"
    and i: "map_of kvs ''id'' = Some (JStr i)" "lower_text i = i"
  shows "nm_identity m = granola_identity granola_connection i"
proof -
  consider
    (gone) u where "parse_unavailable_note stamp (JObj kvs) = Some u" "normalize_unavailable granola_connection u = Inr m"
    | (mcp) x where "parse_mcp_meeting stamp (JObj kvs) = Some x" "normalize_mcp_meeting granola_connection x = Inr m"
    | (note_) n where "parse_note stamp (JObj kvs) = Some n" "normalize_note granola_connection n = Inr m"
    using run by (auto simp: normalize_granola_def and_then_Inr_iff split: if_splits dest!: as_granola_import_Inr parsed_Inr)
  then show ?thesis
  proof cases
    case gone
    have id: "gu_id u = i" "note_id_ok i \<or> uuid_ok i"
      using gone(1) i unfolding parse_unavailable_note_def
      by (auto elim!: parse_model_field split: bind_splits simp: needed_JStr)
    show ?thesis
      using gone(2) id strip_granola_id unfolding normalize_unavailable_def
      by (elim mk_meeting_identity) auto
  next
    case mcp
    have id: "gx_id x = i" "uuid_ok i"
      using mcp(1) i unfolding parse_mcp_meeting_def
      by (auto elim!: parse_model_field split: bind_splits simp: needed_JStr valid_mcp_meeting_def)
    from mcp(2) obtain c where "mk_meeting \<lparr>nm_identity = granola_identity granola_connection (lower_text (gx_id x)),
        nm_title = gx_title x, nm_occurred_at = gx_created_at x, nm_provider_updated_at = None,
        nm_attendees = gx_participants x,
        nm_availability = (if truthy (mc_summary_text c) \<or> mc_transcript c \<noteq> [] then ContentAvailable else MetadataOnly),
        nm_unavailable_reason = (if truthy (mc_summary_text c) \<or> mc_transcript c \<noteq> [] then None
          else Some ''meeting_has_no_summary_or_transcript''),
        nm_content = c, nm_provider_web_url = gx_url x\<rparr> = Inr m"
      by (auto simp: normalize_mcp_meeting_def and_then_Inr_iff Let_def)
    then show ?thesis using id i(2) strip_granola_id by (elim mk_meeting_identity) auto
  next
    case note_
    have id: "gn_id n = i" "note_id_ok i"
      using note_(1) i unfolding parse_note_def
      by (auto elim!: parse_model_field split: bind_splits simp: needed_JStr valid_note_def)
    from note_(2) obtain c where "\<exists>a b. mk_meeting \<lparr>nm_identity = granola_identity granola_connection (gn_id n),
        nm_title = gn_title n, nm_occurred_at = Some (gn_created_at n), nm_provider_updated_at = Some (gn_updated_at n),
        nm_attendees = gn_attendees n, nm_availability = a, nm_unavailable_reason = b,
        nm_content = c, nm_provider_web_url = gn_web_url n\<rparr> = Inr m"
      by (auto simp: normalize_note_def and_then_Inr_iff Let_def)
    then show ?thesis using id strip_granola_id by (elim exE mk_meeting_identity) auto
  qed
qed

subsection \<open>The payloads follow the selection\<close>

definition row_of :: "string \<Rightarrow> json \<Rightarrow> bool" where
  "row_of k row \<longleftrightarrow> (\<exists>kvs i. row = JObj kvs \<and> map_of kvs ''id'' = Some (JStr i) \<and> lower_text i = k)"

lemma requested_rowsD:
  "requested_rows ids rows details n = (details', n') \<Longrightarrow> \<forall>(k, row) \<in> set details. row_of k row
   \<Longrightarrow> \<forall>(k, row) \<in> set details'. row_of k row"
proof (induction rows arbitrary: details n)
  case (Cons row rows)
  note step = Cons.prems(1) [unfolded requested_rows.simps]
  show ?case
  proof (cases "\<exists>k. requested_rows ids rows (details @ [(k, row)]) n = (details', n') \<and> row_of k row")
    case True
    then obtain k where k: "requested_rows ids rows (details @ [(k, row)]) n = (details', n')" "row_of k row" by blast
    then have "\<forall>(k, row) \<in> set (details @ [(k, row)]). row_of k row" using Cons.prems(2) by auto
    with Cons.IH k show ?thesis by blast
  next
    case False
    then have "requested_rows ids rows details (Suc n) = (details', n')"
      using step by (cases row) (auto simp: row_of_def Let_def split: option.splits json.splits if_splits)
    from Cons.IH [OF this Cons.prems(2)] show ?thesis .
  qed
qed simp

definition payload_of :: "string \<Rightarrow> members \<Rightarrow> bool" where
  "payload_of k payload \<longleftrightarrow> map_of payload ''id'' = Some (JStr k)"

lemma payload_error: "payload_of k (error_payload k code)"
  by (simp add: payload_of_def error_payload_def)

lemma payload_pick: "row_of k row \<Longrightarrow> payload_of k (pick (object_members row))"
  by (auto simp: row_of_def payload_of_def pick_def pick_keys_def pick_member_def object_members_def)

lemma payload_transcript: "payload_of k payload \<Longrightarrow> payload_of k (add_transcript t payload)"
  by (auto simp: payload_of_def add_transcript_def put_opt_def split: option.split)

lemma transcript_payloadD:
  assumes "transcript_payload stamp net k payload g = (Inr (Inr p), g')" and "payload_of k payload"
  shows "payload_of k p"
  using assms
  by (auto simp: transcript_payload_def catch_def bnd_def query_def ret_def raise_def payload_transcript payload_error
      split: sum.splits option.splits exn.splits if_splits)

lemma meeting_payloadD:
  assumes "meeting_payload stamp net code details k g = (Inr (Inr p), g')"
    and "\<forall>(k, row) \<in> set details. row_of k row"
  shows "payload_of k p"
  using assms
  by (auto simp: meeting_payload_def ret_def payload_error split: option.splits
      elim!: transcript_payloadD dest!: map_of_SomeD intro!: payload_pick)

definition meetings_of :: "string list \<Rightarrow> (string \<times> meeting) list \<Rightarrow> bool" where
  "meetings_of ids ms \<longleftrightarrow> (\<forall>(i, m) \<in> set ms. i \<in> set ids \<and> nm_identity m = granola_identity granola_connection i)"

lemma collect_meetingD:
  assumes "collect_meeting stamp net code details k (ms, os) g = (Inr (ms', os'), g')"
    and "\<forall>(k, row) \<in> set details. row_of k row" and "lower_text k = k" and "k \<in> set ids" and "meetings_of ids ms"
  shows "meetings_of ids ms'"
proof -
  from assms(1) obtain x g1 where p: "meeting_payload stamp net code details k g = (Inr x, g1)"
    and rest: "(case x of Inl c \<Rightarrow> ret (ms, AList.update k (MeetingFailed c) os)
      | Inr payload \<Rightarrow> (case normalize_granola stamp granola_connection (JObj payload) of
          Inr m \<Rightarrow> ret (ms @ [(k, m)], os)
        | Inl (GranolaImportError status c) \<Rightarrow> ret (ms, AList.update k (MeetingRejected c) os)
        | Inl e \<Rightarrow> raise e)) g1 = (Inr (ms', os'), g')"
    unfolding collect_meeting_def Let_def prod.case by (rule bnd_InrE)
  show ?thesis
  proof (cases "ms' = ms")
    case False
    with rest obtain payload m where m: "x = Inr payload" "normalize_granola stamp granola_connection (JObj payload) = Inr m"
      "ms' = ms @ [(k, m)]"
      by (auto simp: ret_def raise_def split: sum.splits exn.splits)
    with p assms(2) have "map_of payload ''id'' = Some (JStr k)" using meeting_payloadD by (auto simp: payload_of_def)
    with m normalize_identity assms(3) have "nm_identity m = granola_identity granola_connection k" by blast
    with m assms(4,5) show ?thesis by (auto simp: meetings_of_def)
  qed (use assms(5) in simp)
qed

lemma collect_foldD:
  assumes "fold_op (collect_meeting stamp net code details) is (ms, os) g = (Inr (ms', os'), g')"
    and "\<forall>(k, row) \<in> set details. row_of k row" and "\<forall>i \<in> set is. lower_text i = i \<and> i \<in> set ids" and "meetings_of ids ms"
  shows "meetings_of ids ms'"
  using assms
proof (induction "is" arbitrary: ms os g)
  case Nil
  then show ?case by (simp add: ret_def)
next
  case (Cons i "is")
  from Cons.prems(1) obtain acc g1 where one: "collect_meeting stamp net code details i (ms, os) g = (Inr acc, g1)"
    and rest: "fold_op (collect_meeting stamp net code details) is acc g1 = (Inr (ms', os'), g')"
    by (auto elim: bnd_InrE)
  obtain ms1 os1 where acc: "acc = (ms1, os1)" by (cases acc)
  have "meetings_of ids ms1" using collect_meetingD [OF one [unfolded acc]] Cons.prems by auto
  with Cons.IH rest acc Cons.prems show ?case by auto
qed

lemma granola_selection_set:
  "granola_selection raws acc = Inr ids \<Longrightarrow> set ids = set acc \<union> lower_text ` set raws"
  by (induction raws arbitrary: acc) (fastforce split: if_splits)+

subsection \<open>The whole job\<close>

definition picks_keep :: "string list \<Rightarrow> granola_world \<Rightarrow> granola_world \<Rightarrow> bool" where
  "picks_keep ids g g' \<longleftrightarrow> (\<exists>l. gw_world g' = (gw_world g)\<lparr>w_ledger := l\<rparr>
     \<and> selected_only ids (w_ledger (gw_world g)) l \<and> settled (w_ledger (gw_world g)) l)"

lemma picks_keep_same: "gw_world g' = gw_world g \<Longrightarrow> picks_keep ids g g'"
  unfolding picks_keep_def by (intro exI [of _ "w_ledger (gw_world g)"]) (simp add: settled_refl selected.R_refl)

interpretation picks: state_relation "picks_keep ids" for ids
proof
  fix s t u :: granola_world
  show "picks_keep ids s s" by (rule picks_keep_same) simp
  assume "picks_keep ids s t" and "picks_keep ids t u"
  then obtain k l where k: "gw_world t = (gw_world s)\<lparr>w_ledger := k\<rparr>" "selected_only ids (w_ledger (gw_world s)) k"
      "settled (w_ledger (gw_world s)) k"
    and l: "gw_world u = (gw_world t)\<lparr>w_ledger := l\<rparr>" "selected_only ids (w_ledger (gw_world t)) l" "settled (w_ledger (gw_world t)) l"
    unfolding picks_keep_def by blast
  have "gw_world u = (gw_world s)\<lparr>w_ledger := l\<rparr>" using k(1) l(1) by simp
  moreover have "selected_only ids k l" "settled k l" using k(1) l(2,3) by simp_all
  ultimately show "picks_keep ids s u"
    unfolding picks_keep_def using k(2,3) selected.R_trans settled_trans by blast
qed

lemma picks_same: "(\<And>g r g'. m g = (r, g') \<Longrightarrow> gw_world g' = gw_world g) \<Longrightarrow> obeys (picks_keep ids) m"
  by (rule obeysI) (simp add: picks_keep_same)

lemma picks_query: "obeys (picks_keep ids) (query net c)"
  by (rule picks_same) (auto simp: query_def)

lemma picks_ledger:
  "obeys (selected_only ids) m \<Longrightarrow> obeys settled m \<Longrightarrow> obeys (picks_keep ids) (with_ledger m)"
  unfolding with_ledger_def with_world_def in_ledger_def
  by (intro picks.obeys_zoom) (auto simp: zoom_def picks_keep_def dest: obeysD split: prod.splits)

lemmas picks_intros = picks.obeys_bnd picks.obeys_if picks.obeys_basic picks.obeys_catch picks.obeys_fold_op picks_query

lemma picks_connect: "obeys (picks_keep ids) (connect_for_job net)"
  unfolding connect_for_job_def assert_connected_def
  by (intro picks_intros) (auto split: exn.split intro!: picks_intros)

lemma picks_fetch: "obeys (picks_keep ids) (fetch_meetings net is)"
  unfolding fetch_meetings_def
  by (intro picks_intros) (auto split: exn.split sum.split prod.split intro!: picks_intros simp: Let_def)

lemma picks_transcript: "obeys (picks_keep ids) (transcript_payload stamp net k payload)"
  unfolding transcript_payload_def
  by (intro picks_intros; auto split: option.split exn.split intro!: picks.obeys_if picks.obeys_basic)

lemma picks_payload: "obeys (picks_keep ids) (meeting_payload stamp net code details k)"
  unfolding meeting_payload_def by (auto split: option.split intro: picks.obeys_basic picks_transcript)

lemma picks_normalized: "obeys (picks_keep ids) (case r of Inr m \<Rightarrow> ret (f m)
    | Inl (GranolaImportError status c) \<Rightarrow> ret (h status c) | Inl e \<Rightarrow> raise e)"
  by (auto split: sum.split exn.split intro: picks.obeys_basic)

lemma picks_collect: "obeys (picks_keep ids) (collect_meeting stamp net code details k acc)"
proof (cases acc)
  case (Pair ms os)
  show ?thesis
    unfolding collect_meeting_def Let_def Pair prod.case
  proof (intro picks.obeys_bnd picks_payload)
    fix x show "obeys (picks_keep ids) (case x of Inl c \<Rightarrow> ret (ms, AList.update k (MeetingFailed c) os)
      | Inr payload \<Rightarrow> (case normalize_granola stamp granola_connection (JObj payload) of
          Inr m \<Rightarrow> ret (ms @ [(k, m)], os)
        | Inl (GranolaImportError status c) \<Rightarrow> ret (ms, AList.update k (MeetingRejected c) os)
        | Inl e \<Rightarrow> raise e))"
      by (cases x) (simp_all only: sum.case picks_normalized picks.obeys_basic)
  qed
qed

lemma picks_record:
  assumes "meetings_of ids ms"
  shows "obeys (picks_keep ids) (record_meetings ms)"
proof -
  have "\<forall>m \<in> set (map (\<lambda>(i, m). MeetingSource m) ms). \<exists>i \<in> set ids. ns_identity m = granola_identity granola_connection i"
    using assms unfolding meetings_of_def by fastforce
  then show ?thesis
    unfolding record_meetings_def
    by (intro picks_intros picks_ledger selected_import settled_import) (auto split: exn.split intro!: picks_intros)
qed

lemma fetch_rowsD:
  assumes "fetch_meetings net ids g = (Inr (details, n, failure), g')"
  shows "\<forall>(k, row) \<in> set details. row_of k row"
  using assms
  by (auto simp: fetch_meetings_def catch_def bnd_def query_def ret_def raise_def Let_def
      split: sum.splits prod.splits exn.splits dest!: requested_rowsD)

lemma record_picked:
  assumes "fold_op (collect_meeting stamp net code details) ids ([], []) g = (c, g1)"
    and "\<forall>(k, row) \<in> set details. row_of k row" and "\<forall>i \<in> set ids. lower_text i = i"
    and "c = Inr (ms, os)" and "record_meetings ms g1 = (r, g2)"
  shows "picks_keep ids g1 g2"
proof -
  have "meetings_of ids ms"
    using assms(1) unfolding assms(4) by (rule collect_foldD) (use assms(2,3) in \<open>auto simp: meetings_of_def\<close>)
  then show ?thesis using assms(5) picks_record by (blast dest: obeysD)
qed

lemma run_granola_keeps:
  assumes run: "run_granola stamp net ids g = (r, g')" and ids: "\<forall>i \<in> set ids. lower_text i = i"
  shows "picks_keep ids g g'"
proof -
  let ?rest = "\<lambda>(details, unrequested, failure).
     bnd (fold_op (collect_meeting stamp net (map_option exn_code failure) details) ids ([], [])) (\<lambda>(ms, outcomes).
       if ms = [] then ret (granola_result ids outcomes None unrequested)
       else bnd (record_meetings ms) (\<lambda>(tok, results).
         ret (granola_result ids (recorded_outcomes ms results outcomes) (Some tok) unrequested)))"
  have rest: "picks_keep ids h h'" if "?rest x h = (q, h')" "fetch_meetings net ids h0 = (Inr x, h)" for x h h' h0 q
  proof -
    obtain details n failure where x: "x = (details, n, failure)" by (cases x)
    have rows: "\<forall>(k, row) \<in> set details. row_of k row" using that(2) unfolding x by (rule fetch_rowsD)
    obtain c h1 where c: "fold_op (collect_meeting stamp net (map_option exn_code failure) details) ids ([], []) h = (c, h1)"
      by (rule prod.exhaust)
    then have h1: "picks_keep ids h h1" by (rule obeysD [rotated]) (intro picks.obeys_fold_op picks_collect)
    show ?thesis
    proof (cases "h' = h1")
      case False
      with that(1) c obtain ms os p h2 where more: "c = Inr (ms, os)" "record_meetings ms h1 = (p, h2)" "h' = h2"
        by (auto simp: x bnd_def ret_def split: sum.splits prod.splits if_splits)
      from record_picked [OF c rows ids this(1,2)] h1 more(3) show ?thesis using picks.R_trans by blast
    qed (use h1 in simp)
  qed
  from run show ?thesis
    unfolding run_granola_def
  proof (cases rule: bnd_cases)
    case (err e)
    then show ?thesis by (blast dest: obeysD [OF picks_connect])
  next
    case (ok u g1)
    then have g1: "picks_keep ids g g1" by (blast dest: obeysD [OF picks_connect])
    from ok(2) have "picks_keep ids g1 g'"
    proof (cases rule: bnd_cases)
      case (err e)
      then show ?thesis by (blast dest: obeysD [OF picks_fetch])
    next
      case (ok x g2)
      then have g2: "picks_keep ids g1 g2" by (blast dest: obeysD [OF picks_fetch])
      have "picks_keep ids g2 g'"
      proof (cases "?rest x g2 = (r, g')")
        case True
        from rest [OF this ok(1)] show ?thesis .
      next
        case False
        with ok(2) have "g' = g2"
          by (cases x) (auto simp: ret_def split: option.splits exn.splits bool.splits)
        then show ?thesis by (simp add: picks_keep_same)
      qed
      with g2 show ?thesis by (rule picks.R_trans)
    qed
    with g1 show ?thesis by (rule picks.R_trans)
  qed
qed

text \<open>C14: a retrieval records only what the user selected.  Whatever Granola returns, and in whichever shape, every
  record of the ledger that is new or different after the job is the record of a meeting whose ID the
  user passed, under the retrieval's own connection; no association is made or changed, the deletion
  barrier stays, and nothing outside the ledger is touched.\<close>

theorem retrieval_imports_selected:
  assumes "granola_selection raws [] = Inr ids" and "run_granola stamp net ids g = (r, g')"
  shows "\<exists>l. gw_world g' = (gw_world g)\<lparr>w_ledger := l\<rparr> \<and> lg_forgotten l = lg_forgotten (w_ledger (gw_world g))
    \<and> (\<forall>sid. map_of (lg_sources l) sid \<noteq> map_of (lg_sources (w_ledger (gw_world g))) sid \<longrightarrow>
        (\<exists>raw \<in> set raws. \<exists>s. map_of (lg_sources l) sid = Some (Intact s) \<and> src_id s = sid
          \<and> src_identity s = granola_identity granola_connection (lower_text raw)))
    \<and> (\<forall>sid s'. map_of (lg_sources l) sid = Some (Intact s') \<and> ad_state (src_association s') = Associated \<longrightarrow>
        settled_by (w_ledger (gw_world g)) sid (src_association s'))"
proof -
  have ids: "set ids = lower_text ` set raws" using granola_selection_set [OF assms(1)] by simp
  then have "\<forall>i \<in> set ids. lower_text i = i" by (auto simp: lower_twice)
  from run_granola_keeps [OF assms(2) this] show ?thesis
    unfolding picks_keep_def selected_only_def settled_def ids by (simp only: bex_simps(7)) blast
qed

definition demo_raw_id :: string where
  "demo_raw_id = ''AAAAAAAA-bbbb-cccc-dddd-000000000001''"

definition demo_row :: json where
  "demo_row = JObj [(''id'', JStr demo_raw_id), (''summary'', JStr ''Agreed.'')]"

definition demo_other_row :: json where
  "demo_other_row = JObj [(''id'', JStr ''bbbbbbbb-bbbb-cccc-dddd-000000000002''), (''summary'', JStr ''Other.'')]"

text \<open>Granola also returns a meeting that was not asked for.\<close>

definition demo_granola :: granola_transport where
  "demo_granola calls = (case last calls of
     AskAccount \<Rightarrow> Inr (JObj [])
   | AskMeetings is \<Rightarrow> Inr (JList [demo_row, demo_other_row])
   | _ \<Rightarrow> Inl (GranolaRelayError ''tool_not_found'' False))"

definition demo_granola_world :: granola_world where
  "demo_granola_world = \<lparr>gw_world = demo_world, gw_checked_at = Some ''2026-01-01'', gw_clock = (\<lambda>_. 0), gw_ticks = 0,
     gw_calls = []\<rparr>"

lemma record_meetings_calls: "obeys (\<lambda>g g'. gw_calls g' = gw_calls g) (record_meetings ms)"
proof -
  have "obeys (\<lambda>g g'. gw_calls g' = gw_calls g) (with_ledger m)" for m :: "(ledger, string \<times> import_result list) op"
    by (auto simp: obeys_def with_ledger_def with_world_def zoom_def split: prod.splits)
  then show ?thesis
    by (auto simp: obeys_def record_meetings_def catch_def raise_def split: prod.splits sum.splits exn.splits)
qed

lemma demo_selected: "granola_selection [demo_raw_id] [] = Inr [demo_uuid]"
proof -
  have "uuid_match demo_raw_id"
    by (simp add: uuid_match_def uuid_ok_def demo_raw_id_def is_hex_def is_digit_def lower_char_def is_upper_def)
  moreover have "lower_text demo_raw_id = demo_uuid" by code_simp
  ultimately show ?thesis by simp
qed

lemma demo_fetched:
  "requested_rows [demo_uuid] [demo_row, demo_other_row] [] 0 = ([(demo_uuid, demo_row)], 1)"
  by code_simp

definition demo_after :: "granola_call list \<Rightarrow> granola_world" where
  "demo_after calls = demo_granola_world\<lparr>gw_calls := calls\<rparr>"

lemma demo_fetch:
  "connect_for_job demo_granola demo_granola_world = (Inr (), demo_after [AskAccount])"
  "fetch_meetings demo_granola [demo_uuid] (demo_after [AskAccount])
    = (Inr ([(demo_uuid, demo_row)], 1, None), demo_after [AskAccount, AskMeetings [demo_uuid]])"
  by (simp_all add: connect_for_job_def assert_connected_def fetch_meetings_def catch_def bnd_def query_def demo_granola_def
      is_object_def meeting_rows_def rejected_rows_def object_members_def demo_fetched demo_after_def demo_granola_world_def
      ret_def del: requested_rows.simps)

lemma demo_collect:
  "\<exists>c. fold_op (collect_meeting (\<lambda>_. None) demo_granola None [(demo_uuid, demo_row)]) [demo_uuid] ([], [])
      (demo_after [AskAccount, AskMeetings [demo_uuid]])
    = (c, demo_after [AskAccount, AskMeetings [demo_uuid], AskTranscript demo_uuid])"
  by (cases "normalize_granola (\<lambda>_. None) granola_connection (JObj (pick (object_members demo_row)))")
     (auto simp: collect_meeting_def meeting_payload_def transcript_payload_def catch_def bnd_def query_def ret_def raise_def
       demo_granola_def demo_after_def denied_codes_def split: exn.split)

theorem retrieval_imports_selected_witness:
  "\<exists>r g'. run_granola (\<lambda>_. None) demo_granola [demo_uuid] demo_granola_world = (r, g')
     \<and> gw_calls g' = [AskAccount, AskMeetings [demo_uuid], AskTranscript demo_uuid]
     \<and> (\<exists>l. gw_world g' = demo_world\<lparr>w_ledger := l\<rparr> \<and> (\<forall>sid. map_of (lg_sources l) sid \<noteq> map_of (lg_sources (w_ledger demo_world)) sid
         \<longrightarrow> (\<exists>s. map_of (lg_sources l) sid = Some (Intact s) \<and> src_identity s = granola_identity granola_connection demo_uuid)))"
proof -
  obtain r g' where run: "run_granola (\<lambda>_. None) demo_granola [demo_uuid] demo_granola_world = (r, g')" by (rule prod.exhaust)
  obtain c where c: "fold_op (collect_meeting (\<lambda>_. None) demo_granola None [(demo_uuid, demo_row)]) [demo_uuid] ([], [])
      (demo_after [AskAccount, AskMeetings [demo_uuid]])
    = (c, demo_after [AskAccount, AskMeetings [demo_uuid], AskTranscript demo_uuid])" using demo_collect by blast
  have "bnd (fold_op (collect_meeting (\<lambda>_. None) demo_granola None [(demo_uuid, demo_row)]) [demo_uuid] ([], [])) (\<lambda>(ms, outcomes).
      if ms = [] then ret (granola_result [demo_uuid] outcomes None 1)
      else bnd (record_meetings ms) (\<lambda>(tok, results).
        ret (granola_result [demo_uuid] (recorded_outcomes ms results outcomes) (Some tok) 1)))
      (demo_after [AskAccount, AskMeetings [demo_uuid]]) = (r, g')"
    using run by (simp add: run_granola_def bnd_def [of "connect_for_job demo_granola"]
        bnd_def [of "fetch_meetings demo_granola [demo_uuid]"] demo_fetch del: fold_op.simps)
  then have "gw_calls g' = gw_calls (demo_after [AskAccount, AskMeetings [demo_uuid], AskTranscript demo_uuid])"
    using c by (auto simp: bnd_def ret_def simp del: fold_op.simps dest: obeysD [OF record_meetings_calls]
        split: sum.splits prod.splits if_splits)
  then have "gw_calls g' = [AskAccount, AskMeetings [demo_uuid], AskTranscript demo_uuid]" by (simp add: demo_after_def)
  moreover have "lower_text demo_raw_id = demo_uuid" by code_simp
  moreover have "gw_world demo_granola_world = demo_world" by (simp add: demo_granola_world_def)
  ultimately show ?thesis
    using run retrieval_imports_selected [OF demo_selected run] by auto
qed


subsection \<open>A title of digits\<close>

text \<open>
  The reader of XML turns a text of digits into a number, and every field the service reads is a text:
  a meeting with the title \<^verbatim>\<open>2024\<close> is neither listed nor imported.
\<close>

lemma digit_title_rejected:
  assumes "s \<noteq> []" and "list_all is_digit s" and "length s \<le> 4300"
  shows "\<exists>n. scalar s = Inr (JInt n) \<and> (map_of kvs ''title'' = Some (JInt n) \<longrightarrow>
    parse_meeting_row (JObj kvs) = None \<and> parse_mcp_meeting stamp (JObj kvs) = None)"
  using assms
  by (auto simp: scalar_def parse_meeting_row_def parse_loose_def parse_mcp_meeting_def parse_model_def defaulted_def
      parse_opt_def parse_str_def split: bind_splits)

end
