(* ===== verification/Spec2Isabelle.thy ===== *)
theory Spec2Isabelle
  imports Ledger_Claims State_Claims Commit_Claims Ops_Claims Action_Claims Correction_Claims Defect_Claims
    Forget_Claims Repair_Claims Flow_Claims Gmail_Claims Retrieval_Claims
begin

text \<open>
  This library models the Command Center of the sales-engineering web application (\<^verbatim>\<open>src/webapp\<close>): the
  services that import evidence about customers from mail and meeting providers, let users associate
  it with an opportunity, have a language model analyse it into a versioned overview of that
  opportunity, and keep the actions, suggestions and changes that follow from the analysis.

  How the parts interact.  \<^verbatim>\<open>evidence_ledger_service.py\<close> stores each imported object as a source with
  revisions, association decisions and a processing state.  \<^verbatim>\<open>opportunity_state_service.py\<close> stores
  the versions of each overview behind a pointer.  \<^verbatim>\<open>job_service.py\<close> holds the running jobs.
  \<^verbatim>\<open>command_center_operations_service.py\<close> calls all three: it starts a run for a queued source, has
  the executor produce a candidate, promotes the candidate, opens and links actions, and appends to
  the log of changes.  All services run under one lock per operation; what other tasks do while a
  call of the executor or the workspace service is awaited is part of that call's parameter.

  How the model is built.  An operation of a service is a function from the state to an exception or
  a result and the new state (\<^theory_text>\<open>op\<close> in \<^theory_text>\<open>Prelude\<close>), composed by \<^theory_text>\<open>bnd\<close>; every raise of the code is
  an \<^theory_text>\<open>Inl\<close> with the class, status and code of the exception.  A directory of JSON files is an
  association list from names to stored records, in listing order; a file that does not decode is
  \<^theory_text>\<open>Corrupt\<close>.  Clocks and random tokens are functions of a counter in the state.  Texts are ASCII.
  Pydantic models are records with the predicate their validation decides.

  The theories.
  \<^item> \<^theory_text>\<open>Prelude\<close>: operations, their composition, the locales \<^theory_text>\<open>state_relation\<close>, \<^theory_text>\<open>invariant_system\<close> and
    \<^theory_text>\<open>log_system\<close> with which every frame, invariant and append-only proof is made.
  \<^item> \<^theory_text>\<open>Json\<close>, \<^theory_text>\<open>Sha256\<close>: canonical JSON (printing is injective) and the digest, on 32-bit words.
  \<^item> \<^theory_text>\<open>Evidence\<close>, \<^theory_text>\<open>Normalized\<close>: \<^verbatim>\<open>command_center_evidence.py\<close> and the provider payloads.
  \<^item> \<^theory_text>\<open>Ledger\<close>, \<^theory_text>\<open>Ledger_Facts\<close>, \<^theory_text>\<open>Ledger_Claims\<close>: the evidence ledger, the life of a source as a
    step relation, and its properties.
  \<^item> \<^theory_text>\<open>Overview\<close>, \<^theory_text>\<open>State_Store\<close>, \<^theory_text>\<open>State_Facts\<close>, \<^theory_text>\<open>State_Claims\<close>: \<^verbatim>\<open>opportunity_state.py\<close>, the
    version store as a chain of versions, and its properties.
  \<^item> \<^theory_text>\<open>Actions\<close>, \<^theory_text>\<open>Manifests\<close>, \<^theory_text>\<open>Jobs\<close>: the contract of actions and changes, evidence manifests, and
    the managed jobs.
  \<^item> \<^theory_text>\<open>Operations\<close>, \<^theory_text>\<open>Observations\<close>, \<^theory_text>\<open>Reconcile\<close>, \<^theory_text>\<open>Start\<close>, \<^theory_text>\<open>Corrections\<close>: the operations service, in
    the order of its source file; \<^theory_text>\<open>world\<close> is the state of all services together.
  \<^item> \<^theory_text>\<open>Ops_Facts\<close>, \<^theory_text>\<open>Action_Life\<close>, \<^theory_text>\<open>Apply_Facts\<close>, \<^theory_text>\<open>Service_Runs\<close>, \<^theory_text>\<open>Replay\<close>: what a failing run keeps, the
    life of an action as a step relation, the loop that applies observations, and sequences of
    requests (\<^theory_text>\<open>run_service\<close>).
  \<^item> \<^theory_text>\<open>Overview_Parse\<close>, \<^theory_text>\<open>Parse_Facts\<close>: \<^verbatim>\<open>model_validate\<close> of an overview from JSON, the inverse of its dump,
    also after the keys were sorted.
  \<^item> \<^theory_text>\<open>Gmail_Adapter\<close>, \<^theory_text>\<open>Gmail_Intake\<close>: \<^verbatim>\<open>integrations/gmail.py\<close> and \<^verbatim>\<open>gmail_intake_service.py\<close>, with the
    transport as a function of the calls made so far; \<^theory_text>\<open>gmail_world\<close> adds the service's files to \<^theory_text>\<open>world\<close>.
  \<^item> \<^theory_text>\<open>Merge\<close>, \<^theory_text>\<open>Merge_Facts\<close>, \<^theory_text>\<open>Forget\<close>, \<^theory_text>\<open>Correction_Facts\<close>, \<^theory_text>\<open>Forget_Facts\<close>, \<^theory_text>\<open>Repair_Claims\<close>,
    \<^theory_text>\<open>Forget_Claims\<close>: \<^verbatim>\<open>gmail_forget_service.py\<close>: the inverse of an edit, the repair of an overview, the
    whole forget, and what it guarantees.
  \<^item> \<^theory_text>\<open>Transcripts\<close>, \<^theory_text>\<open>Overview_Flows\<close>, \<^theory_text>\<open>Flow_Claims\<close>: transcripts saved in the workspace as evidence
    (\<^verbatim>\<open>command_center_transcripts.py\<close>), and the two flows that start from selected evidence, creating
    an overview and updating one; the workspace's files are a parameter.
  \<^item> \<^theory_text>\<open>Gmail_Claims\<close>: what the intake does over every sequence of its requests.
  \<^item> \<^theory_text>\<open>Tool_Xml\<close>, \<^theory_text>\<open>Granola_Adapter\<close>, \<^theory_text>\<open>Granola_Relay\<close>, \<^theory_text>\<open>Granola_Retrieval\<close>: \<^verbatim>\<open>integrations/granola*.py\<close> and
    \<^verbatim>\<open>granola_retrieval_service.py\<close>: the reading of tool results, the payload contracts, the one call of the
    relay, and the retrieval of the meetings a user selects; \<^theory_text>\<open>Granola_Claims\<close>, \<^theory_text>\<open>Retrieval_Claims\<close>: its
    properties.
  \<^item> \<^theory_text>\<open>Commit_Claims\<close>, \<^theory_text>\<open>Ops_Claims\<close>, \<^theory_text>\<open>Action_Claims\<close>, \<^theory_text>\<open>Correction_Claims\<close>, \<^theory_text>\<open>Defect_Claims\<close>: the properties
    of the operations service, on the small world of \<^theory_text>\<open>Ops_Demo\<close> and \<^theory_text>\<open>Overview_Demo\<close>.

  What the properties show.  Evidence: every sequence of ledger calls keeps every record well formed,
  histories only grow, a forgotten source is never read again.  Overviews: promotions append to the
  named base and lose no update, failures keep the state, reads hide forgotten evidence.  Runs: a
  failing run accepts nothing, the commit barrier holds, jobs end.  Actions: analysis never
  overrides a human decision, opens only what one passage of the source states, and does nothing when
  repeated; transitions are recorded once and can be undone, interrupted writes are repaired, and a
  correction retracts everything the moved source contributed.  Forgetting: a completed forget leaves
  nothing of the message, and an overview goes back to the state before it.  Flows: exactly the
  selected evidence is read, unchanged since its manifest, and a refused update keeps every version;
  the mail intake lists every source and associates none by itself; a Granola retrieval reads one
  bounded answer per call and records the selected meetings only.  Some properties state where the
  code does less than its comments promise.

  Fuel: only the loops over the pages of the ledger (\<^theory_text>\<open>gmail_pages\<close>, \<^theory_text>\<open>granola_pages\<close>) have it, one round more
  than the ledger holds records; every other loop of the modelled code runs over a list or consumes its input.

  Not modelled: the live network clients, the subprocesses of the runtime and of the relay, their prompts
  and diagnostics, the file system below atomic writes, cancellation of jobs, the HTTP routes and the front end, and the parts of the
  repository outside the Command Center (hosted deployment, evaluation harness, worker analysis,
  rendering).  The executor and the workspace service are parameters of the operations that await them.
\<close>

end
